(* ===== verification/Nord_Prelude.thy ===== *)
theory Nord_Prelude
  imports Main "HOL-Library.Word"
begin

text \<open>
  Shared vocabulary of the development: Go's error values with \<^verbatim>\<open>errors.Is\<close>,
  \<^verbatim>\<open>errors.Join\<close> and \<^verbatim>\<open>fmt.Errorf("...%w")\<close>, the early-return
  combinators the validators are written with, the string classes of the source's regular
  expressions, contexts, and generic lemmas on lists and options.

  A Go \<^verbatim>\<open>error\<close> is an \<open>gerror option\<close> (\<open>None\<close> is \<^verbatim>\<open>nil\<close>). The static text of a
  message is kept; values interpolated into it are not, because the program never reads
  them back. What the program does read is the identity of its sentinel errors, which
  \<open>errors_Is\<close> recovers from any nesting of wraps and joins.
\<close>

section \<open>Collections of rewrite rules\<close>

named_theorems validate_simps \<open>definitions of the validators\<close>
named_theorems controller_simps \<open>definitions of the tunnel controller's helpers\<close>
named_theorems store_simps \<open>definitions of the persistent stores\<close>

section \<open>Errors\<close>

datatype sentinel =
    ErrJournalNotFound | ErrLockHeld | ErrConflict | ErrRollback
  | ErrCredentialNotFound | ErrNotExist
  | ErrLoginTransaction | ErrLoginRollbackIncomplete | ErrLoginLock
  | ErrAuthLock | ErrAuthRead | ErrAuthTransaction | ErrAuthRollbackIncomplete
  | ErrNoMatch | ErrAmbiguous | ErrInvalid
  | ErrSessionExists | ErrSessionNotFound | ErrOwnershipMismatch
  | ErrRouteConflict | ErrDNSConflict
  | ErrNotAuthenticated | ErrAlreadyConnected | ErrHelper | ErrBusy | ErrHeld
  | ErrUnauthorized | ErrForbidden | ErrRateLimited | ErrInvalidData

datatype gerror =
    Err string
  | Sentinel sentinel
  | WrapErr string gerror
  | JoinErr "gerror list"

text \<open>\<^verbatim>\<open>errors.Is(err, target)\<close> for a sentinel target.\<close>

fun errors_Is :: "gerror \<Rightarrow> sentinel \<Rightarrow> bool" where
  "errors_Is (Err m) t = False"
| "errors_Is (Sentinel s) t = (s = t)"
| "errors_Is (WrapErr m e) t = errors_Is e t"
| "errors_Is (JoinErr es) t = list_ex (\<lambda>e. errors_Is e t) es"

text \<open>\<^verbatim>\<open>errors.Join\<close>: nil errors are discarded; nil when nothing is left.\<close>

definition errors_Join :: "gerror option list \<Rightarrow> gerror option" where
  "errors_Join xs =
     (let es = map the (filter (\<lambda>x. x \<noteq> None) xs) in if es = [] then None else Some (JoinErr es))"

text \<open>\<^verbatim>\<open>fmt.Errorf("msg: %w", err)\<close> applied to an error that may be nil.\<close>

definition wrapIfError :: "string \<Rightarrow> gerror option \<Rightarrow> gerror option" where
  "wrapIfError m e = map_option (WrapErr m) e"

lemma errors_Join_None [simp]: "errors_Join xs = None \<longleftrightarrow> (\<forall>x\<in>set xs. x = None)"
  by (auto simp: errors_Join_def Let_def filter_empty_conv)

lemma errors_Join_Is:
  "errors_Join xs = Some e \<Longrightarrow> errors_Is e t \<longleftrightarrow> (\<exists>x. Some x \<in> set xs \<and> errors_Is x t)"
  by (force simp: errors_Join_def Let_def list_ex_iff split: if_splits)

lemma errors_Join_pair [simp]:
  "errors_Join [Some a, Some b] = Some (JoinErr [a, b])" "errors_Join [None, Some b] = Some (JoinErr [b])"
  by (simp_all add: errors_Join_def)

lemma wrapIfError_None [simp]: "wrapIfError m e = None \<longleftrightarrow> e = None"
  by (simp add: wrapIfError_def)

section \<open>Early returns\<close>

text \<open>
  \<open>first_err\<close> runs a sequence of checks and returns the first error, as a chain of
  \<^verbatim>\<open>if bad { return err }\<close> does for pure conditions; \<open>reject\<close> is one such link.
\<close>

fun first_err :: "gerror option list \<Rightarrow> gerror option" where
  "first_err [] = None"
| "first_err (None # xs) = first_err xs"
| "first_err (Some e # xs) = Some e"

definition reject :: "bool \<Rightarrow> string \<Rightarrow> gerror option" where
  "reject bad m = (if bad then Some (Err m) else None)"

lemma first_err_None [simp]: "first_err xs = None \<longleftrightarrow> (\<forall>x\<in>set xs. x = None)"
  by (induction xs rule: first_err.induct) auto

lemma first_err_Some_mem: "first_err xs = Some e \<Longrightarrow> Some e \<in> set xs"
  by (induction xs rule: first_err.induct) auto

lemma reject_None [simp]: "reject b m = None \<longleftrightarrow> \<not> b"
  by (simp add: reject_def)

lemma reject_not_Is: "reject b m = Some e \<Longrightarrow> \<not> errors_Is e t"
  by (auto simp: reject_def split: if_splits)

section \<open>Character classes and strings\<close>

definition byte_of :: "char \<Rightarrow> nat" where
  "byte_of ch = of_char ch"

definition is_lower_hex :: "char \<Rightarrow> bool" where
  "is_lower_hex ch = (48 \<le> byte_of ch \<and> byte_of ch \<le> 57 \<or> 97 \<le> byte_of ch \<and> byte_of ch \<le> 102)"

definition is_alpha :: "char \<Rightarrow> bool" where
  "is_alpha ch = (65 \<le> byte_of ch \<and> byte_of ch \<le> 90 \<or> 97 \<le> byte_of ch \<and> byte_of ch \<le> 122)"

definition is_digit :: "char \<Rightarrow> bool" where
  "is_digit ch = (48 \<le> byte_of ch \<and> byte_of ch \<le> 57)"

definition is_alnum :: "char \<Rightarrow> bool" where
  "is_alnum ch = (is_alpha ch \<or> is_digit ch)"

section \<open>Contexts\<close>

text \<open>
  A \<^verbatim>\<open>context.Context\<close> is known by its derivation: the caller's, one detached from
  the caller's cancellation, or one with a deadline (in seconds). Adapters receive it and
  may fail because of it; the controller only passes it on.
\<close>

datatype ctx = CallerCtx | Background | WithoutCancel ctx | WithTimeout nat ctx

fun ctx_cancellable :: "ctx \<Rightarrow> bool" where
  "ctx_cancellable CallerCtx = True"
| "ctx_cancellable Background = False"
| "ctx_cancellable (WithoutCancel c) = False"
| "ctx_cancellable (WithTimeout n c) = ctx_cancellable c"

type_synonym time = int

definition time_IsZero :: "time \<Rightarrow> bool" where
  "time_IsZero t = (t = 0)"

section \<open>Generic lemmas\<close>

lemma list_update_last_snoc: "(xs @ [x])[length xs := y] = xs @ [y]"
  by simp

lemma distinct_rev_acc:
  "distinct (xs @ ys) \<longleftrightarrow> distinct xs \<and> distinct ys \<and> (\<forall>x\<in>set xs. x \<notin> set ys)"
  by auto

end
