(* ===== verification/Netip.thy ===== *)
theory Netip
  imports Nord_Prelude
begin

unbundle bit_operations_syntax

text \<open>
  The part of Go's \<^verbatim>\<open>net/netip\<close> the program uses: addresses (the zero \<^verbatim>\<open>Addr\<close>, IPv4 as a
  32-bit word, IPv6 as a 128-bit word with its zone), prefixes and address/port pairs, and
  the classification predicates, written as the library defines them (IPv4-mapped IPv6
  addresses are unmapped before they are classified). The lemmas show what the
  bit operations mean: a masked prefix is canonical, a prefix contains its own address, and
  the two /1 prefixes split the address space.
\<close>

section \<open>Addresses\<close>

datatype addr = ZeroAddr | IPv4 "32 word" | IPv6 "128 word" string

fun addr_IsValid :: "addr \<Rightarrow> bool" where
  "addr_IsValid ZeroAddr = False"
| "addr_IsValid _ = True"

fun addr_Is4 :: "addr \<Rightarrow> bool" where
  "addr_Is4 (IPv4 _) = True"
| "addr_Is4 _ = False"

fun addr_Is6 :: "addr \<Rightarrow> bool" where
  "addr_Is6 (IPv6 _ _) = True"
| "addr_Is6 _ = False"

fun addr_BitLen :: "addr \<Rightarrow> int" where
  "addr_BitLen ZeroAddr = 0"
| "addr_BitLen (IPv4 _) = 32"
| "addr_BitLen (IPv6 _ _) = 128"

fun addr_hasZone :: "addr \<Rightarrow> bool" where
  "addr_hasZone (IPv6 _ z) = (z \<noteq> [])"
| "addr_hasZone _ = False"

fun addr_withoutZone :: "addr \<Rightarrow> addr" where
  "addr_withoutZone (IPv6 w _) = IPv6 w []"
| "addr_withoutZone a = a"

text \<open>\<^verbatim>\<open>Is4In6\<close>: \<^verbatim>\<open>::ffff:0:0/96\<close>; \<^verbatim>\<open>Unmap\<close> drops the wrapping.\<close>

fun addr_Unmap :: "addr \<Rightarrow> addr" where
  "addr_Unmap (IPv6 w z) = (if drop_bit 32 w = 0xffff then IPv4 (ucast w) else IPv6 w z)"
| "addr_Unmap a = a"

fun addr_IsUnspecified :: "addr \<Rightarrow> bool" where
  "addr_IsUnspecified ZeroAddr = False"
| "addr_IsUnspecified (IPv4 w) = (w = 0)"
| "addr_IsUnspecified (IPv6 w z) = (w = 0 \<and> z = [])"

fun addr_IsMulticast :: "addr \<Rightarrow> bool" where
  "addr_IsMulticast a =
     (case addr_Unmap a of
        ZeroAddr \<Rightarrow> False
      | IPv4 w \<Rightarrow> drop_bit 28 w = 0xe
      | IPv6 w z \<Rightarrow> drop_bit 120 w = 0xff)"

fun addr_IsPrivate :: "addr \<Rightarrow> bool" where
  "addr_IsPrivate a =
     (case addr_Unmap a of
        ZeroAddr \<Rightarrow> False
      | IPv4 w \<Rightarrow> drop_bit 24 w = 10 \<or> drop_bit 20 w = 0xac1 \<or> drop_bit 16 w = 0xc0a8
      | IPv6 w z \<Rightarrow> drop_bit 121 w = 0x7e)"

fun addr_IsLoopback :: "addr \<Rightarrow> bool" where
  "addr_IsLoopback a =
     (case addr_Unmap a of
        ZeroAddr \<Rightarrow> False
      | IPv4 w \<Rightarrow> drop_bit 24 w = 127
      | IPv6 w z \<Rightarrow> w = 1)"

fun addr_IsLinkLocalUnicast :: "addr \<Rightarrow> bool" where
  "addr_IsLinkLocalUnicast a =
     (case addr_Unmap a of
        ZeroAddr \<Rightarrow> False
      | IPv4 w \<Rightarrow> drop_bit 16 w = 0xa9fe
      | IPv6 w z \<Rightarrow> drop_bit 118 w = 0x3fa)"

definition addr_IsGlobalUnicast :: "addr \<Rightarrow> bool" where
  "addr_IsGlobalUnicast a0 =
     (let a = addr_Unmap a0 in
      a \<noteq> ZeroAddr \<and> a \<noteq> IPv4 0 \<and> a \<noteq> IPv4 0xffffffff \<and> a \<noteq> IPv6 0 [] \<and>
      \<not> addr_IsLoopback a \<and> \<not> addr_IsMulticast a \<and> \<not> addr_IsLinkLocalUnicast a)"

section \<open>Prefixes\<close>

text \<open>\<^verbatim>\<open>Prefix\<close>: \<open>pfxBits\<close> is \<^verbatim>\<open>Bits()\<close>, \<open>-1\<close> for an invalid prefix.\<close>

record prefix =
  pfxAddr :: addr
  pfxBits :: int

definition zeroPrefix :: prefix where
  "zeroPrefix = \<lparr>pfxAddr = ZeroAddr, pfxBits = -1\<rparr>"

definition PrefixFrom :: "addr \<Rightarrow> int \<Rightarrow> prefix" where
  "PrefixFrom a b =
     \<lparr>pfxAddr = addr_withoutZone a,
      pfxBits = (if addr_IsValid a \<and> 0 \<le> b \<and> b \<le> addr_BitLen a then b else -1)\<rparr>"

definition prefix_IsValid :: "prefix \<Rightarrow> bool" where
  "prefix_IsValid p = (0 \<le> pfxBits p)"

definition mask_addr :: "nat \<Rightarrow> addr \<Rightarrow> addr" where
  "mask_addr b a = (case a of
     ZeroAddr \<Rightarrow> ZeroAddr
   | IPv4 w \<Rightarrow> IPv4 (push_bit (32 - b) (drop_bit (32 - b) w))
   | IPv6 w z \<Rightarrow> IPv6 (push_bit (128 - b) (drop_bit (128 - b) w)) [])"

text \<open>\<^verbatim>\<open>Masked\<close>, through \<^verbatim>\<open>Addr.Prefix\<close>, which fails for negative or too many bits.\<close>

definition prefix_Masked :: "prefix \<Rightarrow> prefix" where
  "prefix_Masked p =
     (if pfxAddr p = ZeroAddr \<or> pfxBits p < 0 \<or> pfxBits p > addr_BitLen (pfxAddr p) then zeroPrefix
      else \<lparr>pfxAddr = mask_addr (nat (pfxBits p)) (pfxAddr p), pfxBits = pfxBits p\<rparr>)"

definition prefix_Contains :: "prefix \<Rightarrow> addr \<Rightarrow> bool" where
  "prefix_Contains p a =
     (if \<not> prefix_IsValid p \<or> addr_hasZone a then False
      else (case (pfxAddr p, a) of
        (IPv4 v, IPv4 w) \<Rightarrow> drop_bit (32 - nat (pfxBits p)) (w XOR v) = 0
      | (IPv6 v _, IPv6 w _) \<Rightarrow> drop_bit (128 - nat (pfxBits p)) (w XOR v) = 0
      | _ \<Rightarrow> False))"

section \<open>Address and port\<close>

record addrport =
  apAddr :: addr
  apPort :: "16 word"

definition addrport_IsValid :: "addrport \<Rightarrow> bool" where
  "addrport_IsValid ap = addr_IsValid (apAddr ap)"

text \<open>Dotted-quad constants.\<close>

definition ip4 :: "nat \<Rightarrow> nat \<Rightarrow> nat \<Rightarrow> nat \<Rightarrow> addr" where
  "ip4 a b c d = IPv4 (of_nat (((a * 256 + b) * 256 + c) * 256 + d))"

section \<open>What the bit operations mean\<close>

lemma addr_Is4_iff: "addr_Is4 a \<longleftrightarrow> (\<exists>w. a = IPv4 w)"
  by (cases a) auto

lemma addr_Is6_iff: "addr_Is6 a \<longleftrightarrow> (\<exists>w z. a = IPv6 w z)"
  by (cases a) auto

lemma addr_Is4_valid: "addr_Is4 a \<Longrightarrow> addr_IsValid a"
  by (cases a) auto

lemma push_drop_idem: "push_bit n (drop_bit n (push_bit n (drop_bit n w))) = push_bit n (drop_bit n (w :: 'a::len word))"
  by (rule bit_word_eqI) (auto simp: bit_simps)

lemma mask_addr_idem: "mask_addr b (mask_addr b a) = mask_addr b a"
  by (cases a) (simp_all add: mask_addr_def push_drop_idem)

lemma mask_addr_BitLen [simp]: "addr_BitLen (mask_addr b a) = addr_BitLen a"
  by (cases a) (simp_all add: mask_addr_def)

lemma prefix_Masked_idem: "prefix_Masked (prefix_Masked p) = prefix_Masked p"
  by (auto simp: prefix_Masked_def zeroPrefix_def mask_addr_idem)
     (cases "pfxAddr p"; simp add: mask_addr_def)+

lemma prefix_Contains_self:
  "prefix_IsValid p \<Longrightarrow> pfxAddr p \<noteq> ZeroAddr \<Longrightarrow> \<not> addr_hasZone (pfxAddr p) \<Longrightarrow> prefix_Contains p (pfxAddr p)"
  by (cases "pfxAddr p") (simp_all add: prefix_Contains_def)

lemma drop_bit_top: "drop_bit (LENGTH('a) - 1) (w :: 'a::len word) = of_bool (bit w (LENGTH('a) - 1))"
proof (rule bit_word_eqI)
  fix n assume "n < LENGTH('a)"
  show "bit (drop_bit (LENGTH('a) - 1) w) n = bit (of_bool (bit w (LENGTH('a) - 1)) :: 'a word) n"
  proof (cases "n = 0")
    case True
    then show ?thesis by (simp add: bit_simps)
  next
    case False
    then have "\<not> bit w (LENGTH('a) - 1 + n)"
      using bit_imp_le_length [of w "LENGTH('a) - 1 + n"] by auto
    with False show ?thesis by (simp add: bit_simps)
  qed
qed

lemmas drop_bit_top32 = drop_bit_top [where 'a = 32, simplified]
lemmas drop_bit_top128 = drop_bit_top [where 'a = 128, simplified]

lemma half_low4: "prefix_Contains (PrefixFrom (IPv4 0) 1) (IPv4 w) \<longleftrightarrow> \<not> bit w 31"
  by (simp add: prefix_Contains_def PrefixFrom_def prefix_IsValid_def drop_bit_top32)

lemma half_high4: "prefix_Contains (PrefixFrom (IPv4 0x80000000) 1) (IPv4 w) \<longleftrightarrow> bit w 31"
  by (simp add: prefix_Contains_def PrefixFrom_def prefix_IsValid_def drop_bit_top32)

lemma half_low6: "prefix_Contains (PrefixFrom (IPv6 0 []) 1) (IPv6 w []) \<longleftrightarrow> \<not> bit w 127"
  by (simp add: prefix_Contains_def PrefixFrom_def prefix_IsValid_def drop_bit_top128)

lemma half_high6:
  "prefix_Contains (PrefixFrom (IPv6 0x80000000000000000000000000000000 []) 1) (IPv6 w []) \<longleftrightarrow> bit w 127"
  by (simp add: prefix_Contains_def PrefixFrom_def prefix_IsValid_def drop_bit_top128)

end
