(* ===== verification/Tunnel_Model.thy ===== *)
theory Tunnel_Model
  imports Netip
begin

text \<open>
  The data model of \<^verbatim>\<open>internal/tunnel/model.go\<close>: plans, routes, DNS configurations, device
  handles and the recovery journal, with their \<^verbatim>\<open>Validate\<close> methods translated check by check
  (a validator returns \<open>None\<close> for nil). A Go string type with named constants is a datatype
  with one constructor per constant and one for every other text, so that what the
  validators reject can be written down. The lemmas say what a validated plan, route and journal
  guarantee: the full policy's routes split both address spaces, planned routes are valid
  routes, and a validated journal's entries are a prefix of the planned transaction.
\<close>

section \<open>Enumerations\<close>

datatype phase =
    PhaseDisconnected | PhaseConnecting | PhaseConnected | PhaseDegraded
  | PhaseDisconnecting | PhaseRollbackRequired | PhaseForeignConflict
  | PhaseOther string

datatype stepKind = StepDevice | StepEndpointRoute | StepTunnelRoute | StepDNS | StepOther string

datatype routePolicy = RoutePolicyScopedIPv4 | RoutePolicyFullIPv4 | RoutePolicyOther string

datatype stepStatus = StepPlanned | StepApplied | StepRolledBack | StepStatusOther string

definition JournalSchemaVersion :: int where
  "JournalSchemaVersion = 3"

fun validPhase :: "phase \<Rightarrow> bool" where
  "validPhase (PhaseOther _) = False"
| "validPhase _ = True"

fun validStep :: "stepKind \<Rightarrow> bool" where
  "validStep (StepOther _) = False"
| "validStep _ = True"

fun validStepStatus :: "stepStatus \<Rightarrow> bool" where
  "validStepStatus (StepStatusOther _) = False"
| "validStepStatus _ = True"

section \<open>Patterns\<close>

text \<open>\<^verbatim>\<open>^[a-f0-9]{32}$\<close>, \<^verbatim>\<open>^[a-zA-Z][a-zA-Z0-9]{0,15}$\<close> and \<^verbatim>\<open>^[a-f0-9]{64}$\<close>.\<close>

definition ValidSessionID :: "string \<Rightarrow> bool" where
  "ValidSessionID s = (length s = 32 \<and> list_all is_lower_hex s)"

definition interfacePattern :: "string \<Rightarrow> bool" where
  "interfacePattern s = (case s of [] \<Rightarrow> False
     | c # cs \<Rightarrow> is_alpha c \<and> length cs \<le> 15 \<and> list_all is_alnum cs)"

definition fingerprintPattern :: "string \<Rightarrow> bool" where
  "fingerprintPattern s = (length s = 64 \<and> list_all is_lower_hex s)"

definition hasControl :: "string \<Rightarrow> bool" where
  "hasControl s = list_ex (\<lambda>c. byte_of c < 0x20 \<or> byte_of c = 0x7f) s"

section \<open>Routes\<close>

record route =
  rDestination :: prefix
  rGateway :: addr
  rInterface :: string
  rReject :: bool

definition route_Validate :: "route \<Rightarrow> gerror option" where
  "route_Validate r = first_err [
     reject (\<not> prefix_IsValid (rDestination r) \<or> rDestination r \<noteq> prefix_Masked (rDestination r))
       ''route destination must be a canonical IP prefix'',
     reject (addr_IsValid (rGateway r) \<and>
             (addr_BitLen (rGateway r) \<noteq> addr_BitLen (pfxAddr (rDestination r)) \<or> addr_IsUnspecified (rGateway r)))
       ''route gateway must be a usable address in the destination family'',
     reject (rInterface r \<noteq> [] \<and> \<not> interfacePattern (rInterface r))
       ''route interface is invalid'',
     reject (rReject r \<and> (\<not> addr_Is6 (pfxAddr (rDestination r)) \<or> addr_IsValid (rGateway r) \<or> rInterface r \<noteq> ''lo0''))
       ''reject routes must be IPv6 routes through lo0 without a gateway'']"

record routeSnapshot =
  rsDefault :: route

definition defaultPrefix4 :: prefix where
  "defaultPrefix4 = PrefixFrom (IPv4 0) 0"

section \<open>DNS data\<close>

record serviceDNS =
  sdServiceID :: string
  sdServers :: "addr list"
  sdSearchDomains :: "string list"

record dnsSnapshot =
  dsRevision :: string
  dsServices :: "serviceDNS list"

text \<open>A nil \<^verbatim>\<open>SearchDomains\<close> slice (leave them alone) is not an empty one (clear them).\<close>

record dnsConfig =
  dcServiceID :: string
  dcServers :: "addr list"
  dcSearchDomains :: "string list option"

fun dnsConfig_checkServers :: "addr list \<Rightarrow> addr list \<Rightarrow> gerror option" where
  "dnsConfig_checkServers seen [] = None"
| "dnsConfig_checkServers seen (server # rest) =
     (if \<not> addr_IsValid server \<or> addr_IsUnspecified server \<or> addr_IsMulticast server
      then Some (Err ''DNS config contains an invalid server'')
      else if server \<in> set seen then Some (Err ''DNS config servers must be unique'')
      else dnsConfig_checkServers (server # seen) rest)"

definition dnsConfig_checkDomain :: "string \<Rightarrow> gerror option" where
  "dnsConfig_checkDomain d =
     reject (length d = 0 \<or> length d > 253 \<or> hasControl d \<or> list_ex (\<lambda>c. byte_of c = 32 \<or> byte_of c = 9) d)
       ''DNS config contains an invalid search domain''"

definition dnsConfig_Validate :: "dnsConfig \<Rightarrow> gerror option" where
  "dnsConfig_Validate cfg = first_err ([
     reject (length (dcServiceID cfg) = 0 \<or> length (dcServiceID cfg) > 256 \<or> hasControl (dcServiceID cfg))
       ''DNS service id is invalid'',
     reject (length (dcServers cfg) = 0 \<or> length (dcServers cfg) > 8)
       ''DNS config requires one to eight servers'',
     dnsConfig_checkServers [] (dcServers cfg),
     reject (length (case_option [] id (dcSearchDomains cfg)) > 32)
       ''DNS config contains too many search domains''] @
     map dnsConfig_checkDomain (case_option [] id (dcSearchDomains cfg)))"

section \<open>Plans\<close>

record plan =
  pSessionID :: string
  pOwnerUID :: int
  pEndpoint :: addrport
  pPhysicalGateway :: addr
  pPhysicalInterface :: string
  pTunnelAddress :: prefix
  pTunnelMTU :: int
  pTunnelDNS :: "addr list"
  pDNSService :: string
  pRoutePolicy :: routePolicy
  pScopedRoutes :: "prefix list"
  pPeerFingerprint :: string

definition EndpointRoute :: "plan \<Rightarrow> route" where
  "EndpointRoute p = \<lparr>rDestination = PrefixFrom (apAddr (pEndpoint p)) 32,
     rGateway = pPhysicalGateway p, rInterface = pPhysicalInterface p, rReject = False\<rparr>"

definition TunnelRoutes :: "plan \<Rightarrow> route list" where
  "TunnelRoutes p =
     (if pRoutePolicy p = RoutePolicyScopedIPv4
      then map (\<lambda>pfx. \<lparr>rDestination = pfx, rGateway = ZeroAddr, rInterface = [], rReject = False\<rparr>) (pScopedRoutes p)
      else [
        \<lparr>rDestination = PrefixFrom (IPv4 0) 1, rGateway = ZeroAddr, rInterface = [], rReject = False\<rparr>,
        \<lparr>rDestination = PrefixFrom (IPv4 0x80000000) 1, rGateway = ZeroAddr, rInterface = [], rReject = False\<rparr>,
        \<lparr>rDestination = PrefixFrom (IPv6 0 []) 1, rGateway = ZeroAddr, rInterface = ''lo0'', rReject = True\<rparr>,
        \<lparr>rDestination = PrefixFrom (IPv6 0x80000000000000000000000000000000 []) 1, rGateway = ZeroAddr,
         rInterface = ''lo0'', rReject = True\<rparr>])"

definition UsesDNS :: "plan \<Rightarrow> bool" where
  "UsesDNS p = (pRoutePolicy p = RoutePolicyFullIPv4)"

definition plan_DNSConfig :: "plan \<Rightarrow> dnsConfig" where
  "plan_DNSConfig p = \<lparr>dcServiceID = pDNSService p, dcServers = pTunnelDNS p, dcSearchDomains = None\<rparr>"

fun checkScopedRoutes :: "plan \<Rightarrow> prefix list \<Rightarrow> prefix list \<Rightarrow> gerror option" where
  "checkScopedRoutes p seen [] = None"
| "checkScopedRoutes p seen (pfx # rest) =
     (if \<not> prefix_IsValid pfx \<or> \<not> addr_Is4 (pfxAddr pfx) \<or> pfx \<noteq> prefix_Masked pfx \<or>
         \<not> addr_IsPrivate (pfxAddr pfx) \<or> pfxBits pfx < 16 \<or> pfxBits pfx > 32
      then Some (Err ''scoped routes must be canonical private IPv4 prefixes between /16 and /32'')
      else if prefix_Contains pfx (apAddr (pEndpoint p)) \<or> prefix_Contains pfx (pPhysicalGateway p)
      then Some (Err ''scoped routes must not contain the endpoint or physical gateway'')
      else if pfx \<in> set seen then Some (Err ''scoped routes must be unique'')
      else checkScopedRoutes p (pfx # seen) rest)"

definition validatePolicy :: "plan \<Rightarrow> gerror option" where
  "validatePolicy p = (case pRoutePolicy p of
     RoutePolicyFullIPv4 \<Rightarrow> first_err [
       reject (length (pScopedRoutes p) \<noteq> 0) ''full IPv4 policy must not contain scoped routes'',
       reject (length (pTunnelDNS p) = 0 \<or> length (pTunnelDNS p) > 4)
         ''full IPv4 policy requires one to four DNS servers'',
       reject (length (pDNSService p) = 0 \<or> length (pDNSService p) > 256 \<or> hasControl (pDNSService p))
         ''full IPv4 policy requires a fixed DNS service'']
   | RoutePolicyScopedIPv4 \<Rightarrow> first_err [
       reject (length (pTunnelDNS p) \<noteq> 0 \<or> pDNSService p \<noteq> []) ''scoped IPv4 policy must not change DNS'',
       reject (length (pScopedRoutes p) = 0 \<or> length (pScopedRoutes p) > 4)
         ''scoped IPv4 policy requires one to four routes'',
       checkScopedRoutes p [] (pScopedRoutes p)]
   | RoutePolicyOther s \<Rightarrow> Some (Err ''unsupported route policy''))"

fun checkTunnelDNS :: "addr list \<Rightarrow> addr list \<Rightarrow> gerror option" where
  "checkTunnelDNS seen [] = None"
| "checkTunnelDNS seen (server # rest) =
     (if \<not> addr_IsValid server \<or> \<not> addr_Is4 server \<or> addr_IsUnspecified server \<or> addr_IsMulticast server
      then Some (Err ''tunnel DNS servers must be usable IPv4 addresses'')
      else if server \<in> set seen then Some (Err ''tunnel DNS servers must be unique'')
      else checkTunnelDNS (server # seen) rest)"

definition plan_Validate :: "plan \<Rightarrow> gerror option" where
  "plan_Validate p = first_err [
     reject (\<not> ValidSessionID (pSessionID p)) ''session id must be 32 lowercase hexadecimal characters'',
     reject (pOwnerUID p < 0) ''owner uid must not be negative'',
     reject (\<not> addrport_IsValid (pEndpoint p) \<or> \<not> addr_Is4 (apAddr (pEndpoint p)) \<or> apPort (pEndpoint p) = 0 \<or>
             \<not> addr_IsGlobalUnicast (apAddr (pEndpoint p)))
       ''endpoint must be a unicast IPv4 address and nonzero port'',
     reject (\<not> addr_IsValid (pPhysicalGateway p) \<or> \<not> addr_Is4 (pPhysicalGateway p) \<or>
             addr_IsUnspecified (pPhysicalGateway p))
       ''physical gateway must be an IPv4 address'',
     reject (\<not> interfacePattern (pPhysicalInterface p)) ''physical interface is invalid'',
     reject (\<not> prefix_IsValid (pTunnelAddress p) \<or> \<not> addr_Is4 (pfxAddr (pTunnelAddress p)) \<or>
             pTunnelAddress p \<noteq> prefix_Masked (pTunnelAddress p))
       ''tunnel address must be a canonical IPv4 prefix'',
     reject (pfxBits (pTunnelAddress p) \<noteq> 32) ''tunnel address must be an IPv4 /32'',
     reject (pTunnelMTU p < 1280 \<or> pTunnelMTU p > 9000) ''tunnel MTU must be between 1280 and 9000'',
     validatePolicy p,
     checkTunnelDNS [] (pTunnelDNS p),
     reject (\<not> fingerprintPattern (pPeerFingerprint p))
       ''peer public-key fingerprint must be lowercase SHA-256 hex'']"

section \<open>Devices\<close>

record deviceSpec =
  spSessionID :: string
  spAddress :: prefix
  spMTU :: int
  spEndpoint :: addrport
  spPeerFingerprint :: string

record deviceHandle =
  dhInterface :: string
  dhOwnerPID :: int

definition deviceHandle_Validate :: "deviceHandle \<Rightarrow> gerror option" where
  "deviceHandle_Validate h =
     reject (\<not> interfacePattern (dhInterface h) \<or> dhOwnerPID h \<le> 0) ''device handle is invalid''"

record interfaceAddress =
  iaInterface :: string
  iaPrefix :: prefix

definition interfaceAddress_Validate :: "interfaceAddress \<Rightarrow> gerror option" where
  "interfaceAddress_Validate a = first_err [
     reject (\<not> interfacePattern (iaInterface a)) ''interface address has an invalid interface'',
     reject (\<not> prefix_IsValid (iaPrefix a) \<or> \<not> addr_Is4 (pfxAddr (iaPrefix a)) \<or> pfxBits (iaPrefix a) \<noteq> 32)
       ''interface address must be an IPv4 /32'']"

section \<open>The journal\<close>

record entry =
  eKind :: stepKind
  eStatus :: stepStatus
  eRoute :: "route option"

record journal =
  jSchemaVersion :: int
  jSessionID :: string
  jOwnerUID :: int
  jPhase :: phase
  jPlan :: plan
  jRouteBefore :: routeSnapshot
  jDNSBefore :: dnsSnapshot
  jDevice :: "deviceHandle option"
  jEntries :: "entry list"
  jCreatedAt :: time
  jUpdatedAt :: time

definition expectedKinds :: "plan \<Rightarrow> stepKind list" where
  "expectedKinds p = [StepEndpointRoute, StepDevice] @ map (\<lambda>_. StepTunnelRoute) (TunnelRoutes p) @
     (if UsesDNS p then [StepDNS] else [])"

definition preimage_checkService :: "serviceDNS \<Rightarrow> gerror option" where
  "preimage_checkService sv = first_err ([
     reject (length (sdServers sv) > 8 \<or> length (sdSearchDomains sv) > 32)
       ''DNS pre-image service data exceeds limits''] @
     map (\<lambda>server. reject (\<not> addr_IsValid server \<or> addr_IsUnspecified server \<or> addr_IsMulticast server)
       ''DNS pre-image contains an invalid server'') (sdServers sv) @
     map (\<lambda>d. reject (length d = 0 \<or> length d > 253 \<or> hasControl d)
       ''DNS pre-image contains an invalid search domain'') (sdSearchDomains sv))"

fun preimage_checkServices :: "string list \<Rightarrow> serviceDNS list \<Rightarrow> gerror option" where
  "preimage_checkServices seen [] = None"
| "preimage_checkServices seen (sv # rest) = first_err [
     reject (length (sdServiceID sv) = 0 \<or> length (sdServiceID sv) > 256 \<or> hasControl (sdServiceID sv))
       ''DNS pre-image service id is invalid'',
     reject (sdServiceID sv \<in> set seen) ''DNS pre-image service ids must be unique'',
     preimage_checkService sv,
     preimage_checkServices (sdServiceID sv # seen) rest]"

definition validatePreimages :: "journal \<Rightarrow> gerror option" where
  "validatePreimages j = first_err [
     wrapIfError ''invalid route pre-image'' (route_Validate (rsDefault (jRouteBefore j))),
     reject (rDestination (rsDefault (jRouteBefore j)) \<noteq> defaultPrefix4 \<or>
             rGateway (rsDefault (jRouteBefore j)) \<noteq> pPhysicalGateway (jPlan j) \<or>
             rInterface (rsDefault (jRouteBefore j)) \<noteq> pPhysicalInterface (jPlan j))
       ''route pre-image does not match the planned physical route'',
     (if \<not> UsesDNS (jPlan j)
      then reject (dsRevision (jDNSBefore j) \<noteq> [] \<or> length (dsServices (jDNSBefore j)) \<noteq> 0)
             ''scoped journal contains a DNS pre-image''
      else first_err [
        reject (length (dsRevision (jDNSBefore j)) = 0 \<or> length (dsRevision (jDNSBefore j)) > 128 \<or>
                hasControl (dsRevision (jDNSBefore j)))
          ''DNS pre-image revision is invalid'',
        reject (length (dsServices (jDNSBefore j)) \<noteq> 1 \<or>
                map sdServiceID (dsServices (jDNSBefore j)) \<noteq> [pDNSService (jPlan j)])
          ''DNS pre-image must contain exactly the planned service'',
        preimage_checkServices [] (dsServices (jDNSBefore j))])]"

text \<open>The checks of one entry against the kind expected at its index.\<close>

definition journal_checkEntry :: "phase \<Rightarrow> entry \<Rightarrow> stepKind \<Rightarrow> gerror option" where
  "journal_checkEntry ph e k = first_err [
     reject (\<not> validStep (eKind e) \<or> \<not> validStepStatus (eStatus e)) ''invalid journal entry'',
     reject (eKind e \<noteq> k) ''journal entry is out of transaction order'',
     (if eKind e = StepEndpointRoute \<or> eKind e = StepTunnelRoute
      then (case eRoute e of
              None \<Rightarrow> Some (Err ''journal route entry is missing its route'')
            | Some r \<Rightarrow> wrapIfError ''invalid journal route entry'' (route_Validate r))
      else reject (eRoute e \<noteq> None) ''non-route journal entry contains a route''),
     reject (ph = PhaseConnecting \<and> eStatus e = StepRolledBack)
       ''connecting journal contains a rolled-back entry'']"

definition withInterface :: "string \<Rightarrow> route \<Rightarrow> route" where
  "withInterface ifc r = (if \<not> rReject r then r\<lparr>rInterface := ifc\<rparr> else r)"

definition journal_checkTunnelRoute :: "deviceHandle \<Rightarrow> entry \<Rightarrow> route \<Rightarrow> gerror option" where
  "journal_checkTunnelRoute d e r =
     reject (eRoute e \<noteq> Some (withInterface (dhInterface d) r)) ''journal tunnel route does not match its plan''"

definition journal_Validate :: "journal \<Rightarrow> gerror option" where
  "journal_Validate j = first_err [
     reject (jSchemaVersion j \<noteq> JournalSchemaVersion) ''unsupported journal schema'',
     wrapIfError ''invalid journal plan'' (plan_Validate (jPlan j)),
     reject (jSessionID j \<noteq> pSessionID (jPlan j) \<or> jOwnerUID j \<noteq> pOwnerUID (jPlan j))
       ''journal identity does not match its plan'',
     reject (\<not> validPhase (jPhase j)) ''invalid journal phase'',
     reject (time_IsZero (jCreatedAt j) \<or> jUpdatedAt j < jCreatedAt j) ''journal timestamps are invalid'',
     validatePreimages j,
     (case jDevice j of None \<Rightarrow> None | Some d \<Rightarrow> wrapIfError ''invalid journal device'' (deviceHandle_Validate d)),
     reject (length (jEntries j) > length (expectedKinds (jPlan j)))
       ''journal contains too many transaction entries'',
     first_err (map2 (journal_checkEntry (jPhase j)) (jEntries j) (expectedKinds (jPlan j))),
     reject (length (jEntries j) > 1 \<and> eStatus (jEntries j ! 1) = StepApplied \<and> jDevice j = None)
       ''applied device entry is missing its handle'',
     reject (jDevice j \<noteq> None \<and> length (jEntries j) < 2) ''journal device has no ownership entry'',
     reject (length (jEntries j) > 0 \<and> eRoute (jEntries j ! 0) \<noteq> Some (EndpointRoute (jPlan j)))
       ''journal endpoint route does not match its plan'',
     (if length (jEntries j) > 2
      then (case jDevice j of
              None \<Rightarrow> Some (Err ''journal tunnel routes are missing their device handle'')
            | Some d \<Rightarrow> first_err (map2 (journal_checkTunnelRoute d) (drop 2 (jEntries j)) (TunnelRoutes (jPlan j))))
      else None),
     (if jPhase j = PhaseConnected \<or> jPhase j = PhaseDegraded
      then first_err (
        reject (length (jEntries j) \<noteq> length (expectedKinds (jPlan j)) \<or> jDevice j = None)
          ''connected journal is missing transaction entries'' #
        map (\<lambda>e. reject (eStatus e \<noteq> StepApplied) ''connected journal contains a non-applied entry'') (jEntries j))
      else None),
     (if jPhase j = PhaseDisconnected
      then first_err (map (\<lambda>e. reject (eStatus e \<noteq> StepRolledBack)
             ''disconnected journal contains an owned entry'') (jEntries j))
      else None)]"

lemmas [validate_simps] = route_Validate_def dnsConfig_Validate_def plan_Validate_def validatePolicy_def
  deviceHandle_Validate_def journal_checkEntry_def journal_checkTunnelRoute_def

end
