(* ===== verification/Tunnel_Controller.thy ===== *)
theory Tunnel_Controller
  imports Tunnel_Model
begin

text \<open>
  The transaction of \<^verbatim>\<open>internal/tunnel/controller.go\<close>. The adapters (journal store, lock,
  conflict checker, device, route and DNS managers, verifier, clock) are records of
  functions on an arbitrary world \<open>'w\<close>, an \<open>option\<close> where the code allows a nil interface;
  each returns its error and the world it leaves. The journal is threaded through every
  step as the code threads \<^verbatim>\<open>*Journal\<close>, so what a failing step leaves in memory is what the
  rollback sees. Nothing is assumed of the adapters here.
\<close>

section \<open>Interfaces\<close>

record 'w journalStore =
  jsCreate :: "ctx \<Rightarrow> journal \<Rightarrow> 'w \<Rightarrow> gerror option \<times> 'w"
  jsUpdate :: "ctx \<Rightarrow> journal \<Rightarrow> 'w \<Rightarrow> gerror option \<times> 'w"
  jsLoad :: "ctx \<Rightarrow> string \<Rightarrow> 'w \<Rightarrow> (gerror + journal) \<times> 'w"
  jsDelete :: "ctx \<Rightarrow> string \<Rightarrow> 'w \<Rightarrow> gerror option \<times> 'w"

text \<open>\<^verbatim>\<open>Acquire\<close> returns the release closure.\<close>

record 'w locker =
  lkAcquire :: "ctx \<Rightarrow> string \<Rightarrow> 'w \<Rightarrow> (gerror + ('w \<Rightarrow> gerror option \<times> 'w)) \<times> 'w"

record 'w conflictChecker =
  ccCheck :: "ctx \<Rightarrow> plan \<Rightarrow> 'w \<Rightarrow> gerror option \<times> 'w"

record 'w deviceManager =
  dmCreate :: "ctx \<Rightarrow> deviceSpec \<Rightarrow> 'w \<Rightarrow> (gerror + deviceHandle) \<times> 'w"
  dmDeleteOwned :: "ctx \<Rightarrow> string \<Rightarrow> deviceHandle option \<Rightarrow> 'w \<Rightarrow> gerror option \<times> 'w"

record 'w routeManager =
  rmSnapshot :: "ctx \<Rightarrow> 'w \<Rightarrow> (gerror + routeSnapshot) \<times> 'w"
  rmAdd :: "ctx \<Rightarrow> route \<Rightarrow> 'w \<Rightarrow> gerror option \<times> 'w"
  rmRemove :: "ctx \<Rightarrow> route \<Rightarrow> 'w \<Rightarrow> gerror option \<times> 'w"

record 'w dnsManager =
  dnSnapshot :: "ctx \<Rightarrow> dnsConfig \<Rightarrow> 'w \<Rightarrow> (gerror + dnsSnapshot) \<times> 'w"
  dnApply :: "ctx \<Rightarrow> dnsConfig \<Rightarrow> 'w \<Rightarrow> gerror option \<times> 'w"
  dnRestoreIfOwned :: "ctx \<Rightarrow> dnsSnapshot \<Rightarrow> dnsConfig \<Rightarrow> 'w \<Rightarrow> gerror option \<times> 'w"

record 'w verifier =
  vfVerify :: "ctx \<Rightarrow> journal \<Rightarrow> 'w \<Rightarrow> gerror option \<times> 'w"

text \<open>\<open>cTimeNow\<close> is the system clock, used when the \<open>cNow\<close> field is nil.\<close>

record 'w controller =
  cJournals :: "'w journalStore option"
  cLocks :: "'w locker option"
  cConflicts :: "'w conflictChecker option"
  cDevices :: "'w deviceManager option"
  cRoutes :: "'w routeManager option"
  cDNS :: "'w dnsManager option"
  cVerifier :: "'w verifier option"
  cNow :: "('w \<Rightarrow> time \<times> 'w) option"
  cTimeNow :: "'w \<Rightarrow> time \<times> 'w"

section \<open>Validation of the dependencies\<close>

definition validateCommon :: "'w controller \<Rightarrow> gerror option" where
  "validateCommon c = reject (cJournals c = None \<or> cLocks c = None \<or> cConflicts c = None \<or>
     cDevices c = None \<or> cRoutes c = None \<or> cVerifier c = None)
     ''tunnel controller dependencies are incomplete''"

definition controller_validate :: "'w controller \<Rightarrow> plan \<Rightarrow> gerror option" where
  "controller_validate c p = (case validateCommon c of Some e \<Rightarrow> Some e
     | None \<Rightarrow> reject (UsesDNS p \<and> cDNS c = None) ''tunnel controller DNS dependency is incomplete'')"

definition validateDisconnect :: "'w controller \<Rightarrow> gerror option" where
  "validateDisconnect c = reject (cJournals c = None \<or> cLocks c = None \<or> cDevices c = None \<or> cRoutes c = None)
     ''tunnel rollback dependencies are incomplete''"

definition validatePhysicalPreimage :: "plan \<Rightarrow> routeSnapshot \<Rightarrow> gerror option" where
  "validatePhysicalPreimage p s = first_err [
     wrapIfError ''invalid physical route pre-image'' (route_Validate (rsDefault s)),
     reject (rDestination (rsDefault s) \<noteq> defaultPrefix4)
       ''physical route pre-image does not contain the IPv4 default route'',
     reject (rGateway (rsDefault s) \<noteq> pPhysicalGateway p \<or> rInterface (rsDefault s) \<noteq> pPhysicalInterface p)
       ''physical route changed after planning; refusing stale endpoint pin'']"

section \<open>Phases and time\<close>

fun allowedNext :: "phase \<Rightarrow> phase list" where
  "allowedNext PhaseConnecting = [PhaseConnected, PhaseDisconnecting, PhaseRollbackRequired]"
| "allowedNext PhaseConnected = [PhaseDegraded, PhaseDisconnecting, PhaseRollbackRequired]"
| "allowedNext PhaseDegraded = [PhaseDisconnecting, PhaseRollbackRequired]"
| "allowedNext PhaseDisconnecting = [PhaseDisconnected, PhaseRollbackRequired]"
| "allowedNext PhaseRollbackRequired = [PhaseDisconnecting]"
| "allowedNext PhaseForeignConflict = [PhaseDisconnected]"
| "allowedNext _ = []"

definition allowedTransition :: "phase \<Rightarrow> phase \<Rightarrow> bool" where
  "allowedTransition from to = (to \<in> set (allowedNext from))"

definition controller_now :: "'w controller \<Rightarrow> 'w \<Rightarrow> time \<times> 'w" where
  "controller_now c w = (case cNow c of Some f \<Rightarrow> f w | None \<Rightarrow> cTimeNow c w)"

definition nextTime :: "'w controller \<Rightarrow> time \<Rightarrow> 'w \<Rightarrow> time \<times> 'w" where
  "nextTime c previous w =
     (let (now, w') = controller_now c w in (if \<not> now > previous then previous + 1 else now, w'))"

section \<open>Journalled steps\<close>

text \<open>Stamp the journal with the next time and hand it to \<^verbatim>\<open>Journals.Update\<close>.\<close>

definition stampAndUpdate :: "'w controller \<Rightarrow> ctx \<Rightarrow> journal \<Rightarrow> 'w \<Rightarrow> gerror option \<times> journal \<times> 'w" where
  "stampAndUpdate c ctx j w =
     (let (t, w1) = nextTime c (jUpdatedAt j) w;
          j1 = j\<lparr>jUpdatedAt := t\<rparr>;
          (err, w2) = jsUpdate (the (cJournals c)) ctx j1 w1
      in (err, j1, w2))"

definition recordIntent ::
  "'w controller \<Rightarrow> ctx \<Rightarrow> journal \<Rightarrow> entry \<Rightarrow> 'w \<Rightarrow> (gerror + nat) \<times> journal \<times> 'w" where
  "recordIntent c ctx j e w =
     (let (err, j1, w1) = stampAndUpdate c ctx (j\<lparr>jEntries := jEntries j @ [e]\<rparr>) w in
      case err of
        Some x \<Rightarrow> (Inl (WrapErr ''persist intent'' x), j1, w1)
      | None \<Rightarrow> (Inr (length (jEntries j1) - 1), j1, w1))"

definition setStatus :: "nat \<Rightarrow> stepStatus \<Rightarrow> journal \<Rightarrow> journal" where
  "setStatus i st j = j\<lparr>jEntries := (jEntries j)[i := (jEntries j ! i)\<lparr>eStatus := st\<rparr>]\<rparr>"

definition markApplied :: "'w controller \<Rightarrow> ctx \<Rightarrow> journal \<Rightarrow> nat \<Rightarrow> 'w \<Rightarrow> gerror option \<times> journal \<times> 'w" where
  "markApplied c ctx j i w =
     (let (err, j1, w1) = stampAndUpdate c ctx (setStatus i StepApplied j) w in
      (wrapIfError ''persist applied'' err, j1, w1))"

definition setPhase :: "'w controller \<Rightarrow> ctx \<Rightarrow> journal \<Rightarrow> phase \<Rightarrow> 'w \<Rightarrow> gerror option \<times> journal \<times> 'w" where
  "setPhase c ctx j ph w =
     (if \<not> allowedTransition (jPhase j) ph then (Some (Err ''invalid tunnel transition''), j, w)
      else let (err, j1, w1) = stampAndUpdate c ctx (j\<lparr>jPhase := ph\<rparr>) w in
           (wrapIfError ''persist tunnel phase'' err, j1, w1))"

definition applyRoute ::
  "'w controller \<Rightarrow> ctx \<Rightarrow> journal \<Rightarrow> stepKind \<Rightarrow> route \<Rightarrow> 'w \<Rightarrow> gerror option \<times> journal \<times> 'w" where
  "applyRoute c ctx j k r w =
     (case route_Validate r of
        Some e \<Rightarrow> (Some (WrapErr ''invalid planned route'' e), j, w)
      | None \<Rightarrow>
         (case recordIntent c ctx j \<lparr>eKind = k, eStatus = StepPlanned, eRoute = Some r\<rparr> w of
            (Inl e, j1, w1) \<Rightarrow> (Some e, j1, w1)
          | (Inr i, j1, w1) \<Rightarrow>
             (case rmAdd (the (cRoutes c)) ctx r w1 of
                (Some e, w2) \<Rightarrow> (Some (WrapErr ''add'' e), j1, w2)
              | (None, w2) \<Rightarrow> markApplied c ctx j1 i w2)))"

section \<open>Rollback\<close>

definition undoEntry :: "'w controller \<Rightarrow> ctx \<Rightarrow> journal \<Rightarrow> entry \<Rightarrow> 'w \<Rightarrow> gerror option \<times> 'w" where
  "undoEntry c ctx j e w = (case eKind e of
     StepDNS \<Rightarrow> dnRestoreIfOwned (the (cDNS c)) ctx (jDNSBefore j) (plan_DNSConfig (jPlan j)) w
   | StepOther s \<Rightarrow> (Some (Err ''unknown rollback step''), w)
   | StepDevice \<Rightarrow> dmDeleteOwned (the (cDevices c)) ctx (jSessionID j) (jDevice j) w
   | _ \<Rightarrow> (case eRoute e of
             None \<Rightarrow> (Some (Err ''route rollback entry is missing its route''), w)
           | Some r \<Rightarrow> rmRemove (the (cRoutes c)) ctx r w))"

text \<open>The loop over the entries, last first: \<open>n\<close> entries are left to visit.\<close>

fun rollbackEntries ::
  "'w controller \<Rightarrow> ctx \<Rightarrow> nat \<Rightarrow> journal \<Rightarrow> gerror list \<Rightarrow> 'w \<Rightarrow> gerror list \<times> journal \<times> 'w" where
  "rollbackEntries c ctx 0 j errs w = (errs, j, w)"
| "rollbackEntries c ctx (Suc i) j errs w =
     (if eStatus (jEntries j ! i) = StepRolledBack then rollbackEntries c ctx i j errs w
      else (case undoEntry c ctx j (jEntries j ! i) w of
        (Some e, w1) \<Rightarrow> rollbackEntries c ctx i j (errs @ [WrapErr ''roll back'' e]) w1
      | (None, w1) \<Rightarrow>
         (case stampAndUpdate c ctx (setStatus i StepRolledBack j) w1 of
            (Some e, j1, w2) \<Rightarrow> rollbackEntries c ctx i j1 (errs @ [WrapErr ''persist rolled-back'' e]) w2
          | (None, j1, w2) \<Rightarrow> rollbackEntries c ctx i j1 errs w2)))"

definition rollbackBegin :: "'w controller \<Rightarrow> ctx \<Rightarrow> journal \<Rightarrow> 'w \<Rightarrow> gerror list \<times> journal \<times> 'w" where
  "rollbackBegin c ctx j w =
     (if jPhase j = PhaseDisconnecting then ([], j, w)
      else if allowedTransition (jPhase j) PhaseDisconnecting then
        (case stampAndUpdate c ctx (j\<lparr>jPhase := PhaseDisconnecting\<rparr>) w of
           (Some e, j1, w1) \<Rightarrow> ([WrapErr ''persist disconnecting phase'' e], j1, w1)
         | (None, j1, w1) \<Rightarrow> ([], j1, w1))
      else ([Err ''cannot roll back phase''], j, w))"

definition rollbackFinish ::
  "'w controller \<Rightarrow> ctx \<Rightarrow> gerror list \<Rightarrow> journal \<Rightarrow> 'w \<Rightarrow> gerror option \<times> journal \<times> 'w" where
  "rollbackFinish c ctx errs j w =
     (if errs \<noteq> [] then
        (let (err, j1, w1) = stampAndUpdate c ctx (j\<lparr>jPhase := PhaseRollbackRequired\<rparr>) w;
             errs' = (case err of None \<Rightarrow> errs | Some e \<Rightarrow> errs @ [WrapErr ''persist rollback-required phase'' e])
         in (Some (JoinErr (Sentinel ErrRollback # errs')), j1, w1))
      else
        (case stampAndUpdate c ctx (j\<lparr>jPhase := PhaseDisconnected\<rparr>) w of
           (Some e, j1, w1) \<Rightarrow> (Some (JoinErr [Sentinel ErrRollback, WrapErr ''persist disconnected phase'' e]), j1, w1)
         | (None, j1, w1) \<Rightarrow>
            (case jsDelete (the (cJournals c)) ctx (jSessionID j1) w1 of
               (Some e, w2) \<Rightarrow> (Some (JoinErr [Sentinel ErrRollback, WrapErr ''delete completed journal'' e]), j1, w2)
             | (None, w2) \<Rightarrow> (None, j1, w2))))"

definition rollback :: "'w controller \<Rightarrow> ctx \<Rightarrow> journal \<Rightarrow> 'w \<Rightarrow> gerror option \<times> journal \<times> 'w" where
  "rollback c ctx j w =
     (let (errs0, j0, w0) = rollbackBegin c ctx j w;
          (errs1, j1, w1) = rollbackEntries c ctx (length (jEntries j0)) j0 errs0 w0
      in rollbackFinish c ctx errs1 j1 w1)"

section \<open>Connect\<close>

fun applyTunnelRoutes ::
  "'w controller \<Rightarrow> ctx \<Rightarrow> string \<Rightarrow> journal \<Rightarrow> route list \<Rightarrow> 'w \<Rightarrow> gerror option \<times> journal \<times> 'w" where
  "applyTunnelRoutes c ctx ifc j [] w = (None, j, w)"
| "applyTunnelRoutes c ctx ifc j (r # rs) w =
     (case applyRoute c ctx j StepTunnelRoute (withInterface ifc r) w of
        (Some e, j1, w1) \<Rightarrow> (Some e, j1, w1)
      | (None, j1, w1) \<Rightarrow> applyTunnelRoutes c ctx ifc j1 rs w1)"

definition applyDevice ::
  "'w controller \<Rightarrow> ctx \<Rightarrow> plan \<Rightarrow> journal \<Rightarrow> 'w \<Rightarrow> gerror option \<times> journal \<times> 'w" where
  "applyDevice c ctx p j w =
     (case recordIntent c ctx j \<lparr>eKind = StepDevice, eStatus = StepPlanned, eRoute = None\<rparr> w of
        (Inl e, j1, w1) \<Rightarrow> (Some e, j1, w1)
      | (Inr i, j1, w1) \<Rightarrow>
         (case dmCreate (the (cDevices c)) ctx
                 \<lparr>spSessionID = pSessionID p, spAddress = pTunnelAddress p, spMTU = pTunnelMTU p,
                  spEndpoint = pEndpoint p, spPeerFingerprint = pPeerFingerprint p\<rparr> w1 of
            (Inl e, w2) \<Rightarrow> (Some (WrapErr ''create tunnel device'' e), j1, w2)
          | (Inr d, w2) \<Rightarrow>
             (case deviceHandle_Validate d of
                Some e \<Rightarrow> (Some (WrapErr ''create tunnel device'' e), j1, w2)
              | None \<Rightarrow> markApplied c ctx (j1\<lparr>jDevice := Some d\<rparr>) i w2)))"

definition applyDNS ::
  "'w controller \<Rightarrow> ctx \<Rightarrow> plan \<Rightarrow> journal \<Rightarrow> 'w \<Rightarrow> gerror option \<times> journal \<times> 'w" where
  "applyDNS c ctx p j w =
     (if UsesDNS p then
        (case recordIntent c ctx j \<lparr>eKind = StepDNS, eStatus = StepPlanned, eRoute = None\<rparr> w of
           (Inl e, j1, w1) \<Rightarrow> (Some e, j1, w1)
         | (Inr i, j1, w1) \<Rightarrow>
            (case dnApply (the (cDNS c)) ctx (plan_DNSConfig p) w1 of
               (Some e, w2) \<Rightarrow> (Some (WrapErr ''apply tunnel DNS'' e), j1, w2)
             | (None, w2) \<Rightarrow> markApplied c ctx j1 i w2))
      else (None, j, w))"

text \<open>
  The steps between the creation of the journal and the successful return; an error is what
  the code passes to its \<^verbatim>\<open>fail\<close> closure.
\<close>

definition connectSteps ::
  "'w controller \<Rightarrow> ctx \<Rightarrow> plan \<Rightarrow> journal \<Rightarrow> 'w \<Rightarrow> gerror option \<times> journal \<times> 'w" where
  "connectSteps c ctx p j w =
     (case applyRoute c ctx j StepEndpointRoute (EndpointRoute p) w of
        (Some e, j1, w1) \<Rightarrow> (Some e, j1, w1)
      | (None, j1, w1) \<Rightarrow>
     (case applyDevice c ctx p j1 w1 of
        (Some e, j2, w2) \<Rightarrow> (Some e, j2, w2)
      | (None, j2, w2) \<Rightarrow>
     (case applyTunnelRoutes c ctx (dhInterface (the (jDevice j2))) j2 (TunnelRoutes p) w2 of
        (Some e, j3, w3) \<Rightarrow> (Some e, j3, w3)
      | (None, j3, w3) \<Rightarrow>
     (case applyDNS c ctx p j3 w3 of
        (Some e, j4, w4) \<Rightarrow> (Some e, j4, w4)
      | (None, j4, w4) \<Rightarrow>
     (case vfVerify (the (cVerifier c)) ctx j4 w4 of
        (Some e, w5) \<Rightarrow> (Some (WrapErr ''verify tunnel'' e), j4, w5)
      | (None, w5) \<Rightarrow> setPhase c ctx j4 PhaseConnected w5)))))"

definition rollbackTimeout :: nat where
  "rollbackTimeout = 10"

definition connectFail ::
  "'w controller \<Rightarrow> ctx \<Rightarrow> journal \<Rightarrow> gerror \<Rightarrow> 'w \<Rightarrow> journal \<times> gerror option \<times> 'w" where
  "connectFail c ctx j connectErr w =
     (case rollback c (WithTimeout rollbackTimeout (WithoutCancel ctx)) j w of
        (Some rollbackErr, j1, w1) \<Rightarrow> (j1, errors_Join [Some connectErr, Some rollbackErr], w1)
      | (None, j1, w1) \<Rightarrow> (j1, Some connectErr, w1))"

text \<open>The zero value of \<^verbatim>\<open>Journal\<close>, returned with an error before a journal exists.\<close>

definition zeroRoute :: route where
  "zeroRoute = \<lparr>rDestination = zeroPrefix, rGateway = ZeroAddr, rInterface = [], rReject = False\<rparr>"

definition zeroPlan :: plan where
  "zeroPlan = \<lparr>pSessionID = [], pOwnerUID = 0, pEndpoint = \<lparr>apAddr = ZeroAddr, apPort = 0\<rparr>,
     pPhysicalGateway = ZeroAddr, pPhysicalInterface = [], pTunnelAddress = zeroPrefix, pTunnelMTU = 0,
     pTunnelDNS = [], pDNSService = [], pRoutePolicy = RoutePolicyOther [], pScopedRoutes = [],
     pPeerFingerprint = []\<rparr>"

definition zeroDNSSnapshot :: dnsSnapshot where
  "zeroDNSSnapshot = \<lparr>dsRevision = [], dsServices = []\<rparr>"

definition zeroJournal :: journal where
  "zeroJournal = \<lparr>jSchemaVersion = 0, jSessionID = [], jOwnerUID = 0, jPhase = PhaseOther [],
     jPlan = zeroPlan, jRouteBefore = \<lparr>rsDefault = zeroRoute\<rparr>, jDNSBefore = zeroDNSSnapshot,
     jDevice = None, jEntries = [], jCreatedAt = 0, jUpdatedAt = 0\<rparr>"

definition newJournal :: "plan \<Rightarrow> routeSnapshot \<Rightarrow> dnsSnapshot \<Rightarrow> time \<Rightarrow> journal" where
  "newJournal p rb db now = \<lparr>jSchemaVersion = JournalSchemaVersion, jSessionID = pSessionID p,
     jOwnerUID = pOwnerUID p, jPhase = PhaseConnecting, jPlan = p, jRouteBefore = rb, jDNSBefore = db,
     jDevice = None, jEntries = [], jCreatedAt = now, jUpdatedAt = now\<rparr>"

definition snapshotDNS ::
  "'w controller \<Rightarrow> ctx \<Rightarrow> plan \<Rightarrow> 'w \<Rightarrow> (gerror + dnsSnapshot) \<times> 'w" where
  "snapshotDNS c ctx p w =
     (if UsesDNS p then dnSnapshot (the (cDNS c)) ctx (plan_DNSConfig p) w else (Inr zeroDNSSnapshot, w))"

text \<open>The body of \<^verbatim>\<open>Connect\<close> while the lock is held.\<close>

definition connectLocked ::
  "'w controller \<Rightarrow> ctx \<Rightarrow> plan \<Rightarrow> 'w \<Rightarrow> journal \<times> gerror option \<times> 'w" where
  "connectLocked c ctx p w =
     (case ccCheck (the (cConflicts c)) ctx p w of
        (Some e, w1) \<Rightarrow> (zeroJournal, Some (WrapErr ''conflict'' (Sentinel ErrConflict)), w1)
      | (None, w1) \<Rightarrow>
     (case rmSnapshot (the (cRoutes c)) ctx w1 of
        (Inl e, w2) \<Rightarrow> (zeroJournal, Some (WrapErr ''capture route pre-image'' e), w2)
      | (Inr rb, w2) \<Rightarrow>
     (case validatePhysicalPreimage p rb of
        Some e \<Rightarrow> (zeroJournal, Some e, w2)
      | None \<Rightarrow>
     (case snapshotDNS c ctx p w2 of
        (Inl e, w3) \<Rightarrow> (zeroJournal, Some (WrapErr ''capture DNS pre-image'' e), w3)
      | (Inr db, w3) \<Rightarrow>
     (let (now, w4) = controller_now c w3; j = newJournal p rb db now in
      case journal_Validate j of
        Some e \<Rightarrow> (zeroJournal, Some (WrapErr ''construct tunnel journal'' e), w4)
      | None \<Rightarrow>
     (case jsCreate (the (cJournals c)) ctx j w4 of
        (Some e, w5) \<Rightarrow> (zeroJournal, Some (WrapErr ''create tunnel journal'' e), w5)
      | (None, w5) \<Rightarrow>
     (case connectSteps c ctx p j w5 of
        (Some e, j1, w6) \<Rightarrow> connectFail c ctx j1 e w6
      | (None, j1, w6) \<Rightarrow> (j1, None, w6))))))))"

text \<open>The deferred release: its error, if any, is joined to the result.\<close>

definition releaseLock :: "('w \<Rightarrow> gerror option \<times> 'w) \<Rightarrow> gerror option \<Rightarrow> 'w \<Rightarrow> gerror option \<times> 'w" where
  "releaseLock release retErr w =
     (case release w of
        (Some e, w1) \<Rightarrow> (errors_Join [retErr, Some (WrapErr ''release tunnel lock'' e)], w1)
      | (None, w1) \<Rightarrow> (retErr, w1))"

definition Connect :: "'w controller \<Rightarrow> ctx \<Rightarrow> plan \<Rightarrow> 'w \<Rightarrow> journal \<times> gerror option \<times> 'w" where
  "Connect c ctx p w =
     (case plan_Validate p of
        Some e \<Rightarrow> (zeroJournal, Some (WrapErr ''invalid tunnel plan'' e), w)
      | None \<Rightarrow>
     (case controller_validate c p of
        Some e \<Rightarrow> (zeroJournal, Some e, w)
      | None \<Rightarrow>
     (case lkAcquire (the (cLocks c)) ctx (pSessionID p) w of
        (Inl e, w1) \<Rightarrow> (zeroJournal, Some (WrapErr ''acquire tunnel lock'' e), w1)
      | (Inr release, w1) \<Rightarrow>
         (let (j, err, w2) = connectLocked c ctx p w1;
              (err', w3) = releaseLock release err w2
          in (j, err', w3)))))"

section \<open>Disconnect\<close>

definition disconnectLocked ::
  "'w controller \<Rightarrow> ctx \<Rightarrow> string \<Rightarrow> int \<Rightarrow> 'w \<Rightarrow> gerror option \<times> 'w" where
  "disconnectLocked c ctx sid uid w =
     (case jsLoad (the (cJournals c)) ctx sid w of
        (Inl e, w1) \<Rightarrow> (if errors_Is e ErrJournalNotFound then (None, w1)
                       else (Some (WrapErr ''load tunnel journal'' e), w1))
      | (Inr j, w1) \<Rightarrow>
     (case journal_Validate j of
        Some e \<Rightarrow> (Some (WrapErr ''refuse invalid tunnel journal'' e), w1)
      | None \<Rightarrow>
         if jOwnerUID j \<noteq> uid then (Some (Err ''tunnel journal owner does not match requester''), w1)
         else if UsesDNS (jPlan j) \<and> cDNS c = None
         then (Some (Err ''tunnel controller DNS dependency is incomplete''), w1)
         else if jPhase j = PhaseDisconnected then jsDelete (the (cJournals c)) ctx sid w1
         else (case rollback c ctx j w1 of (err, j1, w2) \<Rightarrow> (err, w2))))"

definition Disconnect :: "'w controller \<Rightarrow> ctx \<Rightarrow> string \<Rightarrow> int \<Rightarrow> 'w \<Rightarrow> gerror option \<times> 'w" where
  "Disconnect c ctx sid uid w =
     (if \<not> ValidSessionID sid \<or> uid < 0 then (Some (Err ''invalid tunnel session identity''), w)
      else (case validateDisconnect c of
        Some e \<Rightarrow> (Some e, w)
      | None \<Rightarrow>
     (case lkAcquire (the (cLocks c)) ctx sid w of
        (Inl e, w1) \<Rightarrow> (Some (WrapErr ''acquire tunnel lock'' e), w1)
      | (Inr release, w1) \<Rightarrow>
         (let (err, w2) = disconnectLocked c ctx sid uid w1 in releaseLock release err w2))))"

end
