(* ===== verification/Tunnel_Facts.thy ===== *)
theory Tunnel_Facts
  imports Tunnel_Model
begin

text \<open>
  What the validators of the data model guarantee. A journal that \<^verbatim>\<open>Journal.Validate\<close> accepts
  is characterised by \<open>journal_ok\<close>: its entries are a prefix of the plan's own list of
  transaction items, so that a recovered journal can only make the helper undo what the
  plan it carries would have done.
\<close>

section \<open>Routes of a plan\<close>

lemma first_err_map2_None:
  "first_err (map2 f xs ys) = None \<longleftrightarrow> (\<forall>i < min (length xs) (length ys). f (xs ! i) (ys ! i) = None)"
  by (auto simp: set_zip)

lemma masked_full4: "prefix_Masked (PrefixFrom (IPv4 w) 32) = PrefixFrom (IPv4 w) 32"
  by (simp add: prefix_Masked_def PrefixFrom_def mask_addr_def)

lemma full_routes_masked [simp]:
  "prefix_Masked (PrefixFrom (IPv4 0) 1) = PrefixFrom (IPv4 0) 1"
  "prefix_Masked (PrefixFrom (IPv4 0x80000000) 1) = PrefixFrom (IPv4 0x80000000) 1"
  "prefix_Masked (PrefixFrom (IPv6 0 []) 1) = PrefixFrom (IPv6 0 []) 1"
  "prefix_Masked (PrefixFrom (IPv6 0x80000000000000000000000000000000 []) 1) =
     PrefixFrom (IPv6 0x80000000000000000000000000000000 []) 1"
  by (simp_all add: prefix_Masked_def PrefixFrom_def mask_addr_def)

lemma PrefixFrom_simps [simp]:
  "pfxAddr (PrefixFrom (IPv4 w) b) = IPv4 w"
  "pfxAddr (PrefixFrom (IPv6 v []) b) = IPv6 v []"
  "0 \<le> b \<Longrightarrow> b \<le> 32 \<Longrightarrow> pfxBits (PrefixFrom (IPv4 w) b) = b"
  "0 \<le> b \<Longrightarrow> b \<le> 128 \<Longrightarrow> pfxBits (PrefixFrom (IPv6 v z) b) = b"
  by (simp_all add: PrefixFrom_def)

lemma checkScopedRoutes_None:
  "checkScopedRoutes p seen pfxs = None \<Longrightarrow> pfx \<in> set pfxs \<Longrightarrow>
     prefix_IsValid pfx \<and> addr_Is4 (pfxAddr pfx) \<and> pfx = prefix_Masked pfx \<and> addr_IsPrivate (pfxAddr pfx) \<and>
     16 \<le> pfxBits pfx \<and> pfxBits pfx \<le> 32 \<and>
     \<not> prefix_Contains pfx (apAddr (pEndpoint p)) \<and> \<not> prefix_Contains pfx (pPhysicalGateway p)"
  by (induction p seen pfxs rule: checkScopedRoutes.induct) (auto split: if_splits)

lemma checkScopedRoutes_distinct:
  "checkScopedRoutes p seen pfxs = None \<Longrightarrow> distinct pfxs \<and> (\<forall>x\<in>set pfxs. x \<notin> set seen)"
  by (induction p seen pfxs rule: checkScopedRoutes.induct) (auto split: if_splits)

lemma checkTunnelDNS_None:
  "checkTunnelDNS seen xs = None \<longleftrightarrow> distinct xs \<and> (\<forall>x\<in>set xs. x \<notin> set seen \<and> addr_IsValid x \<and> addr_Is4 x \<and>
     \<not> addr_IsUnspecified x \<and> \<not> addr_IsMulticast x)"
  by (induction seen xs rule: checkTunnelDNS.induct) auto

lemma dnsConfig_checkServers_None:
  "dnsConfig_checkServers seen xs = None \<longleftrightarrow> distinct xs \<and> (\<forall>x\<in>set xs. x \<notin> set seen \<and> addr_IsValid x \<and>
     \<not> addr_IsUnspecified x \<and> \<not> addr_IsMulticast x)"
  by (induction seen xs rule: dnsConfig_checkServers.induct) auto

lemma plan_valid_policy:
  "plan_Validate p = None \<Longrightarrow> pRoutePolicy p = RoutePolicyScopedIPv4 \<or> pRoutePolicy p = RoutePolicyFullIPv4"
  by (auto simp: plan_Validate_def validatePolicy_def split: routePolicy.splits)

lemma plan_valid_endpoint:
  "plan_Validate p = None \<Longrightarrow> \<exists>w. apAddr (pEndpoint p) = IPv4 w"
  by (auto simp: plan_Validate_def addr_Is4_iff)

lemma plan_valid_gateway:
  "plan_Validate p = None \<Longrightarrow> \<exists>w. pPhysicalGateway p = IPv4 w \<and> w \<noteq> 0"
  by (auto simp: plan_Validate_def addr_Is4_iff)

lemma plan_valid_interface: "plan_Validate p = None \<Longrightarrow> interfacePattern (pPhysicalInterface p)"
  by (auto simp: plan_Validate_def)

lemma plan_valid_scoped:
  assumes "plan_Validate p = None" "pRoutePolicy p = RoutePolicyScopedIPv4"
  shows "checkScopedRoutes p [] (pScopedRoutes p) = None" "pScopedRoutes p \<noteq> []" "length (pScopedRoutes p) \<le> 4"
  using assms by (auto simp: plan_Validate_def validatePolicy_def)

lemma endpoint_route_valid:
  assumes "plan_Validate p = None"
  shows "route_Validate (EndpointRoute p) = None"
proof -
  obtain e where e: "apAddr (pEndpoint p) = IPv4 e" using plan_valid_endpoint [OF assms] by blast
  obtain g where g: "pPhysicalGateway p = IPv4 g" "g \<noteq> 0" using plan_valid_gateway [OF assms] by blast
  show ?thesis
    using plan_valid_interface [OF assms] e g
    by (simp add: route_Validate_def EndpointRoute_def masked_full4 prefix_IsValid_def)
qed

lemma interfacePattern_lo0: "interfacePattern ''lo0''"
  by code_simp

lemma tunnel_route_valid:
  assumes p: "plan_Validate p = None" and i: "interfacePattern ifc" and r: "r \<in> set (TunnelRoutes p)"
  shows "route_Validate (withInterface ifc r) = None"
proof (cases "pRoutePolicy p = RoutePolicyScopedIPv4")
  case True
  then obtain pfx where pfx: "pfx \<in> set (pScopedRoutes p)"
    and eq: "r = \<lparr>rDestination = pfx, rGateway = ZeroAddr, rInterface = [], rReject = False\<rparr>"
    using r by (auto simp: TunnelRoutes_def)
  from checkScopedRoutes_None [OF plan_valid_scoped(1) [OF p True] pfx]
  show ?thesis using eq i by (auto simp: route_Validate_def withInterface_def)
next
  case False
  then show ?thesis
    using r i interfacePattern_lo0
    by (auto simp: TunnelRoutes_def route_Validate_def withInterface_def prefix_IsValid_def)
qed

section \<open>Items of the transaction\<close>

definition planItems :: "plan \<Rightarrow> string \<Rightarrow> (stepKind \<times> route option) list" where
  "planItems p ifc = [(StepEndpointRoute, Some (EndpointRoute p)), (StepDevice, None)] @
     map (\<lambda>r. (StepTunnelRoute, Some (withInterface ifc r))) (TunnelRoutes p) @
     (if UsesDNS p then [(StepDNS, None)] else [])"

definition entryItem :: "entry \<Rightarrow> stepKind \<times> route option" where
  "entryItem e = (eKind e, eRoute e)"

definition deviceInterface :: "journal \<Rightarrow> string" where
  "deviceInterface j = (case jDevice j of None \<Rightarrow> [] | Some d \<Rightarrow> dhInterface d)"

lemma planItems_kinds: "map fst (planItems p ifc) = expectedKinds p"
  by (simp add: planItems_def expectedKinds_def)

lemma length_planItems: "length (planItems p ifc) = length (expectedKinds p)"
  by (simp add: planItems_def expectedKinds_def)

lemma planItems_0: "planItems p ifc ! 0 = (StepEndpointRoute, Some (EndpointRoute p))"
  and planItems_1: "planItems p ifc ! Suc 0 = (StepDevice, None)"
  by (simp_all add: planItems_def)

lemma planItems_tunnel:
  "i < length (TunnelRoutes p) \<Longrightarrow>
     planItems p ifc ! Suc (Suc i) = (StepTunnelRoute, Some (withInterface ifc (TunnelRoutes p ! i)))"
  by (simp add: planItems_def nth_append)

lemma planItems_dns:
  "length (TunnelRoutes p) \<le> i \<Longrightarrow> Suc (Suc i) < length (planItems p ifc) \<Longrightarrow>
     planItems p ifc ! Suc (Suc i) = (StepDNS, None)"
  by (auto simp: planItems_def nth_append split: if_splits)

lemma length_planItems_ge2: "2 \<le> length (planItems p ifc)"
  by (simp add: planItems_def)

lemma planItems_valid_routes:
  assumes "plan_Validate p = None" "interfacePattern ifc" "(k, Some r) \<in> set (planItems p ifc)"
  shows "route_Validate r = None"
  using assms endpoint_route_valid tunnel_route_valid
  by (auto simp: planItems_def split: if_splits)

lemma planItems_kind_route:
  "(k, ro) \<in> set (planItems p ifc) \<Longrightarrow> validStep k \<and> (ro \<noteq> None \<longleftrightarrow> k = StepEndpointRoute \<or> k = StepTunnelRoute)"
  by (auto simp: planItems_def split: if_splits)

section \<open>Accepted journals\<close>

definition journal_static :: "journal \<Rightarrow> bool" where
  "journal_static j \<longleftrightarrow> jSchemaVersion j = JournalSchemaVersion \<and> plan_Validate (jPlan j) = None \<and>
     jSessionID j = pSessionID (jPlan j) \<and> jOwnerUID j = pOwnerUID (jPlan j) \<and> \<not> time_IsZero (jCreatedAt j) \<and>
     validatePreimages j = None"

definition phase_status_ok :: "phase \<Rightarrow> nat \<Rightarrow> bool \<Rightarrow> entry list \<Rightarrow> bool" where
  "phase_status_ok ph n hasDevice es \<longleftrightarrow>
     (ph = PhaseConnecting \<longrightarrow> (\<forall>e\<in>set es. eStatus e \<noteq> StepRolledBack)) \<and>
     (ph = PhaseConnected \<or> ph = PhaseDegraded \<longrightarrow> length es = n \<and> hasDevice \<and> (\<forall>e\<in>set es. eStatus e = StepApplied)) \<and>
     (ph = PhaseDisconnected \<longrightarrow> (\<forall>e\<in>set es. eStatus e = StepRolledBack))"

definition journal_ok :: "journal \<Rightarrow> bool" where
  "journal_ok j \<longleftrightarrow> journal_static j \<and> validPhase (jPhase j) \<and> jCreatedAt j \<le> jUpdatedAt j \<and>
     (\<forall>d. jDevice j = Some d \<longrightarrow> deviceHandle_Validate d = None \<and> 2 \<le> length (jEntries j)) \<and>
     (jDevice j = None \<longrightarrow> length (jEntries j) \<le> 2 \<and> (\<forall>e\<in>set (drop 1 (jEntries j)). eStatus e \<noteq> StepApplied)) \<and>
     map entryItem (jEntries j) = take (length (jEntries j)) (planItems (jPlan j) (deviceInterface j)) \<and>
     (\<forall>e\<in>set (jEntries j). validStepStatus (eStatus e)) \<and>
     phase_status_ok (jPhase j) (length (expectedKinds (jPlan j))) (jDevice j \<noteq> None) (jEntries j)"


lemma journal_checkEntry_None:
  "journal_checkEntry ph e k = None \<longleftrightarrow> validStep k \<and> validStepStatus (eStatus e) \<and> eKind e = k \<and>
     (if k = StepEndpointRoute \<or> k = StepTunnelRoute then \<exists>r. eRoute e = Some r \<and> route_Validate r = None
      else eRoute e = None) \<and> (ph = PhaseConnecting \<longrightarrow> eStatus e \<noteq> StepRolledBack)"
  by (auto simp: journal_checkEntry_def split: option.splits)

lemma map_eq_take_iff:
  "map f xs = take (length xs) ys \<longleftrightarrow> length xs \<le> length ys \<and> (\<forall>i < length xs. f (xs ! i) = ys ! i)"
  by (auto simp: list_eq_iff_nth_eq)

definition entries_checked :: "journal \<Rightarrow> bool" where
  "entries_checked j \<longleftrightarrow> length (jEntries j) \<le> length (expectedKinds (jPlan j)) \<and>
     (\<forall>i < length (jEntries j). journal_checkEntry (jPhase j) (jEntries j ! i) (expectedKinds (jPlan j) ! i) = None) \<and>
     (jEntries j \<noteq> [] \<longrightarrow> eRoute (jEntries j ! 0) = Some (EndpointRoute (jPlan j))) \<and>
     (\<forall>d. jDevice j = Some d \<longrightarrow> (\<forall>i. i + 2 < length (jEntries j) \<longrightarrow> i < length (TunnelRoutes (jPlan j)) \<longrightarrow>
        journal_checkTunnelRoute d (jEntries j ! (i + 2)) (TunnelRoutes (jPlan j) ! i) = None))"

lemma first_err_if_None: "(if b then e else None) = None \<longleftrightarrow> (b \<longrightarrow> e = (None :: gerror option))"
  by simp

lemma tunnel_checks_None:
  "first_err (map2 (journal_checkTunnelRoute d) (drop 2 es) rs) = None \<longleftrightarrow>
    (\<forall>i. i + 2 < length es \<longrightarrow> i < length rs \<longrightarrow> journal_checkTunnelRoute d (es ! (i + 2)) (rs ! i) = None)"
  unfolding first_err_map2_None by (auto simp: add.commute less_diff_conv)

lemma journal_Validate_conj:
  "journal_Validate j = None \<longleftrightarrow> journal_static j \<and> validPhase (jPhase j) \<and> jCreatedAt j \<le> jUpdatedAt j \<and>
     (case jDevice j of None \<Rightarrow> True | Some d \<Rightarrow> deviceHandle_Validate d = None) \<and>
     length (jEntries j) \<le> length (expectedKinds (jPlan j)) \<and>
     first_err (map2 (journal_checkEntry (jPhase j)) (jEntries j) (expectedKinds (jPlan j))) = None \<and>
     \<not> (length (jEntries j) > 1 \<and> eStatus (jEntries j ! 1) = StepApplied \<and> jDevice j = None) \<and>
     \<not> (jDevice j \<noteq> None \<and> length (jEntries j) < 2) \<and>
     (length (jEntries j) > 0 \<longrightarrow> eRoute (jEntries j ! 0) = Some (EndpointRoute (jPlan j))) \<and>
     (length (jEntries j) > 2 \<longrightarrow> (case jDevice j of None \<Rightarrow> False | Some d \<Rightarrow>
        first_err (map2 (journal_checkTunnelRoute d) (drop 2 (jEntries j)) (TunnelRoutes (jPlan j))) = None)) \<and>
     (jPhase j = PhaseConnected \<or> jPhase j = PhaseDegraded \<longrightarrow>
        length (jEntries j) = length (expectedKinds (jPlan j)) \<and> jDevice j \<noteq> None \<and>
        (\<forall>e\<in>set (jEntries j). eStatus e = StepApplied)) \<and>
     (jPhase j = PhaseDisconnected \<longrightarrow> (\<forall>e\<in>set (jEntries j). eStatus e = StepRolledBack))"
proof -
  have step: "first_err (x # xs) = None \<longleftrightarrow> x = None \<and> first_err xs = None" for x xs
    by (cases x) simp_all
  have dev: "(case jDevice j of None \<Rightarrow> None | Some d \<Rightarrow> wrapIfError m (deviceHandle_Validate d)) = None \<longleftrightarrow>
      (case jDevice j of None \<Rightarrow> True | Some d \<Rightarrow> deviceHandle_Validate d = None)" for m
    by (cases "jDevice j") simp_all
  have tun: "(case jDevice j of None \<Rightarrow> Some (Err m) | Some d \<Rightarrow> F d) = None \<longleftrightarrow>
      (case jDevice j of None \<Rightarrow> False | Some d \<Rightarrow> F d = None)" for m F
    by (cases "jDevice j") simp_all
  have all: "first_err (map (\<lambda>e. reject (Q e) m) es) = None \<longleftrightarrow> (\<forall>e\<in>set es. \<not> Q e)" for Q m es
    by simp
  show ?thesis
    unfolding journal_Validate_def journal_static_def
    unfolding step first_err_if_None dev tun all reject_None wrapIfError_None
    unfolding first_err.simps not_less not_not de_Morgan_disj
    by blast
qed

lemma journal_Validate_checked:
  "journal_Validate j = None \<longleftrightarrow> journal_static j \<and> validPhase (jPhase j) \<and> jCreatedAt j \<le> jUpdatedAt j \<and>
     (\<forall>d. jDevice j = Some d \<longrightarrow> deviceHandle_Validate d = None \<and> 2 \<le> length (jEntries j)) \<and>
     (jDevice j = None \<longrightarrow> length (jEntries j) \<le> 2 \<and> (length (jEntries j) = 2 \<longrightarrow> eStatus (jEntries j ! 1) \<noteq> StepApplied)) \<and>
     entries_checked j \<and>
     (jPhase j = PhaseConnected \<or> jPhase j = PhaseDegraded \<longrightarrow>
        length (jEntries j) = length (expectedKinds (jPlan j)) \<and> jDevice j \<noteq> None \<and>
        (\<forall>e\<in>set (jEntries j). eStatus e = StepApplied)) \<and>
     (jPhase j = PhaseDisconnected \<longrightarrow> (\<forall>e\<in>set (jEntries j). eStatus e = StepRolledBack))"
proof (cases "length (jEntries j) \<le> length (expectedKinds (jPlan j))")
  case True
  then have m: "min (length (jEntries j)) (length (expectedKinds (jPlan j))) = length (jEntries j)" by simp
  show ?thesis
  proof (cases "jDevice j")
    case None
    have two: "(1 < length xs \<longrightarrow> P) \<and> (2 < length xs \<longrightarrow> False) \<longleftrightarrow> length xs \<le> 2 \<and> (length xs = 2 \<longrightarrow> P)"
      for xs :: "entry list" and P by auto
    show ?thesis
      unfolding journal_Validate_conj entries_checked_def first_err_map2_None m
      using True None two by auto
  next
    case (Some d)
    show ?thesis
      unfolding journal_Validate_conj entries_checked_def first_err_map2_None [of "journal_checkEntry _"] m
        tunnel_checks_None Some
      using True by auto
  qed
next
  case False
  then show ?thesis unfolding journal_Validate_conj entries_checked_def by blast
qed

lemma checked_item:
  assumes c: "entries_checked j" and i: "i < length (jEntries j)"
    and dev: "jDevice j = None \<longrightarrow> length (jEntries j) \<le> 2"
  shows "entryItem (jEntries j ! i) = planItems (jPlan j) (deviceInterface j) ! i"
proof -
  let ?e = "jEntries j ! i" and ?it = "planItems (jPlan j) (deviceInterface j) ! i"
  have len: "i < length (planItems (jPlan j) (deviceInterface j))"
    using c i by (simp add: entries_checked_def length_planItems)
  have chk: "journal_checkEntry (jPhase j) ?e (expectedKinds (jPlan j) ! i) = None"
    using c i by (auto simp: entries_checked_def)
  have k: "eKind ?e = fst ?it"
    using chk len by (simp add: journal_checkEntry_None planItems_kinds [symmetric, of _ "deviceInterface j"])
  have nonroute: "eRoute ?e = None" if "snd ?it = None"
  proof -
    have "?it \<in> set (planItems (jPlan j) (deviceInterface j))" using len by simp
    then have "fst ?it \<noteq> StepEndpointRoute \<and> fst ?it \<noteq> StepTunnelRoute"
      using that by (metis planItems_kind_route prod.collapse)
    then show ?thesis using chk k by (auto simp: journal_checkEntry_None)
  qed
  have "eRoute ?e = snd ?it"
  proof (cases i)
    case 0
    then show ?thesis using c i by (auto simp: entries_checked_def planItems_0)
  next
    case (Suc i1)
    show ?thesis
    proof (cases i1)
      case 0
      then show ?thesis using nonroute Suc by (simp add: planItems_1)
    next
      case (Suc i2)
      with \<open>i = Suc i1\<close> have i2: "i = i2 + 2" by simp
      show ?thesis
      proof (cases "i2 < length (TunnelRoutes (jPlan j))")
        case True
        obtain d where d: "jDevice j = Some d" using dev i i2 by (cases "jDevice j") auto
        then have "journal_checkTunnelRoute d ?e (TunnelRoutes (jPlan j) ! i2) = None"
          using c i i2 True by (auto simp: entries_checked_def)
        then show ?thesis
          using d True i2 by (simp add: journal_checkTunnelRoute_def planItems_tunnel deviceInterface_def)
      next
        case False
        then show ?thesis using nonroute len i2 by (simp add: planItems_dns)
      qed
    qed
  qed
  with k show ?thesis by (simp add: entryItem_def)
qed

lemma item_checked:
  assumes st: "journal_static j"
    and it: "map entryItem (jEntries j) = take (length (jEntries j)) (planItems (jPlan j) (deviceInterface j))"
    and sts: "\<forall>e\<in>set (jEntries j). validStepStatus (eStatus e)"
    and rb: "jPhase j = PhaseConnecting \<longrightarrow> (\<forall>e\<in>set (jEntries j). eStatus e \<noteq> StepRolledBack)"
    and dev: "\<forall>d. jDevice j = Some d \<longrightarrow> interfacePattern (dhInterface d)"
    and two: "jDevice j = None \<longrightarrow> length (jEntries j) \<le> 2"
  shows "entries_checked j"
proof -
  let ?p = "jPlan j" and ?ifc = "deviceInterface j"
  have len: "length (jEntries j) \<le> length (planItems ?p ?ifc)"
    and nth: "\<And>i. i < length (jEntries j) \<Longrightarrow> entryItem (jEntries j ! i) = planItems ?p ?ifc ! i"
    using it by (auto simp: map_eq_take_iff)
  have p: "plan_Validate ?p = None" using st by (simp add: journal_static_def)
  have ep: "eRoute (jEntries j ! 0) = Some (EndpointRoute ?p)" if "jEntries j \<noteq> []"
    using nth [of 0] that by (simp add: entryItem_def planItems_0)
  have valid: "route_Validate r = None" if i: "i < length (jEntries j)" and r: "eRoute (jEntries j ! i) = Some r" for i r
  proof (cases i)
    case 0
    then show ?thesis using ep i r endpoint_route_valid [OF p] by auto
  next
    case (Suc i1)
    have mem: "planItems ?p ?ifc ! i \<in> set (planItems ?p ?ifc)" using i len by simp
    have item: "planItems ?p ?ifc ! i = (eKind (jEntries j ! i), Some r)" using nth [OF i] r by (simp add: entryItem_def)
    have "i \<noteq> 1" using item by (auto simp: planItems_1)
    with Suc i two obtain d where "jDevice j = Some d" by (cases "jDevice j") auto
    then have "interfacePattern ?ifc" using dev by (simp add: deviceInterface_def)
    then show ?thesis using planItems_valid_routes [OF p] mem item by metis
  qed
  have chk: "journal_checkEntry (jPhase j) (jEntries j ! i) (expectedKinds ?p ! i) = None" if i: "i < length (jEntries j)" for i
  proof -
    have k: "expectedKinds ?p ! i = eKind (jEntries j ! i)"
    proof -
      have "fst (planItems ?p ?ifc ! i) = eKind (jEntries j ! i)" using nth [OF i] by (metis entryItem_def fst_conv)
      then show ?thesis using i len by (simp add: planItems_kinds [symmetric, of _ ?ifc])
    qed
    have "planItems ?p ?ifc ! i \<in> set (planItems ?p ?ifc)" using i len by simp
    then have "validStep (eKind (jEntries j ! i)) \<and> (eRoute (jEntries j ! i) \<noteq> None \<longleftrightarrow>
        eKind (jEntries j ! i) = StepEndpointRoute \<or> eKind (jEntries j ! i) = StepTunnelRoute)"
      using nth [OF i] by (metis entryItem_def planItems_kind_route)
    then show ?thesis using k valid [OF i] sts rb i by (auto simp: journal_checkEntry_None)
  qed
  have "journal_checkTunnelRoute d (jEntries j ! (i + 2)) (TunnelRoutes ?p ! i) = None"
    if "jDevice j = Some d" "i + 2 < length (jEntries j)" "i < length (TunnelRoutes ?p)" for d i
    using nth [OF that(2)] that by (simp add: journal_checkTunnelRoute_def planItems_tunnel entryItem_def deviceInterface_def)
  with chk ep len show ?thesis by (simp add: entries_checked_def length_planItems)
qed

lemma drop1_two: "length es \<le> 2 \<Longrightarrow> (\<forall>e\<in>set (drop 1 es). P e) \<longleftrightarrow> (length es = 2 \<longrightarrow> P (es ! 1))"
  by (cases es; cases "tl es") auto

lemma journal_Validate_ok: "journal_Validate j = None \<longleftrightarrow> journal_ok j"
proof
  assume v: "journal_Validate j = None"
  then have c: "entries_checked j" and two: "jDevice j = None \<longrightarrow> length (jEntries j) \<le> 2"
    by (auto simp: journal_Validate_checked)
  have it: "map entryItem (jEntries j) = take (length (jEntries j)) (planItems (jPlan j) (deviceInterface j))"
    using checked_item [OF c _ two] c by (auto simp: map_eq_take_iff entries_checked_def length_planItems)
  have "journal_checkEntry (jPhase j) e (expectedKinds (jPlan j) ! i) = None" if "i < length (jEntries j)" "e = jEntries j ! i" for i e
    using c that by (auto simp: entries_checked_def)
  then have "validStepStatus (eStatus e) \<and> (jPhase j = PhaseConnecting \<longrightarrow> eStatus e \<noteq> StepRolledBack)"
    if "e \<in> set (jEntries j)" for e
    using that by (metis in_set_conv_nth journal_checkEntry_None)
  moreover have "\<forall>e\<in>set (drop 1 (jEntries j)). eStatus e \<noteq> StepApplied" if "jDevice j = None"
    using v that two by (simp add: drop1_two journal_Validate_checked del: One_nat_def)
  ultimately show "journal_ok j"
    using v it unfolding journal_ok_def phase_status_ok_def journal_Validate_checked by blast
next
  assume ok: "journal_ok j"
  then have two: "jDevice j = None \<longrightarrow> length (jEntries j) \<le> 2" by (auto simp: journal_ok_def)
  have "entries_checked j"
    by (rule item_checked) (use ok in \<open>auto simp: journal_ok_def phase_status_ok_def deviceHandle_Validate_def\<close>)
  moreover have "length (jEntries j) = 2 \<longrightarrow> eStatus (jEntries j ! 1) \<noteq> StepApplied" if "jDevice j = None"
    using ok that two by (simp add: drop1_two journal_ok_def del: One_nat_def)
  ultimately show "journal_Validate j = None"
    using ok unfolding journal_ok_def phase_status_ok_def journal_Validate_checked by blast
qed

lemma validatePreimages_cong:
  "jPlan j1 = jPlan j \<Longrightarrow> jRouteBefore j1 = jRouteBefore j \<Longrightarrow> jDNSBefore j1 = jDNSBefore j \<Longrightarrow>
    validatePreimages j1 = validatePreimages j"
  by (simp only: validatePreimages_def)

end
