(* ===== verification/Transaction_Log.thy ===== *)
theory Transaction_Log
  imports Tunnel_Controller Tunnel_Facts
begin

text \<open>
  An observer for the transaction. \<open>instrument c\<close> is the controller \<open>c\<close> whose adapters also
  write every journal write, mutation and cleanup, with its outcome, to a log (newest event
  first); nothing else of \<open>c\<close> changes, which \<open>Connect_instrument\<close> and
  \<open>Disconnect_instrument\<close> prove. The safety theorems are stated on this log, for
  controllers with arbitrary adapters.
\<close>

section \<open>Events\<close>

datatype event =
    EvCreate journal bool
  | EvUpdate journal bool
  | EvDelete string bool
  | EvAdd route bool
  | EvRemove route bool
  | EvDevice deviceSpec bool
  | EvDeleteDevice string bool
  | EvApplyDNS dnsConfig bool
  | EvRestoreDNS dnsConfig bool
  | EvVerify journal bool

type_synonym 'w lworld = "'w \<times> event list"

definition logged :: "(bool \<Rightarrow> event) \<Rightarrow> ('w \<Rightarrow> gerror option \<times> 'w) \<Rightarrow> 'w lworld \<Rightarrow> gerror option \<times> 'w lworld" where
  "logged ev f s = (let (e, w) = f (fst s) in (e, w, ev (e = None) # snd s))"

definition silent :: "('w \<Rightarrow> 'a \<times> 'w) \<Rightarrow> 'w lworld \<Rightarrow> 'a \<times> 'w lworld" where
  "silent f s = (let (x, w) = f (fst s) in (x, w, snd s))"

definition logStore :: "'w journalStore \<Rightarrow> 'w lworld journalStore" where
  "logStore js = \<lparr>jsCreate = (\<lambda>ctx j. logged (EvCreate j) (jsCreate js ctx j)),
     jsUpdate = (\<lambda>ctx j. logged (EvUpdate j) (jsUpdate js ctx j)),
     jsLoad = (\<lambda>ctx sid. silent (jsLoad js ctx sid)),
     jsDelete = (\<lambda>ctx sid. logged (EvDelete sid) (jsDelete js ctx sid))\<rparr>"

definition logLocker :: "'w locker \<Rightarrow> 'w lworld locker" where
  "logLocker lk = \<lparr>lkAcquire = (\<lambda>ctx sid s.
     (case lkAcquire lk ctx sid (fst s) of
        (Inl e, w) \<Rightarrow> (Inl e, w, snd s)
      | (Inr release, w) \<Rightarrow> (Inr (silent release), w, snd s)))\<rparr>"

definition logDevices :: "'w deviceManager \<Rightarrow> 'w lworld deviceManager" where
  "logDevices dm = \<lparr>dmCreate = (\<lambda>ctx sp s.
       (case dmCreate dm ctx sp (fst s) of
          (Inl e, w) \<Rightarrow> (Inl e, w, EvDevice sp False # snd s)
        | (Inr d, w) \<Rightarrow> (Inr d, w, EvDevice sp True # snd s))),
     dmDeleteOwned = (\<lambda>ctx sid h. logged (EvDeleteDevice sid) (dmDeleteOwned dm ctx sid h))\<rparr>"

definition logRoutes :: "'w routeManager \<Rightarrow> 'w lworld routeManager" where
  "logRoutes rm = \<lparr>rmSnapshot = (\<lambda>ctx. silent (rmSnapshot rm ctx)),
     rmAdd = (\<lambda>ctx r. logged (EvAdd r) (rmAdd rm ctx r)),
     rmRemove = (\<lambda>ctx r. logged (EvRemove r) (rmRemove rm ctx r))\<rparr>"

definition logDNS :: "'w dnsManager \<Rightarrow> 'w lworld dnsManager" where
  "logDNS dn = \<lparr>dnSnapshot = (\<lambda>ctx cfg. silent (dnSnapshot dn ctx cfg)),
     dnApply = (\<lambda>ctx cfg. logged (EvApplyDNS cfg) (dnApply dn ctx cfg)),
     dnRestoreIfOwned = (\<lambda>ctx before cfg. logged (EvRestoreDNS cfg) (dnRestoreIfOwned dn ctx before cfg))\<rparr>"

definition instrument :: "'w controller \<Rightarrow> 'w lworld controller" where
  "instrument c = \<lparr>cJournals = map_option logStore (cJournals c),
     cLocks = map_option logLocker (cLocks c),
     cConflicts = map_option (\<lambda>cc. \<lparr>ccCheck = (\<lambda>ctx p. silent (ccCheck cc ctx p))\<rparr>) (cConflicts c),
     cDevices = map_option logDevices (cDevices c),
     cRoutes = map_option logRoutes (cRoutes c),
     cDNS = map_option logDNS (cDNS c),
     cVerifier = map_option (\<lambda>v. \<lparr>vfVerify = (\<lambda>ctx j. logged (EvVerify j) (vfVerify v ctx j))\<rparr>) (cVerifier c),
     cNow = map_option silent (cNow c),
     cTimeNow = silent (cTimeNow c)\<rparr>"

section \<open>The observer changes nothing\<close>

text \<open>Dropping the log from the final world of a step.\<close>

definition dropLog3 :: "'a \<times> 'b \<times> 'w lworld \<Rightarrow> 'a \<times> 'b \<times> 'w" where
  "dropLog3 x = (fst x, fst (snd x), fst (snd (snd x)))"

definition dropLog2 :: "'a \<times> 'w lworld \<Rightarrow> 'a \<times> 'w" where
  "dropLog2 x = (fst x, fst (snd x))"

lemma dropLog_simps [simp]:
  "dropLog3 (a, b, w, l) = (a, b, w)" "dropLog2 (a, w, l) = (a, w)"
  by (simp_all add: dropLog3_def dropLog2_def)

lemma logged_drop [simp]: "dropLog2 (logged ev f s) = f (fst s)"
  by (simp add: logged_def split: prod.splits)

lemma silent_drop [simp]: "dropLog2 (silent f s) = f (fst s)"
  by (simp add: silent_def split: prod.splits)

lemma instrument_opt:
  "cJournals (instrument c) = map_option logStore (cJournals c)"
  "cLocks (instrument c) = map_option logLocker (cLocks c)"
  "cDevices (instrument c) = map_option logDevices (cDevices c)"
  "cRoutes (instrument c) = map_option logRoutes (cRoutes c)"
  "cDNS (instrument c) = map_option logDNS (cDNS c)"
  by (simp_all add: instrument_def)

lemma instrument_None [simp]:
  "cConflicts (instrument c) = None \<longleftrightarrow> cConflicts c = None"
  "cVerifier (instrument c) = None \<longleftrightarrow> cVerifier c = None"
  by (simp_all add: instrument_def)

lemma instrument_conflicts:
  "cConflicts c = Some cc \<Longrightarrow> ccCheck (the (cConflicts (instrument c))) ctx p = silent (ccCheck cc ctx p)"
  by (simp add: instrument_def)

lemma instrument_verifier:
  "cVerifier c = Some v \<Longrightarrow> vfVerify (the (cVerifier (instrument c))) ctx j = logged (EvVerify j) (vfVerify v ctx j)"
  by (simp add: instrument_def)

lemma instrument_now: "controller_now (instrument c) s = silent (controller_now c) s"
  by (cases "cNow c") (simp_all add: controller_now_def instrument_def silent_def)

lemma instrument_nextTime: "nextTime (instrument c) t s = silent (nextTime c t) s"
  by (simp add: nextTime_def instrument_now silent_def split: prod.splits)

lemma instrument_common: "validateCommon (instrument c) = validateCommon c"
  by (simp add: validateCommon_def instrument_opt)

lemma instrument_validate [simp]:
  "controller_validate (instrument c) p = controller_validate c p"
  "validateDisconnect (instrument c) = validateDisconnect c"
  by (simp add: controller_validate_def instrument_common instrument_opt split: option.split)
     (simp add: validateDisconnect_def instrument_opt)

text \<open>
  The adapters a run of \<^verbatim>\<open>Disconnect\<close>, respectively \<^verbatim>\<open>Connect\<close>, needs are present.
\<close>

definition rollback_ready :: "'w controller \<Rightarrow> bool" where
  "rollback_ready c \<longleftrightarrow> cJournals c \<noteq> None \<and> cDevices c \<noteq> None \<and> cRoutes c \<noteq> None"

definition dns_ready :: "'w controller \<Rightarrow> plan \<Rightarrow> bool" where
  "dns_ready c p \<longleftrightarrow> (UsesDNS p \<longrightarrow> cDNS c \<noteq> None)"


lemma drop_stampAndUpdate:
  "rollback_ready c \<Longrightarrow> dropLog3 (stampAndUpdate (instrument c) ctx j s) = stampAndUpdate c ctx j (fst s)"
  by (auto simp: stampAndUpdate_def instrument_nextTime instrument_opt silent_def logStore_def logged_def rollback_ready_def Let_def
      split: prod.splits)

text \<open>From equations between whole results to rewriting of one result.\<close>

lemma drop3E: "dropLog3 x = y \<Longrightarrow> x = (a, b, w, l) \<Longrightarrow> y = (a, b, w)"
  by auto

lemmas stamp_log = drop3E [OF drop_stampAndUpdate, rotated]

lemma drop_recordIntent:
  "rollback_ready c \<Longrightarrow> dropLog3 (recordIntent (instrument c) ctx j e s) = recordIntent c ctx j e (fst s)"
  by (auto simp: recordIntent_def dest!: stamp_log split: prod.splits option.splits)

lemma drop_markApplied:
  "rollback_ready c \<Longrightarrow> dropLog3 (markApplied (instrument c) ctx j i s) = markApplied c ctx j i (fst s)"
  by (auto simp: markApplied_def dest!: stamp_log split: prod.splits)

lemma drop_setPhase:
  "rollback_ready c \<Longrightarrow> dropLog3 (setPhase (instrument c) ctx j ph s) = setPhase c ctx j ph (fst s)"
  by (auto simp: setPhase_def dropLog3_def [of "(_, _, s)"] Let_def dest!: stamp_log split: prod.splits)

lemmas step_log = stamp_log drop3E [OF drop_recordIntent, rotated] drop3E [OF drop_markApplied, rotated] drop3E [OF drop_setPhase, rotated]

lemma drop_rmAdd:
  "rollback_ready c \<Longrightarrow> dropLog2 (rmAdd (the (cRoutes (instrument c))) ctx r s) = rmAdd (the (cRoutes c)) ctx r (fst s)"
  by (auto simp: rollback_ready_def instrument_opt logRoutes_def)

lemma drop_dmCreate:
  "rollback_ready c \<Longrightarrow> dropLog2 (dmCreate (the (cDevices (instrument c))) ctx sp s) = dmCreate (the (cDevices c)) ctx sp (fst s)"
  by (auto simp: rollback_ready_def instrument_opt logDevices_def split: prod.splits sum.splits)

lemma drop_dnApply:
  "cDNS c \<noteq> None \<Longrightarrow> dropLog2 (dnApply (the (cDNS (instrument c))) ctx cfg s) = dnApply (the (cDNS c)) ctx cfg (fst s)"
  by (auto simp: instrument_opt logDNS_def)

lemma drop_jsDelete:
  "rollback_ready c \<Longrightarrow> dropLog2 (jsDelete (the (cJournals (instrument c))) ctx sid s) = jsDelete (the (cJournals c)) ctx sid (fst s)"
  by (auto simp: rollback_ready_def instrument_opt logStore_def)

lemma drop_jsCreate:
  "rollback_ready c \<Longrightarrow> dropLog2 (jsCreate (the (cJournals (instrument c))) ctx j s) = jsCreate (the (cJournals c)) ctx j (fst s)"
  by (auto simp: rollback_ready_def instrument_opt logStore_def)

lemma drop_jsLoad:
  "rollback_ready c \<Longrightarrow> dropLog2 (jsLoad (the (cJournals (instrument c))) ctx sid s) = jsLoad (the (cJournals c)) ctx sid (fst s)"
  by (auto simp: rollback_ready_def instrument_opt logStore_def)

lemma drop2E: "dropLog2 x = y \<Longrightarrow> x = (a, w, l) \<Longrightarrow> y = (a, w)"
  by auto

lemmas adapter_log = drop2E [OF drop_rmAdd, rotated] drop2E [OF drop_dmCreate, rotated] drop2E [OF drop_dnApply, rotated]
  drop2E [OF drop_jsDelete, rotated] drop2E [OF drop_jsCreate, rotated] drop2E [OF drop_jsLoad, rotated]

lemma drop_applyRoute:
  "rollback_ready c \<Longrightarrow> dropLog3 (applyRoute (instrument c) ctx j k r s) = applyRoute c ctx j k r (fst s)"
  by (auto simp: applyRoute_def dropLog3_def [of "(_, _, s)"] drop_markApplied
      dest!: step_log adapter_log split: prod.splits option.splits sum.splits)

lemma drop_applyTunnelRoutes:
  "rollback_ready c \<Longrightarrow>
    dropLog3 (applyTunnelRoutes (instrument c) ctx ifc j rs s) = applyTunnelRoutes c ctx ifc j rs (fst s)"
proof (induction rs arbitrary: j s)
  case Nil
  then show ?case by (simp add: dropLog3_def)
next
  case (Cons r rs)
  then show ?case
    by (auto dest!: drop3E [OF drop_applyRoute, rotated] split: prod.splits option.splits)
qed

lemma drop_applyDevice:
  "rollback_ready c \<Longrightarrow> dropLog3 (applyDevice (instrument c) ctx p j s) = applyDevice c ctx p j (fst s)"
  by (auto simp: applyDevice_def drop_markApplied
      dest!: step_log adapter_log split: prod.splits option.splits sum.splits)

lemma drop_applyDNS:
  "rollback_ready c \<Longrightarrow> dns_ready c p \<Longrightarrow> dropLog3 (applyDNS (instrument c) ctx p j s) = applyDNS c ctx p j (fst s)"
  by (auto simp: applyDNS_def dns_ready_def dropLog3_def [of "(_, _, s)"] drop_markApplied
      dest!: step_log adapter_log split: prod.splits option.splits sum.splits)

lemma nextTime_increases: "nextTime c t w = (t', w') \<Longrightarrow> t < t'"
  by (auto simp: nextTime_def split: prod.splits if_splits)

lemma stamp_journal:
  "stampAndUpdate c ctx j w = (e, j1, w1) \<Longrightarrow> \<exists>t > jUpdatedAt j. j1 = j\<lparr>jUpdatedAt := t\<rparr>"
  by (auto simp: stampAndUpdate_def Let_def dest!: nextTime_increases split: prod.splits)

lemma setStatus_entries: "jEntries (setStatus i st j) = (jEntries j)[i := (jEntries j ! i)\<lparr>eStatus := st\<rparr>]"
  by (simp add: setStatus_def)

lemma setStatus_kinds: "map eKind (jEntries (setStatus i st j)) = map eKind (jEntries j)"
  by (simp add: setStatus_def map_update) (metis list_update_beyond list_update_id map_update nat_le_linear nat_less_le nth_map length_map not_le)

text \<open>The kinds of step a journal holds never ask for an adapter the controller lacks.\<close>

definition kinds_ready :: "'w controller \<Rightarrow> journal \<Rightarrow> bool" where
  "kinds_ready c j \<longleftrightarrow> (StepDNS \<in> set (map eKind (jEntries j)) \<longrightarrow> cDNS c \<noteq> None)"

lemma kinds_ready_setStatus [simp]: "kinds_ready c (setStatus i st j) = kinds_ready c j"
  by (simp add: kinds_ready_def setStatus_kinds del: set_map)

lemma kinds_ready_stamp: "stampAndUpdate c' ctx j w = (e, j1, w1) \<Longrightarrow> kinds_ready c j1 = kinds_ready c j"
  by (auto dest!: stamp_journal simp: kinds_ready_def)

lemma length_setStatus [simp]: "length (jEntries (setStatus i st j)) = length (jEntries j)"
  by (simp add: setStatus_def)

lemma length_stamp: "stampAndUpdate c ctx j w = (e, j1, w1) \<Longrightarrow> length (jEntries j1) = length (jEntries j)"
  by (auto dest!: stamp_journal)

lemma drop_undoEntry:
  "rollback_ready c \<Longrightarrow> eKind e = StepDNS \<longrightarrow> cDNS c \<noteq> None \<Longrightarrow>
    dropLog2 (undoEntry (instrument c) ctx j e s) = undoEntry c ctx j e (fst s)"
  by (auto simp: undoEntry_def instrument_opt rollback_ready_def logDNS_def logDevices_def logRoutes_def
      dropLog2_def [of "(_, s)"] split: stepKind.split option.split)

lemma drop_rollbackEntries:
  "rollback_ready c \<Longrightarrow> kinds_ready c j \<Longrightarrow> n \<le> length (jEntries j) \<Longrightarrow>
    dropLog3 (rollbackEntries (instrument c) ctx n j errs s) = rollbackEntries c ctx n j errs (fst s)"
proof (induction n arbitrary: j errs s)
  case 0
  then show ?case by (simp add: dropLog3_def)
next
  case (Suc i)
  have dns: "eKind (jEntries j ! i) = StepDNS \<longrightarrow> cDNS c \<noteq> None"
    using Suc.prems by (auto simp: kinds_ready_def image_iff) (metis Suc_le_lessD nth_mem)
  obtain e w1 l1 where u: "undoEntry (instrument c) ctx j (jEntries j ! i) s = (e, w1, l1)" by (metis prod_cases3)
  then have u': "undoEntry c ctx j (jEntries j ! i) (fst s) = (e, w1)"
    using drop_undoEntry [OF Suc.prems(1) dns, of ctx j s] by simp
  obtain e2 j1 w2 l2 where v: "stampAndUpdate (instrument c) ctx (setStatus i StepRolledBack j) (w1, l1) = (e2, j1, w2, l2)"
    by (metis prod_cases4)
  then have v': "stampAndUpdate c ctx (setStatus i StepRolledBack j) w1 = (e2, j1, w2)"
    using stamp_log [OF v] Suc.prems by simp
  have j1: "kinds_ready c j1" "i \<le> length (jEntries j1)" and j0: "i \<le> length (jEntries j)"
    using kinds_ready_stamp [OF v', of c] length_stamp [OF v'] Suc.prems by auto
  show ?case
    using u u' v v' Suc.IH [OF Suc.prems(1) j1] Suc.IH [OF Suc.prems(1,2) j0]
    by (auto split: option.split)
qed

lemma drop_rollbackBegin:
  "rollback_ready c \<Longrightarrow> dropLog3 (rollbackBegin (instrument c) ctx j s) = rollbackBegin c ctx j (fst s)"
  by (auto simp: rollbackBegin_def dropLog3_def [of "(_, _, s)"] dest!: stamp_log split: prod.splits option.splits)

lemma rollbackBegin_journal:
  "rollbackBegin c ctx j w = (errs, j1, w1) \<Longrightarrow> jEntries j1 = jEntries j \<and> jPlan j1 = jPlan j \<and> jSessionID j1 = jSessionID j"
  by (auto simp: rollbackBegin_def dest!: stamp_journal split: prod.splits option.splits if_splits)

lemma drop_rollbackFinish:
  "rollback_ready c \<Longrightarrow> dropLog3 (rollbackFinish (instrument c) ctx errs j s) = rollbackFinish c ctx errs j (fst s)"
  by (auto simp: rollbackFinish_def Let_def dest!: stamp_log adapter_log split: prod.splits option.splits)

lemma drop_rollback:
  assumes "rollback_ready c" "kinds_ready c j"
  shows "dropLog3 (rollback (instrument c) ctx j s) = rollback c ctx j (fst s)"
proof -
  obtain e0 j0 w0 l0 where b: "rollbackBegin (instrument c) ctx j s = (e0, j0, w0, l0)" by (metis prod_cases4)
  have b': "rollbackBegin c ctx j (fst s) = (e0, j0, w0)"
    using drop3E [OF drop_rollbackBegin [OF assms(1)] b] .
  have k: "kinds_ready c j0" using rollbackBegin_journal [OF b] assms(2) by (simp add: kinds_ready_def)
  obtain e1 j1 w1 l1 where r: "rollbackEntries (instrument c) ctx (length (jEntries j0)) j0 e0 (w0, l0) = (e1, j1, w1, l1)"
    by (metis prod_cases4)
  have r': "rollbackEntries c ctx (length (jEntries j0)) j0 e0 w0 = (e1, j1, w1)"
    using drop3E [OF drop_rollbackEntries [OF assms(1) k] r] by simp
  show ?thesis
    using b b' r r' drop_rollbackFinish [OF assms(1), of ctx e1 j1 "(w1, l1)"] by (simp add: rollback_def)
qed

section \<open>What each step leaves in the journal\<close>

lemma recordIntent_journal:
  "recordIntent c ctx j e w = (x, j1, w1) \<Longrightarrow>
    (\<exists>t > jUpdatedAt j. j1 = j\<lparr>jEntries := jEntries j @ [e], jUpdatedAt := t\<rparr>) \<and> (\<forall>i. x = Inr i \<longrightarrow> i = length (jEntries j))"
  by (auto simp: recordIntent_def dest!: stamp_journal split: prod.splits option.splits)

lemma markApplied_journal:
  "markApplied c ctx j i w = (e, j1, w1) \<Longrightarrow> \<exists>t > jUpdatedAt j. j1 = (setStatus i StepApplied j)\<lparr>jUpdatedAt := t\<rparr>"
  by (auto simp: markApplied_def setStatus_def dest!: stamp_journal split: prod.splits)

lemma setPhase_journal:
  "setPhase c ctx j ph w = (e, j1, w1) \<Longrightarrow>
    (e \<noteq> None \<and> j1 = j) \<or> (allowedTransition (jPhase j) ph \<and> (\<exists>t > jUpdatedAt j. j1 = j\<lparr>jPhase := ph, jUpdatedAt := t\<rparr>))"
  by (auto simp: setPhase_def Let_def dest!: stamp_journal split: prod.splits if_splits)

definition plannedEntry :: "stepKind \<Rightarrow> route option \<Rightarrow> entry" where
  "plannedEntry k r = \<lparr>eKind = k, eStatus = StepPlanned, eRoute = r\<rparr>"

definition appliedEntry :: "stepKind \<Rightarrow> route option \<Rightarrow> entry" where
  "appliedEntry k r = \<lparr>eKind = k, eStatus = StepApplied, eRoute = r\<rparr>"

text \<open>A journal with one more entry, planned or applied, and a later time stamp.\<close>

definition planned_step :: "journal \<Rightarrow> stepKind \<Rightarrow> route option \<Rightarrow> journal \<Rightarrow> bool" where
  "planned_step j k r j1 \<longleftrightarrow> (\<exists>t > jUpdatedAt j. j1 = j\<lparr>jEntries := jEntries j @ [plannedEntry k r], jUpdatedAt := t\<rparr>)"

definition applied_step :: "journal \<Rightarrow> stepKind \<Rightarrow> route option \<Rightarrow> deviceHandle option \<Rightarrow> journal \<Rightarrow> bool" where
  "applied_step j k r d j1 \<longleftrightarrow> (\<exists>t > jUpdatedAt j. j1 = j\<lparr>jDevice := d, jEntries := jEntries j @ [appliedEntry k r], jUpdatedAt := t\<rparr>)"

lemma recordIntent_planned:
  "recordIntent c ctx j \<lparr>eKind = k, eStatus = StepPlanned, eRoute = r\<rparr> w = (x, j1, w1) \<Longrightarrow>
    planned_step j k r j1 \<and> (\<forall>i. x = Inr i \<longrightarrow> i = length (jEntries j))"
  by (auto dest!: recordIntent_journal simp: planned_step_def plannedEntry_def)

lemma markApplied_applied:
  "markApplied c ctx (jm\<lparr>jDevice := d\<rparr>) (length (jEntries j)) w = (e, jn, w') \<Longrightarrow> planned_step j k r jm \<Longrightarrow>
    applied_step j k r d jn"
  by (auto dest!: markApplied_journal simp: planned_step_def applied_step_def setStatus_def appliedEntry_def plannedEntry_def)
     (metis (no_types, lifting) less_trans)

lemma applyRoute_journal:
  assumes "applyRoute c ctx j k r w = (e, j1, w1)"
  shows "(e = None \<longrightarrow> applied_step j k (Some r) (jDevice j) j1) \<and>
    (e \<noteq> None \<longrightarrow> j1 = j \<or> planned_step j k (Some r) j1 \<or> applied_step j k (Some r) (jDevice j) j1)"
proof (cases "route_Validate r")
  case (Some x)
  then show ?thesis using assms by (auto simp: applyRoute_def)
next
  case None
  obtain x ja wa where i: "recordIntent c ctx j \<lparr>eKind = k, eStatus = StepPlanned, eRoute = Some r\<rparr> w = (x, ja, wa)"
    by (metis prod_cases3)
  then have p: "planned_step j k (Some r) ja" and n: "\<And>i. x = Inr i \<Longrightarrow> i = length (jEntries j)"
    using recordIntent_planned [OF i] by auto
  have d: "ja\<lparr>jDevice := jDevice j\<rparr> = ja" using p by (auto simp: planned_step_def)
  have ma: "applied_step j k (Some r) (jDevice j) jn" if "markApplied c ctx ja (length (jEntries j)) w' = (e', jn, w'')" for w' e' jn w''
    using markApplied_applied [where d = "jDevice j" and jm = ja, unfolded d, OF that p] .
  show ?thesis
    using assms None i p n ma
    by (auto simp: applyRoute_def split: sum.splits prod.splits option.splits)
qed

lemma applyDevice_journal:
  assumes "applyDevice c ctx p j w = (e, j1, w1)"
  shows "(e = None \<longrightarrow> (\<exists>d. deviceHandle_Validate d = None \<and> applied_step j StepDevice None (Some d) j1)) \<and>
    (e \<noteq> None \<longrightarrow> planned_step j StepDevice None j1 \<or>
       (\<exists>d. deviceHandle_Validate d = None \<and> applied_step j StepDevice None (Some d) j1))"
proof -
  obtain x ja wa where i: "recordIntent c ctx j \<lparr>eKind = StepDevice, eStatus = StepPlanned, eRoute = None\<rparr> w = (x, ja, wa)"
    by (metis prod_cases3)
  then have p: "planned_step j StepDevice None ja" and n: "\<And>i. x = Inr i \<Longrightarrow> i = length (jEntries j)"
    using recordIntent_planned [OF i] by auto
  show ?thesis
    using assms i p n markApplied_applied [OF _ p, of c ctx]
    by (auto simp: applyDevice_def split: sum.splits prod.splits option.splits)
qed

lemma applyDNS_journal:
  assumes "applyDNS c ctx p j w = (e, j1, w1)"
  shows "(if UsesDNS p then
      (e = None \<longrightarrow> applied_step j StepDNS None (jDevice j) j1) \<and>
      (e \<noteq> None \<longrightarrow> planned_step j StepDNS None j1 \<or> applied_step j StepDNS None (jDevice j) j1)
    else e = None \<and> j1 = j)"
proof (cases "UsesDNS p")
  case True
  obtain x ja wa where i: "recordIntent c ctx j \<lparr>eKind = StepDNS, eStatus = StepPlanned, eRoute = None\<rparr> w = (x, ja, wa)"
    by (metis prod_cases3)
  then have p: "planned_step j StepDNS None ja" and n: "\<And>i. x = Inr i \<Longrightarrow> i = length (jEntries j)"
    using recordIntent_planned [OF i] by auto
  have d: "ja\<lparr>jDevice := jDevice j\<rparr> = ja" using p by (auto simp: planned_step_def)
  have ma: "applied_step j StepDNS None (jDevice j) jn" if "markApplied c ctx ja (length (jEntries j)) w' = (e', jn, w'')" for w' e' jn w''
    using markApplied_applied [where d = "jDevice j" and jm = ja, unfolded d, OF that p] .
  show ?thesis
    using assms True i p n ma
    by (auto simp: applyDNS_def split: sum.splits prod.splits option.splits)
next
  case False
  then show ?thesis using assms by (simp add: applyDNS_def)
qed

section \<open>Connect and Disconnect under observation\<close>

definition hasDNS :: "journal \<Rightarrow> bool" where
  "hasDNS j \<longleftrightarrow> StepDNS \<in> set (map eKind (jEntries j))"

lemma hasDNS_planned: "planned_step j k r j1 \<Longrightarrow> hasDNS j1 \<longleftrightarrow> hasDNS j \<or> k = StepDNS"
  by (auto simp: hasDNS_def planned_step_def plannedEntry_def)

lemma hasDNS_applied: "applied_step j k r d j1 \<Longrightarrow> hasDNS j1 \<longleftrightarrow> hasDNS j \<or> k = StepDNS"
  by (auto simp: hasDNS_def applied_step_def appliedEntry_def)

lemmas hasDNS_steps = hasDNS_planned hasDNS_applied

lemma applyRoute_hasDNS: "applyRoute c ctx j k r w = (e, j1, w1) \<Longrightarrow> k \<noteq> StepDNS \<Longrightarrow> hasDNS j1 \<Longrightarrow> hasDNS j"
  using applyRoute_journal [of c ctx j k r w e j1 w1] by (cases e) (auto simp: hasDNS_steps)

lemma applyTunnelRoutes_hasDNS: "applyTunnelRoutes c ctx ifc j rs w = (e, j1, w1) \<Longrightarrow> hasDNS j1 \<Longrightarrow> hasDNS j"
  by (induction rs arbitrary: j w) (auto dest: applyRoute_hasDNS split: prod.splits option.splits)

lemma applyDevice_hasDNS: "applyDevice c ctx p j w = (e, j1, w1) \<Longrightarrow> hasDNS j1 \<Longrightarrow> hasDNS j"
  using applyDevice_journal [of c ctx p j w e j1 w1] by (cases e) (auto simp: hasDNS_steps)

lemma applyDNS_hasDNS: "applyDNS c ctx p j w = (e, j1, w1) \<Longrightarrow> hasDNS j1 \<Longrightarrow> hasDNS j \<or> UsesDNS p"
  using applyDNS_journal [of c ctx p j w e j1 w1] by (cases e) (auto simp: hasDNS_steps split: if_splits)

lemma setPhase_hasDNS: "setPhase c ctx j ph w = (e, j1, w1) \<Longrightarrow> hasDNS j1 \<Longrightarrow> hasDNS j"
  by (auto dest!: setPhase_journal simp: hasDNS_def)

lemmas steps_hasDNS = applyTunnelRoutes_hasDNS applyDevice_hasDNS applyDNS_hasDNS setPhase_hasDNS

lemma connectSteps_hasDNS:
  assumes "connectSteps c ctx p j w = (e, j1, w1)" "hasDNS j1"
  shows "hasDNS j \<or> UsesDNS p"
  using assms
  by (auto simp: connectSteps_def dest: applyRoute_hasDNS steps_hasDNS split: prod.splits option.splits)
     (metis applyRoute_hasDNS applyTunnelRoutes_hasDNS applyDevice_hasDNS applyDNS_hasDNS setPhase_hasDNS stepKind.distinct(11))+

definition connect_ready :: "'w controller \<Rightarrow> plan \<Rightarrow> bool" where
  "connect_ready c p \<longleftrightarrow> controller_validate c p = None"

lemma connect_readyD:
  assumes "connect_ready c p"
  shows "rollback_ready c" "dns_ready c p" "\<exists>cc. cConflicts c = Some cc" "\<exists>v. cVerifier c = Some v" "\<exists>lk. cLocks c = Some lk"
  using assms
  by (auto simp: connect_ready_def controller_validate_def validateCommon_def rollback_ready_def dns_ready_def
      split: option.splits)

lemma drop_connectSteps:
  assumes r: "connect_ready c p"
  shows "dropLog3 (connectSteps (instrument c) ctx p j s) = connectSteps c ctx p j (fst s)"
proof -
  note rb = connect_readyD(1) [OF r] and dn = connect_readyD(2) [OF r]
  obtain v where v: "cVerifier c = Some v" using connect_readyD(4) [OF r] by blast
  note ver = instrument_verifier [OF v]
  obtain e1 j1 w1 l1 where 1: "applyRoute (instrument c) ctx j StepEndpointRoute (EndpointRoute p) s = (e1, j1, w1, l1)"
    by (metis prod_cases4)
  note d1 = drop3E [OF drop_applyRoute [OF rb] 1]
  obtain e2 j2 w2 l2 where 2: "applyDevice (instrument c) ctx p j1 (w1, l1) = (e2, j2, w2, l2)" by (metis prod_cases4)
  note d2 = drop3E [OF drop_applyDevice [OF rb] 2]
  obtain e3 j3 w3 l3 where 3: "applyTunnelRoutes (instrument c) ctx (dhInterface (the (jDevice j2))) j2 (TunnelRoutes p) (w2, l2)
      = (e3, j3, w3, l3)" by (metis prod_cases4)
  note d3 = drop3E [OF drop_applyTunnelRoutes [OF rb] 3]
  obtain e4 j4 w4 l4 where 4: "applyDNS (instrument c) ctx p j3 (w3, l3) = (e4, j4, w4, l4)" by (metis prod_cases4)
  note d4 = drop3E [OF drop_applyDNS [OF rb dn] 4]
  obtain e5 w5 where 5: "vfVerify v ctx j4 w4 = (e5, w5)" by (metis prod.exhaust)
  show ?thesis
    using 1 d1 2 d2 3 d3 4 d4 5 v drop_setPhase [OF rb, of ctx j4 PhaseConnected]
    by (auto simp: connectSteps_def ver logged_def split: option.split)
qed

lemma drop_connectFail:
  assumes "rollback_ready c" "kinds_ready c j"
  shows "dropLog3 (connectFail (instrument c) ctx j e s) = connectFail c ctx j e (fst s)"
proof -
  obtain e1 j1 w1 l1 where 1: "rollback (instrument c) (WithTimeout rollbackTimeout (WithoutCancel ctx)) j s = (e1, j1, w1, l1)"
    by (metis prod_cases4)
  note d1 = drop3E [OF drop_rollback [OF assms] 1]
  show ?thesis using 1 d1 by (auto simp: connectFail_def split: option.split)
qed

lemma drop_snapshotDNS:
  "dns_ready c p \<Longrightarrow> dropLog2 (snapshotDNS (instrument c) ctx p s) = snapshotDNS c ctx p (fst s)"
  by (auto simp: snapshotDNS_def dns_ready_def instrument_opt logDNS_def dropLog2_def [of "(_, s)"])

lemma drop_connectLocked:
  assumes r: "connect_ready c p"
  shows "dropLog3 (connectLocked (instrument c) ctx p s) = connectLocked c ctx p (fst s)"
proof -
  note rb = connect_readyD(1) [OF r] and dn = connect_readyD(2) [OF r]
  obtain cc where cc: "cConflicts c = Some cc" using connect_readyD(3) [OF r] by blast
  obtain e1 w1 where 1: "ccCheck cc ctx p (fst s) = (e1, w1)" by (metis prod.exhaust)
  obtain rm where rm: "cRoutes c = Some rm" using rb by (auto simp: rollback_ready_def)
  obtain x2 w2 where 2: "rmSnapshot rm ctx w1 = (x2, w2)" by (metis prod.exhaust)
  obtain x3 w3 l3 where 3: "snapshotDNS (instrument c) ctx p (w2, snd s) = (x3, w3, l3)" by (metis prod_cases3)
  note d3 = drop2E [OF drop_snapshotDNS [OF dn] 3]
  obtain now w4 where 4: "controller_now c w3 = (now, w4)" by (metis prod.exhaust)
  have main: "dropLog3 (case jsCreate (the (cJournals (instrument c))) ctx j0 (w4, l3) of
        (Some e, w5) \<Rightarrow> (zeroJournal, Some (WrapErr ''create tunnel journal'' e), w5)
      | (None, w5) \<Rightarrow> (case connectSteps (instrument c) ctx p j0 w5 of
          (Some e, j1, w6) \<Rightarrow> connectFail (instrument c) ctx j1 e w6 | (None, j1, w6) \<Rightarrow> (j1, None, w6))) =
     (case jsCreate (the (cJournals c)) ctx j0 w4 of
        (Some e, w5) \<Rightarrow> (zeroJournal, Some (WrapErr ''create tunnel journal'' e), w5)
      | (None, w5) \<Rightarrow> (case connectSteps c ctx p j0 w5 of
          (Some e, j1, w6) \<Rightarrow> connectFail c ctx j1 e w6 | (None, j1, w6) \<Rightarrow> (j1, None, w6)))"
    if "\<not> hasDNS j0" for j0
  proof -
    obtain e5 w5 l5 where 5: "jsCreate (the (cJournals (instrument c))) ctx j0 (w4, l3) = (e5, w5, l5)" by (metis prod_cases3)
    note d5 = drop2E [OF drop_jsCreate [OF rb] 5]
    obtain e6 j6 w6 l6 where 6: "connectSteps (instrument c) ctx p j0 (w5, l5) = (e6, j6, w6, l6)" by (metis prod_cases4)
    note d6 = drop3E [OF drop_connectSteps [OF r] 6]
    have "kinds_ready c j6"
      using connectSteps_hasDNS [OF 6] that dn by (auto simp: kinds_ready_def hasDNS_def dns_ready_def)
    then show ?thesis
      using 5 d5 6 d6 drop_connectFail [OF rb, of j6 ctx] by (auto split: option.split)
  qed
  have nj: "\<not> hasDNS (newJournal p rbf db now)" for rbf db by (simp add: hasDNS_def newJournal_def)
  show ?thesis
    unfolding connectLocked_def
    using cc rm 1 2 3 d3 4 main [OF nj]
    by (auto simp: instrument_conflicts [OF cc] instrument_now silent_def instrument_opt logRoutes_def Let_def
        split: option.split sum.split)
qed

theorem Connect_instrument: "dropLog3 (Connect (instrument c) ctx p s) = Connect c ctx p (fst s)"
proof (cases "plan_Validate p = None \<and> controller_validate c p = None")
  case True
  then have r: "connect_ready c p" by (simp add: connect_ready_def)
  obtain lk where lk: "cLocks c = Some lk" using connect_readyD(5) [OF r] by blast
  obtain x1 w1 where 1: "lkAcquire lk ctx (pSessionID p) (fst s) = (x1, w1)" by (metis prod.exhaust)
  obtain j2 e2 w2 l2 where 2: "connectLocked (instrument c) ctx p (w1, snd s) = (j2, e2, w2, l2)" by (metis prod_cases4)
  note d2 = drop3E [OF drop_connectLocked [OF r] 2]
  show ?thesis
    using True lk 1 2 d2
    by (auto simp: Connect_def instrument_opt logLocker_def releaseLock_def silent_def
        split: sum.split prod.splits option.splits)
next
  case False
  then show ?thesis by (auto simp: Connect_def dropLog3_def split: option.split)
qed

lemma journal_ok_hasDNS: "journal_ok j \<Longrightarrow> hasDNS j \<Longrightarrow> UsesDNS (jPlan j)"
proof -
  assume ok: "journal_ok j" and d: "hasDNS j"
  have "map eKind (jEntries j) = map fst (map entryItem (jEntries j))" by (simp add: entryItem_def)
  also have "\<dots> = map fst (take (length (jEntries j)) (planItems (jPlan j) (deviceInterface j)))"
    using ok by (simp only: journal_ok_def)
  finally have "StepDNS \<in> set (map fst (planItems (jPlan j) (deviceInterface j)))"
    using d set_take_subset by (fastforce simp: hasDNS_def take_map [symmetric])
  then show ?thesis by (auto simp: planItems_kinds expectedKinds_def split: if_splits)
qed

theorem Disconnect_instrument: "dropLog2 (Disconnect (instrument c) ctx sid uid s) = Disconnect c ctx sid uid (fst s)"
proof (cases "ValidSessionID sid \<and> 0 \<le> uid \<and> validateDisconnect c = None")
  case True
  then obtain lk where lk: "cLocks c = Some lk" and rb: "rollback_ready c"
    by (auto simp: validateDisconnect_def rollback_ready_def)
  obtain x1 w1 where 1: "lkAcquire lk ctx sid (fst s) = (x1, w1)" by (metis prod.exhaust)
  have locked: "dropLog2 (disconnectLocked (instrument c) ctx sid uid t) = disconnectLocked c ctx sid uid (fst t)" for t
  proof -
    obtain x2 w2 l2 where 2: "jsLoad (the (cJournals (instrument c))) ctx sid t = (x2, w2, l2)" by (metis prod_cases3)
    note d2 = drop2E [OF drop_jsLoad [OF rb] 2]
    have roll: "dropLog2 (case rollback (instrument c) ctx j (w2, l2) of (err, j1, w) \<Rightarrow> (err, w)) =
        (case rollback c ctx j w2 of (err, j1, w) \<Rightarrow> (err, w))"
      if "journal_Validate j = None" "\<not> (UsesDNS (jPlan j) \<and> cDNS c = None)" for j
    proof -
      have k: "kinds_ready c j" using that journal_ok_hasDNS [of j]
        by (auto simp: kinds_ready_def hasDNS_def journal_Validate_ok)
      obtain e3 j3 w3 l3 where 3: "rollback (instrument c) ctx j (w2, l2) = (e3, j3, w3, l3)" by (metis prod_cases4)
      show ?thesis using 3 drop3E [OF drop_rollback [OF rb k] 3] by simp
    qed
    show ?thesis
      using 2 d2 roll drop_jsDelete [OF rb, of ctx sid "(w2, l2)"]
      by (auto simp: disconnectLocked_def instrument_opt split: sum.split option.split)
  qed
  obtain e2 w2 l2 where 2: "disconnectLocked (instrument c) ctx sid uid (w1, snd s) = (e2, w2, l2)" by (metis prod_cases3)
  note d2 = drop2E [OF locked 2]
  show ?thesis
    using True lk 1 2 d2
    by (auto simp: Disconnect_def instrument_opt logLocker_def releaseLock_def silent_def
        split: sum.split prod.splits option.splits)
next
  case False
  then show ?thesis by (auto simp: Disconnect_def dropLog2_def split: option.split)
qed

end
