(* ===== verification/Crash_Safety.thy ===== *)
theory Crash_Safety
  imports Transaction_Log
begin

text \<open>
  Crash safety of the transaction. Every prefix of a run's event log is a moment at which
  the helper may die. At that moment the host may hold the resources the run tried to
  create and has not successfully removed (\<open>live\<close>), and the journal file may hold the last
  write that succeeded or any later write that reported an error (\<open>candidates\<close>, since a
  failed atomic replace may have taken effect before a later sync failed). The state is
  recoverable when nothing is live, or every candidate names every live resource in an
  entry that is not rolled back. The theorems hold for arbitrary adapters.
\<close>

section \<open>Resources and recoverable states\<close>

datatype resource = RRoute route | RDevice string | RDNS dnsConfig

type_synonym crashState = "resource set \<times> journal list"

text \<open>
  A mutation counts as live even when the adapter reports an error, a removal only counts
  when it reports success, and after an attempt to delete the journal there may be none.
\<close>

fun evStep :: "event \<Rightarrow> crashState \<Rightarrow> crashState" where
  "evStep (EvCreate j ok) (L, D) = (L, if ok then [j] else j # D)"
| "evStep (EvUpdate j ok) (L, D) = (L, if ok then [j] else j # D)"
| "evStep (EvDelete sid ok) (L, D) = (L, [])"
| "evStep (EvAdd r ok) (L, D) = (insert (RRoute r) L, D)"
| "evStep (EvRemove r ok) (L, D) = (if ok then L - {RRoute r} else L, D)"
| "evStep (EvDevice sp ok) (L, D) = (insert (RDevice (spSessionID sp)) L, D)"
| "evStep (EvDeleteDevice sid ok) (L, D) = (if ok then L - {RDevice sid} else L, D)"
| "evStep (EvApplyDNS cfg ok) (L, D) = (insert (RDNS cfg) L, D)"
| "evStep (EvRestoreDNS cfg ok) (L, D) = (if ok then L - {RDNS cfg} else L, D)"
| "evStep (EvVerify j ok) (L, D) = (L, D)"

definition crashRun :: "crashState \<Rightarrow> event list \<Rightarrow> crashState" where
  "crashRun s0 l = foldr evStep l s0"

definition live :: "crashState \<Rightarrow> event list \<Rightarrow> resource set" where
  "live s0 l = fst (crashRun s0 l)"

definition candidates :: "crashState \<Rightarrow> event list \<Rightarrow> journal list" where
  "candidates s0 l = snd (crashRun s0 l)"

definition entryRes :: "journal \<Rightarrow> entry \<Rightarrow> resource option" where
  "entryRes j e = (case eKind e of
     StepDevice \<Rightarrow> Some (RDevice (jSessionID j))
   | StepDNS \<Rightarrow> Some (RDNS (plan_DNSConfig (jPlan j)))
   | StepOther s \<Rightarrow> None
   | _ \<Rightarrow> map_option RRoute (eRoute e))"

definition ownedRes :: "journal \<Rightarrow> resource list" where
  "ownedRes j = List.map_filter (\<lambda>e. if eStatus e = StepRolledBack then None else entryRes j e) (jEntries j)"

definition covers :: "journal \<Rightarrow> resource set \<Rightarrow> bool" where
  "covers j L \<longleftrightarrow> L \<subseteq> set (ownedRes j)"

definition recoverable :: "crashState \<Rightarrow> bool" where
  "recoverable s \<longleftrightarrow> fst s = {} \<or> (snd s \<noteq> [] \<and> list_all (\<lambda>j. covers j (fst s)) (snd s))"

fun always_recoverable :: "crashState \<Rightarrow> event list \<Rightarrow> bool" where
  "always_recoverable s0 [] = recoverable s0"
| "always_recoverable s0 (e # l) = (recoverable (crashRun s0 (e # l)) \<and> always_recoverable s0 l)"

text \<open>There is a journal on disk: one was there or was written, and no deletion was attempted since.\<close>

fun present :: "bool \<Rightarrow> event list \<Rightarrow> bool" where
  "present b [] = b"
| "present b (ev # l) = (case ev of
     EvCreate j ok \<Rightarrow> ok \<or> present b l | EvUpdate j ok \<Rightarrow> ok \<or> present b l | EvDelete sid ok \<Rightarrow> False | _ \<Rightarrow> present b l)"

text \<open>The invariant of a running transaction: the journal in memory and every candidate cover
  what is live, and one of the candidates is on disk.\<close>

definition guarded :: "crashState \<Rightarrow> journal \<Rightarrow> event list \<Rightarrow> bool" where
  "guarded s0 j l \<longleftrightarrow> always_recoverable s0 l \<and> covers j (live s0 l) \<and> candidates s0 l \<noteq> [] \<and>
     list_all (\<lambda>d. covers d (live s0 l)) (candidates s0 l) \<and> present (snd s0 \<noteq> []) l"

lemma crashRun_simps [simp]: "crashRun s0 [] = s0" "crashRun s0 (e # l) = evStep e (crashRun s0 l)"
  by (simp_all add: crashRun_def)

lemma evStep_live [simp]:
  "live s0 (EvUpdate j ok # l) = live s0 l" "live s0 (EvCreate j ok # l) = live s0 l"
  "live s0 (EvDelete sid ok # l) = live s0 l" "live s0 (EvVerify j ok # l) = live s0 l"
  "live s0 (EvAdd r ok # l) = insert (RRoute r) (live s0 l)"
  "live s0 (EvDevice sp ok # l) = insert (RDevice (spSessionID sp)) (live s0 l)"
  "live s0 (EvApplyDNS cfg ok # l) = insert (RDNS cfg) (live s0 l)"
  "live s0 (EvRemove r ok # l) = (if ok then live s0 l - {RRoute r} else live s0 l)"
  "live s0 (EvDeleteDevice sid ok # l) = (if ok then live s0 l - {RDevice sid} else live s0 l)"
  "live s0 (EvRestoreDNS cfg ok # l) = (if ok then live s0 l - {RDNS cfg} else live s0 l)"
  by (cases "crashRun s0 l"; simp add: live_def)+

lemma evStep_candidates [simp]:
  "candidates s0 (EvUpdate j ok # l) = (if ok then [j] else j # candidates s0 l)"
  "candidates s0 (EvCreate j ok # l) = (if ok then [j] else j # candidates s0 l)"
  "candidates s0 (EvDelete sid ok # l) = []" "candidates s0 (EvVerify j ok # l) = candidates s0 l"
  "candidates s0 (EvAdd r ok # l) = candidates s0 l" "candidates s0 (EvDevice sp ok # l) = candidates s0 l"
  "candidates s0 (EvApplyDNS cfg ok # l) = candidates s0 l" "candidates s0 (EvRemove r ok # l) = candidates s0 l"
  "candidates s0 (EvDeleteDevice sid ok # l) = candidates s0 l" "candidates s0 (EvRestoreDNS cfg ok # l) = candidates s0 l"
  by (cases "crashRun s0 l"; simp add: candidates_def)+

lemma recoverable_run: "recoverable (crashRun s0 l) \<longleftrightarrow>
  live s0 l = {} \<or> (candidates s0 l \<noteq> [] \<and> list_all (\<lambda>j. covers j (live s0 l)) (candidates s0 l))"
  by (simp add: recoverable_def live_def candidates_def)

lemma covers_empty [simp]: "covers j {}"
  by (simp add: covers_def)

lemma covers_mono: "covers j L \<Longrightarrow> L' \<subseteq> L \<Longrightarrow> covers j L'"
  by (auto simp: covers_def)

lemma always_Cons: "always_recoverable s0 l \<Longrightarrow> recoverable (crashRun s0 (e # l)) \<Longrightarrow> always_recoverable s0 (e # l)"
  by simp

lemma set_ownedRes: "r \<in> set (ownedRes j) \<longleftrightarrow> (\<exists>e\<in>set (jEntries j). eStatus e \<noteq> StepRolledBack \<and> entryRes j e = Some r)"
  by (auto simp: ownedRes_def List.map_filter_def split: if_splits) force

lemma entryRes_cong: "jSessionID j1 = jSessionID j \<Longrightarrow> jPlan j1 = jPlan j \<Longrightarrow> entryRes j1 = entryRes j"
  by (rule ext) (simp add: entryRes_def split: stepKind.split)

lemma ownedRes_cong:
  "jSessionID j1 = jSessionID j \<Longrightarrow> jPlan j1 = jPlan j \<Longrightarrow> jEntries j1 = jEntries j \<Longrightarrow> ownedRes j1 = ownedRes j"
  using entryRes_cong [of j1 j] by (simp add: ownedRes_def cong: if_cong)

lemma ownedRes_stamp [simp]:
  "ownedRes (j\<lparr>jUpdatedAt := t\<rparr>) = ownedRes j" "ownedRes (j\<lparr>jPhase := ph\<rparr>) = ownedRes j"
  "ownedRes (j\<lparr>jDevice := d\<rparr>) = ownedRes j"
  by (rule ownedRes_cong; simp)+

lemma covers_stamp [simp]:
  "covers (j\<lparr>jUpdatedAt := t\<rparr>) = covers j" "covers (j\<lparr>jPhase := ph\<rparr>) = covers j" "covers (j\<lparr>jDevice := d\<rparr>) = covers j"
  by (simp_all add: covers_def fun_eq_iff)

lemma ownedRes_append: "set (ownedRes (j\<lparr>jEntries := jEntries j @ [e]\<rparr>)) =
  set (ownedRes j) \<union> (if eStatus e = StepRolledBack then {} else set_option (entryRes j e))"
  using entryRes_cong [of "j\<lparr>jEntries := jEntries j @ [e]\<rparr>" j]
  by (auto simp: set_ownedRes elem_set)

lemma entryRes_status [simp]: "entryRes j (e\<lparr>eStatus := st\<rparr>) = entryRes j e"
  by (simp add: entryRes_def split: stepKind.split)

lemma entryRes_setStatus [simp]: "entryRes (setStatus i st j) = entryRes j"
  by (rule entryRes_cong) (simp_all add: setStatus_def)

lemma nth_setStatus: "k < length (jEntries j) \<Longrightarrow>
  jEntries (setStatus i st j) ! k = (if k = i then (jEntries j ! i)\<lparr>eStatus := st\<rparr> else jEntries j ! k)"
  by (simp add: setStatus_def nth_list_update)

lemma ownedRes_setStatus:
  assumes "st \<noteq> StepRolledBack"
  shows "set (ownedRes j) \<subseteq> set (ownedRes (setStatus i st j))"
proof
  fix r assume "r \<in> set (ownedRes j)"
  then obtain k where k: "k < length (jEntries j)" "eStatus (jEntries j ! k) \<noteq> StepRolledBack" "entryRes j (jEntries j ! k) = Some r"
    by (metis set_ownedRes in_set_conv_nth)
  let ?e = "jEntries (setStatus i st j) ! k"
  have "?e \<in> set (jEntries (setStatus i st j))" using k by simp
  moreover have "eStatus ?e \<noteq> StepRolledBack" "entryRes (setStatus i st j) ?e = Some r"
    using k assms by (auto simp: nth_setStatus)
  ultimately show "r \<in> set (ownedRes (setStatus i st j))" unfolding set_ownedRes by blast
qed

lemma ownedRes_rolledBack:
  assumes "i < length (jEntries j)"
  shows "set (ownedRes j) \<subseteq> set (ownedRes (setStatus i StepRolledBack j)) \<union> set_option (entryRes j (jEntries j ! i))"
proof
  fix r assume "r \<in> set (ownedRes j)"
  then obtain k where k: "k < length (jEntries j)" "eStatus (jEntries j ! k) \<noteq> StepRolledBack" "entryRes j (jEntries j ! k) = Some r"
    by (metis set_ownedRes in_set_conv_nth)
  show "r \<in> set (ownedRes (setStatus i StepRolledBack j)) \<union> set_option (entryRes j (jEntries j ! i))"
  proof (cases "k = i")
    case False
    let ?e = "jEntries (setStatus i StepRolledBack j) ! k"
    have "?e \<in> set (jEntries (setStatus i StepRolledBack j))" using k by simp
    moreover have "eStatus ?e \<noteq> StepRolledBack" "entryRes (setStatus i StepRolledBack j) ?e = Some r"
      using k False by (simp_all add: nth_setStatus)
    ultimately show ?thesis unfolding Un_iff set_ownedRes by blast
  qed (use k in \<open>simp add: elem_set\<close>)
qed

section \<open>Steps keep the invariant\<close>

lemma stamp_event:
  "rollback_ready c \<Longrightarrow> stampAndUpdate (instrument c) ctx j s = (e, j1, s1) \<Longrightarrow> snd s1 = EvUpdate j1 (e = None) # snd s"
  by (auto simp: stampAndUpdate_def instrument_nextTime silent_def instrument_opt logStore_def logged_def rollback_ready_def Let_def
      split: prod.splits)

lemma rmAdd_event:
  "rollback_ready c \<Longrightarrow> rmAdd (the (cRoutes (instrument c))) ctx r s = (y, s1) \<Longrightarrow> snd s1 = EvAdd r (y = None) # snd s"
  by (auto simp: rollback_ready_def instrument_opt logRoutes_def logged_def split: prod.splits)

lemma dmCreate_event:
  "rollback_ready c \<Longrightarrow> dmCreate (the (cDevices (instrument c))) ctx sp s = (y, s1) \<Longrightarrow>
    snd s1 = EvDevice sp (\<not> isl y) # snd s"
  by (auto simp: rollback_ready_def instrument_opt logDevices_def split: prod.splits sum.splits)

lemma dnApply_event:
  "cDNS c \<noteq> None \<Longrightarrow> dnApply (the (cDNS (instrument c))) ctx cfg s = (y, s1) \<Longrightarrow> snd s1 = EvApplyDNS cfg (y = None) # snd s"
  by (auto simp: instrument_opt logDNS_def logged_def split: prod.splits)

lemma guarded_update:
  "guarded s0 j l \<Longrightarrow> covers j1 (live s0 l) \<Longrightarrow> guarded s0 j1 (EvUpdate j1 ok # l)"
  unfolding guarded_def always_recoverable.simps recoverable_run evStep_live evStep_candidates by simp

lemma guarded_mutation:
  assumes "guarded s0 j l" "candidates s0 l = [j]" "x \<in> set (ownedRes j)"
    "live s0 (ev # l) = insert x (live s0 l)" "candidates s0 (ev # l) = candidates s0 l"
    "present (snd s0 \<noteq> []) (ev # l) = present (snd s0 \<noteq> []) l"
  shows "guarded s0 j (ev # l)"
  using assms unfolding guarded_def always_recoverable.simps recoverable_run by (simp add: covers_def)

lemma guarded_shrink:
  assumes "guarded s0 j l" "live s0 (ev # l) \<subseteq> live s0 l" "candidates s0 (ev # l) = candidates s0 l"
    "present (snd s0 \<noteq> []) (ev # l) = present (snd s0 \<noteq> []) l"
  shows "guarded s0 j (ev # l)"
  using assms unfolding guarded_def always_recoverable.simps recoverable_run
  by (auto simp: list_all_iff intro: covers_mono)

lemma guarded_cong: "guarded s0 j l \<Longrightarrow> ownedRes j1 = ownedRes j \<Longrightarrow> guarded s0 j1 l"
  by (simp add: guarded_def covers_def)

lemma stamp_guarded:
  assumes "rollback_ready c" "stampAndUpdate (instrument c) ctx j' s = (e, j1, s1)"
    "guarded s0 j (snd s)" "covers j' (live s0 (snd s))"
  shows "guarded s0 j1 (snd s1)" "live s0 (snd s1) = live s0 (snd s)" "e = None \<Longrightarrow> candidates s0 (snd s1) = [j1]"
  using assms stamp_event [OF assms(1,2)] stamp_journal [OF assms(2)] by (auto intro: guarded_update)

lemma recordIntent_guarded:
  assumes r: "rollback_ready c" and i: "recordIntent (instrument c) ctx j e s = (x, j1, s1)" and g: "guarded s0 j (snd s)"
  shows "guarded s0 j1 (snd s1)" "x = Inr n \<Longrightarrow> candidates s0 (snd s1) = [j1]"
proof -
  let ?j = "j\<lparr>jEntries := jEntries j @ [e]\<rparr>"
  have c: "covers ?j (live s0 (snd s))" using g ownedRes_append [of j e] by (auto simp: guarded_def covers_def)
  obtain y where u: "stampAndUpdate (instrument c) ctx ?j s = (y, j1, s1)" "x = Inr n \<Longrightarrow> y = None"
    using i by (auto simp: recordIntent_def split: prod.splits option.splits)
  show "guarded s0 j1 (snd s1)" by (rule stamp_guarded(1) [OF r u(1) g c])
  show "candidates s0 (snd s1) = [j1]" if "x = Inr n" by (rule stamp_guarded(3) [OF r u(1) g c u(2) [OF that]])
qed

lemma markApplied_guarded:
  assumes r: "rollback_ready c" and m: "markApplied (instrument c) ctx j i s = (e, j1, s1)" and g: "guarded s0 j (snd s)"
  shows "guarded s0 j1 (snd s1)"
proof -
  have c: "covers (setStatus i StepApplied j) (live s0 (snd s))"
    using g ownedRes_setStatus [of StepApplied j i] by (auto simp: guarded_def covers_def)
  obtain y where "stampAndUpdate (instrument c) ctx (setStatus i StepApplied j) s = (y, j1, s1)"
    using m by (auto simp: markApplied_def split: prod.splits)
  then show ?thesis by (rule stamp_guarded(1) [OF r _ g c])
qed

lemma setPhase_guarded:
  assumes r: "rollback_ready c" and m: "setPhase (instrument c) ctx j ph s = (e, j1, s1)" and g: "guarded s0 j (snd s)"
  shows "guarded s0 j1 (snd s1)"
proof (cases "allowedTransition (jPhase j) ph")
  case True
  then obtain y where "stampAndUpdate (instrument c) ctx (j\<lparr>jPhase := ph\<rparr>) s = (y, j1, s1)"
    using m by (auto simp: setPhase_def split: prod.splits)
  then show ?thesis by (rule stamp_guarded(1) [OF r _ g]) (use g in \<open>simp add: guarded_def\<close>)
next
  case False
  then show ?thesis using m g by (auto simp: setPhase_def)
qed

lemma applyRoute_guarded:
  assumes r: "rollback_ready c" and a: "applyRoute (instrument c) ctx j k rt s = (e, j1, s1)" and g: "guarded s0 j (snd s)"
    and k: "k = StepEndpointRoute \<or> k = StepTunnelRoute"
  shows "guarded s0 j1 (snd s1)"
proof (cases "route_Validate rt")
  case None
  obtain x ja sa where i: "recordIntent (instrument c) ctx j \<lparr>eKind = k, eStatus = StepPlanned, eRoute = Some rt\<rparr> s = (x, ja, sa)"
    by (metis prod_cases3)
  note ga = recordIntent_guarded(1) [OF r i g]
  show ?thesis
  proof (cases x)
    case (Inl y)
    then show ?thesis using a None i ga by (simp add: applyRoute_def)
  next
    case (Inr n)
    obtain t where ja: "ja = j\<lparr>jEntries := jEntries j @ [\<lparr>eKind = k, eStatus = StepPlanned, eRoute = Some rt\<rparr>], jUpdatedAt := t\<rparr>"
      using recordIntent_journal [OF i] by blast
    have own: "RRoute rt \<in> set (ownedRes ja)"
      using k by (auto simp: ja set_ownedRes entryRes_def)
    obtain y sb where ad: "rmAdd (the (cRoutes (instrument c))) ctx rt sa = (y, sb)" by (metis prod.exhaust)
    have g2: "guarded s0 ja (snd sb)" unfolding rmAdd_event [OF r ad]
      by (rule guarded_mutation [OF ga recordIntent_guarded(2) [OF r i g Inr] own]) simp_all
    show ?thesis
      using a None i Inr ad g2 markApplied_guarded [OF r, of ctx ja n sb e j1 s1 s0]
      by (auto simp: applyRoute_def split: option.splits)
  qed
qed (use a g in \<open>auto simp: applyRoute_def\<close>)

lemma applyTunnelRoutes_guarded:
  assumes r: "rollback_ready c"
  shows "applyTunnelRoutes (instrument c) ctx ifc j rs s = (e, j1, s1) \<Longrightarrow> guarded s0 j (snd s) \<Longrightarrow> guarded s0 j1 (snd s1)"
  by (induction rs arbitrary: j s) (auto dest: applyRoute_guarded [OF r] split: prod.splits option.splits)

lemma applyDevice_guarded:
  assumes r: "rollback_ready c" and a: "applyDevice (instrument c) ctx p j s = (e, j1, s1)" and g: "guarded s0 j (snd s)"
    and sid: "jSessionID j = pSessionID p"
  shows "guarded s0 j1 (snd s1)"
proof -
  let ?e = "\<lparr>eKind = StepDevice, eStatus = StepPlanned, eRoute = None\<rparr>"
  let ?sp = "\<lparr>spSessionID = pSessionID p, spAddress = pTunnelAddress p, spMTU = pTunnelMTU p,
                  spEndpoint = pEndpoint p, spPeerFingerprint = pPeerFingerprint p\<rparr>"
  obtain x ja sa where i: "recordIntent (instrument c) ctx j ?e s = (x, ja, sa)"
    by (metis prod_cases3)
  note ga = recordIntent_guarded(1) [OF r i g]
  show ?thesis
  proof (cases x)
    case (Inl y)
    then show ?thesis using a i ga by (simp add: applyDevice_def)
  next
    case (Inr n)
    obtain t where ja: "ja = j\<lparr>jEntries := jEntries j @ [?e], jUpdatedAt := t\<rparr>"
      using recordIntent_journal [OF i] by blast
    have own: "RDevice (pSessionID p) \<in> set (ownedRes ja)"
      by (auto simp: ja set_ownedRes entryRes_def sid)
    obtain y sb where ad: "dmCreate (the (cDevices (instrument c))) ctx ?sp sa = (y, sb)" by (metis prod.exhaust)
    have g2: "guarded s0 ja (snd sb)" unfolding dmCreate_event [OF r ad]
      by (rule guarded_mutation [OF ga recordIntent_guarded(2) [OF r i g Inr] own]) simp_all
    have g3: "guarded s0 (ja\<lparr>jDevice := Some d\<rparr>) (snd sb)" for d
      by (rule guarded_cong [OF g2]) simp
    show ?thesis
      using a i Inr ad g2 g3 markApplied_guarded [OF r, of ctx _ n sb e j1 s1 s0]
      by (auto simp: applyDevice_def split: option.splits sum.splits)
  qed
qed

lemma applyDNS_guarded:
  assumes r: "rollback_ready c" and d: "dns_ready c p" and a: "applyDNS (instrument c) ctx p j s = (e, j1, s1)"
    and g: "guarded s0 j (snd s)" and pl: "jPlan j = p"
  shows "guarded s0 j1 (snd s1)"
proof (cases "UsesDNS p")
  case True
  let ?e = "\<lparr>eKind = StepDNS, eStatus = StepPlanned, eRoute = None\<rparr>"
  obtain x ja sa where i: "recordIntent (instrument c) ctx j ?e s = (x, ja, sa)"
    by (metis prod_cases3)
  note ga = recordIntent_guarded(1) [OF r i g]
  show ?thesis
  proof (cases x)
    case (Inl y)
    then show ?thesis using a True i ga by (simp add: applyDNS_def)
  next
    case (Inr n)
    obtain t where ja: "ja = j\<lparr>jEntries := jEntries j @ [?e], jUpdatedAt := t\<rparr>"
      using recordIntent_journal [OF i] by blast
    let ?cfg = "plan_DNSConfig p"
    have own: "RDNS ?cfg \<in> set (ownedRes ja)"
      by (auto simp: ja set_ownedRes entryRes_def pl)
    obtain y sb where ad: "dnApply (the (cDNS (instrument c))) ctx ?cfg sa = (y, sb)" by (metis prod.exhaust)
    have dn: "cDNS c \<noteq> None" using d True by (simp add: dns_ready_def)
    have g2: "guarded s0 ja (snd sb)" unfolding dnApply_event [OF dn ad]
      by (rule guarded_mutation [OF ga recordIntent_guarded(2) [OF r i g Inr] own]) simp_all
    show ?thesis
      using a True i Inr ad g2 markApplied_guarded [OF r, of ctx ja n sb e j1 s1 s0]
      by (auto simp: applyDNS_def split: option.splits)
  qed
qed (use a g in \<open>auto simp: applyDNS_def\<close>)

section \<open>Rollback\<close>

text \<open>What the loop leaves in the journal, for any adapters: only statuses and the time stamp change.\<close>

definition undone_from :: "journal \<Rightarrow> nat \<Rightarrow> journal \<Rightarrow> bool" where
  "undone_from j n j1 \<longleftrightarrow> (\<exists>es t. j1 = j\<lparr>jEntries := es, jUpdatedAt := t\<rparr> \<and> jUpdatedAt j \<le> t \<and> length es = length (jEntries j) \<and>
     (\<forall>i < length es. es ! i = jEntries j ! i \<or> (i < n \<and> es ! i = (jEntries j ! i)\<lparr>eStatus := StepRolledBack\<rparr>)))"

lemma undone_from_refl [simp]: "undone_from j n j"
  by (force simp: undone_from_def intro: exI [of _ "jEntries j"] exI [of _ "jUpdatedAt j"])

lemma undone_from_mono: "undone_from j n j1 \<Longrightarrow> undone_from j (Suc n) j1"
  unfolding undone_from_def by (elim exE conjE, rule exI, rule exI, intro conjI) (assumption | auto)+

lemma undone_from_step:
  assumes "stampAndUpdate c ctx (setStatus n StepRolledBack j) w = (e, ja, wa)" "undone_from ja n j1" "n < length (jEntries j)"
  shows "undone_from j (Suc n) j1"
proof -
  obtain t where t: "t > jUpdatedAt j" "ja = (setStatus n StepRolledBack j)\<lparr>jUpdatedAt := t\<rparr>"
    using stamp_journal [OF assms(1)] by (auto simp: setStatus_def)
  obtain es u where u: "j1 = ja\<lparr>jEntries := es, jUpdatedAt := u\<rparr>" "t \<le> u" "length es = length (jEntries j)"
    "\<forall>i < length es. es ! i = jEntries ja ! i \<or> (i < n \<and> es ! i = (jEntries ja ! i)\<lparr>eStatus := StepRolledBack\<rparr>)"
    using assms(2) t by (auto simp: undone_from_def)
  have "j1 = j\<lparr>jEntries := es, jUpdatedAt := u\<rparr>" using u(1) t by (simp add: setStatus_def)
  moreover have "es ! i = jEntries j ! i \<or> (i < Suc n \<and> es ! i = (jEntries j ! i)\<lparr>eStatus := StepRolledBack\<rparr>)" if "i < length es" for i
  proof -
    have "jEntries ja ! i = (if i = n then (jEntries j ! n)\<lparr>eStatus := StepRolledBack\<rparr> else jEntries j ! i)"
      using that u(3) t by (simp add: nth_setStatus)
    then show ?thesis using u(4) that by (auto split: if_splits)
  qed
  ultimately show ?thesis using u t unfolding undone_from_def by (intro exI [of _ es] exI [of _ u]) auto
qed

lemma rollbackEntries_journal:
  "rollbackEntries c ctx n j errs w = (errs1, j1, w1) \<Longrightarrow> n \<le> length (jEntries j) \<Longrightarrow> undone_from j n j1"
proof (induction n arbitrary: j errs w)
  case (Suc n)
  show ?case
  proof (cases "eStatus (jEntries j ! n) = StepRolledBack")
    case True
    then show ?thesis using Suc by (auto intro: undone_from_mono)
  next
    case False
    obtain y wa where u: "undoEntry c ctx j (jEntries j ! n) w = (y, wa)" by (metis prod.exhaust)
    obtain z ja wb where st: "stampAndUpdate c ctx (setStatus n StepRolledBack j) wa = (z, ja, wb)" by (metis prod_cases3)
    have len: "n \<le> length (jEntries ja)" using length_stamp [OF st] Suc.prems by simp
    show ?thesis
      using Suc.prems False u st Suc.IH [OF _ len] Suc.IH [of j] undone_from_step [OF st]
      by (auto split: option.splits intro: undone_from_mono)
  qed
qed auto

lemma undone_from_entries:
  assumes "undone_from j n j1"
  shows "length (jEntries j1) = length (jEntries j)" "jPlan j1 = jPlan j" "jSessionID j1 = jSessionID j" "jPhase j1 = jPhase j"
    "jDevice j1 = jDevice j" "jDNSBefore j1 = jDNSBefore j" "jUpdatedAt j \<le> jUpdatedAt j1"
    "i < length (jEntries j) \<Longrightarrow> n \<le> i \<Longrightarrow> jEntries j1 ! i = jEntries j ! i"
    "i < length (jEntries j) \<Longrightarrow> eStatus (jEntries j ! i) = StepRolledBack \<Longrightarrow> eStatus (jEntries j1 ! i) = StepRolledBack"
  using assms by (auto simp: undone_from_def)

text \<open>Errors only accumulate, and with none of them every visited entry ends up rolled back.\<close>

lemma rollbackEntries_errors:
  "rollbackEntries c ctx n j errs w = (errs1, j1, w1) \<Longrightarrow> n \<le> length (jEntries j) \<Longrightarrow>
    (\<exists>more. errs1 = errs @ more) \<and> (errs1 = [] \<longrightarrow> (\<forall>i < n. eStatus (jEntries j1 ! i) = StepRolledBack))"
proof (induction n arbitrary: j errs w)
  case (Suc n)
  have sub: "(\<exists>more. errs1 = er @ more) \<and> (errs1 = [] \<longrightarrow> (\<forall>i < Suc n. eStatus (jEntries j1 ! i) = StepRolledBack))"
    if r: "rollbackEntries c ctx n ja er wa = (errs1, j1, w1)" and l: "length (jEntries ja) = length (jEntries j)"
      and s: "er \<noteq> [] \<or> eStatus (jEntries ja ! n) = StepRolledBack" for ja er wa
    using Suc.IH [OF r] undone_from_entries(9) [OF rollbackEntries_journal [OF r], of n] l s Suc.prems
    by (auto simp: less_Suc_eq)
  show ?case
  proof (cases "eStatus (jEntries j ! n) = StepRolledBack")
    case True
    then show ?thesis using Suc.prems sub [of j errs w] by auto
  next
    case False
    obtain y wa where u: "undoEntry c ctx j (jEntries j ! n) w = (y, wa)" by (metis prod.exhaust)
    obtain z ja wb where st: "stampAndUpdate c ctx (setStatus n StepRolledBack j) wa = (z, ja, wb)" by (metis prod_cases3)
    have len: "length (jEntries ja) = length (jEntries j)" using length_stamp [OF st] by simp
    have rb: "eStatus (jEntries ja ! n) = StepRolledBack" using stamp_journal [OF st] Suc.prems by (auto simp: nth_setStatus)
    consider er where "er \<noteq> []" "rollbackEntries c ctx n j (errs @ er) wa = (errs1, j1, w1)"
      | er where "rollbackEntries c ctx n ja (errs @ er) wb = (errs1, j1, w1)"
      using Suc.prems False u st by (auto split: option.splits) (metis append_Nil2)
    then show ?thesis
    proof cases
      case 1
      then show ?thesis using sub [OF 1(2)] by auto
    next
      case 2
      then show ?thesis using sub [OF 2 len] rb by auto
    qed
  qed
qed auto

text \<open>The one event an undo leaves in the log.\<close>

fun undoEvent :: "resource \<Rightarrow> bool \<Rightarrow> event" where
  "undoEvent (RRoute r) ok = EvRemove r ok"
| "undoEvent (RDevice sid) ok = EvDeleteDevice sid ok"
| "undoEvent (RDNS cfg) ok = EvRestoreDNS cfg ok"

lemma undo_event:
  assumes r: "rollback_ready c" and d: "eKind e = StepDNS \<longrightarrow> cDNS c \<noteq> None" and u: "undoEntry (instrument c) ctx j e s = (y, s1)"
  shows "case entryRes j e of None \<Rightarrow> snd s1 = snd s \<and> y \<noteq> None | Some x \<Rightarrow> snd s1 = undoEvent x (y = None) # snd s"
proof -
  obtain dm rm where c: "cDevices c = Some dm" "cRoutes c = Some rm" using r by (auto simp: rollback_ready_def)
  have lg: "logged ev f s = (y, s1) \<Longrightarrow> snd s1 = ev (y = None) # snd s" for ev f
    by (auto simp: logged_def split: prod.splits)
  have rt: "case map_option RRoute (eRoute e) of None \<Rightarrow> snd s1 = snd s \<and> y \<noteq> None | Some x \<Rightarrow> snd s1 = undoEvent x (y = None) # snd s"
    if "(case eRoute e of None \<Rightarrow> (Some (Err ''route rollback entry is missing its route''), s)
           | Some r \<Rightarrow> rmRemove (the (cRoutes (instrument c))) ctx r s) = (y, s1)"
    using that c by (cases "eRoute e") (auto simp: instrument_opt logRoutes_def dest!: lg)
  show ?thesis
  proof (cases "eKind e")
    case StepDevice
    then show ?thesis using u c by (auto simp: undoEntry_def entryRes_def instrument_opt logDevices_def dest!: lg)
  next
    case StepDNS
    then show ?thesis using u d by (auto simp: undoEntry_def entryRes_def instrument_opt logDNS_def dest!: lg)
  next
    case (StepOther x)
    then show ?thesis using u by (auto simp: undoEntry_def entryRes_def)
  qed (use u rt in \<open>simp_all add: undoEntry_def entryRes_def\<close>)
qed

lemma undoEvent_effect:
  "candidates s0 (undoEvent x ok # l) = candidates s0 l" "present b (undoEvent x ok # l) = present b l"
  "live s0 (undoEvent x ok # l) = (if ok then live s0 l - {x} else live s0 l)"
  by (cases x; simp)+

lemma undo_live:
  assumes "rollback_ready c" "eKind e = StepDNS \<longrightarrow> cDNS c \<noteq> None" "undoEntry (instrument c) ctx j e s = (y, s1)"
  shows "candidates s0 (snd s1) = candidates s0 (snd s)"
    "live s0 (snd s1) = live s0 (snd s) - (if y = None then set_option (entryRes j e) else {})"
    "guarded s0 j (snd s) \<Longrightarrow> guarded s0 j (snd s1)"
proof -
  have shrink: "guarded s0 j l \<Longrightarrow> guarded s0 j (undoEvent x ok # l)" for x ok l
    by (rule guarded_shrink) (auto simp: undoEvent_effect simp del: present.simps)
  show "candidates s0 (snd s1) = candidates s0 (snd s)"
    "live s0 (snd s1) = live s0 (snd s) - (if y = None then set_option (entryRes j e) else {})"
    "guarded s0 j (snd s) \<Longrightarrow> guarded s0 j (snd s1)"
    using undo_event [OF assms] shrink by (auto simp: undoEvent_effect split: option.splits)
qed

lemma rollbackEntries_guarded:
  assumes r: "rollback_ready c"
  shows "rollbackEntries (instrument c) ctx n j errs s = (errs1, j1, s1) \<Longrightarrow> kinds_ready c j \<Longrightarrow> n \<le> length (jEntries j) \<Longrightarrow>
    guarded s0 j (snd s) \<Longrightarrow> guarded s0 j1 (snd s1)"
proof (induction n arbitrary: j errs s)
  case (Suc n)
  show ?case
  proof (cases "eStatus (jEntries j ! n) = StepRolledBack")
    case True
    then show ?thesis using Suc by simp
  next
    case False
    have dns: "eKind (jEntries j ! n) = StepDNS \<longrightarrow> cDNS c \<noteq> None"
      using Suc.prems by (auto simp: kinds_ready_def image_iff) (metis Suc_le_lessD nth_mem)
    obtain y sa where u: "undoEntry (instrument c) ctx j (jEntries j ! n) s = (y, sa)" by (metis prod.exhaust)
    note gu = undo_live [OF r dns u]
    obtain z ja sb where st: "stampAndUpdate (instrument c) ctx (setStatus n StepRolledBack j) sa = (z, ja, sb)" by (metis prod_cases3)
    have len: "n \<le> length (jEntries ja)" and k: "kinds_ready c ja"
      using length_stamp [OF st] kinds_ready_stamp [OF st, of c] Suc.prems by auto
    have "covers (setStatus n StepRolledBack j) (live s0 (snd sa))" if "y = None"
      using gu(2) [of s0] that Suc.prems ownedRes_rolledBack [of n j] by (auto simp: guarded_def covers_def)
    then have g: "guarded s0 ja (snd sb)" if "y = None"
      using stamp_guarded(1) [OF r st gu(3)] Suc.prems(4) that by blast
    show ?thesis
      using Suc.prems False u st Suc.IH [OF _ k len g] Suc.IH [of j] gu(3) [OF Suc.prems(4)]
      by (auto split: option.splits)
  qed
qed auto

lemma rollbackBegin_guarded:
  assumes "rollback_ready c" "rollbackBegin (instrument c) ctx j s = (errs, j1, s1)" "guarded s0 j (snd s)"
  shows "guarded s0 j1 (snd s1)"
proof -
  have "covers (j\<lparr>jPhase := PhaseDisconnecting\<rparr>) (live s0 (snd s))" using assms(3) by (simp add: guarded_def)
  then show ?thesis
    using assms stamp_guarded(1) [OF assms(1) _ assms(3)]
    by (auto simp: rollbackBegin_def split: if_splits prod.splits option.splits)
qed

lemma all_rolledBack_live:
  "guarded s0 j l \<Longrightarrow> \<forall>e\<in>set (jEntries j). eStatus e = StepRolledBack \<Longrightarrow> live s0 l = {}"
  by (auto simp: guarded_def covers_def set_ownedRes)

lemma jsDelete_event:
  "rollback_ready c \<Longrightarrow> jsDelete (the (cJournals (instrument c))) ctx sid s = (y, s1) \<Longrightarrow> snd s1 = EvDelete sid (y = None) # snd s"
  by (auto simp: rollback_ready_def instrument_opt logStore_def logged_def split: prod.splits)

lemma guarded_delete: "guarded s0 j l \<Longrightarrow> live s0 l = {} \<Longrightarrow> always_recoverable s0 (EvDelete sid ok # l)"
  unfolding guarded_def always_recoverable.simps recoverable_run evStep_live by blast

text \<open>
  A rollback leaves every moment recoverable; it ends with nothing live, or with an
  \<open>ErrRollback\<close> error and the invariant intact.
\<close>

definition safe_end :: "crashState \<Rightarrow> gerror option \<Rightarrow> journal \<Rightarrow> event list \<Rightarrow> bool" where
  "safe_end s0 err j l \<longleftrightarrow> always_recoverable s0 l \<and>
     (live s0 l = {} \<or> ((\<exists>e. err = Some e \<and> errors_Is e ErrRollback) \<and> guarded s0 j l))"

lemma rollbackFinish_safe:
  assumes r: "rollback_ready c" and f: "rollbackFinish (instrument c) ctx errs j s = (e, j1, s1)" and g: "guarded s0 j (snd s)"
    and rb: "errs = [] \<Longrightarrow> \<forall>x\<in>set (jEntries j). eStatus x = StepRolledBack"
  shows "safe_end s0 e j1 (snd s1)"
proof (cases "errs = []")
  case True
  obtain y ja sa where st: "stampAndUpdate (instrument c) ctx (j\<lparr>jPhase := PhaseDisconnected\<rparr>) s = (y, ja, sa)" by (metis prod_cases3)
  have ga: "guarded s0 ja (snd sa)" by (rule stamp_guarded(1) [OF r st g]) (use g in \<open>simp add: guarded_def\<close>)
  have em: "live s0 (snd sa) = {}" using all_rolledBack_live [OF g rb [OF True]] stamp_guarded(2) [OF r st g] g by (simp add: guarded_def)
  obtain z sb where d: "jsDelete (the (cJournals (instrument c))) ctx (jSessionID ja) sa = (z, sb)" by (metis prod.exhaust)
  note ev = jsDelete_event [OF r d]
  show ?thesis
    using f True st d ga em ev guarded_delete [OF ga em]
    by (auto simp: rollbackFinish_def safe_end_def guarded_def split: option.splits)
next
  case False
  obtain y ja sa where st: "stampAndUpdate (instrument c) ctx (j\<lparr>jPhase := PhaseRollbackRequired\<rparr>) s = (y, ja, sa)" by (metis prod_cases3)
  have "guarded s0 ja (snd sa)" by (rule stamp_guarded(1) [OF r st g]) (use g in \<open>simp add: guarded_def\<close>)
  then show ?thesis using f False st by (auto simp: rollbackFinish_def safe_end_def guarded_def)
qed

lemma rollback_safe:
  assumes r: "rollback_ready c" and k: "kinds_ready c j" and b: "rollback (instrument c) ctx j s = (e, j1, s1)"
    and g: "guarded s0 j (snd s)"
  shows "safe_end s0 e j1 (snd s1)"
proof -
  obtain e0 ja sa where 1: "rollbackBegin (instrument c) ctx j s = (e0, ja, sa)" by (metis prod_cases3)
  obtain e1 jb sb where 2: "rollbackEntries (instrument c) ctx (length (jEntries ja)) ja e0 sa = (e1, jb, sb)" by (metis prod_cases3)
  have ka: "kinds_ready c ja" using rollbackBegin_journal [OF 1] k by (simp add: kinds_ready_def)
  note ga = rollbackBegin_guarded [OF r 1 g]
  note gb = rollbackEntries_guarded [OF r 2 ka le_refl ga]
  have "\<forall>x\<in>set (jEntries jb). eStatus x = StepRolledBack" if "e1 = []"
    using rollbackEntries_errors [OF 2 le_refl] undone_from_entries(1) [OF rollbackEntries_journal [OF 2 le_refl]] that
    by (metis in_set_conv_nth)
  moreover have "rollbackFinish (instrument c) ctx e1 jb sb = (e, j1, s1)" using b 1 2 by (simp add: rollback_def)
  ultimately show ?thesis using rollbackFinish_safe [OF r _ gb] by blast
qed

section \<open>Connect\<close>

lemma step_keeps:
  "applied_step j k r d j1 \<Longrightarrow> jPlan j1 = jPlan j \<and> jSessionID j1 = jSessionID j"
  "planned_step j k r j1 \<Longrightarrow> jPlan j1 = jPlan j \<and> jSessionID j1 = jSessionID j"
  by (auto simp: applied_step_def planned_step_def)

lemma applyTunnelRoutes_keeps:
  "applyTunnelRoutes c ctx ifc j rs w = (e, j1, w1) \<Longrightarrow> jPlan j1 = jPlan j \<and> jSessionID j1 = jSessionID j"
proof (induction rs arbitrary: j w)
  case (Cons r rs)
  obtain x ja wa where a: "applyRoute c ctx j StepTunnelRoute (withInterface ifc r) w = (x, ja, wa)" by (metis prod_cases3)
  have "jPlan ja = jPlan j \<and> jSessionID ja = jSessionID j"
    using applyRoute_journal [OF a] by (cases x) (auto dest: step_keeps)
  then show ?case using Cons a by (auto split: option.splits)
qed auto

lemma connectSteps_guarded:
  assumes r: "connect_ready c p" and st: "connectSteps (instrument c) ctx p j s = (e, j1, s1)" and g: "guarded s0 j (snd s)"
    and j: "jPlan j = p" "jSessionID j = pSessionID p"
  shows "guarded s0 j1 (snd s1)"
proof -
  note rb = connect_readyD(1) [OF r] and dn = connect_readyD(2) [OF r]
  obtain v where v: "cVerifier c = Some v" using connect_readyD(4) [OF r] by blast
  obtain e1 ja sa where 1: "applyRoute (instrument c) ctx j StepEndpointRoute (EndpointRoute p) s = (e1, ja, sa)" by (metis prod_cases3)
  note g1 = applyRoute_guarded [OF rb 1 g]
  have ja: "e1 = None \<Longrightarrow> jPlan ja = p \<and> jSessionID ja = pSessionID p"
    using applyRoute_journal [OF 1] j by (auto dest: step_keeps)
  obtain e2 jb sb where 2: "applyDevice (instrument c) ctx p ja sa = (e2, jb, sb)" by (metis prod_cases3)
  have jb: "e1 = None \<Longrightarrow> e2 = None \<Longrightarrow> jPlan jb = p \<and> jSessionID jb = pSessionID p"
    using applyDevice_journal [OF 2] ja by (auto dest: step_keeps)
  have g2: "e1 = None \<Longrightarrow> guarded s0 jb (snd sb)" using applyDevice_guarded [OF rb 2] g1 ja by blast
  obtain e3 jc sc where 3: "applyTunnelRoutes (instrument c) ctx (dhInterface (the (jDevice jb))) jb (TunnelRoutes p) sb = (e3, jc, sc)"
    by (metis prod_cases3)
  note g3 = applyTunnelRoutes_guarded [OF rb 3]
  obtain e4 jd sd where 4: "applyDNS (instrument c) ctx p jc sc = (e4, jd, sd)" by (metis prod_cases3)
  have g4: "e1 = None \<Longrightarrow> e2 = None \<Longrightarrow> guarded s0 jd (snd sd)"
    using applyDNS_guarded [OF rb dn 4] g2 g3 jb applyTunnelRoutes_keeps [OF 3] by blast
  obtain e5 se where 5: "vfVerify (the (cVerifier (instrument c))) ctx jd sd = (e5, se)" by (metis prod.exhaust)
  have "snd se = EvVerify jd (e5 = None) # snd sd"
    using 5 v by (auto simp: instrument_verifier logged_def split: prod.splits)
  then have g5: "e1 = None \<Longrightarrow> e2 = None \<Longrightarrow> guarded s0 jd (snd se)" using g4 by (simp add: guarded_shrink)
  show ?thesis
    using st 1 2 3 4 5 g1 g2 g3 g4 g5 setPhase_guarded [OF rb, of ctx jd PhaseConnected se e j1 s1 s0]
    by (auto simp: connectSteps_def split: option.splits)
qed

lemma connectFail_safe:
  assumes r: "rollback_ready c" and k: "kinds_ready c j" and f: "connectFail (instrument c) ctx j e s = (j1, err, s1)"
    and g: "guarded s0 j (snd s)"
  shows "safe_end s0 err j1 (snd s1)"
proof -
  obtain x ja sa where b: "rollback (instrument c) (WithTimeout rollbackTimeout (WithoutCancel ctx)) j s = (x, ja, sa)"
    by (metis prod_cases3)
  show ?thesis
    using rollback_safe [OF r k b g] f b by (auto simp: connectFail_def safe_end_def errors_Join_Is split: option.splits)
qed

lemma jsCreate_event:
  "rollback_ready c \<Longrightarrow> jsCreate (the (cJournals (instrument c))) ctx j s = (y, s1) \<Longrightarrow> snd s1 = EvCreate j (y = None) # snd s"
  by (auto simp: rollback_ready_def instrument_opt logStore_def logged_def split: prod.splits)

lemma connectRun_safe:
  assumes r: "connect_ready c p" and j: "jPlan j = p" "jSessionID j = pSessionID p" "\<not> hasDNS j"
    and g: "guarded s0 j (snd s)"
    and st: "(case connectSteps (instrument c) ctx p j s of
        (Some e, j1, w6) \<Rightarrow> connectFail (instrument c) ctx j1 e w6
      | (None, j1, w6) \<Rightarrow> (j1, None, w6)) = (j2, err, s2)"
  shows "(err = None \<and> jPhase j2 = PhaseConnected \<and> guarded s0 j2 (snd s2)) \<or> safe_end s0 err j2 (snd s2)"
proof -
  obtain e ja sa where c: "connectSteps (instrument c) ctx p j s = (e, ja, sa)" by (metis prod_cases3)
  note ga = connectSteps_guarded [OF r c g j(1,2)]
  have k: "kinds_ready c ja"
    using connectSteps_hasDNS [OF c] j(3) connect_readyD(2) [OF r] by (auto simp: kinds_ready_def hasDNS_def dns_ready_def)
  show ?thesis
  proof (cases e)
    case None
    then have "jPhase ja = PhaseConnected"
      using c by (auto simp: connectSteps_def dest!: setPhase_journal split: option.splits prod.splits)
    then show ?thesis using st c None ga by simp
  next
    case (Some x)
    then show ?thesis using st c connectFail_safe [OF connect_readyD(1) [OF r] k _ ga] by auto
  qed
qed

lemma guarded_created: "guarded ({}, []) j [EvCreate j True]"
  by (simp add: guarded_def recoverable_def live_def candidates_def)

lemma fresh_safe [simp]: "safe_end ({}, []) err j []" "safe_end ({}, []) err j [EvCreate j1 ok]"
  by (auto simp: safe_end_def recoverable_def live_def)

lemma snapshotDNS_silent: "dns_ready c p \<Longrightarrow> snapshotDNS (instrument c) ctx p s = (x, s1) \<Longrightarrow> snd s1 = snd s"
  by (auto simp: snapshotDNS_def dns_ready_def instrument_opt logDNS_def silent_def split: if_splits prod.splits)

text \<open>
  The end of a \<^verbatim>\<open>Connect\<close> that started on an empty log: connected with the invariant, or
  cleaned up, or an \<open>ErrRollback\<close> error with the invariant.
\<close>

definition connect_end :: "journal \<Rightarrow> gerror option \<Rightarrow> event list \<Rightarrow> bool" where
  "connect_end j err l \<longleftrightarrow> (jPhase j = PhaseConnected \<and> guarded ({}, []) j l) \<or> safe_end ({}, []) err j l"

text \<open>
  \<^verbatim>\<open>Connect\<close> either stops before its journal exists, with an error and without having touched
  the host, or runs the steps on a freshly created valid journal.
\<close>

lemma connectLocked_cases:
  assumes r: "connect_ready c p" and e: "connectLocked (instrument c) ctx p (w, []) = (j, err, s)"
  shows "(err \<noteq> None \<and> (snd s = [] \<or> (\<exists>j1. journal_Validate j1 = None \<and> snd s = [EvCreate j1 False]))) \<or>
    (\<exists>rb db now s5. journal_Validate (newJournal p rb db now) = None \<and> snd s5 = [EvCreate (newJournal p rb db now) True] \<and>
       (case connectSteps (instrument c) ctx p (newJournal p rb db now) s5 of
          (Some e, j1, w6) \<Rightarrow> connectFail (instrument c) ctx j1 e w6
        | (None, j1, w6) \<Rightarrow> (j1, None, w6)) = (j, err, s))"
proof -
  note rb = connect_readyD(1) [OF r] and dn = connect_readyD(2) [OF r]
  obtain cc where cc: "cConflicts c = Some cc" using connect_readyD(3) [OF r] by blast
  obtain e1 s1 where 1: "ccCheck (the (cConflicts (instrument c))) ctx p (w, []) = (e1, s1)" by (metis prod.exhaust)
  have l1: "snd s1 = []" using 1 by (auto simp: instrument_conflicts [OF cc] silent_def split: prod.splits)
  obtain x2 s2 where 2: "rmSnapshot (the (cRoutes (instrument c))) ctx s1 = (x2, s2)" by (metis prod.exhaust)
  have l2: "snd s2 = []" using 2 rb l1
    by (auto simp: rollback_ready_def instrument_opt logRoutes_def silent_def split: prod.splits)
  obtain x3 s3 where 3: "snapshotDNS (instrument c) ctx p s2 = (x3, s3)" by (metis prod.exhaust)
  have l3: "snd s3 = []" using snapshotDNS_silent [OF dn 3] l2 by simp
  obtain now s4 where 4: "controller_now (instrument c) s3 = (now, s4)" by (metis prod.exhaust)
  have l4: "snd s4 = []" using 4 l3 by (auto simp: instrument_now silent_def split: prod.splits)
  show ?thesis
  proof (cases "e1 = None \<and> (\<exists>rbf. x2 = Inr rbf \<and> validatePhysicalPreimage p rbf = None \<and>
      (\<exists>db. x3 = Inr db \<and> journal_Validate (newJournal p rbf db now) = None))")
    case False
    then show ?thesis
      using e 1 2 3 4 l1 l2 l3 l4 by (auto simp: connectLocked_def Let_def split: option.splits sum.splits)
  next
    case True
    then obtain rbf db where v: "e1 = None" "x2 = Inr rbf" "validatePhysicalPreimage p rbf = None" "x3 = Inr db"
      "journal_Validate (newJournal p rbf db now) = None" by blast
    obtain y s5 where 5: "jsCreate (the (cJournals (instrument c))) ctx (newJournal p rbf db now) s4 = (y, s5)" by (metis prod.exhaust)
    have l5: "snd s5 = [EvCreate (newJournal p rbf db now) (y = None)]" using jsCreate_event [OF rb 5] l4 by simp
    show ?thesis
    proof (cases y)
      case None
      then show ?thesis using e 1 2 3 4 v 5 l5 unfolding connectLocked_def Let_def
        by (intro disjI2 exI [of _ rbf] exI [of _ db] exI [of _ now] exI [of _ s5]) simp
    next
      case (Some x)
      then show ?thesis using e 1 2 3 4 v 5 l5 by (auto simp: connectLocked_def Let_def)
    qed
  qed
qed

lemma connectLocked_safe:
  assumes r: "connect_ready c p" and e: "connectLocked (instrument c) ctx p (w, []) = (j, err, s)"
  shows "(err = None \<and> jPhase j = PhaseConnected \<and> guarded ({}, []) j (snd s)) \<or> safe_end ({}, []) err j (snd s)"
  using connectLocked_cases [OF r e]
proof (elim disjE exE conjE)
  fix rb db now s5
  assume l5: "snd s5 = [EvCreate (newJournal p rb db now) True]"
    and run: "(case connectSteps (instrument c) ctx p (newJournal p rb db now) s5 of
          (Some e, j1, w6) \<Rightarrow> connectFail (instrument c) ctx j1 e w6 | (None, j1, w6) \<Rightarrow> (j1, None, w6)) = (j, err, s)"
  have nj: "jPlan (newJournal p rb db now) = p" "jSessionID (newJournal p rb db now) = pSessionID p"
    "\<not> hasDNS (newJournal p rb db now)" by (simp_all add: newJournal_def hasDNS_def)
  have g: "guarded ({}, []) (newJournal p rb db now) (snd s5)" by (simp add: l5 guarded_created)
  show ?thesis by (rule connectRun_safe [OF r nj g run])
qed simp_all

lemma releaseLock_logged:
  assumes "cLocks c = Some lk" "lkAcquire (the (cLocks (instrument c))) ctx sid s = (Inr release, s1)"
  shows "snd s1 = snd s" "releaseLock release err s2 = (err', s3) \<Longrightarrow> snd s3 = snd s2"
    "releaseLock release err s2 = (err', s3) \<Longrightarrow> err' = err \<or> (\<exists>x. err' = errors_Join [err, Some x])"
  using assms by (auto simp: instrument_opt logLocker_def releaseLock_def silent_def split: prod.splits sum.splits option.splits)

lemma Connect_cases:
  assumes "Connect (instrument c) ctx p (w, []) = (j, err, s)"
  shows "(err \<noteq> None \<and> snd s = []) \<or>
    (connect_ready c p \<and> (\<exists>w1 err2 s2. connectLocked (instrument c) ctx p (w1, []) = (j, err2, s2) \<and> snd s = snd s2 \<and>
       (err = err2 \<or> (\<exists>x. err = errors_Join [err2, Some x]))))"
proof (cases "plan_Validate p = None \<and> controller_validate c p = None")
  case True
  then have r: "connect_ready c p" by (simp add: connect_ready_def)
  obtain lk where lk: "cLocks c = Some lk" using connect_readyD(5) [OF r] by blast
  obtain x s1 where a: "lkAcquire (the (cLocks (instrument c))) ctx (pSessionID p) (w, []) = (x, s1)" by (metis prod.exhaust)
  show ?thesis
  proof (cases x)
    case (Inl e)
    then have "snd s1 = []" using a lk by (auto simp: instrument_opt logLocker_def split: prod.splits sum.splits)
    then show ?thesis using assms True a Inl by (auto simp: Connect_def)
  next
    case (Inr release)
    obtain j2 err2 s2 where b: "connectLocked (instrument c) ctx p s1 = (j2, err2, s2)" by (metis prod_cases3)
    obtain err3 s3 where c: "releaseLock release err2 s2 = (err3, s3)" by (metis prod.exhaust)
    note rl = releaseLock_logged [OF lk a [unfolded Inr]]
    have b': "connectLocked (instrument c) ctx p (fst s1, []) = (j2, err2, s2)" using b rl(1) by (metis prod.collapse snd_conv)
    have "j = j2" "err = err3" "s = s3" using assms True a Inr b c by (auto simp: Connect_def)
    then show ?thesis using r b' rl(2) [OF c] rl(3) [OF c] by blast
  qed
next
  case False
  then show ?thesis using assms by (cases "controller_validate c p") (auto simp: Connect_def split: option.splits, metis)
qed

lemma Connect_end:
  assumes "Connect (instrument c) ctx p (w, []) = (j, err, s)"
  shows "connect_end j err (snd s)"
  using Connect_cases [OF assms]
proof (elim disjE exE conjE)
  assume "snd s = []"
  then show ?thesis by (simp add: connect_end_def)
next
  fix w1 err2 s2
  assume r: "connect_ready c p" and l: "connectLocked (instrument c) ctx p (w1, []) = (j, err2, s2)" and s: "snd s = snd s2" "err = err2"
  show ?thesis using connectLocked_safe [OF r l] s by (auto simp: connect_end_def safe_end_def)
next
  fix w1 err2 s2 x
  assume r: "connect_ready c p" and l: "connectLocked (instrument c) ctx p (w1, []) = (j, err2, s2)" and s: "snd s = snd s2"
    and e: "err = errors_Join [err2, Some x]"
  show ?thesis using connectLocked_safe [OF r l] s e by (auto simp: connect_end_def safe_end_def)
qed

lemma connect_end_recoverable: "connect_end j err l \<Longrightarrow> always_recoverable ({}, []) l"
  by (auto simp: connect_end_def safe_end_def guarded_def)

section \<open>Disconnect\<close>

lemma guarded_loaded: "covers j L \<Longrightarrow> guarded (L, [j]) j []"
  by (simp add: guarded_def recoverable_def live_def candidates_def)

lemma disconnectLocked_safe:
  assumes rb: "rollback_ready c" and ld: "jsLoad (the (cJournals c)) ctx sid w = (Inr j, w1)" and L: "covers j L"
    and d: "disconnectLocked (instrument c) ctx sid uid (w, []) = (err, s)"
  shows "always_recoverable (L, [j]) (snd s) \<and> (err = None \<longrightarrow> live (L, [j]) (snd s) = {})"
proof -
  note g = guarded_loaded [OF L]
  have ld': "jsLoad (the (cJournals (instrument c))) ctx sid (w, []) = (Inr j, w1, [])"
    using ld rb by (auto simp: rollback_ready_def instrument_opt logStore_def silent_def)
  show ?thesis
  proof (cases "journal_Validate j = None \<and> jOwnerUID j = uid \<and> \<not> (UsesDNS (jPlan j) \<and> cDNS c = None)")
    case False
    then have "snd s = [] \<and> err \<noteq> None"
      using d ld' by (auto simp: disconnectLocked_def instrument_opt(5) split: option.splits if_splits)
    then show ?thesis using g by (auto simp: guarded_def)
  next
    case True
    then have ok: "journal_ok j" by (simp add: journal_Validate_ok)
    show ?thesis
    proof (cases "jPhase j = PhaseDisconnected")
      case ph: True
      then have em: "live (L, [j]) [] = {}"
        using all_rolledBack_live [OF g] ok by (auto simp: journal_ok_def phase_status_ok_def)
      show ?thesis
        using d True ph ld' jsDelete_event [OF rb, of ctx sid "(w1, [])" err s] guarded_delete [OF g em] em
        by (auto simp: disconnectLocked_def instrument_opt)
    next
      case ph: False
      obtain e j1 s1 where b: "rollback (instrument c) ctx j (w1, []) = (e, j1, s1)" by (metis prod_cases3)
      have k: "kinds_ready c j" using True journal_ok_hasDNS [OF ok] by (auto simp: kinds_ready_def hasDNS_def)
      have "err = e" "s = s1" using d True ph ld' b by (auto simp: disconnectLocked_def instrument_opt)
      then show ?thesis using rollback_safe [OF rb k b, of "(L, [j])"] g by (auto simp: safe_end_def)
    qed
  qed
qed

end
