(* ===== verification/Journal_Validity.thy ===== *)
theory Journal_Validity
  imports Crash_Safety
begin

text \<open>
  What the transaction writes. Every journal handed to the store by \<^verbatim>\<open>Connect\<close>, and by a
  \<^verbatim>\<open>Disconnect\<close> that loaded a valid one, passes \<^verbatim>\<open>Journal.Validate\<close>, with a strictly later time
  stamp than the write before; a successful \<^verbatim>\<open>Connect\<close> ends with the complete transaction
  applied, and a rollback attempts every owned entry once, last first.
\<close>

section \<open>Valid journals through one step\<close>

text \<open>The journal between two steps of \<^verbatim>\<open>Connect\<close>: connecting, everything so far applied.\<close>

definition progress :: "journal \<Rightarrow> bool" where
  "progress j \<longleftrightarrow> journal_ok j \<and> jPhase j = PhaseConnecting \<and> (\<forall>e\<in>set (jEntries j). eStatus e = StepApplied) \<and>
     (jDevice j \<noteq> None \<longleftrightarrow> 2 \<le> length (jEntries j))"

definition nextItem :: "journal \<Rightarrow> stepKind \<Rightarrow> route option \<Rightarrow> bool" where
  "nextItem j k r \<longleftrightarrow> (let n = length (jEntries j); its = planItems (jPlan j) (deviceInterface j) in n < length its \<and> its ! n = (k, r))"

lemma journal_static_cong:
  "jSchemaVersion j1 = jSchemaVersion j \<Longrightarrow> jPlan j1 = jPlan j \<Longrightarrow> jSessionID j1 = jSessionID j \<Longrightarrow> jOwnerUID j1 = jOwnerUID j \<Longrightarrow>
    jCreatedAt j1 = jCreatedAt j \<Longrightarrow> jRouteBefore j1 = jRouteBefore j \<Longrightarrow> jDNSBefore j1 = jDNSBefore j \<Longrightarrow>
    journal_static j1 = journal_static j"
  by (simp add: journal_static_def validatePreimages_cong [of j1 j])

lemma deviceInterface_cong: "jDevice j1 = jDevice j \<Longrightarrow> deviceInterface j1 = deviceInterface j"
  by (simp add: deviceInterface_def)

lemma take_nextItem:
  "nextItem j k r \<Longrightarrow> take (Suc (length (jEntries j))) (planItems (jPlan j) (deviceInterface j)) =
     take (length (jEntries j)) (planItems (jPlan j) (deviceInterface j)) @ [(k, r)]"
  by (auto simp: nextItem_def Let_def take_Suc_conv_app_nth)

lemma planned_ok:
  assumes p: "progress j" and s: "planned_step j k r j1" and n: "nextItem j k r"
    and d: "length (jEntries j) = 0 \<or> length (jEntries j) = 1 \<or> jDevice j \<noteq> None"
  shows "journal_ok j1"
proof -
  obtain t where t: "t > jUpdatedAt j" "j1 = j\<lparr>jEntries := jEntries j @ [plannedEntry k r], jUpdatedAt := t\<rparr>"
    using s by (auto simp: planned_step_def)
  have st: "journal_static j1 = journal_static j" by (rule journal_static_cong) (simp_all add: t)
  have ifc: "deviceInterface j1 = deviceInterface j" by (rule deviceInterface_cong) (simp add: t)
  show ?thesis
    using p d t(1) take_nextItem [OF n] unfolding journal_ok_def st ifc
    by (auto simp: progress_def journal_ok_def t(2) entryItem_def plannedEntry_def phase_status_ok_def)
qed

text \<open>The device step fixes the interface the later routes use; the earlier items do not mention it.\<close>

lemma planItems_take2: "n \<le> 2 \<Longrightarrow> take n (planItems p ifc) = take n (planItems p ifc')"
  by (cases n; cases "n - 1") (auto simp: planItems_def)

lemma applied_progress:
  assumes p: "progress j" and s: "applied_step j k r d j1" and n: "nextItem j k r"
    and d: "if length (jEntries j) = 1 then \<exists>h. d = Some h \<and> deviceHandle_Validate h = None else d = jDevice j"
  shows "progress j1"
proof -
  obtain t where t: "t > jUpdatedAt j" "j1 = j\<lparr>jDevice := d, jEntries := jEntries j @ [appliedEntry k r], jUpdatedAt := t\<rparr>"
    using s by (auto simp: applied_step_def)
  have st: "journal_static j1 = journal_static j" by (rule journal_static_cong) (simp_all add: t)
  have its: "map entryItem (jEntries j1) = take (length (jEntries j1)) (planItems (jPlan j1) (deviceInterface j1))"
  proof -
    have "map entryItem (jEntries j1) = take (Suc (length (jEntries j))) (planItems (jPlan j) (deviceInterface j))"
      using p take_nextItem [OF n] by (simp add: t progress_def journal_ok_def entryItem_def appliedEntry_def)
    also have "\<dots> = take (Suc (length (jEntries j))) (planItems (jPlan j) (deviceInterface j1))"
    proof (cases "length (jEntries j) \<le> 1")
      case True
      then show ?thesis by (intro planItems_take2) simp
    next
      case False
      then have "deviceInterface j1 = deviceInterface j" using d by (intro deviceInterface_cong) (simp add: t)
      then show ?thesis by simp
    qed
    finally show ?thesis by (simp add: t)
  qed
  have "jDevice j1 \<noteq> None \<longleftrightarrow> 2 \<le> length (jEntries j1)"
    using p d by (auto simp: t progress_def split: if_splits)
  moreover have "\<forall>h. jDevice j1 = Some h \<longrightarrow> deviceHandle_Validate h = None"
    using p d by (auto simp: t progress_def journal_ok_def split: if_splits)
  moreover have "\<forall>e\<in>set (jEntries j1). eStatus e = StepApplied" "jPhase j1 = PhaseConnecting" "jCreatedAt j1 \<le> jUpdatedAt j1"
    using p t(1) by (auto simp: t(2) progress_def journal_ok_def appliedEntry_def)
  moreover have "\<forall>e\<in>set (drop 1 (jEntries j1)). eStatus e \<noteq> StepApplied" if "jDevice j1 = None"
    using that calculation(1) by auto
  moreover have "\<forall>e\<in>set (jEntries j1). validStepStatus (eStatus e)" using calculation(3) by simp
  ultimately show ?thesis
    using p its unfolding progress_def journal_ok_def st phase_status_ok_def by auto
qed

text \<open>A change of phase or a rolled-back entry keeps a journal acceptable.\<close>

lemma setPhase_ok:
  "journal_ok j \<Longrightarrow> jUpdatedAt j \<le> t \<Longrightarrow> ph = PhaseDisconnecting \<or> ph = PhaseRollbackRequired \<Longrightarrow>
    journal_ok (j\<lparr>jPhase := ph, jUpdatedAt := t\<rparr>)"
  using journal_static_cong [of "j\<lparr>jPhase := ph, jUpdatedAt := t\<rparr>" j] deviceInterface_cong [of "j\<lparr>jPhase := ph, jUpdatedAt := t\<rparr>" j]
  by (auto simp: journal_ok_def phase_status_ok_def)

lemma disconnected_ok:
  "journal_ok j \<Longrightarrow> jUpdatedAt j \<le> t \<Longrightarrow> \<forall>e\<in>set (jEntries j). eStatus e = StepRolledBack \<Longrightarrow>
    journal_ok (j\<lparr>jPhase := PhaseDisconnected, jUpdatedAt := t\<rparr>)"
  using journal_static_cong [of "j\<lparr>jPhase := PhaseDisconnected, jUpdatedAt := t\<rparr>" j]
    deviceInterface_cong [of "j\<lparr>jPhase := PhaseDisconnected, jUpdatedAt := t\<rparr>" j]
  by (auto simp: journal_ok_def phase_status_ok_def)

lemma connected_ok:
  assumes "progress j" "length (jEntries j) = length (planItems (jPlan j) (deviceInterface j))" "jUpdatedAt j \<le> t"
  shows "journal_ok (j\<lparr>jPhase := PhaseConnected, jUpdatedAt := t\<rparr>)"
proof -
  have "2 \<le> length (planItems (jPlan j) (deviceInterface j))" by (simp add: planItems_def)
  then show ?thesis
    using assms journal_static_cong [of "j\<lparr>jPhase := PhaseConnected, jUpdatedAt := t\<rparr>" j]
      deviceInterface_cong [of "j\<lparr>jPhase := PhaseConnected, jUpdatedAt := t\<rparr>" j]
    by (auto simp: journal_ok_def phase_status_ok_def progress_def length_planItems)
qed

definition rollingPhase :: "phase \<Rightarrow> bool" where
  "rollingPhase ph \<longleftrightarrow> ph \<in> {PhaseDisconnecting, PhaseForeignConflict}"

lemma rolledBack_ok:
  assumes ok: "journal_ok j" and ph: "rollingPhase (jPhase j)" and t: "jUpdatedAt j \<le> t"
  shows "journal_ok ((setStatus i StepRolledBack j)\<lparr>jUpdatedAt := t\<rparr>)" (is "journal_ok ?j")
proof -
  have st: "journal_static ?j = journal_static j" by (rule journal_static_cong) (simp_all add: setStatus_def)
  have ifc: "deviceInterface ?j = deviceInterface j" by (rule deviceInterface_cong) (simp add: setStatus_def)
  have its: "map entryItem (jEntries ?j) = map entryItem (jEntries j)"
    by (rule nth_equalityI) (simp_all add: nth_setStatus entryItem_def)
  have sts: "eStatus e = StepRolledBack \<or> e \<in> set (jEntries j)" if "e \<in> set (jEntries ?j)" for e
    using that by (auto simp: setStatus_def dest: set_update_subset_insert [THEN subsetD])
  have drops: "eStatus e = StepRolledBack \<or> e \<in> set (drop 1 (jEntries j))" if "e \<in> set (drop 1 (jEntries ?j))" for e
  proof (cases i)
    case 0
    then show ?thesis using that by (simp add: setStatus_def drop_update_cancel)
  next
    case (Suc k)
    then have "drop 1 (jEntries ?j) = (drop 1 (jEntries j))[k := (jEntries j ! i)\<lparr>eStatus := StepRolledBack\<rparr>]"
      by (simp add: setStatus_def drop_update_swap)
    then show ?thesis using that by (auto dest: set_update_subset_insert [THEN subsetD])
  qed
  have f: "jPhase ?j = jPhase j" "jDevice ?j = jDevice j" "jPlan ?j = jPlan j" "length (jEntries ?j) = length (jEntries j)"
      "jCreatedAt ?j = jCreatedAt j" "jUpdatedAt ?j = t"
    by (simp_all add: setStatus_def)
  have "\<forall>e\<in>set (jEntries ?j). validStepStatus (eStatus e)" using ok sts unfolding journal_ok_def by (metis validStepStatus.simps(4))
  moreover have "jDevice j = None \<longrightarrow> (\<forall>e\<in>set (drop 1 (jEntries ?j)). eStatus e \<noteq> StepApplied)"
    using ok drops unfolding journal_ok_def by (metis stepStatus.distinct(7))
  moreover have "phase_status_ok (jPhase j) n b es" for n b es using ph by (auto simp: rollingPhase_def phase_status_ok_def)
  ultimately show ?thesis
    using ok t unfolding journal_ok_def st ifc its f by simp
qed

section \<open>The journals a run writes\<close>

fun evWrite :: "event \<Rightarrow> journal option" where
  "evWrite (EvCreate j ok) = Some j"
| "evWrite (EvUpdate j ok) = Some j"
| "evWrite _ = None"

definition writes :: "event list \<Rightarrow> journal list" where
  "writes l = List.map_filter evWrite l"

lemma writes_Nil [simp]: "writes [] = []"
  by (simp add: writes_def List.map_filter_def)

lemma writes_Cons [simp]: "writes (ev # l) = (case evWrite ev of None \<Rightarrow> writes l | Some j \<Rightarrow> j # writes l)"
  by (simp add: writes_def List.map_filter_def split: option.split)

text \<open>Newest first: valid journals with strictly increasing time stamps, none later than \<open>j\<close>.\<close>

definition goodWrites :: "journal \<Rightarrow> event list \<Rightarrow> bool" where
  "goodWrites j l \<longleftrightarrow> list_all (\<lambda>x. journal_Validate x = None) (writes l) \<and>
     sorted_wrt (\<lambda>a b. jUpdatedAt b < jUpdatedAt a) (writes l) \<and> list_all (\<lambda>x. jUpdatedAt x \<le> jUpdatedAt j) (writes l)"

lemma goodWrites_other: "evWrite ev = None \<Longrightarrow> goodWrites j (ev # l) = goodWrites j l"
  by (simp add: goodWrites_def)

lemma goodWrites_cong: "goodWrites j l \<Longrightarrow> jUpdatedAt j1 = jUpdatedAt j \<Longrightarrow> goodWrites j1 l"
  by (simp add: goodWrites_def)

lemma goodWrites_update:
  "goodWrites j l \<Longrightarrow> jUpdatedAt j < jUpdatedAt j1 \<Longrightarrow> journal_ok j1 \<Longrightarrow> goodWrites j1 (EvUpdate j1 ok # l)"
  by (auto simp: goodWrites_def list_all_iff journal_Validate_ok)

lemma stamp_writes:
  assumes "rollback_ready c" "stampAndUpdate (instrument c) ctx j' s = (e, j1, s1)" "goodWrites j (snd s)"
    "jUpdatedAt j' = jUpdatedAt j" "\<And>t. jUpdatedAt j < t \<Longrightarrow> journal_ok (j'\<lparr>jUpdatedAt := t\<rparr>)"
  shows "goodWrites j1 (snd s1)" "journal_ok j1"
  using assms(3-) stamp_event [OF assms(1,2)] stamp_journal [OF assms(2)] by (auto intro!: goodWrites_update)

text \<open>What a step of \<^verbatim>\<open>Connect\<close> leaves: valid writes and, if it succeeded, progress; the journal stays valid and connecting.\<close>

definition stepOutcome :: "gerror option \<Rightarrow> journal \<Rightarrow> event list \<Rightarrow> bool" where
  "stepOutcome e j l \<longleftrightarrow> goodWrites j l \<and> journal_ok j \<and> jPhase j = PhaseConnecting \<and> (e = None \<longrightarrow> progress j)"

lemma recordIntent_writes:
  assumes r: "rollback_ready c"
    and i: "recordIntent (instrument c) ctx j \<lparr>eKind = k, eStatus = StepPlanned, eRoute = ro\<rparr> s = (x, j1, s1)"
    and p: "progress j" and g: "goodWrites j (snd s)" and n: "nextItem j k ro"
    and d: "length (jEntries j) = 0 \<or> length (jEntries j) = 1 \<or> jDevice j \<noteq> None"
  shows "goodWrites j1 (snd s1)" "journal_ok j1" "jPhase j1 = PhaseConnecting"
proof -
  let ?j = "j\<lparr>jEntries := jEntries j @ [plannedEntry k ro]\<rparr>"
  have ok: "journal_ok (?j\<lparr>jUpdatedAt := t\<rparr>)" if "jUpdatedAt j < t" for t
    using that by (intro planned_ok [OF p _ n d]) (auto simp: planned_step_def)
  obtain y where u: "stampAndUpdate (instrument c) ctx ?j s = (y, j1, s1)"
    using i by (auto simp: recordIntent_def plannedEntry_def split: prod.splits option.splits)
  show "goodWrites j1 (snd s1)" "journal_ok j1" using stamp_writes [OF r u g] ok by auto
  show "jPhase j1 = PhaseConnecting" using stamp_journal [OF u] p by (auto simp: progress_def)
qed

lemma markApplied_writes:
  assumes r: "rollback_ready c" and m: "markApplied (instrument c) ctx ja (length (jEntries j)) s = (e, j1, s1)"
    and ja: "ja = (jp\<lparr>jDevice := d\<rparr>)" "planned_step j k ro jp"
    and p: "progress j" and g: "goodWrites jp (snd s)" and n: "nextItem j k ro"
    and d: "if length (jEntries j) = 1 then \<exists>h. d = Some h \<and> deviceHandle_Validate h = None else d = jDevice j"
  shows "goodWrites j1 (snd s1)" "progress j1"
proof -
  obtain t where t: "t > jUpdatedAt j" "jp = j\<lparr>jEntries := jEntries j @ [plannedEntry k ro], jUpdatedAt := t\<rparr>"
    using ja(2) by (auto simp: planned_step_def)
  let ?j = "setStatus (length (jEntries j)) StepApplied ja"
  have pr: "progress (?j\<lparr>jUpdatedAt := t'\<rparr>)" if "jUpdatedAt ja < t'" for t'
    by (rule applied_progress [OF p _ n d])
       (use that t ja(1) in \<open>auto simp: applied_step_def setStatus_def plannedEntry_def appliedEntry_def intro!: exI [of _ t']\<close>)
  obtain y where u: "stampAndUpdate (instrument c) ctx ?j s = (y, j1, s1)"
    using m by (auto simp: markApplied_def split: prod.splits)
  have "goodWrites ja (snd s)" by (rule goodWrites_cong [OF g]) (simp add: ja)
  then show "goodWrites j1 (snd s1)"
    using stamp_writes(1) [OF r u] pr by (auto simp: progress_def setStatus_def)
  show "progress j1" using stamp_journal [OF u] pr by (auto simp: setStatus_def)
qed

lemma applyRoute_writes:
  assumes r: "rollback_ready c" and a: "applyRoute (instrument c) ctx j k rt s = (e, j1, s1)"
    and p: "progress j" and g: "goodWrites j (snd s)" and n: "nextItem j k (Some rt)"
    and d: "length (jEntries j) = 0 \<or> jDevice j \<noteq> None"
  shows "stepOutcome e j1 (snd s1)"
proof (cases "route_Validate rt")
  case None
  obtain x ja sa where i: "recordIntent (instrument c) ctx j \<lparr>eKind = k, eStatus = StepPlanned, eRoute = Some rt\<rparr> s = (x, ja, sa)"
    by (metis prod_cases3)
  have d': "length (jEntries j) = 0 \<or> length (jEntries j) = 1 \<or> jDevice j \<noteq> None" using d by blast
  note w = recordIntent_writes [OF r i p g n d']
  have ps: "planned_step j k (Some rt) ja" and nx: "\<And>m. x = Inr m \<Longrightarrow> m = length (jEntries j)" using recordIntent_planned [OF i] by auto
  obtain y sb where ad: "rmAdd (the (cRoutes (instrument c))) ctx rt sa = (y, sb)" by (metis prod.exhaust)
  have gb: "goodWrites ja (snd sb)" using w(1) by (simp add: rmAdd_event [OF r ad] goodWrites_other)
  have jd: "ja = ja\<lparr>jDevice := jDevice j\<rparr>" using ps by (auto simp: planned_step_def)
  have l1: "length (jEntries j) \<noteq> 1" using n by (auto simp: nextItem_def Let_def planItems_1)
  have "stepOutcome e' jn (snd s')" if "markApplied (instrument c) ctx ja (length (jEntries j)) sb = (e', jn, s')" for e' jn s'
    using markApplied_writes [OF r that jd ps p gb n] l1 by (auto simp: stepOutcome_def progress_def)
  then show ?thesis
    using a None i w gb nx ad by (auto simp: applyRoute_def stepOutcome_def split: sum.splits option.splits)
qed (use a p g in \<open>auto simp: applyRoute_def stepOutcome_def progress_def\<close>)

lemma applyDevice_writes:
  assumes r: "rollback_ready c" and a: "applyDevice (instrument c) ctx p j s = (e, j1, s1)"
    and p: "progress j" and g: "goodWrites j (snd s)" and l1: "length (jEntries j) = 1"
  shows "stepOutcome e j1 (snd s1)"
proof -
  let ?sp = "\<lparr>spSessionID = pSessionID p, spAddress = pTunnelAddress p, spMTU = pTunnelMTU p,
                  spEndpoint = pEndpoint p, spPeerFingerprint = pPeerFingerprint p\<rparr>"
  have n: "nextItem j StepDevice None"
    using l1 length_planItems_ge2 [of "jPlan j" "deviceInterface j"] by (simp add: nextItem_def planItems_1)
  obtain x ja sa where i: "recordIntent (instrument c) ctx j \<lparr>eKind = StepDevice, eStatus = StepPlanned, eRoute = None\<rparr> s = (x, ja, sa)"
    by (metis prod_cases3)
  note w = recordIntent_writes [OF r i p g n disjI2 [OF disjI1 [OF l1]]]
  have ps: "planned_step j StepDevice None ja" and nx: "\<And>m. x = Inr m \<Longrightarrow> m = length (jEntries j)" using recordIntent_planned [OF i] by auto
  obtain y sb where ad: "dmCreate (the (cDevices (instrument c))) ctx ?sp sa = (y, sb)" by (metis prod.exhaust)
  have gb: "goodWrites ja (snd sb)" using w(1) by (simp add: dmCreate_event [OF r ad] goodWrites_other)
  have "stepOutcome e' jn (snd s')"
    if "markApplied (instrument c) ctx (ja\<lparr>jDevice := Some d\<rparr>) (length (jEntries j)) sb = (e', jn, s')" "deviceHandle_Validate d = None" for d e' jn s'
    using markApplied_writes [OF r that(1) refl ps p gb n] that(2) l1 by (auto simp: stepOutcome_def progress_def)
  then show ?thesis
    using a i w gb nx ad by (auto simp: applyDevice_def stepOutcome_def split: sum.splits option.splits)
qed

lemma applyDNS_writes:
  assumes r: "rollback_ready c" and dn: "dns_ready c p" and a: "applyDNS (instrument c) ctx p j s = (e, j1, s1)"
    and p: "progress j" "jPlan j = p" and g: "goodWrites j (snd s)" and l: "length (jEntries j) = length (TunnelRoutes p) + 2"
  shows "stepOutcome e j1 (snd s1)"
proof (cases "UsesDNS p")
  case True
  have n: "nextItem j StepDNS None"
    using True l p(2) by (simp add: nextItem_def planItems_def nth_append)
  have d: "length (jEntries j) = 0 \<or> length (jEntries j) = 1 \<or> jDevice j \<noteq> None" using p(1) l by (auto simp: progress_def)
  obtain x ja sa where i: "recordIntent (instrument c) ctx j \<lparr>eKind = StepDNS, eStatus = StepPlanned, eRoute = None\<rparr> s = (x, ja, sa)"
    by (metis prod_cases3)
  note w = recordIntent_writes [OF r i p(1) g n d]
  have ps: "planned_step j StepDNS None ja" and nx: "\<And>m. x = Inr m \<Longrightarrow> m = length (jEntries j)" using recordIntent_planned [OF i] by auto
  have cd: "cDNS c \<noteq> None" using dn True by (simp add: dns_ready_def)
  obtain y sb where ad: "dnApply (the (cDNS (instrument c))) ctx (plan_DNSConfig p) sa = (y, sb)" by (metis prod.exhaust)
  have gb: "goodWrites ja (snd sb)" using w(1) by (simp add: dnApply_event [OF cd ad] goodWrites_other)
  have jd: "ja = ja\<lparr>jDevice := jDevice j\<rparr>" using ps by (auto simp: planned_step_def)
  have "stepOutcome e' jn (snd s')" if "markApplied (instrument c) ctx ja (length (jEntries j)) sb = (e', jn, s')" for e' jn s'
    using markApplied_writes [OF r that jd ps p(1) gb n] l by (auto simp: stepOutcome_def progress_def)
  then show ?thesis
    using a True i w gb nx ad by (auto simp: applyDNS_def stepOutcome_def split: sum.splits option.splits)
qed (use a p g in \<open>auto simp: applyDNS_def stepOutcome_def progress_def\<close>)

lemma applyTunnelRoutes_writes:
  assumes r: "rollback_ready c"
  shows "applyTunnelRoutes (instrument c) ctx ifc j rs s = (e, j1, s1) \<Longrightarrow> progress j \<Longrightarrow> goodWrites j (snd s) \<Longrightarrow>
    2 \<le> length (jEntries j) \<Longrightarrow> ifc = deviceInterface j \<Longrightarrow> rs = drop (length (jEntries j) - 2) (TunnelRoutes (jPlan j)) \<Longrightarrow>
    length (jEntries j) \<le> length (TunnelRoutes (jPlan j)) + 2 \<Longrightarrow>
    stepOutcome e j1 (snd s1) \<and> jPlan j1 = jPlan j \<and> (e = None \<longrightarrow> length (jEntries j1) = length (TunnelRoutes (jPlan j)) + 2)"
proof (induction rs arbitrary: j s)
  case Nil
  then show ?case by (auto simp: stepOutcome_def progress_def)
next
  case (Cons rt rs)
  obtain k where len: "length (jEntries j) = Suc (Suc k)" using Cons.prems(4) by (metis add_2_eq_Suc le_Suc_ex)
  then have dr: "rt # rs = drop k (TunnelRoutes (jPlan j))" using Cons.prems(6) by simp
  then have m: "k < length (TunnelRoutes (jPlan j))" by (metis drop_eq_Nil2 list.discI not_le)
  have rt: "rt = TunnelRoutes (jPlan j) ! k" "rs = drop (Suc k) (TunnelRoutes (jPlan j))"
    using dr Cons_nth_drop_Suc [OF m] by (metis list.inject)+
  have n: "nextItem j StepTunnelRoute (Some (withInterface ifc rt))"
    using m by (simp add: nextItem_def len planItems_tunnel rt(1) Cons.prems(5)) (simp add: planItems_def)
  have d: "length (jEntries j) = 0 \<or> jDevice j \<noteq> None" using Cons.prems(2,4) by (auto simp: progress_def)
  obtain x ja sa where a: "applyRoute (instrument c) ctx j StepTunnelRoute (withInterface ifc rt) s = (x, ja, sa)" by (metis prod_cases3)
  note so = applyRoute_writes [OF r a Cons.prems(2,3) n d]
  have pl: "jPlan ja = jPlan j" using applyRoute_journal [OF a] by (cases x) (auto dest: step_keeps)
  show ?case
  proof (cases x)
    case None
    then obtain t where ja: "ja = j\<lparr>jDevice := jDevice j, jEntries := jEntries j @ [appliedEntry StepTunnelRoute (Some (withInterface ifc rt))], jUpdatedAt := t\<rparr>"
      using applyRoute_journal [OF a] by (auto simp: applied_step_def)
    have nx: "2 \<le> length (jEntries ja)" "ifc = deviceInterface ja" "rs = drop (length (jEntries ja) - 2) (TunnelRoutes (jPlan ja))"
      "length (jEntries ja) \<le> length (TunnelRoutes (jPlan ja)) + 2"
      using Cons.prems(5) m rt(2) by (simp_all add: ja deviceInterface_def len)
    have "applyTunnelRoutes (instrument c) ctx ifc ja rs sa = (e, j1, s1)" using Cons.prems(1) a None by simp
    from Cons.IH [OF this _ _ nx] so None pl show ?thesis by (simp add: stepOutcome_def)
  next
    case (Some y)
    then show ?thesis using Cons.prems(1) a so pl by auto
  qed
qed

definition connectOutcome :: "plan \<Rightarrow> gerror option \<Rightarrow> journal \<Rightarrow> event list \<Rightarrow> bool" where
  "connectOutcome p e j l \<longleftrightarrow> goodWrites j l \<and> journal_ok j \<and> jPlan j = p \<and> (jPhase j = PhaseConnecting \<or> jPhase j = PhaseConnected) \<and>
     (e = None \<longrightarrow> jPhase j = PhaseConnected \<and> (\<exists>l'. l = EvUpdate j True # l'))"

lemma stepOutcome_connect: "stepOutcome e j l \<Longrightarrow> jPlan j = p \<Longrightarrow> e \<noteq> None \<Longrightarrow> connectOutcome p e j l"
  by (auto simp: stepOutcome_def connectOutcome_def)

lemma setConnected_writes:
  assumes r: "rollback_ready c" and m: "setPhase (instrument c) ctx j PhaseConnected s = (e, j1, s1)"
    and p: "progress j" "length (jEntries j) = length (planItems (jPlan j) (deviceInterface j))" and g: "goodWrites j (snd s)"
  shows "connectOutcome (jPlan j) e j1 (snd s1)"
proof -
  have "allowedTransition (jPhase j) PhaseConnected" using p(1) by (simp add: progress_def allowedTransition_def)
  then obtain y where u: "stampAndUpdate (instrument c) ctx (j\<lparr>jPhase := PhaseConnected\<rparr>) s = (y, j1, s1)" "e = None \<Longrightarrow> y = None"
    using m by (auto simp: setPhase_def split: prod.splits)
  have "goodWrites j1 (snd s1)" "journal_ok j1" using stamp_writes [OF r u(1) g] connected_ok [OF p] by auto
  moreover have "jPhase j1 = PhaseConnected" "jPlan j1 = jPlan j" using stamp_journal [OF u(1)] by auto
  ultimately show ?thesis using stamp_event [OF r u(1)] u(2) by (auto simp: connectOutcome_def)
qed

lemma connectSteps_writes:
  assumes r: "connect_ready c p" and st: "connectSteps (instrument c) ctx p j s = (e, j1, s1)"
    and pj: "progress j" "jPlan j = p" "jEntries j = []" and g: "goodWrites j (snd s)"
  shows "connectOutcome p e j1 (snd s1)"
proof -
  note rb = connect_readyD(1) [OF r] and dn = connect_readyD(2) [OF r]
  obtain v where v: "cVerifier c = Some v" using connect_readyD(4) [OF r] by blast
  have n: "nextItem j StepEndpointRoute (Some (EndpointRoute p))" using pj by (simp add: nextItem_def planItems_def)
  obtain e1 ja sa where 1: "applyRoute (instrument c) ctx j StepEndpointRoute (EndpointRoute p) s = (e1, ja, sa)" by (metis prod_cases3)
  have o1: "stepOutcome e1 ja (snd sa)" by (rule applyRoute_writes [OF rb 1 pj(1) g n]) (simp add: pj)
  have p1: "jPlan ja = p" using applyRoute_journal [OF 1] pj by (cases e1) (auto dest: step_keeps)
  obtain e2 jb sb where 2: "applyDevice (instrument c) ctx p ja sa = (e2, jb, sb)" by (metis prod_cases3)
  have p2: "jPlan jb = p" using applyDevice_journal [OF 2] p1 by (cases e2) (auto dest: step_keeps)
  have o2: "stepOutcome e2 jb (snd sb)" if "e1 = None"
    using applyDevice_writes [OF rb 2] o1 that applyRoute_journal [OF 1] pj by (auto simp: stepOutcome_def applied_step_def)
  have l2: "length (jEntries jb) = 2 \<and> dhInterface (the (jDevice jb)) = deviceInterface jb" if "e1 = None" "e2 = None"
    using that applyRoute_journal [OF 1] applyDevice_journal [OF 2] pj by (auto simp: applied_step_def deviceInterface_def)
  obtain e3 jc sc where 3: "applyTunnelRoutes (instrument c) ctx (dhInterface (the (jDevice jb))) jb (TunnelRoutes p) sb = (e3, jc, sc)"
    by (metis prod_cases3)
  have o3: "stepOutcome e3 jc (snd sc) \<and> jPlan jc = p \<and> (e3 = None \<longrightarrow> length (jEntries jc) = length (TunnelRoutes p) + 2)"
    if "e1 = None" "e2 = None"
    using applyTunnelRoutes_writes [OF rb 3] o2 l2 that p2 by (auto simp: stepOutcome_def)
  obtain e4 jd sd where 4: "applyDNS (instrument c) ctx p jc sc = (e4, jd, sd)" by (metis prod_cases3)
  have o4: "stepOutcome e4 jd (snd sd)" if "e1 = None" "e2 = None" "e3 = None"
    using applyDNS_writes [OF rb dn 4] o3 that by (auto simp: stepOutcome_def)
  have p4: "jPlan jd = p" if "e1 = None" "e2 = None" using applyDNS_journal [OF 4] o3 that by (cases e4) (auto dest: step_keeps split: if_splits)
  have l4: "length (jEntries jd) = length (planItems p (deviceInterface jd))" if "e1 = None" "e2 = None" "e3 = None" "e4 = None"
    using applyDNS_journal [OF 4] o3 that by (auto simp: planItems_def applied_step_def split: if_splits)
  obtain e5 se where 5: "vfVerify (the (cVerifier (instrument c))) ctx jd sd = (e5, se)" by (metis prod.exhaust)
  have "snd se = EvVerify jd (e5 = None) # snd sd"
    using 5 v by (auto simp: instrument_verifier logged_def split: prod.splits)
  then have o5: "stepOutcome None jd (snd se)" if "e1 = None" "e2 = None" "e3 = None" "e4 = None"
    using o4 that by (simp add: stepOutcome_def goodWrites_other)
  show ?thesis
  proof (cases "e1 = None \<and> e2 = None \<and> e3 = None \<and> e4 = None")
    case True
    then show ?thesis
      using st 1 2 3 4 5 o5 l4 p4 setConnected_writes [OF rb, of ctx jd se e j1 s1]
      by (auto simp: connectSteps_def stepOutcome_def connectOutcome_def split: option.splits)
  next
    case False
    then show ?thesis
      using st 1 2 3 4 o1 o2 o3 o4 p1 p2 p4 by (auto simp: connectSteps_def intro!: stepOutcome_connect split: option.splits)
  qed
qed

section \<open>Rollback\<close>

lemma rollbackBegin_writes:
  assumes r: "rollback_ready c" and b: "rollbackBegin (instrument c) ctx j s = (errs, j1, s1)"
    and ok: "journal_ok j" "jPhase j \<noteq> PhaseDisconnected" and g: "goodWrites j (snd s)"
  shows "goodWrites j1 (snd s1)" "journal_ok j1" "rollingPhase (jPhase j1)"
proof -
  have cases: "allowedTransition (jPhase j) PhaseDisconnecting \<or> rollingPhase (jPhase j)"
    using ok by (cases "jPhase j") (auto simp: allowedTransition_def rollingPhase_def journal_ok_def)
  obtain y ja sa where u: "stampAndUpdate (instrument c) ctx (j\<lparr>jPhase := PhaseDisconnecting\<rparr>) s = (y, ja, sa)" by (metis prod_cases3)
  have ja: "goodWrites ja (snd sa)" "journal_ok ja" "rollingPhase (jPhase ja)"
    using stamp_writes [OF r u g] setPhase_ok [OF ok(1)] stamp_journal [OF u] by (auto simp: rollingPhase_def)
  show "goodWrites j1 (snd s1)" "journal_ok j1" "rollingPhase (jPhase j1)"
    using b u ja cases ok(1) g by (auto simp: rollbackBegin_def rollingPhase_def split: if_splits option.splits)
qed

lemma undo_writes:
  assumes "rollback_ready c" "eKind e = StepDNS \<longrightarrow> cDNS c \<noteq> None" "undoEntry (instrument c) ctx j e s = (y, s1)"
  shows "writes (snd s1) = writes (snd s)"
proof -
  have "writes (undoEvent x ok # l) = writes l" for x ok l by (cases x) simp_all
  then show ?thesis using undo_event [OF assms] by (auto split: option.splits simp del: writes_Cons)
qed

lemma rollbackEntries_writes:
  assumes r: "rollback_ready c"
  shows "rollbackEntries (instrument c) ctx n j errs s = (errs1, j1, s1) \<Longrightarrow> kinds_ready c j \<Longrightarrow> n \<le> length (jEntries j) \<Longrightarrow>
    journal_ok j \<Longrightarrow> rollingPhase (jPhase j) \<Longrightarrow> goodWrites j (snd s) \<Longrightarrow> goodWrites j1 (snd s1) \<and> journal_ok j1"
proof (induction n arbitrary: j errs s)
  case (Suc n)
  show ?case
  proof (cases "eStatus (jEntries j ! n) = StepRolledBack")
    case True
    then show ?thesis using Suc by simp
  next
    case False
    have dns: "eKind (jEntries j ! n) = StepDNS \<longrightarrow> cDNS c \<noteq> None"
      using Suc.prems by (auto simp: kinds_ready_def image_iff) (metis Suc_le_lessD nth_mem)
    obtain y sa where u: "undoEntry (instrument c) ctx j (jEntries j ! n) s = (y, sa)" by (metis prod.exhaust)
    have ga: "goodWrites j (snd sa)" using undo_writes [OF r dns u] Suc.prems(6) by (simp add: goodWrites_def)
    obtain z ja sb where st: "stampAndUpdate (instrument c) ctx (setStatus n StepRolledBack j) sa = (z, ja, sb)" by (metis prod_cases3)
    have len: "n \<le> length (jEntries ja)" and k: "kinds_ready c ja"
      using length_stamp [OF st] kinds_ready_stamp [OF st, of c] Suc.prems by auto
    have w: "goodWrites ja (snd sb)" "journal_ok ja"
      using stamp_writes [OF r st ga] rolledBack_ok [OF Suc.prems(4,5)] by (auto simp: setStatus_def)
    have ph: "rollingPhase (jPhase ja)" using stamp_journal [OF st] Suc.prems(5) by (auto simp: setStatus_def)
    show ?thesis
      using Suc.prems False u st Suc.IH [OF _ k len w(2) ph w(1)] Suc.IH [of j] ga
      by (auto split: option.splits)
  qed
qed auto

lemma rollbackFinish_writes:
  assumes r: "rollback_ready c" and f: "rollbackFinish (instrument c) ctx errs j s = (e, j1, s1)" and g: "goodWrites j (snd s)" "journal_ok j"
    and rb: "errs = [] \<Longrightarrow> \<forall>x\<in>set (jEntries j). eStatus x = StepRolledBack"
  shows "goodWrites j1 (snd s1)" "journal_ok j1"
proof -
  let ?ph = "if errs = [] then PhaseDisconnected else PhaseRollbackRequired"
  obtain y ja sa where st: "stampAndUpdate (instrument c) ctx (j\<lparr>jPhase := ?ph\<rparr>) s = (y, ja, sa)" by (metis prod_cases3)
  have w: "goodWrites ja (snd sa)" "journal_ok ja"
    using stamp_writes [OF r st g(1)] setPhase_ok [OF g(2)] disconnected_ok [OF g(2) _ rb] by (auto split: if_splits)
  obtain z sb where d: "jsDelete (the (cJournals (instrument c))) ctx (jSessionID ja) sa = (z, sb)" by (metis prod.exhaust)
  have "goodWrites ja (snd sb)" using w(1) by (simp add: jsDelete_event [OF r d] goodWrites_other)
  then show "goodWrites j1 (snd s1)" "journal_ok j1"
    using f st w d by (auto simp: rollbackFinish_def split: option.splits if_splits)
qed

lemma rollback_parts:
  assumes "rollback c ctx j w = (e, j1, w1)"
  obtains e0 ja wa e1 jb wb where "rollbackBegin c ctx j w = (e0, ja, wa)"
    "rollbackEntries c ctx (length (jEntries ja)) ja e0 wa = (e1, jb, wb)" "rollbackFinish c ctx e1 jb wb = (e, j1, w1)"
    "e1 = [] \<longrightarrow> (\<forall>x\<in>set (jEntries jb). eStatus x = StepRolledBack)"
proof -
  obtain e0 ja wa where 1: "rollbackBegin c ctx j w = (e0, ja, wa)" by (metis prod_cases3)
  obtain e1 jb wb where 2: "rollbackEntries c ctx (length (jEntries ja)) ja e0 wa = (e1, jb, wb)" by (metis prod_cases3)
  have "\<forall>x\<in>set (jEntries jb). eStatus x = StepRolledBack" if "e1 = []"
    using rollbackEntries_errors [OF 2 le_refl] undone_from_entries(1) [OF rollbackEntries_journal [OF 2 le_refl]] that
    by (metis in_set_conv_nth)
  moreover have "rollbackFinish c ctx e1 jb wb = (e, j1, w1)" using assms 1 2 by (simp add: rollback_def)
  ultimately show thesis using that [OF 1 2] by blast
qed

lemma rollback_writes:
  assumes r: "rollback_ready c" and k: "kinds_ready c j" and b: "rollback (instrument c) ctx j s = (e, j1, s1)"
    and ok: "journal_ok j" "jPhase j \<noteq> PhaseDisconnected" and g: "goodWrites j (snd s)"
  shows "goodWrites j1 (snd s1)" "journal_ok j1"
proof -
  from b obtain e0 ja sa e1 jb sb where 1: "rollbackBegin (instrument c) ctx j s = (e0, ja, sa)"
    and 2: "rollbackEntries (instrument c) ctx (length (jEntries ja)) ja e0 sa = (e1, jb, sb)"
    and 3: "rollbackFinish (instrument c) ctx e1 jb sb = (e, j1, s1)" and all: "e1 = [] \<longrightarrow> (\<forall>x\<in>set (jEntries jb). eStatus x = StepRolledBack)"
    by (rule rollback_parts) blast
  have ka: "kinds_ready c ja" using rollbackBegin_journal [OF 1] k by (simp add: kinds_ready_def)
  note ba = rollbackBegin_writes [OF r 1 ok g]
  have w: "goodWrites jb (snd sb)" "journal_ok jb"
    using rollbackEntries_writes [OF r 2 ka le_refl ba(2,3,1)] by auto
  show "goodWrites j1 (snd s1)" "journal_ok j1" using rollbackFinish_writes [OF r 3 w] all by auto
qed

text \<open>How a rollback ends, for any adapters.\<close>

lemma rollback_result:
  assumes "rollback c ctx j w = (e, j1, w1)"
  shows "(e = None \<longrightarrow> jPhase j1 = PhaseDisconnected \<and> (\<forall>x\<in>set (jEntries j1). eStatus x = StepRolledBack)) \<and>
    (\<forall>x. e = Some x \<longrightarrow> errors_Is x ErrRollback \<and> (jPhase j1 = PhaseDisconnected \<or> jPhase j1 = PhaseRollbackRequired))"
proof -
  from assms obtain e0 ja sa e1 jb sb where 3: "rollbackFinish c ctx e1 jb sb = (e, j1, w1)"
    and all: "e1 = [] \<longrightarrow> (\<forall>x\<in>set (jEntries jb). eStatus x = StepRolledBack)"
    by (rule rollback_parts) blast
  let ?ph = "if e1 = [] then PhaseDisconnected else PhaseRollbackRequired"
  obtain y jc sc where st: "stampAndUpdate c ctx (jb\<lparr>jPhase := ?ph\<rparr>) sb = (y, jc, sc)" by (metis prod_cases3)
  have "jPhase jc = ?ph" "jEntries jc = jEntries jb" using stamp_journal [OF st] by auto
  then show ?thesis
    using 3 st all by (auto simp: rollbackFinish_def split: option.splits if_splits prod.splits)
qed

section \<open>What a rollback attempts\<close>

fun evUndo :: "event \<Rightarrow> resource option" where
  "evUndo (EvRemove r ok) = Some (RRoute r)"
| "evUndo (EvDeleteDevice sid ok) = Some (RDevice sid)"
| "evUndo (EvRestoreDNS cfg ok) = Some (RDNS cfg)"
| "evUndo _ = None"

definition undoTrace :: "event list \<Rightarrow> resource list" where
  "undoTrace l = List.map_filter evUndo l"

lemma undoTrace_simps [simp]: "undoTrace [] = []"
  "undoTrace (ev # l) = (case evUndo ev of None \<Rightarrow> undoTrace l | Some x \<Rightarrow> x # undoTrace l)"
  by (simp_all add: undoTrace_def List.map_filter_def split: option.split)

lemma stamp_undo:
  "rollback_ready c \<Longrightarrow> stampAndUpdate (instrument c) ctx j s = (e, j1, s1) \<Longrightarrow> undoTrace (snd s1) = undoTrace (snd s)"
  by (simp add: stamp_event)

lemma undo_attempt:
  assumes "rollback_ready c" "eKind e = StepDNS \<longrightarrow> cDNS c \<noteq> None" "undoEntry (instrument c) ctx j e s = (y, s1)"
  shows "undoTrace (snd s1) = (case entryRes j e of None \<Rightarrow> [] | Some x \<Rightarrow> [x]) @ undoTrace (snd s)"
proof -
  have "undoTrace (undoEvent x ok # l) = x # undoTrace l" for x ok l by (cases x) simp_all
  then show ?thesis using undo_event [OF assms] by (auto split: option.splits simp del: undoTrace_simps(2))
qed

definition ownedUpto :: "journal \<Rightarrow> nat \<Rightarrow> resource list" where
  "ownedUpto j n = List.map_filter (\<lambda>e. if eStatus e = StepRolledBack then None else entryRes j e) (take n (jEntries j))"

lemma ownedUpto_Suc:
  "n < length (jEntries j) \<Longrightarrow> ownedUpto j (Suc n) = ownedUpto j n @
    (if eStatus (jEntries j ! n) = StepRolledBack then [] else case entryRes j (jEntries j ! n) of None \<Rightarrow> [] | Some x \<Rightarrow> [x])"
  by (simp add: ownedUpto_def take_Suc_conv_app_nth List.map_filter_def split: option.split)

lemma ownedUpto_cong:
  assumes "take n (jEntries j1) = take n (jEntries j)" "entryRes j1 = entryRes j"
  shows "ownedUpto j1 n = ownedUpto j n"
  using assms by (simp add: ownedUpto_def cong: if_cong)

lemma rollbackEntries_attempts:
  assumes r: "rollback_ready c"
  shows "rollbackEntries (instrument c) ctx n j errs s = (errs1, j1, s1) \<Longrightarrow> kinds_ready c j \<Longrightarrow> n \<le> length (jEntries j) \<Longrightarrow>
    undoTrace (snd s1) = ownedUpto j n @ undoTrace (snd s)"
proof (induction n arbitrary: j errs s)
  case (Suc n)
  show ?case
  proof (cases "eStatus (jEntries j ! n) = StepRolledBack")
    case True
    then show ?thesis using Suc by (simp add: ownedUpto_Suc)
  next
    case False
    have dns: "eKind (jEntries j ! n) = StepDNS \<longrightarrow> cDNS c \<noteq> None"
      using Suc.prems by (auto simp: kinds_ready_def image_iff) (metis Suc_le_lessD nth_mem)
    obtain y sa where u: "undoEntry (instrument c) ctx j (jEntries j ! n) s = (y, sa)" by (metis prod.exhaust)
    note at = undo_attempt [OF r dns u]
    obtain z ja sb where st: "stampAndUpdate (instrument c) ctx (setStatus n StepRolledBack j) sa = (z, ja, sb)" by (metis prod_cases3)
    have len: "n \<le> length (jEntries ja)" and k: "kinds_ready c ja"
      using length_stamp [OF st] kinds_ready_stamp [OF st, of c] Suc.prems by auto
    obtain t where ja: "ja = (setStatus n StepRolledBack j)\<lparr>jUpdatedAt := t\<rparr>" using stamp_journal [OF st] by auto
    have "entryRes ja = entryRes j" by (rule entryRes_cong) (simp_all add: ja setStatus_def)
    then have same: "ownedUpto ja n = ownedUpto j n" by (intro ownedUpto_cong) (simp_all add: ja setStatus_def)
    have at2: "undoTrace (snd sb) = undoTrace (snd sa)" by (rule stamp_undo [OF r st])
    have "ownedUpto j (Suc n) = ownedUpto j n @ (case entryRes j (jEntries j ! n) of None \<Rightarrow> [] | Some x \<Rightarrow> [x])"
      using Suc.prems(3) False by (simp add: ownedUpto_Suc)
    then show ?thesis
      using Suc.prems False u st Suc.IH [OF _ k len] Suc.IH [of j] same at at2
      by (auto split: option.splits)
  qed
qed (simp add: ownedUpto_def List.map_filter_def)

lemma rollback_attempts:
  assumes r: "rollback_ready c" and k: "kinds_ready c j" and b: "rollback (instrument c) ctx j s = (e, j1, s1)"
  shows "undoTrace (snd s1) = ownedRes j @ undoTrace (snd s)"
proof -
  from b obtain e0 ja sa e1 jb sb where 1: "rollbackBegin (instrument c) ctx j s = (e0, ja, sa)"
    and 2: "rollbackEntries (instrument c) ctx (length (jEntries ja)) ja e0 sa = (e1, jb, sb)"
    and 3: "rollbackFinish (instrument c) ctx e1 jb sb = (e, j1, s1)"
    by (rule rollback_parts) blast
  have ka: "kinds_ready c ja" using rollbackBegin_journal [OF 1] k by (simp add: kinds_ready_def)
  have "undoTrace (snd sa) = undoTrace (snd s)"
    using 1 by (auto simp: rollbackBegin_def dest!: stamp_undo [OF r] split: if_splits prod.splits option.splits)
  moreover have "undoTrace (snd s1) = undoTrace (snd sb)"
    using 3 by (auto simp: rollbackFinish_def Let_def dest!: stamp_undo [OF r] jsDelete_event [OF r] split: if_splits prod.splits option.splits)
  moreover have "ownedUpto ja (length (jEntries ja)) = ownedRes j"
    using rollbackBegin_journal [OF 1] ownedRes_cong [of ja j] by (simp add: ownedUpto_def ownedRes_def)
  ultimately show ?thesis using rollbackEntries_attempts [OF r 2 ka le_refl] by simp
qed

section \<open>Connect\<close>

lemma newJournal_progress: "journal_Validate (newJournal p rb db now) = None \<Longrightarrow> progress (newJournal p rb db now)"
  by (simp add: progress_def journal_Validate_ok) (simp add: newJournal_def)

text \<open>All writes valid and strictly ordered in time, and success means a complete journal on disk.\<close>

definition goodRun :: "plan \<Rightarrow> journal \<Rightarrow> gerror option \<Rightarrow> event list \<Rightarrow> bool" where
  "goodRun p j err l \<longleftrightarrow> list_all (\<lambda>x. journal_Validate x = None) (writes l) \<and>
     sorted_wrt (\<lambda>a b. jUpdatedAt b < jUpdatedAt a) (writes l) \<and>
     (err = None \<longrightarrow> journal_ok j \<and> jPlan j = p \<and> jPhase j = PhaseConnected \<and> (\<exists>l'. l = EvUpdate j True # l'))"

lemma connectRun_good:
  assumes r: "connect_ready c p" and v: "journal_Validate (newJournal p rb db now) = None"
    and l: "snd s = [EvCreate (newJournal p rb db now) True]"
    and st: "(case connectSteps (instrument c) ctx p (newJournal p rb db now) s of
        (Some e, j1, w6) \<Rightarrow> connectFail (instrument c) ctx j1 e w6
      | (None, j1, w6) \<Rightarrow> (j1, None, w6)) = (j2, err, s2)"
  shows "goodRun p j2 err (snd s2)"
proof -
  let ?j = "newJournal p rb db now"
  have nj: "jPlan ?j = p" "jEntries ?j = []" "\<not> hasDNS ?j" by (simp_all add: newJournal_def hasDNS_def)
  have g: "goodWrites ?j (snd s)" using v by (simp add: l goodWrites_def)
  obtain e ja sa where c: "connectSteps (instrument c) ctx p ?j s = (e, ja, sa)" by (metis prod_cases3)
  note out = connectSteps_writes [OF r c newJournal_progress [OF v] nj(1,2) g]
  show ?thesis
  proof (cases e)
    case None
    then show ?thesis using out st c by (auto simp: connectOutcome_def goodRun_def goodWrites_def)
  next
    case (Some x)
    obtain y jb sb where b: "rollback (instrument c) (WithTimeout rollbackTimeout (WithoutCancel ctx)) ja sa = (y, jb, sb)"
      by (metis prod_cases3)
    have k: "kinds_ready c ja"
      using connectSteps_hasDNS [OF c] nj(3) connect_readyD(2) [OF r] by (auto simp: kinds_ready_def hasDNS_def dns_ready_def)
    have "goodWrites jb (snd sb)"
      by (rule rollback_writes(1) [OF connect_readyD(1) [OF r] k b]) (use out in \<open>auto simp: connectOutcome_def\<close>)
    then show ?thesis using st c Some b by (auto simp: connectFail_def goodRun_def goodWrites_def split: option.splits)
  qed
qed

lemma Connect_good:
  assumes "Connect (instrument c) ctx p (w, []) = (j, err, s)"
  shows "goodRun p j err (snd s)"
proof (cases "err \<noteq> None \<and> snd s = []")
  case False
  then obtain w1 err2 s2 where r: "connect_ready c p" and l: "connectLocked (instrument c) ctx p (w1, []) = (j, err2, s2)"
    and s: "snd s = snd s2" and e: "err = err2 \<or> (\<exists>x. err = errors_Join [err2, Some x])"
    using Connect_cases [OF assms] by blast
  have "goodRun p j err2 (snd s2)"
    using connectLocked_cases [OF r l]
  proof (elim disjE exE conjE)
    fix rb db now s5
    assume v: "journal_Validate (newJournal p rb db now) = None" and l5: "snd s5 = [EvCreate (newJournal p rb db now) True]"
      and run: "(case connectSteps (instrument c) ctx p (newJournal p rb db now) s5 of
          (Some e, j1, w6) \<Rightarrow> connectFail (instrument c) ctx j1 e w6 | (None, j1, w6) \<Rightarrow> (j1, None, w6)) = (j, err2, s2)"
    show "goodRun p j err2 (snd s2)" by (rule connectRun_good [OF r v l5 run])
  qed (simp_all add: goodRun_def)
  then show ?thesis using e s by (auto simp: goodRun_def)
qed (simp add: goodRun_def)

lemma goodRun_entries:
  assumes "goodRun p j None l"
  shows "\<exists>d. jDevice j = Some d \<and> map entryItem (jEntries j) = planItems p (dhInterface d) \<and> (\<forall>e\<in>set (jEntries j). eStatus e = StepApplied)"
proof -
  have ok: "journal_ok j" "jPlan j = p" "jPhase j = PhaseConnected" using assms by (auto simp: goodRun_def)
  then have st: "length (jEntries j) = length (expectedKinds p)" "jDevice j \<noteq> None" "\<forall>e\<in>set (jEntries j). eStatus e = StepApplied"
    by (auto simp: journal_ok_def phase_status_ok_def)
  then obtain d where d: "jDevice j = Some d" by auto
  have "map entryItem (jEntries j) = take (length (jEntries j)) (planItems p (dhInterface d))"
    using ok d by (simp add: journal_ok_def deviceInterface_def)
  then show ?thesis using d st by (simp add: length_planItems)
qed

section \<open>Disconnect\<close>

lemma disconnectLocked_good:
  assumes rb: "rollback_ready c" and d: "disconnectLocked (instrument c) ctx sid uid (w, []) = (err, s)"
  shows "list_all (\<lambda>x. journal_Validate x = None) (writes (snd s)) \<and> sorted_wrt (\<lambda>a b. jUpdatedAt b < jUpdatedAt a) (writes (snd s))"
proof -
  obtain x w1 where ld: "jsLoad (the (cJournals c)) ctx sid w = (x, w1)" by (metis prod.exhaust)
  have ld': "jsLoad (the (cJournals (instrument c))) ctx sid (w, []) = (x, w1, [])"
    using ld rb by (auto simp: rollback_ready_def instrument_opt logStore_def silent_def)
  show ?thesis
  proof (cases "\<exists>j. x = Inr j \<and> journal_Validate j = None \<and> jOwnerUID j = uid \<and> \<not> (UsesDNS (jPlan j) \<and> cDNS c = None)")
    case False
    then have "snd s = []"
      using d ld' by (auto simp: disconnectLocked_def instrument_opt(5) split: option.splits if_splits sum.splits)
    then show ?thesis by simp
  next
    case True
    then obtain j where j: "x = Inr j" "journal_Validate j = None" "jOwnerUID j = uid" "\<not> (UsesDNS (jPlan j) \<and> cDNS c = None)" by blast
    then have ok: "journal_ok j" by (simp add: journal_Validate_ok)
    obtain e j1 s1 where b: "rollback (instrument c) ctx j (w1, []) = (e, j1, s1)" by (metis prod_cases3)
    have k: "kinds_ready c j" using j journal_ok_hasDNS [OF ok] by (auto simp: kinds_ready_def hasDNS_def)
    show ?thesis
    proof (cases "jPhase j = PhaseDisconnected")
      case ph: True
      then show ?thesis using d j ld' jsDelete_event [OF rb, of ctx sid "(w1, [])" err s]
        by (auto simp: disconnectLocked_def instrument_opt(5))
    next
      case ph: False
      have "s = s1" using d j ph ld' b by (auto simp: disconnectLocked_def instrument_opt(5))
      then show ?thesis using rollback_writes(1) [OF rb k b ok ph] by (simp add: goodWrites_def)
    qed
  qed
qed

end
