(* ===== verification/Sample_Plans.thy ===== *)
theory Sample_Plans
  imports Tunnel_Facts
begin

text \<open>
  Concrete plans and snapshots, used only in the witnesses of the theorems, with the proofs
  that they pass the validators.
\<close>

section \<open>Sample plans\<close>

definition sampleFull :: plan where
  "sampleFull = \<lparr>pSessionID = replicate 32 CHR ''a'', pOwnerUID = 501,
     pEndpoint = \<lparr>apAddr = ip4 198 51 100 10, apPort = 51820\<rparr>, pPhysicalGateway = ip4 192 168 1 1,
     pPhysicalInterface = ''en0'', pTunnelAddress = PrefixFrom (ip4 10 5 0 2) 32, pTunnelMTU = 1420,
     pTunnelDNS = [ip4 103 86 96 100], pDNSService = ''svc'', pRoutePolicy = RoutePolicyFullIPv4, pScopedRoutes = [],
     pPeerFingerprint = replicate 64 CHR ''b''\<rparr>"

definition sampleScoped :: plan where
  "sampleScoped = sampleFull\<lparr>pTunnelDNS := [], pDNSService := [], pRoutePolicy := RoutePolicyScopedIPv4,
     pScopedRoutes := [PrefixFrom (ip4 10 20 0 0) 16]\<rparr>"

definition sampleDefault :: routeSnapshot where
  "sampleDefault = \<lparr>rsDefault = \<lparr>rDestination = defaultPrefix4, rGateway = ip4 192 168 1 1, rInterface = ''en0'', rReject = False\<rparr>\<rparr>"

definition sampleDNS :: dnsSnapshot where
  "sampleDNS = \<lparr>dsRevision = ''r1'', dsServices = [\<lparr>sdServiceID = ''svc'', sdServers = [ip4 192 168 1 1], sdSearchDomains = []\<rparr>]\<rparr>"

lemmas address_simps = ip4_def addr_IsGlobalUnicast_def PrefixFrom_def prefix_Masked_def mask_addr_def prefix_IsValid_def
  prefix_Contains_def addrport_IsValid_def defaultPrefix4_def

lemma sample_ids: "ValidSessionID (replicate 32 CHR ''a'')" "fingerprintPattern (replicate 64 CHR ''b'')"
  "interfacePattern ''en0''" "interfacePattern ''utun9''" "\<not> hasControl ''svc''" "\<not> hasControl ''r1''"
  by (simp_all add: ValidSessionID_def fingerprintPattern_def interfacePattern_def hasControl_def list_all_iff is_lower_hex_def
      is_alpha_def is_digit_def is_alnum_def byte_of_def)

lemma sampleFull_valid: "plan_Validate sampleFull = None"
  by (simp add: sampleFull_def plan_Validate_def validatePolicy_def sample_ids address_simps)

lemma sampleScoped_valid: "plan_Validate sampleScoped = None"
  by (simp add: sampleFull_def sampleScoped_def plan_Validate_def validatePolicy_def sample_ids address_simps)

end
