(* ===== verification/Scripted_Host.thy ===== *)
theory Scripted_Host
  imports Journal_Validity Sample_Plans
begin

text \<open>
  A concrete host on which the theorems about the transaction are instantiated: adapters
  that follow a script saying, call by call, which mutation or journal write fails. It plays no part in the theorems, only in their witnesses.
\<close>

section \<open>Adapters that follow a script\<close>

type_synonym script = "bool list"

definition scripted :: "script \<Rightarrow> gerror option \<times> script" where
  "scripted w = (case w of [] \<Rightarrow> (None, []) | b # bs \<Rightarrow> (if b then Some (Err ''injected'') else None, bs))"

definition scriptedStore :: "journal option \<Rightarrow> script journalStore" where
  "scriptedStore stored = \<lparr>jsCreate = (\<lambda>ctx j. scripted), jsUpdate = (\<lambda>ctx j. scripted),
     jsLoad = (\<lambda>ctx sid w. (case stored of None \<Rightarrow> Inl (Sentinel ErrJournalNotFound) | Some j \<Rightarrow> Inr j, w)),
     jsDelete = (\<lambda>ctx sid. scripted)\<rparr>"

definition scriptedController :: "routeSnapshot \<Rightarrow> dnsSnapshot \<Rightarrow> journal option \<Rightarrow> script controller" where
  "scriptedController rb db stored = \<lparr>cJournals = Some (scriptedStore stored),
     cLocks = Some \<lparr>lkAcquire = (\<lambda>ctx sid w. (Inr (\<lambda>w. (None, w)), w))\<rparr>,
     cConflicts = Some \<lparr>ccCheck = (\<lambda>ctx p w. (None, w))\<rparr>,
     cDevices = Some \<lparr>dmCreate = (\<lambda>ctx sp w. (case scripted w of (Some e, w1) \<Rightarrow> (Inl e, w1)
         | (None, w1) \<Rightarrow> (Inr \<lparr>dhInterface = ''utun9'', dhOwnerPID = 77\<rparr>, w1))),
       dmDeleteOwned = (\<lambda>ctx sid h. scripted)\<rparr>,
     cRoutes = Some \<lparr>rmSnapshot = (\<lambda>ctx w. (Inr rb, w)), rmAdd = (\<lambda>ctx r. scripted), rmRemove = (\<lambda>ctx r. scripted)\<rparr>,
     cDNS = Some \<lparr>dnSnapshot = (\<lambda>ctx cfg w. (Inr db, w)), dnApply = (\<lambda>ctx cfg. scripted),
       dnRestoreIfOwned = (\<lambda>ctx s cfg. scripted)\<rparr>,
     cVerifier = Some \<lparr>vfVerify = (\<lambda>ctx j. scripted)\<rparr>,
     cNow = None, cTimeNow = (\<lambda>w. (1000, w))\<rparr>"

lemma scripted_simps [simp]:
  "scripted [] = (None, [])" "scripted (True # bs) = (Some (Err ''injected''), bs)" "scripted (False # bs) = (None, bs)"
  by (simp_all add: scripted_def)

lemma scriptedController_simps [simp]:
  "cJournals (scriptedController rb db st) = Some (scriptedStore st)"
  "lkAcquire (the (cLocks (scriptedController rb db st))) ctx sid w = (Inr (\<lambda>w. (None, w)), w)"
  "ccCheck (the (cConflicts (scriptedController rb db st))) ctx p w = (None, w)"
  "dmCreate (the (cDevices (scriptedController rb db st))) ctx sp w = (case scripted w of (Some e, w1) \<Rightarrow> (Inl e, w1)
         | (None, w1) \<Rightarrow> (Inr \<lparr>dhInterface = ''utun9'', dhOwnerPID = 77\<rparr>, w1))"
  "dmDeleteOwned (the (cDevices (scriptedController rb db st))) ctx sid h = scripted"
  "rmSnapshot (the (cRoutes (scriptedController rb db st))) ctx w = (Inr rb, w)"
  "rmAdd (the (cRoutes (scriptedController rb db st))) ctx r = scripted"
  "rmRemove (the (cRoutes (scriptedController rb db st))) ctx r = scripted"
  "vfVerify (the (cVerifier (scriptedController rb db st))) ctx j = scripted"
  "dnSnapshot (the (cDNS (scriptedController rb db st))) ctx cfg w = (Inr db, w)"
  "dnApply (the (cDNS (scriptedController rb db st))) ctx cfg = scripted"
  "dnRestoreIfOwned (the (cDNS (scriptedController rb db st))) ctx s cfg = scripted"
  "controller_now (scriptedController rb db st) w = (1000, w)"
  "jsCreate (scriptedStore st) ctx j = scripted" "jsUpdate (scriptedStore st) ctx j = scripted"
  "jsDelete (scriptedStore st) ctx sid = scripted"
  "jsLoad (scriptedStore st) ctx sid w = (case st of None \<Rightarrow> Inl (Sentinel ErrJournalNotFound) | Some j \<Rightarrow> Inr j, w)"
  by (simp_all add: scriptedController_def scriptedStore_def controller_now_def)

lemma scriptedController_ready [simp]: "controller_validate (scriptedController rb db st) p = None"
  "validateDisconnect (scriptedController rb db st) = None"
  "cLocks (scriptedController rb db st) \<noteq> None" "cConflicts (scriptedController rb db st) \<noteq> None"
  "cDevices (scriptedController rb db st) \<noteq> None" "cRoutes (scriptedController rb db st) \<noteq> None"
  "cDNS (scriptedController rb db st) \<noteq> None" "cVerifier (scriptedController rb db st) \<noteq> None"
  by (simp_all add: scriptedController_def controller_validate_def validateCommon_def validateDisconnect_def reject_def)

text \<open>The same controller under observation.\<close>

lemma logged_scripted [simp]:
  "logged ev scripted ([], l) = (None, [], ev True # l)"
  "logged ev scripted (True # bs, l) = (Some (Err ''injected''), bs, ev False # l)"
  "logged ev scripted (False # bs, l) = (None, bs, ev True # l)"
  by (simp_all add: logged_def)

lemma observed_simps [simp]:
  "jsCreate (the (cJournals (instrument (scriptedController rb db st)))) ctx j = logged (EvCreate j) scripted"
  "jsUpdate (the (cJournals (instrument (scriptedController rb db st)))) ctx j = logged (EvUpdate j) scripted"
  "jsDelete (the (cJournals (instrument (scriptedController rb db st)))) ctx sid = logged (EvDelete sid) scripted"
  "jsLoad (the (cJournals (instrument (scriptedController rb db st)))) ctx sid (w, l) =
     (case st of None \<Rightarrow> Inl (Sentinel ErrJournalNotFound) | Some j \<Rightarrow> Inr j, w, l)"
  "lkAcquire (the (cLocks (instrument (scriptedController rb db st)))) ctx sid (w, l) = (Inr (silent (\<lambda>w. (None, w))), w, l)"
  "ccCheck (the (cConflicts (instrument (scriptedController rb db st)))) ctx p (w, l) = (None, w, l)"
  "dmCreate (the (cDevices (instrument (scriptedController rb db st)))) ctx sp (w, l) = (case scripted w of
      (Some e, w1) \<Rightarrow> (Inl e, w1, EvDevice sp False # l)
    | (None, w1) \<Rightarrow> (Inr \<lparr>dhInterface = ''utun9'', dhOwnerPID = 77\<rparr>, w1, EvDevice sp True # l))"
  "dmDeleteOwned (the (cDevices (instrument (scriptedController rb db st)))) ctx sid h = logged (EvDeleteDevice sid) scripted"
  "rmSnapshot (the (cRoutes (instrument (scriptedController rb db st)))) ctx (w, l) = (Inr rb, w, l)"
  "rmAdd (the (cRoutes (instrument (scriptedController rb db st)))) ctx r = logged (EvAdd r) scripted"
  "rmRemove (the (cRoutes (instrument (scriptedController rb db st)))) ctx r = logged (EvRemove r) scripted"
  "vfVerify (the (cVerifier (instrument (scriptedController rb db st)))) ctx j = logged (EvVerify j) scripted"
  "controller_now (instrument (scriptedController rb db st)) (w, l) = (1000, w, l)"
  by (simp_all add: instrument_def scriptedController_def scriptedStore_def logStore_def logLocker_def logDevices_def logRoutes_def
      silent_def logged_def controller_now_def scripted_def split: option.split list.split)

section \<open>Sample runs\<close>

definition sampleController :: "script controller" where
  "sampleController = scriptedController sampleDefault sampleDNS None"

lemma sample_preimage: "validatePhysicalPreimage sampleScoped sampleDefault = None"
  by (simp add: validatePhysicalPreimage_def sampleScoped_def sampleFull_def sampleDefault_def route_Validate_def sample_ids address_simps)

lemma sample_journal: "journal_Validate (newJournal sampleScoped sampleDefault zeroDNSSnapshot 1000) = None"
proof -
  have "validatePreimages (newJournal sampleScoped sampleDefault zeroDNSSnapshot 1000) = None"
    by (simp add: validatePreimages_def newJournal_def sampleDefault_def sampleScoped_def sampleFull_def zeroDNSSnapshot_def
        UsesDNS_def route_Validate_def sample_ids address_simps)
  then show ?thesis
    by (simp add: journal_Validate_ok journal_ok_def journal_static_def newJournal_def phase_status_ok_def sampleScoped_valid time_IsZero_def)
qed

lemma sample_endpoint_valid: "route_Validate (EndpointRoute sampleScoped) = None"
  by (rule endpoint_route_valid [OF sampleScoped_valid])

lemmas run_simps = Connect_def connectLocked_def snapshotDNS_def
  connectSteps_def applyRoute_def recordIntent_def stampAndUpdate_def nextTime_def markApplied_def setStatus_def
  applyDevice_def applyDNS_def setPhase_def connectFail_def rollback_def rollbackBegin_def rollbackFinish_def undoEntry_def
  releaseLock_def allowedTransition_def Let_def reject_def wrapIfError_def silent_def

lemma sample_not_DNS: "\<not> UsesDNS sampleScoped"
  by (simp add: UsesDNS_def sampleScoped_def)

lemmas sample_run_simps = run_simps sampleController_def sampleScoped_valid sample_preimage sample_journal sample_endpoint_valid sample_not_DNS

lemmas newJournal_sample = sample_journal [unfolded newJournal_def]

lemma sample_handle: "deviceHandle_Validate \<lparr>dhInterface = ''utun9'', dhOwnerPID = 77\<rparr> = None"
  by (simp add: deviceHandle_Validate_def sample_ids)

lemma sample_routes:
  "TunnelRoutes sampleScoped = [\<lparr>rDestination = PrefixFrom (ip4 10 20 0 0) 16, rGateway = ZeroAddr, rInterface = [], rReject = False\<rparr>]"
  "route_Validate (withInterface ''utun9'' \<lparr>rDestination = PrefixFrom (ip4 10 20 0 0) 16, rGateway = ZeroAddr, rInterface = [], rReject = False\<rparr>) = None"
  by (simp_all add: TunnelRoutes_def sampleScoped_def sampleFull_def route_Validate_def withInterface_def sample_ids address_simps)

text \<open>A run in which the device cannot be created, so that the endpoint route is rolled back.\<close>

definition deviceFails :: script where
  "deviceFails = [False, False, False, False, False, True]"

text \<open>A journal with the endpoint route applied and the device planned, as a crash may leave it.\<close>

definition crashedJournal :: journal where
  "crashedJournal = (newJournal sampleScoped sampleDefault zeroDNSSnapshot 1000)\<lparr>jEntries :=
     [appliedEntry StepEndpointRoute (Some (EndpointRoute sampleScoped)), plannedEntry StepDevice None], jUpdatedAt := 1003\<rparr>"

lemma crashedJournal_valid: "journal_Validate crashedJournal = None"
proof -
  have "validatePreimages crashedJournal = None"
    using sample_journal validatePreimages_cong [of crashedJournal "newJournal sampleScoped sampleDefault zeroDNSSnapshot 1000"]
    by (simp add: journal_Validate_ok journal_ok_def journal_static_def crashedJournal_def)
  then show ?thesis
    by (simp add: journal_Validate_ok journal_ok_def journal_static_def crashedJournal_def newJournal_def phase_status_ok_def
        sampleScoped_valid time_IsZero_def entryItem_def planItems_def appliedEntry_def plannedEntry_def numeral_2_eq_2)
qed

end
