(* ===== verification/Transaction_Properties.thy ===== *)
theory Transaction_Properties
  imports Scripted_Host
begin

text \<open>
  The theorems about the tunnel transaction as a whole, for controllers with arbitrary
  adapters, each with an instance on the scripted host.
\<close>

section \<open>Crash safety\<close>

text \<open>C1: whatever the adapters do, at every moment of \<^verbatim>\<open>Connect\<close> at which the helper may die
  the recovery journal on disk names every route, device and DNS change the host may still
  hold, in an entry that is not rolled back; where there is no journal, nothing is left.\<close>

theorem connect_crash_safe:
  "always_recoverable ({}, []) (snd (snd (snd (Connect (instrument c) ctx p (w, [])))))"
  using connect_end_recoverable [OF Connect_end] by (metis prod.collapse)

text \<open>C4: when \<^verbatim>\<open>Connect\<close> ends, the tunnel is connected, or every resource it may have
  created was removed successfully, or the error it returns is \<^verbatim>\<open>ErrRollback\<close>.\<close>

theorem connect_leaves_nothing:
  assumes "Connect (instrument c) ctx p (w, []) = (j, err, w1, l)"
  shows "jPhase j = PhaseConnected \<or> live ({}, []) l = {} \<or> (\<exists>e. err = Some e \<and> errors_Is e ErrRollback)"
  using Connect_end [OF assms] by (auto simp: connect_end_def safe_end_def)

theorem connect_leaves_nothing_witness:
  "\<exists>j w1 l. Connect (instrument sampleController) CallerCtx sampleScoped (deviceFails, []) =
      (j, Some (WrapErr ''create tunnel device'' (Err ''injected'')), w1, l) \<and> length l = 13 \<and>
      EvRemove (EndpointRoute sampleScoped) True \<in> set l \<and> live ({}, []) l = {}"
proof -
  obtain j w1 l where r: "Connect (instrument sampleController) CallerCtx sampleScoped (deviceFails, []) =
      (j, Some (WrapErr ''create tunnel device'' (Err ''injected'')), w1, l)" and l: "length l = 13"
      "EvRemove (EndpointRoute sampleScoped) True \<in> set l" and ph: "jPhase j = PhaseDisconnected"
    by (simp add: sample_run_simps newJournal_def newJournal_sample deviceFails_def)
  then show ?thesis using connect_leaves_nothing [OF r] by auto
qed

text \<open>C3: a \<^verbatim>\<open>Disconnect\<close> of a session whose journal covers the host's resources leaves every
  moment recoverable, and when it reports success all those resources were removed.\<close>

theorem disconnect_crash_safe:
  assumes "cLocks c = Some lk" "lkAcquire lk ctx sid w = (Inr release, w1)"
    and "cJournals c = Some js" "jsLoad js ctx sid w1 = (Inr j, w2)" "covers j L"
    and "Disconnect (instrument c) ctx sid uid (w, []) = (err, w3, l)"
  shows "always_recoverable (L, [j]) l \<and> (err = None \<longrightarrow> live (L, [j]) l = {})"
proof (cases "ValidSessionID sid \<and> 0 \<le> uid \<and> validateDisconnect c = None")
  case True
  then have rb: "rollback_ready c" by (auto simp: validateDisconnect_def rollback_ready_def)
  have acq: "lkAcquire (the (cLocks (instrument c))) ctx sid (w, []) = (Inr (silent release), w1, [])"
    using assms by (simp add: instrument_opt logLocker_def)
  obtain err2 s2 where d: "disconnectLocked (instrument c) ctx sid uid (w1, []) = (err2, s2)" by (metis prod.exhaust)
  note ds = disconnectLocked_safe [OF rb _ assms(5) d]
  have rel: "releaseLock (silent release) err2 s2 = (err, w3, l)" using assms(6) True acq d by (simp add: Disconnect_def)
  then show ?thesis
    using ds assms(3,4) releaseLock_logged(2,3) [OF assms(1) acq rel] by auto
next
  case False
  then have "l = [] \<and> err \<noteq> None" using assms(6)
    by (cases "validateDisconnect c") (auto simp: Disconnect_def split: if_splits, metis)
  then show ?thesis using guarded_loaded [OF assms(5)] by (auto simp: guarded_def)
qed

theorem disconnect_crash_safe_witness:
  "\<exists>w3 l. Disconnect (instrument (scriptedController sampleDefault sampleDNS (Some crashedJournal))) CallerCtx
       (replicate 32 CHR ''a'') 501 ([], []) = (None, w3, l) \<and>
     live ({RRoute (EndpointRoute sampleScoped)}, [crashedJournal]) l = {}"
proof -
  let ?c = "scriptedController sampleDefault sampleDNS (Some crashedJournal)"
  have ids: "jOwnerUID crashedJournal = 501" "jPhase crashedJournal = PhaseConnecting" "jPlan crashedJournal = sampleScoped"
    by (simp_all add: crashedJournal_def newJournal_def sampleScoped_def sampleFull_def)
  have cov: "covers crashedJournal {RRoute (EndpointRoute sampleScoped)}"
    by (simp add: covers_def set_ownedRes crashedJournal_def entryRes_def appliedEntry_def)
  obtain w3 l where d: "Disconnect (instrument ?c) CallerCtx (replicate 32 CHR ''a'') 501 ([], []) = (None, w3, l)"
    by (simp add: Disconnect_def disconnectLocked_def sample_ids ids crashedJournal_valid sample_not_DNS releaseLock_def silent_def Let_def)
       (simp add: run_simps crashedJournal_def newJournal_def appliedEntry_def plannedEntry_def)
  show ?thesis
    using disconnect_crash_safe [OF _ _ _ _ cov d] d by (simp add: scriptedController_def)
qed

section \<open>What the transaction writes\<close>

text \<open>C7: every journal that \<^verbatim>\<open>Connect\<close> hands to the store, on success and on every error
  path, passes \<^verbatim>\<open>Journal.Validate\<close>, and each has a strictly later \<^verbatim>\<open>UpdatedAt\<close> than the one before.\<close>

theorem connect_writes_valid:
  "let l = snd (snd (snd (Connect (instrument c) ctx p (w, [])))) in
     list_all (\<lambda>j. journal_Validate j = None) (writes l) \<and> sorted_wrt (\<lambda>a b. jUpdatedAt b < jUpdatedAt a) (writes l)"
  using Connect_good [of c ctx p w] by (cases "Connect (instrument c) ctx p (w, [])") (auto simp: goodRun_def Let_def)

text \<open>the same for every journal a \<^verbatim>\<open>Disconnect\<close> writes: it only continues from a journal
  that validates, so a corrupted journal is never written back.\<close>

theorem disconnect_writes_valid:
  "let l = snd (snd (Disconnect (instrument c) ctx sid uid (w, []))) in
     list_all (\<lambda>j. journal_Validate j = None) (writes l) \<and> sorted_wrt (\<lambda>a b. jUpdatedAt b < jUpdatedAt a) (writes l)"
proof (cases "ValidSessionID sid \<and> 0 \<le> uid \<and> validateDisconnect c = None")
  case True
  then have rb: "rollback_ready c" and lk: "cLocks c = Some (the (cLocks c))" by (auto simp: validateDisconnect_def rollback_ready_def)
  obtain x w1 l1 where acq: "lkAcquire (the (cLocks (instrument c))) ctx sid (w, []) = (x, w1, l1)" by (metis prod_cases3)
  show ?thesis
  proof (cases x)
    case (Inl e)
    then have "l1 = []" using acq lk by (cases "cLocks c") (auto simp: instrument_opt logLocker_def split: prod.splits sum.splits)
    then show ?thesis using True Inl acq by (simp add: Disconnect_def)
  next
    case (Inr release)
    note rl = releaseLock_logged [OF lk acq [unfolded Inr]]
    obtain err2 s2 where d: "disconnectLocked (instrument c) ctx sid uid (w1, []) = (err2, s2)" by (metis prod.exhaust)
    obtain err3 s3 where r: "releaseLock release err2 s2 = (err3, s3)" by (metis prod.exhaust)
    show ?thesis using True Inr acq d r rl(1) rl(2) [OF r] disconnectLocked_good [OF rb d] by (simp add: Disconnect_def)
  qed
next
  case False
  then show ?thesis by (cases "validateDisconnect c") (auto simp: Disconnect_def)
qed

text \<open>C2: a \<^verbatim>\<open>Connect\<close> that reports success returns the journal it wrote last, successfully; that
  journal validates, is in phase connected, holds a device, and its entries are exactly the
  planned transaction (endpoint route, device, tunnel routes on the device's interface, DNS
  when the policy uses it), all applied.\<close>

theorem connect_success_complete:
  assumes "Connect (instrument c) ctx p (w, []) = (j, None, w1, l)"
  shows "journal_Validate j = None \<and> jPlan j = p \<and> jPhase j = PhaseConnected \<and> (\<exists>l'. l = EvUpdate j True # l') \<and>
    (\<exists>d. jDevice j = Some d \<and> map (\<lambda>e. (eKind e, eRoute e)) (jEntries j) = planItems p (dhInterface d) \<and>
       (\<forall>e\<in>set (jEntries j). eStatus e = StepApplied))"
  using Connect_good [OF assms] goodRun_entries [of p j l]
  by (auto simp: goodRun_def journal_Validate_ok entryItem_def [abs_def])

theorem connect_success_complete_witness:
  "\<exists>j w1 l. Connect (instrument sampleController) CallerCtx sampleScoped ([], []) = (j, None, w1, l) \<and>
     journal_Validate j = None \<and> jPhase j = PhaseConnected"
proof -
  obtain j w1 l where r: "Connect (instrument sampleController) CallerCtx sampleScoped ([], []) = (j, None, w1, l)"
    by (simp add: sample_run_simps newJournal_def newJournal_sample sample_handle sample_routes)
  then show ?thesis using connect_success_complete [OF r] by blast
qed

section \<open>Rollback\<close>

text \<open>C5: a rollback attempts to undo every resource its journal owns exactly once, in the
  reverse of the order of the entries (the log is newest first), whatever errors occur on
  the way, and attempts nothing else.\<close>

theorem rollback_undoes_each_once:
  assumes "cJournals c \<noteq> None" "cDevices c \<noteq> None" "cRoutes c \<noteq> None" "hasDNS j \<longrightarrow> cDNS c \<noteq> None"
    and "rollback (instrument c) ctx j (w, []) = (err, j1, w1, l)"
  shows "undoTrace l = ownedRes j"
  using rollback_attempts [of c j ctx "(w, [])" err j1 "(w1, l)"] assms
  by (simp add: rollback_ready_def kinds_ready_def hasDNS_def)

theorem rollback_undoes_each_once_witness:
  "\<exists>err j1 w1 l. rollback (instrument sampleController) CallerCtx crashedJournal ([False, True, False, True], []) = (err, j1, w1, l) \<and>
     err \<noteq> None \<and> undoTrace l = [RRoute (EndpointRoute sampleScoped), RDevice (pSessionID sampleScoped)]"
proof -
  obtain err j1 w1 l where r: "rollback (instrument sampleController) CallerCtx crashedJournal ([False, True, False, True], []) = (err, j1, w1, l)"
      and e: "err \<noteq> None"
    by (simp add: run_simps sampleController_def crashedJournal_def newJournal_def appliedEntry_def plannedEntry_def)
  have "ownedRes crashedJournal = [RRoute (EndpointRoute sampleScoped), RDevice (pSessionID sampleScoped)]"
    by (simp add: ownedRes_def List.map_filter_def crashedJournal_def newJournal_def entryRes_def appliedEntry_def plannedEntry_def)
  then show ?thesis using rollback_undoes_each_once [OF _ _ _ _ r] r e
    by (simp add: sampleController_def)
qed

text \<open>With any adapters, a rollback without error ends disconnected with every entry rolled
  back, and an error is always an \<^verbatim>\<open>ErrRollback\<close>.\<close>

theorem rollback_outcome:
  assumes "rollback c ctx j w = (err, j1, w1)"
  shows "if err = None then jPhase j1 = PhaseDisconnected \<and> (\<forall>e\<in>set (jEntries j1). eStatus e = StepRolledBack)
    else errors_Is (the err) ErrRollback \<and> (jPhase j1 = PhaseDisconnected \<or> jPhase j1 = PhaseRollbackRequired)"
  using rollback_result [OF assms] by auto

theorem rollback_outcome_witness:
  "\<exists>j1 w1. rollback sampleController CallerCtx crashedJournal [] = (None, j1, w1) \<and> jPhase j1 = PhaseDisconnected"
proof -
  obtain j1 w1 where r: "rollback sampleController CallerCtx crashedJournal [] = (None, j1, w1)"
    by (simp add: run_simps sampleController_def crashedJournal_def newJournal_def appliedEntry_def plannedEntry_def)
  then show ?thesis using rollback_outcome [OF r] by simp
qed

end
