(* ===== verification/Plan_Properties.thy ===== *)
theory Plan_Properties
  imports Scripted_Host
begin

text \<open>
  Theorems about plans, routes, journals and phases by themselves: what the route policies
  capture, that a planned transaction consists of valid routes, what the journal validator
  accepts, and where the phase machine can go.
\<close>

section \<open>Routes\<close>

lemma contains_cross:
  "\<not> prefix_Contains (PrefixFrom (IPv6 v z) b) (IPv4 w)" "\<not> prefix_Contains (PrefixFrom (IPv4 u) b) (IPv6 x y)"
  by (simp_all add: prefix_Contains_def PrefixFrom_def)

text \<open>C9: the full policy's routes split both address spaces: every address lies in exactly one
  of them, IPv6 addresses in a reject route through lo0, IPv4 addresses in a route to the tunnel.\<close>

theorem full_routes_partition:
  assumes "pRoutePolicy p = RoutePolicyFullIPv4" "addr_IsValid a" "\<not> addr_hasZone a"
  shows "\<exists>r. filter (\<lambda>r. prefix_Contains (rDestination r) a) (TunnelRoutes p) = [r] \<and>
    (if addr_Is6 a then rReject r \<and> rInterface r = ''lo0'' else \<not> rReject r)"
proof (cases a)
  case (IPv4 w)
  then show ?thesis using assms by (simp add: TunnelRoutes_def half_low4 half_high4 contains_cross)
next
  case (IPv6 w z)
  then show ?thesis using assms by (simp add: TunnelRoutes_def half_low6 half_high6 contains_cross)
qed (use assms in simp)

theorem full_routes_partition_witness:
  "\<exists>r. filter (\<lambda>r. prefix_Contains (rDestination r) (ip4 8 8 8 8)) (TunnelRoutes sampleFull) = [r] \<and> \<not> rReject r"
  using full_routes_partition [of sampleFull "ip4 8 8 8 8"] by (simp add: sampleFull_def ip4_def)

text \<open>C10: the endpoint stays outside the tunnel: its pinned route contains it with more bits
  than any tunnel route that contains it, and scoped routes contain neither it nor the
  physical gateway.\<close>

theorem endpoint_pinned:
  assumes "plan_Validate p = None"
  shows "prefix_Contains (rDestination (EndpointRoute p)) (apAddr (pEndpoint p)) \<and>
    (\<forall>r\<in>set (TunnelRoutes p). prefix_Contains (rDestination r) (apAddr (pEndpoint p)) \<longrightarrow>
       pRoutePolicy p = RoutePolicyFullIPv4 \<and> pfxBits (rDestination r) < pfxBits (rDestination (EndpointRoute p))) \<and>
    (pRoutePolicy p = RoutePolicyScopedIPv4 \<longrightarrow> (\<forall>r\<in>set (TunnelRoutes p). \<not> prefix_Contains (rDestination r) (pPhysicalGateway p)))"
proof -
  obtain w where w: "apAddr (pEndpoint p) = IPv4 w" using assms by (auto simp: plan_Validate_def addr_Is4_iff)
  have self: "prefix_Contains (rDestination (EndpointRoute p)) (apAddr (pEndpoint p))"
    by (simp add: w EndpointRoute_def PrefixFrom_def prefix_Contains_def prefix_IsValid_def)
  have bits: "pfxBits (rDestination (EndpointRoute p)) = 32" by (simp add: EndpointRoute_def w PrefixFrom_def)
  have pol: "pRoutePolicy p = RoutePolicyFullIPv4 \<or> pRoutePolicy p = RoutePolicyScopedIPv4"
    using assms by (cases "pRoutePolicy p") (auto simp: plan_Validate_def validatePolicy_def)
  show ?thesis
  proof (cases "pRoutePolicy p = RoutePolicyScopedIPv4")
    case True
    have "\<not> prefix_Contains (rDestination r) (apAddr (pEndpoint p)) \<and> \<not> prefix_Contains (rDestination r) (pPhysicalGateway p)"
      if "r \<in> set (TunnelRoutes p)" for r
      using that True checkScopedRoutes_None [OF plan_valid_scoped(1) [OF assms True], of "rDestination r"]
      by (auto simp: TunnelRoutes_def)
    then show ?thesis using self by blast
  next
    case False
    then have "\<forall>r\<in>set (TunnelRoutes p). pfxBits (rDestination r) = 1" by (simp add: TunnelRoutes_def PrefixFrom_def)
    then show ?thesis using self bits pol False by auto
  qed
qed

theorem endpoint_pinned_witness:
  "prefix_Contains (rDestination (EndpointRoute sampleFull)) (ip4 198 51 100 10)"
  using endpoint_pinned [OF sampleFull_valid] by (simp add: sampleFull_def)

text \<open>every route of the transaction a valid plan describes passes \<^verbatim>\<open>Route.Validate\<close> once
  the device has a well-formed interface name, and a plan that changes DNS has a DNS
  configuration that passes its own validator.\<close>

theorem planned_transaction_valid:
  assumes "plan_Validate p = None" "interfacePattern ifc"
  shows "(\<forall>r. Some r \<in> snd ` set (planItems p ifc) \<longrightarrow> route_Validate r = None) \<and>
    (UsesDNS p \<longrightarrow> dnsConfig_Validate (plan_DNSConfig p) = None)"
proof -
  have "route_Validate r = None" if "Some r \<in> snd ` set (planItems p ifc)" for r
    using that planItems_valid_routes [OF assms] by force
  moreover have "dnsConfig_Validate (plan_DNSConfig p) = None" if u: "UsesDNS p"
    using assms(1) u checkTunnelDNS_None [of "[]" "pTunnelDNS p"] dnsConfig_checkServers_None [of "[]" "pTunnelDNS p"]
    by (simp add: plan_DNSConfig_def dnsConfig_Validate_def UsesDNS_def plan_Validate_def validatePolicy_def)
  ultimately show ?thesis by blast
qed

theorem planned_transaction_valid_witness:
  "dnsConfig_Validate (plan_DNSConfig sampleFull) = None"
  using planned_transaction_valid [OF sampleFull_valid sample_ids(4)] by (simp add: UsesDNS_def sampleFull_def)

section \<open>Journals\<close>

text \<open>C8: exactly what \<^verbatim>\<open>Journal.Validate\<close> accepts: a known schema, identity equal to the
  plan's, a valid plan and pre-images, ordered time stamps, a valid device exactly from the
  second entry on, entries that are a prefix of the planned transaction on that device's
  interface, and statuses that fit the phase.\<close>

theorem journal_validate_characterised:
  "journal_Validate j = None \<longleftrightarrow> journal_static j \<and> validPhase (jPhase j) \<and> jCreatedAt j \<le> jUpdatedAt j \<and>
     (\<forall>d. jDevice j = Some d \<longrightarrow> deviceHandle_Validate d = None \<and> 2 \<le> length (jEntries j)) \<and>
     (jDevice j = None \<longrightarrow> length (jEntries j) \<le> 2 \<and> (\<forall>e\<in>set (drop 1 (jEntries j)). eStatus e \<noteq> StepApplied)) \<and>
     map entryItem (jEntries j) = take (length (jEntries j)) (planItems (jPlan j) (deviceInterface j)) \<and>
     (\<forall>e\<in>set (jEntries j). validStepStatus (eStatus e)) \<and>
     phase_status_ok (jPhase j) (length (expectedKinds (jPlan j))) (jDevice j \<noteq> None) (jEntries j)"
  by (simp only: journal_Validate_ok journal_ok_def)

theorem journal_validate_characterised_witness: "journal_static crashedJournal \<and> deviceInterface crashedJournal = []"
  using journal_validate_characterised [of crashedJournal] crashedJournal_valid
  by (simp add: deviceInterface_def crashedJournal_def newJournal_def)

section \<open>The phase machine\<close>

inductive phaseReach :: "phase \<Rightarrow> phase \<Rightarrow> bool" where
  stay: "phaseReach a a"
| move: "phaseReach a b \<Longrightarrow> allowedTransition b d \<Longrightarrow> phaseReach a d"

lemma allowedTransition_cases:
  "allowedTransition a b \<longleftrightarrow>
    (a = PhaseConnecting \<and> b \<in> {PhaseConnected, PhaseDisconnecting, PhaseRollbackRequired}) \<or>
    (a = PhaseConnected \<and> b \<in> {PhaseDegraded, PhaseDisconnecting, PhaseRollbackRequired}) \<or>
    (a = PhaseDegraded \<and> b \<in> {PhaseDisconnecting, PhaseRollbackRequired}) \<or>
    (a = PhaseDisconnecting \<and> b \<in> {PhaseDisconnected, PhaseRollbackRequired}) \<or>
    (a = PhaseRollbackRequired \<and> b = PhaseDisconnecting) \<or> (a = PhaseForeignConflict \<and> b = PhaseDisconnected)"
  by (cases a) (auto simp: allowedTransition_def)

text \<open>once a teardown has begun, or has failed, the phases the controller allows lead only
  through disconnecting and rollback-required to disconnected, which is final; and from
  every phase but disconnected and the foreign conflict a teardown can begin.\<close>

theorem teardown_is_one_way:
  "(phaseReach PhaseDisconnecting ph \<or> phaseReach PhaseRollbackRequired ph \<longrightarrow>
      ph \<in> {PhaseDisconnecting, PhaseRollbackRequired, PhaseDisconnected}) \<and>
   (phaseReach PhaseDisconnected ph \<longrightarrow> ph = PhaseDisconnected) \<and>
   (validPhase ph \<and> ph \<notin> {PhaseDisconnected, PhaseForeignConflict, PhaseDisconnecting} \<longrightarrow> allowedTransition ph PhaseDisconnecting)"
proof -
  have a: "phaseReach x ph \<Longrightarrow> x \<in> {PhaseDisconnecting, PhaseRollbackRequired} \<Longrightarrow>
      ph \<in> {PhaseDisconnecting, PhaseRollbackRequired, PhaseDisconnected}" for x
    by (induction rule: phaseReach.induct) (auto simp: allowedTransition_cases)
  have b: "phaseReach x ph \<Longrightarrow> x = PhaseDisconnected \<Longrightarrow> ph = PhaseDisconnected" for x
    by (induction rule: phaseReach.induct) (auto simp: allowedTransition_cases)
  have c: "validPhase ph \<and> ph \<notin> {PhaseDisconnected, PhaseForeignConflict, PhaseDisconnecting} \<longrightarrow> allowedTransition ph PhaseDisconnecting"
    by (cases ph) (auto simp: allowedTransition_cases)
  show ?thesis using a b c by blast
qed

theorem teardown_is_one_way_witness:
  "phaseReach PhaseDisconnecting PhaseDisconnected \<and> \<not> phaseReach PhaseRollbackRequired PhaseConnected"
  using teardown_is_one_way [of PhaseConnected] phaseReach.move [OF phaseReach.stay, of PhaseDisconnecting PhaseDisconnected]
  by (auto simp: allowedTransition_cases)

end
