(* ===== verification/Byte_Codec.thy ===== *)
theory Byte_Codec
  imports Nord_Prelude
begin

text \<open>
  Bytes, and what the program uses of \<^verbatim>\<open>encoding/json\<close>: \<^verbatim>\<open>json.Marshal\<close> of one type, and a
  \<^verbatim>\<open>json.Decoder\<close> that disallows unknown fields and is asked for a second value to make sure
  the text has ended. A codec is an argument of the definitions that use it; \<open>codec_ok\<close> and
  \<open>codec_line_ok\<close> state what the code relies on for one value.
\<close>

type_synonym byte = "8 word"

text \<open>\<open>json_Decode\<close> gives the first value of the text, and whether the decoder is then at the end.\<close>

record 'a codec =
  json_Marshal :: "'a \<Rightarrow> byte list option"
  json_Decode :: "byte list \<Rightarrow> ('a \<times> bool) option"

definition codec_ok :: "'a codec \<Rightarrow> 'a \<Rightarrow> bool" where
  "codec_ok c x \<longleftrightarrow> (\<exists>d. json_Marshal c x = Some d \<and> d \<noteq> [] \<and> json_Decode c d = Some (x, True))"

text \<open>The same for a text followed by a line feed, as the stores write it.\<close>

definition codec_line_ok :: "'a codec \<Rightarrow> 'a \<Rightarrow> bool" where
  "codec_line_ok c x \<longleftrightarrow> (\<forall>d. json_Marshal c x = Some d \<longrightarrow> json_Decode c (d @ [10]) = Some (x, True))"

text \<open>A codec that knows one value, for witnesses.\<close>

definition oneCodec :: "'a \<Rightarrow> 'a codec" where
  "oneCodec x = \<lparr>json_Marshal = (\<lambda>_. Some [0x7b, 0x7d]),
     json_Decode = (\<lambda>d. if d = [0x7b, 0x7d] \<or> d = [0x7b, 0x7d, 10] then Some (x, True) else None)\<rparr>"

lemma oneCodec_ok: "codec_ok (oneCodec x) x" "codec_line_ok (oneCodec x) x"
  by (simp_all add: codec_ok_def codec_line_ok_def oneCodec_def)

end
