(* ===== verification/Helper_Protocol.thy ===== *)
theory Helper_Protocol
  imports Byte_Codec Sample_Plans
begin

text \<open>
  The boundary between the CLI and the privileged helper, \<^verbatim>\<open>internal/helperproto/protocol.go\<close>:
  requests and responses with their validators, the length-prefixed frames and the
  fixed-size secret frame on bytes. A reader is the list of bytes up to the end of the
  stream, a writer its output so far and how many more bytes it takes. The JSON text of a
  request or response is produced and read by a codec passed as an argument (\<open>Byte_Codec\<close>).
\<close>

section \<open>Readers and writers\<close>

record writer =
  wOut :: "byte list"
  wRoom :: "nat option"

definition writer_Write :: "byte list \<Rightarrow> writer \<Rightarrow> bool \<times> writer" where
  "writer_Write d w = (case wRoom w of
     None \<Rightarrow> (True, w\<lparr>wOut := wOut w @ d\<rparr>)
   | Some n \<Rightarrow> (length d \<le> n, w\<lparr>wOut := wOut w @ take n d, wRoom := Some (n - length d)\<rparr>))"

definition io_ReadFull :: "nat \<Rightarrow> byte list \<Rightarrow> (byte list \<times> byte list) option" where
  "io_ReadFull n r = (if length r < n then None else Some (take n r, drop n r))"

definition PutUint32 :: "32 word \<Rightarrow> byte list" where
  "PutUint32 w = [ucast (drop_bit 24 w), ucast (drop_bit 16 w), ucast (drop_bit 8 w), ucast w]"

definition Uint32 :: "byte list \<Rightarrow> 32 word" where
  "Uint32 b = push_bit 24 (ucast (b ! 0)) OR push_bit 16 (ucast (b ! 1)) OR push_bit 8 (ucast (b ! 2)) OR ucast (b ! 3)"

section \<open>Requests and responses\<close>

definition SchemaVersion :: int where "SchemaVersion = 2"
definition SecretChannelVersion :: int where "SecretChannelVersion = 1"
definition SecretFrameBytes :: nat where "SecretFrameBytes = 68"
definition maxRequestBytes :: nat where "maxRequestBytes = 65536"

definition secretMagic :: "byte list" where
  "secretMagic = [0x4e, 0x4d, 0x53, 0x31]"

datatype operation = OperationConnect | OperationDisconnect | OperationRecover | OperationStatus | OperationOther string

record request =
  rqSchemaVersion :: int
  rqRequestID :: string
  rqOperation :: operation
  rqSessionID :: string
  rqOwnerUID :: int
  rqSecretChannelVersion :: int
  rqPlan :: "plan option"

definition request_Validate :: "request \<Rightarrow> gerror option" where
  "request_Validate r = first_err [
     reject (rqSchemaVersion r \<noteq> SchemaVersion) ''unsupported helper protocol schema'',
     reject (\<not> ValidSessionID (rqRequestID r) \<or> \<not> ValidSessionID (rqSessionID r) \<or> rqOwnerUID r < 0)
       ''invalid helper request identity'',
     (case rqOperation r of
        OperationConnect \<Rightarrow>
         (case (rqSecretChannelVersion r = SecretChannelVersion, rqPlan r) of
            (True, Some p) \<Rightarrow> first_err [
              wrapIfError ''invalid helper connect plan'' (plan_Validate p),
              reject (pSessionID p \<noteq> rqSessionID r \<or> pOwnerUID p \<noteq> rqOwnerUID r)
                ''helper request identity does not match its plan'']
          | _ \<Rightarrow> Some (Err ''connect requires the supported secret channel and a plan''))
      | OperationOther s \<Rightarrow> Some (Err ''unsupported helper operation'')
      | _ \<Rightarrow> reject (rqPlan r \<noteq> None \<or> rqSecretChannelVersion r \<noteq> 0)
               ''non-connect helper request must not contain a plan or secret channel'')]"

datatype errorCode = ErrorInvalidRequest | ErrorUnauthorizedCaller | ErrorConflict | ErrorTransition
  | ErrorRollback | ErrorInternal | ErrorCodeOther string

text \<open>The empty string, an absent state or error code, is \<open>None\<close>.\<close>

record response =
  rsSchemaVersion :: int
  rsRequestID :: string
  rsOK :: bool
  rsState :: "phase option"
  rsErrorCode :: "errorCode option"

fun validResponseState :: "phase \<Rightarrow> bool" where
  "validResponseState (PhaseOther s) = False"
| "validResponseState _ = True"

fun validErrorCode :: "errorCode option \<Rightarrow> bool" where
  "validErrorCode None = False"
| "validErrorCode (Some (ErrorCodeOther s)) = False"
| "validErrorCode _ = True"

definition response_Validate :: "response \<Rightarrow> gerror option" where
  "response_Validate r = first_err [
     reject (rsSchemaVersion r \<noteq> SchemaVersion \<or> \<not> ValidSessionID (rsRequestID r)) ''invalid helper response identity'',
     (case rsState r of None \<Rightarrow> None | Some s \<Rightarrow> reject (\<not> validResponseState s) ''invalid helper response state''),
     (if rsOK r then reject (rsErrorCode r \<noteq> None) ''successful helper response contains an error''
      else reject (\<not> validErrorCode (rsErrorCode r)) ''failed helper response has an invalid error code'')]"

section \<open>Secrets\<close>

text \<open>Two 32-byte arrays; \<open>secrets_wf\<close> is their static size.\<close>

record deviceSecrets =
  ClientPrivateKey :: "byte list"
  PeerPublicKey :: "byte list"

definition secrets_wf :: "deviceSecrets \<Rightarrow> bool" where
  "secrets_wf s \<longleftrightarrow> length (ClientPrivateKey s) = 32 \<and> length (PeerPublicKey s) = 32"

definition zeroSecrets :: deviceSecrets where
  "zeroSecrets = \<lparr>ClientPrivateKey = replicate 32 0, PeerPublicKey = replicate 32 0\<rparr>"

definition allZero :: "byte list \<Rightarrow> bool" where
  "allZero b = (foldl (OR) 0 b = 0)"

text \<open>A nil pointer is \<open>None\<close>.\<close>

definition secrets_Validate :: "deviceSecrets option \<Rightarrow> gerror option" where
  "secrets_Validate so = (case so of
     None \<Rightarrow> Some (Err ''WireGuard keys are missing'')
   | Some s \<Rightarrow> first_err [
       reject (allZero (ClientPrivateKey s) \<or> allZero (PeerPublicKey s)) ''WireGuard keys must not be zero'',
       reject (ClientPrivateKey s = PeerPublicKey s) ''WireGuard private and peer public keys must differ''])"

definition secrets_Wipe :: "deviceSecrets \<Rightarrow> deviceSecrets" where
  "secrets_Wipe s = \<lparr>ClientPrivateKey = map (\<lambda>_. 0) (ClientPrivateKey s), PeerPublicKey = map (\<lambda>_. 0) (PeerPublicKey s)\<rparr>"

definition WriteSecrets :: "deviceSecrets option \<Rightarrow> writer \<Rightarrow> gerror option \<times> writer" where
  "WriteSecrets so w = (case secrets_Validate so of
     Some e \<Rightarrow> (Some e, w)
   | None \<Rightarrow> (case writer_Write (secretMagic @ ClientPrivateKey (the so) @ PeerPublicKey (the so)) w of
       (True, w1) \<Rightarrow> (None, w1)
     | (False, w1) \<Rightarrow> (Some (Err ''write helper secret frame''), w1)))"

definition readSecretsExact :: "byte list \<Rightarrow> (gerror + deviceSecrets) \<times> byte list" where
  "readSecretsExact r = (case io_ReadFull SecretFrameBytes r of
     None \<Rightarrow> (Inl (Err ''read complete helper secret frame''), [])
   | Some (frame, r1) \<Rightarrow>
       if take 4 frame \<noteq> secretMagic then (Inl (Err ''invalid helper secret frame version''), r1)
       else let s = \<lparr>ClientPrivateKey = take 32 (drop 4 frame), PeerPublicKey = take 32 (drop 36 frame)\<rparr> in
         (case secrets_Validate (Some s) of Some e \<Rightarrow> (Inl e, r1) | None \<Rightarrow> (Inr s, r1)))"

definition ReadSecrets :: "byte list \<Rightarrow> gerror + deviceSecrets" where
  "ReadSecrets r = (case readSecretsExact r of
     (Inl e, r1) \<Rightarrow> Inl e
   | (Inr s, r1) \<Rightarrow> if r1 \<noteq> [] then Inl (Err ''helper secret channel contains trailing data'') else Inr s)"

section \<open>Frames\<close>

definition EncodeFrame :: "request codec \<Rightarrow> request \<Rightarrow> deviceSecrets option \<Rightarrow> writer \<Rightarrow> gerror option \<times> writer" where
  "EncodeFrame c r so w = (case request_Validate r of
     Some e \<Rightarrow> (Some e, w)
   | None \<Rightarrow> (case json_Marshal c r of
     None \<Rightarrow> (Some (Err ''encode helper request''), w)
   | Some d \<Rightarrow>
       if length d > maxRequestBytes then (Some (Err ''helper request exceeds size limit''), w)
       else (case writer_Write (PutUint32 (of_nat (length d))) w of
         (False, w1) \<Rightarrow> (Some (Err ''write helper request length''), w1)
       | (True, w1) \<Rightarrow> (case writer_Write d w1 of
           (False, w2) \<Rightarrow> (Some (Err ''write helper request''), w2)
         | (True, w2) \<Rightarrow>
             if rqOperation r = OperationConnect then WriteSecrets so w2
             else if so \<noteq> None then (Some (Err ''non-connect helper request contains secrets''), w2)
             else (None, w2)))))"

definition DecodeRequest :: "request codec \<Rightarrow> byte list \<Rightarrow> gerror + request" where
  "DecodeRequest c data = (let data' = take (maxRequestBytes + 1) data in
     if length data' > maxRequestBytes then Inl (Err ''helper request exceeds size limit'')
     else (case json_Decode c data' of
       None \<Rightarrow> Inl (Err ''decode helper request'')
     | Some (r, atEOF) \<Rightarrow>
         if \<not> atEOF then Inl (Err ''helper request contains trailing data'')
         else (case request_Validate r of Some e \<Rightarrow> Inl e | None \<Rightarrow> Inr r)))"

definition requireEOF :: "byte list \<Rightarrow> gerror option" where
  "requireEOF r = reject (r \<noteq> []) ''helper frame contains trailing data''"

definition DecodeFrame :: "request codec \<Rightarrow> byte list \<Rightarrow> gerror + (request \<times> deviceSecrets)" where
  "DecodeFrame c s = (case io_ReadFull 4 s of
     None \<Rightarrow> Inl (Err ''read helper request length'')
   | Some (sz, s1) \<Rightarrow>
       let len = Uint32 sz in
       if len = 0 \<or> len > of_nat maxRequestBytes then Inl (Err ''invalid helper request length'')
       else (case io_ReadFull (unat len) s1 of
         None \<Rightarrow> Inl (Err ''read complete helper request'')
       | Some (data, s2) \<Rightarrow> (case DecodeRequest c data of
           Inl e \<Rightarrow> Inl e
         | Inr r \<Rightarrow>
             if rqOperation r \<noteq> OperationConnect
             then (case requireEOF s2 of Some e \<Rightarrow> Inl e | None \<Rightarrow> Inr (r, zeroSecrets))
             else (case readSecretsExact s2 of
               (Inl e, s3) \<Rightarrow> Inl e
             | (Inr sec, s3) \<Rightarrow> (case requireEOF s3 of Some e \<Rightarrow> Inl e | None \<Rightarrow> Inr (r, sec))))))"

definition EncodeResponse :: "response codec \<Rightarrow> response \<Rightarrow> writer \<Rightarrow> gerror option \<times> writer" where
  "EncodeResponse c r w = (case response_Validate r of
     Some e \<Rightarrow> (Some e, w)
   | None \<Rightarrow> (case json_Marshal c r of
     None \<Rightarrow> (Some (Err ''encode helper response''), w)
   | Some d \<Rightarrow>
       if length d > maxRequestBytes then (Some (Err ''helper response exceeds size limit''), w)
       else (case writer_Write (PutUint32 (of_nat (length d))) w of
         (False, w1) \<Rightarrow> (Some (Err ''write helper response length''), w1)
       | (True, w1) \<Rightarrow> (case writer_Write d w1 of
           (False, w2) \<Rightarrow> (Some (Err ''write helper response''), w2)
         | (True, w2) \<Rightarrow> (None, w2)))))"

definition DecodeResponse :: "response codec \<Rightarrow> byte list \<Rightarrow> gerror + response" where
  "DecodeResponse c s = (case io_ReadFull 4 s of
     None \<Rightarrow> Inl (Err ''read helper response length'')
   | Some (sz, s1) \<Rightarrow>
       let len = Uint32 sz in
       if len = 0 \<or> len > of_nat maxRequestBytes then Inl (Err ''invalid helper response length'')
       else (case io_ReadFull (unat len) s1 of
         None \<Rightarrow> Inl (Err ''read complete helper response'')
       | Some (data, s2) \<Rightarrow> (case json_Decode c data of
           None \<Rightarrow> Inl (Err ''decode helper response'')
         | Some (r, atEOF) \<Rightarrow>
             if \<not> atEOF then Inl (Err ''helper response contains trailing data'')
             else (case response_Validate r of Some e \<Rightarrow> Inl e | None \<Rightarrow> Inr r))))"

section \<open>Facts\<close>

lemma length_PutUint32 [simp]: "length (PutUint32 w) = 4"
  by (simp add: PutUint32_def)

lemma Uint32_PutUint32 [simp]: "Uint32 (PutUint32 w) = w"
proof (rule bit_word_eqI)
  fix n assume "n < LENGTH(32)"
  consider "n < 8" | "8 \<le> n" "n < 16" | "16 \<le> n" "n < 24" | "24 \<le> n" by linarith
  then show "bit (Uint32 (PutUint32 w)) n = bit w n"
    by cases (use \<open>n < LENGTH(32)\<close> in \<open>auto simp: Uint32_def PutUint32_def bit_simps\<close>)
qed

lemma PutUint32_Uint32:
  assumes "length b = 4"
  shows "PutUint32 (Uint32 b) = b"
proof -
  obtain x y z v where b: "b = [x, y, z, v]" using assms by (auto simp: length_Suc_conv numeral_eq_Suc)
  have "ucast (drop_bit 24 (Uint32 b)) = x" "ucast (drop_bit 16 (Uint32 b)) = y" "ucast (drop_bit 8 (Uint32 b)) = z" "ucast (Uint32 b) = v"
    unfolding b by (rule bit_word_eqI; auto simp: Uint32_def bit_simps dest: bit_imp_le_length)+
  then show ?thesis by (simp add: PutUint32_def b)
qed

lemma io_ReadFull_append [simp]: "length d = n \<Longrightarrow> io_ReadFull n (d @ r) = Some (d, r)"
  by (simp add: io_ReadFull_def)

lemma io_ReadFull_Some: "io_ReadFull n r = Some (d, r1) \<longleftrightarrow> r = d @ r1 \<and> length d = n"
  by (auto simp: io_ReadFull_def split: if_splits)

lemma length_word_bound: "n \<le> maxRequestBytes \<Longrightarrow> unat (of_nat n :: 32 word) = n"
  by (simp add: maxRequestBytes_def unat_of_nat)

lemma frame_length_ok:
  "0 < n \<Longrightarrow> n \<le> maxRequestBytes \<Longrightarrow> (of_nat n :: 32 word) \<noteq> 0 \<and> \<not> (of_nat n :: 32 word) > of_nat maxRequestBytes"
  using length_word_bound [of n] length_word_bound [of maxRequestBytes] by (auto simp: word_less_nat_alt)

lemma frame_length_range:
  "len \<noteq> 0 \<Longrightarrow> \<not> (len :: 32 word) > of_nat maxRequestBytes \<Longrightarrow> 0 < unat len \<and> unat len \<le> maxRequestBytes"
  using length_word_bound [of maxRequestBytes] by (auto simp: word_less_nat_alt unat_gt_0)

lemma secret_frame_length: "secrets_wf s \<Longrightarrow> length (secretMagic @ ClientPrivateKey s @ PeerPublicKey s) = SecretFrameBytes"
  by (simp add: secrets_wf_def SecretFrameBytes_def secretMagic_def)

text \<open>Exactly the frames the reader accepts.\<close>

lemma readSecretsExact_Inr:
  "readSecretsExact r = (Inr s, r1) \<longleftrightarrow>
    r = secretMagic @ ClientPrivateKey s @ PeerPublicKey s @ r1 \<and> secrets_wf s \<and> secrets_Validate (Some s) = None"
proof
  assume "readSecretsExact r = (Inr s, r1)"
  then obtain frame where f: "r = frame @ r1" "length frame = 68" "take 4 frame = secretMagic"
      "s = \<lparr>ClientPrivateKey = take 32 (drop 4 frame), PeerPublicKey = take 32 (drop 36 frame)\<rparr>" "secrets_Validate (Some s) = None"
    by (auto simp: readSecretsExact_def io_ReadFull_Some SecretFrameBytes_def Let_def split: option.splits if_splits)
  have "frame = take 4 frame @ take 32 (drop 4 frame) @ drop 36 frame"
    using append_take_drop_id [of 4 frame] append_take_drop_id [of 32 "drop 4 frame"] by simp
  moreover have "take 32 (drop 36 frame) = drop 36 frame" using f(2) by simp
  ultimately show "r = secretMagic @ ClientPrivateKey s @ PeerPublicKey s @ r1 \<and> secrets_wf s \<and> secrets_Validate (Some s) = None"
    using f by (auto simp: secrets_wf_def)
next
  assume a: "r = secretMagic @ ClientPrivateKey s @ PeerPublicKey s @ r1 \<and> secrets_wf s \<and> secrets_Validate (Some s) = None"
  let ?f = "secretMagic @ ClientPrivateKey s @ PeerPublicKey s"
  have l: "length (ClientPrivateKey s) = 32" "length (PeerPublicKey s) = 32" using a by (simp_all add: secrets_wf_def)
  have rd: "io_ReadFull SecretFrameBytes r = Some (?f, r1)"
    using a secret_frame_length [of s] by (simp add: io_ReadFull_Some)
  have parts: "take 4 ?f = secretMagic" "take 32 (drop 4 ?f) = ClientPrivateKey s" "take 32 (drop 36 ?f) = PeerPublicKey s"
    using l by (simp_all add: secretMagic_def)
  have s: "\<lparr>ClientPrivateKey = ClientPrivateKey s, PeerPublicKey = PeerPublicKey s\<rparr> = s" by simp
  show "readSecretsExact r = (Inr s, r1)"
    unfolding readSecretsExact_def rd option.case prod.case parts Let_def s using a by simp
qed

lemma ReadSecrets_Inr:
  "ReadSecrets r = Inr s \<longleftrightarrow> r = secretMagic @ ClientPrivateKey s @ PeerPublicKey s \<and> secrets_wf s \<and> secrets_Validate (Some s) = None"
  using readSecretsExact_Inr [of r s "[]"]
  by (auto simp: ReadSecrets_def split: prod.splits sum.splits if_splits)

lemma DecodeRequest_Inr:
  "DecodeRequest c d = Inr r \<longleftrightarrow> length d \<le> maxRequestBytes \<and> json_Decode c d = Some (r, True) \<and> request_Validate r = None"
  by (auto simp: DecodeRequest_def Let_def maxRequestBytes_def split: option.splits prod.splits if_splits)

text \<open>Exactly the byte strings \<^verbatim>\<open>DecodeFrame\<close> accepts.\<close>

lemma DecodeFrame_Inr:
  "DecodeFrame c b = Inr (r, s) \<longleftrightarrow>
    (\<exists>d. 0 < length d \<and> length d \<le> maxRequestBytes \<and> json_Decode c d = Some (r, True) \<and> request_Validate r = None \<and>
       (if rqOperation r = OperationConnect
        then b = PutUint32 (of_nat (length d)) @ d @ secretMagic @ ClientPrivateKey s @ PeerPublicKey s \<and> secrets_wf s \<and>
             secrets_Validate (Some s) = None
        else b = PutUint32 (of_nat (length d)) @ d \<and> s = zeroSecrets))" (is "?L \<longleftrightarrow> ?R")
proof
  assume ?L
  then obtain sz s1 where 1: "io_ReadFull 4 b = Some (sz, s1)" by (auto simp: DecodeFrame_def split: option.splits)
  with \<open>?L\<close> have ln: "Uint32 sz \<noteq> 0" "\<not> Uint32 sz > of_nat maxRequestBytes" by (auto simp: DecodeFrame_def Let_def split: if_splits)
  with \<open>?L\<close> 1 obtain d s2 where 2: "io_ReadFull (unat (Uint32 sz)) s1 = Some (d, s2)"
    by (auto simp: DecodeFrame_def Let_def split: option.splits if_splits)
  have d: "0 < length d" "length d \<le> maxRequestBytes" "b = sz @ d @ s2" "sz = PutUint32 (of_nat (length d))"
    using 1 2 frame_length_range [OF ln] PutUint32_Uint32 [of sz] by (auto simp: io_ReadFull_Some)
  with \<open>?L\<close> 1 2 ln obtain r' where 3: "DecodeRequest c d = Inr r'" by (auto simp: DecodeFrame_def Let_def split: sum.splits)
  have r: "r' = r" using \<open>?L\<close> 1 2 3 ln by (auto simp: DecodeFrame_def Let_def requireEOF_def split: sum.splits if_splits option.splits prod.splits)
  have tail: "if rqOperation r = OperationConnect then readSecretsExact s2 = (Inr s, []) else s2 = [] \<and> s = zeroSecrets"
    using \<open>?L\<close> 1 2 3 ln r
    by (auto simp: DecodeFrame_def Let_def requireEOF_def reject_def split: sum.splits if_splits option.splits prod.splits)
  show ?R using d 3 [unfolded r DecodeRequest_Inr] tail by (intro exI [of _ d]) (auto simp: readSecretsExact_Inr split: if_splits)
next
  assume ?R
  then obtain d where d: "0 < length d" "length d \<le> maxRequestBytes" "json_Decode c d = Some (r, True)" "request_Validate r = None"
    and tail: "if rqOperation r = OperationConnect
        then b = PutUint32 (of_nat (length d)) @ d @ secretMagic @ ClientPrivateKey s @ PeerPublicKey s \<and> secrets_wf s \<and>
             secrets_Validate (Some s) = None
        else b = PutUint32 (of_nat (length d)) @ d \<and> s = zeroSecrets" by blast
  have req: "DecodeRequest c d = Inr r" using d by (simp add: DecodeRequest_Inr)
  note len = frame_length_ok [OF d(1,2)] length_word_bound [OF d(2)]
  show ?L
  proof (cases "rqOperation r = OperationConnect")
    case True
    then have b: "b = PutUint32 (of_nat (length d)) @ d @ secretMagic @ ClientPrivateKey s @ PeerPublicKey s"
      and s: "readSecretsExact (secretMagic @ ClientPrivateKey s @ PeerPublicKey s) = (Inr s, [])"
      using tail by (auto simp: readSecretsExact_Inr)
    show ?thesis using len req True by (simp add: DecodeFrame_def b s requireEOF_def reject_def Let_def)
  next
    case False
    then have b: "b = PutUint32 (of_nat (length d)) @ d @ []" and s: "s = zeroSecrets" using tail by auto
    have "io_ReadFull (length d) d = Some (d, [])" by (simp add: io_ReadFull_def)
    then show ?thesis using len req False by (simp add: DecodeFrame_def b s requireEOF_def reject_def Let_def)
  qed
qed

lemma writer_Write_True: "writer_Write d w = (True, w1) \<Longrightarrow> wOut w1 = wOut w @ d"
  by (auto simp: writer_Write_def split: option.splits)

lemma WriteSecrets_None:
  "WriteSecrets so w = (None, w1) \<Longrightarrow> \<exists>s. so = Some s \<and> secrets_Validate (Some s) = None \<and>
    wOut w1 = wOut w @ secretMagic @ ClientPrivateKey s @ PeerPublicKey s"
  by (cases so)
     (auto simp: WriteSecrets_def dest!: writer_Write_True split: option.splits prod.splits bool.splits, auto simp: secrets_Validate_def)

lemma EncodeFrame_None:
  assumes "EncodeFrame c r so w = (None, w1)"
  shows "\<exists>d. json_Marshal c r = Some d \<and> request_Validate r = None \<and> length d \<le> maxRequestBytes \<and>
    (if rqOperation r = OperationConnect
     then \<exists>s. so = Some s \<and> secrets_Validate so = None \<and>
       wOut w1 = wOut w @ PutUint32 (of_nat (length d)) @ d @ secretMagic @ ClientPrivateKey s @ PeerPublicKey s
     else so = None \<and> wOut w1 = wOut w @ PutUint32 (of_nat (length d)) @ d)"
  using assms
  by (auto simp: EncodeFrame_def dest!: writer_Write_True WriteSecrets_None split: option.splits if_splits prod.splits bool.splits)

lemma EncodeResponse_None:
  assumes "EncodeResponse c r w = (None, w1)"
  shows "\<exists>d. json_Marshal c r = Some d \<and> response_Validate r = None \<and> length d \<le> maxRequestBytes \<and>
    wOut w1 = wOut w @ PutUint32 (of_nat (length d)) @ d"
  using assms
  by (auto simp: EncodeResponse_def dest!: writer_Write_True split: option.splits if_splits prod.splits bool.splits)

section \<open>Properties\<close>

definition freshWriter :: writer where
  "freshWriter = \<lparr>wOut = [], wRoom = None\<rparr>"

text \<open>C36: what \<^verbatim>\<open>EncodeFrame\<close> wrote successfully to a fresh stream, \<^verbatim>\<open>DecodeFrame\<close> reads back:
  the same request and, for a connect, the same keys, otherwise none.\<close>

theorem frame_roundtrip:
  assumes "codec_ok c r" "\<forall>s. so = Some s \<longrightarrow> secrets_wf s" "wOut w = []" "EncodeFrame c r so w = (None, w1)"
  shows "DecodeFrame c (wOut w1) = Inr (r, if rqOperation r = OperationConnect then the so else zeroSecrets)"
proof -
  obtain d where d: "json_Marshal c r = Some d" "request_Validate r = None" "length d \<le> maxRequestBytes"
    and out: "if rqOperation r = OperationConnect
     then \<exists>s. so = Some s \<and> secrets_Validate so = None \<and>
       wOut w1 = wOut w @ PutUint32 (of_nat (length d)) @ d @ secretMagic @ ClientPrivateKey s @ PeerPublicKey s
     else so = None \<and> wOut w1 = wOut w @ PutUint32 (of_nat (length d)) @ d"
    using EncodeFrame_None [OF assms(4)] by blast
  have dec: "0 < length d" "json_Decode c d = Some (r, True)" using assms(1) d(1) by (auto simp: codec_ok_def)
  show ?thesis unfolding DecodeFrame_Inr by (rule exI [of _ d]) (use d dec out assms(2,3) in \<open>auto split: if_splits\<close>)
qed

definition sampleRequest :: request where
  "sampleRequest = \<lparr>rqSchemaVersion = 2, rqRequestID = replicate 32 CHR ''a'', rqOperation = OperationConnect,
     rqSessionID = pSessionID sampleFull, rqOwnerUID = 501, rqSecretChannelVersion = 1, rqPlan = Some sampleFull\<rparr>"

definition sampleSecrets :: deviceSecrets where
  "sampleSecrets = \<lparr>ClientPrivateKey = replicate 32 1, PeerPublicKey = replicate 32 2\<rparr>"

lemma sampleRequest_valid: "request_Validate sampleRequest = None"
  using sampleFull_valid sample_ids
  by (simp add: request_Validate_def sampleRequest_def SchemaVersion_def SecretChannelVersion_def) (simp add: sampleFull_def sample_ids)

lemma allZero_iff: "allZero b \<longleftrightarrow> (\<forall>x\<in>set b. x = 0)"
proof -
  have "foldl (OR) y b = 0 \<longleftrightarrow> y = 0 \<and> (\<forall>x\<in>set b. x = 0)" for y :: byte
    by (induction b arbitrary: y) (auto simp: or_eq_0_iff)
  then show ?thesis by (simp add: allZero_def)
qed

lemma sampleSecrets_valid: "secrets_wf sampleSecrets" "secrets_Validate (Some sampleSecrets) = None"
  by (simp_all add: secrets_wf_def secrets_Validate_def sampleSecrets_def allZero_iff)

theorem frame_roundtrip_witness:
  "DecodeFrame (oneCodec sampleRequest) (wOut (snd (EncodeFrame (oneCodec sampleRequest) sampleRequest (Some sampleSecrets) freshWriter)))
    = Inr (sampleRequest, sampleSecrets)"
proof -
  obtain w1 where w1: "EncodeFrame (oneCodec sampleRequest) sampleRequest (Some sampleSecrets) freshWriter = (None, w1)"
    by (simp add: EncodeFrame_def sampleRequest_valid)
       (simp add: oneCodec_def maxRequestBytes_def writer_Write_def freshWriter_def sampleRequest_def WriteSecrets_def sampleSecrets_valid)
  have "rqOperation sampleRequest = OperationConnect" by (simp add: sampleRequest_def)
  then show ?thesis
    using frame_roundtrip [OF oneCodec_ok(1) _ _ w1] sampleSecrets_valid w1 by (simp add: freshWriter_def)
qed

text \<open>C35: \<^verbatim>\<open>DecodeFrame\<close> accepts exactly the canonical encodings: a four-byte length of at most
  64 KiB, that many bytes holding one valid request and nothing else, then for a connect the 68-byte
  secret frame with usable keys and for any other operation the end of the stream.\<close>

theorem frame_accepted_exactly:
  "DecodeFrame c b = Inr (r, s) \<longleftrightarrow>
    (\<exists>d. 0 < length d \<and> length d \<le> 65536 \<and> json_Decode c d = Some (r, True) \<and> request_Validate r = None \<and>
       b = PutUint32 (of_nat (length d)) @ d @
         (if rqOperation r = OperationConnect then secretMagic @ ClientPrivateKey s @ PeerPublicKey s else []) \<and>
       (if rqOperation r = OperationConnect then secrets_wf s \<and> secrets_Validate (Some s) = None else s = zeroSecrets))"
  unfolding DecodeFrame_Inr maxRequestBytes_def [symmetric] by (auto split: if_splits)

text \<open>the secret channel: \<^verbatim>\<open>ReadSecrets\<close> returns keys exactly for the 68 bytes that
  \<^verbatim>\<open>WriteSecrets\<close> writes for them, so keys survive the trip and no other byte string yields keys.\<close>

theorem secrets_channel_exact:
  assumes "secrets_wf s"
  shows "ReadSecrets b = Inr s \<longleftrightarrow> WriteSecrets (Some s) freshWriter = (None, \<lparr>wOut = b, wRoom = None\<rparr>)"
  using assms
  by (auto simp: ReadSecrets_Inr WriteSecrets_def writer_Write_def freshWriter_def split: option.splits)

theorem secrets_channel_exact_witness:
  "ReadSecrets (secretMagic @ replicate 32 1 @ replicate 32 2) = Inr sampleSecrets"
  using secrets_channel_exact [OF sampleSecrets_valid(1), of "secretMagic @ replicate 32 1 @ replicate 32 2"] sampleSecrets_valid(2)
  by (simp add: WriteSecrets_def writer_Write_def freshWriter_def) (simp add: sampleSecrets_def)

text \<open>a response written successfully is read back unchanged, and what is read back validates.\<close>

theorem response_roundtrip:
  assumes "codec_ok c r" "wOut w = []" "EncodeResponse c r w = (None, w1)"
  shows "DecodeResponse c (wOut w1) = Inr r \<and> response_Validate r = None"
proof -
  obtain d where d: "json_Marshal c r = Some d" "response_Validate r = None" "length d \<le> maxRequestBytes" "wOut w1 = PutUint32 (of_nat (length d)) @ d @ []"
    using EncodeResponse_None [OF assms(3)] assms(2) by auto
  have dec: "0 < length d" "json_Decode c d = Some (r, True)" using assms(1) d(1) by (auto simp: codec_ok_def)
  have "io_ReadFull (length d) d = Some (d, [])" by (simp add: io_ReadFull_def)
  then show ?thesis
    using d dec frame_length_ok [OF dec(1) d(3)] length_word_bound [OF d(3)] by (simp add: DecodeResponse_def Let_def)
qed

definition sampleResponse :: response where
  "sampleResponse = \<lparr>rsSchemaVersion = 2, rsRequestID = replicate 32 CHR ''a'', rsOK = True, rsState = Some PhaseConnected, rsErrorCode = None\<rparr>"

theorem response_roundtrip_witness:
  "DecodeResponse (oneCodec sampleResponse) (wOut (snd (EncodeResponse (oneCodec sampleResponse) sampleResponse freshWriter))) = Inr sampleResponse"
proof -
  have v: "response_Validate sampleResponse = None"
    by (simp add: response_Validate_def sampleResponse_def SchemaVersion_def sample_ids)
  obtain w1 where w1: "EncodeResponse (oneCodec sampleResponse) sampleResponse freshWriter = (None, w1)"
    by (simp add: EncodeResponse_def v) (simp add: oneCodec_def maxRequestBytes_def writer_Write_def freshWriter_def)
  show ?thesis using response_roundtrip [OF oneCodec_ok(1) _ w1] w1 by (simp add: freshWriter_def)
qed

end
