(* ===== verification/File_System.thy ===== *)
theory File_System
  imports Byte_Codec
begin

text \<open>
  The part of the operating system the stores and locks use: directories and the files in
  them with kind, permission bits, owner and content, and advisory locks. An oracle decides
  for each system call whether it succeeds, fails without effect, or the process dies
  before it, after which no call has any effect; the names \<^verbatim>\<open>os.CreateTemp\<close> picks and the state of
  contexts are given too. Theorems hold for every oracle. Durability against power loss is not modelled.
\<close>

section \<open>Nodes and worlds\<close>

datatype outcome = OpOk | OpFail | OpDie

datatype oserr = ENOENT | EEXIST | ELOOP | EWOULDBLOCK | EIO

datatype fileKind = KRegular | KDir | KSymlink | KSocket | KOther

record fsNode =
  nKind :: fileKind
  nPerm :: "32 word"
  nUid :: int
  nData :: "byte list"

type_synonym filePath = "string \<times> string"

record fsWorld =
  fsDirs :: "string \<Rightarrow> fsNode option"
  fsFiles :: "filePath \<Rightarrow> fsNode option"
  fsOracle :: "outcome list"
  fsTemps :: "string list"
  fsEuid :: int
  fsDead :: bool
  fsDone :: "ctx \<Rightarrow> bool"
  fsNextFd :: nat
  fsFlocks :: "filePath \<Rightarrow> nat option"
  fsOnce :: "nat \<Rightarrow> gerror option option"

definition syscall :: "fsWorld \<Rightarrow> bool \<times> fsWorld" where
  "syscall w = (if fsDead w then (False, w) else (case fsOracle w of
     [] \<Rightarrow> (True, w)
   | OpOk # os \<Rightarrow> (True, w\<lparr>fsOracle := os\<rparr>)
   | OpFail # os \<Rightarrow> (False, w\<lparr>fsOracle := os\<rparr>)
   | OpDie # os \<Rightarrow> (False, w\<lparr>fsOracle := os, fsDead := True\<rparr>)))"

definition os_error :: "oserr \<Rightarrow> gerror" where
  "os_error e = (case e of ENOENT \<Rightarrow> Sentinel ErrNotExist | _ \<Rightarrow> Err ''os error'')"

text \<open>\<^verbatim>\<open>ctx.Err()\<close>\<close>

definition ctx_Err :: "ctx \<Rightarrow> fsWorld \<Rightarrow> gerror option" where
  "ctx_Err ctx w = (if fsDone w ctx then Some (Err ''context canceled'') else None)"

section \<open>Paths\<close>

definition filepath_IsAbs :: "string \<Rightarrow> bool" where
  "filepath_IsAbs d = (case d of [] \<Rightarrow> False | ch # _ \<Rightarrow> ch = CHR ''/'')"

fun split_slash :: "string \<Rightarrow> string \<Rightarrow> string list" where
  "split_slash acc [] = [rev acc]"
| "split_slash acc (ch # s) = (if ch = CHR ''/'' then rev acc # split_slash [] s else split_slash (ch # acc) s)"

fun clean_segments :: "string list \<Rightarrow> string list \<Rightarrow> string list" where
  "clean_segments st [] = rev st"
| "clean_segments st (x # xs) =
     (if x = [] \<or> x = ''.'' then clean_segments st xs
      else if x = ''..'' then clean_segments (tl st) xs
      else clean_segments (x # st) xs)"

text \<open>\<^verbatim>\<open>filepath.Clean\<close> of an absolute path: at the root \<^verbatim>\<open>..\<close> is dropped.\<close>

definition filepath_Clean :: "string \<Rightarrow> string" where
  "filepath_Clean d = (case clean_segments [] (split_slash [] d) of [] \<Rightarrow> ''/'' | xs \<Rightarrow> concat (map (\<lambda>x. CHR ''/'' # x) xs))"

section \<open>System calls\<close>

definition os_MkdirAll :: "string \<Rightarrow> 32 word \<Rightarrow> fsWorld \<Rightarrow> oserr option \<times> fsWorld" where
  "os_MkdirAll d perm w = (case syscall w of
     (False, w1) \<Rightarrow> (Some EIO, w1)
   | (True, w1) \<Rightarrow> (case fsDirs w1 d of
       None \<Rightarrow> (None, w1\<lparr>fsDirs := (fsDirs w1)(d := Some \<lparr>nKind = KDir, nPerm = perm, nUid = fsEuid w1, nData = []\<rparr>)\<rparr>)
     | Some n \<Rightarrow> if nKind n = KDir \<or> nKind n = KSymlink then (None, w1) else (Some EIO, w1)))"

definition os_LstatDir :: "string \<Rightarrow> fsWorld \<Rightarrow> (oserr + fsNode) \<times> fsWorld" where
  "os_LstatDir d w = (case syscall w of
     (False, w1) \<Rightarrow> (Inl EIO, w1)
   | (True, w1) \<Rightarrow> (case fsDirs w1 d of None \<Rightarrow> Inl ENOENT | Some n \<Rightarrow> Inr n, w1))"

definition os_Lstat :: "filePath \<Rightarrow> fsWorld \<Rightarrow> (oserr + fsNode) \<times> fsWorld" where
  "os_Lstat p w = (case syscall w of
     (False, w1) \<Rightarrow> (Inl EIO, w1)
   | (True, w1) \<Rightarrow> (case fsFiles w1 p of None \<Rightarrow> Inl ENOENT | Some n \<Rightarrow> Inr n, w1))"

definition os_Link :: "filePath \<Rightarrow> filePath \<Rightarrow> fsWorld \<Rightarrow> oserr option \<times> fsWorld" where
  "os_Link old new w = (case syscall w of
     (False, w1) \<Rightarrow> (Some EIO, w1)
   | (True, w1) \<Rightarrow> (case fsFiles w1 old of
       None \<Rightarrow> (Some ENOENT, w1)
     | Some n \<Rightarrow> if fsFiles w1 new \<noteq> None then (Some EEXIST, w1)
                 else (None, w1\<lparr>fsFiles := (fsFiles w1)(new := Some n)\<rparr>)))"

definition os_Rename :: "filePath \<Rightarrow> filePath \<Rightarrow> fsWorld \<Rightarrow> oserr option \<times> fsWorld" where
  "os_Rename old new w = (case syscall w of
     (False, w1) \<Rightarrow> (Some EIO, w1)
   | (True, w1) \<Rightarrow> (case fsFiles w1 old of
       None \<Rightarrow> (Some ENOENT, w1)
     | Some n \<Rightarrow> (None, w1\<lparr>fsFiles := (fsFiles w1)(old := None, new := Some n)\<rparr>)))"

definition os_Remove :: "filePath \<Rightarrow> fsWorld \<Rightarrow> oserr option \<times> fsWorld" where
  "os_Remove p w = (case syscall w of
     (False, w1) \<Rightarrow> (Some EIO, w1)
   | (True, w1) \<Rightarrow> (case fsFiles w1 p of
       None \<Rightarrow> (Some ENOENT, w1)
     | Some n \<Rightarrow> (None, w1\<lparr>fsFiles := (fsFiles w1)(p := None)\<rparr>)))"

text \<open>\<^verbatim>\<open>os.CreateTemp(dir, prefix + "*")\<close>: an exclusive create of a new name, mode 0600.\<close>

definition os_CreateTemp :: "string \<Rightarrow> string \<Rightarrow> fsWorld \<Rightarrow> (oserr + filePath) \<times> fsWorld" where
  "os_CreateTemp d pre w = (case syscall w of
     (False, w1) \<Rightarrow> (Inl EIO, w1)
   | (True, w1) \<Rightarrow> (case fsTemps w1 of
       [] \<Rightarrow> (Inl EEXIST, w1)
     | t # ts \<Rightarrow>
         let p = (d, pre @ t); w2 = w1\<lparr>fsTemps := ts\<rparr> in
         if fsFiles w2 p \<noteq> None then (Inl EEXIST, w2)
         else (Inr p, w2\<lparr>fsFiles := (fsFiles w2)(p := Some \<lparr>nKind = KRegular, nPerm = 0x180, nUid = fsEuid w2, nData = []\<rparr>)\<rparr>)))"

definition modify_node :: "filePath \<Rightarrow> (fsNode \<Rightarrow> fsNode) \<Rightarrow> fsWorld \<Rightarrow> fsWorld" where
  "modify_node p f w = w\<lparr>fsFiles := (fsFiles w)(p := map_option f (fsFiles w p))\<rparr>"

definition file_Chmod :: "filePath \<Rightarrow> 32 word \<Rightarrow> fsWorld \<Rightarrow> oserr option \<times> fsWorld" where
  "file_Chmod p perm w = (case syscall w of
     (False, w1) \<Rightarrow> (Some EIO, w1)
   | (True, w1) \<Rightarrow> (None, modify_node p (nPerm_update (\<lambda>_. perm)) w1))"

text \<open>A failing write may leave part of the data behind.\<close>

definition file_Write :: "filePath \<Rightarrow> byte list \<Rightarrow> fsWorld \<Rightarrow> oserr option \<times> fsWorld" where
  "file_Write p d w = (case syscall w of
     (False, w1) \<Rightarrow> (Some EIO, if fsDead w1 then w1 else modify_node p (nData_update (\<lambda>x. x @ take (length d div 2) d)) w1)
   | (True, w1) \<Rightarrow> (None, modify_node p (nData_update (\<lambda>x. x @ d)) w1))"

text \<open>Calls without an effect on the model: \<^verbatim>\<open>Sync\<close>, \<^verbatim>\<open>Close\<close>, opening a directory.\<close>

definition os_probe :: "fsWorld \<Rightarrow> oserr option \<times> fsWorld" where
  "os_probe w = (case syscall w of (False, w1) \<Rightarrow> (Some EIO, w1) | (True, w1) \<Rightarrow> (None, w1))"

text \<open>\<^verbatim>\<open>open(path, O_RDONLY | O_NOFOLLOW)\<close>: the node the descriptor refers to.\<close>

definition os_OpenRead :: "filePath \<Rightarrow> fsWorld \<Rightarrow> (oserr + fsNode) \<times> fsWorld" where
  "os_OpenRead p w = (case syscall w of
     (False, w1) \<Rightarrow> (Inl EIO, w1)
   | (True, w1) \<Rightarrow> (case fsFiles w1 p of
       None \<Rightarrow> Inl ENOENT
     | Some n \<Rightarrow> if nKind n = KSymlink then Inl ELOOP else Inr n, w1))"

text \<open>\<^verbatim>\<open>open(path, O_CREAT | O_RDWR | O_NOFOLLOW, 0600)\<close> for a lock file: descriptor and node. A
  descriptor is never reused, it stands for the open file the code holds.\<close>

definition os_OpenLock :: "filePath \<Rightarrow> fsWorld \<Rightarrow> (oserr + nat \<times> fsNode) \<times> fsWorld" where
  "os_OpenLock p w = (case syscall w of
     (False, w1) \<Rightarrow> (Inl EIO, w1)
   | (True, w1) \<Rightarrow>
      (let fd = fsNextFd w1; w2 = w1\<lparr>fsNextFd := Suc fd\<rparr> in
       case fsFiles w2 p of
         None \<Rightarrow> (let n = \<lparr>nKind = KRegular, nPerm = 0x180, nUid = fsEuid w2, nData = []\<rparr> in
                   (Inr (fd, n), w2\<lparr>fsFiles := (fsFiles w2)(p := Some n)\<rparr>))
       | Some n \<Rightarrow> if nKind n = KSymlink \<or> nKind n = KDir then (Inl ELOOP, w2) else (Inr (fd, n), w2)))"

text \<open>\<^verbatim>\<open>flock(fd, LOCK_EX | LOCK_NB)\<close> and \<^verbatim>\<open>flock(fd, LOCK_UN)\<close>; closing the descriptor unlocks too.\<close>

definition flock_try :: "filePath \<Rightarrow> nat \<Rightarrow> fsWorld \<Rightarrow> oserr option \<times> fsWorld" where
  "flock_try p fd w = (case syscall w of
     (False, w1) \<Rightarrow> (Some EIO, w1)
   | (True, w1) \<Rightarrow> (case fsFlocks w1 p of
       Some fd' \<Rightarrow> (if fd' = fd then None else Some EWOULDBLOCK, w1)
     | None \<Rightarrow> (None, w1\<lparr>fsFlocks := (fsFlocks w1)(p := Some fd)\<rparr>)))"

definition drop_flock :: "filePath \<Rightarrow> nat \<Rightarrow> fsWorld \<Rightarrow> fsWorld" where
  "drop_flock p fd w = (if fsFlocks w p = Some fd then w\<lparr>fsFlocks := (fsFlocks w)(p := None)\<rparr> else w)"

definition flock_release :: "filePath \<Rightarrow> nat \<Rightarrow> fsWorld \<Rightarrow> oserr option \<times> fsWorld" where
  "flock_release p fd w = (case syscall w of (False, w1) \<Rightarrow> (Some EIO, w1) | (True, w1) \<Rightarrow> (None, drop_flock p fd w1))"

definition file_CloseLock :: "filePath \<Rightarrow> nat \<Rightarrow> fsWorld \<Rightarrow> oserr option \<times> fsWorld" where
  "file_CloseLock p fd w = (case syscall w of (False, w1) \<Rightarrow> (Some EIO, w1) | (True, w1) \<Rightarrow> (None, drop_flock p fd w1))"

section \<open>What the calls leave alone\<close>

lemma syscall_frame:
  assumes "syscall w = (b, w1)"
  shows "fsFiles w1 = fsFiles w" "fsDirs w1 = fsDirs w" "fsEuid w1 = fsEuid w" "fsDone w1 = fsDone w" "fsFlocks w1 = fsFlocks w"
    "fsOnce w1 = fsOnce w" "fsNextFd w1 = fsNextFd w" "fsTemps w1 = fsTemps w"
  using assms by (auto simp: syscall_def split: if_splits list.splits outcome.splits)

lemma syscall_frameD:
  "syscall w = (b, w1) \<Longrightarrow> fsFiles w1 = fsFiles w \<and> fsDirs w1 = fsDirs w \<and> fsEuid w1 = fsEuid w \<and> fsDone w1 = fsDone w \<and>
    fsFlocks w1 = fsFlocks w \<and> fsOnce w1 = fsOnce w \<and> fsNextFd w1 = fsNextFd w \<and> fsTemps w1 = fsTemps w"
  using syscall_frame by simp

lemmas fs_defs = os_MkdirAll_def os_LstatDir_def os_Lstat_def os_Link_def os_Rename_def os_Remove_def os_CreateTemp_def
  file_Chmod_def file_Write_def os_probe_def os_OpenRead_def modify_node_def

section \<open>Beside another world\<close>

definition onFiles :: "(fsWorld \<Rightarrow> 'r \<times> fsWorld) \<Rightarrow> fsWorld \<times> 'v \<Rightarrow> 'r \<times> fsWorld \<times> 'v" where
  "onFiles f w = (case f (fst w) of (r, f1) \<Rightarrow> (r, f1, snd w))"

end
