(* ===== verification/Journal_Interface.thy ===== *)
theory Journal_Interface
  imports Journal_Validity
begin

text \<open>
  The contract between the controller and its journal store, as the locale
  \<open>journal_store\<close>: what \<^verbatim>\<open>Load\<close> would return after each operation, also after one that
  reported an error. Inside it, the theorem the controller needs: whatever else the
  adapters do, as long as they leave the store alone, the journal really stored is one of the
  candidates of the crash analysis. \<open>keeps\<close> lifts an invariant of the adapters to \<^verbatim>\<open>Connect\<close>.
\<close>

section \<open>Invariants of the adapters are invariants of Connect\<close>

text \<open>Every adapter call about the session \<open>sid\<close> keeps \<open>I\<close>.\<close>

definition keeps :: "'w controller \<Rightarrow> string \<Rightarrow> ('w \<Rightarrow> bool) \<Rightarrow> bool" where
  "keeps c sid I \<longleftrightarrow>
     (\<forall>js ctx j w. cJournals c = Some js \<longrightarrow> jSessionID j = sid \<longrightarrow> I w \<longrightarrow>
        I (snd (jsCreate js ctx j w)) \<and> I (snd (jsUpdate js ctx j w))) \<and>
     (\<forall>js ctx w. cJournals c = Some js \<longrightarrow> I w \<longrightarrow> I (snd (jsDelete js ctx sid w))) \<and>
     (\<forall>cc ctx p w. cConflicts c = Some cc \<longrightarrow> I w \<longrightarrow> I (snd (ccCheck cc ctx p w))) \<and>
     (\<forall>dm ctx sp h w. cDevices c = Some dm \<longrightarrow> I w \<longrightarrow> I (snd (dmCreate dm ctx sp w)) \<and> I (snd (dmDeleteOwned dm ctx sid h w))) \<and>
     (\<forall>rm ctx r w. cRoutes c = Some rm \<longrightarrow> I w \<longrightarrow>
        I (snd (rmSnapshot rm ctx w)) \<and> I (snd (rmAdd rm ctx r w)) \<and> I (snd (rmRemove rm ctx r w))) \<and>
     (\<forall>dn ctx cfg s w. cDNS c = Some dn \<longrightarrow> I w \<longrightarrow>
        I (snd (dnSnapshot dn ctx cfg w)) \<and> I (snd (dnApply dn ctx cfg w)) \<and> I (snd (dnRestoreIfOwned dn ctx s cfg w))) \<and>
     (\<forall>v ctx j w. cVerifier c = Some v \<longrightarrow> I w \<longrightarrow> I (snd (vfVerify v ctx j w))) \<and>
     (\<forall>lk ctx w. cLocks c = Some lk \<longrightarrow> I w \<longrightarrow> I (snd (lkAcquire lk ctx sid w))) \<and>
     (\<forall>lk ctx w release w1. cLocks c = Some lk \<longrightarrow> fst (lkAcquire lk ctx sid w) = Inr release \<longrightarrow> I w1 \<longrightarrow> I (snd (release w1))) \<and>
     (\<forall>w. I w \<longrightarrow> I (snd (controller_now c w)))"

lemma nextTime_keeps: "keeps c sid I \<Longrightarrow> I w \<Longrightarrow> nextTime c t w = (x, w1) \<Longrightarrow> I w1"
  by (force simp: nextTime_def keeps_def split: prod.splits)

lemma stamp_keeps:
  assumes "keeps c sid I" "rollback_ready c" "I w" "jSessionID j = sid" "stampAndUpdate c ctx j w = (e, j1, w1)"
  shows "I w1" "jSessionID j1 = sid"
proof -
  obtain js where js: "cJournals c = Some js" using assms(2) by (auto simp: rollback_ready_def)
  obtain t w2 where n: "nextTime c (jUpdatedAt j) w = (t, w2)" by (metis prod.exhaust)
  have "I (snd (jsUpdate js ctx (j\<lparr>jUpdatedAt := t\<rparr>) w2))"
    using assms(1,4) js nextTime_keeps [OF assms(1,3) n] by (simp add: keeps_def)
  then show "I w1" using assms(5) n js by (auto simp: stampAndUpdate_def Let_def split: prod.splits)
  show "jSessionID j1 = sid" using stamp_journal [OF assms(5)] assms(4) by auto
qed

lemma stamp_keepsD:
  "stampAndUpdate c ctx j w = (e, j1, w1) \<Longrightarrow> keeps c sid I \<Longrightarrow> rollback_ready c \<Longrightarrow> I w \<Longrightarrow> jSessionID j = sid \<Longrightarrow> I w1 \<and> jSessionID j1 = sid"
  using stamp_keeps [of c sid I w j ctx e j1 w1] by simp

lemma recordIntent_keeps:
  "recordIntent c ctx j e w = (x, j1, w1) \<Longrightarrow> keeps c sid I \<Longrightarrow> rollback_ready c \<Longrightarrow> I w \<Longrightarrow> jSessionID j = sid \<Longrightarrow> I w1 \<and> jSessionID j1 = sid"
  by (auto simp: recordIntent_def dest!: stamp_keepsD split: prod.splits option.splits)

lemma markApplied_keeps:
  "markApplied c ctx j i w = (e, j1, w1) \<Longrightarrow> keeps c sid I \<Longrightarrow> rollback_ready c \<Longrightarrow> I w \<Longrightarrow> jSessionID j = sid \<Longrightarrow> I w1 \<and> jSessionID j1 = sid"
  by (auto simp: markApplied_def setStatus_def dest!: stamp_keepsD split: prod.splits)

lemma setPhase_keeps:
  "setPhase c ctx j ph w = (e, j1, w1) \<Longrightarrow> keeps c sid I \<Longrightarrow> rollback_ready c \<Longrightarrow> I w \<Longrightarrow> jSessionID j = sid \<Longrightarrow> I w1 \<and> jSessionID j1 = sid"
  by (auto simp: setPhase_def dest!: stamp_keepsD split: prod.splits if_splits)

lemma snd_keeps: "z = (y, w1) \<Longrightarrow> I (snd z) \<Longrightarrow> I w1"
  by simp

lemma adapter_keeps:
  assumes "keeps c sid I" "rollback_ready c" "I w"
  shows "rmAdd (the (cRoutes c)) ctx r w = (e, w1) \<Longrightarrow> I w1" "rmRemove (the (cRoutes c)) ctx r w = (e, w1) \<Longrightarrow> I w1"
    "rmSnapshot (the (cRoutes c)) ctx w = (rs, w1) \<Longrightarrow> I w1"
    "dmCreate (the (cDevices c)) ctx sp w = (x, w1) \<Longrightarrow> I w1" "dmDeleteOwned (the (cDevices c)) ctx sid h w = (e, w1) \<Longrightarrow> I w1"
    "jsDelete (the (cJournals c)) ctx sid w = (e, w1) \<Longrightarrow> I w1"
    "jSessionID j = sid \<Longrightarrow> jsCreate (the (cJournals c)) ctx j w = (e, w1) \<Longrightarrow> I w1"
    "controller_now c w = (t, w1) \<Longrightarrow> I w1"
    "cDNS c \<noteq> None \<Longrightarrow> dnApply (the (cDNS c)) ctx cfg w = (e, w1) \<Longrightarrow> I w1"
    "cDNS c \<noteq> None \<Longrightarrow> dnRestoreIfOwned (the (cDNS c)) ctx s cfg w = (e, w1) \<Longrightarrow> I w1"
    "cDNS c \<noteq> None \<Longrightarrow> dnSnapshot (the (cDNS c)) ctx cfg w = (ds, w1) \<Longrightarrow> I w1"
    "cVerifier c \<noteq> None \<Longrightarrow> vfVerify (the (cVerifier c)) ctx j w = (e, w1) \<Longrightarrow> I w1"
    "cConflicts c \<noteq> None \<Longrightarrow> ccCheck (the (cConflicts c)) ctx p w = (e, w1) \<Longrightarrow> I w1"
proof -
  obtain js dm rm where c: "cJournals c = Some js" "cDevices c = Some dm" "cRoutes c = Some rm"
    using assms(2) by (auto simp: rollback_ready_def)
  note k = assms(1) [unfolded keeps_def]
  show "rmAdd (the (cRoutes c)) ctx r w = (e, w1) \<Longrightarrow> I w1" "rmRemove (the (cRoutes c)) ctx r w = (e, w1) \<Longrightarrow> I w1"
    "rmSnapshot (the (cRoutes c)) ctx w = (rs, w1) \<Longrightarrow> I w1"
    by (erule snd_keeps, use k c(3) assms(3) in simp)+
  show "dmCreate (the (cDevices c)) ctx sp w = (x, w1) \<Longrightarrow> I w1" "dmDeleteOwned (the (cDevices c)) ctx sid h w = (e, w1) \<Longrightarrow> I w1"
    by (erule snd_keeps, use k c(2) assms(3) in simp)+
  show "jsDelete (the (cJournals c)) ctx sid w = (e, w1) \<Longrightarrow> I w1"
    "jSessionID j = sid \<Longrightarrow> jsCreate (the (cJournals c)) ctx j w = (e, w1) \<Longrightarrow> I w1"
    by (erule snd_keeps, use k c(1) assms(3) in auto)+
  show "controller_now c w = (t, w1) \<Longrightarrow> I w1"
    by (erule snd_keeps, use k assms(3) in simp)
  show "cDNS c \<noteq> None \<Longrightarrow> dnApply (the (cDNS c)) ctx cfg w = (e, w1) \<Longrightarrow> I w1"
    "cDNS c \<noteq> None \<Longrightarrow> dnRestoreIfOwned (the (cDNS c)) ctx s cfg w = (e, w1) \<Longrightarrow> I w1"
    "cDNS c \<noteq> None \<Longrightarrow> dnSnapshot (the (cDNS c)) ctx cfg w = (ds, w1) \<Longrightarrow> I w1"
    "cVerifier c \<noteq> None \<Longrightarrow> vfVerify (the (cVerifier c)) ctx j w = (e, w1) \<Longrightarrow> I w1"
    "cConflicts c \<noteq> None \<Longrightarrow> ccCheck (the (cConflicts c)) ctx p w = (e, w1) \<Longrightarrow> I w1"
    by (erule snd_keeps, use k assms(3) in force)+
qed

lemma applyRoute_keeps:
  assumes k: "keeps c sid I" "rollback_ready c" and w: "I w" "jSessionID j = sid" and a: "applyRoute c ctx j kd r w = (e, j1, w1)"
  shows "I w1 \<and> jSessionID j1 = sid"
proof (cases "route_Validate r")
  case None
  obtain x ja wa where i: "recordIntent c ctx j \<lparr>eKind = kd, eStatus = StepPlanned, eRoute = Some r\<rparr> w = (x, ja, wa)" by (metis prod_cases3)
  note ia = recordIntent_keeps [OF i k w]
  obtain y wb where ad: "rmAdd (the (cRoutes c)) ctx r wa = (y, wb)" by (metis prod.exhaust)
  have "I wb" using adapter_keeps(1) [OF k _ ad] ia by blast
  then show ?thesis using a None i ad ia markApplied_keeps [OF _ k, of ctx ja _ wb e j1 w1]
    by (auto simp: applyRoute_def split: sum.splits option.splits)
qed (use a w in \<open>auto simp: applyRoute_def\<close>)

lemma tunnelRoutes_keep:
  assumes k: "keeps c sid I" "rollback_ready c"
  shows "applyTunnelRoutes c ctx ifc j rs w = (e, j1, w1) \<Longrightarrow> I w \<Longrightarrow> jSessionID j = sid \<Longrightarrow> I w1 \<and> jSessionID j1 = sid"
proof (induction rs arbitrary: j w)
  case (Cons r rs)
  obtain x ja wa where a: "applyRoute c ctx j StepTunnelRoute (withInterface ifc r) w = (x, ja, wa)" by (metis prod_cases3)
  show ?case using Cons applyRoute_keeps [OF k Cons.prems(2,3) a] a by (auto split: option.splits)
qed auto

lemma applyDevice_keeps:
  assumes k: "keeps c sid I" "rollback_ready c" and w: "I w" "jSessionID j = sid" and a: "applyDevice c ctx p j w = (e, j1, w1)"
  shows "I w1 \<and> jSessionID j1 = sid"
proof -
  let ?sp = "\<lparr>spSessionID = pSessionID p, spAddress = pTunnelAddress p, spMTU = pTunnelMTU p,
                  spEndpoint = pEndpoint p, spPeerFingerprint = pPeerFingerprint p\<rparr>"
  obtain x ja wa where i: "recordIntent c ctx j \<lparr>eKind = StepDevice, eStatus = StepPlanned, eRoute = None\<rparr> w = (x, ja, wa)" by (metis prod_cases3)
  note ia = recordIntent_keeps [OF i k w]
  obtain y wb where ad: "dmCreate (the (cDevices c)) ctx ?sp wa = (y, wb)" by (metis prod.exhaust)
  have "I wb" using adapter_keeps(4) [OF k _ ad] ia by blast
  then show ?thesis using a i ad ia markApplied_keeps [OF _ k, of ctx "ja\<lparr>jDevice := _\<rparr>" _ wb e j1 w1]
    by (auto simp: applyDevice_def split: sum.splits option.splits)
qed

lemma applyDNS_keeps:
  assumes k: "keeps c sid I" "rollback_ready c" and d: "dns_ready c p" and w: "I w" "jSessionID j = sid" and a: "applyDNS c ctx p j w = (e, j1, w1)"
  shows "I w1 \<and> jSessionID j1 = sid"
proof (cases "UsesDNS p")
  case True
  obtain x ja wa where i: "recordIntent c ctx j \<lparr>eKind = StepDNS, eStatus = StepPlanned, eRoute = None\<rparr> w = (x, ja, wa)" by (metis prod_cases3)
  note ia = recordIntent_keeps [OF i k w]
  obtain y wb where ad: "dnApply (the (cDNS c)) ctx (plan_DNSConfig p) wa = (y, wb)" by (metis prod.exhaust)
  have "I wb" using adapter_keeps(9) [OF k _ _ ad] ia d True by (simp add: dns_ready_def)
  then show ?thesis using a True i ad ia markApplied_keeps [OF _ k, of ctx ja _ wb e j1 w1]
    by (auto simp: applyDNS_def split: sum.splits option.splits)
qed (use a w in \<open>auto simp: applyDNS_def\<close>)

lemma connectSteps_keeps:
  assumes k: "keeps c sid I" and r: "connect_ready c p" and w: "I w" "jSessionID j = sid" and st: "connectSteps c ctx p j w = (e, j1, w1)"
  shows "I w1 \<and> jSessionID j1 = sid"
proof -
  note rb = connect_readyD(1) [OF r] and dn = connect_readyD(2) [OF r]
  have v: "cVerifier c \<noteq> None" using connect_readyD(4) [OF r] by auto
  obtain e1 ja wa where 1: "applyRoute c ctx j StepEndpointRoute (EndpointRoute p) w = (e1, ja, wa)" by (metis prod_cases3)
  note k1 = applyRoute_keeps [OF k rb w 1]
  obtain e2 jb wb where 2: "applyDevice c ctx p ja wa = (e2, jb, wb)" by (metis prod_cases3)
  have k2: "I wb \<and> jSessionID jb = sid" using applyDevice_keeps [OF k rb _ _ 2] k1 by blast
  obtain e3 jc wc where 3: "applyTunnelRoutes c ctx (dhInterface (the (jDevice jb))) jb (TunnelRoutes p) wb = (e3, jc, wc)" by (metis prod_cases3)
  have k3: "I wc \<and> jSessionID jc = sid" using tunnelRoutes_keep [OF k rb 3] k2 by blast
  obtain e4 jd wd where 4: "applyDNS c ctx p jc wc = (e4, jd, wd)" by (metis prod_cases3)
  have k4: "I wd \<and> jSessionID jd = sid" using applyDNS_keeps [OF k rb dn _ _ 4] k3 by blast
  obtain e5 we where 5: "vfVerify (the (cVerifier c)) ctx jd wd = (e5, we)" by (metis prod.exhaust)
  have k5: "I we" using adapter_keeps(12) [OF k rb _ v 5] k4 by blast
  show ?thesis
    using st 1 2 3 4 5 k1 k2 k3 k4 k5 setPhase_keeps [of c ctx jd PhaseConnected we e j1 w1 sid I, OF _ k rb]
    by (auto simp: connectSteps_def split: option.splits)
qed

lemma undoEntry_keeps:
  assumes k: "keeps c sid I" "rollback_ready c" and d: "eKind e = StepDNS \<longrightarrow> cDNS c \<noteq> None" and w: "I w" "jSessionID j = sid"
    and u: "undoEntry c ctx j e w = (y, w1)"
  shows "I w1"
proof (cases "eKind e")
  case StepDNS
  then show ?thesis using u d adapter_keeps(10) [OF k w(1)] by (auto simp: undoEntry_def)
next
  case StepDevice
  then show ?thesis using u w adapter_keeps(5) [OF k w(1)] by (auto simp: undoEntry_def)
qed (use u w(1) adapter_keeps(2) [OF k w(1)] in \<open>auto simp: undoEntry_def split: option.splits\<close>)

lemma rollbackEntries_keeps:
  assumes k: "keeps c sid I" "rollback_ready c"
  shows "rollbackEntries c ctx n j errs w = (errs1, j1, w1) \<Longrightarrow> kinds_ready c j \<Longrightarrow> n \<le> length (jEntries j) \<Longrightarrow> I w \<Longrightarrow> jSessionID j = sid \<Longrightarrow>
    I w1 \<and> jSessionID j1 = sid"
proof (induction n arbitrary: j errs w)
  case (Suc n)
  show ?case
  proof (cases "eStatus (jEntries j ! n) = StepRolledBack")
    case True
    then show ?thesis using Suc by simp
  next
    case False
    have dns: "eKind (jEntries j ! n) = StepDNS \<longrightarrow> cDNS c \<noteq> None"
      using Suc.prems by (auto simp: kinds_ready_def image_iff) (metis Suc_le_lessD nth_mem)
    obtain y wa where u: "undoEntry c ctx j (jEntries j ! n) w = (y, wa)" by (metis prod.exhaust)
    note ka = undoEntry_keeps [OF k dns Suc.prems(4,5) u]
    obtain z ja wb where st: "stampAndUpdate c ctx (setStatus n StepRolledBack j) wa = (z, ja, wb)" by (metis prod_cases3)
    have len: "n \<le> length (jEntries ja)" and kr: "kinds_ready c ja"
      using length_stamp [OF st] kinds_ready_stamp [OF st, of c] Suc.prems by auto
    have kb: "I wb \<and> jSessionID ja = sid" using stamp_keepsD [OF st k ka] Suc.prems(5) by (simp add: setStatus_def)
    show ?thesis
      using Suc.prems False u st Suc.IH [OF _ kr len] Suc.IH [of j] ka kb
      by (auto split: option.splits)
  qed
qed auto

lemma rollback_keeps:
  assumes k: "keeps c sid I" "rollback_ready c" and kr: "kinds_ready c j" and w: "I w" "jSessionID j = sid"
    and b: "rollback c ctx j w = (e, j1, w1)"
  shows "I w1"
proof -
  from b obtain e0 ja wa e1 jb wb where 1: "rollbackBegin c ctx j w = (e0, ja, wa)"
    and 2: "rollbackEntries c ctx (length (jEntries ja)) ja e0 wa = (e1, jb, wb)"
    and 3: "rollbackFinish c ctx e1 jb wb = (e, j1, w1)"
    by (rule rollback_parts) blast
  have ka: "I wa \<and> jSessionID ja = sid"
    using 1 w by (auto simp: rollbackBegin_def dest!: stamp_keepsD [OF _ k] split: if_splits prod.splits option.splits)
  have kra: "kinds_ready c ja" using rollbackBegin_journal [OF 1] kr by (simp add: kinds_ready_def)
  have kb: "I wb \<and> jSessionID jb = sid" using rollbackEntries_keeps [OF k 2 kra le_refl] ka by blast
  let ?ph = "if e1 = [] then PhaseDisconnected else PhaseRollbackRequired"
  obtain y jc wc where st: "stampAndUpdate c ctx (jb\<lparr>jPhase := ?ph\<rparr>) wb = (y, jc, wc)" by (metis prod_cases3)
  have kc: "I wc \<and> jSessionID jc = sid" using stamp_keepsD [OF st k] kb by simp
  obtain z wd where d: "jsDelete (the (cJournals c)) ctx sid wc = (z, wd)" by (metis prod.exhaust)
  have "I wd" using adapter_keeps(6) [OF k _ d] kc by blast
  then show ?thesis using 3 st d kc by (auto simp: rollbackFinish_def split: option.splits if_splits prod.splits)
qed

lemma connectLocked_keeps:
  assumes k: "keeps c (pSessionID p) I" and r: "connect_ready c p" and w: "I w" and e: "connectLocked c ctx p w = (j, err, w1)"
  shows "I w1"
proof -
  note rb = connect_readyD(1) [OF r] and dn = connect_readyD(2) [OF r]
  have cc: "cConflicts c \<noteq> None" using connect_readyD(3) [OF r] by auto
  obtain e1 wa where 1: "ccCheck (the (cConflicts c)) ctx p w = (e1, wa)" by (metis prod.exhaust)
  note k1 = adapter_keeps(13) [OF k rb w cc 1]
  obtain x2 wb where 2: "rmSnapshot (the (cRoutes c)) ctx wa = (x2, wb)" by (metis prod.exhaust)
  note k2 = adapter_keeps(3) [OF k rb k1 2]
  obtain x3 wc where 3: "snapshotDNS c ctx p wb = (x3, wc)" by (metis prod.exhaust)
  have k3: "I wc" using 3 k2 adapter_keeps(11) [OF k rb k2] dn by (auto simp: snapshotDNS_def dns_ready_def split: if_splits)
  obtain now wd where 4: "controller_now c wc = (now, wd)" by (metis prod.exhaust)
  note k4 = adapter_keeps(8) [OF k rb k3 4]
  have fail: "I w6" if "connectFail c ctx jf ef wf = (j', err', w6)" "I wf" "jSessionID jf = pSessionID p" "kinds_ready c jf" for jf ef wf j' err' w6
    using that rollback_keeps [OF k rb that(4) that(2,3)] by (auto simp: connectFail_def split: prod.splits option.splits)
  have ok: "I wf" and failed: "connectFail c ctx jf x wf = (j', err', w6) \<Longrightarrow> I w6"
    if c: "connectSteps c ctx p (newJournal p rbf db now) w5 = (ef, jf, wf)" and "I w5" for rbf db w5 ef jf wf x j' err' w6
  proof -
    have kf: "I wf \<and> jSessionID jf = pSessionID p" using connectSteps_keeps [OF k r that(2) _ c] by (simp add: newJournal_def)
    then show "I wf" by simp
    have "kinds_ready c jf"
      using connectSteps_hasDNS [OF c] dn by (auto simp: kinds_ready_def hasDNS_def dns_ready_def newJournal_def)
    then show "connectFail c ctx jf x wf = (j', err', w6) \<Longrightarrow> I w6" using kf fail by blast
  qed
  have cr: "I w5" if "jsCreate (the (cJournals c)) ctx (newJournal p rbf db now) wd = (y, w5)" for rbf db y w5
    by (rule adapter_keeps(7) [OF k rb k4 _ that]) (simp add: newJournal_def)
  show ?thesis
    using e 1 2 3 4 k1 k2 k3 k4 unfolding connectLocked_def
    by (auto simp: Let_def split: option.splits sum.splits prod.splits dest!: cr intro: ok failed)
qed

lemma Connect_keeps:
  assumes k: "keeps c (pSessionID p) I" and w: "I w" and e: "Connect c ctx p w = (j, err, w1)"
  shows "I w1"
proof (cases "plan_Validate p = None \<and> controller_validate c p = None")
  case True
  then have r: "connect_ready c p" by (simp add: connect_ready_def)
  obtain lk where lk: "cLocks c = Some lk" using connect_readyD(5) [OF r] by blast
  obtain x wa where a: "lkAcquire lk ctx (pSessionID p) w = (x, wa)" by (metis prod.exhaust)
  have acq: "I (snd (lkAcquire lk ctx (pSessionID p) w)) \<and>
      (\<forall>release w1. fst (lkAcquire lk ctx (pSessionID p) w) = Inr release \<longrightarrow> I w1 \<longrightarrow> I (snd (release w1)))"
    using k w lk unfolding keeps_def by blast
  show ?thesis
  proof (cases x)
    case (Inl y)
    then show ?thesis using e True lk a acq by (auto simp: Connect_def)
  next
    case (Inr release)
    obtain j2 err2 w2 where b: "connectLocked c ctx p wa = (j2, err2, w2)" by (metis prod_cases3)
    have kb: "I w2" using connectLocked_keeps [OF k r _ b] acq a by simp
    have "I (snd (release w2))" using acq a Inr kb by simp
    then show ?thesis using e True lk a Inr b by (auto simp: Connect_def releaseLock_def split: prod.splits option.splits)
  qed
next
  case False
  then show ?thesis using e w by (auto simp: Connect_def split: option.splits)
qed

section \<open>The contract of a journal store\<close>

locale journal_store =
  fixes js :: "'w journalStore"
    and stored :: "'w \<Rightarrow> string \<Rightarrow> journal option"
    and encodable :: "journal \<Rightarrow> bool"
  assumes create_ok: "encodable j \<Longrightarrow> jsCreate js ctx j w = (None, w1) \<Longrightarrow> stored w1 = (stored w)(jSessionID j := Some j)"
    and create_err: "encodable j \<Longrightarrow> jsCreate js ctx j w = (Some e, w1) \<Longrightarrow>
      stored w1 = stored w \<or> stored w1 = (stored w)(jSessionID j := Some j)"
    and update_ok: "encodable j \<Longrightarrow> jsUpdate js ctx j w = (None, w1) \<Longrightarrow> stored w1 = (stored w)(jSessionID j := Some j)"
    and update_err: "encodable j \<Longrightarrow> jsUpdate js ctx j w = (Some e, w1) \<Longrightarrow>
      stored w1 = stored w \<or> stored w1 = (stored w)(jSessionID j := Some j)"
    and delete_ok: "jsDelete js ctx sid w = (None, w1) \<Longrightarrow> stored w1 = (stored w)(sid := None)"
    and delete_err: "jsDelete js ctx sid w = (Some e, w1) \<Longrightarrow> stored w1 = stored w \<or> stored w1 = (stored w)(sid := None)"
    and load: "jsLoad js ctx sid w = (x, w1) \<Longrightarrow> stored w1 = stored w \<and> (\<forall>j. x = Inr j \<longrightarrow> stored w sid = Some j)"
begin

text \<open>The stored journal is a candidate, as long as everything written can be encoded.\<close>

definition tracked :: "crashState \<Rightarrow> string \<Rightarrow> 'w lworld \<Rightarrow> bool" where
  "tracked s0 sid s \<longleftrightarrow> ((\<forall>x\<in>set (writes (snd s)). encodable x) \<and> present (snd s0 \<noteq> []) (snd s) \<longrightarrow>
     (\<exists>j\<in>set (candidates s0 (snd s)). stored (fst s) sid = Some j))"

lemma tracked_write:
  assumes t: "tracked s0 sid (w, l)" and sid: "jSessionID j = sid" and ev: "ev = EvCreate j \<or> ev = EvUpdate j"
    and ok: "encodable j \<Longrightarrow> e = None \<Longrightarrow> stored w1 sid = Some j"
    and err: "encodable j \<Longrightarrow> e \<noteq> None \<Longrightarrow> stored w1 sid = stored w sid \<or> stored w1 sid = Some j"
  shows "tracked s0 sid (w1, ev (e = None) # l)"
  using assms by (cases e) (auto simp: tracked_def)

lemma tracked_other:
  assumes "tracked s0 sid (w, l)" "stored w1 sid = stored w sid" "evWrite ev = None"
    "candidates s0 (ev # l) = candidates s0 l" "present b (ev # l) = present b l" "b = (snd s0 \<noteq> [])"
  shows "tracked s0 sid (w1, ev # l)"
  using assms by (auto simp: tracked_def simp del: present.simps)

lemma tracked_silent: "tracked s0 sid (w, l) \<Longrightarrow> stored w1 sid = stored w sid \<Longrightarrow> tracked s0 sid (w1, l)"
  by (simp add: tracked_def)

lemma logged_snd: "snd (logged ev f (w, l)) = (snd (f w), ev (fst (f w) = None) # l)"
  by (simp add: logged_def split: prod.splits)

lemma silent_snd: "snd (silent f (w, l)) = (snd (f w), l)"
  by (simp add: silent_def split: prod.splits)

lemma tracked_logged:
  assumes "tracked s0 sid (w, l)" "stored (snd (f w)) sid = stored w sid"
    "\<And>b. evWrite (ev b) = None" "\<And>b. candidates s0 (ev b # l) = candidates s0 l" "\<And>a b. present a (ev b # l) = present a l"
  shows "tracked s0 sid (snd (logged ev f (w, l)))"
  unfolding logged_snd by (rule tracked_other [OF assms(1,2,3,4,5) refl])

lemma tracked_silently:
  "tracked s0 sid (w, l) \<Longrightarrow> stored (snd (f w)) sid = stored w sid \<Longrightarrow> tracked s0 sid (snd (silent f (w, l)))"
  unfolding silent_snd by (rule tracked_silent)

lemma tracked_stores:
  assumes t: "tracked s0 sid (w, l)"
  shows "jSessionID j = sid \<Longrightarrow> tracked s0 sid (snd (jsCreate (logStore js) ctx j (w, l)))"
    "jSessionID j = sid \<Longrightarrow> tracked s0 sid (snd (jsUpdate (logStore js) ctx j (w, l)))"
    "tracked s0 sid (snd (jsDelete (logStore js) ctx sid (w, l)))"
proof -
  assume sid: "jSessionID j = sid"
  obtain e w1 where c: "jsCreate js ctx j w = (e, w1)" by (metis prod.exhaust)
  show "tracked s0 sid (snd (jsCreate (logStore js) ctx j (w, l)))"
    using tracked_write [OF t sid, of "EvCreate j" e w1] create_ok [of j ctx w w1] create_err [of j ctx w _ w1] c sid
    by (force simp: logStore_def logged_snd)
next
  assume sid: "jSessionID j = sid"
  obtain e w1 where c: "jsUpdate js ctx j w = (e, w1)" by (metis prod.exhaust)
  show "tracked s0 sid (snd (jsUpdate (logStore js) ctx j (w, l)))"
    using tracked_write [OF t sid, of "EvUpdate j" e w1] update_ok [of j ctx w w1] update_err [of j ctx w _ w1] c sid
    by (force simp: logStore_def logged_snd)
next
  show "tracked s0 sid (snd (jsDelete (logStore js) ctx sid (w, l)))"
    by (simp add: logStore_def logged_snd tracked_def)
qed

lemma tracked_keeps:
  assumes c: "cJournals c = Some js" and others: "\<And>x. keeps (c\<lparr>cJournals := None\<rparr>) sid (\<lambda>w. stored w sid = x)"
  shows "keeps (instrument c) sid (tracked s0 sid)"
proof -
  note o = others [unfolded keeps_def]
  have now: "stored (snd (controller_now c w)) sid = stored w sid" for w
    using o [of "stored w sid"] by (cases "cNow c") (simp_all add: controller_now_def)
  have cc: "stored (snd (ccCheck a ctx p w)) sid = stored w sid" if "cConflicts c = Some a" for a ctx p w
    using o [of "stored w sid"] that by simp
  have dm: "stored (snd (dmCreate a ctx sp w)) sid = stored w sid" "stored (snd (dmDeleteOwned a ctx sid h w)) sid = stored w sid"
    if "cDevices c = Some a" for a ctx sp h w
    using o [of "stored w sid"] that by simp_all
  have rm: "stored (snd (rmSnapshot a ctx w)) sid = stored w sid" "stored (snd (rmAdd a ctx r w)) sid = stored w sid"
    "stored (snd (rmRemove a ctx r w)) sid = stored w sid" if "cRoutes c = Some a" for a ctx r w
    using o [of "stored w sid"] that by simp_all
  have dn: "stored (snd (dnSnapshot a ctx cfg w)) sid = stored w sid" "stored (snd (dnApply a ctx cfg w)) sid = stored w sid"
    "stored (snd (dnRestoreIfOwned a ctx s cfg w)) sid = stored w sid" if "cDNS c = Some a" for a ctx cfg s w
    using o [of "stored w sid"] that by simp_all
  have vf: "stored (snd (vfVerify a ctx j w)) sid = stored w sid" if "cVerifier c = Some a" for a ctx j w
    using o [of "stored w sid"] that by simp
  have lk: "stored (snd (lkAcquire a ctx sid w)) sid = stored w sid" if "cLocks c = Some a" for a ctx w
    using o [of "stored w sid"] that by simp
  have rel: "stored (snd (release w1)) sid = stored w1 sid"
    if "cLocks c = Some a" "fst (lkAcquire a ctx sid w) = Inr release" for a ctx w release w1
    using o [of "stored w1 sid"] that by simp
  show ?thesis
    unfolding keeps_def
  proof (intro conjI allI impI)
    fix ctx h and s :: "'w lworld" assume t: "tracked s0 sid s"
    obtain w l where s: "s = (w, l)" by (cases s)
    note t = t [unfolded s]
    show "tracked s0 sid (snd (jsCreate js' ctx j s))" if "cJournals (instrument c) = Some js'" "jSessionID j = sid" for js' j
      using that c tracked_stores(1) [OF t] by (auto simp: s instrument_opt)
    show "tracked s0 sid (snd (jsUpdate js' ctx j s))" if "cJournals (instrument c) = Some js'" "jSessionID j = sid" for js' j
      using that c tracked_stores(2) [OF t] by (auto simp: s instrument_opt)
    show "tracked s0 sid (snd (jsDelete js' ctx sid s))" if "cJournals (instrument c) = Some js'" for js'
      using that c tracked_stores(3) [OF t] by (auto simp: s instrument_opt)
    show "tracked s0 sid (snd (ccCheck a ctx p s))" if "cConflicts (instrument c) = Some a" for a p
      using that by (auto simp: s instrument_def intro!: tracked_silently [OF t] cc)
    show "tracked s0 sid (snd (dmCreate a ctx sp s))" if "cDevices (instrument c) = Some a" for a sp
    proof -
      from that obtain d where d: "cDevices c = Some d" "a = logDevices d" by (auto simp: instrument_opt)
      obtain x w1 where x: "dmCreate d ctx sp w = (x, w1)" by (metis prod.exhaust)
      have "stored w1 sid = stored w sid" using dm(1) [OF d(1), of ctx sp w] x by simp
      then have "tracked s0 sid (w1, EvDevice sp b # l)" for b by (rule tracked_other [OF t]) simp_all
      then show ?thesis using d x by (cases x) (simp_all add: s logDevices_def)
    qed
    show "tracked s0 sid (snd (dmDeleteOwned a ctx sid h s))" if "cDevices (instrument c) = Some a" for a
      using that by (auto simp: s instrument_opt logDevices_def intro!: tracked_logged [OF t] dm)
    show "tracked s0 sid (snd (rmSnapshot a ctx s))" if "cRoutes (instrument c) = Some a" for a
      using that by (auto simp: s instrument_opt logRoutes_def intro!: tracked_silently [OF t] rm)
    show "tracked s0 sid (snd (rmAdd a ctx r s))" if "cRoutes (instrument c) = Some a" for a r
      using that by (auto simp: s instrument_opt logRoutes_def intro!: tracked_logged [OF t] rm)
    show "tracked s0 sid (snd (rmRemove a ctx r s))" if "cRoutes (instrument c) = Some a" for a r
      using that by (auto simp: s instrument_opt logRoutes_def intro!: tracked_logged [OF t] rm)
    show "tracked s0 sid (snd (dnSnapshot a ctx cfg s))" if "cDNS (instrument c) = Some a" for a cfg
      using that by (auto simp: s instrument_opt logDNS_def intro!: tracked_silently [OF t] dn)
    show "tracked s0 sid (snd (dnApply a ctx cfg s))" if "cDNS (instrument c) = Some a" for a cfg
      using that by (auto simp: s instrument_opt logDNS_def intro!: tracked_logged [OF t] dn)
    show "tracked s0 sid (snd (dnRestoreIfOwned a ctx st cfg s))" if "cDNS (instrument c) = Some a" for a cfg st
      using that by (auto simp: s instrument_opt logDNS_def intro!: tracked_logged [OF t] dn)
    show "tracked s0 sid (snd (vfVerify a ctx j s))" if "cVerifier (instrument c) = Some a" for a j
      using that by (auto simp: s instrument_def intro!: tracked_logged [OF t] vf)
    show "tracked s0 sid (snd (controller_now (instrument c) s))"
      by (auto simp: s instrument_now intro!: tracked_silently [OF t] now)
    show "tracked s0 sid (snd (lkAcquire a ctx sid s))" if "cLocks (instrument c) = Some a" for a
    proof -
      from that obtain d where d: "cLocks c = Some d" "a = logLocker d" by (auto simp: instrument_opt)
      obtain x w1 where x: "lkAcquire d ctx sid w = (x, w1)" by (metis prod.exhaust)
      have "stored w1 sid = stored w sid" using lk [OF d(1), of ctx w] x by simp
      then have "tracked s0 sid (w1, l)" by (rule tracked_silent [OF t])
      then show ?thesis using d x by (cases x) (simp_all add: s logLocker_def)
    qed
    show "tracked s0 sid (snd (release s))"
      if a: "cLocks (instrument c) = Some a" "fst (lkAcquire a ctx sid s') = Inr release" for a release s'
    proof -
      from a obtain d where d: "cLocks c = Some d" "a = logLocker d" by (auto simp: instrument_opt)
      obtain f where f: "fst (lkAcquire d ctx sid (fst s')) = Inr f" "release = silent f"
        using a(2) d by (auto simp: logLocker_def split: prod.splits sum.splits)
      show ?thesis unfolding f(2) s by (rule tracked_silently [OF t], rule rel [OF d(1) f(1)])
    qed
  qed
qed

text \<open>
  What is still on the host when \<^verbatim>\<open>Connect\<close> returns, with or without an error, is recorded in
  the journal that is really in the store.
\<close>

lemma connect_record:
  assumes c: "cJournals c = Some js" and others: "\<And>x. keeps (c\<lparr>cJournals := None\<rparr>) (pSessionID p) (\<lambda>w. stored w (pSessionID p) = x)"
    and e: "Connect (instrument c) ctx p (w, []) = (j, err, s)" and enc: "\<forall>x\<in>set (writes (snd s)). encodable x"
    and l: "live ({}, []) (snd s) \<noteq> {}"
  shows "\<exists>d. stored (fst s) (pSessionID p) = Some d \<and> covers d (live ({}, []) (snd s))"
proof -
  have g: "guarded ({}, []) j (snd s)" using Connect_end [OF e] l by (auto simp: connect_end_def safe_end_def)
  have "tracked ({}, []) (pSessionID p) (w, [])" by (simp add: tracked_def)
  then have "tracked ({}, []) (pSessionID p) s" by (rule Connect_keeps [OF tracked_keeps [OF c others] _ e])
  then obtain d where "d \<in> set (candidates ({}, []) (snd s))" "stored (fst s) (pSessionID p) = Some d"
    using enc g by (auto simp: tracked_def guarded_def)
  then show ?thesis using g by (auto simp: guarded_def list_all_iff)
qed

end

end
