(* ===== verification/State_Store.thy ===== *)
theory State_Store
  imports File_System Journal_Interface
begin

unbundle bit_operations_syntax

text \<open>
  The journal store of \<^verbatim>\<open>internal/state/journal.go\<close> over the file system model, and that it
  keeps the contract \<open>journal_store\<close>: a crash or an error at any system call leaves the old or
  the new journal, never a torn one. The JSON codec of journals is an argument. The wiping of
  the buffers is not modelled, a buffer has no address here.
\<close>

section \<open>Checks\<close>

definition maxJournalBytes :: nat where
  "maxJournalBytes = 2 ^ 20"

definition validatePrivateInfo :: "string \<Rightarrow> fsNode \<Rightarrow> bool \<Rightarrow> int \<Rightarrow> gerror option" where
  "validatePrivateInfo kind n directory euid = first_err [
     reject (nPerm n AND 0x3F \<noteq> 0) (kind @ '' permissions are too broad''),
     reject (nUid n \<noteq> euid) (kind @ '' is not owned by the current process uid''),
     reject (directory \<noteq> (nKind n = KDir)) (kind @ '' has the wrong file type'')]"

definition ensureDirectory :: "string \<Rightarrow> fsWorld \<Rightarrow> gerror option \<times> fsWorld" where
  "ensureDirectory d w = (case os_MkdirAll d 0x1C0 w of
     (Some e, w1) \<Rightarrow> (Some (WrapErr ''create journal directory'' (os_error e)), w1)
   | (None, w1) \<Rightarrow> (case os_LstatDir d w1 of
       (Inl e, w2) \<Rightarrow> (Some (WrapErr ''inspect journal directory'' (os_error e)), w2)
     | (Inr n, w2) \<Rightarrow>
         (if nKind n \<noteq> KDir then (Some (Err ''journal path is not a real directory''), w2)
          else (validatePrivateInfo ''journal directory'' n True (fsEuid w2), w2))))"

definition validateExisting :: "filePath \<Rightarrow> fsWorld \<Rightarrow> gerror option \<times> fsWorld" where
  "validateExisting p w = (case os_Lstat p w of
     (Inl ENOENT, w1) \<Rightarrow> (Some (Sentinel ErrJournalNotFound), w1)
   | (Inl e, w1) \<Rightarrow> (Some (WrapErr ''inspect tunnel journal'' (os_error e)), w1)
   | (Inr n, w1) \<Rightarrow>
       (if nKind n \<noteq> KRegular then (Some (Err ''tunnel journal is not a regular file''), w1)
        else (validatePrivateInfo ''tunnel journal'' n False (fsEuid w1), w1)))"

definition journalPath :: "string \<Rightarrow> string \<Rightarrow> filePath" where
  "journalPath dir sid = (dir, sid @ ''.json'')"

definition store_path :: "string \<Rightarrow> string \<Rightarrow> fsWorld \<Rightarrow> (gerror + filePath) \<times> fsWorld" where
  "store_path dir sid w =
     (if \<not> ValidSessionID sid then (Inl (Err ''invalid tunnel session id''), w)
      else if dir = [] \<or> \<not> filepath_IsAbs dir then (Inl (Err ''journal directory must be an absolute path''), w)
      else (case ensureDirectory dir w of (Some e, w1) \<Rightarrow> (Inl e, w1) | (None, w1) \<Rightarrow> (Inr (journalPath dir sid), w1)))"

section \<open>Writing\<close>

definition encodeJournal :: "journal codec \<Rightarrow> journal \<Rightarrow> gerror + byte list" where
  "encodeJournal cd j = (case journal_Validate j of
     Some e \<Rightarrow> Inl (WrapErr ''refuse invalid tunnel journal'' e)
   | None \<Rightarrow> (case json_Marshal cd j of
       None \<Rightarrow> Inl (Err ''encode tunnel journal'')
     | Some d \<Rightarrow> if length d + 1 > maxJournalBytes then Inl (Err ''tunnel journal exceeds size limit'') else Inr (d @ [10])))"

definition fillTemporary :: "filePath \<Rightarrow> byte list \<Rightarrow> fsWorld \<Rightarrow> gerror option \<times> fsWorld" where
  "fillTemporary p d w = (case file_Chmod p 0x180 w of
     (Some e, w1) \<Rightarrow> (Some (WrapErr ''secure temporary tunnel journal'' (os_error e)), w1)
   | (None, w1) \<Rightarrow> (case file_Write p d w1 of
       (Some e, w2) \<Rightarrow> (Some (WrapErr ''write temporary tunnel journal'' (os_error e)), w2)
     | (None, w2) \<Rightarrow> (case os_probe w2 of
         (Some e, w3) \<Rightarrow> (Some (WrapErr ''sync temporary tunnel journal'' (os_error e)), w3)
       | (None, w3) \<Rightarrow> (None, w3))))"

text \<open>The path is returned with the error, as the named results of the code are.\<close>

definition writeTemporary :: "string \<Rightarrow> byte list \<Rightarrow> fsWorld \<Rightarrow> filePath option \<times> gerror option \<times> fsWorld" where
  "writeTemporary dir d w = (case os_CreateTemp dir ''.nordmac-journal-'' w of
     (Inl e, w1) \<Rightarrow> (None, Some (WrapErr ''create temporary tunnel journal'' (os_error e)), w1)
   | (Inr p, w1) \<Rightarrow>
       (let (err, w2) = fillTemporary p d w1; (ce, w3) = os_probe w2 in
        (Some p, (case ce of None \<Rightarrow> err
           | Some e \<Rightarrow> errors_Join [err, Some (WrapErr ''close temporary tunnel journal'' (os_error e))]), w3)))"

text \<open>Opening the directory, \<^verbatim>\<open>Sync\<close> and the deferred \<^verbatim>\<open>Close\<close>.\<close>

definition syncDirectory :: "fsWorld \<Rightarrow> gerror option \<times> fsWorld" where
  "syncDirectory w = (case os_probe w of
     (Some e, w1) \<Rightarrow> (Some (WrapErr ''open journal directory for sync'' (os_error e)), w1)
   | (None, w1) \<Rightarrow> (case os_probe w1 of
       (Some e, w2) \<Rightarrow> (Some (WrapErr ''sync journal directory'' (os_error e)), snd (os_probe w2))
     | (None, w2) \<Rightarrow> (None, snd (os_probe w2))))"

definition publishNew :: "filePath \<Rightarrow> filePath \<Rightarrow> fsWorld \<Rightarrow> gerror option \<times> fsWorld" where
  "publishNew tmp path w = (case os_Link tmp path w of
     (Some EEXIST, w1) \<Rightarrow> (Some (Err ''tunnel journal already exists''), w1)
   | (Some e, w1) \<Rightarrow> (Some (WrapErr ''publish tunnel journal'' (os_error e)), w1)
   | (None, w1) \<Rightarrow> syncDirectory w1)"

definition publishOver :: "filePath \<Rightarrow> filePath \<Rightarrow> fsWorld \<Rightarrow> gerror option \<times> fsWorld" where
  "publishOver tmp path w = (case os_Rename tmp path w of
     (Some e, w1) \<Rightarrow> (Some (WrapErr ''replace tunnel journal'' (os_error e)), w1)
   | (None, w1) \<Rightarrow> syncDirectory w1)"

text \<open>
  The common tail of \<^verbatim>\<open>Create\<close> and \<^verbatim>\<open>Update\<close>: the temporary file is removed by a \<^verbatim>\<open>defer\<close> that
  is reached only when it was written without an error (which returns a path).
\<close>

definition writeAndPublish :: "journal codec \<Rightarrow> string \<Rightarrow> journal \<Rightarrow> (filePath \<Rightarrow> fsWorld \<Rightarrow> gerror option \<times> fsWorld) \<Rightarrow> fsWorld \<Rightarrow> gerror option \<times> fsWorld" where
  "writeAndPublish cd dir j publish w = (case encodeJournal cd j of
     Inl e \<Rightarrow> (Some e, w)
   | Inr d \<Rightarrow> (case writeTemporary dir d w of
       (tmp, Some e, w1) \<Rightarrow> (Some e, w1)
     | (None, None, w1) \<Rightarrow> (None, w1)
     | (Some tmp, None, w1) \<Rightarrow> (let (err, w2) = publish tmp w1 in (err, snd (os_Remove tmp w2)))))"

definition store_Create :: "journal codec \<Rightarrow> string \<Rightarrow> ctx \<Rightarrow> journal \<Rightarrow> fsWorld \<Rightarrow> gerror option \<times> fsWorld" where
  "store_Create cd dir ctx j w = (case ctx_Err ctx w of Some e \<Rightarrow> (Some e, w) | None \<Rightarrow>
     (case store_path dir (jSessionID j) w of
        (Inl e, w1) \<Rightarrow> (Some e, w1)
      | (Inr path, w1) \<Rightarrow> writeAndPublish cd dir j (\<lambda>tmp. publishNew tmp path) w1))"

definition store_Update :: "journal codec \<Rightarrow> string \<Rightarrow> ctx \<Rightarrow> journal \<Rightarrow> fsWorld \<Rightarrow> gerror option \<times> fsWorld" where
  "store_Update cd dir ctx j w = (case ctx_Err ctx w of Some e \<Rightarrow> (Some e, w) | None \<Rightarrow>
     (case store_path dir (jSessionID j) w of
        (Inl e, w1) \<Rightarrow> (Some e, w1)
      | (Inr path, w1) \<Rightarrow> (case validateExisting path w1 of
          (Some e, w2) \<Rightarrow> (Some e, w2)
        | (None, w2) \<Rightarrow> writeAndPublish cd dir j (\<lambda>tmp. publishOver tmp path) w2)))"

section \<open>Reading and deleting\<close>

definition decodeJournal :: "journal codec \<Rightarrow> byte list \<Rightarrow> gerror + journal" where
  "decodeJournal cd d =
     (if length d > maxJournalBytes then Inl (Err ''tunnel journal exceeds size limit'')
      else (case json_Decode cd d of
        None \<Rightarrow> Inl (Err ''decode tunnel journal'')
      | Some (j, False) \<Rightarrow> Inl (Err ''tunnel journal contains trailing data'')
      | Some (j, True) \<Rightarrow> (case journal_Validate j of
          Some e \<Rightarrow> Inl (WrapErr ''validate tunnel journal'' e) | None \<Rightarrow> Inr j)))"

definition readJournal :: "journal codec \<Rightarrow> fsNode \<Rightarrow> fsWorld \<Rightarrow> (gerror + journal) \<times> fsWorld" where
  "readJournal cd n w = (case os_probe w of
     (Some e, w1) \<Rightarrow> (Inl (WrapErr ''inspect open tunnel journal'' (os_error e)), w1)
   | (None, w1) \<Rightarrow> (case validatePrivateInfo ''tunnel journal'' n False (fsEuid w1) of
       Some e \<Rightarrow> (Inl e, w1)
     | None \<Rightarrow> (case os_probe w1 of
         (Some e, w2) \<Rightarrow> (Inl (WrapErr ''read tunnel journal'' (os_error e)), w2)
       | (None, w2) \<Rightarrow> (decodeJournal cd (take (maxJournalBytes + 1) (nData n)), w2))))"

definition store_Load :: "journal codec \<Rightarrow> string \<Rightarrow> ctx \<Rightarrow> string \<Rightarrow> fsWorld \<Rightarrow> (gerror + journal) \<times> fsWorld" where
  "store_Load cd dir ctx sid w = (case ctx_Err ctx w of Some e \<Rightarrow> (Inl e, w) | None \<Rightarrow>
     (case store_path dir sid w of
        (Inl e, w1) \<Rightarrow> (Inl e, w1)
      | (Inr path, w1) \<Rightarrow> (case os_OpenRead path w1 of
          (Inl ENOENT, w2) \<Rightarrow> (Inl (Sentinel ErrJournalNotFound), w2)
        | (Inl e, w2) \<Rightarrow> (Inl (WrapErr ''open tunnel journal'' (os_error e)), w2)
        | (Inr n, w2) \<Rightarrow> (let (x, w3) = readJournal cd n w2 in (x, snd (os_probe w3))))))"

definition store_Delete :: "string \<Rightarrow> ctx \<Rightarrow> string \<Rightarrow> fsWorld \<Rightarrow> gerror option \<times> fsWorld" where
  "store_Delete dir ctx sid w = (case ctx_Err ctx w of Some e \<Rightarrow> (Some e, w) | None \<Rightarrow>
     (case store_path dir sid w of
        (Inl e, w1) \<Rightarrow> (Some e, w1)
      | (Inr path, w1) \<Rightarrow> (case os_Remove path w1 of
          (Some ENOENT, w2) \<Rightarrow> (Some (Sentinel ErrJournalNotFound), w2)
        | (Some e, w2) \<Rightarrow> (Some (WrapErr ''delete tunnel journal'' (os_error e)), w2)
        | (None, w2) \<Rightarrow> syncDirectory w2)))"

definition fileStore :: "journal codec \<Rightarrow> string \<Rightarrow> fsWorld journalStore" where
  "fileStore cd dir = \<lparr>jsCreate = store_Create cd dir, jsUpdate = store_Update cd dir, jsLoad = store_Load cd dir, jsDelete = store_Delete dir\<rparr>"

section \<open>What a reader of the store sees\<close>

definition fs_stored :: "journal codec \<Rightarrow> string \<Rightarrow> fsWorld \<Rightarrow> string \<Rightarrow> journal option" where
  "fs_stored cd dir w sid = (if \<not> ValidSessionID sid then None else
     (case fsFiles w (journalPath dir sid) of
        None \<Rightarrow> None
      | Some n \<Rightarrow>
          if nKind n = KSymlink \<or> validatePrivateInfo ''tunnel journal'' n False (fsEuid w) \<noteq> None then None
          else (case decodeJournal cd (take (maxJournalBytes + 1) (nData n)) of Inl e \<Rightarrow> None | Inr j \<Rightarrow> Some j)))"

text \<open>Two worlds that agree on everything but temporary files.\<close>

definition isTemp :: "filePath \<Rightarrow> bool" where
  "isTemp p \<longleftrightarrow> (\<exists>ch n. snd p = CHR ''.'' # ch # n)"

definition same_journals :: "fsWorld \<Rightarrow> fsWorld \<Rightarrow> bool" where
  "same_journals w w1 \<longleftrightarrow> fsEuid w1 = fsEuid w \<and> (\<forall>p. \<not> isTemp p \<longrightarrow> fsFiles w1 p = fsFiles w p)"

lemma same_refl [simp, intro]: "same_journals w w"
  by (simp add: same_journals_def)

lemma same_trans: "same_journals a b \<Longrightarrow> same_journals b c \<Longrightarrow> same_journals a c"
  by (simp add: same_journals_def)

lemma journalPath_not_temp [simp]: "ValidSessionID sid \<Longrightarrow> \<not> isTemp (journalPath dir sid)"
  by (cases sid) (auto simp: ValidSessionID_def isTemp_def journalPath_def is_lower_hex_def byte_of_def)

lemma journalPath_inj [simp]: "journalPath dir a = journalPath dir b \<longleftrightarrow> a = b"
  by (simp add: journalPath_def)

lemma stored_cong:
  "fsEuid w1 = fsEuid w \<Longrightarrow> (ValidSessionID sid \<Longrightarrow> fsFiles w1 (journalPath dir sid) = fsFiles w (journalPath dir sid)) \<Longrightarrow>
    fs_stored cd dir w1 sid = fs_stored cd dir w sid"
  by (cases "ValidSessionID sid"; cases "fsFiles w (journalPath dir sid)") (simp_all add: fs_stored_def)

lemma stored_same: "same_journals w w1 \<Longrightarrow> fs_stored cd dir w1 = fs_stored cd dir w"
  unfolding same_journals_def by (intro ext stored_cong) (use journalPath_not_temp in blast)+

lemma stored_file:
  assumes "fsEuid w1 = fsEuid w" "\<And>p. \<not> isTemp p \<Longrightarrow> p \<noteq> journalPath dir sid \<Longrightarrow> fsFiles w1 p = fsFiles w p"
    "fs_stored cd dir w1 sid = x"
  shows "fs_stored cd dir w1 = (fs_stored cd dir w)(sid := x)"
proof
  fix s show "fs_stored cd dir w1 s = ((fs_stored cd dir w)(sid := x)) s"
    using assms stored_cong [of w1 w s] by (cases "s = sid") simp_all
qed

subsection \<open>Calls that only touch temporary files\<close>

lemma syscall_same: "syscall w = (b, w1) \<Longrightarrow> same_journals w w1"
  using syscall_frame [of w b w1] by (simp add: same_journals_def)

lemma probe_same: "os_probe w = (e, w1) \<Longrightarrow> same_journals w w1"
  by (auto simp: os_probe_def intro: syscall_same split: prod.splits bool.splits)

lemma probe_snd_same: "same_journals w w1 \<Longrightarrow> same_journals w (snd (os_probe w1))"
  by (metis probe_same same_trans surjective_pairing)

lemma syncDirectory_same: "syncDirectory w = (e, w1) \<Longrightarrow> same_journals w w1"
  by (auto simp: syncDirectory_def dest!: probe_same intro!: probe_snd_same intro: same_trans split: prod.splits option.splits)

lemma ensureDirectory_same: "ensureDirectory d w = (e, w1) \<Longrightarrow> same_journals w w1"
  by (auto simp: ensureDirectory_def os_MkdirAll_def os_LstatDir_def same_journals_def
      dest!: syscall_frameD split: prod.splits bool.splits option.splits if_splits sum.splits)

lemma store_path_same: "store_path dir sid w = (x, w1) \<Longrightarrow> same_journals w w1"
  by (auto simp: store_path_def dest: ensureDirectory_same split: prod.splits option.splits if_splits)

lemma store_path_ok:
  "store_path dir sid w = (Inr p, w1) \<Longrightarrow> p = journalPath dir sid \<and> ValidSessionID sid"
  by (auto simp: store_path_def split: prod.splits option.splits if_splits)

lemma validateExisting_same: "validateExisting p w = (e, w1) \<Longrightarrow> same_journals w w1"
  by (auto simp: validateExisting_def os_Lstat_def intro: syscall_same split: prod.splits bool.splits option.splits oserr.splits if_splits)


subsection \<open>The temporary file and its publication\<close>

text \<open>The node a finished temporary file has.\<close>

definition privateFile :: "fsWorld \<Rightarrow> byte list \<Rightarrow> fsNode" where
  "privateFile w d = \<lparr>nKind = KRegular, nPerm = 0x180, nUid = fsEuid w, nData = d\<rparr>"

lemma temp_update_same: "isTemp p \<Longrightarrow> same_journals w (w1\<lparr>fsFiles := (fsFiles w1)(p := x)\<rparr>) \<longleftrightarrow> same_journals w w1"
  by (auto simp: same_journals_def)

lemma Chmod_same: "file_Chmod p m w = (e, w1) \<Longrightarrow> isTemp p \<Longrightarrow> same_journals w w1"
  by (auto simp: file_Chmod_def modify_node_def temp_update_same intro: syscall_same split: prod.splits bool.splits)

lemma Write_same: "file_Write p d w = (e, w1) \<Longrightarrow> isTemp p \<Longrightarrow> same_journals w w1"
  by (auto simp: file_Write_def modify_node_def temp_update_same intro: syscall_same split: prod.splits bool.splits if_splits)

lemma fillTemporary_same: "fillTemporary p d w = (e, w1) \<Longrightarrow> isTemp p \<Longrightarrow> same_journals w w1"
  by (auto simp: fillTemporary_def dest!: Chmod_same Write_same probe_same intro: same_trans split: prod.splits option.splits)

lemma fillTemporary_ok:
  assumes "fillTemporary p d w = (None, w1)" "fsFiles w p = Some (privateFile w [])"
  shows "fsFiles w1 p = Some (privateFile w d)"
  using assms by (auto simp: fillTemporary_def file_Chmod_def file_Write_def modify_node_def os_probe_def privateFile_def
      dest!: syscall_frameD split: prod.splits bool.splits option.splits if_splits)

lemma CreateTemp_ok:
  assumes "os_CreateTemp dir ''.nordmac-journal-'' w = (Inr p, w1)"
  shows "isTemp p" "same_journals w w1" "fsFiles w1 p = Some (privateFile w [])" "fsEuid w1 = fsEuid w"
  using assms by (auto simp: os_CreateTemp_def Let_def isTemp_def same_journals_def privateFile_def
      dest!: syscall_frameD split: prod.splits bool.splits list.splits if_splits)

lemma CreateTemp_err: "os_CreateTemp dir pre w = (Inl e, w1) \<Longrightarrow> same_journals w w1"
  by (auto simp: os_CreateTemp_def Let_def same_journals_def dest!: syscall_frameD split: prod.splits bool.splits list.splits if_splits)

lemma writeTemporary_same:
  assumes "writeTemporary dir d w = (p, e, w1)"
  shows "same_journals w w1"
proof (cases "os_CreateTemp dir ''.nordmac-journal-'' w")
  case (Pair x wa)
  show ?thesis
  proof (cases x)
    case (Inl y)
    then show ?thesis using assms Pair CreateTemp_err by (auto simp: writeTemporary_def)
  next
    case (Inr q)
    note c = CreateTemp_ok(1,2) [OF Pair [unfolded Inr]]
    obtain y wb where f: "fillTemporary q d wa = (y, wb)" by (metis prod.exhaust)
    have "same_journals wb w1" using assms Pair Inr f probe_same by (auto simp: writeTemporary_def split: prod.splits)
    then show ?thesis using c fillTemporary_same [OF f] by (blast intro: same_trans)
  qed
qed

lemma writeTemporary_ok:
  assumes "writeTemporary dir d w = (p, None, w1)"
  obtains q where "p = Some q" "isTemp q" "fsFiles w1 q = Some (privateFile w1 d)"
proof -
  from assms obtain q wa where c: "os_CreateTemp dir ''.nordmac-journal-'' w = (Inr q, wa)"
    by (auto simp: writeTemporary_def split: prod.splits sum.splits)
  from assms c obtain wb where f: "fillTemporary q d wa = (None, wb)" and pr: "os_probe wb = (None, w1)" and p: "p = Some q"
    by (auto simp: writeTemporary_def split: prod.splits option.splits)
  note cs = CreateTemp_ok [OF c] and fs = fillTemporary_same [OF f CreateTemp_ok(1) [OF c]]
  have "fsFiles wb q = Some (privateFile wa d)" by (rule fillTemporary_ok [OF f]) (use cs in \<open>simp add: privateFile_def\<close>)
  moreover have "fsFiles w1 q = fsFiles wb q" "fsEuid w1 = fsEuid wb"
    using pr syscall_frame by (auto simp: os_probe_def split: prod.splits bool.splits)
  moreover have "fsEuid wb = fsEuid wa" using fs by (simp add: same_journals_def)
  ultimately show ?thesis using that p cs(1) by (simp add: privateFile_def)
qed

text \<open>Publishing \<open>n\<close> at a path: either nothing happened, or exactly that file changed.\<close>

definition published :: "filePath \<Rightarrow> fsNode \<Rightarrow> fsWorld \<Rightarrow> fsWorld \<Rightarrow> bool" where
  "published path n w w1 \<longleftrightarrow> fsEuid w1 = fsEuid w \<and> fsFiles w1 path = Some n \<and>
     (\<forall>p. \<not> isTemp p \<longrightarrow> p \<noteq> path \<longrightarrow> fsFiles w1 p = fsFiles w p)"

lemma published_same: "published path n w w1 \<Longrightarrow> same_journals w1 w2 \<Longrightarrow> \<not> isTemp path \<Longrightarrow> published path n w w2"
  unfolding published_def same_journals_def by metis

lemma same_published: "same_journals w w1 \<Longrightarrow> published path n w1 w2 \<Longrightarrow> published path n w w2"
  by (simp add: published_def same_journals_def)

lemma Link_result:
  assumes "os_Link tmp path w = (e, w1)" "fsFiles w tmp = Some n"
  shows "(if e = None then published path n w w1 \<and> fsFiles w path = None else same_journals w w1)"
  using assms by (auto simp: os_Link_def published_def same_journals_def dest!: syscall_frameD split: prod.splits bool.splits option.splits if_splits)

lemma Rename_result:
  assumes "os_Rename tmp path w = (e, w1)" "fsFiles w tmp = Some n" "isTemp tmp"
  shows "(if e = None then published path n w w1 else same_journals w w1)"
  using assms by (auto simp: os_Rename_def published_def same_journals_def dest!: syscall_frameD split: prod.splits bool.splits option.splits if_splits)

lemma Remove_temp_same: "isTemp p \<Longrightarrow> same_journals w (snd (os_Remove p w))"
  by (auto simp: os_Remove_def same_journals_def dest!: syscall_frameD split: prod.splits bool.splits option.splits)


text \<open>One outcome of a write: the new file is in place, or there is an error and nothing changed.\<close>

definition publishes :: "filePath \<Rightarrow> fsNode \<Rightarrow> fsWorld \<Rightarrow> gerror option \<Rightarrow> fsWorld \<Rightarrow> bool" where
  "publishes path n w e w1 \<longleftrightarrow> published path n w w1 \<or> (e \<noteq> None \<and> same_journals w w1)"

lemma publishNew_result:
  assumes "publishNew tmp path w = (e, w1)" "fsFiles w tmp = Some n" "\<not> isTemp path"
  shows "publishes path n w e w1" "fsFiles w path \<noteq> None \<Longrightarrow> e \<noteq> None \<and> same_journals w w1"
proof -
  obtain le wa where l: "os_Link tmp path w = (le, wa)" by (metis prod.exhaust)
  note r = Link_result [OF l assms(2)]
  have "publishes path n w e w1 \<and> (fsFiles w path \<noteq> None \<longrightarrow> e \<noteq> None \<and> same_journals w w1)"
  proof (cases le)
    case None
    then have "same_journals wa w1" using assms(1) l syncDirectory_same by (simp add: publishNew_def)
    then show ?thesis using r None assms(3) by (auto simp: publishes_def intro: published_same)
  next
    case (Some x)
    then show ?thesis using r assms(1) l by (cases x) (auto simp: publishNew_def publishes_def)
  qed
  then show "publishes path n w e w1" "fsFiles w path \<noteq> None \<Longrightarrow> e \<noteq> None \<and> same_journals w w1" by auto
qed

lemma publishOver_result:
  assumes "publishOver tmp path w = (e, w1)" "fsFiles w tmp = Some n" "isTemp tmp" "\<not> isTemp path"
  shows "publishes path n w e w1"
proof -
  obtain le wa where l: "os_Rename tmp path w = (le, wa)" by (metis prod.exhaust)
  note r = Rename_result [OF l assms(2,3)]
  show ?thesis
  proof (cases le)
    case None
    then have "same_journals wa w1" using assms(1) l syncDirectory_same by (simp add: publishOver_def)
    then show ?thesis using r None assms(4) by (auto simp: publishes_def intro: published_same)
  next
    case (Some x)
    then show ?thesis using r assms(1) l by (auto simp: publishOver_def publishes_def)
  qed
qed

lemma writeAndPublish_result:
  assumes pub: "\<And>tmp n w e w1. isTemp tmp \<Longrightarrow> fsFiles w tmp = Some n \<Longrightarrow> publish tmp w = (e, w1) \<Longrightarrow> publishes path n w e w1"
    and p: "\<not> isTemp path" and wp: "writeAndPublish cd dir j publish w = (e, w1)"
  shows "(\<exists>d. encodeJournal cd j = Inr d \<and> published path (privateFile w d) w w1) \<or> (e \<noteq> None \<and> same_journals w w1)"
proof (cases "encodeJournal cd j")
  case (Inl x)
  then show ?thesis using wp by (auto simp: writeAndPublish_def)
next
  case (Inr d)
  obtain tmp te wa where t: "writeTemporary dir d w = (tmp, te, wa)" by (metis prod_cases3)
  note ts = writeTemporary_same [OF t]
  show ?thesis
  proof (cases te)
    case (Some x)
    then show ?thesis using wp Inr t ts by (auto simp: writeAndPublish_def split: option.splits)
  next
    case None
    obtain q where q: "tmp = Some q" "isTemp q" "fsFiles wa q = Some (privateFile wa d)"
      by (rule writeTemporary_ok [OF t [unfolded None]])
    obtain pe wb where b: "publish q wa = (pe, wb)" by (metis prod.exhaust)
    have e: "e = pe" "w1 = snd (os_Remove q wb)" using wp Inr t None q b by (auto simp: writeAndPublish_def)
    have "same_journals wb w1" using e(2) Remove_temp_same [OF q(2)] by simp
    moreover have "privateFile wa d = privateFile w d" using ts by (simp add: privateFile_def same_journals_def)
    ultimately show ?thesis
      using pub [OF q(2,3) b] ts p e(1) Inr by (auto simp: publishes_def intro: same_published published_same same_trans)
  qed
qed

lemma writeNew_result:
  assumes "\<not> isTemp path" "writeAndPublish cd dir j (\<lambda>tmp. publishNew tmp path) w = (e, w1)"
  shows "(\<exists>d. encodeJournal cd j = Inr d \<and> published path (privateFile w d) w w1) \<or> (e \<noteq> None \<and> same_journals w w1)"
  by (rule writeAndPublish_result [OF _ assms]) (rule publishNew_result(1) [OF _ _ assms(1)])

lemma writeOver_result:
  assumes "\<not> isTemp path" "writeAndPublish cd dir j (\<lambda>tmp. publishOver tmp path) w = (e, w1)"
  shows "(\<exists>d. encodeJournal cd j = Inr d \<and> published path (privateFile w d) w w1) \<or> (e \<noteq> None \<and> same_journals w w1)"
  by (rule writeAndPublish_result [OF _ assms]) (rule publishOver_result [OF _ _ _ assms(1)])

subsection \<open>What a published journal reads back as\<close>

lemma encodeJournal_decodes:
  assumes "encodeJournal cd j = Inr d" "codec_line_ok cd j"
  shows "decodeJournal cd (take (maxJournalBytes + 1) d) = Inr j"
  using assms by (auto simp: encodeJournal_def decodeJournal_def codec_line_ok_def split: option.splits if_splits)

lemma stored_published:
  assumes "published (journalPath dir sid) (privateFile w d) w w1" "encodeJournal cd j = Inr d" "codec_line_ok cd j" "ValidSessionID sid"
  shows "fs_stored cd dir w1 = (fs_stored cd dir w)(sid := Some j)"
proof (rule stored_file)
  show "fs_stored cd dir w1 sid = Some j"
    using assms encodeJournal_decodes [OF assms(2,3)]
    by (simp add: fs_stored_def published_def privateFile_def validatePrivateInfo_def)
qed (use assms(1) in \<open>auto simp: published_def\<close>)

lemma stored_write:
  assumes w: "(\<exists>d. encodeJournal cd j = Inr d \<and> published (journalPath dir sid) (privateFile w d) w w1) \<or> (e \<noteq> None \<and> same_journals w w1)"
    and c: "codec_line_ok cd j" "ValidSessionID sid"
  shows "fs_stored cd dir w1 = (fs_stored cd dir w)(sid := Some j) \<or> (e \<noteq> None \<and> fs_stored cd dir w1 = fs_stored cd dir w)"
  using w stored_published [OF _ _ c] stored_same by blast

lemma Create_stored:
  assumes cr: "store_Create cd dir ctx j w = (e, w1)" and c: "codec_line_ok cd j"
  shows "fs_stored cd dir w1 = (fs_stored cd dir w)(jSessionID j := Some j) \<or> (e \<noteq> None \<and> fs_stored cd dir w1 = fs_stored cd dir w)"
proof (cases "store_path dir (jSessionID j) w")
  case (Pair x wa)
  note st = stored_same [OF store_path_same [OF Pair], of cd dir]
  show ?thesis
  proof (cases "ctx_Err ctx w = None \<and> (\<exists>path. x = Inr path)")
    case True
    then obtain path where x: "x = Inr path" by blast
    note v = store_path_ok [OF Pair [unfolded x]]
    have wp: "writeAndPublish cd dir j (\<lambda>tmp. publishNew tmp path) wa = (e, w1)" using cr Pair True x by (simp add: store_Create_def)
    have "\<not> isTemp path" using v by simp
    note r = writeNew_result [OF this wp]
    show ?thesis using stored_write [OF r [unfolded conjunct1 [OF v]] c] v st by simp
  qed (use cr Pair st in \<open>auto simp: store_Create_def split: option.splits sum.splits\<close>)
qed

lemma Update_stored:
  assumes cr: "store_Update cd dir ctx j w = (e, w1)" and c: "codec_line_ok cd j"
  shows "fs_stored cd dir w1 = (fs_stored cd dir w)(jSessionID j := Some j) \<or> (e \<noteq> None \<and> fs_stored cd dir w1 = fs_stored cd dir w)"
proof (cases "store_path dir (jSessionID j) w")
  case (Pair x wa)
  note st = stored_same [OF store_path_same [OF Pair], of cd dir]
  show ?thesis
  proof (cases "ctx_Err ctx w = None \<and> (\<exists>path. x = Inr path)")
    case True
    then obtain path where x: "x = Inr path" by blast
    note v = store_path_ok [OF Pair [unfolded x]]
    obtain ve wb where vx: "validateExisting path wa = (ve, wb)" by (metis prod.exhaust)
    note sb = stored_same [OF validateExisting_same [OF vx], of cd dir]
    show ?thesis
    proof (cases ve)
      case None
      have wp: "writeAndPublish cd dir j (\<lambda>tmp. publishOver tmp path) wb = (e, w1)" using cr Pair True x vx None by (simp add: store_Update_def)
      have "\<not> isTemp path" using v by simp
      note r = writeOver_result [OF this wp]
      show ?thesis using stored_write [OF r [unfolded conjunct1 [OF v]] c] v st sb by simp
    qed (use cr Pair True x vx st sb in \<open>auto simp: store_Update_def\<close>)
  qed (use cr Pair st in \<open>auto simp: store_Update_def split: option.splits sum.splits\<close>)
qed

lemma Delete_stored:
  assumes d: "store_Delete dir ctx sid w = (e, w1)"
  shows "fs_stored cd dir w1 = (fs_stored cd dir w)(sid := None) \<or> (e \<noteq> None \<and> fs_stored cd dir w1 = fs_stored cd dir w)"
proof (cases "store_path dir sid w")
  case (Pair x wa)
  note st = stored_same [OF store_path_same [OF Pair], of cd dir]
  show ?thesis
  proof (cases "ctx_Err ctx w = None \<and> (\<exists>path. x = Inr path)")
    case True
    then obtain path where x: "x = Inr path" by blast
    note v = store_path_ok [OF Pair [unfolded x]]
    obtain re wb where r: "os_Remove path wa = (re, wb)" by (metis prod.exhaust)
    have rm: "re = None \<Longrightarrow> fs_stored cd dir wb = (fs_stored cd dir wa)(sid := None)" "re \<noteq> None \<Longrightarrow> same_journals wa wb"
      using r v by (auto simp: os_Remove_def same_journals_def dest!: syscall_frameD split: prod.splits bool.splits option.splits
          intro!: stored_file) (simp_all add: fs_stored_def)
    show ?thesis
    proof (cases re)
      case None
      then have "same_journals wb w1" using d True Pair x r syncDirectory_same by (simp add: store_Delete_def)
      then show ?thesis using rm(1) [OF None] st stored_same [of wb w1 cd dir] by simp
    next
      case (Some y)
      then show ?thesis using d True Pair x r st stored_same [OF rm(2), of cd dir] by (cases y) (auto simp: store_Delete_def)
    qed
  qed (use d Pair st in \<open>auto simp: store_Delete_def split: option.splits sum.splits\<close>)
qed

lemma readJournal_result:
  assumes "readJournal cd n w = (x, w1)"
  shows "same_journals w w1" "x = Inr j \<Longrightarrow> validatePrivateInfo ''tunnel journal'' n False (fsEuid w) = None \<and>
    decodeJournal cd (take (maxJournalBytes + 1) (nData n)) = Inr j"
  using assms by (auto simp: readJournal_def same_journals_def dest!: probe_same split: prod.splits option.splits)

lemma Load_stored:
  assumes l: "store_Load cd dir ctx sid w = (x, w1)"
  shows "fs_stored cd dir w1 = fs_stored cd dir w \<and> (\<forall>j. x = Inr j \<longrightarrow> fs_stored cd dir w sid = Some j)"
proof (cases "store_path dir sid w")
  case (Pair y wa)
  note sa = store_path_same [OF Pair]
  show ?thesis
  proof (cases "ctx_Err ctx w = None \<and> (\<exists>path. y = Inr path)")
    case True
    then obtain path where y: "y = Inr path" by blast
    note v = store_path_ok [OF Pair [unfolded y]]
    obtain ox wb where o: "os_OpenRead path wa = (ox, wb)" by (metis prod.exhaust)
    have sb: "same_journals wa wb" using o by (auto simp: os_OpenRead_def intro: syscall_same split: prod.splits bool.splits)
    show ?thesis
    proof (cases ox)
      case (Inl er)
      then show ?thesis using l True Pair y o stored_same [OF same_trans [OF sa sb]] by (cases er) (auto simp: store_Load_def)
    next
      case (Inr n)
      obtain z wc where r: "readJournal cd n wb = (z, wc)" by (metis prod.exhaust)
      note rr = readJournal_result [OF r]
      have eq: "x = z" "w1 = snd (os_probe wc)" using l True Pair y o Inr r by (auto simp: store_Load_def)
      have sc: "same_journals w w1" unfolding eq by (rule probe_snd_same) (use sa sb rr(1) in \<open>blast intro: same_trans\<close>)
      have n: "fsFiles wa path = Some n" "nKind n \<noteq> KSymlink"
        using o Inr by (auto simp: os_OpenRead_def dest!: syscall_frameD split: prod.splits bool.splits option.splits if_splits)
      have "fs_stored cd dir wa sid = Some j" if "z = Inr j" for j
        using rr(2) [OF that] v n sb by (simp add: fs_stored_def same_journals_def)
      then show ?thesis using stored_same [OF sc] stored_same [OF sa] eq(1) by simp
    qed
  qed (use l Pair stored_same [OF sa] in \<open>auto simp: store_Load_def split: option.splits sum.splits\<close>)
qed

interpretation files: journal_store "fileStore cd dir" "fs_stored cd dir" "codec_line_ok cd" for cd dir
proof
  fix j ctx w w1 and e
  assume j: "codec_line_ok cd j"
  show "jsCreate (fileStore cd dir) ctx j w = (None, w1) \<Longrightarrow> fs_stored cd dir w1 = (fs_stored cd dir w)(jSessionID j := Some j)"
    "jsCreate (fileStore cd dir) ctx j w = (Some e, w1) \<Longrightarrow>
      fs_stored cd dir w1 = fs_stored cd dir w \<or> fs_stored cd dir w1 = (fs_stored cd dir w)(jSessionID j := Some j)"
    using Create_stored [OF _ j, of dir ctx w _ w1] by (fastforce simp: fileStore_def)+
  show "jsUpdate (fileStore cd dir) ctx j w = (None, w1) \<Longrightarrow> fs_stored cd dir w1 = (fs_stored cd dir w)(jSessionID j := Some j)"
    "jsUpdate (fileStore cd dir) ctx j w = (Some e, w1) \<Longrightarrow>
      fs_stored cd dir w1 = fs_stored cd dir w \<or> fs_stored cd dir w1 = (fs_stored cd dir w)(jSessionID j := Some j)"
    using Update_stored [OF _ j, of dir ctx w _ w1] by (fastforce simp: fileStore_def)+
next
  fix ctx sid w w1 e x
  show "jsDelete (fileStore cd dir) ctx sid w = (None, w1) \<Longrightarrow> fs_stored cd dir w1 = (fs_stored cd dir w)(sid := None)"
    "jsDelete (fileStore cd dir) ctx sid w = (Some e, w1) \<Longrightarrow>
      fs_stored cd dir w1 = fs_stored cd dir w \<or> fs_stored cd dir w1 = (fs_stored cd dir w)(sid := None)"
    using Delete_stored [of dir ctx sid w _ w1 cd] by (fastforce simp: fileStore_def)+
  show "jsLoad (fileStore cd dir) ctx sid w = (x, w1) \<Longrightarrow>
    fs_stored cd dir w1 = fs_stored cd dir w \<and> (\<forall>j. x = Inr j \<longrightarrow> fs_stored cd dir w sid = Some j)"
    using Load_stored [of cd dir ctx sid w x w1] by (simp add: fileStore_def)
qed


end
