(* ===== verification/File_Lock.thy ===== *)
theory File_Lock
  imports State_Store
begin

text \<open>
  The two advisory file locks, \<^verbatim>\<open>internal/state/lock.go\<close> and
  \<^verbatim>\<open>internal/credentiallock/lock.go\<close>, and their contract as the locale \<open>try_lock\<close>. A release
  closure carries its open file and a \<^verbatim>\<open>sync.Once\<close>, which the world keeps per open file.
\<close>

declare split_paired_All [simp del]

section \<open>The tunnel lock\<close>

definition lockFilename :: string where
  "lockFilename = ''nordmac.lock''"

definition release_once :: "string \<Rightarrow> filePath \<Rightarrow> nat \<Rightarrow> fsWorld \<Rightarrow> gerror option \<times> fsWorld" where
  "release_once kind p fd w = (case fsOnce w fd of
     Some r \<Rightarrow> (r, w)
   | None \<Rightarrow>
       (let (ue, w1) = flock_release p fd w; (ce, w2) = file_CloseLock p fd w1;
            r = errors_Join [wrapIfError (''unlock '' @ kind) (map_option os_error ue), wrapIfError (''close '' @ kind) (map_option os_error ce)]
        in (r, w2\<lparr>fsOnce := (fsOnce w2)(fd := Some r)\<rparr>)))"

definition closeOnError :: "filePath \<Rightarrow> nat \<Rightarrow> gerror \<Rightarrow> fsWorld \<Rightarrow> gerror \<times> fsWorld" where
  "closeOnError p fd e w = (let (ce, w1) = file_CloseLock p fd w in (the (errors_Join [Some e, map_option os_error ce]), w1))"

definition lock_checks :: "filePath \<Rightarrow> nat \<Rightarrow> fsNode \<Rightarrow> fsWorld \<Rightarrow> gerror option \<times> fsWorld" where
  "lock_checks p fd n w = (case os_probe w of
     (Some e, w1) \<Rightarrow> (Some (WrapErr ''inspect tunnel lock'' (os_error e)), w1)
   | (None, w1) \<Rightarrow>
       (if nKind n \<noteq> KRegular \<or> nPerm n AND 0x3F \<noteq> 0 then (Some (Err ''tunnel lock must be a private regular file''), w1)
        else if nUid n \<noteq> fsEuid w1 then (Some (Err ''tunnel lock is not owned by the current process uid''), w1)
        else (case flock_try p fd w1 of
          (Some EWOULDBLOCK, w2) \<Rightarrow> (Some (Sentinel ErrLockHeld), w2)
        | (Some e, w2) \<Rightarrow> (Some (WrapErr ''acquire tunnel lock'' (os_error e)), w2)
        | (None, w2) \<Rightarrow> (None, w2))))"

definition lock_Acquire :: "string \<Rightarrow> ctx \<Rightarrow> string \<Rightarrow> fsWorld \<Rightarrow> (gerror + (fsWorld \<Rightarrow> gerror option \<times> fsWorld)) \<times> fsWorld" where
  "lock_Acquire dir ctx sid w = (case ctx_Err ctx w of Some e \<Rightarrow> (Inl e, w) | None \<Rightarrow>
     (if \<not> ValidSessionID sid then (Inl (Err ''invalid tunnel session id''), w)
      else if dir = [] \<or> \<not> filepath_IsAbs dir then (Inl (Err ''lock directory must be an absolute path''), w)
      else (case ensureDirectory dir w of
        (Some e, w1) \<Rightarrow> (Inl e, w1)
      | (None, w1) \<Rightarrow> (case os_OpenLock (dir, lockFilename) w1 of
          (Inl e, w2) \<Rightarrow> (Inl (WrapErr ''open tunnel lock'' (os_error e)), w2)
        | (Inr (fd, n), w2) \<Rightarrow> (case lock_checks (dir, lockFilename) fd n w2 of
            (Some e, w3) \<Rightarrow> (let (e', w4) = closeOnError (dir, lockFilename) fd e w3 in (Inl e', w4))
          | (None, w3) \<Rightarrow> (Inr (release_once ''tunnel lock'' (dir, lockFilename) fd), w3))))))"

definition fileLocker :: "string \<Rightarrow> fsWorld locker" where
  "fileLocker dir = \<lparr>lkAcquire = lock_Acquire dir\<rparr>"

section \<open>The credential lock\<close>

definition validatePrivate :: "string \<Rightarrow> fsNode \<Rightarrow> bool \<Rightarrow> int \<Rightarrow> gerror option" where
  "validatePrivate kind n directory euid = first_err [
     reject (directory \<noteq> (nKind n = KDir) \<or> nKind n = KSymlink) (kind @ '' has the wrong file type''),
     reject (nPerm n AND 0x3F \<noteq> 0) (kind @ '' permissions are too broad''),
     reject (nUid n \<noteq> euid) (kind @ '' is not owned by the current uid'')]"

definition cred_ensureDirectory :: "string \<Rightarrow> fsWorld \<Rightarrow> gerror option \<times> fsWorld" where
  "cred_ensureDirectory d w = (case os_MkdirAll d 0x1C0 w of
     (Some e, w1) \<Rightarrow> (Some (Err ''create credential lock directory''), w1)
   | (None, w1) \<Rightarrow> (case os_LstatDir d w1 of
       (Inl e, w2) \<Rightarrow> (Some (Err ''inspect credential lock directory''), w2)
     | (Inr n, w2) \<Rightarrow> (validatePrivate ''credential lock directory'' n True (fsEuid w2), w2)))"

definition cred_filename :: string where
  "cred_filename = ''credentials.lock''"

definition cred_checks :: "filePath \<Rightarrow> nat \<Rightarrow> fsNode \<Rightarrow> fsWorld \<Rightarrow> gerror option \<times> fsWorld" where
  "cred_checks p fd n w = (case os_probe w of
     (Some e, w1) \<Rightarrow> (Some (Err ''inspect credential lock''), w1)
   | (None, w1) \<Rightarrow> (case validatePrivate ''credential lock'' n False (fsEuid w1) of
       Some e \<Rightarrow> (Some e, w1)
     | None \<Rightarrow> (case flock_try p fd w1 of
          (Some EWOULDBLOCK, w2) \<Rightarrow> (Some (Sentinel ErrHeld), w2)
        | (Some e, w2) \<Rightarrow> (Some (Err ''acquire credential lock''), w2)
        | (None, w2) \<Rightarrow> (None, w2))))"

definition cred_Lock :: "string \<Rightarrow> ctx \<Rightarrow> fsWorld \<Rightarrow> (gerror + (fsWorld \<Rightarrow> gerror option \<times> fsWorld)) \<times> fsWorld" where
  "cred_Lock dir ctx w = (case ctx_Err ctx w of Some e \<Rightarrow> (Inl e, w) | None \<Rightarrow>
     (if dir = [] \<or> \<not> filepath_IsAbs dir \<or> filepath_Clean dir \<noteq> dir
      then (Inl (Err ''credential lock directory must be absolute and canonical''), w)
      else (case cred_ensureDirectory dir w of
        (Some e, w1) \<Rightarrow> (Inl e, w1)
      | (None, w1) \<Rightarrow> (case os_OpenLock (dir, cred_filename) w1 of
          (Inl e, w2) \<Rightarrow> (Inl (Err ''open credential lock''), w2)
        | (Inr (fd, n), w2) \<Rightarrow> (case cred_checks (dir, cred_filename) fd n w2 of
            (Some e, w3) \<Rightarrow> (let (e', w4) = closeOnError (dir, cred_filename) fd e w3 in (Inl e', w4))
          | (None, w3) \<Rightarrow> (Inr (release_once ''credential lock'' (dir, cred_filename) fd), w3))))))"

section \<open>The contract of a lock that never waits\<close>

text \<open>\<open>holder\<close> names the current holder of the lock, \<open>inv\<close> is an invariant of the worlds.\<close>

locale try_lock =
  fixes acquire :: "'a \<Rightarrow> 'w \<Rightarrow> (gerror + ('w \<Rightarrow> gerror option \<times> 'w)) \<times> 'w"
    and holder :: "'w \<Rightarrow> nat option"
    and inv :: "'w \<Rightarrow> bool"
  assumes acquire_ok: "inv w \<Longrightarrow> acquire a w = (Inr release, w1) \<Longrightarrow> inv w1 \<and> holder w = None \<and> holder w1 \<noteq> None"
    and acquire_err: "inv w \<Longrightarrow> acquire a w = (Inl e, w1) \<Longrightarrow> inv w1 \<and> holder w1 = holder w"
    and release_inv: "inv w \<Longrightarrow> acquire a w = (Inr release, w1) \<Longrightarrow> inv w2 \<Longrightarrow> holder w2 = holder w1 \<Longrightarrow> release w2 = (r, w3) \<Longrightarrow>
      inv w3 \<and> (holder w3 = holder w2 \<or> holder w3 = None)"
    and release_ok: "inv w \<Longrightarrow> acquire a w = (Inr release, w1) \<Longrightarrow> inv w2 \<Longrightarrow> holder w2 = holder w1 \<Longrightarrow> release w2 = (None, w3) \<Longrightarrow> holder w3 = None"
    and release_again: "inv w \<Longrightarrow> acquire a w = (Inr release, w1) \<Longrightarrow> release w2 = (r, w3) \<Longrightarrow> release w3 = (r, w3)"
begin

text \<open>Any number of attempts by others fail and leave the holder in place.\<close>

lemma attempts_keep:
  "inv w \<Longrightarrow> holder w \<noteq> None \<Longrightarrow> inv (fold (\<lambda>a w. snd (acquire a w)) as w) \<and> holder (fold (\<lambda>a w. snd (acquire a w)) as w) = holder w"
proof (induction as arbitrary: w)
  case (Cons a as)
  obtain x w1 where a: "acquire a w = (x, w1)" by (metis prod.exhaust)
  have "inv w1 \<and> holder w1 = holder w"
    using Cons.prems a acquire_ok [of w a _ w1] acquire_err [of w a _ w1] by (cases x) simp_all
  then show ?case using Cons a by simp
qed simp

lemma attempts_refused:
  assumes "inv w" "acquire a w = (Inr release, w1)"
  shows "\<exists>e. fst (acquire b (fold (\<lambda>a w. snd (acquire a w)) as w1)) = Inl e"
proof -
  let ?w = "fold (\<lambda>a w. snd (acquire a w)) as w1"
  have k: "inv ?w \<and> holder ?w = holder w1" "holder w1 \<noteq> None"
    using acquire_ok [OF assms] attempts_keep by auto
  obtain x w2 where x: "acquire b ?w = (x, w2)" by (metis prod.exhaust)
  then show ?thesis using acquire_ok [of ?w b _ w2] k by (cases x) auto
qed

lemma released:
  assumes "inv w" "acquire a w = (Inr release, w1)" "release (fold (\<lambda>a w. snd (acquire a w)) as w1) = (r, w2)"
  shows "(r = None \<longrightarrow> holder w2 = None) \<and> release w2 = (r, w2)"
proof -
  have k: "inv (fold (\<lambda>a w. snd (acquire a w)) as w1)" "holder (fold (\<lambda>a w. snd (acquire a w)) as w1) = holder w1"
    using acquire_ok [OF assms(1,2)] attempts_keep by auto
  show ?thesis using release_ok [OF assms(1,2) k, of w2] release_again [OF assms] assms(3) by blast
qed

end

section \<open>Both file locks keep the contract\<close>

text \<open>Open files that hold a lock are among those opened so far and not yet released without error.\<close>

definition lock_inv :: "fsWorld \<Rightarrow> bool" where
  "lock_inv w \<longleftrightarrow> (\<forall>p fd. fsFlocks w p = Some fd \<longrightarrow> fd < fsNextFd w \<and> fsOnce w fd \<noteq> Some None) \<and>
     (\<forall>p q fd. fsFlocks w p = Some fd \<longrightarrow> fsFlocks w q = Some fd \<longrightarrow> p = q) \<and> (\<forall>fd\<ge>fsNextFd w. fsOnce w fd = None)"

definition same_locks :: "fsWorld \<Rightarrow> fsWorld \<Rightarrow> bool" where
  "same_locks w w1 \<longleftrightarrow> fsFlocks w1 = fsFlocks w \<and> fsOnce w1 = fsOnce w \<and> fsNextFd w1 = fsNextFd w"

lemma same_locks_inv: "same_locks w w1 \<Longrightarrow> lock_inv w1 \<longleftrightarrow> lock_inv w"
  by (simp add: same_locks_def lock_inv_def)

lemma directory_locks:
  "ensureDirectory d w = (e, w1) \<Longrightarrow> same_locks w w1" "cred_ensureDirectory d w = (e, w1) \<Longrightarrow> same_locks w w1"
  by (auto simp: ensureDirectory_def cred_ensureDirectory_def os_MkdirAll_def os_LstatDir_def same_locks_def
      dest!: syscall_frameD split: prod.splits bool.splits option.splits if_splits sum.splits)

text \<open>A new open file holds nothing and its \<^verbatim>\<open>Once\<close> has not run.\<close>

definition fresh_fd :: "nat \<Rightarrow> fsWorld \<Rightarrow> bool" where
  "fresh_fd fd w \<longleftrightarrow> lock_inv w \<and> fd < fsNextFd w \<and> (\<forall>p. fsFlocks w p \<noteq> Some fd) \<and> fsOnce w fd = None"

lemma OpenLock_fresh:
  assumes "os_OpenLock p w = (Inr (fd, n), w1)" "lock_inv w"
  shows "fresh_fd fd w1" "fsFlocks w1 = fsFlocks w"
proof -
  have f: "fd = fsNextFd w" "fsNextFd w1 = Suc (fsNextFd w)" "fsFlocks w1 = fsFlocks w" "fsOnce w1 = fsOnce w"
    using assms(1) by (auto simp: os_OpenLock_def Let_def dest!: syscall_frameD split: prod.splits bool.splits option.splits if_splits)
  then show "fsFlocks w1 = fsFlocks w" by simp
  have "fsFlocks w p \<noteq> Some fd" for p using assms(2) f(1) by (auto simp: lock_inv_def)
  then show "fresh_fd fd w1" using assms(2) f by (fastforce simp: fresh_fd_def lock_inv_def)
qed

lemma OpenLock_err:
  assumes "os_OpenLock p w = (Inl e, w1)" "lock_inv w"
  shows "lock_inv w1" "fsFlocks w1 = fsFlocks w"
proof -
  have f: "fsNextFd w1 = fsNextFd w \<or> fsNextFd w1 = Suc (fsNextFd w)" "fsFlocks w1 = fsFlocks w" "fsOnce w1 = fsOnce w"
    using assms(1) by (auto simp: os_OpenLock_def Let_def dest!: syscall_frameD split: prod.splits bool.splits option.splits if_splits)
  then show "fsFlocks w1 = fsFlocks w" by simp
  show "lock_inv w1" using assms(2) f by (fastforce simp: lock_inv_def)
qed

text \<open>What the checks up to \<^verbatim>\<open>flock\<close> do to the locks.\<close>

definition takes_lock :: "filePath \<Rightarrow> nat \<Rightarrow> gerror option \<Rightarrow> fsWorld \<Rightarrow> fsWorld \<Rightarrow> bool" where
  "takes_lock p fd e w w1 \<longleftrightarrow> fsOnce w1 = fsOnce w \<and> fsNextFd w1 = fsNextFd w \<and>
     (if e = None then fsFlocks w p = None \<and> fsFlocks w1 = (fsFlocks w)(p := Some fd) else fsFlocks w1 = fsFlocks w)"

lemma flock_try_takes:
  "flock_try p fd w = (e, w1) \<Longrightarrow> fresh_fd fd w \<Longrightarrow> takes_lock p fd (map_option os_error e) w w1"
  by (auto simp: flock_try_def takes_lock_def fresh_fd_def dest!: syscall_frameD split: prod.splits bool.splits option.splits if_splits)

lemma fresh_same: "same_locks w w1 \<Longrightarrow> fresh_fd fd w1 \<longleftrightarrow> fresh_fd fd w"
  by (simp add: fresh_fd_def same_locks_inv) (simp add: same_locks_def)

lemma probe_locks: "os_probe w = (e, w1) \<Longrightarrow> same_locks w w1"
  by (auto simp: os_probe_def same_locks_def dest!: syscall_frameD split: prod.splits bool.splits)

lemma takes_same: "same_locks w w1 \<Longrightarrow> takes_lock p fd e w1 w2 \<Longrightarrow> takes_lock p fd e w w2"
  by (auto simp: takes_lock_def same_locks_def)

lemma takes_err: "same_locks w w1 \<Longrightarrow> e \<noteq> None \<Longrightarrow> takes_lock p fd e w w1"
  by (auto simp: takes_lock_def same_locks_def)

lemma takes_any_err: "takes_lock p fd (Some e) w w1 \<Longrightarrow> takes_lock p fd (Some e') w w1"
  by (simp add: takes_lock_def)

lemma checks_take:
  assumes "fresh_fd fd w"
  shows "lock_checks p fd n w = (e, w1) \<Longrightarrow> takes_lock p fd e w w1" "cred_checks p fd n w = (e, w1) \<Longrightarrow> takes_lock p fd e w w1"
proof -
  obtain pe wa where pr: "os_probe w = (pe, wa)" by (metis prod.exhaust)
  note s = probe_locks [OF pr]
  obtain fe wb where f: "flock_try p fd wa = (fe, wb)" by (metis prod.exhaust)
  have t: "takes_lock p fd (map_option os_error fe) w wb"
    using flock_try_takes [OF f] assms fresh_same [OF s] takes_same [OF s] by blast
  show "lock_checks p fd n w = (e, w1) \<Longrightarrow> takes_lock p fd e w w1"
    using pr f s t by (auto simp: lock_checks_def takes_err intro: takes_any_err split: option.splits if_splits oserr.splits)
  show "cred_checks p fd n w = (e, w1) \<Longrightarrow> takes_lock p fd e w w1"
  proof (cases "pe = None \<and> validatePrivate ''credential lock'' n False (fsEuid wa) = None")
    case True
    then show "cred_checks p fd n w = (e, w1) \<Longrightarrow> ?thesis" using pr f t
      by (auto simp: cred_checks_def intro: takes_any_err split: option.splits oserr.splits)
  next
    case False
    then have "cred_checks p fd n w = (e, w1) \<Longrightarrow> e \<noteq> None \<and> w1 = wa" using pr
      by (cases pe; cases "validatePrivate ''credential lock'' n False (fsEuid wa)") (simp_all add: cred_checks_def, blast+)
    then show "cred_checks p fd n w = (e, w1) \<Longrightarrow> ?thesis" using takes_err [OF s] by blast
  qed
qed

lemma closeOnError_locks:
  assumes "closeOnError p fd e w = (e', w1)" "fresh_fd fd w"
  shows "same_locks w w1"
  using assms by (auto simp: closeOnError_def file_CloseLock_def drop_flock_def same_locks_def fresh_fd_def
      dest!: syscall_frameD split: prod.splits bool.splits if_splits)

definition taking :: "filePath \<Rightarrow> (nat \<Rightarrow> fsNode \<Rightarrow> fsWorld \<Rightarrow> gerror option \<times> fsWorld) \<Rightarrow> bool" where
  "taking p checks \<longleftrightarrow> (\<forall>fd n w e w1. fresh_fd fd w \<longrightarrow> checks fd n w = (e, w1) \<longrightarrow> takes_lock p fd e w w1)"

lemma takingD: "taking p checks \<Longrightarrow> fresh_fd fd w \<Longrightarrow> checks fd n w = (e, w1) \<Longrightarrow> takes_lock p fd e w w1"
  by (simp add: taking_def)

lemma checks_taking: "taking p (lock_checks p)" "taking p (cred_checks p)"
  using checks_take by (auto simp: taking_def)

text \<open>The common shape of both operations, from the opened lock file on.\<close>

definition opened :: "string \<Rightarrow> filePath \<Rightarrow> (nat \<Rightarrow> fsNode \<Rightarrow> fsWorld \<Rightarrow> gerror option \<times> fsWorld) \<Rightarrow> (oserr \<Rightarrow> gerror) \<Rightarrow>
    fsWorld \<Rightarrow> (gerror + (fsWorld \<Rightarrow> gerror option \<times> fsWorld)) \<times> fsWorld" where
  "opened kind p checks err w = (case os_OpenLock p w of
     (Inl e, w2) \<Rightarrow> (Inl (err e), w2)
   | (Inr (fd, n), w2) \<Rightarrow> (case checks fd n w2 of
       (Some e, w3) \<Rightarrow> (let (e', w4) = closeOnError p fd e w3 in (Inl e', w4))
     | (None, w3) \<Rightarrow> (Inr (release_once kind p fd), w3)))"

lemma opened_result:
  assumes ck: "taking p checks"
    and i: "lock_inv w" and o: "opened kind p checks err w = (x, w1)"
  shows "lock_inv w1" "x = Inl y \<Longrightarrow> fsFlocks w1 = fsFlocks w"
    "x = Inr release \<Longrightarrow> fsFlocks w p = None \<and> fsFlocks w1 p \<noteq> None"
proof -
  obtain ox wa where a: "os_OpenLock p w = (ox, wa)" by (metis prod.exhaust)
  have "lock_inv w1 \<and> (case x of Inl y \<Rightarrow> fsFlocks w1 = fsFlocks w | Inr release \<Rightarrow> fsFlocks w p = None \<and> fsFlocks w1 p \<noteq> None)"
  proof (cases ox)
    case (Inl e)
    then show ?thesis using o a OpenLock_err [of p w e wa] i by (auto simp: opened_def)
  next
    case (Inr q)
    then obtain fd n where q: "ox = Inr (fd, n)" by (cases q) auto
    note f = OpenLock_fresh [OF a [unfolded q] i]
    obtain ce wb where c: "checks fd n wa = (ce, wb)" by (metis prod.exhaust)
    note t = takingD [OF ck f(1) c]
    show ?thesis
    proof (cases ce)
      case None
      have "lock_inv wb" using t f(1) None unfolding takes_lock_def fresh_fd_def lock_inv_def by (auto split: if_splits)
      then show ?thesis using o a q c None t f(2) by (auto simp: opened_def takes_lock_def)
    next
      case (Some e)
      have "same_locks wa wb" using t Some by (simp add: takes_lock_def same_locks_def)
      moreover from this have "same_locks wb w1" using o a q c Some closeOnError_locks [of p fd e wb _ w1] f(1) fresh_same
        by (auto simp: opened_def split: prod.splits)
      moreover have "\<exists>e'. x = Inl e'" using o a q c Some by (auto simp: opened_def split: prod.splits)
      ultimately show ?thesis using f by (auto simp: same_locks_def fresh_fd_def lock_inv_def)
    qed
  qed
  then show "lock_inv w1" "x = Inl y \<Longrightarrow> fsFlocks w1 = fsFlocks w"
    "x = Inr release \<Longrightarrow> fsFlocks w p = None \<and> fsFlocks w1 p \<noteq> None" by auto
qed


lemma drop_flock_frame:
  "fsOnce (drop_flock p fd w) = fsOnce w" "fsNextFd (drop_flock p fd w) = fsNextFd w"
  "fsFlocks (drop_flock p fd w) = (if fsFlocks w p = Some fd then (fsFlocks w)(p := None) else fsFlocks w)"
  by (simp_all add: drop_flock_def)

lemma release_steps:
  assumes "flock_release p fd w = (ue, w1)" "file_CloseLock p fd w1 = (ce, w2)"
  shows "fsOnce w2 = fsOnce w \<and> fsNextFd w2 = fsNextFd w \<and> (ue = None \<longrightarrow> fsFlocks w2 p \<noteq> Some fd) \<and>
    (fsFlocks w2 = fsFlocks w \<or> (fsFlocks w p = Some fd \<and> fsFlocks w2 = (fsFlocks w)(p := None)))"
  using assms by (auto simp: flock_release_def file_CloseLock_def drop_flock_frame dest!: syscall_frameD split: prod.splits bool.splits if_splits)

text \<open>Releasing: the open file loses its lock or keeps it, and the result is remembered.\<close>

lemma release_result:
  assumes "release_once kind p fd w = (r, w1)"
  shows "release_once kind p fd w1 = (r, w1)" "fsNextFd w1 = fsNextFd w"
    "fsFlocks w1 = fsFlocks w \<or> (fsFlocks w p = Some fd \<and> fsFlocks w1 = (fsFlocks w)(p := None))"
    "r = None \<Longrightarrow> lock_inv w \<Longrightarrow> fsFlocks w1 p \<noteq> Some fd" "fsOnce w1 = (fsOnce w)(fd := Some r)"
proof -
  obtain ue wa where u: "flock_release p fd w = (ue, wa)" by (metis prod.exhaust)
  obtain ce wb where c: "file_CloseLock p fd wa = (ce, wb)" by (metis prod.exhaust)
  note st = release_steps [OF u c]
  show "release_once kind p fd w1 = (r, w1)" "fsNextFd w1 = fsNextFd w" "fsOnce w1 = (fsOnce w)(fd := Some r)"
    "fsFlocks w1 = fsFlocks w \<or> (fsFlocks w p = Some fd \<and> fsFlocks w1 = (fsFlocks w)(p := None))"
    using assms u c st by (auto simp: release_once_def Let_def split: option.splits)
  show "r = None \<Longrightarrow> lock_inv w \<Longrightarrow> fsFlocks w1 p \<noteq> Some fd"
    using assms u c st by (auto simp: release_once_def Let_def lock_inv_def split: option.splits)
qed

lemma release_keeps_inv:
  assumes r: "release_once kind p fd w = (r, w1)" and i: "lock_inv w" and h: "fsFlocks w p = Some fd"
  shows "lock_inv w1"
proof -
  note rr = release_result(2,3,5) [OF r] release_result(4) [OF r _ i]
  have fd: "fd < fsNextFd w" "\<And>q. fsFlocks w q = Some fd \<Longrightarrow> q = p" using i h unfolding lock_inv_def by blast+
  show ?thesis
    unfolding lock_inv_def
  proof (intro conjI allI impI)
    fix q fd' assume q: "fsFlocks w1 q = Some fd'"
    then have q': "fsFlocks w q = Some fd'" using rr(2) by (auto split: if_splits)
    show "fd' < fsNextFd w1" using q' i rr(1) by (auto simp: lock_inv_def)
    show "fsOnce w1 fd' \<noteq> Some None" using q q' i fd rr by (cases "fd' = fd") (auto simp: lock_inv_def)
  next
    fix q q' fd' assume "fsFlocks w1 q = Some fd'" "fsFlocks w1 q' = Some fd'"
    then show "q = q'" using i rr(2) unfolding lock_inv_def by (metis fun_upd_apply option.distinct(1))
  next
    fix fd' assume "fsNextFd w1 \<le> fd'"
    then show "fsOnce w1 fd' = None" using i fd(1) rr(1,3) by (auto simp: lock_inv_def)
  qed
qed

text \<open>Both operations: some checks, then the lock file is opened.\<close>

lemma lock_Acquire_cases:
  assumes "lock_Acquire dir ctx sid w = (x, w1)"
  obtains e where "x = Inl e" "same_locks w w1"
  | wa where "same_locks w wa" "opened ''tunnel lock'' (dir, lockFilename) (lock_checks (dir, lockFilename)) (\<lambda>e. WrapErr ''open tunnel lock'' (os_error e)) wa = (x, w1)"
proof (cases "\<exists>wa. ctx_Err ctx w = None \<and> ValidSessionID sid \<and> dir \<noteq> [] \<and> filepath_IsAbs dir \<and> ensureDirectory dir w = (None, wa)")
  case True
  then show ?thesis using assms that(2) directory_locks(1) by (fastforce simp: lock_Acquire_def opened_def)
next
  case False
  have r: "same_locks w w" by (simp add: same_locks_def)
  show ?thesis using assms False that(1) r directory_locks(1)
    by (auto simp: lock_Acquire_def split: option.splits if_splits prod.splits)
qed

lemma cred_Lock_cases:
  assumes "cred_Lock dir ctx w = (x, w1)"
  obtains e where "x = Inl e" "same_locks w w1"
  | wa where "same_locks w wa" "opened ''credential lock'' (dir, cred_filename) (cred_checks (dir, cred_filename)) (\<lambda>e. Err ''open credential lock'') wa = (x, w1)"
proof (cases "\<exists>wa. ctx_Err ctx w = None \<and> dir \<noteq> [] \<and> filepath_IsAbs dir \<and> filepath_Clean dir = dir \<and> cred_ensureDirectory dir w = (None, wa)")
  case True
  then show ?thesis using assms that(2) directory_locks(2) by (fastforce simp: cred_Lock_def opened_def)
next
  case False
  have r: "same_locks w w" by (simp add: same_locks_def)
  show ?thesis using assms False that(1) r directory_locks(2)
    by (auto simp: cred_Lock_def split: option.splits if_splits prod.splits)
qed

lemma opened_release:
  assumes ck: "taking p checks"
    and o: "opened kind p checks err w = (Inr release, w1)" and i: "lock_inv w"
  shows "\<exists>fd. release = release_once kind p fd \<and> fsFlocks w1 p = Some fd"
proof -
  from o obtain fd n wa where a: "os_OpenLock p w = (Inr (fd, n), wa)" and c: "checks fd n wa = (None, w1)" and r: "release = release_once kind p fd"
    by (auto simp: opened_def split: prod.splits sum.splits option.splits)
  then show ?thesis using takingD [OF ck OpenLock_fresh(1) [OF a i] c] by (simp add: takes_lock_def)
qed

lemma opened_contract:
  assumes ck: "taking p checks"
    and cases: "\<And>a w x w1. acq a w = (x, w1) \<Longrightarrow> (\<exists>e. x = Inl e \<and> same_locks w w1) \<or> (\<exists>wa. same_locks w wa \<and> opened kind p checks err wa = (x, w1))"
  shows "try_lock acq (\<lambda>w. fsFlocks w p) lock_inv"
proof
  have ok: "\<exists>wa fd. same_locks w wa \<and> lock_inv wa \<and> opened kind p checks err wa = (Inr rel, w1) \<and> rel = release_once kind p fd \<and> fsFlocks w1 p = Some fd"
    if i: "lock_inv w" and q: "acq a w = (Inr rel, w1)" for a w rel w1
  proof -
    obtain wa where a: "same_locks w wa" "opened kind p checks err wa = (Inr rel, w1)" using cases [OF q] by blast
    moreover have "lock_inv wa" using i same_locks_inv [OF a(1)] by blast
    ultimately show ?thesis using opened_release [OF ck a(2)] by blast
  qed
  fix a w w1 w2 w3 e r and release
  show "lock_inv w1 \<and> fsFlocks w p = None \<and> fsFlocks w1 p \<noteq> None" if i: "lock_inv w" and q: "acq a w = (Inr release, w1)"
  proof -
    from ok [OF i q] obtain wa where "same_locks w wa" "lock_inv wa" "opened kind p checks err wa = (Inr release, w1)" by blast
    then show ?thesis using opened_result(1,3) [OF ck, of wa kind err "Inr release" w1] by (simp add: same_locks_def)
  qed
  show "lock_inv w1 \<and> fsFlocks w1 p = fsFlocks w p" if i: "lock_inv w" and q: "acq a w = (Inl e, w1)"
  proof -
    consider "same_locks w w1" | wa where "same_locks w wa" "opened kind p checks err wa = (Inl e, w1)" using cases [OF q] by blast
    then show ?thesis
    proof cases
      case 1
      then show ?thesis using i same_locks_inv [OF 1] by (simp add: same_locks_def)
    next
      case (2 wa)
      then have "lock_inv wa" using i same_locks_inv [OF 2(1)] by blast
      then show ?thesis using opened_result(1) [OF ck _ 2(2)] opened_result(2) [OF ck _ 2(2) refl] 2(1) by (simp add: same_locks_def)
    qed
  qed
  show "lock_inv w3 \<and> (fsFlocks w3 p = fsFlocks w2 p \<or> fsFlocks w3 p = None)"
    if i: "lock_inv w" and q: "acq a w = (Inr release, w1)" and w2: "lock_inv w2" "fsFlocks w2 p = fsFlocks w1 p" and r: "release w2 = (r, w3)"
  proof -
    from ok [OF i q] obtain fd where fd: "release = release_once kind p fd" "fsFlocks w1 p = Some fd" by blast
    note r = r [unfolded fd(1)]
    show ?thesis using release_keeps_inv [OF r w2(1)] release_result(3) [OF r] w2(2) fd(2) by auto
  qed
  show "fsFlocks w3 p = None"
    if i: "lock_inv w" and q: "acq a w = (Inr release, w1)" and w2: "lock_inv w2" "fsFlocks w2 p = fsFlocks w1 p" and r: "release w2 = (None, w3)"
  proof -
    from ok [OF i q] obtain fd where fd: "release = release_once kind p fd" "fsFlocks w1 p = Some fd" by blast
    note r = r [unfolded fd(1)]
    show ?thesis using release_result(4) [OF r refl w2(1)] release_result(3) [OF r] w2(2) fd(2) by auto
  qed
  show "lock_inv w \<Longrightarrow> acq a w = (Inr release, w1) \<Longrightarrow> release w2 = (r, w3) \<Longrightarrow> release w3 = (r, w3)"
    using ok [of w a release w1] release_result(1) by blast
qed

interpretation tunnel_lock: try_lock "\<lambda>(ctx, sid). lock_Acquire dir ctx sid" "\<lambda>w. fsFlocks w (dir, lockFilename)" lock_inv for dir
  by (rule opened_contract [OF checks_taking(1)]) (auto elim: lock_Acquire_cases)

interpretation credential_lock: try_lock "cred_Lock dir" "\<lambda>w. fsFlocks w (dir, cred_filename)" lock_inv for dir
  by (rule opened_contract [OF checks_taking(2)]) (auto elim: cred_Lock_cases)


end
