(* ===== verification/State_Properties.thy ===== *)
theory State_Properties
  imports File_Lock Scripted_Host
begin

text \<open>The properties of the journal store and of the two locks, with their witnesses.\<close>

declare split_paired_All [simp del]

section \<open>The store reads back what it wrote\<close>

lemma calm_syscall: "fsOracle w = [] \<Longrightarrow> \<not> fsDead w \<Longrightarrow> syscall w = (True, w)"
  by (simp add: syscall_def)

lemma publish_dirs: "fsDirs (snd (publishNew t p w)) = fsDirs w" "fsDirs (snd (publishOver t p w)) = fsDirs w" "fsDirs (snd (os_Remove t w)) = fsDirs w"
  by (auto simp: publishNew_def publishOver_def syncDirectory_def os_probe_def os_Link_def os_Rename_def os_Remove_def
      dest!: syscall_frameD split: prod.splits bool.splits option.splits oserr.splits if_splits)

lemma fillTemporary_dirs: "fillTemporary p d w = (e, w1) \<Longrightarrow> fsDirs w1 = fsDirs w"
  by (auto simp: fillTemporary_def file_Chmod_def file_Write_def modify_node_def os_probe_def
      dest!: syscall_frameD split: prod.splits bool.splits option.splits if_splits)

lemma writeTemporary_dirs: "writeTemporary dir d w = (p, e, w1) \<Longrightarrow> fsDirs w1 = fsDirs w"
  by (auto simp: writeTemporary_def os_CreateTemp_def os_probe_def Let_def dest!: fillTemporary_dirs syscall_frameD
      split: prod.splits bool.splits sum.splits list.splits if_splits)

lemma writeAndPublish_dirs:
  assumes pub: "\<And>q w. fsDirs (snd (publish q w)) = fsDirs w" and wp: "writeAndPublish cd dir j publish w = (e, w1)"
  shows "fsDirs w1 = fsDirs w"
proof -
  have "fsDirs (snd (os_Remove q wb)) = fsDirs wa" if "publish q wa = (x, wb)" for q x wa wb
    using pub [of q wa] that by (simp add: publish_dirs)
  then show ?thesis using wp by (auto simp: writeAndPublish_def dest!: writeTemporary_dirs split: sum.splits prod.splits option.splits)
qed

lemma Create_dir:
  assumes "store_Create cd dir ctx j w = (None, w1)"
  shows "dir \<noteq> []" "filepath_IsAbs dir" "ValidSessionID (jSessionID j)"
    "\<exists>n. fsDirs w1 dir = Some n \<and> nKind n = KDir \<and> validatePrivateInfo ''journal directory'' n True (fsEuid w1) = None"
proof -
  from assms obtain path wa where p: "store_path dir (jSessionID j) w = (Inr path, wa)"
    and wp: "writeAndPublish cd dir j (\<lambda>tmp. publishNew tmp path) wa = (None, w1)"
    by (auto simp: store_Create_def split: option.splits prod.splits sum.splits)
  have g: "dir \<noteq> [] \<and> filepath_IsAbs dir \<and> ValidSessionID (jSessionID j)" "ensureDirectory dir w = (None, wa)"
    using p by (auto simp: store_path_def split: if_splits prod.splits option.splits)
  then show "dir \<noteq> []" "filepath_IsAbs dir" "ValidSessionID (jSessionID j)" by auto
  have "\<exists>n. fsDirs wa dir = Some n \<and> nKind n = KDir \<and> validatePrivateInfo ''journal directory'' n True (fsEuid wa) = None"
    using g(2) by (auto simp: ensureDirectory_def os_LstatDir_def dest!: syscall_frameD split: prod.splits bool.splits option.splits if_splits sum.splits)
  moreover have "fsDirs w1 = fsDirs wa" using writeAndPublish_dirs [OF publish_dirs(1) wp] .
  moreover have nt: "\<not> isTemp path" using store_path_ok [OF p] by simp
  have "fsEuid w1 = fsEuid wa"
    using writeNew_result [OF nt wp] by (auto simp: published_def)
  ultimately show "\<exists>n. fsDirs w1 dir = Some n \<and> nKind n = KDir \<and> validatePrivateInfo ''journal directory'' n True (fsEuid w1) = None" by simp
qed

lemma Load_calm:
  assumes c: "fsOracle w = []" "\<not> fsDead w" "\<not> fsDone w ctx"
    and d: "dir \<noteq> []" "filepath_IsAbs dir" "fsDirs w dir = Some n" "nKind n = KDir" "validatePrivateInfo ''journal directory'' n True (fsEuid w) = None"
    and s: "fs_stored cd dir w sid = Some j"
  shows "store_Load cd dir ctx sid w = (Inr j, w)"
proof -
  note y = calm_syscall [OF c(1,2)]
  from s obtain f where f: "ValidSessionID sid" "fsFiles w (journalPath dir sid) = Some f" "nKind f \<noteq> KSymlink"
    "validatePrivateInfo ''tunnel journal'' f False (fsEuid w) = None" "decodeJournal cd (take (maxJournalBytes + 1) (nData f)) = Inr j"
    by (auto simp: fs_stored_def split: if_splits option.splits sum.splits)
  have "store_path dir sid w = (Inr (journalPath dir sid), w)"
    using f(1) d y by (simp add: store_path_def ensureDirectory_def os_MkdirAll_def os_LstatDir_def)
  then show ?thesis using f(2-) c(3) y by (simp add: store_Load_def ctx_Err_def os_OpenRead_def readJournal_def os_probe_def)
qed

text \<open>a journal that \<^verbatim>\<open>Create\<close> reported as stored is what the next \<^verbatim>\<open>Load\<close> of its session returns, when no
  system call fails and the context is alive.\<close>

theorem load_after_create:
  assumes "store_Create cd dir ctx j w = (None, w1)" "codec_line_ok cd j" "fsOracle w1 = []" "\<not> fsDead w1" "\<not> fsDone w1 ctx'"
  shows "store_Load cd dir ctx' (jSessionID j) w1 = (Inr j, w1)"
proof -
  have "fs_stored cd dir w1 (jSessionID j) = Some j" using files.create_ok [OF assms(2)] assms(1) by (simp add: fileStore_def)
  then show ?thesis using Create_dir [OF assms(1)] Load_calm [OF assms(3-5)] by blast
qed

text \<open>A private directory, a world without files, and a codec that writes two journals.\<close>

definition emptyFS :: fsWorld where
  "emptyFS = \<lparr>fsDirs = (\<lambda>_. None), fsFiles = (\<lambda>_. None), fsOracle = [], fsTemps = [''a'', ''b'', ''c'', ''d'', ''e''], fsEuid = 501,
     fsDead = False, fsDone = (\<lambda>_. False), fsNextFd = 3, fsFlocks = (\<lambda>_. None), fsOnce = (\<lambda>_. None)\<rparr>"

definition sampleDir :: string where
  "sampleDir = ''/v''"

definition firstJournal :: journal where
  "firstJournal = newJournal sampleScoped sampleDefault zeroDNSSnapshot 1000"

lemma firstJournal_simps [simp]: "journal_Validate firstJournal = None" "ValidSessionID (jSessionID firstJournal)"
  using sample_journal sample_ids(1) by (simp_all add: firstJournal_def) (simp add: newJournal_def sampleScoped_def sampleFull_def)

lemmas store_run_simps = store_Create_def store_Update_def store_Load_def store_Delete_def ctx_Err_def store_path_def ensureDirectory_def os_MkdirAll_def os_LstatDir_def syscall_def
  filepath_IsAbs_def writeAndPublish_def encodeJournal_def writeTemporary_def os_CreateTemp_def fillTemporary_def file_Chmod_def file_Write_def
  modify_node_def os_probe_def publishNew_def publishOver_def os_Link_def os_Rename_def os_Remove_def syncDirectory_def Let_def maxJournalBytes_def
  validatePrivateInfo_def journalPath_def validateExisting_def os_Lstat_def reject_def

theorem load_after_create_witness:
  "\<exists>w1. store_Create (oneCodec firstJournal) sampleDir CallerCtx firstJournal emptyFS = (None, w1) \<and>
     store_Load (oneCodec firstJournal) sampleDir Background (jSessionID firstJournal) w1 = (Inr firstJournal, w1)"
proof -
  obtain w1 where r: "store_Create (oneCodec firstJournal) sampleDir CallerCtx firstJournal emptyFS = (None, w1)"
    and w: "fsOracle w1 = []" "\<not> fsDead w1" "\<not> fsDone w1 Background"
    by (simp add: store_run_simps emptyFS_def sampleDir_def oneCodec_def)
  show ?thesis using load_after_create [OF r oneCodec_ok(2) w] r by blast
qed

section \<open>The store is a map, also when it fails\<close>

text \<open>C12: seen through what a reader can load, the directory of journals is a map from
  session ids to journals. \<^verbatim>\<open>Create\<close> and \<^verbatim>\<open>Update\<close> bind one id, \<^verbatim>\<open>Delete\<close> removes one, \<^verbatim>\<open>Load\<close> looks one up;
  an operation that returns an error, because any of its system calls failed or the process died at one, had
  its full effect on the map or none.\<close>

theorem store_refines_map:
  assumes "codec_line_ok cd j"
  shows "(case store_Create cd dir ctx j w of (e, w1) \<Rightarrow>
      fs_stored cd dir w1 = (fs_stored cd dir w)(jSessionID j := Some j) \<or> (e \<noteq> None \<and> fs_stored cd dir w1 = fs_stored cd dir w)) \<and>
    (case store_Update cd dir ctx j w of (e, w1) \<Rightarrow>
      fs_stored cd dir w1 = (fs_stored cd dir w)(jSessionID j := Some j) \<or> (e \<noteq> None \<and> fs_stored cd dir w1 = fs_stored cd dir w)) \<and>
    (case store_Delete dir ctx sid w of (e, w1) \<Rightarrow>
      fs_stored cd dir w1 = (fs_stored cd dir w)(sid := None) \<or> (e \<noteq> None \<and> fs_stored cd dir w1 = fs_stored cd dir w)) \<and>
    (case store_Load cd dir ctx sid w of (x, w1) \<Rightarrow> fs_stored cd dir w1 = fs_stored cd dir w \<and>
      (case x of Inr j' \<Rightarrow> fs_stored cd dir w sid = Some j' | Inl e \<Rightarrow> True))"
proof (intro conjI)
  show "case store_Create cd dir ctx j w of (e, w1) \<Rightarrow>
      fs_stored cd dir w1 = (fs_stored cd dir w)(jSessionID j := Some j) \<or> (e \<noteq> None \<and> fs_stored cd dir w1 = fs_stored cd dir w)"
    using Create_stored [OF _ assms] by (auto split: prod.split)
  show "case store_Update cd dir ctx j w of (e, w1) \<Rightarrow>
      fs_stored cd dir w1 = (fs_stored cd dir w)(jSessionID j := Some j) \<or> (e \<noteq> None \<and> fs_stored cd dir w1 = fs_stored cd dir w)"
    using Update_stored [OF _ assms] by (auto split: prod.split)
  show "case store_Delete dir ctx sid w of (e, w1) \<Rightarrow>
      fs_stored cd dir w1 = (fs_stored cd dir w)(sid := None) \<or> (e \<noteq> None \<and> fs_stored cd dir w1 = fs_stored cd dir w)"
    using Delete_stored [of dir ctx sid w _ _ cd] by (auto split: prod.split)
  show "case store_Load cd dir ctx sid w of (x, w1) \<Rightarrow> fs_stored cd dir w1 = fs_stored cd dir w \<and>
      (case x of Inr j' \<Rightarrow> fs_stored cd dir w sid = Some j' | Inl e \<Rightarrow> True)"
    using Load_stored by (auto split: prod.split sum.split)
qed

theorem store_refines_map_witness:
  "case store_Update (oneCodec firstJournal) sampleDir CallerCtx firstJournal (emptyFS\<lparr>fsOracle := [OpOk, OpOk, OpDie]\<rparr>) of (e, w1) \<Rightarrow>
     fs_stored (oneCodec firstJournal) sampleDir w1 = (\<lambda>_. None)(jSessionID firstJournal := Some firstJournal) \<or>
     (e \<noteq> None \<and> fs_stored (oneCodec firstJournal) sampleDir w1 = (\<lambda>_. None))"
proof -
  have "fs_stored (oneCodec firstJournal) sampleDir (emptyFS\<lparr>fsOracle := [OpOk, OpOk, OpDie]\<rparr>) = (\<lambda>_. None)"
    by (rule ext) (simp add: fs_stored_def emptyFS_def)
  then show ?thesis
    using store_refines_map [OF oneCodec_ok(2) [of firstJournal], where dir = sampleDir and ctx = CallerCtx and w = "emptyFS\<lparr>fsOracle := [OpOk, OpOk, OpDie]\<rparr>"] by simp
qed

lemma writeNew_refused:
  assumes p: "\<not> isTemp path" "fsFiles w path = Some n" and wp: "writeAndPublish cd dir j (\<lambda>tmp. publishNew tmp path) w = (e, w1)"
  shows "e \<noteq> None \<and> same_journals w w1"
proof (cases "\<exists>d tmp wa. encodeJournal cd j = Inr d \<and> writeTemporary dir d w = (tmp, None, wa)")
  case True
  then obtain d tmp wa where d: "encodeJournal cd j = Inr d" and t: "writeTemporary dir d w = (tmp, None, wa)" by blast
  note ts = writeTemporary_same [OF t]
  obtain q where q: "tmp = Some q" "isTemp q" "fsFiles wa q = Some (privateFile wa d)" by (rule writeTemporary_ok [OF t])
  obtain pe wb where b: "publishNew q path wa = (pe, wb)" by (metis prod.exhaust)
  have "fsFiles wa path \<noteq> None" using ts p by (simp add: same_journals_def)
  then have "pe \<noteq> None \<and> same_journals wa wb" by (rule publishNew_result(2) [OF b q(3) p(1)])
  moreover have "same_journals wb w1" "e = pe" using wp d t q b Remove_temp_same [OF q(2)] by (auto simp: writeAndPublish_def)
  ultimately show ?thesis using ts by (blast intro: same_trans)
next
  case False
  then show ?thesis using wp
    by (auto simp: writeAndPublish_def dest!: writeTemporary_same split: sum.splits prod.splits option.splits)
qed

text \<open>\<^verbatim>\<open>Create\<close> never replaces anything: when the path of the session's journal is taken, by whatever node,
  it returns an error and leaves that node as it is.\<close>

theorem create_never_replaces:
  assumes "fsFiles w (journalPath dir (jSessionID j)) = Some n"
  shows "case store_Create cd dir ctx j w of (e, w1) \<Rightarrow> e \<noteq> None \<and> fsFiles w1 (journalPath dir (jSessionID j)) = Some n"
proof (cases "store_path dir (jSessionID j) w")
  case (Pair x wa)
  obtain e w1 where c: "store_Create cd dir ctx j w = (e, w1)" by (metis prod.exhaust)
  note sa = store_path_same [OF Pair]
  have "e \<noteq> None \<and> fsFiles w1 (journalPath dir (jSessionID j)) = Some n"
  proof (cases "ctx_Err ctx w = None \<and> (\<exists>path. x = Inr path)")
    case True
    then obtain path where x: "x = Inr path" by blast
    note v = store_path_ok [OF Pair [unfolded x]]
    have wp: "writeAndPublish cd dir j (\<lambda>tmp. publishNew tmp path) wa = (e, w1)" using c Pair True x by (simp add: store_Create_def)
    have nt: "\<not> isTemp path" and n: "fsFiles wa path = Some n" using v sa assms by (simp_all add: same_journals_def)
    have "e \<noteq> None \<and> same_journals wa w1" by (rule writeNew_refused [OF nt n wp])
    then show ?thesis using nt n v by (simp add: same_journals_def)
  next
    case False
    then have r: "e \<noteq> None \<and> w1 = (if ctx_Err ctx w = None then wa else w)" using c Pair
      by (auto simp: store_Create_def ctx_Err_def split: option.splits sum.splits if_splits)
    have "fsFiles wa (journalPath dir (jSessionID j)) = Some n"
      using assms sa Pair by (cases "ValidSessionID (jSessionID j)") (auto simp: same_journals_def store_path_def)
    then show ?thesis using r assms by simp
  qed
  then show ?thesis using c by simp
qed

theorem create_never_replaces_witness:
  "case store_Create (oneCodec firstJournal) sampleDir CallerCtx firstJournal
      (emptyFS\<lparr>fsFiles := [journalPath sampleDir (jSessionID firstJournal) \<mapsto> privateFile emptyFS []]\<rparr>) of
    (e, w1) \<Rightarrow> e \<noteq> None \<and> fsFiles w1 (journalPath sampleDir (jSessionID firstJournal)) = Some (privateFile emptyFS [])"
  by (rule create_never_replaces) simp

section \<open>What is loaded can be trusted\<close>

text \<open>C13: a journal \<^verbatim>\<open>Load\<close> returns comes from a file that is no symbolic link, belongs to the process'
  user and grants nothing to others, at most a mebibyte of it was decoded, nothing followed it, and it passes
  \<^verbatim>\<open>Journal.Validate\<close>.\<close>

theorem load_only_private_valid:
  assumes "store_Load cd dir ctx sid w = (Inr j, w1)"
  shows "journal_Validate j = None \<and> ValidSessionID sid \<and> (\<exists>n. fsFiles w (journalPath dir sid) = Some n \<and>
    nKind n \<noteq> KSymlink \<and> nKind n \<noteq> KDir \<and> nUid n = fsEuid w \<and> nPerm n AND 0x3F = 0 \<and> length (nData n) \<le> maxJournalBytes \<and>
    json_Decode cd (nData n) = Some (j, True))"
proof -
  have "fs_stored cd dir w sid = Some j" using Load_stored [OF assms] by simp
  then obtain n where "ValidSessionID sid" "fsFiles w (journalPath dir sid) = Some n" "nKind n \<noteq> KSymlink"
    "validatePrivateInfo ''tunnel journal'' n False (fsEuid w) = None" and d: "decodeJournal cd (take (maxJournalBytes + 1) (nData n)) = Inr j"
    by (auto simp: fs_stored_def split: if_splits option.splits sum.splits)
  moreover have l: "length (nData n) \<le> maxJournalBytes" using d by (auto simp: decodeJournal_def split: if_splits)
  moreover have "json_Decode cd (nData n) = Some (j, True) \<and> journal_Validate j = None"
    using d l by (auto simp: decodeJournal_def split: if_splits option.splits bool.splits)
  ultimately show ?thesis by (auto simp: validatePrivateInfo_def)
qed

theorem load_only_private_valid_witness:
  "\<exists>w1 n. store_Load (oneCodec firstJournal) sampleDir CallerCtx (jSessionID firstJournal)
      (emptyFS\<lparr>fsFiles := [journalPath sampleDir (jSessionID firstJournal) \<mapsto> privateFile emptyFS [0x7b, 0x7d, 10]]\<rparr>) = (Inr firstJournal, w1) \<and>
    fsFiles (emptyFS\<lparr>fsFiles := [journalPath sampleDir (jSessionID firstJournal) \<mapsto> privateFile emptyFS [0x7b, 0x7d, 10]]\<rparr>)
      (journalPath sampleDir (jSessionID firstJournal)) = Some n \<and> nPerm n AND 0x3F = 0"
proof -
  let ?w = "emptyFS\<lparr>fsFiles := [journalPath sampleDir (jSessionID firstJournal) \<mapsto> privateFile emptyFS [0x7b, 0x7d, 10]]\<rparr>"
  obtain w1 where r: "store_Load (oneCodec firstJournal) sampleDir CallerCtx (jSessionID firstJournal) ?w = (Inr firstJournal, w1)"
    by (simp add: store_run_simps emptyFS_def sampleDir_def oneCodec_def privateFile_def os_OpenRead_def readJournal_def decodeJournal_def)
  show ?thesis using load_only_private_valid [OF r] r by blast
qed


section \<open>The transaction on the real store\<close>

text \<open>C11: the transaction controller over this journal store: if the other adapters leave the
  journal directory alone and the journals written survive the codec, then whatever is on the host
  when \<^verbatim>\<open>Connect\<close> returns, after whatever errors and crashes of the store and the adapters, is recorded
  in the journal a later \<^verbatim>\<open>Load\<close> of the session finds.\<close>

theorem connect_leaves_record:
  assumes "cJournals c = Some (fileStore cd dir)"
    and "\<And>x. keeps (c\<lparr>cJournals := None\<rparr>) (pSessionID p) (\<lambda>w. fs_stored cd dir w (pSessionID p) = x)"
    and "Connect (instrument c) ctx p (w, []) = (j, err, w1, l)" and "\<forall>x\<in>set (writes l). codec_line_ok cd x"
  shows "live ({}, []) l = {} \<or> (\<exists>d. fs_stored cd dir w1 (pSessionID p) = Some d \<and> covers d (live ({}, []) l))"
  using files.connect_record [OF assms(1-3)] assms(4) by auto

text \<open>A host whose endpoint route stays behind: the codec writes the first journal and the one with
  the planned endpoint route, then fails, and routes cannot be removed.\<close>

definition secondJournal :: journal where
  "secondJournal = firstJournal\<lparr>jEntries := [\<lparr>eKind = StepEndpointRoute, eStatus = StepPlanned, eRoute = Some (EndpointRoute sampleScoped)\<rparr>],
     jUpdatedAt := 1001\<rparr>"

definition twoCodec :: "journal codec" where
  "twoCodec = \<lparr>json_Marshal = (\<lambda>j. if j = firstJournal then Some [1] else if j = secondJournal then Some [2] else None),
     json_Decode = (\<lambda>d. if d = [1, 10] then Some (firstJournal, True) else if d = [2, 10] then Some (secondJournal, True) else None)\<rparr>"

definition diskController :: "fsWorld controller" where
  "diskController = \<lparr>cJournals = Some (fileStore twoCodec sampleDir),
     cLocks = Some \<lparr>lkAcquire = (\<lambda>ctx sid w. (Inr (\<lambda>w. (None, w)), w))\<rparr>,
     cConflicts = Some \<lparr>ccCheck = (\<lambda>ctx p w. (None, w))\<rparr>,
     cDevices = Some \<lparr>dmCreate = (\<lambda>ctx sp w. (Inl (Err ''device''), w)), dmDeleteOwned = (\<lambda>ctx sid h w. (None, w))\<rparr>,
     cRoutes = Some \<lparr>rmSnapshot = (\<lambda>ctx w. (Inr sampleDefault, w)), rmAdd = (\<lambda>ctx r w. (None, w)), rmRemove = (\<lambda>ctx r w. (Some (Err ''busy''), w))\<rparr>,
     cDNS = None, cVerifier = Some \<lparr>vfVerify = (\<lambda>ctx j w. (None, w))\<rparr>,
     cNow = None, cTimeNow = (\<lambda>w. (1000, w))\<rparr>"

lemma twoCodec_ok: "codec_line_ok twoCodec j"
  by (simp add: codec_line_ok_def twoCodec_def)

lemma diskController_keeps: "keeps (diskController\<lparr>cJournals := None\<rparr>) sid (\<lambda>w. fs_stored cd dir w sid = x)"
  by (simp add: keeps_def diskController_def controller_now_def)


definition disk1 :: fsWorld where
  "disk1 = emptyFS\<lparr>fsDirs := [sampleDir \<mapsto> \<lparr>nKind = KDir, nPerm = 0x1C0, nUid = 501, nData = []\<rparr>],
     fsFiles := (\<lambda>_. None)((sampleDir, ''.nordmac-journal-a'') := None, journalPath sampleDir (jSessionID firstJournal) := Some (privateFile emptyFS [1, 10])),
     fsTemps := [''b'', ''c'', ''d'', ''e'']\<rparr>"

definition disk2 :: fsWorld where
  "disk2 = disk1\<lparr>fsFiles := [journalPath sampleDir (jSessionID firstJournal) \<mapsto> privateFile emptyFS [2, 10]], fsTemps := [''c'', ''d'', ''e'']\<rparr>"

lemma first_neq_second [simp]: "secondJournal \<noteq> firstJournal"
proof
  assume "secondJournal = firstJournal"
  then have "jUpdatedAt secondJournal = jUpdatedAt firstJournal" by (rule arg_cong)
  then show False by (simp add: secondJournal_def firstJournal_def newJournal_def)
qed

lemma fs_upd_noop [simp]: "m(p := None :: fsNode option) = m \<longleftrightarrow> m p = None"
  by (metis fun_upd_same fun_upd_triv)

lemma disk_create: "store_Create twoCodec sampleDir ctx firstJournal emptyFS = (None, disk1)"
  by (simp add: store_run_simps emptyFS_def sampleDir_def twoCodec_def disk1_def privateFile_def)


lemma secondJournal_valid: "journal_Validate secondJournal = None"
proof -
  have "validatePreimages secondJournal = None"
    using sample_journal validatePreimages_cong [of secondJournal "newJournal sampleScoped sampleDefault zeroDNSSnapshot 1000"]
    by (simp add: journal_Validate_ok journal_ok_def journal_static_def secondJournal_def firstJournal_def)
  then show ?thesis
    by (simp add: journal_Validate_ok journal_ok_def journal_static_def secondJournal_def firstJournal_def newJournal_def phase_status_ok_def
        sampleScoped_valid time_IsZero_def entryItem_def planItems_def)
qed

lemma second_session: "jSessionID secondJournal = jSessionID firstJournal"
  by (simp add: secondJournal_def)

lemma disk_update: "store_Update twoCodec sampleDir ctx secondJournal disk1 = (None, disk2)"
  by (simp add: store_run_simps emptyFS_def sampleDir_def twoCodec_def disk1_def disk2_def privateFile_def secondJournal_valid second_session)
    (simp add: fun_upd_twist)?

lemma disk_refuse:
  assumes "jSessionID j = jSessionID firstJournal" "j \<noteq> firstJournal" "j \<noteq> secondJournal"
  shows "store_Update twoCodec sampleDir ctx j disk2 = (Some (projl (encodeJournal twoCodec j)), disk2)"
  using assms by (simp add: store_run_simps emptyFS_def sampleDir_def twoCodec_def disk1_def disk2_def privateFile_def split: option.split)


lemma diskController_ready: "controller_validate diskController sampleScoped = None"
  by (simp add: instrument_def diskController_def controller_validate_def validateCommon_def reject_def sample_not_DNS)

lemma disk_observed:
  "jsCreate (the (cJournals (instrument diskController))) ctx j (w, l) = logged (EvCreate j) (store_Create twoCodec sampleDir ctx j) (w, l)"
  "jsUpdate (the (cJournals (instrument diskController))) ctx j (w, l) = logged (EvUpdate j) (store_Update twoCodec sampleDir ctx j) (w, l)"
  "lkAcquire (the (cLocks (instrument diskController))) ctx sid (w, l) = (Inr (silent (\<lambda>w. (None, w))), w, l)"
  "ccCheck (the (cConflicts (instrument diskController))) ctx p (w, l) = (None, w, l)"
  "rmSnapshot (the (cRoutes (instrument diskController))) ctx (w, l) = (Inr sampleDefault, w, l)"
  "rmAdd (the (cRoutes (instrument diskController))) ctx r (w, l) = (None, w, EvAdd r True # l)"
  "rmRemove (the (cRoutes (instrument diskController))) ctx r (w, l) = (Some (Err ''busy''), w, EvRemove r False # l)"
  "controller_now (instrument diskController) (w, l) = (1000, w, l)"
  by (simp_all add: instrument_def diskController_def logStore_def logLocker_def logRoutes_def silent_def logged_def controller_now_def fileStore_def)

lemma firstJournal_eq: "firstJournal = \<lparr>jSchemaVersion = JournalSchemaVersion, jSessionID = pSessionID sampleScoped, jOwnerUID = pOwnerUID sampleScoped,
   jPhase = PhaseConnecting, jPlan = sampleScoped, jRouteBefore = sampleDefault, jDNSBefore = zeroDNSSnapshot, jDevice = None,
   jEntries = [], jCreatedAt = 1000, jUpdatedAt = 1000\<rparr>"
  by (simp add: firstJournal_def newJournal_def)

lemma secondJournal_eq: "secondJournal = \<lparr>jSchemaVersion = JournalSchemaVersion, jSessionID = pSessionID sampleScoped, jOwnerUID = pOwnerUID sampleScoped,
   jPhase = PhaseConnecting, jPlan = sampleScoped, jRouteBefore = sampleDefault, jDNSBefore = zeroDNSSnapshot, jDevice = None,
   jEntries = [\<lparr>eKind = StepEndpointRoute, eStatus = StepPlanned, eRoute = Some (EndpointRoute sampleScoped)\<rparr>], jCreatedAt = 1000, jUpdatedAt = 1001\<rparr>"
  by (simp add: secondJournal_def firstJournal_eq)

lemmas disk_steps = disk_create [unfolded firstJournal_eq] disk_update [unfolded secondJournal_eq] disk_refuse [unfolded secondJournal_eq firstJournal_eq]

lemma live_nil: "live s0 [] = fst s0"
  by (simp add: live_def)

lemma disk_run:
  "\<exists>j err w1 l. Connect (instrument diskController) CallerCtx sampleScoped (emptyFS, []) = (j, err, w1, l) \<and>
     live ({}, []) l = {RRoute (EndpointRoute sampleScoped)}"
  by (simp add: run_simps sampleScoped_valid sample_preimage newJournal_sample sample_endpoint_valid sample_not_DNS newJournal_def
      diskController_ready disk_observed disk_steps logged_def live_nil)

theorem connect_leaves_record_witness:
  "\<exists>j err w1 l d. Connect (instrument diskController) CallerCtx sampleScoped (emptyFS, []) = (j, err, w1, l) \<and>
     live ({}, []) l = {RRoute (EndpointRoute sampleScoped)} \<and> fs_stored twoCodec sampleDir w1 (pSessionID sampleScoped) = Some d \<and>
     RRoute (EndpointRoute sampleScoped) \<in> set (ownedRes d)"
proof -
  obtain j err w1 l where r: "Connect (instrument diskController) CallerCtx sampleScoped (emptyFS, []) = (j, err, w1, l)"
    and l: "live ({}, []) l = {RRoute (EndpointRoute sampleScoped)}" using disk_run by blast
  have c: "cJournals diskController = Some (fileStore twoCodec sampleDir)" by (simp add: diskController_def)
  show ?thesis using connect_leaves_record [OF c diskController_keeps r] twoCodec_ok r l by (auto simp: covers_def)
qed

section \<open>Locks\<close>

text \<open>C14: while one transaction holds the tunnel lock of a directory, every further \<^verbatim>\<open>Acquire\<close>, for whatever
  session, after any number of other attempts, is refused; the release closure gives the lock up when it reports success, and
  calling it again changes nothing and reports the same.\<close>

theorem tunnel_lock_exclusive:
  assumes "lock_inv w" "lock_Acquire dir ctx sid w = (Inr release, w1)"
    and "release (fold (\<lambda>(ctx, sid) w. snd (lock_Acquire dir ctx sid w)) others w1) = (r, w3)"
  shows "(\<exists>e. fst (lock_Acquire dir ctx' sid' (fold (\<lambda>(ctx, sid) w. snd (lock_Acquire dir ctx sid w)) others w1)) = Inl e) \<and>
    (r = None \<longrightarrow> fsFlocks w3 (dir, lockFilename) = None) \<and> release w3 = (r, w3)"
proof -
  have f: "(\<lambda>a w. snd ((case a of (ctx, sid) \<Rightarrow> lock_Acquire dir ctx sid) w)) = (\<lambda>(ctx, sid) w. snd (lock_Acquire dir ctx sid w))"
    by (auto simp: fun_eq_iff)
  show ?thesis
    using tunnel_lock.attempts_refused [OF assms(1), of dir "(ctx, sid)" release w1 "(ctx', sid')" others]
      tunnel_lock.released [OF assms(1), of dir "(ctx, sid)" release w1 others r w3] assms(2,3) unfolding f by simp
qed

lemma emptyFS_inv: "lock_inv emptyFS"
  by (simp add: lock_inv_def emptyFS_def)

theorem tunnel_lock_exclusive_witness:
  "\<exists>release w1 w3 e. lock_Acquire sampleDir CallerCtx (jSessionID firstJournal) emptyFS = (Inr release, w1) \<and>
     fst (lock_Acquire sampleDir Background (jSessionID firstJournal) w1) = Inl e \<and> release w1 = (None, w3) \<and>
     fsFlocks w3 (sampleDir, lockFilename) = None"
proof -
  obtain release w1 w3 where r: "lock_Acquire sampleDir CallerCtx (jSessionID firstJournal) emptyFS = (Inr release, w1)" and "release w1 = (None, w3)"
    by (simp add: lock_Acquire_def store_run_simps emptyFS_def sampleDir_def os_OpenLock_def lock_checks_def flock_try_def release_once_def
        flock_release_def file_CloseLock_def drop_flock_def wrapIfError_def errors_Join_def)
  then show ?thesis using tunnel_lock_exclusive [OF emptyFS_inv r, of "[]" None w3 Background "jSessionID firstJournal"] by auto
qed

text \<open>C15: the same for the lock that serializes credential transactions.\<close>

theorem credential_lock_exclusive:
  assumes "lock_inv w" "cred_Lock dir ctx w = (Inr release, w1)" "release (fold (\<lambda>ctx w. snd (cred_Lock dir ctx w)) others w1) = (r, w3)"
  shows "(\<exists>e. fst (cred_Lock dir ctx' (fold (\<lambda>ctx w. snd (cred_Lock dir ctx w)) others w1)) = Inl e) \<and>
    (r = None \<longrightarrow> fsFlocks w3 (dir, cred_filename) = None) \<and> release w3 = (r, w3)"
  using credential_lock.attempts_refused [OF assms(1,2)] credential_lock.released [OF assms] by blast

theorem credential_lock_exclusive_witness:
  "\<exists>release w1 w3 e. cred_Lock sampleDir CallerCtx emptyFS = (Inr release, w1) \<and>
     fst (cred_Lock sampleDir Background w1) = Inl e \<and> release w1 = (None, w3) \<and> fsFlocks w3 (sampleDir, cred_filename) = None"
proof -
  obtain release w1 w3 where r: "cred_Lock sampleDir CallerCtx emptyFS = (Inr release, w1)" and "release w1 = (None, w3)"
    by (simp add: cred_Lock_def cred_ensureDirectory_def validatePrivate_def store_run_simps emptyFS_def sampleDir_def os_OpenLock_def cred_checks_def flock_try_def release_once_def
        flock_release_def file_CloseLock_def drop_flock_def wrapIfError_def errors_Join_def filepath_Clean_def)
  then show ?thesis using credential_lock_exclusive [OF emptyFS_inv r, of "[]" None w3 Background] by auto
qed


end
