(* ===== verification/Go_Text.thy ===== *)
theory Go_Text
  imports Nord_Prelude
begin

text \<open>
  The part of Go's \<^verbatim>\<open>strings\<close>, \<^verbatim>\<open>strconv\<close> and \<^verbatim>\<open>encoding/hex\<close> the program uses, on strings of
  bytes. White space is the ASCII white space; letters are folded in ASCII only.
\<close>

section \<open>Cutting strings\<close>

fun strings_Split :: "char \<Rightarrow> string \<Rightarrow> string list" where
  "strings_Split sep [] = [[]]"
| "strings_Split sep (ch # s) =
     (if ch = sep then [] # strings_Split sep s
      else (case strings_Split sep s of [] \<Rightarrow> [[ch]] | x # xs \<Rightarrow> (ch # x) # xs))"

fun strings_Cut :: "char \<Rightarrow> string \<Rightarrow> (string \<times> string) option" where
  "strings_Cut sep [] = None"
| "strings_Cut sep (ch # s) = (if ch = sep then Some ([], s) else map_option (\<lambda>(a, b). (ch # a, b)) (strings_Cut sep s))"

fun strings_Join :: "string \<Rightarrow> string list \<Rightarrow> string" where
  "strings_Join sep [] = []"
| "strings_Join sep [x] = x"
| "strings_Join sep (x # xs) = x @ sep @ strings_Join sep xs"

definition is_space :: "char \<Rightarrow> bool" where
  "is_space ch = (byte_of ch = 32 \<or> 9 \<le> byte_of ch \<and> byte_of ch \<le> 13)"

definition strings_TrimSpace :: "string \<Rightarrow> string" where
  "strings_TrimSpace s = rev (dropWhile is_space (rev (dropWhile is_space s)))"

definition strings_HasPrefix :: "string \<Rightarrow> string \<Rightarrow> bool" where
  "strings_HasPrefix s p = (take (length p) s = p)"

fun strings_Index :: "string \<Rightarrow> string \<Rightarrow> nat option" where
  "strings_Index [] p = (if p = [] then Some 0 else None)"
| "strings_Index (ch # s) p = (if strings_HasPrefix (ch # s) p then Some 0 else map_option Suc (strings_Index s p))"

definition strings_Contains :: "string \<Rightarrow> string \<Rightarrow> bool" where
  "strings_Contains s p = (strings_Index s p \<noteq> None)"

definition strings_ToLower :: "string \<Rightarrow> string" where
  "strings_ToLower s = map (\<lambda>ch. if 65 \<le> byte_of ch \<and> byte_of ch \<le> 90 then char_of (byte_of ch + 32) else ch) s"

lemma strings_Split_nonempty [simp]: "strings_Split sep s \<noteq> []"
  by (induction s) (auto split: list.split)

lemma split_line: "sep \<notin> set l \<Longrightarrow> strings_Split sep (l @ sep # s) = l # strings_Split sep s"
  by (induction l) auto

lemma split_last: "sep \<notin> set l \<Longrightarrow> strings_Split sep l = [l]"
  by (induction l) auto

lemma split_join:
  "list_all (\<lambda>l. sep \<notin> set l) ls \<Longrightarrow> ls \<noteq> [] \<Longrightarrow> strings_Split sep (strings_Join [sep] ls) = ls"
  by (induction "[sep]" ls rule: strings_Join.induct) (auto simp: split_line split_last)

lemma cut_append: "sep \<notin> set a \<Longrightarrow> strings_Cut sep (a @ sep # b) = Some (a, b)"
  by (induction a) auto

lemma trim_id: "s \<noteq> [] \<Longrightarrow> \<not> is_space (hd s) \<Longrightarrow> \<not> is_space (last s) \<Longrightarrow> strings_TrimSpace s = s"
  by (simp add: strings_TrimSpace_def dropWhile_eq_self_iff [THEN iffD2] hd_rev)

section \<open>Numbers\<close>

text \<open>The digits of a number in a base up to sixteen, most significant first.\<close>

definition digit_char :: "nat \<Rightarrow> char" where
  "digit_char d = (if d < 10 then char_of (48 + d) else char_of (87 + d))"

definition digit_val :: "char \<Rightarrow> nat option" where
  "digit_val ch = (let b = byte_of ch in
     if 48 \<le> b \<and> b \<le> 57 then Some (b - 48) else if 97 \<le> b \<and> b \<le> 122 then Some (b - 87)
     else if 65 \<le> b \<and> b \<le> 90 then Some (b - 55) else None)"

fun show_base :: "nat \<Rightarrow> nat \<Rightarrow> string" where
  "show_base base n = (if n < base \<or> base < 2 then [digit_char n] else show_base base (n div base) @ [digit_char (n mod base)])"

declare show_base.simps [simp del]

definition show_nat :: "nat \<Rightarrow> string" where
  "show_nat n = show_base 10 n"

fun digits_value :: "nat \<Rightarrow> nat \<Rightarrow> string \<Rightarrow> nat option" where
  "digits_value base acc [] = Some acc"
| "digits_value base acc (ch # s) = (case digit_val ch of
     None \<Rightarrow> None
   | Some d \<Rightarrow> if d < base then digits_value base (acc * base + d) s else None)"

text \<open>\<^verbatim>\<open>strconv.ParseUint(s, base, bits)\<close> and \<^verbatim>\<open>ParseInt\<close>: digits only, after at most one sign, in range.\<close>

definition ParseUint :: "nat \<Rightarrow> nat \<Rightarrow> string \<Rightarrow> nat option" where
  "ParseUint base bits s = (if s = [] then None else (case digits_value base 0 s of
     None \<Rightarrow> None | Some n \<Rightarrow> if n < 2 ^ bits then Some n else None))"

definition ParseInt :: "nat \<Rightarrow> nat \<Rightarrow> string \<Rightarrow> int option" where
  "ParseInt base bits s =
     (let neg = (s \<noteq> [] \<and> hd s = CHR ''-''); body = (if s \<noteq> [] \<and> (hd s = CHR ''-'' \<or> hd s = CHR ''+'') then tl s else s) in
      if body = [] then None else (case digits_value base 0 body of
        None \<Rightarrow> None
      | Some n \<Rightarrow> if neg then (if n \<le> 2 ^ (bits - 1) then Some (- int n) else None)
                  else (if n < 2 ^ (bits - 1) then Some (int n) else None)))"

definition strconv_Atoi :: "string \<Rightarrow> int option" where
  "strconv_Atoi s = ParseInt 10 64 s"

lemma digit_val_char [simp]: "d < 16 \<Longrightarrow> digit_val (digit_char d) = Some d"
  by (auto simp: digit_val_def digit_char_def byte_of_def Let_def)

lemma digits_value_append:
  "digits_value base acc (s @ [ch]) = Option.bind (digits_value base acc s) (\<lambda>n. digits_value base n [ch])"
  by (induction s arbitrary: acc) (auto split: option.split)

lemma digits_value_show: "2 \<le> base \<Longrightarrow> base \<le> 16 \<Longrightarrow> digits_value base 0 (show_base base n) = Some n"
proof (induction n rule: less_induct)
  case (less n)
  show ?case
  proof (cases "n < base")
    case True
    then show ?thesis using less.prems by (simp add: show_base.simps [of base n])
  next
    case False
    have m: "n mod base < base" "n mod base < 16" using less.prems mod_less_divisor [of base n] by linarith+
    have "digits_value base 0 (show_base base (n div base)) = Some (n div base)" using False less by simp
    then show ?thesis using False less.prems m by (simp add: show_base.simps [of base n] digits_value_append)
  qed
qed

lemma show_base_nonempty [simp]: "show_base base n \<noteq> []"
  by (simp add: show_base.simps [of base n])

lemma show_base_chars: "2 \<le> base \<Longrightarrow> base \<le> 16 \<Longrightarrow> ch \<in> set (show_base base n) \<Longrightarrow> \<exists>d<base. ch = digit_char d"
proof (induction n rule: less_induct)
  case (less n)
  show ?case
  proof (cases "n < base")
    case True
    then show ?thesis using less.prems by (auto simp: show_base.simps [of base n])
  next
    case False
    have m: "n mod base < base" and d: "n div base < n" using less.prems False by simp_all
    consider "ch \<in> set (show_base base (n div base))" | "ch = digit_char (n mod base)"
      using False less.prems by (auto simp: show_base.simps [of base n])
    then show ?thesis using less.IH [OF d less.prems(1,2)] m by cases auto
  qed
qed

lemma ParseUint_show: "n < 2 ^ bits \<Longrightarrow> ParseUint 10 bits (show_nat n) = Some n"
  by (simp add: ParseUint_def show_nat_def digits_value_show)

lemma digit_char_is_digit: "d < 10 \<Longrightarrow> is_digit (digit_char d)"
  by (simp add: is_digit_def digit_char_def byte_of_def)

lemma show_nat_digits: "ch \<in> set (show_nat n) \<Longrightarrow> is_digit ch"
  using show_base_chars [of 10 ch n] digit_char_is_digit by (auto simp: show_nat_def)

lemma show_nat_nonempty [simp]: "show_nat n \<noteq> []"
  by (simp add: show_nat_def)

lemma ParseInt_show: "n < 2 ^ (bits - 1) \<Longrightarrow> ParseInt 10 bits (show_nat n) = Some (int n)"
proof -
  assume n: "n < 2 ^ (bits - 1)"
  have "is_digit (hd (show_nat n))" by (rule show_nat_digits [OF hd_in_set]) simp
  then have "hd (show_nat n) \<noteq> CHR ''-'' \<and> hd (show_nat n) \<noteq> CHR ''+''" by (auto simp: is_digit_def byte_of_def)
  then show ?thesis using n digits_value_show [of 10 n] by (simp add: ParseInt_def Let_def show_nat_def)
qed

lemma show_nat_no: "\<not> is_digit ch \<Longrightarrow> ch \<notin> set (show_nat n)"
  using show_nat_digits by blast

section \<open>Hexadecimal\<close>

definition hex_byte :: "8 word \<Rightarrow> string" where
  "hex_byte b = [digit_char (unat b div 16), digit_char (unat b mod 16)]"

definition hex_EncodeToString :: "8 word list \<Rightarrow> string" where
  "hex_EncodeToString bs = concat (map hex_byte bs)"

definition hex_DecodeOk :: "string \<Rightarrow> bool" where
  "hex_DecodeOk s = (even (length s) \<and> list_all (\<lambda>ch. case digit_val ch of None \<Rightarrow> False | Some d \<Rightarrow> d < 16) s)"

lemma hex_length: "length (hex_EncodeToString bs) = 2 * length bs"
  by (induction bs) (simp_all add: hex_EncodeToString_def hex_byte_def)

end
