(* ===== verification/WG_Backend.thy ===== *)
theory WG_Backend
  imports Helper_Protocol Tunnel_Controller Go_Text
begin

text \<open>
  The device manager of \<^verbatim>\<open>internal/wgbackend\<close>: \<^verbatim>\<open>backend.go\<close> over a runtime that is an argument (the
  userspace WireGuard of a third party), the one-shot secrets of \<^verbatim>\<open>secrets.go\<close>, and what \<^verbatim>\<open>runtime.go\<close>
  writes to and reads from the WireGuard configuration protocol. SHA-256 is an argument.
  A method runs under the manager's mutex from its first access to the sessions on, so one
  call is one step; the keys are lent to a callback, which here gets the world it runs in.
\<close>

section \<open>One-shot secrets\<close>

record oneShotSecrets =
  osSessionID :: string
  osSecrets :: deviceSecrets
  osConsumed :: bool

definition NewOneShotSecrets :: "string \<Rightarrow> deviceSecrets option \<Rightarrow> (gerror + oneShotSecrets) \<times> deviceSecrets option" where
  "NewOneShotSecrets sid so = (case so of
     None \<Rightarrow> (Inl (Err ''invalid one-shot WireGuard secrets''), None)
   | Some s \<Rightarrow>
       (if \<not> ValidSessionID sid then (Inl (Err ''invalid one-shot WireGuard secrets''), Some s)
        else (case secrets_Validate (Some s) of
          Some e \<Rightarrow> (Inl e, Some s)
        | None \<Rightarrow> (Inr \<lparr>osSessionID = sid, osSecrets = s, osConsumed = False\<rparr>, Some (secrets_Wipe s)))))"

text \<open>\<open>done\<close> is the error of the context, if any; \<open>consume\<close> is absent for a nil callback.\<close>

definition Consume :: "gerror option \<Rightarrow> string \<Rightarrow> (deviceSecrets \<Rightarrow> 'v \<Rightarrow> gerror option \<times> 'v) option \<Rightarrow>
    oneShotSecrets \<Rightarrow> 'v \<Rightarrow> gerror option \<times> oneShotSecrets \<times> 'v" where
  "Consume ctxErr sid consume source v = (case consume of
     None \<Rightarrow> (Some (Err ''missing WireGuard secret consumer''), source, v)
   | Some f \<Rightarrow> (case ctxErr of
       Some e \<Rightarrow> (Some e, source, v)
     | None \<Rightarrow>
         (if osConsumed source \<or> sid \<noteq> osSessionID source
          then (Some (Err ''WireGuard secrets unavailable for session''), source, v)
          else (let (e, v1) = f (osSecrets source) v in
            (e, source\<lparr>osConsumed := True, osSecrets := secrets_Wipe (osSecrets source)\<rparr>, v1)))))"

section \<open>The manager\<close>

record wgSnapshot =
  LastHandshake :: "(int \<times> int) option"
  Transmitted :: nat
  Received :: nat

record 'w wgRuntime =
  rtName :: string
  rtConfigure :: "deviceSpec \<Rightarrow> deviceSecrets \<Rightarrow> 'w \<Rightarrow> gerror option \<times> 'w"
  rtUp :: "'w \<Rightarrow> gerror option \<times> 'w"
  rtSnapshot :: "'w \<Rightarrow> (gerror + wgSnapshot) \<times> 'w"
  rtClose :: "'w \<Rightarrow> gerror option \<times> 'w"

record 'w wgManager =
  mgSecrets :: "oneShotSecrets option"
  mgFactory :: "(int \<Rightarrow> 'w \<Rightarrow> (gerror + 'w wgRuntime) \<times> 'w) option"
  mgAddresses :: "(ctx \<Rightarrow> interfaceAddress \<Rightarrow> 'w \<Rightarrow> gerror option \<times> 'w) option"
  mgDeviceOnly :: bool
  mgPID :: int
  mgSessions :: "string \<Rightarrow> (deviceHandle \<times> 'w wgRuntime) option"

definition verifyPeerFingerprint :: "(byte list \<Rightarrow> byte list) \<Rightarrow> string \<Rightarrow> deviceSecrets \<Rightarrow> gerror option" where
  "verifyPeerFingerprint sha256 want s = (case secrets_Validate (Some s) of
     Some e \<Rightarrow> Some e
   | None \<Rightarrow> reject (hex_EncodeToString (sha256 (PeerPublicKey s)) \<noteq> want) ''peer public key does not match the approved fingerprint'')"

definition validateSpec :: "deviceSpec \<Rightarrow> gerror option" where
  "validateSpec sp = first_err [
     reject (\<not> ValidSessionID (spSessionID sp) \<or> \<not> prefix_IsValid (spAddress sp) \<or> \<not> addr_Is4 (pfxAddr (spAddress sp)) \<or>
       spMTU sp < 1280 \<or> spMTU sp > 9000 \<or> \<not> addrport_IsValid (spEndpoint sp) \<or> \<not> addr_Is4 (apAddr (spEndpoint sp)) \<or>
       apPort (spEndpoint sp) = 0 \<or> length (spPeerFingerprint sp) \<noteq> 64) ''invalid WireGuard device specification'',
     reject (\<not> hex_DecodeOk (spPeerFingerprint sp)) ''invalid WireGuard peer fingerprint'']"

text \<open>The callback: \<^verbatim>\<open>created\<close> is the captured variable, it keeps a runtime whose configuration failed.\<close>

definition bringUp :: "(byte list \<Rightarrow> byte list) \<Rightarrow> 'w wgManager \<Rightarrow> ctx \<Rightarrow> deviceSpec \<Rightarrow> deviceSecrets \<Rightarrow>
    'w wgRuntime option \<times> 'w \<Rightarrow> gerror option \<times> 'w wgRuntime option \<times> 'w" where
  "bringUp sha256 m ctx sp s v = (case verifyPeerFingerprint sha256 (spPeerFingerprint sp) s of
     Some e \<Rightarrow> (Some e, v)
   | None \<Rightarrow> (case the (mgFactory m) (spMTU sp) (snd v) of
       (Inl e, w1) \<Rightarrow> (Some (WrapErr ''create userspace WireGuard runtime'' e), None, w1)
     | (Inr rt, w1) \<Rightarrow> (case rtConfigure rt sp s w1 of
         (Some e, w2) \<Rightarrow> (Some (WrapErr ''configure userspace WireGuard runtime'' e), Some rt, w2)
       | (None, w2) \<Rightarrow> (case rtUp rt w2 of
           (Some e, w3) \<Rightarrow> (Some (WrapErr ''bring userspace WireGuard runtime up'' e), Some rt, w3)
         | (None, w3) \<Rightarrow> (case mgAddresses m of
             None \<Rightarrow> (None, Some rt, w3)
           | Some apply \<Rightarrow> (case apply ctx \<lparr>iaInterface = rtName rt, iaPrefix = spAddress sp\<rparr> w3 of
               (Some e, w4) \<Rightarrow> (Some (WrapErr ''configure userspace WireGuard address'' e), Some rt, w4)
             | (None, w4) \<Rightarrow> (None, Some rt, w4)))))))"

definition closeCreated :: "'w wgRuntime option \<Rightarrow> 'w \<Rightarrow> 'w" where
  "closeCreated created w = (case created of None \<Rightarrow> w | Some rt \<Rightarrow> snd (rtClose rt w))"

definition backend_ready :: "int \<Rightarrow> 'w wgManager \<Rightarrow> deviceSpec \<Rightarrow> gerror option" where
  "backend_ready getpid m sp = first_err [
     validateSpec sp,
     reject (mgSecrets m = None \<or> mgFactory m = None) ''WireGuard backend is incomplete'',
     reject (mgAddresses m = None \<and> \<not> mgDeviceOnly m) ''WireGuard address configurer is missing'',
     reject ((if mgPID m = 0 then getpid else mgPID m) \<le> 0) ''invalid WireGuard owner process'']"

definition wg_Create :: "(byte list \<Rightarrow> byte list) \<Rightarrow> int \<Rightarrow> (ctx \<Rightarrow> 'w \<Rightarrow> gerror option) \<Rightarrow> ctx \<Rightarrow> deviceSpec \<Rightarrow>
    'w wgManager \<Rightarrow> 'w \<Rightarrow> (gerror + deviceHandle) \<times> 'w wgManager \<times> 'w" where
  "wg_Create sha256 getpid ctxErr ctx sp m w = (case backend_ready getpid m sp of
     Some e \<Rightarrow> (Inl e, m, w)
   | None \<Rightarrow>
      (if mgSessions m (spSessionID sp) \<noteq> None then (Inl (Sentinel ErrSessionExists), m, w)
       else (case Consume (ctxErr ctx w) (spSessionID sp) (Some (bringUp sha256 m ctx sp)) (the (mgSecrets m)) (None, w) of
         (Some e, src, created, w1) \<Rightarrow> (Inl e, m\<lparr>mgSecrets := Some src\<rparr>, closeCreated created w1)
       | (None, src, created, w1) \<Rightarrow>
          (let h = \<lparr>dhInterface = rtName (the created), dhOwnerPID = (if mgPID m = 0 then getpid else mgPID m)\<rparr>;
               m1 = m\<lparr>mgSecrets := Some src\<rparr> in
           case deviceHandle_Validate h of
             Some e \<Rightarrow> (Inl (WrapErr ''invalid userspace WireGuard handle'' e), m1, closeCreated created w1)
           | None \<Rightarrow> (Inr h, m1\<lparr>mgSessions := (mgSessions m1)(spSessionID sp := Some (h, the created))\<rparr>, w1)))))"

definition wg_DeleteOwned :: "string \<Rightarrow> deviceHandle option \<Rightarrow> 'w wgManager \<Rightarrow> 'w \<Rightarrow> gerror option \<times> 'w wgManager \<times> 'w" where
  "wg_DeleteOwned sid h m w =
     (if \<not> ValidSessionID sid then (Some (Err ''invalid WireGuard session id''), m, w)
      else (case mgSessions m sid of
        None \<Rightarrow> (None, m, w)
      | Some (owned, rt) \<Rightarrow>
          (if h \<noteq> None \<and> h \<noteq> Some owned then (Some (Sentinel ErrOwnershipMismatch), m, w)
           else (case rtClose rt w of
             (Some e, w1) \<Rightarrow> (Some (WrapErr ''close userspace WireGuard runtime'' e), m, w1)
           | (None, w1) \<Rightarrow> (None, m\<lparr>mgSessions := (mgSessions m)(sid := None)\<rparr>, w1)))))"

definition wg_Snapshot :: "string \<Rightarrow> 'w wgManager \<Rightarrow> 'w \<Rightarrow> (gerror + wgSnapshot) \<times> 'w" where
  "wg_Snapshot sid m w = (case mgSessions m sid of
     None \<Rightarrow> (Inl (Sentinel ErrSessionNotFound), w)
   | Some (owned, rt) \<Rightarrow> rtSnapshot rt w)"

section \<open>The configuration protocol\<close>

text \<open>The text \<^verbatim>\<open>Configure\<close> writes; \<open>show_endpoint\<close> is \<^verbatim>\<open>AddrPort.String\<close>.\<close>

definition newline :: string where
  "newline = [CHR 0x0A]"

definition wgConfiguration :: "(addrport \<Rightarrow> string) \<Rightarrow> deviceSpec \<Rightarrow> deviceSecrets \<Rightarrow> string" where
  "wgConfiguration show_endpoint sp s =
     ''private_key='' @ hex_EncodeToString (ClientPrivateKey s) @ newline @
     ''replace_peers=true'' @ newline @ ''public_key='' @ hex_EncodeToString (PeerPublicKey s) @ newline @
     ''endpoint='' @ show_endpoint (spEndpoint sp) @
     newline @ ''replace_allowed_ips=true'' @ newline @ ''allowed_ip=0.0.0.0/0'' @ newline @ ''persistent_keepalive_interval=25'' @ newline @ newline"

record parseState =
  psSeconds :: int
  psNanoseconds :: int
  psTx :: nat
  psRx :: nat
  psFound :: bool

definition parseLine :: "string \<Rightarrow> parseState \<Rightarrow> gerror + parseState" where
  "parseLine line st = (case strings_Cut (CHR ''='') line of
     None \<Rightarrow> Inr st
   | Some (key, value) \<Rightarrow>
      (if key = ''private_key'' then Inr st
       else if key = ''public_key'' then Inr (st\<lparr>psFound := True\<rparr>)
       else if key = ''last_handshake_time_sec'' then
         (case ParseInt 10 64 value of None \<Rightarrow> Inl (Err ''parse WireGuard'') | Some n \<Rightarrow> Inr (st\<lparr>psSeconds := n\<rparr>))
       else if key = ''last_handshake_time_nsec'' then
         (case ParseInt 10 64 value of None \<Rightarrow> Inl (Err ''parse WireGuard'') | Some n \<Rightarrow> Inr (st\<lparr>psNanoseconds := n\<rparr>))
       else if key = ''tx_bytes'' then
         (case ParseUint 10 64 value of None \<Rightarrow> Inl (Err ''parse WireGuard'') | Some n \<Rightarrow> Inr (st\<lparr>psTx := n\<rparr>))
       else if key = ''rx_bytes'' then
         (case ParseUint 10 64 value of None \<Rightarrow> Inl (Err ''parse WireGuard'') | Some n \<Rightarrow> Inr (st\<lparr>psRx := n\<rparr>))
       else Inr st))"

fun parseLines :: "string list \<Rightarrow> parseState \<Rightarrow> gerror + parseState" where
  "parseLines [] st = Inr st"
| "parseLines (l # ls) st = (case parseLine l st of Inl e \<Rightarrow> Inl e | Inr st1 \<Rightarrow> parseLines ls st1)"

definition parseSnapshot :: "string \<Rightarrow> gerror + wgSnapshot" where
  "parseSnapshot configuration =
     (case parseLines (strings_Split (CHR 0x0A) configuration)
        \<lparr>psSeconds = 0, psNanoseconds = 0, psTx = 0, psRx = 0, psFound = False\<rparr> of
      Inl e \<Rightarrow> Inl e
    | Inr st \<Rightarrow>
        (if \<not> psFound st then Inl (Err ''WireGuard runtime has no configured peer'')
         else Inr \<lparr>LastHandshake = (if psSeconds st > 0 then Some (psSeconds st, psNanoseconds st) else None),
                Transmitted = psTx st, Received = psRx st\<rparr>))"

section \<open>Every runtime has an owner\<close>

text \<open>
  What is relied on of a runtime: \<open>opn\<close> gives the interfaces open in a world; a new runtime opens an
  interface of a new name, only \<^verbatim>\<open>Close\<close> closes one, and it does not fail (as the runtime of
  \<^verbatim>\<open>runtime.go\<close>, whose \<^verbatim>\<open>Close\<close> returns nil).
\<close>

definition runtime_ok :: "('w \<Rightarrow> string set) \<Rightarrow> 'w wgRuntime \<Rightarrow> bool" where
  "runtime_ok opn rt \<longleftrightarrow> (\<forall>sp s w. opn (snd (rtConfigure rt sp s w)) = opn w) \<and> (\<forall>w. opn (snd (rtUp rt w)) = opn w) \<and>
     (\<forall>w. fst (rtClose rt w) = None \<and> opn (snd (rtClose rt w)) = opn w - {rtName rt})"

definition factory_ok :: "('w \<Rightarrow> string set) \<Rightarrow> 'w wgManager \<Rightarrow> bool" where
  "factory_ok opn m \<longleftrightarrow>
     (\<forall>f mtu w. mgFactory m = Some f \<longrightarrow> (case f mtu w of
        (Inl e, w1) \<Rightarrow> opn w1 = opn w
      | (Inr rt, w1) \<Rightarrow> runtime_ok opn rt \<and> rtName rt \<notin> opn w \<and> opn w1 = insert (rtName rt) (opn w))) \<and>
     (\<forall>f ctx ia w. mgAddresses m = Some f \<longrightarrow> opn (snd (f ctx ia w)) = opn w)"

definition owned_ok :: "('w \<Rightarrow> string set) \<Rightarrow> 'w wgManager \<Rightarrow> 'w \<Rightarrow> bool" where
  "owned_ok opn m w \<longleftrightarrow>
     (\<forall>sid h rt. mgSessions m sid = Some (h, rt) \<longrightarrow> ValidSessionID sid \<and> deviceHandle_Validate h = None \<and>
        dhInterface h = rtName rt \<and> runtime_ok opn rt) \<and>
     (\<forall>sid sid' h h' rt rt'. mgSessions m sid = Some (h, rt) \<longrightarrow> mgSessions m sid' = Some (h', rt') \<longrightarrow> rtName rt = rtName rt' \<longrightarrow> sid = sid') \<and>
     opn w = (\<lambda>(h, rt). rtName rt) ` ran (mgSessions m)"

definition createResult :: "('w \<Rightarrow> string set) \<Rightarrow> 'w \<Rightarrow> gerror option \<Rightarrow> 'w wgRuntime option \<Rightarrow> 'w \<Rightarrow> bool" where
  "createResult opn w e created w1 \<longleftrightarrow> (case created of None \<Rightarrow> e \<noteq> None \<and> opn w1 = opn w
    | Some rt \<Rightarrow> runtime_ok opn rt \<and> rtName rt \<notin> opn w \<and> opn w1 = insert (rtName rt) (opn w))"

lemma bringUp_opn:
  assumes f: "factory_ok opn m" "mgFactory m \<noteq> None" and b: "bringUp sha256 m ctx sp s (None, w) = (e, created, w1)"
  shows "createResult opn w e created w1"
proof (cases "verifyPeerFingerprint sha256 (spPeerFingerprint sp) s")
  case (Some x)
  then have "e = Some x" "created = None" "w1 = w" using b by (simp_all add: bringUp_def)
  then show ?thesis by (simp add: createResult_def)
next
  case None
  obtain g where g: "mgFactory m = Some g" using f(2) by blast
  obtain x wa where x: "g (spMTU sp) w = (x, wa)" by (metis prod.exhaust)
  show ?thesis
  proof (cases x)
    case (Inl y)
    then show ?thesis using b None g x f(1) by (auto simp: bringUp_def createResult_def factory_ok_def dest!: spec [of _ "spMTU sp"] spec [of _ w])
  next
    case (Inr rt)
    have rt: "runtime_ok opn rt" "rtName rt \<notin> opn w" "opn wa = insert (rtName rt) (opn w)"
      using f(1) g x Inr by (auto simp: factory_ok_def dest!: spec [of _ "spMTU sp"] spec [of _ w])
    obtain ce wb where c: "rtConfigure rt sp s wa = (ce, wb)" by (metis prod.exhaust)
    obtain ue wc where u: "rtUp rt wb = (ue, wc)" by (metis prod.exhaust)
    have o: "opn wb = opn wa" "opn wc = opn wb" using rt(1) c u unfolding runtime_ok_def by (metis snd_conv)+
    have a: "opn wd = opn wc" if "mgAddresses m = Some ap" "ap ctx ia wc = (ae, wd)" for ap ia ae wd
      using f(1) that unfolding factory_ok_def by (metis snd_conv)
    show ?thesis
    proof (cases "mgAddresses m")
      case None
      then show ?thesis using b \<open>verifyPeerFingerprint _ _ _ = None\<close> g x Inr c u o rt by (auto simp: bringUp_def createResult_def split: option.splits)
    next
      case (Some ap)
      obtain ae wd where d: "ap ctx \<lparr>iaInterface = rtName rt, iaPrefix = spAddress sp\<rparr> wc = (ae, wd)" by (metis prod.exhaust)
      show ?thesis using b None g x Inr c u o rt a [OF Some d] Some d by (auto simp: bringUp_def createResult_def split: option.splits)
    qed
  qed
qed

lemma Consume_opn:
  assumes f: "factory_ok opn m" "mgFactory m \<noteq> None"
    and c: "Consume ce sid (Some (bringUp sha256 m ctx sp)) src (None, w) = (e, src1, created, w1)"
  shows "createResult opn w e created w1"
  using c bringUp_opn [OF f, of sha256 ctx sp "osSecrets src" w e created w1]
  by (auto simp: Consume_def createResult_def [of _ _ _ None] split: option.splits if_splits prod.splits)

lemma closeCreated_opn: "runtime_ok opn rt \<Longrightarrow> opn (closeCreated (Some rt) w) = opn w - {rtName rt}"
  by (simp add: closeCreated_def runtime_ok_def)

lemma wg_Create_cases:
  assumes f: "factory_ok opn m" and c: "wg_Create sha256 pid ce ctx sp m w = (x, m1, w1)"
  shows "(case x of
     Inl e \<Rightarrow> mgSessions m1 = mgSessions m \<and> opn w1 = opn w
   | Inr h \<Rightarrow> (\<exists>rt. mgSessions m (spSessionID sp) = None \<and> mgSessions m1 = (mgSessions m)(spSessionID sp := Some (h, rt)) \<and>
       ValidSessionID (spSessionID sp) \<and> deviceHandle_Validate h = None \<and> dhInterface h = rtName rt \<and> runtime_ok opn rt \<and>
       rtName rt \<notin> opn w \<and> opn w1 = insert (rtName rt) (opn w)))"
proof (cases "backend_ready pid m sp = None \<and> mgSessions m (spSessionID sp) = None")
  case True
  then have fac: "mgFactory m \<noteq> None" and v: "ValidSessionID (spSessionID sp)" by (auto simp: backend_ready_def validateSpec_def)
  obtain e src created wa where co: "Consume (ce ctx w) (spSessionID sp) (Some (bringUp sha256 m ctx sp)) (the (mgSecrets m)) (None, w) = (e, src, created, wa)"
    by (metis prod_cases4)
  note o = Consume_opn [OF f fac co, unfolded createResult_def]
  show ?thesis
  proof (cases e)
    case (Some y)
    then show ?thesis using c True co o by (cases created) (auto simp: wg_Create_def closeCreated_def [of None] closeCreated_opn)
  next
    case None
    then obtain rt where rt: "created = Some rt" using o by (cases created) auto
    show ?thesis
      using c True co None rt o v closeCreated_opn [of opn rt wa] by (auto simp: wg_Create_def Let_def split: option.splits)
  qed
next
  case False
  then show ?thesis using c by (auto simp: wg_Create_def split: option.splits)
qed


lemma wg_DeleteOwned_cases:
  assumes i: "owned_ok opn m w" and d: "wg_DeleteOwned sid h m w = (e, m1, w1)"
  shows "(mgSessions m1 = mgSessions m \<and> w1 = w) \<or>
    (\<exists>owned rt. e = None \<and> mgSessions m sid = Some (owned, rt) \<and> mgSessions m1 = (mgSessions m)(sid := None) \<and> opn w1 = opn w - {rtName rt})"
proof (cases "mgSessions m sid")
  case None
  then show ?thesis using d by (auto simp: wg_DeleteOwned_def split: if_splits)
next
  case (Some z)
  then obtain owned rt where z: "mgSessions m sid = Some (owned, rt)" by (cases z) auto
  then have "runtime_ok opn rt" using i by (simp add: owned_ok_def)
  then have "fst (rtClose rt w) = None" and o: "opn (snd (rtClose rt w)) = opn w - {rtName rt}" by (simp_all add: runtime_ok_def)
  then obtain w2 where c: "rtClose rt w = (None, w2)" "opn w2 = opn w - {rtName rt}" by (metis prod.collapse)
  show ?thesis
  proof (cases "\<not> ValidSessionID sid \<or> h \<noteq> None \<and> h \<noteq> Some owned")
    case True
    then show ?thesis using d z by (cases "ValidSessionID sid") (auto simp: wg_DeleteOwned_def)
  next
    case False
    then have "wg_DeleteOwned sid h m w = (None, m\<lparr>mgSessions := (mgSessions m)(sid := None)\<rparr>, w2)"
      using z c by (simp add: wg_DeleteOwned_def)
    then show ?thesis using d z c by auto
  qed
qed

lemma owned_name: "owned_ok opn m w \<Longrightarrow> mgSessions m s = Some (h, rt) \<Longrightarrow> rtName rt \<in> opn w"
  by (force simp: owned_ok_def ran_def)



text \<open>A host with one interface name to give away, for the witnesses.\<close>

definition sampleRuntime :: "string set wgRuntime" where
  "sampleRuntime = \<lparr>rtName = ''utun9'', rtConfigure = (\<lambda>sp s w. (None, w)), rtUp = (\<lambda>w. (Some (Err ''up''), w)),
     rtSnapshot = (\<lambda>w. (Inl (Err ''none''), w)), rtClose = (\<lambda>w. (None, w - {''utun9''}))\<rparr>"

definition sampleManager :: "string set wgManager" where
  "sampleManager = \<lparr>mgSecrets = Some \<lparr>osSessionID = replicate 32 CHR ''a'', osSecrets = sampleSecrets, osConsumed = False\<rparr>,
     mgFactory = Some (\<lambda>mtu w. if ''utun9'' \<in> w then (Inl (Err ''busy''), w) else (Inr sampleRuntime, insert ''utun9'' w)),
     mgAddresses = None, mgDeviceOnly = True, mgPID = 77, mgSessions = (\<lambda>_. None)\<rparr>"

definition sampleSpec :: deviceSpec where
  "sampleSpec = \<lparr>spSessionID = replicate 32 CHR ''a'', spAddress = PrefixFrom (ip4 10 5 0 2) 32,
     spMTU = 1420, spEndpoint = \<lparr>apAddr = ip4 198 51 100 10, apPort = 51820\<rparr>, spPeerFingerprint = replicate 64 CHR ''0''\<rparr>"


section \<open>Keys are lent once\<close>

definition lend :: "(gerror option \<times> string) list \<Rightarrow> oneShotSecrets \<times> deviceSecrets list \<Rightarrow> oneShotSecrets \<times> deviceSecrets list" where
  "lend calls st = fold (\<lambda>(ce, sid) (src, seen). snd (Consume ce sid (Some (\<lambda>s seen. (None, s # seen))) src seen)) calls st"

lemma lend_consumed: "osConsumed src \<Longrightarrow> lend calls (src, seen) = (src, seen)"
  unfolding lend_def by (induction calls) (auto simp: Consume_def split: option.split)

text \<open>a one-shot source lends its keys to at most one of any sequence of consumers, to one that asks for its
  session, and the keys it keeps are zero from then on.\<close>

theorem secrets_lent_once:
  assumes "NewOneShotSecrets sid (Some s) = (Inr src, rest)"
  shows "rest = Some (secrets_Wipe s) \<and> (lend calls (src, []) = (src, []) \<or>
    (\<exists>src1. lend calls (src, []) = (src1, [s]) \<and> (None, sid) \<in> set calls \<and> osConsumed src1 \<and> osSecrets src1 = secrets_Wipe s))"
proof -
  have src: "src = \<lparr>osSessionID = sid, osSecrets = s, osConsumed = False\<rparr>" "rest = Some (secrets_Wipe s)"
    using assms by (auto simp: NewOneShotSecrets_def split: if_splits option.splits)
  have "lend calls (src, []) = (src, []) \<or>
    (\<exists>src1. lend calls (src, []) = (src1, [s]) \<and> (None, sid) \<in> set calls \<and> osConsumed src1 \<and> osSecrets src1 = secrets_Wipe s)"
  proof (induction calls)
    case (Cons call calls)
    obtain ce sid' where c: "call = (ce, sid')" by (cases call)
    show ?case
    proof (cases "ce = None \<and> sid' = sid")
      case True
      have "lend (call # calls) (src, []) = lend calls (src\<lparr>osConsumed := True, osSecrets := secrets_Wipe s\<rparr>, [s])"
        using c True src by (simp add: lend_def Consume_def)
      then show ?thesis using c True by (simp add: lend_consumed src(1))
    next
      case False
      then have "lend (call # calls) (src, []) = lend calls (src, [])"
        using c src by (auto simp: lend_def Consume_def split: option.split)
      then show ?thesis using Cons by auto
    qed
  qed (simp add: lend_def)
  then show ?thesis using src(2) by simp
qed

theorem secrets_lent_once_witness:
  "\<exists>src rest. NewOneShotSecrets (replicate 32 CHR ''a'') (Some sampleSecrets) = (Inr src, rest) \<and> rest = Some (secrets_Wipe sampleSecrets)"
proof -
  obtain src rest where n: "NewOneShotSecrets (replicate 32 CHR ''a'') (Some sampleSecrets) = (Inr src, rest)"
    by (simp add: NewOneShotSecrets_def sample_ids sampleSecrets_valid)
  show ?thesis using secrets_lent_once [OF n] n by blast
qed

text \<open>\<^verbatim>\<open>Create\<close> hands out a device only for a valid specification and with keys of the same session, lent to
  it for the first time, whose peer key has the approved fingerprint; afterwards the source holds only zeros.\<close>

theorem create_checks_fingerprint:
  assumes "wg_Create sha256 pid ce ctx sp m w = (Inr h, m1, w1)"
  shows "\<exists>src. mgSecrets m = Some src \<and> osSessionID src = spSessionID sp \<and> \<not> osConsumed src \<and> validateSpec sp = None \<and>
    hex_EncodeToString (sha256 (PeerPublicKey (osSecrets src))) = spPeerFingerprint sp \<and> secrets_Validate (Some (osSecrets src)) = None \<and>
    mgSecrets m1 = Some (src\<lparr>osConsumed := True, osSecrets := secrets_Wipe (osSecrets src)\<rparr>)"
proof -
  have "backend_ready pid m sp = None \<and> mgSessions m (spSessionID sp) = None"
    using assms by (cases "backend_ready pid m sp"; cases "mgSessions m (spSessionID sp)") (simp_all add: wg_Create_def)
  then have r: "backend_ready pid m sp = None" "mgSessions m (spSessionID sp) = None" by simp_all
  then obtain src where src: "mgSecrets m = Some src" and v: "validateSpec sp = None" by (auto simp: backend_ready_def)
  obtain e src1 created wa where co: "Consume (ce ctx w) (spSessionID sp) (Some (bringUp sha256 m ctx sp)) src (None, w) = (e, src1, created, wa)"
    by (metis prod_cases4)
  have e: "e = None" "mgSecrets m1 = Some src1" using assms r src co by (auto simp: wg_Create_def Let_def split: option.splits)
  then have c: "osSessionID src = spSessionID sp" "\<not> osConsumed src" "src1 = src\<lparr>osConsumed := True, osSecrets := secrets_Wipe (osSecrets src)\<rparr>"
      "bringUp sha256 m ctx sp (osSecrets src) (None, w) = (None, created, wa)"
    using co by (auto simp: Consume_def split: option.splits if_splits prod.splits)
  have "verifyPeerFingerprint sha256 (spPeerFingerprint sp) (osSecrets src) = None"
    using c(4) by (cases "verifyPeerFingerprint sha256 (spPeerFingerprint sp) (osSecrets src)") (simp_all add: bringUp_def)
  then show ?thesis using src v c e(2) by (auto simp: verifyPeerFingerprint_def split: option.splits)
qed

lemma sample_handle_valid: "deviceHandle_Validate \<lparr>dhInterface = ''utun9'', dhOwnerPID = 77\<rparr> = None"
  by (simp add: deviceHandle_Validate_def sample_ids)

lemma hex_zeros: "hex_EncodeToString (replicate n 0) = replicate (2 * n) CHR ''0''"
  by (induction n) (simp_all add: hex_EncodeToString_def hex_byte_def digit_char_def char_of_def bit_0)

theorem create_checks_fingerprint_witness:
  "\<exists>h m1 w1. wg_Create (\<lambda>_. replicate 32 0) 77 (\<lambda>_ _. None) CallerCtx sampleSpec
       (sampleManager\<lparr>mgFactory := Some (\<lambda>mtu w. (Inr (sampleRuntime\<lparr>rtUp := \<lambda>w. (None, w)\<rparr>), insert ''utun9'' w))\<rparr>) {} = (Inr h, m1, w1) \<and>
     (\<exists>src. mgSecrets m1 = Some src \<and> osConsumed src)"
proof -
  let ?m = "sampleManager\<lparr>mgFactory := Some (\<lambda>mtu w. (Inr (sampleRuntime\<lparr>rtUp := \<lambda>w. (None, w)\<rparr>), insert ''utun9'' w))\<rparr>"
  have "validateSpec sampleSpec = None"
    by (simp add: validateSpec_def sampleSpec_def sample_ids address_simps hex_DecodeOk_def digit_val_def byte_of_def Let_def list_all_iff)
  moreover have "hex_EncodeToString (replicate 32 0) = replicate 64 CHR ''0''"
    using hex_zeros [of 32] by simp
  ultimately obtain h m1 w1 where r: "wg_Create (\<lambda>_. replicate 32 0) 77 (\<lambda>_ _. None) CallerCtx sampleSpec ?m {} = (Inr h, m1, w1)"
    by (simp add: wg_Create_def backend_ready_def sampleManager_def sampleRuntime_def Consume_def bringUp_def verifyPeerFingerprint_def
        sampleSecrets_valid sample_handle_valid sampleSpec_def reject_def Let_def)
  show ?thesis using create_checks_fingerprint [OF r] r by auto
qed

section \<open>The counters of a device\<close>

text \<open>The answer of the configuration protocol for one peer.\<close>

definition uapiAnswer :: "string \<Rightarrow> string \<Rightarrow> nat \<Rightarrow> nat \<Rightarrow> nat \<Rightarrow> nat \<Rightarrow> string" where
  "uapiAnswer priv pub sec nsec tx rx = strings_Join newline
     [''private_key='' @ priv, ''public_key='' @ pub, ''last_handshake_time_sec='' @ show_nat sec, ''last_handshake_time_nsec='' @ show_nat nsec,
      ''tx_bytes='' @ show_nat tx, ''rx_bytes='' @ show_nat rx, []]"

lemma ParseUint_large: "\<not> n < 2 ^ bits \<Longrightarrow> ParseUint 10 bits (show_nat n) = None"
  by (simp add: ParseUint_def show_nat_def digits_value_show)

lemma ParseInt_large: "\<not> n < 2 ^ (bits - 1) \<Longrightarrow> ParseInt 10 bits (show_nat n) = None"
proof -
  assume n: "\<not> n < 2 ^ (bits - 1)"
  have "is_digit (hd (show_nat n))" by (rule show_nat_digits [OF hd_in_set]) simp
  then have "hd (show_nat n) \<noteq> CHR ''-'' \<and> hd (show_nat n) \<noteq> CHR ''+''" by (auto simp: is_digit_def byte_of_def)
  then show ?thesis using n digits_value_show [of 10 n] by (simp add: ParseInt_def Let_def show_nat_def)
qed

lemma parse_number:
  "ParseInt 10 64 (show_nat n) = (if n < 9223372036854775808 then Some (int n) else None)"
  "ParseUint 10 64 (show_nat n) = (if n < 18446744073709551616 then Some n else None)"
  using ParseInt_show [of n 64] ParseInt_large [of n 64] ParseUint_show [of n 64] ParseUint_large [of n 64] by simp_all

lemma uapi_lines:
  assumes "CHR 0x0A \<notin> set priv" "CHR 0x0A \<notin> set pub"
  shows "strings_Split (CHR 0x0A) (uapiAnswer priv pub sec nsec tx rx) =
    [''private_key='' @ priv, ''public_key='' @ pub, ''last_handshake_time_sec='' @ show_nat sec, ''last_handshake_time_nsec='' @ show_nat nsec,
      ''tx_bytes='' @ show_nat tx, ''rx_bytes='' @ show_nat rx, []]"
proof -
  have "CHR 0x0A \<notin> set (show_nat n)" for n by (rule show_nat_no) (simp add: is_digit_def byte_of_def)
  then show ?thesis unfolding uapiAnswer_def newline_def using assms by (intro split_join) auto
qed

text \<open>C32: the counters of the device are read exactly: the parser returns the numbers printed in the
  answer when they fit (64 bits, 63 for the signed handshake time), and refuses the answer otherwise;
  it never wraps one around. Keys may be any text without a line feed.\<close>

theorem snapshot_exact:
  assumes "CHR 0x0A \<notin> set priv" "CHR 0x0A \<notin> set pub"
  shows "parseSnapshot (uapiAnswer priv pub sec nsec tx rx) =
    (if sec < 2 ^ 63 \<and> nsec < 2 ^ 63 \<and> tx < 2 ^ 64 \<and> rx < 2 ^ 64
     then Inr \<lparr>LastHandshake = (if sec > 0 then Some (int sec, int nsec) else None), Transmitted = tx, Received = rx\<rparr>
     else Inl (Err ''parse WireGuard''))"
  unfolding parseSnapshot_def uapi_lines [OF assms] by (simp add: parseLine_def parse_number)

theorem snapshot_exact_witness: "parseSnapshot (uapiAnswer ''00'' ''ff'' 0 0 (2 ^ 64) 1) = Inl (Err ''parse WireGuard'')"
  using snapshot_exact [of "''00''" "''ff''" 0 0 "2 ^ 64" 1] by (simp add: char_of_def)


end
