(* ===== verification/Netip_Text.thy ===== *)
theory Netip_Text
  imports Netip Go_Text
begin

text \<open>
  The text forms of \<^verbatim>\<open>net/netip\<close>: dotted IPv4 addresses and prefixes are printed and parsed here; the
  text of an IPv6 address is given by an argument, of which only \<open>text6_ok\<close> is ever assumed.
\<close>

record text6 =
  parseIPv6 :: "string \<Rightarrow> addr option"
  showIPv6 :: "addr \<Rightarrow> string"

definition octets :: "32 word \<Rightarrow> nat list" where
  "octets w = (let n = unat w in [n div 16777216 mod 256, n div 65536 mod 256, n div 256 mod 256, n mod 256])"

definition from_octets :: "nat list \<Rightarrow> 32 word" where
  "from_octets os = word_of_nat (foldl (\<lambda>acc b. acc * 256 + b) 0 os)"

definition show4 :: "32 word \<Rightarrow> string" where
  "show4 w = strings_Join ''.'' (map show_nat (octets w))"

definition addr_String :: "text6 \<Rightarrow> addr \<Rightarrow> string" where
  "addr_String t a = (case a of ZeroAddr \<Rightarrow> ''invalid IP'' | IPv4 w \<Rightarrow> show4 w | IPv6 w z \<Rightarrow> showIPv6 t a)"

text \<open>One field of a dotted address: digits without a leading zero, at most 255.\<close>

definition parse_octet :: "string \<Rightarrow> nat option" where
  "parse_octet s = (if s = [] \<or> \<not> list_all is_digit s \<or> (length s > 1 \<and> hd s = CHR ''0'') then None
     else (case digits_value 10 0 s of None \<Rightarrow> None | Some n \<Rightarrow> if n \<le> 255 then Some n else None))"

definition parseIPv4 :: "string \<Rightarrow> addr option" where
  "parseIPv4 s = (let fs = map parse_octet (strings_Split (CHR ''.'') s) in
     if length fs \<noteq> 4 \<or> None \<in> set fs then None else Some (IPv4 (from_octets (map the fs))))"

definition netip_ParseAddr :: "text6 \<Rightarrow> string \<Rightarrow> addr option" where
  "netip_ParseAddr t s = (case find (\<lambda>ch. ch = CHR ''.'' \<or> ch = CHR '':'' \<or> ch = CHR ''%'') s of
     None \<Rightarrow> None
   | Some ch \<Rightarrow> if ch = CHR ''.'' then parseIPv4 s else if ch = CHR '':'' then parseIPv6 t s else None)"

definition prefix_String :: "text6 \<Rightarrow> prefix \<Rightarrow> string" where
  "prefix_String t p = (if prefix_IsValid p then addr_String t (pfxAddr p) @ ''/'' @ show_nat (nat (pfxBits p)) else ''invalid Prefix'')"

section \<open>Parsing what was printed\<close>

definition text6_ok :: "text6 \<Rightarrow> bool" where
  "text6_ok t \<longleftrightarrow> (\<forall>w z. netip_ParseAddr t (showIPv6 t (IPv6 w z)) = Some (IPv6 w z))"

lemma octets_value: "foldl (\<lambda>acc b. acc * 256 + b) 0 (octets w) = unat w"
proof -
  have n: "unat w < 4294967296" using unsigned_less [of w] by simp
  have d: "unat w div 16777216 = unat w div 65536 div 256" "unat w div 65536 = unat w div 256 div 256"
    by (simp_all add: div_mult2_eq [symmetric])
  have t: "unat w div 16777216 mod 256 = unat w div 65536 div 256" using n d(1) by simp
  have "foldl (\<lambda>acc b. acc * 256 + b) 0 (octets w) =
      ((unat w div 65536 div 256 * 256 + unat w div 65536 mod 256) * 256 + unat w div 256 mod 256) * 256 + unat w mod 256"
    using t by (simp add: octets_def Let_def)
  also have "\<dots> = (unat w div 256 div 256 * 256 + unat w div 256 mod 256) * 256 + unat w mod 256"
    unfolding d(2) div_mult_mod_eq ..
  finally show ?thesis by (simp only: div_mult_mod_eq)
qed

lemma from_octets_octets: "from_octets (octets w) = w"
  by (simp add: from_octets_def octets_value)

lemma octets_bound: "b \<in> set (octets w) \<Longrightarrow> b < 256"
  by (auto simp: octets_def Let_def)

lemma show_base_hd: "2 \<le> base \<Longrightarrow> base \<le> 16 \<Longrightarrow> 0 < n \<Longrightarrow> hd (show_base base n) \<noteq> CHR ''0''"
proof (induction n rule: less_induct)
  case (less n)
  show ?case
  proof (cases "n < base")
    case True
    then have "digit_char n \<noteq> digit_char 0"
      using less.prems digit_val_char [of n] digit_val_char [of 0] by (metis less_le_trans neq0_conv option.inject zero_less_numeral)
    moreover have "digit_char 0 = CHR ''0''" by (simp add: digit_char_def char_of_def bit_0)
    ultimately show ?thesis using True less.prems by (simp add: show_base.simps [of base n])
  next
    case False
    then have "n div base < n" "0 < n div base" using less.prems by (simp_all add: div_greater_zero_iff)
    then show ?thesis using False less by (simp add: show_base.simps [of base n])
  qed
qed

lemma parse_octet_show: "n < 256 \<Longrightarrow> parse_octet (show_nat n) = Some n"
proof (cases "n = 0")
  case True
  have "show_nat 0 = [digit_char 0]" by (simp add: show_nat_def show_base.simps)
  then show ?thesis using True by (simp add: parse_octet_def digit_char_is_digit)
next
  case False
  assume "n < 256"
  moreover have "hd (show_nat n) \<noteq> CHR ''0''" using False show_base_hd [of 10 n] by (simp add: show_nat_def)
  moreover have "list_all is_digit (show_nat n)" by (simp add: list_all_iff show_nat_digits)
  ultimately show ?thesis using digits_value_show [of 10 n] by (simp add: parse_octet_def show_nat_def)
qed

lemma split_show4: "strings_Split (CHR ''.'') (show4 w) = map show_nat (octets w)"
proof -
  have "CHR ''.'' \<notin> set (show_nat n)" for n by (rule show_nat_no) (simp add: is_digit_def byte_of_def)
  then show ?thesis unfolding show4_def by (intro split_join) (auto simp: octets_def Let_def)
qed

lemma parseIPv4_show4: "parseIPv4 (show4 w) = Some (IPv4 w)"
proof -
  have "map parse_octet (map show_nat (octets w)) = map Some (octets w)"
    using octets_bound by (auto simp: parse_octet_show)
  moreover have "length (octets w) = 4" by (simp add: octets_def Let_def)
  ultimately show ?thesis unfolding parseIPv4_def split_show4 by (simp only: Let_def) (auto simp: comp_def from_octets_octets)
qed

lemma find_append_first: "(\<And>x. x \<in> set a \<Longrightarrow> \<not> P x) \<Longrightarrow> P c \<Longrightarrow> find P (a @ c # b) = Some c"
  by (induction a) auto

lemma ParseAddr_String:
  assumes "text6_ok t" "a \<noteq> ZeroAddr"
  shows "netip_ParseAddr t (addr_String t a) = Some a"
proof (cases a)
  case (IPv4 w)
  obtain o1 o2 o3 o4 where o: "octets w = [o1, o2, o3, o4]" by (simp add: octets_def Let_def)
  have "show4 w = show_nat o1 @ CHR ''.'' # strings_Join ''.'' (map show_nat [o2, o3, o4])" by (simp add: show4_def o)
  moreover have "\<not> (x = CHR ''.'' \<or> x = CHR '':'' \<or> x = CHR ''%'')" if "x \<in> set (show_nat o1)" for x
    using show_nat_digits [OF that] by (auto simp: is_digit_def byte_of_def)
  ultimately have "find (\<lambda>ch. ch = CHR ''.'' \<or> ch = CHR '':'' \<or> ch = CHR ''%'') (show4 w) = Some (CHR ''.'')"
    by (simp only:) (rule find_append_first, auto)
  then show ?thesis using IPv4 by (simp add: addr_String_def netip_ParseAddr_def parseIPv4_show4)
qed (use assms in \<open>auto simp: text6_ok_def addr_String_def\<close>)

end
