(* ===== verification/Darwin_Net.thy ===== *)
theory Darwin_Net
  imports Tunnel_Controller Sample_Plans Netip_Text
begin

unbundle bit_operations_syntax

text \<open>
  The macOS network adapters of \<^verbatim>\<open>internal/darwinnet\<close>: routes, DNS, conflicts, addresses, the network
  service of an interface and ping, as the commands they run and what they make of the output.
  The runner, the interface to the host's tools, is an argument; its errors are their texts.
\<close>

section \<open>Running commands\<close>

record 'w runner =
  rnRun :: "ctx \<Rightarrow> string \<Rightarrow> string list \<Rightarrow> 'w \<Rightarrow> (string + string) \<times> 'w"

definition defaultRoutePath :: string where "defaultRoutePath = ''/sbin/route''"
definition defaultNetworkSetupPath :: string where "defaultNetworkSetupPath = ''/usr/sbin/networksetup''"
definition defaultIfconfigPath :: string where "defaultIfconfigPath = ''/sbin/ifconfig''"
definition defaultPingPath :: string where "defaultPingPath = ''/sbin/ping''"

text \<open>The path of the tool when none is configured.\<close>

definition orDefault :: "string \<Rightarrow> string \<Rightarrow> string" where
  "orDefault d p = (if p = [] then d else p)"

record 'w darwinRoutes =
  drRunner :: "'w runner option"
  drRoutePath :: string

definition route_run :: "'w darwinRoutes \<Rightarrow> ctx \<Rightarrow> string list \<Rightarrow> 'w \<Rightarrow> (string + string) \<times> 'w" where
  "route_run m ctx args w = (case drRunner m of
     None \<Rightarrow> (Inl ''Darwin route runner is missing'', w)
   | Some rn \<Rightarrow> rnRun rn ctx (orDefault defaultRoutePath (drRoutePath m)) (''-n'' # args) w)"

section \<open>Reading what route prints\<close>

definition parseRouteFields :: "string \<Rightarrow> string \<Rightarrow> string" where
  "parseRouteFields output = fold (\<lambda>line flds. case strings_Cut (CHR '':'') line of
       None \<Rightarrow> flds
     | Some (key, value) \<Rightarrow> flds(strings_TrimSpace key := strings_TrimSpace value))
     (strings_Split (CHR 0x0A) output) (\<lambda>_. [])"

definition onesCount32 :: "32 word \<Rightarrow> nat" where
  "onesCount32 m = length (filter (bit m) [0..<32])"

definition maskBits :: "32 word \<Rightarrow> gerror + nat" where
  "maskBits m = (let ones = onesCount32 m; canonical = (if ones > 0 then push_bit (32 - ones) (NOT 0) else 0) in
     if m \<noteq> canonical then Inl (Err ''non-contiguous IPv4 route mask'') else Inr ones)"

text \<open>The loop over the bits of an IPv6 mask, most significant first.\<close>

fun mask6_loop :: "bool \<Rightarrow> nat \<Rightarrow> bool list \<Rightarrow> gerror + nat" where
  "mask6_loop zeroSeen ones [] = Inr ones"
| "mask6_loop zeroSeen ones (b # bs) =
     (if zeroSeen \<and> b then Inl (Err ''non-contiguous route mask'')
      else if b then mask6_loop zeroSeen (Suc ones) bs
      else mask6_loop True ones bs)"

definition bits_msb :: "128 word \<Rightarrow> bool list" where
  "bits_msb w = map (bit w) (rev [0..<128])"

definition parseMaskBits :: "text6 \<Rightarrow> string \<Rightarrow> int \<Rightarrow> gerror + nat" where
  "parseMaskBits t v bl =
     (if v = ''default'' then Inr 0
      else if bl = 32 \<and> strings_HasPrefix v ''0x'' then
        (case ParseUint 16 32 (drop 2 v) of None \<Rightarrow> Inl (Err ''parse uint'') | Some n \<Rightarrow> maskBits (word_of_nat n))
      else (case netip_ParseAddr t v of
        None \<Rightarrow> Inl (Err ''invalid route mask'')
      | Some a \<Rightarrow> (if addr_BitLen a \<noteq> bl then Inl (Err ''invalid route mask'')
          else (case a of IPv4 w \<Rightarrow> maskBits w | IPv6 w z \<Rightarrow> mask6_loop False 0 (bits_msb w)
            | ZeroAddr \<Rightarrow> Inl (Err ''invalid route mask'')))))"

definition parseBSDAddress :: "text6 \<Rightarrow> string \<Rightarrow> addr option" where
  "parseBSDAddress t v = (let parts = strings_Split (CHR ''.'') v in
     if length parts > 4 then None
     else netip_ParseAddr t (strings_Join ''.'' (parts @ replicate (4 - length parts) ''0'')))"

definition parseRoutePrefix :: "text6 \<Rightarrow> (string \<Rightarrow> string) \<Rightarrow> int \<Rightarrow> gerror + prefix" where
  "parseRoutePrefix t flds bl =
     (if flds ''destination'' = ''default'' \<and> bl = 32 then Inr defaultPrefix4
      else (case (if bl = 128 then netip_ParseAddr t (flds ''destination'') else parseBSDAddress t (flds ''destination'')) of
        None \<Rightarrow> Inl (Err ''invalid route destination'')
      | Some a \<Rightarrow>
         (if strings_Contains (flds ''flags'') ''HOST'' then Inr (PrefixFrom a bl)
          else (case strconv_Atoi (flds ''prefixlen'') of
            Some n \<Rightarrow> (if 0 \<le> n \<and> n \<le> bl then Inr (prefix_Masked (PrefixFrom a n)) else
              (if flds ''mask'' = [] then Inl (Err ''non-host route is missing its mask'')
               else (case parseMaskBits t (flds ''mask'') bl of Inl e \<Rightarrow> Inl e | Inr b \<Rightarrow> Inr (prefix_Masked (PrefixFrom a (int b))))))
          | None \<Rightarrow>
              (if flds ''mask'' = [] then Inl (Err ''non-host route is missing its mask'')
               else (case parseMaskBits t (flds ''mask'') bl of Inl e \<Rightarrow> Inl e | Inr b \<Rightarrow> Inr (prefix_Masked (PrefixFrom a (int b)))))))))"

definition routeMissing :: "string \<Rightarrow> bool" where
  "routeMissing message = (let lower = strings_ToLower message in
     strings_Contains lower ''not in table'' \<or> strings_Contains lower ''not found'' \<or> strings_Contains lower ''no such process'')"

section \<open>Routes\<close>

definition isHostPrefix :: "prefix \<Rightarrow> bool" where
  "isHostPrefix d = (pfxBits d = addr_BitLen (pfxAddr d))"

definition destinationArgument :: "text6 \<Rightarrow> prefix \<Rightarrow> string" where
  "destinationArgument t d = (if isHostPrefix d then addr_String t (pfxAddr d) else prefix_String t d)"

definition familyAndKind :: "prefix \<Rightarrow> string list" where
  "familyAndKind d = [if addr_Is6 (pfxAddr d) then ''-inet6'' else ''-inet'', if isHostPrefix d then ''-host'' else ''-net'']"

text \<open>The route the output describes, if it is the one for exactly this destination.\<close>

definition readExact :: "text6 \<Rightarrow> prefix \<Rightarrow> string \<Rightarrow> gerror + route option" where
  "readExact t d output = (let flds = parseRouteFields output in
     case parseRoutePrefix t flds (addr_BitLen (pfxAddr d)) of
       Inl e \<Rightarrow> Inl (WrapErr ''parse route'' e)
     | Inr p \<Rightarrow>
        (if p \<noteq> d then Inr None
         else (let r = \<lparr>rDestination = p, rGateway = (case netip_ParseAddr t (flds ''gateway'') of Some g \<Rightarrow> g | None \<Rightarrow> ZeroAddr),
                 rInterface = flds ''interface'', rReject = strings_Contains (flds ''flags'') ''REJECT''\<rparr> in
               case route_Validate r of Some e \<Rightarrow> Inl e | None \<Rightarrow> Inr (Some r))))"

definition inspectExact :: "text6 \<Rightarrow> 'w darwinRoutes \<Rightarrow> ctx \<Rightarrow> prefix \<Rightarrow> 'w \<Rightarrow> (gerror + route option) \<times> 'w" where
  "inspectExact t m ctx d w = (case route_run m ctx (''get'' # familyAndKind d @ [destinationArgument t d]) w of
     (Inl msg, w1) \<Rightarrow> (if routeMissing msg then Inr None else Inl (WrapErr ''inspect route'' (Err msg)), w1)
   | (Inr output, w1) \<Rightarrow> (readExact t d output, w1))"

definition LookupExact :: "text6 \<Rightarrow> 'w darwinRoutes \<Rightarrow> ctx \<Rightarrow> prefix \<Rightarrow> 'w \<Rightarrow> (gerror + route option) \<times> 'w" where
  "LookupExact t m ctx d w =
     (if \<not> prefix_IsValid d \<or> d \<noteq> prefix_Masked d then (Inl (Err ''invalid exact route lookup''), w) else inspectExact t m ctx d w)"

definition routeArguments :: "text6 \<Rightarrow> string \<Rightarrow> route \<Rightarrow> gerror + string list" where
  "routeArguments t op r =
     (if op \<noteq> ''add'' \<and> op \<noteq> ''delete'' then Inl (Err ''unsupported route operation'')
      else if addr_IsValid (rGateway r) then
        (if rInterface r = [] then Inl (Err ''gateway route is missing its expected interface'')
         else Inr (op # familyAndKind (rDestination r) @ [destinationArgument t (rDestination r), addr_String t (rGateway r)]))
      else if rInterface r = [] then Inl (Err ''direct route is missing its interface'')
      else Inr (op # familyAndKind (rDestination r) @ [destinationArgument t (rDestination r), ''-interface'', rInterface r] @
             (if rReject r then [''-reject''] else [])))"

definition route_Snapshot :: "text6 \<Rightarrow> 'w darwinRoutes \<Rightarrow> ctx \<Rightarrow> 'w \<Rightarrow> (gerror + routeSnapshot) \<times> 'w" where
  "route_Snapshot t m ctx w = (case route_run m ctx [''get'', ''-inet'', ''default''] w of
     (Inl msg, w1) \<Rightarrow> (Inl (WrapErr ''inspect IPv4 default route'' (Err msg)), w1)
   | (Inr output, w1) \<Rightarrow>
      (let flds = parseRouteFields output in
       (case netip_ParseAddr t (flds ''gateway'') of
          None \<Rightarrow> Inl (Err ''IPv4 default route has no numeric gateway'')
        | Some g \<Rightarrow>
           (if \<not> addr_Is4 g then Inl (Err ''IPv4 default route has no numeric gateway'')
            else (let r = \<lparr>rDestination = defaultPrefix4, rGateway = g, rInterface = flds ''interface'', rReject = False\<rparr> in
              case route_Validate r of Some e \<Rightarrow> Inl (WrapErr ''invalid IPv4 default route'' e) | None \<Rightarrow> Inr \<lparr>rsDefault = r\<rparr>)), w1)))"

text \<open>The comparison \<^verbatim>\<open>Add\<close> and \<^verbatim>\<open>Remove\<close> make between the planned and the present route.\<close>

definition ownedAsPlanned :: "route \<Rightarrow> route \<Rightarrow> bool" where
  "ownedAsPlanned r current = (rInterface current = rInterface r \<and> rReject current = rReject r \<and>
     (addr_IsValid (rGateway r) \<longrightarrow> rGateway current = rGateway r))"

definition route_Add :: "text6 \<Rightarrow> 'w darwinRoutes \<Rightarrow> ctx \<Rightarrow> route \<Rightarrow> 'w \<Rightarrow> gerror option \<times> 'w" where
  "route_Add t m ctx r w = (case route_Validate r of Some e \<Rightarrow> (Some e, w) | None \<Rightarrow>
     (case inspectExact t m ctx (rDestination r) w of
        (Inl e, w1) \<Rightarrow> (Some e, w1)
      | (Inr (Some owned), w1) \<Rightarrow> (Some (WrapErr ''already resolves'' (Sentinel ErrRouteConflict)), w1)
      | (Inr None, w1) \<Rightarrow> (case routeArguments t ''add'' r of Inl e \<Rightarrow> (Some e, w1) | Inr args \<Rightarrow>
         (case route_run m ctx args w1 of
            (Inl msg, w2) \<Rightarrow> (Some (WrapErr ''add route'' (Err msg)), w2)
          | (Inr output, w2) \<Rightarrow> (case inspectExact t m ctx (rDestination r) w2 of
              (Inl e, w3) \<Rightarrow> (Some (WrapErr ''verify added route'' e), w3)
            | (Inr None, w3) \<Rightarrow> (Some (WrapErr ''added route is not owned as planned'' (Sentinel ErrRouteConflict)), w3)
            | (Inr (Some current), w3) \<Rightarrow>
                (if ownedAsPlanned r current then None
                 else Some (WrapErr ''added route is not owned as planned'' (Sentinel ErrRouteConflict)), w3))))))"

definition route_Remove :: "text6 \<Rightarrow> 'w darwinRoutes \<Rightarrow> ctx \<Rightarrow> route \<Rightarrow> 'w \<Rightarrow> gerror option \<times> 'w" where
  "route_Remove t m ctx r w = (case route_Validate r of Some e \<Rightarrow> (Some e, w) | None \<Rightarrow>
     (case inspectExact t m ctx (rDestination r) w of
        (Inl e, w1) \<Rightarrow> (Some e, w1)
      | (Inr None, w1) \<Rightarrow> (None, w1)
      | (Inr (Some current), w1) \<Rightarrow>
          (if \<not> ownedAsPlanned r current then (Some (WrapErr ''refuse to remove changed route'' (Sentinel ErrRouteConflict)), w1)
           else (case routeArguments t ''delete'' r of Inl e \<Rightarrow> (Some e, w1) | Inr args \<Rightarrow>
             (case route_run m ctx args w1 of
                (Inl msg, w2) \<Rightarrow> (Some (WrapErr ''delete route'' (Err msg)), w2)
              | (Inr output, w2) \<Rightarrow> (None, w2))))))"

definition darwinRouteManager :: "text6 \<Rightarrow> 'w darwinRoutes \<Rightarrow> 'w routeManager" where
  "darwinRouteManager t m = \<lparr>rmSnapshot = route_Snapshot t m, rmAdd = route_Add t m, rmRemove = route_Remove t m\<rparr>"

section \<open>Conflicts, addresses, ping\<close>

definition splitDefaults :: "plan \<Rightarrow> prefix list" where
  "splitDefaults p = [PrefixFrom (ip4 0 0 0 0) 1, PrefixFrom (ip4 128 0 0 0) 1] @
     (if pRoutePolicy p = RoutePolicyFullIPv4 then [PrefixFrom (IPv6 0 []) 1, PrefixFrom (IPv6 (push_bit 127 1) []) 1] else [])"

fun checkSplits :: "text6 \<Rightarrow> 'w darwinRoutes \<Rightarrow> ctx \<Rightarrow> prefix list \<Rightarrow> 'w \<Rightarrow> gerror option \<times> 'w" where
  "checkSplits t m ctx [] w = (None, w)"
| "checkSplits t m ctx (p # ps) w = (case LookupExact t m ctx p w of
     (Inl e, w1) \<Rightarrow> (Some e, w1)
   | (Inr (Some r), w1) \<Rightarrow> (Some (Err ''split default already exists''), w1)
   | (Inr None, w1) \<Rightarrow> checkSplits t m ctx ps w1)"

definition conflict_Check :: "text6 \<Rightarrow> 'w darwinRoutes \<Rightarrow> ctx \<Rightarrow> plan \<Rightarrow> 'w \<Rightarrow> gerror option \<times> 'w" where
  "conflict_Check t m ctx p w = (case route_Snapshot t m ctx w of
     (Inl e, w1) \<Rightarrow> (Some e, w1)
   | (Inr s, w1) \<Rightarrow>
      (if strings_HasPrefix (rInterface (rsDefault s)) ''utun'' then (Some (Err ''default route is already owned by a utun interface''), w1)
       else if rGateway (rsDefault s) \<noteq> pPhysicalGateway p \<or> rInterface (rsDefault s) \<noteq> pPhysicalInterface p
       then (Some (Err ''physical default route changed before conflict check''), w1)
       else checkSplits t m ctx (splitDefaults p) w1))"

record 'w addressManager =
  amRunner :: "'w runner option"
  amIfconfigPath :: string
  amPeerAddress :: addr

definition address_Apply :: "text6 \<Rightarrow> 'w addressManager \<Rightarrow> ctx \<Rightarrow> interfaceAddress \<Rightarrow> 'w \<Rightarrow> gerror option \<times> 'w" where
  "address_Apply t m ctx a w = (case interfaceAddress_Validate a of Some e \<Rightarrow> (Some e, w) | None \<Rightarrow>
     (case amRunner m of
        None \<Rightarrow> (Some (Err ''Darwin address runner is missing''), w)
      | Some rn \<Rightarrow>
         (if \<not> addr_IsValid (amPeerAddress m) \<or> \<not> addr_Is4 (amPeerAddress m) \<or> \<not> addr_IsPrivate (amPeerAddress m)
          then (Some (Err ''Darwin peer address must be a private IPv4 address''), w)
          else (case rnRun rn ctx (orDefault defaultIfconfigPath (amIfconfigPath m))
                  [iaInterface a, ''inet'', addr_String t (pfxAddr (iaPrefix a)), addr_String t (amPeerAddress m), ''netmask'', ''255.255.255.255'', ''alias''] w of
            (Inl msg, w1) \<Rightarrow> (Some (WrapErr ''add owned point-to-point address'' (Err msg)), w1)
          | (Inr output, w1) \<Rightarrow> (None, w1)))))"

record 'w pinger =
  pgRunner :: "'w runner option"
  pgPingPath :: string

definition pinger_Ping :: "text6 \<Rightarrow> 'w pinger \<Rightarrow> ctx \<Rightarrow> addr \<Rightarrow> 'w \<Rightarrow> gerror option \<times> 'w" where
  "pinger_Ping t m ctx a w =
     (if \<not> addr_IsValid a \<or> \<not> addr_Is4 a \<or> \<not> addr_IsPrivate a then (Some (Err ''scoped ping target must be a private IPv4 address''), w)
      else (case pgRunner m of
        None \<Rightarrow> (Some (Err ''Darwin ping runner is missing''), w)
      | Some rn \<Rightarrow> (case rnRun rn ctx (orDefault defaultPingPath (pgPingPath m)) [''-n'', ''-c'', ''1'', ''-W'', ''1000'', addr_String t a] w of
          (Inl msg, w1) \<Rightarrow> (Some (WrapErr ''ping scoped peer'' (Err msg)), w1)
        | (Inr output, w1) \<Rightarrow> (None, w1))))"

end
