(* ===== verification/Darwin_DNS.thy ===== *)
theory Darwin_DNS
  imports Darwin_Net
begin

text \<open>
  The DNS adapter of \<^verbatim>\<open>internal/darwinnet/dns.go\<close> and the lookup of a network service in
  \<^verbatim>\<open>service.go\<close>. SHA-256, used for the revision of a snapshot, is an argument. \<open>networksetup_ok\<close> states what
  is relied on of the \<^verbatim>\<open>networksetup\<close> tool.
\<close>

section \<open>Reading and writing settings\<close>

record 'w darwinDNS =
  ddRunner :: "'w runner option"
  ddNetworkSetupPath :: string

definition dns_run :: "'w darwinDNS \<Rightarrow> ctx \<Rightarrow> string list \<Rightarrow> 'w \<Rightarrow> (string + string) \<times> 'w" where
  "dns_run m ctx args w = (case ddRunner m of
     None \<Rightarrow> (Inl ''Darwin DNS runner is missing'', w)
   | Some rn \<Rightarrow> rnRun rn ctx (orDefault defaultNetworkSetupPath (ddNetworkSetupPath m)) args w)"

definition settingLines :: "string \<Rightarrow> string list" where
  "settingLines output = (let trimmed = strings_TrimSpace output in
     if trimmed = [] \<or> strings_HasPrefix trimmed (''There aren'' @ [CHR 0x27] @ ''t any '') then []
     else map strings_TrimSpace (strings_Split (CHR 0x0A) trimmed))"

definition dns_addresses :: "text6 \<Rightarrow> addr list \<Rightarrow> string list" where
  "dns_addresses t vs = map (addr_String t) vs"

definition dns_set :: "'w darwinDNS \<Rightarrow> ctx \<Rightarrow> string \<Rightarrow> string \<Rightarrow> string list \<Rightarrow> 'w \<Rightarrow> gerror option \<times> 'w" where
  "dns_set m ctx op svc vs w = (case dns_run m ctx (op # svc # (if vs = [] then [''empty''] else vs)) w of
     (Inl msg, w1) \<Rightarrow> (Some (Err msg), w1) | (Inr output, w1) \<Rightarrow> (None, w1))"

fun parseServers :: "text6 \<Rightarrow> string list \<Rightarrow> addr list \<Rightarrow> gerror + addr list" where
  "parseServers t [] acc = Inr (rev acc)"
| "parseServers t (l # ls) acc = (case netip_ParseAddr t l of
     None \<Rightarrow> Inl (Err ''invalid DNS server'')
   | Some a \<Rightarrow> if addr_IsUnspecified a \<or> addr_IsMulticast a then Inl (Err ''invalid DNS server'') else parseServers t ls (a # acc))"

definition badDomain :: "string \<Rightarrow> bool" where
  "badDomain d = (length d > 253 \<or> CHR '' '' \<in> set d \<or> CHR 0x09 \<in> set d)"

definition snapshotService :: "text6 \<Rightarrow> 'w darwinDNS \<Rightarrow> ctx \<Rightarrow> string \<Rightarrow> 'w \<Rightarrow> (gerror + serviceDNS) \<times> 'w" where
  "snapshotService t m ctx svc w = (case dns_run m ctx [''-getdnsservers'', svc] w of
     (Inl msg, w1) \<Rightarrow> (Inl (WrapErr ''read DNS servers'' (Err msg)), w1)
   | (Inr so, w1) \<Rightarrow> (case parseServers t (settingLines so) [] of
       Inl e \<Rightarrow> (Inl e, w1)
     | Inr servers \<Rightarrow> (case dns_run m ctx [''-getsearchdomains'', svc] w1 of
         (Inl msg, w2) \<Rightarrow> (Inl (WrapErr ''read DNS search domains'' (Err msg)), w2)
       | (Inr dout, w2) \<Rightarrow>
           (let domains = settingLines dout in
            (if list_ex badDomain domains then Inl (Err ''invalid DNS search domain'')
             else Inr \<lparr>sdServiceID = svc, sdServers = servers, sdSearchDomains = domains\<rparr>, w2)))))"

definition snapshotForService :: "text6 \<Rightarrow> (string \<Rightarrow> 8 word list) \<Rightarrow> serviceDNS \<Rightarrow> dnsSnapshot" where
  "snapshotForService t sha256 s =
     \<lparr>dsRevision = hex_EncodeToString (sha256 (sdServiceID s @ [CHR 0x00] @ strings_Join [CHR 0x00] (dns_addresses t (sdServers s)) @
        [CHR 0x01] @ strings_Join [CHR 0x00] (sdSearchDomains s))), dsServices = [s]\<rparr>"

definition dns_Snapshot :: "text6 \<Rightarrow> (string \<Rightarrow> 8 word list) \<Rightarrow> 'w darwinDNS \<Rightarrow> ctx \<Rightarrow> dnsConfig \<Rightarrow> 'w \<Rightarrow> (gerror + dnsSnapshot) \<times> 'w" where
  "dns_Snapshot t sha256 m ctx cfg w = (case dnsConfig_Validate cfg of Some e \<Rightarrow> (Inl e, w) | None \<Rightarrow>
     (case snapshotService t m ctx (dcServiceID cfg) w of
        (Inl e, w1) \<Rightarrow> (Inl e, w1) | (Inr s, w1) \<Rightarrow> (Inr (snapshotForService t sha256 s), w1)))"

definition dns_Apply :: "text6 \<Rightarrow> 'w darwinDNS \<Rightarrow> ctx \<Rightarrow> dnsConfig \<Rightarrow> 'w \<Rightarrow> gerror option \<times> 'w" where
  "dns_Apply t m ctx cfg w = (case dnsConfig_Validate cfg of Some e \<Rightarrow> (Some e, w) | None \<Rightarrow>
     (case dns_set m ctx ''-setdnsservers'' (dcServiceID cfg) (dns_addresses t (dcServers cfg)) w of
        (Some e, w1) \<Rightarrow> (Some (WrapErr ''set DNS servers'' e), w1)
      | (None, w1) \<Rightarrow> (case dcSearchDomains cfg of
          None \<Rightarrow> (None, w1)
        | Some ds \<Rightarrow> (case dns_set m ctx ''-setsearchdomains'' (dcServiceID cfg) ds w1 of
            (Some e, w2) \<Rightarrow> (Some (WrapErr ''set DNS search domains'' e), w2) | (None, w2) \<Rightarrow> (None, w2)))))"

text \<open>The tail of \<^verbatim>\<open>RestoreIfOwned\<close>, once it is known which components to restore.\<close>

definition restoreComponents :: "text6 \<Rightarrow> 'w darwinDNS \<Rightarrow> ctx \<Rightarrow> string \<Rightarrow> serviceDNS \<Rightarrow> bool \<Rightarrow> bool \<Rightarrow> 'w \<Rightarrow> gerror option \<times> 'w" where
  "restoreComponents t m ctx svc original domains servers w =
     (case (if domains then dns_set m ctx ''-setsearchdomains'' svc (sdSearchDomains original) w else (None, w)) of
        (Some e, w1) \<Rightarrow> (Some (WrapErr ''restore DNS search domains'' e), w1)
      | (None, w1) \<Rightarrow> (case (if servers then dns_set m ctx ''-setdnsservers'' svc (dns_addresses t (sdServers original)) w1 else (None, w1)) of
          (Some e, w2) \<Rightarrow> (Some (WrapErr ''restore DNS servers'' e), w2) | (None, w2) \<Rightarrow> (None, w2)))"

definition dns_RestoreIfOwned :: "text6 \<Rightarrow> 'w darwinDNS \<Rightarrow> ctx \<Rightarrow> dnsSnapshot \<Rightarrow> dnsConfig \<Rightarrow> 'w \<Rightarrow> gerror option \<times> 'w" where
  "dns_RestoreIfOwned t m ctx before applied w = (case dnsConfig_Validate applied of Some e \<Rightarrow> (Some e, w) | None \<Rightarrow>
     (case dsServices before of
        [original] \<Rightarrow>
         (if sdServiceID original \<noteq> dcServiceID applied then (Some (Err ''DNS pre-image does not match the applied service''), w)
          else (case snapshotService t m ctx (dcServiceID applied) w of
            (Inl e, w1) \<Rightarrow> (Some e, w1)
          | (Inr current, w1) \<Rightarrow>
             (let serversOwned = (sdServers current = dcServers applied);
                  serversOriginal = (sdServers current = sdServers original);
                  domainsOwned = (case dcSearchDomains applied of None \<Rightarrow> True | Some ds \<Rightarrow> sdSearchDomains current = ds);
                  domainsOriginal = (case dcSearchDomains applied of None \<Rightarrow> True | Some ds \<Rightarrow> sdSearchDomains current = sdSearchDomains original) in
              if (\<not> serversOwned \<and> \<not> serversOriginal) \<or> (\<not> domainsOwned \<and> \<not> domainsOriginal) then (Some (Sentinel ErrDNSConflict), w1)
              else restoreComponents t m ctx (dcServiceID applied) original (domainsOwned \<and> \<not> domainsOriginal) (serversOwned \<and> \<not> serversOriginal) w1)))
      | _ \<Rightarrow> (Some (Err ''DNS pre-image does not match the applied service''), w)))"

definition darwinDNSManager :: "text6 \<Rightarrow> (string \<Rightarrow> 8 word list) \<Rightarrow> 'w darwinDNS \<Rightarrow> 'w dnsManager" where
  "darwinDNSManager t sha256 m = \<lparr>dnSnapshot = dns_Snapshot t sha256 m, dnApply = dns_Apply t m, dnRestoreIfOwned = dns_RestoreIfOwned t m\<rparr>"

section \<open>The network service of an interface\<close>

text \<open>The capture of \<^verbatim>\<open>serviceDevicePattern\<close>: the last comma-separated part names the device.\<close>

definition serviceDevice :: "string \<Rightarrow> string option" where
  "serviceDevice line =
     (if strings_HasPrefix line ''(Hardware Port: '' \<and> last line = CHR '')'' then
        (let body = butlast (drop 16 line) in
         map_option (\<lambda>i. drop (i + 10) body)
           (find (\<lambda>i. strings_HasPrefix (drop i body) '', Device: '' \<and> interfacePattern (drop (i + 10) body)) [1..<length body]))
      else None)"

definition serviceOfLine :: "string \<Rightarrow> gerror + string" where
  "serviceOfLine line = (case strings_Index line '') '' of
     None \<Rightarrow> Inl (Err ''malformed network service order'')
   | Some i \<Rightarrow>
      (let service = strings_TrimSpace (drop (i + 2) line) in
       if strings_HasPrefix line ''(*'' \<or> strings_HasPrefix service ''*'' then Inl (Err ''network service is disabled'')
       else if service = [] \<or> length service > 256 \<or> CHR 0x0D \<in> set service \<or> CHR 0x0A \<in> set service \<or> CHR 0x00 \<in> set service
       then Inl (Err ''invalid network service name'')
       else Inr service))"

fun scanServices :: "string \<Rightarrow> string list \<Rightarrow> gerror + string" where
  "scanServices ifc (l1 # l2 # ls) =
     (if serviceDevice (strings_TrimSpace l2) = Some ifc then serviceOfLine (strings_TrimSpace l1) else scanServices ifc (l2 # ls))"
| "scanServices ifc _ = Inl (Err ''no enabled network service owns interface'')"

definition NetworkService :: "ctx \<Rightarrow> 'w runner option \<Rightarrow> string \<Rightarrow> 'w \<Rightarrow> (gerror + string) \<times> 'w" where
  "NetworkService ctx rno ifc w = (case rno of
     None \<Rightarrow> (Inl (Err ''Darwin network service runner is missing''), w)
   | Some rn \<Rightarrow>
      (if \<not> interfacePattern ifc then (Inl (Err ''physical interface is invalid''), w)
       else (case rnRun rn ctx defaultNetworkSetupPath [''-listnetworkserviceorder''] w of
         (Inl msg, w1) \<Rightarrow> (Inl (WrapErr ''list network service order'' (Err msg)), w1)
       | (Inr output, w1) \<Rightarrow> (scanServices ifc (strings_Split (CHR 0x0A) (strings_TrimSpace output)), w1))))"

end
