(* ===== verification/Darwin_Properties.thy ===== *)
theory Darwin_Properties
  imports Darwin_DNS
begin

unbundle bit_operations_syntax

text \<open>
  The properties of the macOS adapters. What is relied on of \<^verbatim>\<open>route(8)\<close> and \<^verbatim>\<open>networksetup(8)\<close> is stated as
  \<open>route_tool_ok\<close> and \<open>networksetup_ok\<close>: the table or the settings behind the tool, what the commands do to
  them and what the tool prints, the text of a route as \<open>routeText\<close>.
\<close>

section \<open>Masks\<close>

lemma onesCount_run: "k \<le> 32 \<Longrightarrow> onesCount32 (push_bit k (- 1)) = 32 - k"
proof -
  assume k: "k \<le> 32"
  have "filter (bit (push_bit k (- 1 :: 32 word))) [0..<32] = filter (\<lambda>i. k \<le> i) [0..<32]"
    by (rule filter_cong) (auto simp: bit_simps)
  also have "\<dots> = filter (\<lambda>i. k \<le> i) ([0..<k] @ [k..<32])" using k upt_add_eq_append [of 0 k "32 - k"] by simp
  also have "\<dots> = [k..<32]" by (simp add: filter_empty_conv filter_id_conv)
  finally show ?thesis by (simp add: onesCount32_def)
qed

lemma onesCount_le: "onesCount32 m \<le> 32"
  unfolding onesCount32_def by (rule order_trans [OF length_filter_le]) simp

lemma maskBits_iff: "maskBits m = Inr n \<longleftrightarrow> n \<le> 32 \<and> m = push_bit (32 - n) (- 1)"
proof
  assume "maskBits m = Inr n"
  then have "n = onesCount32 m" "m = (if n > 0 then push_bit (32 - n) (NOT 0) else 0)"
    by (auto simp: maskBits_def Let_def split: if_splits)
  then show "n \<le> 32 \<and> m = push_bit (32 - n) (- 1)"
    using onesCount_le [of m] by (auto intro: bit_word_eqI simp: bit_simps)
next
  assume "n \<le> 32 \<and> m = push_bit (32 - n) (- 1)"
  moreover have "push_bit 32 (- 1 :: 32 word) = 0" by (rule bit_word_eqI) (simp add: bit_simps)
  ultimately show "maskBits m = Inr n" using onesCount_run [of "32 - n"] by (auto simp: maskBits_def Let_def)
qed

lemma mask6_loop_zeros: "mask6_loop True ones bs = Inr n \<longleftrightarrow> n = ones \<and> bs = replicate (length bs) False"
  by (induction bs) auto

lemma mask6_loop_iff: "mask6_loop False ones bs = Inr n \<longleftrightarrow> ones \<le> n \<and> n - ones \<le> length bs \<and> bs = replicate (n - ones) True @ replicate (length bs - (n - ones)) False"
proof (induction bs arbitrary: ones)
  case (Cons b bs)
  show ?case
  proof (cases b)
    case True
    show ?thesis
    proof (cases "Suc ones \<le> n")
      case le: True
      then obtain k where k: "n - ones = Suc k" "n - Suc ones = k" by (metis Suc_diff_Suc Suc_le_eq)
      show ?thesis using True Cons [of "Suc ones"] le k by auto
    next
      case False
      then show ?thesis using True Cons [of "Suc ones"] by (auto simp: not_le less_Suc_eq_le)
    qed
  next
    case False
    show ?thesis
    proof (cases "n - ones")
      case 0
      then show ?thesis using False by (auto simp: mask6_loop_zeros)
    next
      case (Suc k)
      then show ?thesis using False by (auto simp: mask6_loop_zeros)
    qed
  qed
qed auto

text \<open>a netmask is accepted exactly when it is contiguous, and then the number of its leading ones
  is returned: for IPv4 the mask is the all-ones word shifted left by what is missing to 32 (also for /0 and
  /32), for IPv6 the bits are ones followed by zeros.\<close>

theorem contiguous_masks:
  "(maskBits m = Inr n \<longleftrightarrow> n \<le> 32 \<and> m = push_bit (32 - n) (- 1)) \<and>
   (mask6_loop False 0 (bits_msb w) = Inr k \<longleftrightarrow> k \<le> 128 \<and> bits_msb w = replicate k True @ replicate (128 - k) False)"
  using mask6_loop_iff [of 0 "bits_msb w" k] by (simp add: maskBits_iff bits_msb_def)

section \<open>The text of a route\<close>

text \<open>What \<^verbatim>\<open>route -n get\<close> prints for an IPv4 route.\<close>

definition routeText :: "text6 \<Rightarrow> route \<Rightarrow> string" where
  "routeText t r = (let d = pfxAddr (rDestination r); host = isHostPrefix (rDestination r) in
     strings_Join [CHR 0x0A] (
       [''   route to: '' @ addr_String t d, ''destination: '' @ addr_String t d] @
       (if host then [] else [''       mask: '' @ addr_String t (IPv4 (push_bit (32 - nat (pfxBits (rDestination r))) (- 1)))]) @
       (if addr_IsValid (rGateway r) then [''    gateway: '' @ addr_String t (rGateway r)] else []) @
       [''  interface: '' @ rInterface r, ''      flags: <UP'' @ (if host then '',HOST'' else []) @ '',DONE,STATIC>'',
        '' recvpipe  sendpipe  ssthresh'']))"

text \<open>Printable words: what follows a colon is kept by the parser.\<close>

definition word_ok :: "string \<Rightarrow> bool" where
  "word_ok v \<longleftrightarrow> v \<noteq> [] \<and> list_all (\<lambda>ch. \<not> is_space ch) v"

lemma trim_word: "word_ok v \<Longrightarrow> strings_TrimSpace (CHR '' '' # v) = v"
proof -
  assume v: "word_ok v"
  then have h: "\<not> is_space (hd v)" "\<not> is_space (last v)" "v \<noteq> []" by (auto simp: word_ok_def list_all_iff)
  have "strings_TrimSpace (CHR '' '' # v) = strings_TrimSpace v" by (simp add: strings_TrimSpace_def is_space_def byte_of_def)
  then show ?thesis using trim_id [OF h(3,1,2)] by simp
qed

lemma word_no_newline: "word_ok v \<Longrightarrow> CHR 0x0A \<notin> set v"
  by (auto simp: word_ok_def list_all_iff is_space_def byte_of_def)

lemma digit_not_space: "is_digit ch \<Longrightarrow> \<not> is_space ch"
  by (auto simp: is_digit_def is_space_def)

lemma show4_word: "word_ok (show4 w)"
proof -
  obtain o1 o2 o3 o4 where o: "octets w = [o1, o2, o3, o4]" by (simp add: octets_def Let_def)
  have "\<not> is_space (CHR ''.'')" by (simp add: is_space_def byte_of_def)
  then show ?thesis by (auto simp: show4_def o word_ok_def list_all_iff dest: show_nat_digits digit_not_space)
qed

lemma interface_word: "interfacePattern i \<Longrightarrow> word_ok i"
  by (cases i) (auto simp: interfacePattern_def word_ok_def list_all_iff is_alpha_def is_alnum_def is_digit_def is_space_def)

text \<open>One line of the output sets one field.\<close>

definition setField :: "string \<Rightarrow> (string \<Rightarrow> string) \<Rightarrow> string \<Rightarrow> string" where
  "setField line flds = (case strings_Cut (CHR '':'') line of
     None \<Rightarrow> flds | Some (key, v) \<Rightarrow> flds(strings_TrimSpace key := strings_TrimSpace v))"

lemma parseRouteFields_lines:
  "list_all (\<lambda>l. CHR 0x0A \<notin> set l) ls \<Longrightarrow> ls \<noteq> [] \<Longrightarrow> parseRouteFields (strings_Join [CHR 0x0A] ls) = fold setField ls (\<lambda>_. [])"
  unfolding parseRouteFields_def setField_def [abs_def] by (simp add: split_join)

lemma setField_words:
  assumes "word_ok v"
  shows "setField (''   route to: '' @ v) f = f(''route to'' := v)" "setField (''destination: '' @ v) f = f(''destination'' := v)"
    "setField (''       mask: '' @ v) f = f(''mask'' := v)" "setField (''    gateway: '' @ v) f = f(''gateway'' := v)"
    "setField (''  interface: '' @ v) f = f(''interface'' := v)" "setField (''      flags: '' @ v) f = f(''flags'' := v)"
  using trim_word [OF assms] by (simp_all add: setField_def) (simp_all add: strings_TrimSpace_def is_space_def byte_of_def)

lemma setField_none: "setField '' recvpipe  sendpipe  ssthresh'' f = f"
  by (simp add: setField_def)

definition routeFlags :: "bool \<Rightarrow> string" where
  "routeFlags host = ''<UP'' @ (if host then '',HOST'' else []) @ '',DONE,STATIC>''"

lemma routeFlags_word: "word_ok (routeFlags host)"
  by (simp add: routeFlags_def word_ok_def is_space_def byte_of_def)

lemma routeFlags_contains: "strings_Contains (routeFlags host) ''HOST'' = host" "strings_Contains (routeFlags host) ''REJECT'' = False"
  by (simp_all add: routeFlags_def strings_Contains_def strings_HasPrefix_def)

lemma flags_line: "''      flags: <UP'' @ (if host then '',HOST'' else []) @ '',DONE,STATIC>'' = ''      flags: '' @ routeFlags host"
  by (simp add: routeFlags_def)

lemma routeText_fields:
  assumes d: "pfxAddr (rDestination r) = IPv4 w" and g: "rGateway r = ZeroAddr \<or> rGateway r = IPv4 v" and i: "word_ok (rInterface r)"
  shows "parseRouteFields (routeText t r) = ((\<lambda>_. [])(''route to'' := show4 w, ''destination'' := show4 w,
     ''mask'' := (if isHostPrefix (rDestination r) then [] else show4 (push_bit (32 - nat (pfxBits (rDestination r))) (- 1))),
     ''gateway'' := (if rGateway r = ZeroAddr then [] else show4 v), ''interface'' := rInterface r, ''flags'' := routeFlags (isHostPrefix (rDestination r))))"
proof -
  note nl = word_no_newline [OF show4_word] word_no_newline [OF i] word_no_newline [OF routeFlags_word]
  note sf = setField_words [OF show4_word] setField_words [OF i] setField_words [OF routeFlags_word] setField_none
  have s4: "addr_String t (IPv4 x) = show4 x" for x by (simp add: addr_String_def)
  show ?thesis
    unfolding routeText_def Let_def flags_line
    by (subst parseRouteFields_lines) (use d g nl in \<open>auto simp: s4 sf simp del: append.simps\<close>)
qed

lemma parseBSD_show4: "text6_ok t \<Longrightarrow> parseBSDAddress t (show4 w) = Some (IPv4 w)"
proof -
  assume t: "text6_ok t"
  have "length (octets w) = 4" by (simp add: octets_def Let_def)
  then show ?thesis using ParseAddr_String [OF t, of "IPv4 w"]
    by (simp add: parseBSDAddress_def split_show4 show4_def [symmetric] addr_String_def Let_def)
qed

lemma show4_not: "show4 w \<noteq> ''default''" "\<not> strings_HasPrefix (show4 w) ''0x''" "show4 w \<noteq> []"
proof -
  obtain o1 o2 o3 o4 where o: "octets w = [o1, o2, o3, o4]" by (simp add: octets_def Let_def)
  have s: "show4 w = show_nat o1 @ CHR ''.'' # strings_Join ''.'' (map show_nat [o2, o3, o4])" by (simp add: show4_def o)
  have h: "is_digit (hd (show4 w))" using show_nat_digits [OF hd_in_set [OF show_nat_nonempty]] s by simp
  have "\<not> is_digit (hd ''default'')" by (simp add: is_digit_def byte_of_def)
  then show "show4 w \<noteq> ''default''" using h by metis
  show "show4 w \<noteq> []" using s by simp
  have "ch = CHR ''.'' \<or> is_digit ch" if "ch \<in> set (show4 w)" for ch using that by (auto simp: show4_def o dest: show_nat_digits)
  then have "CHR ''x'' \<notin> set (show4 w)" by (force simp: is_digit_def byte_of_def)
  then show "\<not> strings_HasPrefix (show4 w) ''0x''" unfolding strings_HasPrefix_def
    by (metis in_set_takeD list.set_intros(1) list.set_intros(2))
qed

lemma parseMask_show4:
  "text6_ok t \<Longrightarrow> n \<le> 32 \<Longrightarrow> parseMaskBits t (show4 (push_bit (32 - n) (- 1))) 32 = Inr n"
  using ParseAddr_String [of t "IPv4 (push_bit (32 - n) (- 1))"] maskBits_iff [of "push_bit (32 - n) (- 1)" n]
  by (simp add: parseMaskBits_def show4_not addr_String_def)

text \<open>An IPv4 route as the transaction adds them: valid, on an interface, not the default route.\<close>

definition plainRoute4 :: "route \<Rightarrow> bool" where
  "plainRoute4 r \<longleftrightarrow> route_Validate r = None \<and> addr_Is4 (pfxAddr (rDestination r)) \<and> pfxBits (rDestination r) \<noteq> 0 \<and> rInterface r \<noteq> []"

lemma plainRoute4_parts:
  assumes "plainRoute4 r"
  obtains w b where "rDestination r = \<lparr>pfxAddr = IPv4 w, pfxBits = int b\<rparr>" "0 < b" "b \<le> 32" "prefix_Masked (rDestination r) = rDestination r"
    "rGateway r = ZeroAddr \<or> (\<exists>v. rGateway r = IPv4 v)" "word_ok (rInterface r)" "rReject r = False"
proof -
  from assms have v: "prefix_IsValid (rDestination r)" "rDestination r = prefix_Masked (rDestination r)"
    "\<not> (addr_IsValid (rGateway r) \<and> addr_BitLen (rGateway r) \<noteq> addr_BitLen (pfxAddr (rDestination r)))" "interfacePattern (rInterface r)"
    "\<not> (rReject r \<and> \<not> addr_Is6 (pfxAddr (rDestination r)))" "addr_Is4 (pfxAddr (rDestination r))" "pfxBits (rDestination r) \<noteq> 0"
    by (auto simp: plainRoute4_def route_Validate_def)
  then obtain w where w: "pfxAddr (rDestination r) = IPv4 w" by (auto simp: addr_Is4_iff)
  have b: "0 \<le> pfxBits (rDestination r)" using v(1) by (simp add: prefix_IsValid_def)
  have "pfxBits (rDestination r) \<le> 32"
  proof (rule ccontr)
    assume "\<not> ?thesis"
    then have "prefix_Masked (rDestination r) = zeroPrefix" using w by (simp add: prefix_Masked_def)
    then show False using v(2) w by (simp add: zeroPrefix_def)
  qed
  then have "nat (pfxBits (rDestination r)) \<le> 32" "0 < nat (pfxBits (rDestination r))" using v(7) b by auto
  moreover have "rDestination r = \<lparr>pfxAddr = IPv4 w, pfxBits = int (nat (pfxBits (rDestination r)))\<rparr>" using w b by (cases "rDestination r") simp
  moreover have "rGateway r = ZeroAddr \<or> (\<exists>v. rGateway r = IPv4 v)" using v(3) w by (cases "rGateway r") auto
  moreover have "rReject r = False" using v(5) w by simp
  ultimately show ?thesis using that [of w "nat (pfxBits (rDestination r))"] v(2) interface_word [OF v(4)] by auto
qed

lemma readExact_routeText:
  assumes t: "text6_ok t" and r: "plainRoute4 r" and d: "addr_Is4 (pfxAddr d)"
  shows "readExact t d (routeText t r) = Inr (if d = rDestination r then Some r else None)"
proof -
  from r obtain w b where dst: "rDestination r = \<lparr>pfxAddr = IPv4 w, pfxBits = int b\<rparr>" and b: "0 < b" "b \<le> 32"
    and m: "prefix_Masked (rDestination r) = rDestination r" and g: "rGateway r = ZeroAddr \<or> (\<exists>v. rGateway r = IPv4 v)"
    and i: "word_ok (rInterface r)" and rj: "rReject r = False" by (rule plainRoute4_parts)
  obtain v where g: "rGateway r = ZeroAddr \<or> rGateway r = IPv4 v" using g by blast
  have bl: "addr_BitLen (pfxAddr d) = 32" using d by (auto simp: addr_Is4_iff)
  let ?f = "parseRouteFields (routeText t r)"
  note f = routeText_fields [OF _ g i, of w t, simplified dst, simplified]
  have pre: "parseRoutePrefix t ?f 32 = Inr (rDestination r)"
    using b m parseMask_show4 [OF t b(2)] dst
    by (auto simp: f parseRoutePrefix_def show4_not parseBSD_show4 [OF t] isHostPrefix_def routeFlags_contains strconv_Atoi_def ParseInt_def PrefixFrom_def Let_def)
  have gw: "(case netip_ParseAddr t (?f ''gateway'') of Some g \<Rightarrow> g | None \<Rightarrow> ZeroAddr) = rGateway r"
    using g ParseAddr_String [OF t, of "IPv4 v"] by (auto simp: f addr_String_def netip_ParseAddr_def)
  have "?f ''interface'' = rInterface r" "strings_Contains (?f ''flags'') ''REJECT'' = rReject r" using rj by (simp_all add: f routeFlags_contains)
  then have eq: "\<lparr>rDestination = rDestination r, rGateway = rGateway r, rInterface = ?f ''interface'', rReject = strings_Contains (?f ''flags'') ''REJECT''\<rparr> = r"
    by simp
  have "route_Validate r = None" using r by (simp add: plainRoute4_def)
  then show ?thesis unfolding readExact_def Let_def bl pre by (auto simp: gw eq)
qed

section \<open>Only planned routes are added and removed\<close>

text \<open>
  What is relied on of \<^verbatim>\<open>route(8)\<close>: behind a world stands a table of IPv4 routes. \<^verbatim>\<open>get\<close> changes nothing and prints
  the table's route for the destination when there is one, otherwise another route or a message that
  there is none; \<^verbatim>\<open>add\<close> and \<^verbatim>\<open>delete\<close> change the one entry or fail without effect.
\<close>

definition getArguments :: "text6 \<Rightarrow> prefix \<Rightarrow> string list" where
  "getArguments t d = ''get'' # familyAndKind d @ [destinationArgument t d]"

definition get_ok :: "text6 \<Rightarrow> 'w darwinRoutes \<Rightarrow> ('w \<Rightarrow> prefix \<Rightarrow> route option) \<Rightarrow> prefix \<Rightarrow> bool" where
  "get_ok t m tab d \<longleftrightarrow> (\<forall>ctx w. (case route_run m ctx (getArguments t d) w of
        (Inr out, w1) \<Rightarrow> tab w1 = tab w \<and> (\<exists>r. plainRoute4 r \<and> out = routeText t r \<and> (tab w d = Some r \<or> tab w d = None \<and> rDestination r \<noteq> d))
      | (Inl msg, w1) \<Rightarrow> tab w1 = tab w \<and> (routeMissing msg \<longrightarrow> tab w d = None)))"

definition change_ok :: "text6 \<Rightarrow> 'w darwinRoutes \<Rightarrow> ('w \<Rightarrow> prefix \<Rightarrow> route option) \<Rightarrow> route \<Rightarrow> string \<Rightarrow> route option \<Rightarrow> bool" where
  "change_ok t m tab r op new \<longleftrightarrow> (\<forall>ctx w args. routeArguments t op r = Inr args \<longrightarrow> (case route_run m ctx args w of
        (Inr out, w1) \<Rightarrow> tab w1 = (tab w)(rDestination r := new) | (Inl msg, w1) \<Rightarrow> tab w1 = tab w))"

definition route_tool_ok :: "text6 \<Rightarrow> 'w darwinRoutes \<Rightarrow> ('w \<Rightarrow> prefix \<Rightarrow> route option) \<Rightarrow> route \<Rightarrow> bool" where
  "route_tool_ok t m tab r \<longleftrightarrow> (\<forall>w d r. tab w d = Some r \<longrightarrow> rDestination r = d) \<and> get_ok t m tab (rDestination r) \<and>
     change_ok t m tab r ''add'' (Some r) \<and> change_ok t m tab r ''delete'' None"

lemma change_okD:
  assumes "change_ok t m tab r op new" "routeArguments t op r = Inr args" "route_run m ctx args w = (x, w1)"
  shows "tab w1 = (case x of Inr out \<Rightarrow> (tab w)(rDestination r := new) | Inl msg \<Rightarrow> tab w)"
  using assms(1) [unfolded change_ok_def, rule_format, where ctx = ctx and w = w, OF assms(2)] assms(3) by (auto split: sum.splits)

lemma inspect_tab:
  assumes t: "text6_ok t" and ok: "route_tool_ok t m tab r0" and d0: "rDestination r0 = d" and d: "addr_Is4 (pfxAddr d)" and i: "inspectExact t m ctx d w = (x, w1)"
  shows "tab w1 = tab w" "x = Inr ro \<Longrightarrow> ro = tab w d"
proof -
  obtain y w2 where y: "route_run m ctx (getArguments t d) w = (y, w2)" by (metis prod.exhaust)
  have g: "(case (y, w2) of (Inr out, w1) \<Rightarrow> tab w1 = tab w \<and> (\<exists>r. plainRoute4 r \<and> out = routeText t r \<and> (tab w d = Some r \<or> tab w d = None \<and> rDestination r \<noteq> d))
      | (Inl msg, w1) \<Rightarrow> tab w1 = tab w \<and> (routeMissing msg \<longrightarrow> tab w d = None))"
    using ok [unfolded route_tool_ok_def, THEN conjunct2, THEN conjunct1, unfolded get_ok_def, rule_format, where ctx = ctx and w = w] y unfolding d0 by simp
  have dst: "\<And>r. tab w d = Some r \<Longrightarrow> rDestination r = d" using ok by (simp add: route_tool_ok_def)
  have "tab w1 = tab w \<and> (\<forall>ro. x = Inr ro \<longrightarrow> ro = tab w d)"
  proof (cases y)
    case (Inl msg)
    then show ?thesis using i g y by (auto simp: inspectExact_def getArguments_def split: if_splits)
  next
    case (Inr out)
    then obtain r where r: "plainRoute4 r" "out = routeText t r" "tab w d = Some r \<or> tab w d = None \<and> rDestination r \<noteq> d" "tab w2 = tab w" using g by auto
    have "readExact t d out = Inr (tab w d)" unfolding r(2) readExact_routeText [OF t r(1) d] using r(3) dst by auto
    then show ?thesis using i y Inr r(4) by (auto simp: inspectExact_def getArguments_def)
  qed
  then show "tab w1 = tab w" "x = Inr ro \<Longrightarrow> ro = tab w d" by auto
qed

lemma Remove_tab:
  assumes t: "text6_ok t" and ok: "route_tool_ok t m tab r" and r: "plainRoute4 r" and e: "route_Remove t m ctx r w = (e, w1)"
  shows "tab w1 = tab w \<or> (\<exists>cur. tab w (rDestination r) = Some cur \<and> ownedAsPlanned r cur \<and> tab w1 = (tab w)(rDestination r := None))"
    "e = None \<Longrightarrow> tab w1 (rDestination r) = None"
proof -
  have v: "route_Validate r = None" and d: "addr_Is4 (pfxAddr (rDestination r))" using r by (simp_all add: plainRoute4_def)
  obtain x wa where i: "inspectExact t m ctx (rDestination r) w = (x, wa)" by (metis prod.exhaust)
  note it = inspect_tab [OF t ok refl d i]
  have "(tab w1 = tab w \<or> (\<exists>cur. tab w (rDestination r) = Some cur \<and> ownedAsPlanned r cur \<and> tab w1 = (tab w)(rDestination r := None))) \<and>
    (e = None \<longrightarrow> tab w1 (rDestination r) = None)"
  proof (cases "\<exists>cur args. x = Inr (Some cur) \<and> ownedAsPlanned r cur \<and> routeArguments t ''delete'' r = Inr args")
    case True
    then obtain cur args where c: "x = Inr (Some cur)" "ownedAsPlanned r cur" "routeArguments t ''delete'' r = Inr args" by blast
    obtain y wb where y: "route_run m ctx args wa = (y, wb)" by (metis prod.exhaust)
    have "tab wb = (case y of Inr out \<Rightarrow> (tab wa)(rDestination r := None) | Inl msg \<Rightarrow> tab wa)"
      using change_okD [OF _ c(3) y, of tab None] ok by (simp add: route_tool_ok_def)
    then show ?thesis using e v i c y it(1) it(2) [OF c(1), symmetric] by (auto simp: route_Remove_def split: sum.splits)
  next
    case False
    then show ?thesis using e v i it(1) it(2) [of None, symmetric]
      by (auto simp: route_Remove_def split: sum.splits option.splits if_splits)
  qed
  then show "tab w1 = tab w \<or> (\<exists>cur. tab w (rDestination r) = Some cur \<and> ownedAsPlanned r cur \<and> tab w1 = (tab w)(rDestination r := None))"
    "e = None \<Longrightarrow> tab w1 (rDestination r) = None" by auto
qed

lemma Add_tab:
  assumes t: "text6_ok t" and ok: "route_tool_ok t m tab r" and r: "plainRoute4 r" and e: "route_Add t m ctx r w = (e, w1)"
  shows "tab w1 = tab w \<or> tab w (rDestination r) = None \<and> tab w1 = (tab w)(rDestination r := Some r)"
    "e = None \<Longrightarrow> tab w (rDestination r) = None \<and> tab w1 = (tab w)(rDestination r := Some r)"
proof -
  have v: "route_Validate r = None" and d: "addr_Is4 (pfxAddr (rDestination r))" using r by (simp_all add: plainRoute4_def)
  obtain x wa where i: "inspectExact t m ctx (rDestination r) w = (x, wa)" by (metis prod.exhaust)
  note it = inspect_tab [OF t ok refl d i]
  have "(tab w1 = tab w \<or> tab w (rDestination r) = None \<and> tab w1 = (tab w)(rDestination r := Some r)) \<and>
    (e = None \<longrightarrow> tab w (rDestination r) = None \<and> tab w1 = (tab w)(rDestination r := Some r))"
  proof (cases "\<exists>args. x = Inr None \<and> routeArguments t ''add'' r = Inr args")
    case True
    then obtain args where c: "x = Inr None" "routeArguments t ''add'' r = Inr args" by blast
    obtain y wb where y: "route_run m ctx args wa = (y, wb)" by (metis prod.exhaust)
    obtain z wc where z: "inspectExact t m ctx (rDestination r) wb = (z, wc)" by (metis prod.exhaust)
    have "tab wb = (case y of Inr out \<Rightarrow> (tab wa)(rDestination r := Some r) | Inl msg \<Rightarrow> tab wa)"
      using change_okD [OF _ c(2) y, of tab "Some r"] ok by (simp add: route_tool_ok_def)
    then show ?thesis using e v i c y z it(1) it(2) [OF c(1), symmetric] inspect_tab(1) [OF t ok refl d z]
      by (auto simp: route_Add_def split: sum.splits option.splits if_splits)
  next
    case False
    then show ?thesis using e v i it(1) by (auto simp: route_Add_def split: sum.splits option.splits)
  qed
  then show "tab w1 = tab w \<or> tab w (rDestination r) = None \<and> tab w1 = (tab w)(rDestination r := Some r)"
    "e = None \<Longrightarrow> tab w (rDestination r) = None \<and> tab w1 = (tab w)(rDestination r := Some r)" by auto
qed


text \<open>An IPv6 text form and a host with room for one route, for the witnesses.\<close>

definition plainText6 :: text6 where
  "plainText6 = \<lparr>parseIPv6 = (\<lambda>s. case strings_Cut (CHR ''%'') (tl s) of
       None \<Rightarrow> None | Some (a, z) \<Rightarrow> map_option (\<lambda>n. IPv6 (word_of_nat n) z) (digits_value 10 0 a)),
     showIPv6 = (\<lambda>a. case a of IPv6 w z \<Rightarrow> CHR '':'' # show_nat (unat w) @ CHR ''%'' # z | _ \<Rightarrow> [])\<rparr>"

lemma plainText6_ok: "text6_ok plainText6"
proof -
  have "CHR ''%'' \<notin> set (show_nat n)" for n by (rule show_nat_no) (simp add: is_digit_def byte_of_def)
  then show ?thesis
    by (simp add: text6_ok_def netip_ParseAddr_def plainText6_def cut_append show_nat_def digits_value_show)
qed

definition oneRoute :: route where
  "oneRoute = \<lparr>rDestination = PrefixFrom (ip4 10 20 0 0) 16, rGateway = ZeroAddr, rInterface = ''utun9'', rReject = False\<rparr>"

definition oneRouteHost :: "bool darwinRoutes" where
  "oneRouteHost = \<lparr>drRunner = Some \<lparr>rnRun = (\<lambda>ctx path args w.
       if hd (tl args) = ''add'' then (Inr [], True) else if hd (tl args) = ''delete'' then (Inr [], False)
       else if w then (Inr (routeText plainText6 oneRoute), w) else (Inl ''not in table'', w))\<rparr>, drRoutePath = []\<rparr>"

definition oneTable :: "bool \<Rightarrow> prefix \<Rightarrow> route option" where
  "oneTable w = (if w then [rDestination oneRoute \<mapsto> oneRoute] else (\<lambda>_. None))"

lemma oneRoute_plain: "plainRoute4 oneRoute"
  by (simp add: plainRoute4_def oneRoute_def route_Validate_def sample_ids address_simps)

lemma oneRouteHost_ok: "route_tool_ok plainText6 oneRouteHost oneTable oneRoute"
proof -
  have "routeArguments plainText6 op oneRoute = Inr args \<Longrightarrow> hd args = op" for op args
    by (auto simp: routeArguments_def oneRoute_def split: if_splits)
  then show ?thesis using oneRoute_plain
    by (auto simp: route_tool_ok_def get_ok_def change_ok_def oneRouteHost_def route_run_def oneTable_def getArguments_def fun_eq_iff)
qed


text \<open>
  The guard cannot tell a route of the transaction from one with the same interface and gateway that somebody else
  made: when the planned route is already there, \<^verbatim>\<open>Add\<close> refuses it as a conflict, yet the rollback that
  follows, which removes the route its journal planned, deletes it.
\<close>

lemma conflicting_route_is_removed:
  "\<exists>e. route_Add plainText6 oneRouteHost CallerCtx oneRoute True = (Some e, True) \<and> errors_Is e ErrRouteConflict \<and>
     route_Remove plainText6 oneRouteHost CallerCtx oneRoute True = (None, False)"
proof -
  have d: "addr_Is4 (pfxAddr (rDestination oneRoute))" and v: "route_Validate oneRoute = None" using oneRoute_plain by (simp_all add: plainRoute4_def)
  have i: "inspectExact plainText6 oneRouteHost CallerCtx (rDestination oneRoute) True = (Inr (Some oneRoute), True)"
    using readExact_routeText [OF plainText6_ok oneRoute_plain d] by (simp add: inspectExact_def route_run_def oneRouteHost_def)
  show ?thesis
    by (simp add: route_Add_def route_Remove_def v i ownedAsPlanned_def)
      (simp add: routeArguments_def oneRoute_def route_run_def oneRouteHost_def)
qed

section \<open>DNS settings of others are not overwritten\<close>

text \<open>
  What is relied on of \<^verbatim>\<open>networksetup(8)\<close> for one service: behind a world stand its name servers and search
  domains. The getters change nothing and print lines the program reads as these; a setter replaces
  its setting or fails without effect; \<^verbatim>\<open>empty\<close> clears it.
\<close>

definition getter_ok :: "'w darwinDNS \<Rightarrow> ('w \<Rightarrow> addr list \<times> string list) \<Rightarrow> string list \<Rightarrow> ('w \<Rightarrow> string list) \<Rightarrow> bool" where
  "getter_ok m st args lines \<longleftrightarrow> (\<forall>ctx w. (case dns_run m ctx args w of
     (Inr out, w1) \<Rightarrow> st w1 = st w \<and> settingLines out = lines w | (Inl msg, w1) \<Rightarrow> st w1 = st w))"

definition setter_ok :: "'w darwinDNS \<Rightarrow> ('w \<Rightarrow> addr list \<times> string list) \<Rightarrow> string list \<Rightarrow> ('w \<Rightarrow> addr list \<times> string list) \<Rightarrow> bool" where
  "setter_ok m st args new \<longleftrightarrow> (\<forall>ctx w. (case dns_run m ctx args w of (Inr out, w1) \<Rightarrow> st w1 = new w | (Inl msg, w1) \<Rightarrow> st w1 = st w))"

definition orEmpty :: "string list \<Rightarrow> string list" where
  "orEmpty vs = (if vs = [] then [''empty''] else vs)"

definition networksetup_ok :: "text6 \<Rightarrow> 'w darwinDNS \<Rightarrow> ('w \<Rightarrow> addr list \<times> string list) \<Rightarrow> string \<Rightarrow> bool" where
  "networksetup_ok t m st svc \<longleftrightarrow>
     getter_ok m st [''-getdnsservers'', svc] (\<lambda>w. map (addr_String t) (fst (st w))) \<and>
     getter_ok m st [''-getsearchdomains'', svc] (\<lambda>w. snd (st w)) \<and>
     (\<forall>vs. list_all addr_IsValid vs \<longrightarrow> setter_ok m st (''-setdnsservers'' # svc # orEmpty (map (addr_String t) vs)) (\<lambda>w. (vs, snd (st w)))) \<and>
     (\<forall>vs. vs \<noteq> [''empty''] \<longrightarrow> setter_ok m st (''-setsearchdomains'' # svc # orEmpty vs) (\<lambda>w. (fst (st w), vs)))"

lemma parseServers_strings:
  "text6_ok t \<Longrightarrow> list_all addr_IsValid vs \<Longrightarrow> parseServers t (map (addr_String t) vs) acc = Inr s \<Longrightarrow> s = rev acc @ vs"
proof (induction vs arbitrary: acc)
  case (Cons v vs)
  have "netip_ParseAddr t (addr_String t v) = Some v" using Cons.prems ParseAddr_String [of t v] by (cases v) auto
  then show ?case using Cons.prems Cons.IH [of "v # acc"] by (simp del: addr_IsMulticast.simps split: if_splits)
qed simp

lemma getter_okD:
  assumes "getter_ok m st args lines" "dns_run m ctx args w = (x, w1)"
  shows "st w1 = st w" "x = Inr out \<Longrightarrow> settingLines out = lines w"
  using assms(1) [unfolded getter_ok_def, rule_format, where ctx = ctx and w = w] assms(2) by (auto split: sum.splits)

lemma snapshotService_state:
  assumes t: "text6_ok t" and ok: "networksetup_ok t m st svc" and v: "list_all addr_IsValid (fst (st w))" and s: "snapshotService t m ctx svc w = (x, w1)"
  shows "st w1 = st w \<and> (\<forall>cur. x = Inr cur \<longrightarrow> sdServers cur = fst (st w) \<and> sdSearchDomains cur = snd (st w))"
proof -
  obtain y wa where y: "dns_run m ctx [''-getdnsservers'', svc] w = (y, wa)" by (metis prod.exhaust)
  obtain z wb where z: "dns_run m ctx [''-getsearchdomains'', svc] wa = (z, wb)" by (metis prod.exhaust)
  note gy = getter_okD [OF ok [unfolded networksetup_ok_def, THEN conjunct1] y]
  note gz = getter_okD [OF ok [unfolded networksetup_ok_def, THEN conjunct2, THEN conjunct1] z]
  show ?thesis
  proof (cases y)
    case (Inl msg)
    then show ?thesis using s y gy(1) by (auto simp: snapshotService_def)
  next
    case (Inr so)
    show ?thesis
    proof (cases "parseServers t (settingLines so) []")
      case (Inl e)
      then show ?thesis using s y Inr gy(1) by (auto simp: snapshotService_def)
    next
      case ps: (Inr servers)
      have "servers = fst (st w)" using parseServers_strings [OF t v, of "[]" servers] ps gy(2) [OF Inr] by simp
      then show ?thesis using s y Inr ps z gy(1) gz by (auto simp: snapshotService_def Let_def split: sum.splits if_splits)
    qed
  qed
qed

lemma dns_set_state:
  assumes "setter_ok m st (op # svc # orEmpty vs) new" "dns_set m ctx op svc vs w = (e, w1)"
  shows "st w1 = (if e = None then new w else st w)"
  using assms(1) [unfolded setter_ok_def, rule_format, where ctx = ctx and w = w] assms(2)
  by (auto simp: dns_set_def orEmpty_def split: sum.splits prod.splits if_splits)

lemma restoreComponents_state:
  assumes ok: "networksetup_ok t m st svc" and v: "list_all addr_IsValid (sdServers original)" "sdSearchDomains original \<noteq> [''empty'']"
    and r: "restoreComponents t m ctx svc original ds ss w = (e, w1)"
  shows "st w1 = st w \<or> st w1 = (fst (st w), sdSearchDomains original) \<or> st w1 = (if ss then sdServers original else fst (st w), if ds then sdSearchDomains original else snd (st w))"
    "e = None \<Longrightarrow> st w1 = (if ss then sdServers original else fst (st w), if ds then sdSearchDomains original else snd (st w))"
    "\<not> ds \<Longrightarrow> snd (st w1) = snd (st w)"
proof -
  obtain e1 wa where a: "(if ds then dns_set m ctx ''-setsearchdomains'' svc (sdSearchDomains original) w else (None, w)) = (e1, wa)" by (metis prod.exhaust)
  obtain e2 wb where b: "(if ss then dns_set m ctx ''-setdnsservers'' svc (dns_addresses t (sdServers original)) wa else (None, wa)) = (e2, wb)" by (metis prod.exhaust)
  have so: "setter_ok m st (''-setsearchdomains'' # svc # orEmpty (sdSearchDomains original)) (\<lambda>w. (fst (st w), sdSearchDomains original))"
    "setter_ok m st (''-setdnsservers'' # svc # orEmpty (dns_addresses t (sdServers original))) (\<lambda>w. (sdServers original, snd (st w)))"
    using ok v by (simp_all add: networksetup_ok_def dns_addresses_def)
  have sa: "st wa = (if ds \<and> e1 = None then (fst (st w), sdSearchDomains original) else st w)"
    using a dns_set_state [OF so(1)] by (auto split: if_splits)
  have sb: "st wb = (if ss \<and> e2 = None then (sdServers original, snd (st wa)) else st wa)"
    using b dns_set_state [OF so(2)] by (auto split: if_splits)
  have "(e1 \<noteq> None \<and> w1 = wa \<and> e \<noteq> None) \<or> (e1 = None \<and> w1 = wb \<and> (e = None \<longleftrightarrow> e2 = None))"
    using r unfolding restoreComponents_def a by (auto simp: b split: option.splits)
  moreover have "ds \<or> e1 = None" "ss \<or> e2 = None" using a b by (auto split: if_splits)
  ultimately show "st w1 = st w \<or> st w1 = (fst (st w), sdSearchDomains original) \<or> st w1 = (if ss then sdServers original else fst (st w), if ds then sdSearchDomains original else snd (st w))"
    "e = None \<Longrightarrow> st w1 = (if ss then sdServers original else fst (st w), if ds then sdSearchDomains original else snd (st w))"
    "\<not> ds \<Longrightarrow> snd (st w1) = snd (st w)"
    using sa sb by (auto split: if_splits)
qed

text \<open>C34: \<^verbatim>\<open>RestoreIfOwned\<close> on a host whose \<^verbatim>\<open>networksetup\<close> keeps its contract: when it reports success the service
  has the name servers, and the search domains if those were managed, it had before; when the present servers, or managed
  domains, are neither the applied nor the original ones it changes nothing and reports a
  conflict; search domains that were not managed are never touched. Commands may fail at any point.\<close>

theorem dns_restore_respects_others:
  assumes t: "text6_ok t" and ok: "networksetup_ok t m st (dcServiceID applied)" and v: "list_all addr_IsValid (fst (st w))"
    and o: "dsServices before = [original]" "list_all addr_IsValid (sdServers original)" "sdSearchDomains original \<noteq> [''empty'']"
    and r: "dns_RestoreIfOwned t m ctx before applied w = (e, w1)"
  shows "(e = None \<longrightarrow> fst (st w1) = sdServers original \<and> (dcSearchDomains applied \<noteq> None \<longrightarrow> snd (st w1) = sdSearchDomains original)) \<and>
    (fst (st w) \<noteq> dcServers applied \<and> fst (st w) \<noteq> sdServers original \<longrightarrow> e \<noteq> None \<and> st w1 = st w) \<and>
    (dcSearchDomains applied = None \<longrightarrow> snd (st w1) = snd (st w)) \<and>
    (\<forall>ds. dcSearchDomains applied = Some ds \<and> snd (st w) \<noteq> ds \<and> snd (st w) \<noteq> sdSearchDomains original \<longrightarrow> e \<noteq> None \<and> st w1 = st w)"
proof (cases "dnsConfig_Validate applied = None \<and> sdServiceID original = dcServiceID applied")
  case False
  then have "e \<noteq> None \<and> w1 = w" using r o(1) by (cases "dnsConfig_Validate applied") (simp_all add: dns_RestoreIfOwned_def, blast+)
  then show ?thesis by auto
next
  case True
  obtain x wa where s: "snapshotService t m ctx (dcServiceID applied) w = (x, wa)" by (metis prod.exhaust)
  note ss = snapshotService_state [OF t ok v s]
  show ?thesis
  proof (cases x)
    case (Inl y)
    then show ?thesis using r o(1) True s ss by (auto simp: dns_RestoreIfOwned_def)
  next
    case (Inr cur)
    then have c: "sdServers cur = fst (st w)" "sdSearchDomains cur = snd (st w)" "st wa = st w" using ss by auto
    let ?so = "fst (st w) = dcServers applied" and ?sg = "fst (st w) = sdServers original"
    let ?do = "case dcSearchDomains applied of None \<Rightarrow> True | Some ds \<Rightarrow> snd (st w) = ds"
    let ?dg = "case dcSearchDomains applied of None \<Rightarrow> True | Some ds \<Rightarrow> snd (st w) = sdSearchDomains original"
    have run: "dns_RestoreIfOwned t m ctx before applied w = (if (\<not> ?so \<and> \<not> ?sg) \<or> (\<not> ?do \<and> \<not> ?dg) then (Some (Sentinel ErrDNSConflict), wa)
        else restoreComponents t m ctx (dcServiceID applied) original (?do \<and> \<not> ?dg) (?so \<and> \<not> ?sg) wa)"
      using o(1) True s Inr c by (simp add: dns_RestoreIfOwned_def Let_def cong: option.case_cong)
    show ?thesis
    proof (cases "(\<not> ?so \<and> \<not> ?sg) \<or> (\<not> ?do \<and> \<not> ?dg)")
      case True2: True
      then have "e \<noteq> None \<and> st w1 = st w" using r c(3) unfolding run by auto
      then show ?thesis by auto
    next
      case False
      have rc: "restoreComponents t m ctx (dcServiceID applied) original (?do \<and> \<not> ?dg) (?so \<and> \<not> ?sg) wa = (e, w1)"
        using r False unfolding run by simp
      note rs = restoreComponents_state [OF ok o(2,3) rc, unfolded c(3)]
      have n: "dcSearchDomains applied = None \<longrightarrow> snd (st w1) = snd (st w)" using rs(3) by (cases "dcSearchDomains applied") simp_all
      show ?thesis using False rs(2) n by (cases "dcSearchDomains applied") (auto split: if_splits)
    qed
  qed
qed

text \<open>A host with one network service, for the witness.\<close>

definition sampleDNSHost :: "(addr list \<times> string list) darwinDNS" where
  "sampleDNSHost = \<lparr>ddRunner = Some \<lparr>rnRun = (\<lambda>ctx path args w.
     if args ! 0 = ''-getdnsservers'' then
       (let ls = map (addr_String plainText6) (fst w); out = strings_Join [CHR 0x0A] ls in (if settingLines out = ls then Inr out else Inl ''unprintable'', w))
     else if args ! 0 = ''-getsearchdomains'' then
       (let out = strings_Join [CHR 0x0A] (snd w) in (if settingLines out = snd w then Inr out else Inl ''unprintable'', w))
     else if args ! 0 = ''-setdnsservers'' then
       (Inr [], (if drop 2 args = [''empty''] then [] else map (\<lambda>v. the (netip_ParseAddr plainText6 v)) (drop 2 args), snd w))
     else (Inr [], (fst w, if drop 2 args = [''empty''] then [] else drop 2 args)))\<rparr>, ddNetworkSetupPath = []\<rparr>"

lemma sampleDNSHost_ok: "networksetup_ok plainText6 sampleDNSHost (\<lambda>w. w) svc"
proof -
  have p: "netip_ParseAddr plainText6 (addr_String plainText6 v) = Some v" if "addr_IsValid v" for v
    using ParseAddr_String [OF plainText6_ok, of v] that by (cases v) auto
  have "netip_ParseAddr plainText6 ''empty'' = None" by (simp add: netip_ParseAddr_def)
  then have n: "addr_IsValid v \<Longrightarrow> addr_String plainText6 v \<noteq> ''empty''" for v using p by force
  have m: "map (\<lambda>v. the (netip_ParseAddr plainText6 (addr_String plainText6 v))) vs = vs" if "list_all addr_IsValid vs" for vs
    using that p by (induction vs) auto
  have "setter_ok sampleDNSHost (\<lambda>w. w) (''-setdnsservers'' # svc # orEmpty (map (addr_String plainText6) vs)) (\<lambda>w. (vs, snd w))" if "list_all addr_IsValid vs" for vs
    using that m [OF that] n by (cases vs) (auto simp: setter_ok_def sampleDNSHost_def dns_run_def orEmpty_def comp_def)
  then show ?thesis
    by (auto simp: networksetup_ok_def getter_ok_def setter_ok_def sampleDNSHost_def dns_run_def orEmpty_def Let_def)
qed

theorem dns_restore_respects_others_witness:
  "\<exists>e w1. dns_RestoreIfOwned plainText6 sampleDNSHost CallerCtx sampleDNS (plan_DNSConfig sampleFull) ([ip4 9 9 9 9], []) = (e, w1) \<and>
     e \<noteq> None \<and> w1 = ([ip4 9 9 9 9], [])"
proof -
  obtain e w1 where r: "dns_RestoreIfOwned plainText6 sampleDNSHost CallerCtx sampleDNS (plan_DNSConfig sampleFull) ([ip4 9 9 9 9], []) = (e, w1)"
    by (metis prod.exhaust)
  have s: "dsServices sampleDNS = [\<lparr>sdServiceID = ''svc'', sdServers = [ip4 192 168 1 1], sdSearchDomains = []\<rparr>]" by (simp add: sampleDNS_def)
  have "dcServers (plan_DNSConfig sampleFull) \<noteq> [ip4 9 9 9 9]" by (simp add: plan_DNSConfig_def sampleFull_def ip4_def)
  moreover have "ip4 9 9 9 9 \<noteq> ip4 192 168 1 1" by (simp add: ip4_def)
  moreover have "addr_IsValid (ip4 9 9 9 9)" "addr_IsValid (ip4 192 168 1 1)" by (simp_all add: ip4_def)
  ultimately show ?thesis
    using dns_restore_respects_others [OF plainText6_ok sampleDNSHost_ok _ s _ _ r] r by auto
qed

end
