(* ===== verification/Credentials.thy ===== *)
theory Credentials
  imports File_System
begin

text \<open>
  The credential pair: \<^verbatim>\<open>internal/credentials\<close> (kinds and the store interface),
  \<^verbatim>\<open>internal/loginflow\<close> (login) and \<^verbatim>\<open>internal/authstate\<close> (inspection and logout). A store is a
  record of functions over a world; its contract is the locale \<open>credential_store\<close>, and what the
  services guarantee over any such store is proved in the locale \<open>credential_service\<close>. Byte
  slices are values: wiping a local buffer is visible only in that the value is not used afterwards.
\<close>

section \<open>Kinds and stores\<close>

definition AccessToken :: string where
  "AccessToken = ''access-token''"

definition NordLynxPrivateKey :: string where
  "NordLynxPrivateKey = ''nordlynx-private-key''"

definition kind_Valid :: "string \<Rightarrow> bool" where
  "kind_Valid kind = (kind = AccessToken \<or> kind = NordLynxPrivateKey)"

definition kind_Validate :: "string \<Rightarrow> gerror option" where
  "kind_Validate kind = reject (\<not> kind_Valid kind) ''invalid credential kind''"

lemma kinds_differ [simp]: "AccessToken \<noteq> NordLynxPrivateKey" "NordLynxPrivateKey \<noteq> AccessToken"
  by (simp_all add: AccessToken_def NordLynxPrivateKey_def)

lemma kinds_valid [simp]: "kind_Validate AccessToken = None" "kind_Validate NordLynxPrivateKey = None"
  by (simp_all add: kind_Validate_def kind_Valid_def)

record 'w credStore =
  csPut :: "ctx \<Rightarrow> string \<Rightarrow> byte list \<Rightarrow> 'w \<Rightarrow> gerror option \<times> 'w"
  csGet :: "ctx \<Rightarrow> string \<Rightarrow> 'w \<Rightarrow> (gerror + byte list) \<times> 'w"
  csDelete :: "ctx \<Rightarrow> string \<Rightarrow> 'w \<Rightarrow> gerror option \<times> 'w"

type_synonym 'w credLocker = "ctx \<Rightarrow> 'w \<Rightarrow> (gerror + ('w \<Rightarrow> gerror option \<times> 'w)) \<times> 'w"

section \<open>Snapshots of one credential\<close>

text \<open>\<^verbatim>\<open>snapshot\<close>: \<open>None\<close> when the credential does not exist. Both packages have the same functions.\<close>

definition credCapture :: "'w credStore \<Rightarrow> ctx \<Rightarrow> string \<Rightarrow> 'w \<Rightarrow> (gerror + byte list option) \<times> 'w" where
  "credCapture st ctx kind w = (case csGet st ctx kind w of
     (Inl e, w1) \<Rightarrow> (if errors_Is e ErrCredentialNotFound then (Inr None, w1) else (Inl e, w1))
   | (Inr v, w1) \<Rightarrow> (Inr (Some v), w1))"

definition credRestore :: "'w credStore \<Rightarrow> ctx \<Rightarrow> string \<Rightarrow> byte list option \<Rightarrow> 'w \<Rightarrow> gerror option \<times> 'w" where
  "credRestore st ctx kind before w = (case before of
     Some v \<Rightarrow> csPut st ctx kind v w
   | None \<Rightarrow> (case csDelete st ctx kind w of
       (Some e, w1) \<Rightarrow> (if errors_Is e ErrCredentialNotFound then (None, w1) else (Some e, w1))
     | (None, w1) \<Rightarrow> (None, w1)))"

text \<open>The rollback of both packages: both credentials are restored under a detached context.\<close>

definition rollbackCtx :: "ctx \<Rightarrow> ctx" where
  "rollbackCtx ctx = WithTimeout 5 (WithoutCancel ctx)"

definition credRollback :: "'w credStore \<Rightarrow> ctx \<Rightarrow> byte list option \<Rightarrow> byte list option \<Rightarrow> 'w \<Rightarrow> gerror option \<times> 'w" where
  "credRollback st ctx accessBefore keyBefore w =
     (let (e1, w1) = credRestore st (rollbackCtx ctx) AccessToken accessBefore w;
          (e2, w2) = credRestore st (rollbackCtx ctx) NordLynxPrivateKey keyBefore w1
      in (errors_Join [e1, e2], w2))"

section \<open>Login\<close>

record provisioning =
  prAccountID :: int
  prPrivateKey :: "byte list"

type_synonym 'w provisioner = "ctx \<Rightarrow> byte list \<Rightarrow> 'w \<Rightarrow> (gerror + provisioning) \<times> 'w"

record 'w loginService =
  lsProvisioner :: "'w provisioner option"
  lsStore :: "'w credStore option"
  lsLocker :: "'w credLocker option"

text \<open>A result is the account id, zero when there is none. \<open>credTransact\<close> is the part that writes.\<close>

definition failedLogin :: "'w credStore \<Rightarrow> ctx \<Rightarrow> byte list option \<Rightarrow> byte list option \<Rightarrow> 'w \<Rightarrow> int \<times> gerror option \<times> 'w" where
  "failedLogin st ctx accessBefore keyBefore w = (case credRollback st ctx accessBefore keyBefore w of
     (Some _, w1) \<Rightarrow> (0, errors_Join [Some (Sentinel ErrLoginTransaction), Some (Sentinel ErrLoginRollbackIncomplete)], w1)
   | (None, w1) \<Rightarrow> (0, Some (Sentinel ErrLoginTransaction), w1))"

definition credTransact :: "'w credStore \<Rightarrow> ctx \<Rightarrow> byte list \<Rightarrow> provisioning \<Rightarrow> 'w \<Rightarrow> int \<times> gerror option \<times> 'w" where
  "credTransact st ctx token pr w = (case credCapture st ctx AccessToken w of
     (Inl e, w1) \<Rightarrow> (0, Some (Sentinel ErrLoginTransaction), w1)
   | (Inr accessBefore, w1) \<Rightarrow> (case credCapture st ctx NordLynxPrivateKey w1 of
       (Inl e, w2) \<Rightarrow> (0, Some (Sentinel ErrLoginTransaction), w2)
     | (Inr keyBefore, w2) \<Rightarrow> (case csPut st ctx AccessToken token w2 of
         (Some e, w3) \<Rightarrow> failedLogin st ctx accessBefore keyBefore w3
       | (None, w3) \<Rightarrow> (case csPut st ctx NordLynxPrivateKey (prPrivateKey pr) w3 of
           (Some e, w4) \<Rightarrow> failedLogin st ctx accessBefore keyBefore w4
         | (None, w4) \<Rightarrow> (prAccountID pr, None, w4)))))"

text \<open>The deferred release: it clears the result and joins its error.\<close>

definition deferRelease :: "sentinel \<Rightarrow> 'r \<Rightarrow> ('w \<Rightarrow> gerror option \<times> 'w) \<Rightarrow> 'r \<times> gerror option \<times> 'w \<Rightarrow> 'r \<times> gerror option \<times> 'w" where
  "deferRelease s zero release run = (case run of (r, e, w) \<Rightarrow> (case release w of
     (None, w1) \<Rightarrow> (r, e, w1)
   | (Some _, w1) \<Rightarrow> (zero, errors_Join [e, Some (Sentinel s)], w1)))"

definition Login :: "'w loginService \<Rightarrow> ctx \<Rightarrow> byte list \<Rightarrow> 'w \<Rightarrow> int \<times> gerror option \<times> 'w" where
  "Login s ctx token w = (case (lsProvisioner s, lsStore s, lsLocker s) of
     (Some provision, Some st, Some lock) \<Rightarrow> (case lock ctx w of
        (Inl e, w1) \<Rightarrow> (0, Some (Sentinel ErrLoginLock), w1)
      | (Inr release, w1) \<Rightarrow> deferRelease ErrLoginLock 0 release
          (case provision ctx token w1 of
             (Inl e, w2) \<Rightarrow> (0, Some (WrapErr ''provision VPN credentials'' e), w2)
           | (Inr pr, w2) \<Rightarrow> credTransact st ctx token pr w2))
   | _ \<Rightarrow> (0, Some (Err ''login service is incomplete''), w))"

section \<open>Inspection and logout\<close>

datatype authState = LoggedOut | LoggedIn | Inconsistent

record authStatus =
  asState :: authState
  asHasToken :: bool
  asHasPrivateKey :: bool
  asRepairNeeded :: bool

record logoutResult =
  lrLocalRemoved :: bool
  lrRemoteRevoked :: bool

record 'w authService =
  auStore :: "'w credStore option"
  auLocker :: "'w credLocker option"

definition auth_status :: "bool \<Rightarrow> bool \<Rightarrow> authStatus" where
  "auth_status hasToken hasKey =
     (let st = (if hasToken \<and> hasKey then LoggedIn else if \<not> hasToken \<and> \<not> hasKey then LoggedOut else Inconsistent)
      in \<lparr>asState = st, asHasToken = hasToken, asHasPrivateKey = hasKey, asRepairNeeded = (st = Inconsistent)\<rparr>)"

definition auth_acquire :: "'w authService \<Rightarrow> ctx \<Rightarrow> 'w \<Rightarrow> (gerror + ('w \<Rightarrow> gerror option \<times> 'w)) \<times> 'w" where
  "auth_acquire s ctx w = (case (auStore s, auLocker s) of
     (Some st, Some lock) \<Rightarrow> (case lock ctx w of
        (Inl e, w1) \<Rightarrow> (Inl (Sentinel ErrAuthLock), w1)
      | (Inr release, w1) \<Rightarrow> (Inr release, w1))
   | _ \<Rightarrow> (Inl (Err ''credential state service is incomplete''), w))"

text \<open>\<open>None\<close> as a result is the zero \<^verbatim>\<open>Status\<close> returned beside an error.\<close>

definition auth_Inspect :: "'w authService \<Rightarrow> ctx \<Rightarrow> 'w \<Rightarrow> authStatus option \<times> gerror option \<times> 'w" where
  "auth_Inspect s ctx w = (case auth_acquire s ctx w of
     (Inl e, w1) \<Rightarrow> (None, Some e, w1)
   | (Inr release, w1) \<Rightarrow> deferRelease ErrAuthLock None release
       (case credCapture (the (auStore s)) ctx AccessToken w1 of
          (Inl e, w2) \<Rightarrow> (None, Some (Sentinel ErrAuthRead), w2)
        | (Inr token, w2) \<Rightarrow> (case credCapture (the (auStore s)) ctx NordLynxPrivateKey w2 of
            (Inl e, w3) \<Rightarrow> (None, Some (Sentinel ErrAuthRead), w3)
          | (Inr key, w3) \<Rightarrow> (Some (auth_status (token \<noteq> None) (key \<noteq> None)), None, w3))))"

definition deleteIfPresent :: "'w credStore \<Rightarrow> ctx \<Rightarrow> string \<Rightarrow> bool \<Rightarrow> 'w \<Rightarrow> gerror option \<times> 'w" where
  "deleteIfPresent st ctx kind exists w = (if \<not> exists then (None, w) else csDelete st ctx kind w)"

definition noLogout :: logoutResult where
  "noLogout = \<lparr>lrLocalRemoved = False, lrRemoteRevoked = False\<rparr>"

definition failedRemoval :: "'w credStore \<Rightarrow> ctx \<Rightarrow> byte list option \<Rightarrow> byte list option \<Rightarrow> 'w \<Rightarrow> gerror option \<times> 'w" where
  "failedRemoval st ctx token key w = (case credRollback st ctx token key w of
     (Some _, w1) \<Rightarrow> (errors_Join [Some (Sentinel ErrAuthTransaction), Some (Sentinel ErrAuthRollbackIncomplete)], w1)
   | (None, w1) \<Rightarrow> (Some (Sentinel ErrAuthTransaction), w1))"

definition removePair :: "'w credStore \<Rightarrow> ctx \<Rightarrow> byte list option \<Rightarrow> byte list option \<Rightarrow> 'w \<Rightarrow> logoutResult \<times> gerror option \<times> 'w" where
  "removePair st ctx token key w = (if token = None \<and> key = None then (noLogout, None, w)
     else (case deleteIfPresent st ctx AccessToken (token \<noteq> None) w of
       (Some e, w1) \<Rightarrow> (noLogout, failedRemoval st ctx token key w1)
     | (None, w1) \<Rightarrow> (case deleteIfPresent st ctx NordLynxPrivateKey (key \<noteq> None) w1 of
         (Some e, w2) \<Rightarrow> (noLogout, failedRemoval st ctx token key w2)
       | (None, w2) \<Rightarrow> (\<lparr>lrLocalRemoved = True, lrRemoteRevoked = False\<rparr>, None, w2))))"

definition LogoutLocal :: "'w authService \<Rightarrow> ctx \<Rightarrow> 'w \<Rightarrow> logoutResult \<times> gerror option \<times> 'w" where
  "LogoutLocal s ctx w = (case auth_acquire s ctx w of
     (Inl e, w1) \<Rightarrow> (noLogout, Some e, w1)
   | (Inr release, w1) \<Rightarrow> deferRelease ErrAuthLock noLogout release
       (case credCapture (the (auStore s)) ctx AccessToken w1 of
          (Inl e, w2) \<Rightarrow> (noLogout, Some (Sentinel ErrAuthRead), w2)
        | (Inr token, w2) \<Rightarrow> (case credCapture (the (auStore s)) ctx NordLynxPrivateKey w2 of
            (Inl e, w3) \<Rightarrow> (noLogout, Some (Sentinel ErrAuthRead), w3)
          | (Inr key, w3) \<Rightarrow> removePair (the (auStore s)) ctx token key w3)))"

section \<open>The contract of a credential store\<close>

text \<open>\<open>content\<close> is what the store holds. A failing write or removal may or may not have happened.\<close>

locale credential_store =
  fixes st :: "'w credStore" and content :: "'w \<Rightarrow> string \<Rightarrow> byte list option"
  assumes put_ok: "csPut st ctx k v w = (None, w1) \<Longrightarrow> content w1 = (content w)(k \<mapsto> v)"
    and put_err: "csPut st ctx k v w = (Some e, w1) \<Longrightarrow> content w1 = content w \<or> content w1 = (content w)(k \<mapsto> v)"
    and get_ok: "csGet st ctx k w = (Inr v, w1) \<Longrightarrow> content w1 = content w \<and> content w k = Some v"
    and get_err: "csGet st ctx k w = (Inl e, w1) \<Longrightarrow> content w1 = content w \<and> (errors_Is e ErrCredentialNotFound \<longrightarrow> content w k = None)"
    and delete_ok: "csDelete st ctx k w = (None, w1) \<Longrightarrow> content w1 = (content w)(k := None)"
    and delete_err: "csDelete st ctx k w = (Some e, w1) \<Longrightarrow> (content w1 = content w \<or> content w1 = (content w)(k := None)) \<and>
      (errors_Is e ErrCredentialNotFound \<longrightarrow> content w1 k = None)"
begin

lemma capture_reads:
  "credCapture st ctx k w = (r, w1) \<Longrightarrow> content w1 = content w \<and> (\<forall>b. r = Inr b \<longrightarrow> content w k = b)"
  by (auto simp: credCapture_def split: prod.splits sum.splits if_splits dest: get_ok get_err)

lemma restore_ok: "credRestore st ctx k b w = (None, w1) \<Longrightarrow> content w1 = (content w)(k := b)"
  by (auto simp: credRestore_def fun_eq_iff split: prod.splits option.splits if_splits dest: put_ok delete_ok delete_err)

lemma put_other: "csPut st ctx k v w = (r, w1) \<Longrightarrow> k' \<noteq> k \<Longrightarrow> content w1 k' = content w k'"
  by (cases r) (auto dest!: put_ok put_err)

lemma delete_other: "csDelete st ctx k w = (r, w1) \<Longrightarrow> k' \<noteq> k \<Longrightarrow> content w1 k' = content w k'"
  by (cases r) (auto dest!: delete_ok delete_err)

lemma restore_other: "credRestore st ctx k b w = (r, w1) \<Longrightarrow> k' \<noteq> k \<Longrightarrow> content w1 k' = content w k'"
  by (cases b) (auto simp: credRestore_def split: prod.splits option.splits if_splits dest: put_other delete_other)

text \<open>A rollback without error brings the pair back; no rollback touches anything else.\<close>

lemma rollback_restores:
  assumes "credRollback st ctx a k w = (r, w1)" "\<And>x. x \<noteq> AccessToken \<Longrightarrow> x \<noteq> NordLynxPrivateKey \<Longrightarrow> content w x = c x"
  shows "(r = None \<longrightarrow> content w1 = c(AccessToken := a, NordLynxPrivateKey := k)) \<and>
    (\<forall>x. x \<noteq> AccessToken \<longrightarrow> x \<noteq> NordLynxPrivateKey \<longrightarrow> content w1 x = c x)"
proof -
  obtain e1 wa e2 where r: "credRestore st (rollbackCtx ctx) AccessToken a w = (e1, wa)"
    "credRestore st (rollbackCtx ctx) NordLynxPrivateKey k wa = (e2, w1)" "r = errors_Join [e1, e2]"
    using assms(1) by (auto simp: credRollback_def Let_def split: prod.splits)
  have o: "content w1 x = c x" if "x \<noteq> AccessToken" "x \<noteq> NordLynxPrivateKey" for x
    using restore_other [OF r(1)] restore_other [OF r(2)] that assms(2) by simp
  moreover have "content w1 = c(AccessToken := a, NordLynxPrivateKey := k)" if "r = None"
  proof -
    have n: "e1 = None" "e2 = None" using that r(3) by simp_all
    have e: "content w1 = (content w)(AccessToken := a, NordLynxPrivateKey := k)"
      using restore_ok r(1,2) unfolding n by metis
    show ?thesis unfolding e using assms(2) by (auto simp: fun_eq_iff)
  qed
  ultimately show ?thesis by blast
qed

text \<open>The writing part of a login: all, nothing, or an error that says the rollback is incomplete.\<close>

lemma failed_login:
  assumes "failedLogin st ctx (c AccessToken) (c NordLynxPrivateKey) w = (n, e, w1)"
    and "\<And>x. x \<noteq> AccessToken \<Longrightarrow> x \<noteq> NordLynxPrivateKey \<Longrightarrow> content w x = c x"
  shows "n = 0 \<and> (\<exists>x. e = Some x \<and> errors_Is x ErrLoginTransaction \<and> (errors_Is x ErrLoginRollbackIncomplete \<or> content w1 = c))"
proof -
  obtain r wa where r: "credRollback st ctx (c AccessToken) (c NordLynxPrivateKey) w = (r, wa)" by (metis prod.exhaust)
  have "r = None \<Longrightarrow> content wa = c" using rollback_restores [OF r assms(2)] by (simp add: fun_upd_idem)
  then show ?thesis using assms(1) r by (auto simp: failedLogin_def split: option.splits)
qed

lemma transact:
  assumes "credTransact st ctx token pr w = (n, e, w1)"
  shows "(e = None \<and> n = prAccountID pr \<and> content w1 = (content w)(AccessToken \<mapsto> token, NordLynxPrivateKey \<mapsto> prPrivateKey pr)) \<or>
    (n = 0 \<and> (\<exists>x. e = Some x \<and> (errors_Is x ErrLoginRollbackIncomplete \<or> content w1 = content w)))"
proof -
  obtain ra wa where a: "credCapture st ctx AccessToken w = (ra, wa)" by (metis prod.exhaust)
  obtain rk wk where k: "credCapture st ctx NordLynxPrivateKey wa = (rk, wk)" by (metis prod.exhaust)
  obtain e3 w3 where p: "csPut st ctx AccessToken token wk = (e3, w3)" by (metis prod.exhaust)
  obtain e4 w4 where q: "csPut st ctx NordLynxPrivateKey (prPrivateKey pr) w3 = (e4, w4)" by (metis prod.exhaust)
  note cap = capture_reads [OF a] capture_reads [OF k]
  show ?thesis
  proof (cases "\<exists>x y. ra = Inr x \<and> rk = Inr y")
    case False
    then show ?thesis using assms a k cap by (cases ra; cases rk) (auto simp: credTransact_def)
  next
    case True
    then have v: "ra = Inr (content w AccessToken)" "rk = Inr (content w NordLynxPrivateKey)" using cap by auto
    have o3: "content w3 x = content w x" if "x \<noteq> AccessToken" for x using put_other [OF p that] cap by simp
    have o4: "content w4 x = content w x" if "x \<noteq> AccessToken" "x \<noteq> NordLynxPrivateKey" for x
      using put_other [OF q that(2)] o3 that by simp
    show ?thesis
    proof (cases "e3 = None \<and> e4 = None")
      case True
      then have "content w4 = (content w)(AccessToken \<mapsto> token, NordLynxPrivateKey \<mapsto> prPrivateKey pr)"
        using put_ok p q cap by metis
      then show ?thesis using True assms a k p q v by (simp add: credTransact_def)
    next
      case False
      then have "failedLogin st ctx (content w AccessToken) (content w NordLynxPrivateKey) (if e3 = None then w4 else w3) = (n, e, w1)"
        using assms a k p q v by (cases e3; cases e4) (simp_all add: credTransact_def)
      then have "n = 0 \<and> (\<exists>x. e = Some x \<and> errors_Is x ErrLoginTransaction \<and> (errors_Is x ErrLoginRollbackIncomplete \<or> content w1 = content w))"
        by (rule failed_login) (simp add: o3 o4)
      then show ?thesis by blast
    qed
  qed
qed

text \<open>The removing part of a logout.\<close>

lemma remove_pair:
  assumes "removePair st ctx (content w AccessToken) (content w NordLynxPrivateKey) w = (r, e, w1)"
  shows "(e = None \<and> (lrLocalRemoved r \<longleftrightarrow> content w AccessToken \<noteq> None \<or> content w NordLynxPrivateKey \<noteq> None) \<and> \<not> lrRemoteRevoked r \<and>
      content w1 = (content w)(AccessToken := None, NordLynxPrivateKey := None)) \<or>
    (r = noLogout \<and> (\<exists>x. e = Some x \<and> (errors_Is x ErrAuthRollbackIncomplete \<or> content w1 = content w)))"
proof -
  let ?a = "content w AccessToken" and ?k = "content w NordLynxPrivateKey"
  obtain e3 w3 where p: "deleteIfPresent st ctx AccessToken (?a \<noteq> None) w = (e3, w3)" by (metis prod.exhaust)
  obtain e4 w4 where q: "deleteIfPresent st ctx NordLynxPrivateKey (?k \<noteq> None) w3 = (e4, w4)" by (metis prod.exhaust)
  have gone: "content v1 = (content v)(k := None)" if "deleteIfPresent st ctx k b v = (None, v1)" "\<not> b \<Longrightarrow> content v k = None" for k b v v1
    using that delete_ok by (cases b) (auto simp: deleteIfPresent_def)
  have other: "content v1 x = content v x" if "deleteIfPresent st ctx k b v = (e, v1)" "x \<noteq> k" for k b v e v1 x
    using that delete_other by (auto simp: deleteIfPresent_def split: if_splits)
  have fail: "(\<exists>x. e = Some x \<and> (errors_Is x ErrAuthRollbackIncomplete \<or> content w1 = content w))"
    if f: "failedRemoval st ctx ?a ?k v = (e, w1)" and o: "\<And>x. x \<noteq> AccessToken \<Longrightarrow> x \<noteq> NordLynxPrivateKey \<Longrightarrow> content v x = content w x" for v
  proof -
    obtain r wa where r: "credRollback st ctx ?a ?k v = (r, wa)" by (metis prod.exhaust)
    have "r = None \<Longrightarrow> content wa = content w" using rollback_restores [OF r o] by (simp add: fun_upd_idem)
    then show ?thesis using f r by (auto simp: failedRemoval_def split: option.splits)
  qed
  have o3: "content w3 x = content w x" if "x \<noteq> AccessToken" for x using other [OF p that] .
  have o4: "content w4 x = content w x" if "x \<noteq> AccessToken" "x \<noteq> NordLynxPrivateKey" for x using other [OF q that(2)] o3 that by simp
  consider "?a = None" "?k = None" | "?a \<noteq> None \<or> ?k \<noteq> None" "e3 = None" "e4 = None" | x where "?a \<noteq> None \<or> ?k \<noteq> None" "e3 = Some x"
    | x where "?a \<noteq> None \<or> ?k \<noteq> None" "e3 = None" "e4 = Some x" by (cases e3; cases e4) auto
  then show ?thesis
  proof cases
    case 1
    then have "(content w)(AccessToken := None, NordLynxPrivateKey := None) = content w" by (simp add: fun_eq_iff)
    then show ?thesis using 1 assms by (auto simp: removePair_def noLogout_def)
  next
    case 2
    have "content w4 = (content w)(AccessToken := None, NordLynxPrivateKey := None)"
      using gone [OF p [unfolded 2]] gone [OF q [unfolded 2]] o3 by simp
    then show ?thesis using 2 assms p q by (auto simp: removePair_def)
  next
    case 3
    then have "r = noLogout \<and> failedRemoval st ctx ?a ?k w3 = (e, w1)" using assms p by (auto simp: removePair_def)
    then show ?thesis using fail [of w3] o3 by blast
  next
    case 4
    then have "r = noLogout \<and> failedRemoval st ctx ?a ?k w4 = (e, w1)" using assms p q by (auto simp: removePair_def)
    then show ?thesis using fail [of w4] o4 by blast
  qed
qed

end

section \<open>The services over a store and a lock\<close>

locale credential_service = credential_store +
  fixes lock :: "'w credLocker"
  assumes lock_keeps: "lock ctx w = (r, w1) \<Longrightarrow> content w1 = content w"
    and release_keeps: "lock ctx w = (Inr release, w1) \<Longrightarrow> release w2 = (er, w3) \<Longrightarrow> content w3 = content w2"
begin

lemma deferRelease_keeps:
  assumes "lock ctx w = (Inr release, w1)" "deferRelease s z release (r, e, w2) = (r', e', w3)"
  shows "content w3 = content w2 \<and> ((r', e') = (r, e) \<or> (r' = z \<and> e' = errors_Join [e, Some (Sentinel s)]))"
  using assms release_keeps [OF assms(1)] by (auto simp: deferRelease_def split: prod.splits option.splits)

lemma join_Is: "errors_Join [e, Some (Sentinel s)] = Some x \<Longrightarrow> errors_Is x t \<longleftrightarrow> (s = t \<or> (\<exists>y. e = Some y \<and> errors_Is y t))"
  by (auto simp: errors_Join_Is)

lemma login_outcome:
  assumes "\<And>ctx t w r w1. provision ctx t w = (r, w1) \<Longrightarrow> content w1 = content w"
    and "Login \<lparr>lsProvisioner = Some provision, lsStore = Some st, lsLocker = Some lock\<rparr> ctx token w = (n, e, w1)"
  shows "(case e of
      None \<Rightarrow> \<exists>pr. n = prAccountID pr \<and> (\<exists>w' w''. provision ctx token w' = (Inr pr, w'')) \<and>
        content w1 = (content w)(AccessToken \<mapsto> token, NordLynxPrivateKey \<mapsto> prPrivateKey pr)
    | Some x \<Rightarrow> n = 0 \<and> (errors_Is x ErrLoginRollbackIncomplete \<or> content w1 = content w \<or>
        (errors_Is x ErrLoginLock \<and> (\<exists>key. content w1 = (content w)(AccessToken \<mapsto> token, NordLynxPrivateKey \<mapsto> key)))))"
proof -
  obtain r wl where l: "lock ctx w = (r, wl)" by (metis prod.exhaust)
  note cl = lock_keeps [OF l]
  show ?thesis
  proof (cases r)
    case (Inl x)
    then show ?thesis using assms(2) l cl by (auto simp: Login_def)
  next
    case (Inr release)
    obtain rp wp where p: "provision ctx token wl = (rp, wp)" by (metis prod.exhaust)
    note cp = assms(1) [OF p]
    show ?thesis
    proof (cases rp)
      case (Inl x)
      have d: "deferRelease ErrLoginLock 0 release (0, Some (WrapErr ''provision VPN credentials'' x), wp) = (n, e, w1)"
        using assms(2) l p Inr Inl by (simp add: Login_def)
      have "n = 0 \<and> e \<noteq> None \<and> content w1 = content w" using deferRelease_keeps [OF l [unfolded Inr] d] cl cp by auto
      then show ?thesis by auto
    next
      case (Inr pr)
      obtain n2 e2 w2 where t: "credTransact st ctx token pr wp = (n2, e2, w2)" by (metis prod.exhaust)
      have d: "deferRelease ErrLoginLock 0 release (n2, e2, w2) = (n, e, w1)"
        using assms(2) l p Inr t \<open>r = Inr release\<close> by (simp add: Login_def)
      note k = deferRelease_keeps [OF l [unfolded \<open>r = Inr release\<close>] d]
      from transact [OF t] show ?thesis
      proof (elim disjE conjE exE)
        assume "e2 = None" "n2 = prAccountID pr" "content w2 = (content wp)(AccessToken \<mapsto> token, NordLynxPrivateKey \<mapsto> prPrivateKey pr)"
        then show ?thesis using k cl cp p Inr by fastforce
      next
        fix x assume x: "n2 = 0" "e2 = Some x" "errors_Is x ErrLoginRollbackIncomplete"
        then show ?thesis using k by auto
      next
        fix x assume x: "n2 = 0" "e2 = Some x" "content w2 = content wp"
        then show ?thesis using k cl cp by auto
      qed
    qed
  qed
qed

lemma captures_keep:
  assumes "credCapture st ctx AccessToken w = (ra, wa)" "credCapture st ctx NordLynxPrivateKey wa = (rk, wk)"
  shows "content wa = content w \<and> content wk = content w \<and> (\<forall>a. ra = Inr a \<longrightarrow> a = content w AccessToken) \<and> (\<forall>k. rk = Inr k \<longrightarrow> k = content w NordLynxPrivateKey)"
  using capture_reads [OF assms(1)] capture_reads [OF assms(2)] by auto

lemma inspect_outcome:
  assumes "auth_Inspect \<lparr>auStore = Some st, auLocker = Some lock\<rparr> ctx w = (r, e, w1)"
  shows "content w1 = content w \<and> (case e of
      None \<Rightarrow> r = Some (auth_status (content w AccessToken \<noteq> None) (content w NordLynxPrivateKey \<noteq> None)) | Some x \<Rightarrow> r = None)"
proof -
  obtain rl wl where l: "lock ctx w = (rl, wl)" by (metis prod.exhaust)
  obtain ra wa where a: "credCapture st ctx AccessToken wl = (ra, wa)" by (metis prod.exhaust)
  obtain rk wk where k: "credCapture st ctx NordLynxPrivateKey wa = (rk, wk)" by (metis prod.exhaust)
  note c = lock_keeps [OF l] captures_keep [OF a k]
  show ?thesis
  proof (cases rl)
    case (Inl x)
    then show ?thesis using assms l c by (auto simp: auth_Inspect_def auth_acquire_def)
  next
    case (Inr release)
    obtain r2 e2 w2 where d: "deferRelease ErrAuthLock None release (r2, e2, w2) = (r, e, w1)"
      and b: "content w2 = content w" "e2 = None \<longrightarrow> r2 = Some (auth_status (content w AccessToken \<noteq> None) (content w NordLynxPrivateKey \<noteq> None))"
        "e2 \<noteq> None \<longrightarrow> r2 = None"
      using assms l a k c Inr by (cases ra; cases rk) (force simp: auth_Inspect_def auth_acquire_def)+
    show ?thesis using deferRelease_keeps [OF l [unfolded Inr] d] b by (auto split: option.splits)
  qed
qed

lemma logout_outcome:
  assumes "LogoutLocal \<lparr>auStore = Some st, auLocker = Some lock\<rparr> ctx w = (r, e, w1)"
  shows "(case e of
      None \<Rightarrow> (lrLocalRemoved r \<longleftrightarrow> content w AccessToken \<noteq> None \<or> content w NordLynxPrivateKey \<noteq> None) \<and> \<not> lrRemoteRevoked r \<and>
        content w1 = (content w)(AccessToken := None, NordLynxPrivateKey := None)
    | Some x \<Rightarrow> r = noLogout \<and> (errors_Is x ErrAuthRollbackIncomplete \<or> content w1 = content w \<or>
        (errors_Is x ErrAuthLock \<and> content w1 = (content w)(AccessToken := None, NordLynxPrivateKey := None))))"
proof -
  obtain rl wl where l: "lock ctx w = (rl, wl)" by (metis prod.exhaust)
  obtain ra wa where a: "credCapture st ctx AccessToken wl = (ra, wa)" by (metis prod.exhaust)
  obtain rk wk where k: "credCapture st ctx NordLynxPrivateKey wa = (rk, wk)" by (metis prod.exhaust)
  note c = lock_keeps [OF l] captures_keep [OF a k]
  show ?thesis
  proof (cases rl)
    case (Inl x)
    then show ?thesis using assms l c by (auto simp: LogoutLocal_def auth_acquire_def)
  next
    case (Inr release)
    obtain r2 e2 w2 where d: "deferRelease ErrAuthLock noLogout release (r2, e2, w2) = (r, e, w1)"
      and b: "(r2 = noLogout \<and> e2 = Some (Sentinel ErrAuthRead) \<and> content w2 = content w) \<or>
        removePair st ctx (content w AccessToken) (content w NordLynxPrivateKey) wk = (r2, e2, w2)"
    proof (cases "\<exists>x y. ra = Inr x \<and> rk = Inr y")
      case True
      obtain r2 e2 w2 where "removePair st ctx (content w AccessToken) (content w NordLynxPrivateKey) wk = (r2, e2, w2)" by (metis prod.exhaust)
      then show ?thesis using assms l a k c Inr True that by (auto simp: LogoutLocal_def auth_acquire_def)
    next
      case False
      then show ?thesis using assms l a k c Inr that [of noLogout "Some (Sentinel ErrAuthRead)"]
        by (cases ra; cases rk) (auto simp: LogoutLocal_def auth_acquire_def)
    qed
    from b show ?thesis
    proof
      assume "r2 = noLogout \<and> e2 = Some (Sentinel ErrAuthRead) \<and> content w2 = content w"
      then show ?thesis using deferRelease_keeps [OF l [unfolded Inr] d] by auto
    next
      assume "removePair st ctx (content w AccessToken) (content w NordLynxPrivateKey) wk = (r2, e2, w2)"
      then have "removePair st ctx (content wk AccessToken) (content wk NordLynxPrivateKey) wk = (r2, e2, w2)" using c by simp
      from remove_pair [OF this] show ?thesis using deferRelease_keeps [OF l [unfolded Inr] d] c by auto
    qed
  qed
qed

end

end
