(* ===== verification/Native_Keychain.thy ===== *)
theory Native_Keychain
  imports Credentials Go_Text
begin

text \<open>
  The Keychain boundary: the Go store of \<^verbatim>\<open>internal/nativekeychain/store.go\<close> over a process runner, the
  helper program it runs (\<^verbatim>\<open>native/keychain-helper/main.swift\<close>) over the Keychain, the location of the
  packaged helper (\<^verbatim>\<open>package.go\<close>) and the read-only \<^verbatim>\<open>security(1)\<close> store of \<^verbatim>\<open>internal/keychain\<close>.
  The store running the helper is shown to keep the contract \<open>credential_store\<close>.
\<close>

section \<open>The Go store\<close>

datatype runErr = StartError | ExitError int

type_synonym 'w stdinRunner = "ctx \<Rightarrow> byte list \<Rightarrow> string \<Rightarrow> string list \<Rightarrow> 'w \<Rightarrow> (byte list \<times> byte list \<times> runErr option) \<times> 'w"

record 'w nativeStore =
  nsRunner :: "'w stdinRunner option"
  nsHelper :: string
  nsKeychain :: string
  nsTarget :: string

text \<open>\<^verbatim>\<open>filepath.Base\<close> and \<^verbatim>\<open>filepath.Dir\<close> of a clean absolute path.\<close>

definition filepath_Base :: "string \<Rightarrow> string" where
  "filepath_Base p = (case clean_segments [] (split_slash [] p) of [] \<Rightarrow> ''/'' | xs \<Rightarrow> last xs)"

definition filepath_Dir :: "string \<Rightarrow> string" where
  "filepath_Dir p = (case butlast (clean_segments [] (split_slash [] p)) of [] \<Rightarrow> ''/'' | xs \<Rightarrow> concat (map (\<lambda>x. CHR ''/'' # x) xs))"

definition validationPrefix :: string where
  "validationPrefix = ''nordmac-keychain-native-validation-''"

definition validationDirectoryPattern :: "string \<Rightarrow> bool" where
  "validationDirectoryPattern name =
     (strings_HasPrefix name validationPrefix \<and> length name = length validationPrefix + 32 \<and>
      list_all is_lower_hex (drop (length validationPrefix) name))"

definition canonicalHelper :: "string \<Rightarrow> gerror option" where
  "canonicalHelper helper = reject (\<not> filepath_IsAbs helper \<or> filepath_Clean helper \<noteq> helper)
     ''native Keychain helper path must be absolute and canonical''"

definition NewValidation :: "'w stdinRunner \<Rightarrow> string \<Rightarrow> string \<Rightarrow> gerror + 'w nativeStore" where
  "NewValidation run helper keychainPath = (case canonicalHelper helper of
     Some e \<Rightarrow> Inl e
   | None \<Rightarrow> (let clean = filepath_Clean keychainPath in
       if \<not> filepath_IsAbs keychainPath \<or> filepath_Base clean \<noteq> ''validation.keychain-db'' \<or>
          filepath_Dir (filepath_Dir clean) \<noteq> ''/private/tmp'' \<or> \<not> validationDirectoryPattern (filepath_Base (filepath_Dir clean))
       then Inl (Err ''invalid native validation Keychain path'')
       else Inr \<lparr>nsRunner = Some run, nsHelper = helper, nsKeychain = clean, nsTarget = ''isolated''\<rparr>))"

definition NewLoginValidation :: "'w stdinRunner \<Rightarrow> string \<Rightarrow> gerror + 'w nativeStore" where
  "NewLoginValidation run helper = (case canonicalHelper helper of
     Some e \<Rightarrow> Inl e
   | None \<Rightarrow> Inr \<lparr>nsRunner = Some run, nsHelper = helper, nsKeychain = [], nsTarget = ''login-validation''\<rparr>)"

definition NewLogin :: "'w stdinRunner \<Rightarrow> string \<Rightarrow> gerror + 'w nativeStore" where
  "NewLogin run helper = (case canonicalHelper helper of
     Some e \<Rightarrow> Inl e
   | None \<Rightarrow> Inr \<lparr>nsRunner = Some run, nsHelper = helper, nsKeychain = [], nsTarget = ''login''\<rparr>)"

definition native_validate :: "'w nativeStore \<Rightarrow> string \<Rightarrow> gerror option" where
  "native_validate s kind = first_err [
     kind_Validate kind,
     reject (nsRunner s = None \<or> nsHelper s = []) ''native Keychain validation store is incomplete'',
     reject (nsTarget s = ''isolated'' \<and> nsKeychain s = []) ''native Keychain validation store is incomplete'',
     reject (nsTarget s \<noteq> ''isolated'' \<and> nsTarget s \<noteq> ''login-validation'' \<and> nsTarget s \<noteq> ''login'') ''invalid native Keychain validation target'']"

definition native_arguments :: "'w nativeStore \<Rightarrow> string \<Rightarrow> string \<Rightarrow> string list" where
  "native_arguments s operation kind =
     (if nsTarget s = ''login-validation'' then [operation, kind, ''--login-keychain-validation'']
      else if nsTarget s = ''login'' then [operation, kind, ''--login-keychain'']
      else [operation, kind, ''--validation-keychain'', nsKeychain s])"

definition native_write :: "'w nativeStore \<Rightarrow> ctx \<Rightarrow> string \<Rightarrow> string \<Rightarrow> byte list \<Rightarrow> 'w \<Rightarrow> gerror option \<times> 'w" where
  "native_write s ctx operation kind secret w = (case native_validate s kind of
     Some e \<Rightarrow> (Some e, w)
   | None \<Rightarrow>
      (if secret = [] \<or> length secret > 4096 then (Some (Err ''invalid credential length''), w)
       else (case the (nsRunner s) ctx secret (nsHelper s) (native_arguments s operation kind) w of
         ((out, err, Some e), w1) \<Rightarrow> (Some (Err ''native Keychain write failed''), w1)
       | ((out, err, None), w1) \<Rightarrow> (None, w1))))"

definition native_Put :: "'w nativeStore \<Rightarrow> ctx \<Rightarrow> string \<Rightarrow> byte list \<Rightarrow> 'w \<Rightarrow> gerror option \<times> 'w" where
  "native_Put s ctx kind secret w = native_write s ctx ''put'' kind secret w"

definition CreateValidation :: "'w nativeStore \<Rightarrow> ctx \<Rightarrow> string \<Rightarrow> byte list \<Rightarrow> 'w \<Rightarrow> gerror option \<times> 'w" where
  "CreateValidation s ctx kind secret w = native_write s ctx ''create'' kind secret w"

definition ReplaceValidation :: "'w nativeStore \<Rightarrow> ctx \<Rightarrow> string \<Rightarrow> byte list \<Rightarrow> 'w \<Rightarrow> gerror option \<times> 'w" where
  "ReplaceValidation s ctx kind secret w = native_write s ctx ''replace'' kind secret w"

definition native_Get :: "'w nativeStore \<Rightarrow> ctx \<Rightarrow> string \<Rightarrow> 'w \<Rightarrow> (gerror + byte list) \<times> 'w" where
  "native_Get s ctx kind w = (case native_validate s kind of
     Some e \<Rightarrow> (Inl e, w)
   | None \<Rightarrow> (case the (nsRunner s) ctx [] (nsHelper s) (native_arguments s ''get'' kind) w of
       ((out, err, Some e), w1) \<Rightarrow>
         (if e = ExitError 44 then (Inl (Sentinel ErrCredentialNotFound), w1) else (Inl (Err ''native Keychain read failed''), w1))
     | ((out, err, None), w1) \<Rightarrow>
         (if out = [] \<or> length out > 4096 then (Inl (Err ''native Keychain returned invalid credential data''), w1) else (Inr out, w1))))"

definition native_Delete :: "'w nativeStore \<Rightarrow> ctx \<Rightarrow> string \<Rightarrow> 'w \<Rightarrow> gerror option \<times> 'w" where
  "native_Delete s ctx kind w = (case native_validate s kind of
     Some e \<Rightarrow> (Some e, w)
   | None \<Rightarrow> (case the (nsRunner s) ctx [] (nsHelper s) (native_arguments s ''delete'' kind) w of
       ((out, err, Some e), w1) \<Rightarrow>
         (if e = ExitError 44 then (Some (Sentinel ErrCredentialNotFound), w1) else (Some (Err ''native Keychain delete failed''), w1))
     | ((out, err, None), w1) \<Rightarrow> (None, w1)))"

definition nativeStoreOf :: "'w nativeStore \<Rightarrow> 'w credStore" where
  "nativeStoreOf s = \<lparr>csPut = native_Put s, csGet = native_Get s, csDelete = native_Delete s\<rparr>"

section \<open>The Keychain and the helper process\<close>

text \<open>
  A generic-password item is known by its keychain file, service and account. \<open>kcFaults\<close> says for each
  step that can fail (the start of the process, a call of the Security framework, the process being
  killed before it exits) whether it does; \<open>kcAttributes\<close> gives owner and permissions of a path.
\<close>

record kcWorld =
  kcItems :: "string \<times> string \<times> string \<Rightarrow> byte list option"
  kcFaults :: "bool list"
  kcUid :: int
  kcEuid :: int
  kcHome :: string
  kcAttributes :: "string \<Rightarrow> (int \<times> 16 word) option"

definition kc_step :: "kcWorld \<Rightarrow> bool \<times> kcWorld" where
  "kc_step w = (case kcFaults w of [] \<Rightarrow> (True, w) | b # bs \<Rightarrow> (\<not> b, w\<lparr>kcFaults := bs\<rparr>))"

datatype secStatus = errSecSuccess | errSecItemNotFound | errSecDuplicateItem | errSecOther

definition SecItemAdd :: "string \<times> string \<times> string \<Rightarrow> byte list \<Rightarrow> kcWorld \<Rightarrow> secStatus \<times> kcWorld" where
  "SecItemAdd q v w = (case kc_step w of
     (False, w1) \<Rightarrow> (errSecOther, w1)
   | (True, w1) \<Rightarrow> if kcItems w1 q \<noteq> None then (errSecDuplicateItem, w1) else (errSecSuccess, w1\<lparr>kcItems := (kcItems w1)(q \<mapsto> v)\<rparr>))"

definition SecItemUpdate :: "string \<times> string \<times> string \<Rightarrow> byte list \<Rightarrow> kcWorld \<Rightarrow> secStatus \<times> kcWorld" where
  "SecItemUpdate q v w = (case kc_step w of
     (False, w1) \<Rightarrow> (errSecOther, w1)
   | (True, w1) \<Rightarrow> if kcItems w1 q = None then (errSecItemNotFound, w1) else (errSecSuccess, w1\<lparr>kcItems := (kcItems w1)(q \<mapsto> v)\<rparr>))"

definition SecItemCopyMatching :: "string \<times> string \<times> string \<Rightarrow> kcWorld \<Rightarrow> secStatus \<times> byte list \<times> kcWorld" where
  "SecItemCopyMatching q w = (case kc_step w of
     (False, w1) \<Rightarrow> (errSecOther, [], w1)
   | (True, w1) \<Rightarrow> (case kcItems w1 q of None \<Rightarrow> (errSecItemNotFound, [], w1) | Some v \<Rightarrow> (errSecSuccess, v, w1)))"

definition SecItemDelete :: "string \<times> string \<times> string \<Rightarrow> kcWorld \<Rightarrow> secStatus \<times> kcWorld" where
  "SecItemDelete q w = (case kc_step w of
     (False, w1) \<Rightarrow> (errSecOther, w1)
   | (True, w1) \<Rightarrow> if kcItems w1 q = None then (errSecItemNotFound, w1) else (errSecSuccess, w1\<lparr>kcItems := (kcItems w1)(q := None)\<rparr>))"

definition isolatedValidationService :: string where
  "isolatedValidationService = ''com.github.b1rd33.nordmac.validation''"

definition loginValidationService :: string where
  "loginValidationService = ''com.github.b1rd33.nordmac.validation.native''"

definition productionService :: string where
  "productionService = ''com.github.b1rd33.nordmac''"

definition openKeychain :: "string \<Rightarrow> string \<Rightarrow> kcWorld \<Rightarrow> (string \<times> string) option \<times> kcWorld" where
  "openKeychain path service w = (case kc_step w of (True, w1) \<Rightarrow> (Some (path, service), w1) | (False, w1) \<Rightarrow> (None, w1))"

definition loginPath :: "kcWorld \<Rightarrow> string" where
  "loginPath w = kcHome w @ ''/Library/Keychains/login.keychain-db''"

definition irregularPath :: "string \<Rightarrow> bool" where
  "irregularPath p = (strings_Contains p ''//'' \<or> strings_Contains p ''/./'' \<or> strings_Contains p ''/../'')"

definition loginKeychainTarget :: "string \<Rightarrow> kcWorld \<Rightarrow> (string \<times> string) option \<times> kcWorld" where
  "loginKeychainTarget service w =
     (if kcUid w = 0 \<or> kcEuid w = 0 then (None, w)
      else if \<not> strings_HasPrefix (kcHome w) ''/Users/'' \<or> irregularPath (kcHome w) then (None, w)
      else (case kcAttributes w (kcHome w) of
        None \<Rightarrow> (None, w)
      | Some (owner, _) \<Rightarrow> if owner \<noteq> kcUid w then (None, w) else openKeychain (loginPath w) service w))"

text \<open>In the helper's regular expression \<^verbatim>\<open>$\<close> also matches before a final line terminator.\<close>

definition lineEnds :: "string list" where
  "lineEnds = [[CHR 0x0A], [CHR 0x0B], [CHR 0x0C], [CHR 0x0D], [CHR 0x0D, CHR 0x0A], [CHR 0xC2, CHR 0x85],
     [CHR 0xE2, CHR 0x80, CHR 0xA8], [CHR 0xE2, CHR 0x80, CHR 0xA9]]"

definition sessionPattern :: "string \<Rightarrow> bool" where
  "sessionPattern name = (validationDirectoryPattern name \<or>
     list_ex (\<lambda>e. length e \<le> length name \<and> drop (length name - length e) name = e \<and> validationDirectoryPattern (take (length name - length e) name)) lineEnds)"

definition ns_components :: "string \<Rightarrow> string list" where
  "ns_components p = filter (\<lambda>x. x \<noteq> []) (split_slash [] p)"

definition ns_deletingLast :: "string \<Rightarrow> string" where
  "ns_deletingLast p = (case butlast (ns_components p) of [] \<Rightarrow> ''/'' | xs \<Rightarrow> concat (map (\<lambda>x. CHR ''/'' # x) xs))"

definition ns_last :: "string \<Rightarrow> string" where
  "ns_last p = (case ns_components p of [] \<Rightarrow> ''/'' | xs \<Rightarrow> last xs)"

definition isolatedTarget :: "string \<Rightarrow> kcWorld \<Rightarrow> (string \<times> string) option \<times> kcWorld" where
  "isolatedTarget path w =
     (if \<not> strings_HasPrefix path ''/private/tmp/'' \<or> irregularPath path \<or> ns_last path \<noteq> ''validation.keychain-db'' \<or>
         ns_deletingLast (ns_deletingLast path) \<noteq> ''/private/tmp'' \<or> \<not> sessionPattern (ns_last (ns_deletingLast path)) then (None, w)
      else (case kcAttributes w (ns_deletingLast path) of
        None \<Rightarrow> (None, w)
      | Some (owner, perm) \<Rightarrow> if owner \<noteq> kcUid w \<or> perm \<noteq> 0x1C0 then (None, w) else openKeychain path isolatedValidationService w))"

text \<open>\<open>args\<close> are the program's arguments after its name.\<close>

definition validationTarget :: "string list \<Rightarrow> kcWorld \<Rightarrow> (string \<times> string) option \<times> kcWorld" where
  "validationTarget args w =
     (if length args = 3 \<and> args ! 2 = ''--login-keychain-validation'' then loginKeychainTarget loginValidationService w
      else if length args = 3 \<and> args ! 2 = ''--login-keychain'' then loginKeychainTarget productionService w
      else if length args \<noteq> 4 \<or> args ! 2 \<noteq> ''--validation-keychain'' then (None, w)
      else isolatedTarget (args ! 3) w)"

definition exit_ok :: "secStatus \<Rightarrow> int" where
  "exit_ok s = (if s = errSecSuccess then 0 else 1)"

definition helper_operation :: "string \<Rightarrow> string \<times> string \<times> string \<Rightarrow> byte list \<Rightarrow> kcWorld \<Rightarrow> (int \<times> byte list) \<times> kcWorld" where
  "helper_operation operation q secret w =
     (if operation = ''create'' then
        (if secret = [] \<or> length secret > 4096 then ((1, []), w) else (let (s, w1) = SecItemAdd q secret w in ((exit_ok s, []), w1)))
      else if operation = ''replace'' then
        (if secret = [] \<or> length secret > 4096 then ((1, []), w) else (let (s, w1) = SecItemUpdate q secret w in ((exit_ok s, []), w1)))
      else if operation = ''put'' then
        (if secret = [] \<or> length secret > 4096 then ((1, []), w)
         else (case SecItemUpdate q secret w of
           (errSecItemNotFound, w1) \<Rightarrow> (let (s, w2) = SecItemAdd q secret w1 in ((exit_ok s, []), w2))
         | (s, w1) \<Rightarrow> ((exit_ok s, []), w1)))
      else if operation = ''get'' then
        (case SecItemCopyMatching q w of
           (errSecItemNotFound, _, w1) \<Rightarrow> ((44, []), w1)
         | (s, v, w1) \<Rightarrow> if s = errSecSuccess \<and> v \<noteq> [] then ((0, v), w1) else ((1, []), w1))
      else if operation = ''delete'' then
        (case SecItemDelete q w of (errSecItemNotFound, w1) \<Rightarrow> ((44, []), w1) | (s, w1) \<Rightarrow> ((exit_ok s, []), w1))
      else ((1, []), w))"

definition helper_main :: "string list \<Rightarrow> byte list \<Rightarrow> kcWorld \<Rightarrow> (int \<times> byte list) \<times> kcWorld" where
  "helper_main args secret w =
     (if length args < 2 \<or> (args ! 1 \<noteq> ''access-token'' \<and> args ! 1 \<noteq> ''nordlynx-private-key'') then ((1, []), w)
      else (case validationTarget args w of
        (None, w1) \<Rightarrow> ((1, []), w1)
      | (Some (path, service), w1) \<Rightarrow> helper_operation (args ! 0) (path, service, args ! 1) secret w1))"

text \<open>\<^verbatim>\<open>commandRunner.Run\<close> with the helper as the binary; a killed process has exit code -1.\<close>

definition helper_Run :: "kcWorld stdinRunner" where
  "helper_Run ctx stdin binary args w = (case kc_step w of
     (False, w1) \<Rightarrow> (([], [], Some StartError), w1)
   | (True, w1) \<Rightarrow> (case helper_main args stdin w1 of ((code, out), w2) \<Rightarrow> (case kc_step w2 of
       (False, w3) \<Rightarrow> ((out, [], Some (ExitError (-1))), w3)
     | (True, w3) \<Rightarrow> ((out, [], if code = 0 then None else Some (ExitError code)), w3))))"

section \<open>The store over the helper keeps the contract\<close>

definition native_item :: "'w nativeStore \<Rightarrow> kcWorld \<Rightarrow> string \<Rightarrow> string \<times> string \<times> string" where
  "native_item s w kind =
     (if nsTarget s = ''login-validation'' then (loginPath w, loginValidationService, kind)
      else if nsTarget s = ''login'' then (loginPath w, productionService, kind)
      else (nsKeychain s, isolatedValidationService, kind))"

definition native_content :: "'w nativeStore \<Rightarrow> kcWorld \<Rightarrow> string \<Rightarrow> byte list option" where
  "native_content s w kind = kcItems w (native_item s w kind)"

definition helperStore :: "kcWorld nativeStore \<Rightarrow> kcWorld nativeStore" where
  "helperStore s = s\<lparr>nsRunner := Some helper_Run\<rparr>"

named_theorems kc_simps \<open>definitions of the Keychain calls\<close>

declare SecItemAdd_def [kc_simps] SecItemUpdate_def [kc_simps] SecItemCopyMatching_def [kc_simps] SecItemDelete_def [kc_simps]
  exit_ok_def [kc_simps] openKeychain_def [kc_simps]

definition same_host :: "kcWorld \<Rightarrow> kcWorld \<Rightarrow> bool" where
  "same_host w w1 \<longleftrightarrow> kcHome w1 = kcHome w \<and> kcItems w1 = kcItems w"

lemma kc_step_host: "kc_step w = (b, w1) \<Longrightarrow> same_host w w1"
  by (auto simp: kc_step_def same_host_def split: list.splits)

lemma same_host_trans: "same_host w w1 \<Longrightarrow> same_host w1 w2 \<Longrightarrow> same_host w w2"
  by (simp add: same_host_def)

lemma target_host: "validationTarget args w = (t, w1) \<Longrightarrow> same_host w w1"
  by (auto simp: validationTarget_def loginKeychainTarget_def isolatedTarget_def openKeychain_def same_host_def
      split: if_splits option.splits prod.splits bool.splits dest!: kc_step_host)

lemma target_item:
  assumes "validationTarget (native_arguments s op k) w = (Some (path, service), w1)"
  shows "(path, service, k) = native_item s w k"
  using assms by (auto simp: validationTarget_def native_arguments_def native_item_def loginKeychainTarget_def isolatedTarget_def openKeychain_def
      split: if_splits option.splits prod.splits bool.splits)

lemma operation_put:
  assumes "helper_operation ''put'' q v w = ((code, out), w1)"
  shows "kcHome w1 = kcHome w \<and> (if code = 0 then kcItems w1 = (kcItems w)(q \<mapsto> v) else code = 1 \<and> kcItems w1 = kcItems w)"
  using assms by (auto simp: helper_operation_def kc_simps same_host_def split: if_splits prod.splits bool.splits secStatus.splits dest!: kc_step_host)

lemma operation_get:
  assumes "helper_operation ''get'' q v w = ((code, out), w1)"
  shows "same_host w w1 \<and> (code = 0 \<and> kcItems w q = Some out \<or> code = 44 \<and> kcItems w q = None \<or> code = 1)"
  using assms by (auto simp: helper_operation_def kc_simps same_host_def split: if_splits prod.splits bool.splits secStatus.splits option.splits dest!: kc_step_host)

lemma operation_delete:
  assumes "helper_operation ''delete'' q v w = ((code, out), w1)"
  shows "kcHome w1 = kcHome w \<and> (code = 0 \<and> kcItems w1 = (kcItems w)(q := None) \<or> code = 44 \<and> kcItems w q = None \<and> kcItems w1 = kcItems w \<or>
    code = 1 \<and> kcItems w1 = kcItems w)"
  using assms by (auto simp: helper_operation_def kc_simps same_host_def split: if_splits prod.splits bool.splits secStatus.splits dest!: kc_step_host)

lemma native_item_host: "kcHome w1 = kcHome w \<Longrightarrow> native_item s w1 k = native_item s w k"
  by (simp add: native_item_def loginPath_def)

text \<open>One run of the helper: it fails before touching an item, or performs the operation, after which it may still be killed.\<close>

lemma helper_Run_cases:
  assumes "helper_Run ctx v h (native_arguments s op k) w = ((out, err, e), w1)"
  obtains "same_host w w1" "e \<noteq> None" "e \<noteq> Some (ExitError 44)"
  | w2 code w3 where "same_host w w2" "helper_operation op (native_item s w k) v w2 = ((code, out), w3)" "same_host w3 w1"
      "e = Some (ExitError (-1)) \<or> e = (if code = 0 then None else Some (ExitError code))"
proof -
  obtain b wa where a: "kc_step w = (b, wa)" by (metis prod.exhaust)
  obtain t wb where t: "validationTarget (native_arguments s op k) wa = (t, wb)" by (metis prod.exhaust)
  obtain code o2 wc where m: "helper_main (native_arguments s op k) v wa = ((code, o2), wc)" by (metis prod.exhaust)
  obtain d wd where z: "kc_step wc = (d, wd)" by (metis prod.exhaust)
  note hosts = kc_step_host [OF a] target_host [OF t] kc_step_host [OF z]
  have args: "native_arguments s op k ! 0 = op" "native_arguments s op k ! 1 = k" by (simp_all add: native_arguments_def)
  show thesis
  proof (cases b)
    case False
    then show thesis using assms a hosts that(1) by (auto simp: helper_Run_def)
  next
    case True
    then have r: "out = o2" "w1 = wd" "e = (if \<not> d then Some (ExitError (-1)) else if code = 0 then None else Some (ExitError code))"
      using assms a m z by (auto simp: helper_Run_def split: bool.splits)
    show thesis
    proof (cases "code = 1 \<and> same_host wa wc")
      case True
      then show thesis using r hosts by (intro that(1)) (auto simp: same_host_def)
    next
      case False
      then obtain path service where p: "t = Some (path, service)"
        and o: "helper_operation op (path, service, k) v wb = ((code, o2), wc)"
        using m t args hosts by (auto simp: helper_main_def same_host_def split: if_splits option.splits)
      have "(path, service, k) = native_item s w k"
        using target_item [OF t [unfolded p]] native_item_host [of wa w s k] hosts(1) by (simp add: same_host_def)
      then show thesis using that(2) [of wb code wc] o r hosts same_host_trans by auto
    qed
  qed
qed

lemma native_item_inj: "native_item s w k = native_item s w k' \<longleftrightarrow> k = k'"
  by (auto simp: native_item_def)

lemma native_content_upd:
  "kcHome w1 = kcHome w \<Longrightarrow> kcItems w1 = (kcItems w)(native_item s w k := b) \<Longrightarrow> native_content s w1 = (native_content s w)(k := b)"
  using native_item_host [of w1 w s] by (intro ext) (simp add: native_content_def native_item_inj)

lemma native_content_same: "same_host w w1 \<Longrightarrow> native_content s w1 = native_content s w"
  using native_item_host [of w1 w s] by (intro ext) (simp add: native_content_def same_host_def)

lemma helperStore_simps [simp]:
  "nsRunner (helperStore s) = Some helper_Run" "native_arguments (helperStore s) = native_arguments s" "nsHelper (helperStore s) = nsHelper s"
  by (simp_all add: helperStore_def native_arguments_def fun_eq_iff)

lemma native_put_effect:
  assumes "native_Put (helperStore s) ctx k v w = (r, w1)"
  shows "native_content s w1 = (native_content s w)(k \<mapsto> v) \<or> r \<noteq> None \<and> native_content s w1 = native_content s w"
proof (cases "native_validate (helperStore s) k = None \<and> v \<noteq> [] \<and> length v \<le> 4096")
  case False
  then show ?thesis using assms by (auto simp: native_Put_def native_write_def split: option.splits if_splits)
next
  case True
  obtain out err e where h: "helper_Run ctx v (nsHelper s) (native_arguments s ''put'' k) w = ((out, err, e), w1)" and r: "r = None \<longleftrightarrow> e = None"
    using assms True by (auto simp: native_Put_def native_write_def split: prod.splits option.splits)
  show ?thesis
  proof (rule helper_Run_cases [OF h])
    assume "same_host w w1" "e \<noteq> None" then show ?thesis using r native_content_same by auto
  next
    fix w2 code w3 assume c: "same_host w w2" "helper_operation ''put'' (native_item s w k) v w2 = ((code, out), w3)" "same_host w3 w1"
      "e = Some (ExitError (-1)) \<or> e = (if code = 0 then None else Some (ExitError code))"
    note o = operation_put [OF c(2)]
    show ?thesis
    proof (cases "code = 0")
      case True
      then show ?thesis using o c native_content_upd [of w1 w s k "Some v"] by (simp add: same_host_def)
    next
      case False
      then show ?thesis using o c r native_content_same [of w w1] by (auto simp: same_host_def)
    qed
  qed
qed

lemma native_get_effect:
  assumes "native_Get (helperStore s) ctx k w = (r, w1)"
  shows "native_content s w1 = native_content s w \<and> (\<forall>v. r = Inr v \<longrightarrow> native_content s w k = Some v) \<and>
    (\<forall>e. r = Inl e \<longrightarrow> errors_Is e ErrCredentialNotFound \<longrightarrow> native_content s w k = None)"
proof (cases "native_validate (helperStore s) k")
  case (Some x)
  then have "\<not> errors_Is x ErrCredentialNotFound"
    by (auto simp: native_validate_def kind_Validate_def dest!: first_err_Some_mem dest: reject_not_Is [OF sym])
  then show ?thesis using assms Some by (auto simp: native_Get_def)
next
  case None
  obtain out err e where h: "helper_Run ctx [] (nsHelper s) (native_arguments s ''get'' k) w = ((out, err, e), w1)"
    and r: "r = (case e of Some e \<Rightarrow> if e = ExitError 44 then Inl (Sentinel ErrCredentialNotFound) else Inl (Err ''native Keychain read failed'')
       | None \<Rightarrow> if out = [] \<or> length out > 4096 then Inl (Err ''native Keychain returned invalid credential data'') else Inr out)"
    using assms None by (auto simp: native_Get_def split: prod.splits option.splits if_splits)
  show ?thesis
  proof (rule helper_Run_cases [OF h])
    assume "same_host w w1" "e \<noteq> None" "e \<noteq> Some (ExitError 44)"
    then show ?thesis using r native_content_same by (auto split: if_splits)
  next
    fix w2 code w3 assume c: "same_host w w2" "helper_operation ''get'' (native_item s w k) [] w2 = ((code, out), w3)" "same_host w3 w1"
      "e = Some (ExitError (-1)) \<or> e = (if code = 0 then None else Some (ExitError code))"
    have q: "kcItems w2 (native_item s w k) = native_content s w k" using c(1) by (simp add: native_content_def same_host_def)
    have "same_host w w1" using c operation_get [OF c(2)] same_host_trans by blast
    then show ?thesis using operation_get [OF c(2)] c(4) r q native_content_same by (auto split: if_splits)
  qed
qed

lemma native_delete_effect:
  assumes "native_Delete (helperStore s) ctx k w = (r, w1)"
  shows "(native_content s w1 = (native_content s w)(k := None) \<or> r \<noteq> None \<and> native_content s w1 = native_content s w) \<and>
    (\<forall>e. r = Some e \<longrightarrow> errors_Is e ErrCredentialNotFound \<longrightarrow> native_content s w1 k = None)"
proof (cases "native_validate (helperStore s) k")
  case (Some x)
  then have "\<not> errors_Is x ErrCredentialNotFound"
    by (auto simp: native_validate_def kind_Validate_def dest!: first_err_Some_mem dest: reject_not_Is [OF sym])
  then show ?thesis using assms Some by (auto simp: native_Delete_def)
next
  case None
  obtain out err e where h: "helper_Run ctx [] (nsHelper s) (native_arguments s ''delete'' k) w = ((out, err, e), w1)"
    and r: "r = (case e of Some e \<Rightarrow> if e = ExitError 44 then Some (Sentinel ErrCredentialNotFound) else Some (Err ''native Keychain delete failed'')
       | None \<Rightarrow> None)"
    using assms None by (auto simp: native_Delete_def split: prod.splits option.splits if_splits)
  show ?thesis
  proof (rule helper_Run_cases [OF h])
    assume "same_host w w1" "e \<noteq> None" "e \<noteq> Some (ExitError 44)"
    then show ?thesis using r native_content_same by (auto split: if_splits)
  next
    fix w2 code w3 assume c: "same_host w w2" "helper_operation ''delete'' (native_item s w k) [] w2 = ((code, out), w3)" "same_host w3 w1"
      "e = Some (ExitError (-1)) \<or> e = (if code = 0 then None else Some (ExitError code))"
    have q: "kcItems w2 (native_item s w k) = native_content s w k" using c(1) by (simp add: native_content_def same_host_def)
    note o = operation_delete [OF c(2)]
    have "native_content s w1 = (native_content s w)(k := None)" if "code = 0"
      using that o c native_content_upd [of w1 w s k None] by (simp add: same_host_def)
    moreover have "native_content s w1 = native_content s w" if "code \<noteq> 0"
      using that o c native_content_same [of w w1] by (auto simp: same_host_def)
    ultimately show ?thesis using o c(4) r q by (auto split: if_splits)
  qed
qed

interpretation native: credential_store "nativeStoreOf (helperStore s)" "native_content s" for s
  by unfold_locales
    (auto simp: nativeStoreOf_def dest!: native_put_effect native_get_effect native_delete_effect)

end
