(* ===== verification/Credential_Properties.thy ===== *)
theory Credential_Properties
  imports Native_Keychain File_Lock
begin

text \<open>
  Login, logout and inspection as \<^verbatim>\<open>cmd/nordmac/main.go\<close> puts them together: the store is the native
  Keychain store, the lock is the credential lock file, so the world is a file system beside a Keychain.
\<close>

declare split_paired_All [simp del] split_paired_Ex [simp del]

section \<open>The composition\<close>

type_synonym userWorld = "fsWorld \<times> kcWorld"

definition onKeychain :: "(kcWorld \<Rightarrow> 'r \<times> kcWorld) \<Rightarrow> 'v \<times> kcWorld \<Rightarrow> 'r \<times> 'v \<times> kcWorld" where
  "onKeychain f w = (case f (snd w) of (r, k1) \<Rightarrow> (r, fst w, k1))"

definition userStore :: "kcWorld nativeStore \<Rightarrow> userWorld credStore" where
  "userStore s = \<lparr>csPut = (\<lambda>ctx k v. onKeychain (native_Put (helperStore s) ctx k v)),
     csGet = (\<lambda>ctx k. onKeychain (native_Get (helperStore s) ctx k)),
     csDelete = (\<lambda>ctx k. onKeychain (native_Delete (helperStore s) ctx k))\<rparr>"

definition userLock :: "string \<Rightarrow> (fsWorld \<times> 'v) credLocker" where
  "userLock dir ctx w = (case onFiles (cred_Lock dir ctx) w of
     (Inl e, w1) \<Rightarrow> (Inl e, w1)
   | (Inr release, w1) \<Rightarrow> (Inr (onFiles release), w1))"

definition userLogin :: "userWorld provisioner \<Rightarrow> kcWorld nativeStore \<Rightarrow> string \<Rightarrow> userWorld loginService" where
  "userLogin provision s dir = \<lparr>lsProvisioner = Some provision, lsStore = Some (userStore s), lsLocker = Some (userLock dir)\<rparr>"

definition userAuth :: "kcWorld nativeStore \<Rightarrow> string \<Rightarrow> userWorld authService" where
  "userAuth s dir = \<lparr>auStore = Some (userStore s), auLocker = Some (userLock dir)\<rparr>"

text \<open>The Keychain items of the store.\<close>

definition userContent :: "kcWorld nativeStore \<Rightarrow> userWorld \<Rightarrow> string \<Rightarrow> byte list option" where
  "userContent s w = native_content s (snd w)"

lemma onFiles_content: "onFiles f w = (r, w1) \<Longrightarrow> userContent s w1 = userContent s w"
  by (auto simp: onFiles_def userContent_def split: prod.splits)

interpretation user: credential_service "userStore s" "userContent s" "userLock dir" for s dir
proof unfold_locales
  fix ctx :: ctx and w w1 r release w2 er w3
  show "userLock dir ctx w = (r, w1) \<Longrightarrow> userContent s w1 = userContent s w"
    by (auto simp: userLock_def dest: onFiles_content split: prod.splits sum.splits)
  show "userLock dir ctx w = (Inr release, w1) \<Longrightarrow> release w2 = (er, w3) \<Longrightarrow> userContent s w3 = userContent s w2"
    by (auto simp: userLock_def dest: onFiles_content split: prod.splits sum.splits)
qed (auto simp: userStore_def onKeychain_def userContent_def dest!: native_put_effect native_get_effect native_delete_effect split: prod.splits)

section \<open>All or nothing\<close>

text \<open>C22: \<^verbatim>\<open>Login\<close> is all or nothing over the Keychain, whatever fails or is killed on the way: without an error the
  Keychain holds the token and the provisioned key, and nothing else of it has changed; with an error the Keychain is as
  before, unless the error says that the rollback is incomplete, or that the lock could not be released after both were stored.\<close>

theorem login_all_or_nothing:
  assumes "\<And>ctx t w r w1. provision ctx t w = (r, w1) \<Longrightarrow> userContent s w1 = userContent s w"
    and "Login (userLogin provision s dir) ctx token w = (account, e, w1)"
  shows "case e of
      None \<Rightarrow> \<exists>pr. account = prAccountID pr \<and> (\<exists>w' w''. provision ctx token w' = (Inr pr, w'')) \<and>
        userContent s w1 = (userContent s w)(AccessToken \<mapsto> token, NordLynxPrivateKey \<mapsto> prPrivateKey pr)
    | Some x \<Rightarrow> account = 0 \<and> (errors_Is x ErrLoginRollbackIncomplete \<or> userContent s w1 = userContent s w \<or>
        (errors_Is x ErrLoginLock \<and> (\<exists>key. userContent s w1 = (userContent s w)(AccessToken \<mapsto> token, NordLynxPrivateKey \<mapsto> key))))"
  by (rule user.login_outcome [OF assms(1) assms(2) [unfolded userLogin_def]])

text \<open>C23: \<^verbatim>\<open>LogoutLocal\<close> is all or nothing as well: without an error both credentials are gone and the result tells whether there
  was one, never claiming that the token was revoked; with an error the Keychain is as before, with the same two exceptions.\<close>

theorem logout_all_or_nothing:
  assumes "LogoutLocal (userAuth s dir) ctx w = (r, e, w1)"
  shows "case e of
      None \<Rightarrow> (lrLocalRemoved r \<longleftrightarrow> userContent s w AccessToken \<noteq> None \<or> userContent s w NordLynxPrivateKey \<noteq> None) \<and> \<not> lrRemoteRevoked r \<and>
        userContent s w1 = (userContent s w)(AccessToken := None, NordLynxPrivateKey := None)
    | Some x \<Rightarrow> r = noLogout \<and> (errors_Is x ErrAuthRollbackIncomplete \<or> userContent s w1 = userContent s w \<or>
        (errors_Is x ErrAuthLock \<and> userContent s w1 = (userContent s w)(AccessToken := None, NordLynxPrivateKey := None)))"
  by (rule user.logout_outcome [OF assms [unfolded userAuth_def]])

section \<open>Without faults every operation succeeds\<close>

definition lockable :: "string \<Rightarrow> fsWorld \<Rightarrow> bool" where
  "lockable dir w \<longleftrightarrow> dir \<noteq> [] \<and> filepath_IsAbs dir \<and> filepath_Clean dir = dir \<and> fsOracle w = [] \<and> \<not> fsDead w \<and> (\<forall>c. \<not> fsDone w c) \<and>
     lock_inv w \<and> fsFlocks w (dir, cred_filename) = None \<and>
     (\<forall>n. fsDirs w dir = Some n \<longrightarrow> nKind n = KDir \<and> nPerm n AND 0x3F = 0 \<and> nUid n = fsEuid w) \<and>
     (\<forall>n. fsFiles w (dir, cred_filename) = Some n \<longrightarrow> nKind n = KRegular \<and> nPerm n AND 0x3F = 0 \<and> nUid n = fsEuid w)"

lemma syscall_clean: "fsOracle w = [] \<Longrightarrow> \<not> fsDead w \<Longrightarrow> syscall w = (True, w)"
  by (simp add: syscall_def)

lemma ensureDirectory_clean:
  assumes "fsOracle w = []" "\<not> fsDead w" "\<forall>n. fsDirs w dir = Some n \<longrightarrow> nKind n = KDir \<and> nPerm n AND 0x3F = 0 \<and> nUid n = fsEuid w"
  shows "\<exists>D. cred_ensureDirectory dir w = (None, w\<lparr>fsDirs := D\<rparr>) \<and>
    (\<forall>n. D dir = Some n \<longrightarrow> nKind n = KDir \<and> nPerm n AND 0x3F = 0 \<and> nUid n = fsEuid w)"
proof (cases "fsDirs w dir")
  case None
  then show ?thesis using assms
    by (intro exI [of _ "(fsDirs w)(dir := Some \<lparr>nKind = KDir, nPerm = 0x1C0, nUid = fsEuid w, nData = []\<rparr>)"])
      (simp add: cred_ensureDirectory_def os_MkdirAll_def os_LstatDir_def syscall_clean validatePrivate_def)
next
  case (Some n)
  then show ?thesis using assms
    by (intro exI [of _ "fsDirs w"]) (simp add: cred_ensureDirectory_def os_MkdirAll_def os_LstatDir_def syscall_clean validatePrivate_def)
qed

lemma OpenLock_clean:
  assumes "fsOracle w = []" "\<not> fsDead w" "\<forall>n. fsFiles w p = Some n \<longrightarrow> nKind n = KRegular \<and> nPerm n AND 0x3F = 0 \<and> nUid n = fsEuid w"
  shows "\<exists>n F. os_OpenLock p w = (Inr (fsNextFd w, n), w\<lparr>fsFiles := F, fsNextFd := Suc (fsNextFd w)\<rparr>) \<and> F p = Some n \<and>
    nKind n = KRegular \<and> nPerm n AND 0x3F = 0 \<and> nUid n = fsEuid w"
proof (cases "fsFiles w p")
  case None
  then show ?thesis using assms
    by (intro exI [of _ "\<lparr>nKind = KRegular, nPerm = 0x180, nUid = fsEuid w, nData = []\<rparr>"]
        exI [of _ "(fsFiles w)(p := Some \<lparr>nKind = KRegular, nPerm = 0x180, nUid = fsEuid w, nData = []\<rparr>)"])
      (simp add: os_OpenLock_def syscall_clean Let_def)
next
  case (Some n)
  then show ?thesis using assms
    by (intro exI [of _ n] exI [of _ "fsFiles w"]) (simp add: os_OpenLock_def syscall_clean Let_def)
qed

lemma checks_clean:
  assumes "fsOracle w = []" "\<not> fsDead w" "fsFlocks w p = None" "nKind n = KRegular \<and> nPerm n AND 0x3F = 0 \<and> nUid n = fsEuid w"
  shows "cred_checks p fd n w = (None, w\<lparr>fsFlocks := (fsFlocks w)(p := Some fd)\<rparr>)"
  using assms by (simp add: cred_checks_def os_probe_def syscall_clean validatePrivate_def reject_def flock_try_def)

lemma release_clean:
  assumes "fsOracle w = []" "\<not> fsDead w" "fsFlocks w p = Some fd" "fsOnce w fd = None"
  shows "release_once kind p fd w = (None, w\<lparr>fsFlocks := (fsFlocks w)(p := None), fsOnce := (fsOnce w)(fd := Some None)\<rparr>)"
  using assms by (simp add: release_once_def flock_release_def file_CloseLock_def syscall_clean drop_flock_def errors_Join_def wrapIfError_def)

lemma lockable_runs:
  assumes "lockable dir w"
  shows "\<exists>release w1 w2. cred_Lock dir ctx w = (Inr release, w1) \<and> release w1 = (None, w2) \<and> lockable dir w2"
proof -
  let ?p = "(dir, cred_filename)" and ?fd = "fsNextFd w"
  note L = assms [unfolded lockable_def]
  obtain D where D: "cred_ensureDirectory dir w = (None, w\<lparr>fsDirs := D\<rparr>)" "\<forall>n. D dir = Some n \<longrightarrow> nKind n = KDir \<and> nPerm n AND 0x3F = 0 \<and> nUid n = fsEuid w"
    using ensureDirectory_clean [of w dir] L by blast
  obtain n F where F: "os_OpenLock ?p (w\<lparr>fsDirs := D\<rparr>) = (Inr (?fd, n), w\<lparr>fsDirs := D, fsFiles := F, fsNextFd := Suc ?fd\<rparr>)" "F ?p = Some n"
    "nKind n = KRegular \<and> nPerm n AND 0x3F = 0 \<and> nUid n = fsEuid w"
    using OpenLock_clean [of "w\<lparr>fsDirs := D\<rparr>" ?p] L by auto
  let ?w1 = "w\<lparr>fsDirs := D, fsFiles := F, fsNextFd := Suc ?fd, fsFlocks := (fsFlocks w)(?p := Some ?fd)\<rparr>"
  let ?w2 = "w\<lparr>fsDirs := D, fsFiles := F, fsNextFd := Suc ?fd, fsFlocks := fsFlocks w, fsOnce := (fsOnce w)(?fd := Some None)\<rparr>"
  have k: "cred_checks ?p ?fd n (w\<lparr>fsDirs := D, fsFiles := F, fsNextFd := Suc ?fd\<rparr>) = (None, ?w1)"
    using checks_clean [of "w\<lparr>fsDirs := D, fsFiles := F, fsNextFd := Suc ?fd\<rparr>" ?p n ?fd] L F by simp
  have l: "cred_Lock dir ctx w = (Inr (release_once ''credential lock'' ?p ?fd), ?w1)"
    using L D F k by (simp add: cred_Lock_def ctx_Err_def)
  have o: "fsOnce w ?fd = None" "fsFlocks w q \<noteq> Some ?fd" "fsFlocks w q = Some fd \<Longrightarrow> fd < Suc ?fd" for q fd
    using L by (auto simp: lock_inv_def intro: less_SucI)
  have "(fsFlocks w)(?p := None) = fsFlocks w" using L by (simp add: fun_upd_idem)
  then have r: "release_once ''credential lock'' ?p ?fd ?w1 = (None, ?w2)"
    using release_clean [of ?w1 ?p ?fd] L o(1) by simp
  have "lock_inv ?w2" using L o unfolding lock_inv_def by auto
  then have "lockable dir ?w2" using L D(2) F(2,3) unfolding lockable_def by simp
  then show ?thesis using l r by blast
qed

definition kc_ready :: "kcWorld nativeStore \<Rightarrow> kcWorld \<Rightarrow> bool" where
  "kc_ready s w \<longleftrightarrow> nsTarget s = ''login'' \<and> nsHelper s \<noteq> [] \<and> kcFaults w = [] \<and> kcUid w \<noteq> 0 \<and> kcEuid w \<noteq> 0 \<and>
     strings_HasPrefix (kcHome w) ''/Users/'' \<and> \<not> irregularPath (kcHome w) \<and> (\<exists>p. kcAttributes w (kcHome w) = Some (kcUid w, p)) \<and>
     (\<forall>k v. native_content s w k = Some v \<longrightarrow> v \<noteq> [] \<and> length v \<le> 4096)"

lemma kc_step_clean: "kcFaults w = [] \<Longrightarrow> kc_step w = (True, w)"
  by (simp add: kc_step_def)

lemma ready_validate:
  assumes "kc_ready s w" "kind_Valid k"
  shows "native_validate (helperStore s) k = None"
  using assms by (simp add: kc_ready_def native_validate_def helperStore_def kind_Validate_def)

lemma ready_Run:
  assumes "kc_ready s w" "kind_Valid k" "helper_operation op (native_item s w k) v w = ((code, out), w1)" "kcFaults w1 = []"
  shows "helper_Run ctx v h (native_arguments s op k) w = ((out, [], if code = 0 then None else Some (ExitError code)), w1)"
proof -
  have "validationTarget (native_arguments s op k) w = (Some (loginPath w, productionService), w)"
    using assms(1) by (auto simp: kc_ready_def validationTarget_def native_arguments_def loginKeychainTarget_def openKeychain_def kc_step_clean)
  then have "helper_main (native_arguments s op k) v w = ((code, out), w1)"
    using assms(1-3) by (auto simp: helper_main_def native_arguments_def kc_ready_def native_item_def kind_Valid_def AccessToken_def NordLynxPrivateKey_def)
  then show ?thesis using assms(1,4) by (simp add: helper_Run_def kc_step_clean kc_ready_def)
qed

lemma ready_put:
  assumes "kc_ready s w" "kind_Valid k" "v \<noteq> []" "length v \<le> 4096"
  shows "\<exists>w1. native_Put (helperStore s) ctx k v w = (None, w1) \<and> kc_ready s w1"
proof -
  let ?w1 = "w\<lparr>kcItems := (kcItems w)(native_item s w k \<mapsto> v)\<rparr>"
  have f: "kcFaults w = []" using assms(1) by (simp add: kc_ready_def)
  have "helper_operation ''put'' (native_item s w k) v w = ((0, []), ?w1)"
    using assms f by (simp add: helper_operation_def kc_simps kc_step_clean)
  then have "native_Put (helperStore s) ctx k v w = (None, ?w1)"
    using ready_Run [OF assms(1,2), of "''put''" v 0 "[]" ?w1 ctx "nsHelper s"] assms f ready_validate [OF assms(1,2)]
    by (simp add: native_Put_def native_write_def)
  moreover have "kc_ready s ?w1"
    using assms native_content_upd [of ?w1 w s k "Some v"] by (simp add: kc_ready_def)
  ultimately show ?thesis by blast
qed

lemma ready_get:
  assumes "kc_ready s w" "kind_Valid k"
  shows "native_Get (helperStore s) ctx k w = (case native_content s w k of None \<Rightarrow> Inl (Sentinel ErrCredentialNotFound) | Some v \<Rightarrow> Inr v, w)"
proof -
  have f: "kcFaults w = []" using assms(1) by (simp add: kc_ready_def)
  show ?thesis
  proof (cases "native_content s w k")
    case None
    then have "helper_operation ''get'' (native_item s w k) [] w = ((44, []), w)"
      using f by (simp add: helper_operation_def kc_simps kc_step_clean native_content_def)
    from ready_Run [OF assms this f, of ctx "nsHelper s"] show ?thesis using None ready_validate [OF assms] by (simp add: native_Get_def)
  next
    case (Some v)
    then have v: "v \<noteq> []" "length v \<le> 4096" using assms(1) by (auto simp: kc_ready_def)
    then have "helper_operation ''get'' (native_item s w k) [] w = ((0, v), w)"
      using f Some by (simp add: helper_operation_def kc_simps kc_step_clean native_content_def)
    from ready_Run [OF assms this f, of ctx "nsHelper s"] show ?thesis using Some v ready_validate [OF assms] by (simp add: native_Get_def)
  qed
qed

lemma ready_delete:
  assumes "kc_ready s w" "kind_Valid k" "native_content s w k = Some v"
  shows "\<exists>w1. native_Delete (helperStore s) ctx k w = (None, w1) \<and> kc_ready s w1 \<and> native_content s w1 = (native_content s w)(k := None)"
proof -
  let ?w1 = "w\<lparr>kcItems := (kcItems w)(native_item s w k := None)\<rparr>"
  have f: "kcFaults w = []" using assms(1) by (simp add: kc_ready_def)
  have "helper_operation ''delete'' (native_item s w k) [] w = ((0, []), ?w1)"
    using assms f by (simp add: helper_operation_def kc_simps kc_step_clean native_content_def)
  then have "native_Delete (helperStore s) ctx k w = (None, ?w1)"
    using ready_Run [OF assms(1,2), of "''delete''" "[]" 0 "[]" ?w1 ctx "nsHelper s"] f ready_validate [OF assms(1,2)] by (simp add: native_Delete_def)
  moreover have c: "native_content s ?w1 = (native_content s w)(k := None)" using native_content_upd [of ?w1 w s k None] by simp
  moreover have "kc_ready s ?w1" using assms c by (simp add: kc_ready_def)
  ultimately show ?thesis by blast
qed

definition user_ready :: "kcWorld nativeStore \<Rightarrow> string \<Rightarrow> userWorld \<Rightarrow> bool" where
  "user_ready s dir w \<longleftrightarrow> lockable dir (fst w) \<and> kc_ready s (snd w)"

lemma kinds_Valid [simp]: "kind_Valid AccessToken" "kind_Valid NordLynxPrivateKey"
  by (simp_all add: kind_Valid_def)

lemma ready_capture:
  "kc_ready s (snd w) \<Longrightarrow> kind_Valid k \<Longrightarrow> credCapture (userStore s) ctx k w = (Inr (userContent s w k), w)"
  by (simp add: credCapture_def userStore_def onKeychain_def ready_get userContent_def split: option.split)

text \<open>Between acquiring and releasing the lock the services only use the Keychain.\<close>

lemma ready_lock:
  assumes "user_ready s dir w"
  shows "\<exists>release f1 f2. userLock dir ctx w = (Inr (onFiles release), f1, snd w) \<and> release f1 = (None, f2) \<and> lockable dir f2"
proof -
  obtain release f1 f2 where "cred_Lock dir ctx (fst w) = (Inr release, f1)" "release f1 = (None, f2)" "lockable dir f2"
    using lockable_runs [of dir "fst w" ctx] assms by (auto simp: user_ready_def)
  then show ?thesis by (intro exI [of _ release] exI [of _ f1] exI [of _ f2]) (simp add: userLock_def onFiles_def)
qed

lemma ready_login:
  assumes "user_ready s dir w" "token \<noteq> []" "length token \<le> 4096" "prPrivateKey pr \<noteq> []" "length (prPrivateKey pr) \<le> 4096"
    and "\<And>w. provision ctx token w = (Inr pr, w)"
  shows "\<exists>w1. Login (userLogin provision s dir) ctx token w = (prAccountID pr, None, w1) \<and> user_ready s dir w1"
proof -
  obtain release f1 f2 where l: "userLock dir ctx w = (Inr (onFiles release), f1, snd w)" "release f1 = (None, f2)" "lockable dir f2"
    using ready_lock [OF assms(1)] by blast
  have k: "kc_ready s (snd w)" using assms(1) by (simp add: user_ready_def)
  obtain k1 where p1: "native_Put (helperStore s) ctx AccessToken token (snd w) = (None, k1)" "kc_ready s k1"
    using ready_put [OF k] assms by force
  obtain k2 where p2: "native_Put (helperStore s) ctx NordLynxPrivateKey (prPrivateKey pr) k1 = (None, k2)" "kc_ready s k2"
    using ready_put [OF p1(2)] assms by force
  have "credTransact (userStore s) ctx token pr (f1, snd w) = (prAccountID pr, None, f1, k2)"
    using k p1 p2 by (simp add: credTransact_def ready_capture) (simp add: userStore_def onKeychain_def)
  then have "Login (userLogin provision s dir) ctx token w = (prAccountID pr, None, f2, k2)"
    using l assms(6) by (simp add: Login_def userLogin_def deferRelease_def onFiles_def)
  then show ?thesis using l p2 by (auto simp: user_ready_def)
qed

lemma ready_inspect:
  assumes "user_ready s dir w"
  shows "\<exists>w1. auth_Inspect (userAuth s dir) ctx w =
    (Some (auth_status (userContent s w AccessToken \<noteq> None) (userContent s w NordLynxPrivateKey \<noteq> None)), None, w1) \<and>
    user_ready s dir w1 \<and> userContent s w1 = userContent s w"
proof -
  obtain release f1 f2 where l: "userLock dir ctx w = (Inr (onFiles release), f1, snd w)" "release f1 = (None, f2)" "lockable dir f2"
    using ready_lock [OF assms(1)] by blast
  have k: "kc_ready s (snd w)" using assms(1) by (simp add: user_ready_def)
  show ?thesis using l k
    by (simp add: auth_Inspect_def auth_acquire_def userAuth_def ready_capture deferRelease_def onFiles_def user_ready_def)
      (simp add: userContent_def)
qed

lemma ready_logout:
  assumes "user_ready s dir w" "userContent s w AccessToken \<noteq> None" "userContent s w NordLynxPrivateKey \<noteq> None"
  shows "\<exists>w1. LogoutLocal (userAuth s dir) ctx w = (\<lparr>lrLocalRemoved = True, lrRemoteRevoked = False\<rparr>, None, w1) \<and> user_ready s dir w1"
proof -
  obtain release f1 f2 where l: "userLock dir ctx w = (Inr (onFiles release), f1, snd w)" "release f1 = (None, f2)" "lockable dir f2"
    using ready_lock [OF assms(1)] by blast
  have k: "kc_ready s (snd w)" using assms(1) by (simp add: user_ready_def)
  obtain k1 where d1: "native_Delete (helperStore s) ctx AccessToken (snd w) = (None, k1)" "kc_ready s k1"
    "native_content s k1 = (native_content s (snd w))(AccessToken := None)"
    using ready_delete [OF k, of AccessToken] assms(2) by (auto simp: userContent_def)
  obtain k2 where d2: "native_Delete (helperStore s) ctx NordLynxPrivateKey k1 = (None, k2)" "kc_ready s k2"
    using ready_delete [OF d1(2), of NordLynxPrivateKey] assms(3) d1(3) by (auto simp: userContent_def)
  have c: "userContent s (f1, snd w) = userContent s w" by (simp add: userContent_def)
  have "removePair (userStore s) ctx (userContent s w AccessToken) (userContent s w NordLynxPrivateKey) (f1, snd w) =
      (\<lparr>lrLocalRemoved = True, lrRemoteRevoked = False\<rparr>, None, f1, k2)"
    using d1 d2 assms(2,3) by (auto simp: removePair_def deleteIfPresent_def userStore_def onKeychain_def)
  then have "LogoutLocal (userAuth s dir) ctx w = (\<lparr>lrLocalRemoved = True, lrRemoteRevoked = False\<rparr>, None, f2, k2)"
    using l k c by (simp add: LogoutLocal_def auth_acquire_def userAuth_def ready_capture deferRelease_def onFiles_def)
  then show ?thesis using l d2 by (auto simp: user_ready_def)
qed

text \<open>C24: without faults the commands do get through: on a free lock and a working login Keychain a login with a provisioned key
  succeeds, the status is then logged in, a logout removes the credentials, and the status is then logged out.\<close>

theorem credential_life_cycle:
  assumes "user_ready s dir w" "token \<noteq> []" "length token \<le> 4096" "prPrivateKey pr \<noteq> []" "length (prPrivateKey pr) \<le> 4096"
    and "\<And>ctx t w. provision ctx t w = (Inr pr, w)"
  shows "\<exists>w1 w2 w3 w4. Login (userLogin provision s dir) ctx token w = (prAccountID pr, None, w1) \<and>
    auth_Inspect (userAuth s dir) ctx w1 = (Some (auth_status True True), None, w2) \<and>
    LogoutLocal (userAuth s dir) ctx w2 = (\<lparr>lrLocalRemoved = True, lrRemoteRevoked = False\<rparr>, None, w3) \<and>
    auth_Inspect (userAuth s dir) ctx w3 = (Some (auth_status False False), None, w4) \<and>
    userContent s w4 = (userContent s w)(AccessToken := None, NordLynxPrivateKey := None)"
proof -
  obtain w1 where w1: "Login (userLogin provision s dir) ctx token w = (prAccountID pr, None, w1)" "user_ready s dir w1"
    using ready_login [OF assms(1-5)] assms(6) by blast
  have "userContent s w1 = (userContent s w)(AccessToken \<mapsto> token, NordLynxPrivateKey \<mapsto> prPrivateKey pr)"
    using user.login_outcome [OF _ w1(1) [unfolded userLogin_def]] assms(6) by auto
  note c1 = this
  obtain w2 where w2: "auth_Inspect (userAuth s dir) ctx w1 = (Some (auth_status True True), None, w2)" "user_ready s dir w2" "userContent s w2 = userContent s w1"
    using ready_inspect [OF w1(2), of ctx] c1 by auto
  obtain w3 where w3: "LogoutLocal (userAuth s dir) ctx w2 = (\<lparr>lrLocalRemoved = True, lrRemoteRevoked = False\<rparr>, None, w3)" "user_ready s dir w3"
    using ready_logout [OF w2(2), of ctx] w2(3) c1 by auto
  have c3: "userContent s w3 = (userContent s w)(AccessToken := None, NordLynxPrivateKey := None)"
    using user.logout_outcome [OF w3(1) [unfolded userAuth_def]] w2(3) c1 by (auto simp: fun_eq_iff)
  obtain w4 where "auth_Inspect (userAuth s dir) ctx w3 = (Some (auth_status False False), None, w4)" "userContent s w4 = userContent s w3"
    using ready_inspect [OF w3(2), of ctx] c3 by auto
  then show ?thesis using w1(1) w2(1) w3(1) unfolding c3 by blast
qed

section \<open>A user\<close>

definition sampleStore :: "kcWorld nativeStore" where
  "sampleStore = \<lparr>nsRunner = None, nsHelper = ''/h'', nsKeychain = [], nsTarget = ''login''\<rparr>"

definition sampleKeychain :: kcWorld where
  "sampleKeychain = \<lparr>kcItems = (\<lambda>_. None), kcFaults = [], kcUid = 501, kcEuid = 501, kcHome = ''/Users/a'', kcAttributes = (\<lambda>_. Some (501, 0x1C0))\<rparr>"

definition sampleFiles :: fsWorld where
  "sampleFiles = \<lparr>fsDirs = (\<lambda>_. None), fsFiles = (\<lambda>_. None), fsOracle = [], fsTemps = [], fsEuid = 501,
     fsDead = False, fsDone = (\<lambda>_. False), fsNextFd = 3, fsFlocks = (\<lambda>_. None), fsOnce = (\<lambda>_. None)\<rparr>"

definition sampleProvisioning :: provisioning where
  "sampleProvisioning = \<lparr>prAccountID = 42, prPrivateKey = [65]\<rparr>"

definition userDir :: string where
  "userDir = ''/n''"

lemma sample_ready: "user_ready sampleStore userDir (sampleFiles, sampleKeychain)"
  by (simp add: user_ready_def lockable_def kc_ready_def sampleStore_def sampleKeychain_def sampleFiles_def userDir_def filepath_IsAbs_def filepath_Clean_def
      lock_inv_def strings_HasPrefix_def irregularPath_def strings_Contains_def native_content_def)

lemmas sample_login = ready_login [OF sample_ready, of "[97]" sampleProvisioning "\<lambda>ctx t w. (Inr sampleProvisioning, w)" CallerCtx]

theorem login_all_or_nothing_witness:
  "\<exists>w1. Login (userLogin (\<lambda>ctx t w. (Inr sampleProvisioning, w)) sampleStore userDir) CallerCtx [97] (sampleFiles, sampleKeychain) = (42, None, w1) \<and>
     userContent sampleStore w1 = (userContent sampleStore (sampleFiles, sampleKeychain))(AccessToken \<mapsto> [97], NordLynxPrivateKey \<mapsto> [65])"
proof -
  obtain w1 where r: "Login (userLogin (\<lambda>ctx t w. (Inr sampleProvisioning, w)) sampleStore userDir) CallerCtx [97] (sampleFiles, sampleKeychain) = (42, None, w1)"
    using sample_login by (auto simp: sampleProvisioning_def)
  have "userContent sampleStore w1 = (userContent sampleStore (sampleFiles, sampleKeychain))(AccessToken \<mapsto> [97], NordLynxPrivateKey \<mapsto> [65])"
    using login_all_or_nothing [OF _ r] by (auto simp: sampleProvisioning_def)
  then show ?thesis using r by blast
qed

theorem logout_all_or_nothing_witness:
  "\<exists>r w1. LogoutLocal (userAuth sampleStore userDir) CallerCtx (sampleFiles, sampleKeychain\<lparr>kcFaults := [True]\<rparr>) = (r, Some (Sentinel ErrAuthRead), w1) \<and>
     r = noLogout \<and> userContent sampleStore w1 = userContent sampleStore (sampleFiles, sampleKeychain\<lparr>kcFaults := [True]\<rparr>)"
proof -
  let ?w = "(sampleFiles, sampleKeychain\<lparr>kcFaults := [True]\<rparr>)"
  obtain release f1 f2 where l: "userLock userDir CallerCtx ?w = (Inr (onFiles release), f1, sampleKeychain\<lparr>kcFaults := [True]\<rparr>)" "release f1 = (None, f2)"
  proof -
    obtain release f1 f2 where "cred_Lock userDir CallerCtx sampleFiles = (Inr release, f1)" "release f1 = (None, f2)"
      using lockable_runs [of userDir sampleFiles CallerCtx] sample_ready by (auto simp: user_ready_def)
    then show ?thesis by (intro that [of release f1 f2]) (simp_all add: userLock_def onFiles_def)
  qed
  obtain r w1 where r: "LogoutLocal (userAuth sampleStore userDir) CallerCtx ?w = (r, Some (Sentinel ErrAuthRead), w1)"
    using l by (simp add: LogoutLocal_def auth_acquire_def userAuth_def credCapture_def userStore_def onKeychain_def native_Get_def native_validate_def
        helper_Run_def kc_step_def sampleStore_def sampleKeychain_def deferRelease_def onFiles_def helperStore_def kind_Validate_def reject_def)
  show ?thesis using logout_all_or_nothing [OF r] r by auto
qed

theorem credential_life_cycle_witness:
  "\<exists>w1 w2. Login (userLogin (\<lambda>ctx t w. (Inr sampleProvisioning, w)) sampleStore userDir) CallerCtx [97] (sampleFiles, sampleKeychain) = (42, None, w1) \<and>
     auth_Inspect (userAuth sampleStore userDir) CallerCtx w1 = (Some (auth_status True True), None, w2)"
  using credential_life_cycle [OF sample_ready, of "[97]" sampleProvisioning "\<lambda>ctx t w. (Inr sampleProvisioning, w)" CallerCtx]
  by (auto simp: sampleProvisioning_def)

end
