(* ===== verification/Runes.thy ===== *)
theory Runes
  imports Go_Text
begin

text \<open>
  Unicode text and base64: Go strings are bytes, read as runes by UTF-8 decoding; the character tables of
  \<^verbatim>\<open>unicode\<close> are an argument. Two Go strings produced by \<^verbatim>\<open>strings.Map\<close> are equal exactly when their runes are, so
  normalised text is kept as its runes. Base64 is \<^verbatim>\<open>base64.StdEncoding\<close>, which skips line breaks.
\<close>

section \<open>Runes\<close>

text \<open>The lead byte gives the length and the bounds of the second byte, as in \<^verbatim>\<open>utf8.DecodeRune\<close>;
  a byte that starts no valid sequence is the error rune, one byte long.\<close>

definition runeError :: nat where
  "runeError = 0xFFFD"

definition continuation :: "nat \<Rightarrow> bool" where
  "continuation b = (0x80 \<le> b \<and> b \<le> 0xBF)"

definition decodeRune :: "nat \<Rightarrow> nat list \<Rightarrow> nat \<times> nat" where
  "decodeRune b rest =
     (if b < 0x80 then (b, 0)
      else if 0xC2 \<le> b \<and> b \<le> 0xDF \<and> 1 \<le> length rest \<and> continuation (rest ! 0)
        then ((b - 0xC0) * 64 + (rest ! 0 - 0x80), 1)
      else if 0xE0 \<le> b \<and> b \<le> 0xEF \<and> 2 \<le> length rest \<and> continuation (rest ! 0) \<and> continuation (rest ! 1) \<and>
          (b = 0xE0 \<longrightarrow> 0xA0 \<le> rest ! 0) \<and> (b = 0xED \<longrightarrow> rest ! 0 \<le> 0x9F)
        then ((b - 0xE0) * 4096 + (rest ! 0 - 0x80) * 64 + (rest ! 1 - 0x80), 2)
      else if 0xF0 \<le> b \<and> b \<le> 0xF4 \<and> 3 \<le> length rest \<and> continuation (rest ! 0) \<and> continuation (rest ! 1) \<and> continuation (rest ! 2) \<and>
          (b = 0xF0 \<longrightarrow> 0x90 \<le> rest ! 0) \<and> (b = 0xF4 \<longrightarrow> rest ! 0 \<le> 0x8F)
        then ((b - 0xF0) * 262144 + (rest ! 0 - 0x80) * 4096 + (rest ! 1 - 0x80) * 64 + (rest ! 2 - 0x80), 3)
      else (runeError, 0))"

function utf8_runes :: "nat list \<Rightarrow> nat list" where
  "utf8_runes [] = []"
| "utf8_runes (b # rest) = (case decodeRune b rest of (r, n) \<Rightarrow> r # utf8_runes (drop n rest))"
  by pat_completeness auto
termination by (relation "measure length") auto

definition runes :: "string \<Rightarrow> nat list" where
  "runes s = utf8_runes (map byte_of s)"

lemma ascii_utf8: "list_all (\<lambda>b. b < 0x80) bs \<Longrightarrow> utf8_runes bs = bs"
  by (induction bs) (simp_all add: decodeRune_def)

lemma ascii_runes: "list_all (\<lambda>ch. byte_of ch < 0x80) s \<Longrightarrow> runes s = map byte_of s"
  by (simp add: runes_def ascii_utf8 list_all_iff)

text \<open>The tables of \<^verbatim>\<open>unicode\<close>; \<open>uFold\<close> picks one rune of each \<^verbatim>\<open>SimpleFold\<close> orbit.\<close>

record unicode =
  uIsLetter :: "nat \<Rightarrow> bool"
  uIsDigit :: "nat \<Rightarrow> bool"
  uIsSpace :: "nat \<Rightarrow> bool"
  uToLower :: "nat \<Rightarrow> nat"
  uToUpper :: "nat \<Rightarrow> nat"
  uFold :: "nat \<Rightarrow> nat"

definition runes_TrimSpace :: "unicode \<Rightarrow> nat list \<Rightarrow> nat list" where
  "runes_TrimSpace u rs = rev (dropWhile (uIsSpace u) (rev (dropWhile (uIsSpace u) rs)))"

definition strings_EqualFold :: "unicode \<Rightarrow> string \<Rightarrow> string \<Rightarrow> bool" where
  "strings_EqualFold u a b = (map (uFold u) (runes a) = map (uFold u) (runes b))"

text \<open>The tables on ASCII, for evaluation.\<close>

definition asciiTables :: unicode where
  "asciiTables = \<lparr>uIsLetter = (\<lambda>r. 65 \<le> r \<and> r \<le> 90 \<or> 97 \<le> r \<and> r \<le> 122), uIsDigit = (\<lambda>r. 48 \<le> r \<and> r \<le> 57),
     uIsSpace = (\<lambda>r. r = 32 \<or> 9 \<le> r \<and> r \<le> 13), uToLower = (\<lambda>r. if 65 \<le> r \<and> r \<le> 90 then r + 32 else r),
     uToUpper = (\<lambda>r. if 97 \<le> r \<and> r \<le> 122 then r - 32 else r),
     uFold = (\<lambda>r. if 65 \<le> r \<and> r \<le> 90 then r + 32 else r)\<rparr>"

section \<open>Strings again\<close>

text \<open>The runes of a string with the bytes each was read from: trimming keeps bytes as they are.\<close>

function utf8_pieces :: "nat list \<Rightarrow> (nat \<times> nat list) list" where
  "utf8_pieces [] = []"
| "utf8_pieces (b # rest) = (case decodeRune b rest of (r, n) \<Rightarrow> (r, b # take n rest) # utf8_pieces (drop n rest))"
  by pat_completeness auto
termination by (relation "measure length") auto

lemma pieces_runes: "map fst (utf8_pieces bs) = utf8_runes bs"
  by (induction bs rule: utf8_pieces.induct) (auto split: prod.split)

lemma pieces_bytes: "concat (map snd (utf8_pieces bs)) = bs"
  by (induction bs rule: utf8_pieces.induct) (auto split: prod.split)

definition trim_pieces :: "unicode \<Rightarrow> (nat \<times> nat list) list \<Rightarrow> (nat \<times> nat list) list" where
  "trim_pieces u ps = (let sp = (\<lambda>p. uIsSpace u (fst p)) in rev (dropWhile sp (rev (dropWhile sp ps))))"

definition unicode_TrimSpace :: "unicode \<Rightarrow> string \<Rightarrow> string" where
  "unicode_TrimSpace u s = map char_of (concat (map snd (trim_pieces u (utf8_pieces (map byte_of s)))))"

definition encodeRune :: "nat \<Rightarrow> nat list" where
  "encodeRune r =
     (if r < 0x80 then [r]
      else if r < 0x800 then [0xC0 + r div 64, 0x80 + r mod 64]
      else if 0xD800 \<le> r \<and> r \<le> 0xDFFF \<or> r > 0x10FFFF then [0xEF, 0xBF, 0xBD]
      else if r < 0x10000 then [0xE0 + r div 4096, 0x80 + r div 64 mod 64, 0x80 + r mod 64]
      else [0xF0 + r div 262144, 0x80 + r div 4096 mod 64, 0x80 + r div 64 mod 64, 0x80 + r mod 64])"

definition unicode_ToLower :: "unicode \<Rightarrow> string \<Rightarrow> string" where
  "unicode_ToLower u s = map char_of (concat (map (\<lambda>r. encodeRune (uToLower u r)) (runes s)))"

definition unicode_ToUpper :: "unicode \<Rightarrow> string \<Rightarrow> string" where
  "unicode_ToUpper u s = map char_of (concat (map (\<lambda>r. encodeRune (uToUpper u r)) (runes s)))"

section \<open>Base64\<close>

definition b64_val :: "char \<Rightarrow> nat option" where
  "b64_val ch = (let b = byte_of ch in
     if 65 \<le> b \<and> b \<le> 90 then Some (b - 65) else if 97 \<le> b \<and> b \<le> 122 then Some (b - 71)
     else if 48 \<le> b \<and> b \<le> 57 then Some (b + 4) else if b = 43 then Some 62 else if b = 47 then Some 63 else None)"

fun b64_quads :: "string \<Rightarrow> 8 word list option" where
  "b64_quads [] = Some []"
| "b64_quads (a # b # c # d # rest) = (case (b64_val a, b64_val b) of
     (Some x, Some y) \<Rightarrow>
       (if d = CHR ''='' then
          (if rest \<noteq> [] then None
           else if c = CHR ''='' then Some [of_nat (x * 4 + y div 16)]
           else map_option (\<lambda>z. [of_nat (x * 4 + y div 16), of_nat (y mod 16 * 16 + z div 4)]) (b64_val c))
        else (case (b64_val c, b64_val d) of
          (Some z, Some t) \<Rightarrow> map_option (\<lambda>bs. of_nat (x * 4 + y div 16) # of_nat (y mod 16 * 16 + z div 4) # of_nat (z mod 4 * 64 + t) # bs) (b64_quads rest)
        | _ \<Rightarrow> None))
   | _ \<Rightarrow> None)"
| "b64_quads _ = None"

definition base64_DecodeString :: "string \<Rightarrow> 8 word list option" where
  "base64_DecodeString s = b64_quads (filter (\<lambda>ch. ch \<noteq> CHR 0x0A \<and> ch \<noteq> CHR 0x0D) s)"

definition bytes_string :: "8 word list \<Rightarrow> string" where
  "bytes_string bs = map (\<lambda>b. char_of (unat b)) bs"

end
