(* ===== verification/Packaged_Helper.thy ===== *)
theory Packaged_Helper
  imports Native_Keychain Runes
begin

text \<open>
  The location of the packaged Keychain helper (\<^verbatim>\<open>internal/nativekeychain/package.go\<close>) and the
  \<^verbatim>\<open>security(1)\<close> store (\<^verbatim>\<open>internal/keychain/store.go\<close>). SHA-256 is an argument; what the operating system
  says of the executable and of the files beside it is a record.
\<close>

unbundle bit_operations_syntax

section \<open>Decoding hexadecimal text\<close>

fun hex_DecodeString :: "string \<Rightarrow> byte list option" where
  "hex_DecodeString [] = Some []"
| "hex_DecodeString [a] = None"
| "hex_DecodeString (a # b # s) = (case (digit_val a, digit_val b) of
     (Some x, Some y) \<Rightarrow> if x < 16 \<and> y < 16 then map_option ((#) (of_nat (16 * x + y))) (hex_DecodeString s) else None
   | _ \<Rightarrow> None)"

lemma hex_decode_encode: "hex_DecodeString (hex_EncodeToString bs) = Some bs"
proof (induction bs)
  case (Cons b bs)
  have "unat b < 256" using unsigned_less [of b] by simp
  then have u: "unat b div 16 < 16" by (simp add: less_mult_imp_div_less)
  have "(of_nat (16 * (unat b div 16) + unat b mod 16) :: 8 word) = b" by (simp only: mult_div_mod_eq) simp
  then show ?case using Cons u by (simp add: hex_EncodeToString_def hex_byte_def)
qed (simp add: hex_EncodeToString_def)

section \<open>The packaged helper\<close>

record packageHost =
  phExecutable :: "string option"
  phResolve :: "string \<Rightarrow> string option"
  phStat :: "string \<Rightarrow> fsNode option"
  phLstat :: "string \<Rightarrow> fsNode option"
  phOpen :: "string \<Rightarrow> byte list option option"
  phEuid :: int

definition packagedHelperName :: string where
  "packagedHelperName = ''nordmac-keychain-helper''"

definition safeOwner :: "packageHost \<Rightarrow> fsNode \<Rightarrow> bool" where
  "safeOwner h info = (nUid info = 0 \<or> nUid info = phEuid h)"

definition sameOwner :: "fsNode \<Rightarrow> fsNode \<Rightarrow> bool" where
  "sameOwner first second = (nUid first = nUid second)"

text \<open>The loop accumulates the differences of all bytes.\<close>

definition equalDigest :: "byte list \<Rightarrow> byte list \<Rightarrow> bool" where
  "equalDigest actual expected =
     (if length actual \<noteq> length expected then False
      else fold (\<lambda>(a, b) difference. difference OR (a XOR b)) (zip actual expected) 0 = 0)"

definition helperCandidate :: "string \<Rightarrow> string" where
  "helperCandidate path = filepath_Clean (filepath_Dir path @ ''/libexec/'' @ packagedHelperName)"

definition locatePackagedHelper :: "(byte list \<Rightarrow> byte list) \<Rightarrow> packageHost \<Rightarrow> string \<Rightarrow> gerror + string" where
  "locatePackagedHelper sha256 h expectedHex = (case hex_DecodeString expectedHex of
     None \<Rightarrow> Inl (Err ''packaged native Keychain helper is unavailable'')
   | Some want \<Rightarrow>
      (if length want \<noteq> 32 then Inl (Err ''packaged native Keychain helper is unavailable'')
       else (case phExecutable h of
         None \<Rightarrow> Inl (Err ''locate nordmac executable'')
       | Some exe \<Rightarrow> (case phResolve h exe of
           None \<Rightarrow> Inl (Err ''resolve nordmac executable'')
         | Some path \<Rightarrow>
            (if \<not> filepath_IsAbs path then Inl (Err ''resolve nordmac executable'')
             else (let candidate = helperCandidate path in case phStat h (filepath_Dir candidate) of
               None \<Rightarrow> Inl (Err ''packaged native Keychain helper directory is unsafe'')
             | Some parentInfo \<Rightarrow>
                (if nKind parentInfo \<noteq> KDir \<or> nPerm parentInfo AND 0x12 \<noteq> 0 then Inl (Err ''packaged native Keychain helper directory is unsafe'')
                 else (case phLstat h candidate of
                   None \<Rightarrow> Inl (Err ''packaged native Keychain helper has unsafe type or mode'')
                 | Some info \<Rightarrow>
                    (if nKind info \<noteq> KRegular \<or> nPerm info AND 0x12 \<noteq> 0 \<or> nPerm info AND 0x49 = 0
                     then Inl (Err ''packaged native Keychain helper has unsafe type or mode'')
                     else if \<not> safeOwner h info \<or> \<not> sameOwner info parentInfo then Inl (Err ''packaged native Keychain helper has unsafe ownership'')
                     else (case phOpen h candidate of
                       None \<Rightarrow> Inl (Err ''open packaged native Keychain helper'')
                     | Some None \<Rightarrow> Inl (Err ''hash packaged native Keychain helper'')
                     | Some (Some content) \<Rightarrow>
                        (if \<not> equalDigest (sha256 content) want then Inl (Err ''packaged native Keychain helper digest mismatch'')
                         else Inr candidate)))))))))))"

section \<open>The security(1) store\<close>

record 'w securityStore =
  ssRunner :: "'w stdinRunner option"
  ssBinary :: string
  ssService :: string
  ssPlatform :: string

definition defaultBinary :: string where
  "defaultBinary = ''/usr/bin/security''"

definition defaultService :: string where
  "defaultService = ''com.github.b1rd33.nordmac''"

definition newSecurityStore :: "'w stdinRunner \<Rightarrow> 'w securityStore" where
  "newSecurityStore run = \<lparr>ssRunner = Some run, ssBinary = defaultBinary, ssService = defaultService, ssPlatform = []\<rparr>"

definition ss_service :: "'w securityStore \<Rightarrow> string" where
  "ss_service s = (if ssService s \<noteq> [] then ssService s else defaultService)"

definition ss_binary :: "'w securityStore \<Rightarrow> string" where
  "ss_binary s = (if ssBinary s \<noteq> [] then ssBinary s else defaultBinary)"

text \<open>\<open>goos\<close> is \<^verbatim>\<open>runtime.GOOS\<close>, \<open>exec\<close> the package's own \<^verbatim>\<open>commandRunner\<close>.\<close>

definition ss_platformName :: "string \<Rightarrow> 'w securityStore \<Rightarrow> string" where
  "ss_platformName goos s = (if ssPlatform s \<noteq> [] then ssPlatform s else goos)"

definition ss_runner :: "'w stdinRunner \<Rightarrow> 'w securityStore \<Rightarrow> 'w stdinRunner" where
  "ss_runner exec s = (case ssRunner s of Some r \<Rightarrow> r | None \<Rightarrow> exec)"

definition ss_validate :: "string \<Rightarrow> 'w securityStore \<Rightarrow> string \<Rightarrow> gerror option" where
  "ss_validate goos s kind = first_err [
     reject (ss_platformName goos s \<noteq> ''darwin'') ''macOS Keychain is unavailable on this platform'',
     kind_Validate kind,
     reject (strings_TrimSpace (ss_service s) = []) ''Keychain service name is empty'']"

definition isNotFound :: "byte list \<Rightarrow> bool" where
  "isNotFound stderr = (let message = strings_ToLower (bytes_string stderr) in
     strings_Contains message ''could not be found'' \<or> strings_Contains message ''errsecitemnotfound'')"

definition commandError :: "string \<Rightarrow> byte list \<Rightarrow> runErr \<Rightarrow> gerror" where
  "commandError action stderr e = WrapErr action (Err ''exit status'')"

definition trimSuffix :: "byte \<Rightarrow> byte list \<Rightarrow> byte list" where
  "trimSuffix b bs = (if bs \<noteq> [] \<and> last bs = b then butlast bs else bs)"

definition ss_Put :: "string \<Rightarrow> 'w securityStore \<Rightarrow> ctx \<Rightarrow> string \<Rightarrow> byte list \<Rightarrow> 'w \<Rightarrow> gerror option \<times> 'w" where
  "ss_Put goos s ctx kind secret w = (case ss_validate goos s kind of
     Some e \<Rightarrow> (Some e, w)
   | None \<Rightarrow> (Some (Err ''Keychain writes require a validated native secret boundary''), w))"

definition ss_Get :: "'w stdinRunner \<Rightarrow> string \<Rightarrow> 'w securityStore \<Rightarrow> ctx \<Rightarrow> string \<Rightarrow> 'w \<Rightarrow> (gerror + byte list) \<times> 'w" where
  "ss_Get exec goos s ctx kind w = (case ss_validate goos s kind of
     Some e \<Rightarrow> (Inl e, w)
   | None \<Rightarrow> (case ss_runner exec s ctx [] (ss_binary s) [''find-generic-password'', ''-a'', kind, ''-s'', ss_service s, ''-w''] w of
       ((out, err, Some e), w1) \<Rightarrow>
         (if isNotFound err then (Inl (Sentinel ErrCredentialNotFound), w1) else (Inl (commandError ''read credential'' err e), w1))
     | ((out, err, None), w1) \<Rightarrow>
         (let secret = trimSuffix 13 (trimSuffix 10 out) in
          if secret = [] then (Inl (Err ''Keychain returned an empty credential''), w1) else (Inr secret, w1))))"

definition ss_Delete :: "'w stdinRunner \<Rightarrow> string \<Rightarrow> 'w securityStore \<Rightarrow> ctx \<Rightarrow> string \<Rightarrow> 'w \<Rightarrow> gerror option \<times> 'w" where
  "ss_Delete exec goos s ctx kind w = (case ss_validate goos s kind of
     Some e \<Rightarrow> (Some e, w)
   | None \<Rightarrow> (case ss_runner exec s ctx [] (ss_binary s) [''delete-generic-password'', ''-a'', kind, ''-s'', ss_service s] w of
       ((out, err, Some e), w1) \<Rightarrow>
         (if isNotFound err then (Some (Sentinel ErrCredentialNotFound), w1) else (Some (commandError ''delete credential'' err e), w1))
     | ((out, err, None), w1) \<Rightarrow> (None, w1)))"

section \<open>Only the approved helper is used\<close>

lemma digest_fold: "length xs = length ys \<Longrightarrow>
  (fold (\<lambda>(a, b) (d :: byte). d OR (a XOR b)) (zip xs ys) d = 0) \<longleftrightarrow> d = 0 \<and> xs = ys"
proof (induction xs ys arbitrary: d rule: list_induct2)
  case (Cons x xs y ys)
  have "(x XOR y = 0) \<longleftrightarrow> x = y" by (metis xor.assoc xor.right_neutral xor_self_eq xor.left_neutral)
  moreover have "(d OR (x XOR y) = 0) \<longleftrightarrow> d = 0 \<and> x XOR y = 0" by (simp add: or_eq_0_iff)
  ultimately show ?case using Cons by auto
qed simp

lemma equalDigest_eq: "equalDigest a b \<longleftrightarrow> a = b"
  using digest_fold [of a b 0] by (auto simp: equalDigest_def)

text \<open>the helper program that gets the user's secrets is the one whose SHA-256 digest is built into the
  executable: \<^verbatim>\<open>locatePackagedHelper\<close> returns a path only if the content read from it has exactly that digest, the file is an
  executable regular file, it and its directory are writable by their owner only, and that owner is root or the user.\<close>

theorem packaged_helper_approved:
  assumes "locatePackagedHelper sha256 h (hex_EncodeToString digest) = Inr candidate"
  shows "\<exists>content info dir. phOpen h candidate = Some (Some content) \<and> sha256 content = digest \<and> length digest = 32 \<and>
    phLstat h candidate = Some info \<and> nKind info = KRegular \<and> nPerm info AND 0x12 = 0 \<and> nPerm info AND 0x49 \<noteq> 0 \<and>
    phStat h (filepath_Dir candidate) = Some dir \<and> nKind dir = KDir \<and> nPerm dir AND 0x12 = 0 \<and>
    nUid info = nUid dir \<and> (nUid info = 0 \<or> nUid info = phEuid h)"
  using assms by (simp add: locatePackagedHelper_def hex_decode_encode Let_def equalDigest_eq safeOwner_def sameOwner_def
      split: option.splits if_splits)

definition samplePackage :: packageHost where
  "samplePackage = \<lparr>phExecutable = Some ''/opt/nordmac'', phResolve = Some,
     phStat = (\<lambda>_. Some \<lparr>nKind = KDir, nPerm = 0x1ED, nUid = 0, nData = []\<rparr>),
     phLstat = (\<lambda>_. Some \<lparr>nKind = KRegular, nPerm = 0x1ED, nUid = 0, nData = []\<rparr>), phOpen = (\<lambda>_. Some (Some [7])), phEuid = 501\<rparr>"

theorem packaged_helper_approved_witness:
  "\<exists>candidate content. locatePackagedHelper (\<lambda>d. replicate 32 (hd d)) samplePackage (hex_EncodeToString (replicate 32 7)) = Inr candidate \<and>
     phOpen samplePackage candidate = Some (Some content) \<and> replicate 32 (hd content) = replicate 32 7"
proof -
  obtain candidate where r: "locatePackagedHelper (\<lambda>d. replicate 32 (hd d)) samplePackage (hex_EncodeToString (replicate 32 7)) = Inr candidate"
    by (simp add: locatePackagedHelper_def hex_decode_encode samplePackage_def equalDigest_eq safeOwner_def sameOwner_def filepath_IsAbs_def Let_def)
  show ?thesis using packaged_helper_approved [OF r] r by blast
qed

end
