(* ===== verification/Catalog.thy ===== *)
theory Catalog
  imports Runes Netip_Text
begin

text \<open>
  The public server catalog and the choice of a server: the data of \<^verbatim>\<open>internal/catalog\<close>, the resolution of
  locations and the selection of \<^verbatim>\<open>internal/recommend\<close>, and the manifest of \<^verbatim>\<open>internal/connectplan\<close>. The tables of
  \<^verbatim>\<open>unicode\<close>, IPv6 text and SHA-256 are arguments.
\<close>

section \<open>Data\<close>

record city =
  ctID :: int
  ctName :: string
  ctSlug :: string

record country =
  cnID :: int
  cnName :: string
  cnCode :: string
  cnCities :: "city list"

record server =
  svID :: int
  svName :: string
  svHostname :: string
  svStation :: string
  svLoad :: int
  svStatus :: string
  svCountryID :: int
  svCountryName :: string
  svCountryCode :: string
  svCityID :: int
  svCityName :: string
  svCitySlug :: string
  svWireGuardPubKey :: string

datatype catalogSource = SourceNetwork | SourceCache | SourceStaleCache

record countriesResult =
  crCountries :: "country list"
  crSource :: catalogSource
  crFetchedAt :: time
  crWarnings :: "string list"

text \<open>\<^verbatim>\<open>PublicAPI\<close>, over a world.\<close>

record 'w publicAPI =
  apiCountries :: "ctx \<Rightarrow> 'w \<Rightarrow> (gerror + country list) \<times> 'w"
  apiRecommendations :: "ctx \<Rightarrow> int \<Rightarrow> int \<Rightarrow> int \<Rightarrow> 'w \<Rightarrow> (gerror + server list) \<times> 'w"
  apiServers :: "ctx \<Rightarrow> int \<Rightarrow> int \<Rightarrow> 'w \<Rightarrow> (gerror + server list) \<times> 'w"

record query =
  qCountry :: string
  qCity :: string
  qServer :: string

section \<open>Locations\<close>

definition normalize :: "unicode \<Rightarrow> string \<Rightarrow> nat list" where
  "normalize u value = filter (\<lambda>r. uIsLetter u r \<or> uIsDigit u r) (runes_TrimSpace u (map (uToLower u) (runes value)))"

definition one_match :: "string \<Rightarrow> 'a list \<Rightarrow> gerror + 'a" where
  "one_match what matches = (case matches of
     [] \<Rightarrow> Inl (WrapErr what (Sentinel ErrNoMatch))
   | [x] \<Rightarrow> Inr x
   | _ \<Rightarrow> Inl (WrapErr what (Sentinel ErrAmbiguous)))"

definition ResolveCountry :: "unicode \<Rightarrow> country list \<Rightarrow> string \<Rightarrow> gerror + country" where
  "ResolveCountry u countries input = (let want = normalize u input in
     if want = [] then Inl (WrapErr ''country is required'' (Sentinel ErrInvalid))
     else one_match ''country'' (filter (\<lambda>c. normalize u (cnCode c) = want \<or> normalize u (cnName c) = want) countries))"

definition ResolveCity :: "unicode \<Rightarrow> country \<Rightarrow> string \<Rightarrow> gerror + city" where
  "ResolveCity u c input = (let want = normalize u input in
     if want = [] then Inl (WrapErr ''city is required'' (Sentinel ErrInvalid))
     else one_match ''city'' (filter (\<lambda>x. normalize u (ctName x) = want \<or> normalize u (ctSlug x) = want) (cnCities c)))"

section \<open>Servers\<close>

definition hostKey :: "unicode \<Rightarrow> string \<Rightarrow> nat list" where
  "hostKey u value = map (uToLower u) (runes_TrimSpace u (runes value))"

definition nordDomain :: string where
  "nordDomain = ''.nordvpn.com''"

definition normalizeServer :: "unicode \<Rightarrow> string \<Rightarrow> nat list" where
  "normalizeServer u value = (let v = hostKey u value in
     if v = [] then [] else if 46 \<notin> set v then v @ map byte_of nordDomain else v)"

definition validWireGuardKey :: "string \<Rightarrow> bool" where
  "validWireGuardKey value = (case base64_DecodeString value of None \<Rightarrow> False | Some bs \<Rightarrow> length bs = 32)"

definition eligible :: "unicode \<Rightarrow> country \<Rightarrow> int \<Rightarrow> nat list \<Rightarrow> server \<Rightarrow> bool" where
  "eligible u c cityID wantHost s =
     (\<not> (svCountryID s \<noteq> cnID c \<or> \<not> strings_EqualFold u (svCountryCode s) (cnCode c)) \<and>
      \<not> (cityID \<noteq> 0 \<and> svCityID s \<noteq> cityID) \<and>
      \<not> (wantHost \<noteq> [] \<and> hostKey u (svHostname s) \<noteq> wantHost) \<and>
      \<not> (\<not> strings_EqualFold u (svStatus s) ''online'' \<or> \<not> validWireGuardKey (svWireGuardPubKey s)))"

text \<open>The loop of \<^verbatim>\<open>Select\<close> with the set of host names seen so far.\<close>

fun selectLoop :: "unicode \<Rightarrow> country \<Rightarrow> int \<Rightarrow> nat list \<Rightarrow> nat list set \<Rightarrow> server list \<Rightarrow> server option" where
  "selectLoop u c cityID wantHost seen [] = None"
| "selectLoop u c cityID wantHost seen (s # ss) =
     (if hostKey u (svHostname s) \<in> seen then selectLoop u c cityID wantHost seen ss
      else if \<not> eligible u c cityID wantHost s then selectLoop u c cityID wantHost (insert (hostKey u (svHostname s)) seen) ss
      else Some s)"

definition Select :: "unicode \<Rightarrow> server list \<Rightarrow> country \<Rightarrow> int \<Rightarrow> string \<Rightarrow> gerror + server" where
  "Select u servers c cityID exactServer = (case selectLoop u c cityID (normalizeServer u exactServer) {} servers of
     Some s \<Rightarrow> Inr s
   | None \<Rightarrow> Inl (WrapErr ''server'' (Sentinel ErrNoMatch)))"

section \<open>The plan of a connection\<close>

record manifest =
  mfReady :: bool
  mfHostname :: string
  mfIPv4 :: string
  mfPort :: "16 word"
  mfTunnelAddress :: string
  mfPeerAddress :: string
  mfMTU :: int
  mfAllowedIPs :: "string list"
  mfRouteMutations :: "string list"
  mfPeerFingerprint :: string
  mfDNS :: "string list"
  mfIPv6Policy :: string
  mfCredential :: "string \<times> string \<times> string \<times> string"
  mfReferenceRepository :: string
  mfReferenceCommit :: string
  mfBlockers :: "string list"

definition ReferenceCommit :: string where
  "ReferenceCommit = ''d49b7d14715a80e320bae55944727612cac98c9f''"

definition CredentialPath :: string where
  "CredentialPath = ''/v1/users/services/credentials''"

definition host_rune :: "nat \<Rightarrow> bool" where
  "host_rune r = (97 \<le> r \<and> r \<le> 122 \<or> 48 \<le> r \<and> r \<le> 57)"

definition nordHostnamePattern :: "nat list \<Rightarrow> bool" where
  "nordHostnamePattern h = (let label = take (length h - length nordDomain) h in
     drop (length h - length nordDomain) h = map byte_of nordDomain \<and> label \<noteq> [] \<and> length label \<le> 63 \<and>
     host_rune (hd label) \<and> host_rune (last label) \<and> list_all (\<lambda>r. host_rune r \<or> r = 45) label)"

text \<open>The hostname is plain ASCII once it matches.\<close>

definition ascii_string :: "nat list \<Rightarrow> string" where
  "ascii_string rs = map char_of rs"

definition connectplan_Build :: "unicode \<Rightarrow> text6 \<Rightarrow> (8 word list \<Rightarrow> 8 word list) \<Rightarrow> server \<Rightarrow> gerror + manifest" where
  "connectplan_Build u t sha256 s = (case netip_ParseAddr t (svStation s) of
     None \<Rightarrow> Inl (Err ''server station must be a public IPv4 address'')
   | Some station \<Rightarrow>
      (if \<not> addr_Is4 station \<or> \<not> addr_IsGlobalUnicast station \<or> addr_IsPrivate station
       then Inl (Err ''server station must be a public IPv4 address'')
       else (let hostname = hostKey u (svHostname s) in
         if \<not> nordHostnamePattern hostname then Inl (Err ''server hostname is outside the Nord domain'')
         else (case base64_DecodeString (svWireGuardPubKey s) of
           None \<Rightarrow> Inl (Err ''server WireGuard public key is invalid'')
         | Some publicKey \<Rightarrow>
            (if length publicKey \<noteq> 32 then Inl (Err ''server WireGuard public key is invalid'')
             else Inr \<lparr>mfReady = False, mfHostname = ascii_string hostname, mfIPv4 = addr_String t station, mfPort = 51820,
                mfTunnelAddress = ''10.5.0.2/32'', mfPeerAddress = ''10.5.0.1'', mfMTU = 1280, mfAllowedIPs = [''0.0.0.0/0''],
                mfRouteMutations = [''endpoint IPv4 /32 via captured physical gateway'', ''0.0.0.0/1 via owned utun'', ''128.0.0.0/1 via owned utun'',
                  ''::/1 rejected through lo0 while connected'', ''8000::/1 rejected through lo0 while connected''],
                mfPeerFingerprint = hex_EncodeToString (sha256 publicKey),
                mfDNS = [''103.86.96.100'', ''103.86.99.100''],
                mfIPv6Policy = ''block with two owned IPv6 reject routes; compare ownership before rollback'',
                mfCredential = (''GET'', CredentialPath, ''Bearer token read from an approved secret channel'',
                  ''undocumented internal Nord contract; no request made by this plan''),
                mfReferenceRepository = ''https://github.com/NordSecurity/nordvpn-linux'', mfReferenceCommit = ReferenceCommit,
                mfBlockers = [''complete separately approved production login and credential-provisioning validation'',
                  ''validate compare-before-restore DNS mutation on a controlled macOS service'',
                  ''validate owned IPv6 reject routes and rollback on macOS'',
                  ''freeze a fresh server recommendation immediately before an approved bounded test'']\<rparr>)))))"

section \<open>The selected server\<close>

text \<open>Without repeated host names the loop is a search; in general a server is looked at only the first time its name appears.\<close>

definition first_of_host :: "unicode \<Rightarrow> server list \<Rightarrow> nat \<Rightarrow> bool" where
  "first_of_host u ss i \<longleftrightarrow> (\<forall>j<i. hostKey u (svHostname (ss ! j)) \<noteq> hostKey u (svHostname (ss ! i)))"

definition select_spec :: "unicode \<Rightarrow> country \<Rightarrow> int \<Rightarrow> nat list \<Rightarrow> server list \<Rightarrow> server option" where
  "select_spec u c cityID wantHost ss = map_option ((!) ss)
     (find (\<lambda>i. first_of_host u ss i \<and> eligible u c cityID wantHost (ss ! i)) [0..<length ss])"

lemma find_map_Suc: "find P (map Suc xs) = map_option Suc (find (P \<circ> Suc) xs)"
  by (induction xs) auto

lemma find_cong_all: "(\<And>x. x \<in> set xs \<Longrightarrow> P x = Q x) \<Longrightarrow> find P xs = find Q xs"
  by (induction xs) auto

lemma selectLoop_find:
  "selectLoop u c cityID h seen ss = map_option ((!) ss)
     (find (\<lambda>i. first_of_host u ss i \<and> hostKey u (svHostname (ss ! i)) \<notin> seen \<and> eligible u c cityID h (ss ! i)) [0..<length ss])"
proof (induction ss arbitrary: seen)
  case (Cons s ss)
  let ?k = "\<lambda>x. hostKey u (svHostname x)"
  have up: "[0..<length (s # ss)] = 0 # map Suc [0..<length ss]"
    by (simp add: upt_conv_Cons map_Suc_upt del: upt_Suc)
  have fst: "first_of_host u (s # ss) (Suc i) \<longleftrightarrow> ?k s \<noteq> ?k (ss ! i) \<and> first_of_host u ss i" for i
    by (auto simp: first_of_host_def less_Suc_eq_0_disj)
  have fst0: "first_of_host u (s # ss) 0" by (simp add: first_of_host_def)
  show ?case
  proof (cases "?k s \<in> seen")
    case True
    have "find (\<lambda>i. first_of_host u (s # ss) (Suc i) \<and> ?k (ss ! i) \<notin> seen \<and> eligible u c cityID h (ss ! i)) [0..<length ss] =
        find (\<lambda>i. first_of_host u ss i \<and> ?k (ss ! i) \<notin> seen \<and> eligible u c cityID h (ss ! i)) [0..<length ss]"
      unfolding fst using True by (intro find_cong_all) auto
    then show ?thesis using True Cons.IH [of seen]
      by (simp only: up find.simps find_map_Suc) (simp add: fst0 comp_def option.map_comp)
  next
    case False
    have "find (\<lambda>i. first_of_host u (s # ss) (Suc i) \<and> ?k (ss ! i) \<notin> seen \<and> eligible u c cityID h (ss ! i)) [0..<length ss] =
        find (\<lambda>i. first_of_host u ss i \<and> ?k (ss ! i) \<notin> insert (?k s) seen \<and> eligible u c cityID h (ss ! i)) [0..<length ss]"
      unfolding fst by (intro find_cong_all) auto
    then show ?thesis using False Cons.IH [of "insert (?k s) seen"]
      by (simp only: up find.simps find_map_Suc) (simp add: fst0 comp_def option.map_comp)
  qed
qed simp

text \<open>\<^verbatim>\<open>Select\<close> is equivalent to a search of the catalog: it returns the first server, in the order of the API, that
  is the first of its host name and eligible (right country and city, the wanted host if one is named, online, with a
  32-byte WireGuard key), and reports no match exactly when there is none.\<close>

theorem select_first_eligible:
  "Select u servers c cityID exactServer = (case select_spec u c cityID (normalizeServer u exactServer) servers of
     Some s \<Rightarrow> Inr s | None \<Rightarrow> Inl (WrapErr ''server'' (Sentinel ErrNoMatch)))"
  by (simp add: Select_def select_spec_def selectLoop_find)

lemma select_eligible:
  assumes "Select u servers c cityID exactServer = Inr s"
  shows "s \<in> set servers \<and> eligible u c cityID (normalizeServer u exactServer) s"
  using assms by (auto simp: Select_def selectLoop_find find_Some_iff split: option.splits)

end
