(* ===== verification/Atomic_File.thy ===== *)
theory Atomic_File
  imports File_System
begin

text \<open>
  Replacing a file in one step, as the connection record and the country cache are written: a new private file beside
  it is filled, flushed and closed, then renamed over it; the temporary name is removed by a \<^verbatim>\<open>defer\<close>.
\<close>

declare split_paired_All [simp del] split_paired_Ex [simp del]

text \<open>\<^verbatim>\<open>os.ReadFile\<close> follows a symbolic link; the node of a link carries what is read through it.\<close>

definition os_ReadFile :: "filePath \<Rightarrow> fsWorld \<Rightarrow> (oserr + byte list) \<times> fsWorld" where
  "os_ReadFile p w = (case syscall w of
     (False, w1) \<Rightarrow> (Inl EIO, w1)
   | (True, w1) \<Rightarrow> (case fsFiles w1 p of
       None \<Rightarrow> (Inl ENOENT, w1)
     | Some n \<Rightarrow> if nKind n = KDir then (Inl EIO, w1) else (Inr (nData n), w1)))"

text \<open>\<^verbatim>\<open>os.CreateTemp\<close> with a pattern that has text after the star.\<close>

definition os_CreateTempPattern :: "string \<Rightarrow> string \<Rightarrow> string \<Rightarrow> fsWorld \<Rightarrow> (oserr + filePath) \<times> fsWorld" where
  "os_CreateTempPattern d pre suf w = (case syscall w of
     (False, w1) \<Rightarrow> (Inl EIO, w1)
   | (True, w1) \<Rightarrow> (case fsTemps w1 of
       [] \<Rightarrow> (Inl EEXIST, w1)
     | t # ts \<Rightarrow>
         let p = (d, pre @ t @ suf); w2 = w1\<lparr>fsTemps := ts\<rparr> in
         if fsFiles w2 p \<noteq> None then (Inl EEXIST, w2)
         else (Inr p, w2\<lparr>fsFiles := (fsFiles w2)(p := Some \<lparr>nKind = KRegular, nPerm = 0x180, nUid = fsEuid w2, nData = []\<rparr>)\<rparr>)))"

text \<open>Mode, contents, flush and close; every error path closes the file. \<open>wrap\<close> gives each stage its message, and
  \<open>od\<close> is absent when the value has no JSON text.\<close>

definition fillFile :: "(string \<Rightarrow> gerror \<Rightarrow> gerror) \<Rightarrow> filePath \<Rightarrow> byte list option \<Rightarrow> fsWorld \<Rightarrow> gerror option \<times> fsWorld" where
  "fillFile wrap tmp od w = (case file_Chmod tmp 0x180 w of
     (Some e, w1) \<Rightarrow> (Some (wrap ''protect'' (os_error e)), snd (os_probe w1))
   | (None, w1) \<Rightarrow> (case od of
       None \<Rightarrow> (Some (wrap ''encode'' (Err ''json'')), snd (os_probe w1))
     | Some d \<Rightarrow> (case file_Write tmp d w1 of
         (Some e, w2) \<Rightarrow> (Some (wrap ''encode'' (os_error e)), snd (os_probe w2))
       | (None, w2) \<Rightarrow> (case os_probe w2 of
           (Some e, w3) \<Rightarrow> (Some (wrap ''sync'' (os_error e)), snd (os_probe w3))
         | (None, w3) \<Rightarrow> (case os_probe w3 of
             (Some e, w4) \<Rightarrow> (Some (wrap ''close'' (os_error e)), w4)
           | (None, w4) \<Rightarrow> (None, w4))))))"

definition replaceFile :: "(string \<Rightarrow> gerror \<Rightarrow> gerror) \<Rightarrow> string \<Rightarrow> string \<Rightarrow> filePath \<Rightarrow> byte list option \<Rightarrow> fsWorld \<Rightarrow> gerror option \<times> fsWorld" where
  "replaceFile wrap pre suf path od w = (case os_CreateTempPattern (fst path) pre suf w of
     (Inl e, w1) \<Rightarrow> (Some (wrap ''create temporary'' (os_error e)), w1)
   | (Inr tmp, w1) \<Rightarrow>
      (let (e, w2) = (case fillFile wrap tmp od w1 of
           (Some e, w2) \<Rightarrow> (Some e, w2)
         | (None, w2) \<Rightarrow> (case os_Rename tmp path w2 of
             (Some e, w3) \<Rightarrow> (Some (wrap ''replace'' (os_error e)), w3)
           | (None, w3) \<Rightarrow> (None, w3)))
       in (e, snd (os_Remove tmp w2))))"

section \<open>All or nothing\<close>

lemma probe_files: "os_probe w = (e, w1) \<Longrightarrow> fsFiles w1 = fsFiles w"
  by (auto simp: os_probe_def dest!: syscall_frameD split: prod.splits bool.splits)

lemma fill_other:
  assumes "fillFile wrap tmp od w = (e, w1)" "p \<noteq> tmp"
  shows "fsFiles w1 p = fsFiles w p"
proof -
  have pr: "fsFiles (snd (os_probe v)) = fsFiles v" for v using probe_files [of v] by (cases "os_probe v") auto
  show ?thesis using assms pr
    by (auto simp: fillFile_def file_Chmod_def file_Write_def modify_node_def split: prod.splits option.splits bool.splits if_splits
        dest!: syscall_frameD probe_files)
qed

lemma fill_ok:
  assumes "fillFile wrap tmp od w = (None, w1)" "fsFiles w tmp = Some n" "nKind n = KRegular" "nData n = []"
  shows "\<exists>n1 d. od = Some d \<and> fsFiles w1 tmp = Some n1 \<and> nKind n1 = KRegular \<and> nData n1 = d"
  using assms by (auto simp: fillFile_def file_Chmod_def file_Write_def modify_node_def split: prod.splits option.splits bool.splits if_splits
      dest!: syscall_frameD probe_files)

lemma remove_other: "fsFiles (snd (os_Remove tmp w)) p = (if p = tmp then fsFiles (snd (os_Remove tmp w)) p else fsFiles w p)"
  by (auto simp: os_Remove_def split: prod.splits bool.splits option.splits dest!: syscall_frameD)

lemma mkdir_files: "os_MkdirAll d p w = (e, w1) \<Longrightarrow> fsFiles w1 = fsFiles w"
  by (auto simp: os_MkdirAll_def dest!: syscall_frameD split: prod.splits bool.splits option.splits if_splits)

lemma replaceFile_law:
  assumes np: "\<And>s. (fst path, pre @ s) \<noteq> path" and run: "replaceFile wrap pre suf path od w = (e, w1)"
  shows "(e = None \<and> (\<exists>n d. od = Some d \<and> fsFiles w1 path = Some n \<and> nKind n = KRegular \<and> nData n = d)) \<or> (e \<noteq> None \<and> fsFiles w1 path = fsFiles w path)"
proof -
  obtain rt wb where t: "os_CreateTempPattern (fst path) pre suf w = (rt, wb)" by (metis prod.exhaust)
  show ?thesis
  proof (cases rt)
    case (Inl x)
    have "fsFiles wb = fsFiles w" using t Inl
      by (auto simp: os_CreateTempPattern_def Let_def dest!: syscall_frameD split: prod.splits bool.splits list.splits if_splits)
    moreover have "e \<noteq> None \<and> w1 = wb" using run t Inl by (auto simp: replaceFile_def)
    ultimately show ?thesis by simp
  next
    case (Inr tmp)
    have tmp: "\<exists>s. tmp = (fst path, pre @ s)" and fb: "\<And>p. p \<noteq> tmp \<Longrightarrow> fsFiles wb p = fsFiles w p"
      and tn: "\<exists>n. fsFiles wb tmp = Some n \<and> nKind n = KRegular \<and> nData n = []" using t Inr
      by (auto simp: os_CreateTempPattern_def Let_def dest!: syscall_frameD split: prod.splits bool.splits list.splits if_splits)
    then have np: "path \<noteq> tmp" using np by metis
    obtain ef wc where f: "fillFile wrap tmp od wb = (ef, wc)" by (metis prod.exhaust)
    have fc: "fsFiles wc path = fsFiles w path" using fill_other [OF f np] fb [OF np] by simp
    obtain er wd where r: "os_Rename tmp path wc = (er, wd)" by (metis prod.exhaust)
    have res: "w1 = snd (os_Remove tmp (if ef = None then wd else wc))" "e = None \<longleftrightarrow> ef = None \<and> er = None"
      using run t Inr f r by (auto simp: replaceFile_def split: option.splits)
    have last: "fsFiles w1 path = fsFiles (if ef = None then wd else wc) path"
      using res(1) remove_other [of tmp "if ef = None then wd else wc" path] np by simp
    show ?thesis
    proof (cases "ef = None \<and> er = None")
      case False
      have "er \<noteq> None \<Longrightarrow> fsFiles wd = fsFiles wc" using r
        by (auto simp: os_Rename_def dest!: syscall_frameD split: prod.splits bool.splits option.splits)
      then have "fsFiles w1 path = fsFiles w path" using False last fc by auto
      then show ?thesis using False res(2) by auto
    next
      case ok: True
      obtain n d where n: "od = Some d" "fsFiles wc tmp = Some n" "nKind n = KRegular" "nData n = d"
        using fill_ok f tn ok by metis
      have "fsFiles wd path = Some n" using r ok n
        by (auto simp: os_Rename_def dest!: syscall_frameD split: prod.splits bool.splits option.splits)
      then show ?thesis using ok last res n by simp
    qed
  qed
qed

end
