(* ===== verification/Connection_State.thy ===== *)
theory Connection_State
  imports State_Store Atomic_File
begin

text \<open>
  The local record of a connection, \<^verbatim>\<open>internal/connection/state.go\<close>: its validity, the file it is kept in, and
  the contract of such a store as the locale \<open>metadata_store\<close>, interpreted on the file.
\<close>

declare split_paired_All [simp del] split_paired_Ex [simp del]

section \<open>The record\<close>

record metadata =
  mdSchemaVersion :: int
  mdSessionID :: string
  mdServer :: string
  mdCountry :: string
  mdCity :: string
  mdPhase :: string
  mdCreatedAt :: time

definition metadata_validate :: "metadata \<Rightarrow> gerror option" where
  "metadata_validate m = first_err [
     reject (mdSchemaVersion m \<noteq> 1 \<or> \<not> ValidSessionID (mdSessionID m) \<or> mdServer m = [] \<or> time_IsZero (mdCreatedAt m))
       ''invalid local connection metadata'',
     reject (mdPhase m \<noteq> ''connecting'' \<and> mdPhase m \<noteq> ''connected'') ''invalid local connection phase'']"

section \<open>The file\<close>

definition decodeMetadata :: "metadata codec \<Rightarrow> byte list \<Rightarrow> gerror + metadata" where
  "decodeMetadata cd d = (case json_Decode cd d of
     None \<Rightarrow> Inl (Err ''decode local connection metadata'')
   | Some (m, False) \<Rightarrow> Inl (Err ''trailing local connection metadata'')
   | Some (m, True) \<Rightarrow> (case metadata_validate m of Some e \<Rightarrow> Inl e | None \<Rightarrow> Inr m))"

definition md_Load :: "metadata codec \<Rightarrow> filePath \<Rightarrow> fsWorld \<Rightarrow> (gerror + metadata) \<times> fsWorld" where
  "md_Load cd path w = (case os_ReadFile path w of
     (Inl e, w1) \<Rightarrow> (Inl (os_error e), w1)
   | (Inr d, w1) \<Rightarrow> (decodeMetadata cd d, w1))"

text \<open>The errors of the system calls are returned as they are, except that of the rename.\<close>

definition metadataError :: "string \<Rightarrow> gerror \<Rightarrow> gerror" where
  "metadataError stage e = (if stage = ''replace'' then WrapErr ''replace local connection metadata'' e else e)"

definition md_Save :: "metadata codec \<Rightarrow> filePath \<Rightarrow> metadata \<Rightarrow> fsWorld \<Rightarrow> gerror option \<times> fsWorld" where
  "md_Save cd path m w = (case metadata_validate m of
     Some e \<Rightarrow> (Some e, w)
   | None \<Rightarrow> (case os_MkdirAll (fst path) 0x1C0 w of
       (Some e, w1) \<Rightarrow> (Some (os_error e), w1)
     | (None, w1) \<Rightarrow> (case json_Marshal cd m of
         None \<Rightarrow> (Some (Err ''json''), w1)
       | Some d \<Rightarrow> replaceFile metadataError ''.connection-'' ''.tmp'' path (Some (d @ [10])) w1)))"

definition md_Delete :: "filePath \<Rightarrow> fsWorld \<Rightarrow> gerror option \<times> fsWorld" where
  "md_Delete path w = (case os_Remove path w of
     (Some ENOENT, w1) \<Rightarrow> (None, w1)
   | (Some e, w1) \<Rightarrow> (Some (os_error e), w1)
   | (None, w1) \<Rightarrow> (None, w1))"

record 'w metadataStore =
  msLoad :: "'w \<Rightarrow> (gerror + metadata) \<times> 'w"
  msSave :: "metadata \<Rightarrow> 'w \<Rightarrow> gerror option \<times> 'w"
  msDelete :: "'w \<Rightarrow> gerror option \<times> 'w"

definition metadataFile :: "metadata codec \<Rightarrow> filePath \<Rightarrow> fsWorld metadataStore" where
  "metadataFile cd path = \<lparr>msLoad = md_Load cd path, msSave = md_Save cd path, msDelete = md_Delete path\<rparr>"

section \<open>The contract\<close>

text \<open>\<open>stored w\<close> is \<open>None\<close> without a record, else what reading it gives (\<open>None\<close> for an unusable one). \<open>writable\<close>
  are the records the store can write faithfully.\<close>

locale metadata_store =
  fixes ms :: "'w metadataStore" and stored :: "'w \<Rightarrow> metadata option option" and writable :: "metadata \<Rightarrow> bool"
  assumes load: "msLoad ms w = (r, w1) \<Longrightarrow> stored w1 = stored w \<and> (\<forall>m. r = Inr m \<longrightarrow> stored w = Some (Some m)) \<and>
      (\<forall>e. r = Inl e \<longrightarrow> errors_Is e ErrNotExist \<longrightarrow> stored w = None)"
    and save: "writable m \<Longrightarrow> msSave ms m w = (e, w1) \<Longrightarrow> (e = None \<and> stored w1 = Some (Some m)) \<or> (e \<noteq> None \<and> stored w1 = stored w)"
    and delete: "msDelete ms w = (e, w1) \<Longrightarrow> (e = None \<and> stored w1 = None) \<or> (e \<noteq> None \<and> stored w1 = stored w)"

section \<open>The file keeps it\<close>

definition file_stored :: "metadata codec \<Rightarrow> filePath \<Rightarrow> fsWorld \<Rightarrow> metadata option option" where
  "file_stored cd path w = map_option (\<lambda>n. if nKind n = KDir then None else (case decodeMetadata cd (nData n) of Inr m \<Rightarrow> Some m | Inl _ \<Rightarrow> None)) (fsFiles w path)"

lemma file_stored_cong: "fsFiles w1 path = fsFiles w path \<Longrightarrow> file_stored cd path w1 = file_stored cd path w"
  by (simp add: file_stored_def)

lemma decodeMetadata_not_Is: "decodeMetadata cd d = Inl e \<Longrightarrow> \<not> errors_Is e ErrNotExist"
  by (auto simp: decodeMetadata_def metadata_validate_def split: option.splits bool.splits prod.splits dest!: first_err_Some_mem dest: reject_not_Is [OF sym])

lemma md_Load_law:
  assumes "md_Load cd path w = (r, w1)"
  shows "file_stored cd path w1 = file_stored cd path w \<and> (\<forall>m. r = Inr m \<longrightarrow> file_stored cd path w = Some (Some m)) \<and>
    (\<forall>e. r = Inl e \<longrightarrow> errors_Is e ErrNotExist \<longrightarrow> file_stored cd path w = None)"
proof -
  obtain b wa where s: "syscall w = (b, wa)" by (metis prod.exhaust)
  have f: "fsFiles wa = fsFiles w" using syscall_frameD [OF s] by simp
  show ?thesis
  proof (cases "b \<and> fsFiles w path \<noteq> None")
    case False
    then show ?thesis using assms s f by (auto simp: md_Load_def os_ReadFile_def file_stored_def os_error_def split: bool.splits)
  next
    case True
    then obtain n where n: "fsFiles w path = Some n" by blast
    show ?thesis
    proof (cases "nKind n = KDir")
      case True
      then show ?thesis using assms s f n \<open>b \<and> _\<close> by (auto simp: md_Load_def os_ReadFile_def file_stored_def os_error_def)
    next
      case False
      then have "r = decodeMetadata cd (nData n)" "w1 = wa" using assms s f n \<open>b \<and> _\<close> by (auto simp: md_Load_def os_ReadFile_def)
      then show ?thesis using f n False by (auto simp: file_stored_def dest: decodeMetadata_not_Is)
    qed
  qed
qed

lemma temp_not_path: "snd path = ''connection-v1.json'' \<Longrightarrow> (fst path, ''.connection-'' @ t) \<noteq> path"
  by (cases path) auto

lemma decode_written:
  assumes "codec_line_ok cd m" "json_Marshal cd m = Some d" "metadata_validate m = None"
  shows "decodeMetadata cd (d @ [10]) = Inr m"
  using assms by (simp add: codec_line_ok_def decodeMetadata_def)

lemma md_Save_law:
  assumes name: "snd path = ''connection-v1.json''" and codec: "codec_line_ok cd m" and run: "md_Save cd path m w = (e, w1)"
  shows "(e = None \<and> file_stored cd path w1 = Some (Some m)) \<or> (e \<noteq> None \<and> file_stored cd path w1 = file_stored cd path w)"
proof (cases "metadata_validate m")
  case (Some x)
  then show ?thesis using run by (auto simp: md_Save_def)
next
  case valid: None
  obtain em wa where mk: "os_MkdirAll (fst path) 0x1C0 w = (em, wa)" by (metis prod.exhaust)
  note fa = mkdir_files [OF mk]
  show ?thesis
  proof (cases "em = None \<and> json_Marshal cd m \<noteq> None")
    case False
    then have "e \<noteq> None \<and> w1 = wa" using run valid mk by (auto simp: md_Save_def split: option.splits)
    then show ?thesis using file_stored_cong fa by metis
  next
    case True
    then obtain d where d: "json_Marshal cd m = Some d" by blast
    have "replaceFile metadataError ''.connection-'' ''.tmp'' path (Some (d @ [10])) wa = (e, w1)" using run valid mk True d by (simp add: md_Save_def)
    then show ?thesis using replaceFile_law [OF temp_not_path [OF name]] fa decode_written [OF codec d valid]
      by (fastforce simp: file_stored_def)
  qed
qed

lemma md_Delete_law:
  assumes "md_Delete path w = (e, w1)"
  shows "(e = None \<and> file_stored cd path w1 = None) \<or> (e \<noteq> None \<and> file_stored cd path w1 = file_stored cd path w)"
  using assms by (auto simp: md_Delete_def os_Remove_def file_stored_def dest!: syscall_frameD split: prod.splits bool.splits option.splits oserr.splits)

text \<open>The name the program gives the file, in a directory of its choice.\<close>

definition metadataPath :: "string \<Rightarrow> filePath" where
  "metadataPath dir = (dir, ''connection-v1.json'')"

interpretation metadata: metadata_store "metadataFile cd (metadataPath dir)" "file_stored cd (metadataPath dir)" "codec_line_ok cd" for cd dir
proof unfold_locales
  fix w r w1 m e
  show "msLoad (metadataFile cd (metadataPath dir)) w = (r, w1) \<Longrightarrow> file_stored cd (metadataPath dir) w1 = file_stored cd (metadataPath dir) w \<and>
      (\<forall>m. r = Inr m \<longrightarrow> file_stored cd (metadataPath dir) w = Some (Some m)) \<and>
      (\<forall>e. r = Inl e \<longrightarrow> errors_Is e ErrNotExist \<longrightarrow> file_stored cd (metadataPath dir) w = None)"
    by (rule md_Load_law) (simp add: metadataFile_def)
  show "codec_line_ok cd m \<Longrightarrow> msSave (metadataFile cd (metadataPath dir)) m w = (e, w1) \<Longrightarrow>
      (e = None \<and> file_stored cd (metadataPath dir) w1 = Some (Some m)) \<or>
      (e \<noteq> None \<and> file_stored cd (metadataPath dir) w1 = file_stored cd (metadataPath dir) w)"
    by (rule md_Save_law) (simp_all add: metadataFile_def metadataPath_def)
  show "msDelete (metadataFile cd (metadataPath dir)) w = (e, w1) \<Longrightarrow>
      (e = None \<and> file_stored cd (metadataPath dir) w1 = None) \<or>
      (e \<noteq> None \<and> file_stored cd (metadataPath dir) w1 = file_stored cd (metadataPath dir) w)"
    by (rule md_Delete_law) (simp add: metadataFile_def)
qed

end
