(* ===== verification/Connection.thy ===== *)
theory Connection
  imports Connection_State Catalog Helper_Protocol Darwin_DNS Credential_Properties
begin

text \<open>
  The connection service, \<^verbatim>\<open>internal/connection/service.go\<close>: connect, disconnect, status and reconnect under the
  lock, over the recommender, the credential store, the physical network, the privileged helper and the local record.
  \<^verbatim>\<open>rand.Read\<close> never fails and always fills its buffer, so identities come from a total function of the world.
\<close>

section \<open>The service\<close>

record 'w connService =
  coRecommend :: "ctx \<Rightarrow> query \<Rightarrow> 'w \<Rightarrow> (gerror + server) \<times> 'w"
  coCredentials :: "'w credStore"
  coRoutes :: "'w darwinRoutes"
  coRunner :: "'w runner option"
  coHelper :: "ctx \<Rightarrow> request \<Rightarrow> deviceSecrets option \<Rightarrow> 'w \<Rightarrow> (gerror + response) \<times> 'w"
  coLocker :: "'w credLocker option"
  coMetadata :: "'w metadataStore"
  coOwnerUID :: int
  coGetuid :: int
  coNow :: "'w \<Rightarrow> time \<times> 'w"
  coRand :: "'w \<Rightarrow> byte list \<times> 'w"
  coTables :: unicode
  coText6 :: text6
  coSHA256 :: "byte list \<Rightarrow> byte list"

record connResult =
  reState :: string
  reSessionID :: string
  reServer :: string
  reCountry :: string
  reCity :: string

definition emptyResult :: connResult where
  "emptyResult = \<lparr>reState = [], reSessionID = [], reServer = [], reCountry = [], reCity = []\<rparr>"

definition stateResult :: "string \<Rightarrow> connResult" where
  "stateResult s = emptyResult\<lparr>reState := s\<rparr>"

definition resultFromMetadata :: "metadata \<Rightarrow> string \<Rightarrow> connResult" where
  "resultFromMetadata m st = \<lparr>reState = st, reSessionID = mdSessionID m, reServer = mdServer m, reCountry = mdCountry m, reCity = mdCity m\<rparr>"

fun phase_string :: "phase \<Rightarrow> string" where
  "phase_string PhaseDisconnected = ''disconnected''"
| "phase_string PhaseConnecting = ''connecting''"
| "phase_string PhaseConnected = ''connected''"
| "phase_string PhaseDegraded = ''degraded''"
| "phase_string PhaseDisconnecting = ''disconnecting''"
| "phase_string PhaseRollbackRequired = ''rollback_required''"
| "phase_string PhaseForeignConflict = ''foreign_conflict''"
| "phase_string (PhaseOther s) = s"

definition randomID :: "'w connService \<Rightarrow> 'w \<Rightarrow> string \<times> 'w" where
  "randomID s w = (let (d, w1) = coRand s w in (hex_EncodeToString (take 16 (d @ replicate 16 0)), w1))"

definition service_uid :: "'w connService \<Rightarrow> int" where
  "service_uid s = (if coOwnerUID s > 0 then coOwnerUID s else coGetuid s)"

definition service_lock :: "'w connService \<Rightarrow> ctx \<Rightarrow> 'w \<Rightarrow> (gerror + ('w \<Rightarrow> gerror option \<times> 'w)) \<times> 'w" where
  "service_lock s ctx w = (case coLocker s of
     None \<Rightarrow> (Inl (Err ''connection lock is unavailable''), w)
   | Some lock \<Rightarrow> (case lock ctx w of
       (Inl e, w1) \<Rightarrow> (Inl (the (errors_Join [Some (Sentinel ErrBusy), Some e])), w1)
     | (Inr release, w1) \<Rightarrow> (Inr release, w1)))"

definition decodeSecrets :: "byte list \<Rightarrow> server \<Rightarrow> gerror + deviceSecrets" where
  "decodeSecrets privateText sv = (case base64_DecodeString (bytes_string privateText) of
     None \<Rightarrow> Inl (Err ''stored NordLynx private key is invalid'')
   | Some private \<Rightarrow>
      (if length private \<noteq> 32 then Inl (Err ''stored NordLynx private key is invalid'')
       else (case base64_DecodeString (svWireGuardPubKey sv) of
         None \<Rightarrow> Inl (Err ''recommended server public key is invalid'')
       | Some peer \<Rightarrow>
          (if length peer \<noteq> 32 then Inl (Err ''recommended server public key is invalid'')
           else (let secrets = \<lparr>ClientPrivateKey = private, PeerPublicKey = peer\<rparr> in
             case secrets_Validate (Some secrets) of Some e \<Rightarrow> Inl e | None \<Rightarrow> Inr secrets)))))"

text \<open>\<^verbatim>\<open>netip.ParseAddrPort\<close>: split at the last colon; IPv6 addresses are in brackets.\<close>

definition netip_ParseAddrPort :: "text6 \<Rightarrow> string \<Rightarrow> addrport option" where
  "netip_ParseAddrPort t s = (let back = takeWhile (\<lambda>ch. ch \<noteq> CHR '':'') (rev s); port = rev back;
       ip = take (length s - Suc (length back)) s in
     if length back = length s \<or> ip = [] \<or> port = [] then None
     else (let v6 = (hd ip = CHR ''['') in
       if v6 \<and> (length ip < 2 \<or> last ip \<noteq> CHR '']'') then None
       else (case (ParseUint 10 16 port, netip_ParseAddr t (if v6 then butlast (tl ip) else ip)) of
         (Some n, Some a) \<Rightarrow> if v6 = addr_Is4 a then None else Some \<lparr>apAddr = a, apPort = word_of_nat n\<rparr>
       | _ \<Rightarrow> None)))"

section \<open>Connect\<close>

text \<open>What is known before anything is changed: the plan and the keys of the connection.\<close>

definition tunnelDNS :: "addr list" where
  "tunnelDNS = [ip4 103 86 96 100, ip4 103 86 99 100]"

definition connectionPlan :: "'w connService \<Rightarrow> string \<Rightarrow> manifest \<Rightarrow> deviceSecrets \<Rightarrow> routeSnapshot \<Rightarrow> string \<Rightarrow> gerror + plan" where
  "connectionPlan s sid mf secrets physical dnsService = (case netip_ParseAddrPort (coText6 s) (mfIPv4 mf @ '':51820'') of
     None \<Rightarrow> Inl (Err ''recommended server has an invalid endpoint'')
   | Some endpoint \<Rightarrow>
      (let digest = hex_EncodeToString (coSHA256 s (PeerPublicKey secrets)) in
       if digest \<noteq> mfPeerFingerprint mf then Inl (Err ''recommended peer key changed while planning'')
       else (let p = \<lparr>pSessionID = sid, pOwnerUID = service_uid s, pEndpoint = endpoint,
            pPhysicalGateway = rGateway (rsDefault physical), pPhysicalInterface = rInterface (rsDefault physical),
            pTunnelAddress = PrefixFrom (ip4 10 5 0 2) 32, pTunnelMTU = 1280, pTunnelDNS = tunnelDNS, pDNSService = dnsService,
            pRoutePolicy = RoutePolicyFullIPv4, pScopedRoutes = [], pPeerFingerprint = digest\<rparr> in
          case plan_Validate p of Some e \<Rightarrow> Inl e | None \<Rightarrow> Inr p)))"

definition prepareConnection :: "'w connService \<Rightarrow> ctx \<Rightarrow> query \<Rightarrow> 'w \<Rightarrow> (gerror + (server \<times> deviceSecrets \<times> plan)) \<times> 'w" where
  "prepareConnection s ctx q w = (case coRecommend s ctx q w of
     (Inl e, w1) \<Rightarrow> (Inl e, w1)
   | (Inr sv, w1) \<Rightarrow> (case connectplan_Build (coTables s) (coText6 s) (coSHA256 s) sv of
       Inl e \<Rightarrow> (Inl e, w1)
     | Inr mf \<Rightarrow> (case csGet (coCredentials s) ctx NordLynxPrivateKey w1 of
         (Inl e, w2) \<Rightarrow> (Inl (if errors_Is e ErrCredentialNotFound then Sentinel ErrNotAuthenticated else e), w2)
       | (Inr privateText, w2) \<Rightarrow> (case decodeSecrets privateText sv of
           Inl e \<Rightarrow> (Inl e, w2)
         | Inr secrets \<Rightarrow> (case route_Snapshot (coText6 s) (coRoutes s) ctx w2 of
             (Inl e, w3) \<Rightarrow> (Inl e, w3)
           | (Inr physical, w3) \<Rightarrow> (case NetworkService ctx (coRunner s) (rInterface (rsDefault physical)) w3 of
               (Inl e, w4) \<Rightarrow> (Inl e, w4)
             | (Inr dnsService, w4) \<Rightarrow> (case randomID s w4 of (sid, w5) \<Rightarrow>
                 (case connectionPlan s sid mf secrets physical dnsService of
                   Inl e \<Rightarrow> (Inl e, w5)
                 | Inr p \<Rightarrow> (Inr (sv, secrets, p), w5)))))))))"

definition helperRequest :: "'w connService \<Rightarrow> operation \<Rightarrow> string \<Rightarrow> string \<Rightarrow> plan option \<Rightarrow> request" where
  "helperRequest s op rid sid po = \<lparr>rqSchemaVersion = SchemaVersion, rqRequestID = rid, rqOperation = op, rqSessionID = sid,
     rqOwnerUID = service_uid s, rqSecretChannelVersion = (if op = OperationConnect then SecretChannelVersion else 0), rqPlan = po\<rparr>"

definition helperFailure :: "gerror + response \<Rightarrow> gerror option" where
  "helperFailure r = (case r of
     Inl e \<Rightarrow> errors_Join [Some (Sentinel ErrHelper), Some e]
   | Inr rs \<Rightarrow> if \<not> rsOK rs then errors_Join [Some (Sentinel ErrHelper), None] else None)"

text \<open>After the record says \<^verbatim>\<open>connecting\<close> the helper is asked; a record that cannot be completed is answered by a disconnect.\<close>

definition establish :: "'w connService \<Rightarrow> ctx \<Rightarrow> metadata \<Rightarrow> deviceSecrets \<Rightarrow> plan \<Rightarrow> 'w \<Rightarrow> connResult \<times> gerror option \<times> 'w" where
  "establish s ctx m secrets p w =
     (let (rid, w1) = randomID s w;
          (r, w2) = coHelper s ctx (helperRequest s OperationConnect rid (mdSessionID m) (Some p)) (Some secrets) w1 in
      case helperFailure r of
        Some e \<Rightarrow> (emptyResult, Some e, w2)
      | None \<Rightarrow>
         (let m2 = m\<lparr>mdPhase := ''connected''\<rparr> in case msSave (coMetadata s) m2 w2 of
            (Some e, w3) \<Rightarrow>
              (let (rid2, w4) = randomID s w3;
                   (r2, w5) = coHelper s Background (helperRequest s OperationDisconnect rid2 (mdSessionID m) None) None w4
               in (emptyResult, errors_Join [Some e, case r2 of Inl e2 \<Rightarrow> Some e2 | Inr _ \<Rightarrow> None], w5))
          | (None, w3) \<Rightarrow> (resultFromMetadata m2 ''connected'', None, w3)))"

definition connection_connectLocked :: "'w connService \<Rightarrow> ctx \<Rightarrow> query \<Rightarrow> 'w \<Rightarrow> connResult \<times> gerror option \<times> 'w" where
  "connection_connectLocked s ctx q w = (case msLoad (coMetadata s) w of
     (Inr m, w1) \<Rightarrow> (emptyResult, Some (Sentinel ErrAlreadyConnected), w1)
   | (Inl e, w1) \<Rightarrow>
      (if \<not> errors_Is e ErrNotExist then (emptyResult, Some e, w1)
       else (case prepareConnection s ctx q w1 of
         (Inl e, w2) \<Rightarrow> (emptyResult, Some e, w2)
       | (Inr (sv, secrets, p), w2) \<Rightarrow>
          (let (now, w3) = coNow s w2;
               m = \<lparr>mdSchemaVersion = 1, mdSessionID = pSessionID p, mdServer = svHostname sv, mdCountry = svCountryName sv,
                    mdCity = svCityName sv, mdPhase = ''connecting'', mdCreatedAt = now\<rparr>
           in case msSave (coMetadata s) m w3 of
             (Some e, w4) \<Rightarrow> (emptyResult, Some e, w4)
           | (None, w4) \<Rightarrow> establish s ctx m secrets p w4))))"

section \<open>Disconnect and status\<close>

definition connection_disconnectLocked :: "'w connService \<Rightarrow> ctx \<Rightarrow> 'w \<Rightarrow> connResult \<times> gerror option \<times> 'w" where
  "connection_disconnectLocked s ctx w = (case msLoad (coMetadata s) w of
     (Inl e, w1) \<Rightarrow> (if errors_Is e ErrNotExist then (stateResult ''disconnected'', None, w1) else (emptyResult, Some e, w1))
   | (Inr m, w1) \<Rightarrow>
      (let (rid, w2) = randomID s w1;
           (r, w3) = coHelper s ctx (helperRequest s OperationDisconnect rid (mdSessionID m) None) None w2 in
       case helperFailure r of
         Some e \<Rightarrow> (resultFromMetadata m ''rollback_required'', Some e, w3)
       | None \<Rightarrow> (case msDelete (coMetadata s) w3 of
           (Some e, w4) \<Rightarrow> (emptyResult, Some e, w4)
         | (None, w4) \<Rightarrow> (stateResult ''disconnected'', None, w4))))"

definition statusLocked :: "'w connService \<Rightarrow> ctx \<Rightarrow> 'w \<Rightarrow> connResult \<times> gerror option \<times> 'w" where
  "statusLocked s ctx w = (case msLoad (coMetadata s) w of
     (Inl e, w1) \<Rightarrow> (if errors_Is e ErrNotExist then (stateResult ''disconnected'', None, w1) else (emptyResult, Some e, w1))
   | (Inr m, w1) \<Rightarrow>
      (let (rid, w2) = randomID s w1;
           (r, w3) = coHelper s ctx (helperRequest s OperationStatus rid (mdSessionID m) None) None w2 in
       case r of
         Inl e \<Rightarrow> (resultFromMetadata m ''degraded'', None, w3)
       | Inr rs \<Rightarrow> (let st = (case rsState rs of None \<Rightarrow> [] | Some ph \<Rightarrow> phase_string ph) in
           (resultFromMetadata m (if st = [] then ''degraded'' else st), None, w3))))"

definition reconnectLocked :: "'w connService \<Rightarrow> ctx \<Rightarrow> 'w \<Rightarrow> connResult \<times> gerror option \<times> 'w" where
  "reconnectLocked s ctx w = (case msLoad (coMetadata s) w of
     (Inl e, w1) \<Rightarrow> (emptyResult, Some e, w1)
   | (Inr m, w1) \<Rightarrow> (case connection_disconnectLocked s ctx w1 of
       (_, Some e, w2) \<Rightarrow> (emptyResult, Some e, w2)
     | (_, None, w2) \<Rightarrow> connection_connectLocked s ctx \<lparr>qCountry = mdCountry m, qCity = mdCity m, qServer = []\<rparr> w2))"

text \<open>The common frame of the commands: the release error is joined to the error of the operation.\<close>

definition underLock :: "'w connService \<Rightarrow> ctx \<Rightarrow> ('w \<Rightarrow> connResult \<times> gerror option \<times> 'w) \<Rightarrow> 'w \<Rightarrow> connResult \<times> gerror option \<times> 'w" where
  "underLock s ctx run w = (case service_lock s ctx w of
     (Inl e, w1) \<Rightarrow> (emptyResult, Some e, w1)
   | (Inr release, w1) \<Rightarrow> (case run w1 of (r, e, w2) \<Rightarrow> (case release w2 of (re, w3) \<Rightarrow> (r, errors_Join [e, re], w3))))"

definition connection_Connect :: "'w connService \<Rightarrow> ctx \<Rightarrow> query \<Rightarrow> 'w \<Rightarrow> connResult \<times> gerror option \<times> 'w" where
  "connection_Connect s ctx q w = underLock s ctx (connection_connectLocked s ctx q) w"

definition connection_Disconnect :: "'w connService \<Rightarrow> ctx \<Rightarrow> 'w \<Rightarrow> connResult \<times> gerror option \<times> 'w" where
  "connection_Disconnect s ctx w = underLock s ctx (connection_disconnectLocked s ctx) w"

definition connection_Status :: "'w connService \<Rightarrow> ctx \<Rightarrow> 'w \<Rightarrow> connResult \<times> gerror option \<times> 'w" where
  "connection_Status s ctx w = underLock s ctx (statusLocked s ctx) w"

definition connection_Reconnect :: "'w connService \<Rightarrow> ctx \<Rightarrow> bool \<Rightarrow> 'w \<Rightarrow> connResult \<times> gerror option \<times> 'w" where
  "connection_Reconnect s ctx fresh w =
     (if \<not> fresh then (emptyResult, Some (Err ''reconnect requires fresh server selection''), w)
      else underLock s ctx (reconnectLocked s ctx) w)"

end
