(* ===== verification/Connection_Properties.thy ===== *)
theory Connection_Properties
  imports Connection
begin

text \<open>
  What the connection commands guarantee about the local record: every session the privileged side may still hold
  is named by it. The world is the file system with the record and the lock beside whatever the other adapters
  act on; a function tells which sessions the privileged side may hold there.
\<close>

declare split_paired_All [simp del] split_paired_Ex [simp del]

section \<open>What the adapters are relied on for\<close>

definition leaves :: "('w \<Rightarrow> 'x) \<Rightarrow> ('w \<Rightarrow> 'r \<times> 'w) \<Rightarrow> bool" where
  "leaves f run \<longleftrightarrow> (\<forall>w r w1. run w = (r, w1) \<longrightarrow> f w1 = f w)"

lemma leavesD: "leaves f run \<Longrightarrow> run w = (r, w1) \<Longrightarrow> f w1 = f w"
  by (auto simp: leaves_def)

named_theorems leaves_intros \<open>composition of steps that leave a view of the world alone\<close>

lemma leaves_bind [leaves_intros]: "leaves f run \<Longrightarrow> (\<And>r. leaves f (k r)) \<Longrightarrow> leaves f (\<lambda>w. case run w of (r, w1) \<Rightarrow> k r w1)"
  by (auto simp: leaves_def split: prod.splits)

lemma leaves_return [leaves_intros]: "leaves f (\<lambda>w. (x, w))"
  by (simp add: leaves_def)

lemma leaves_sum [leaves_intros]: "(\<And>e. leaves f (g e)) \<Longrightarrow> (\<And>x. leaves f (h x)) \<Longrightarrow> leaves f (\<lambda>w. case a of Inl e \<Rightarrow> g e w | Inr x \<Rightarrow> h x w)"
  by (cases a) auto

lemma leaves_if [leaves_intros]: "leaves f g \<Longrightarrow> leaves f h \<Longrightarrow> leaves f (\<lambda>w. if b then g w else h w)"
  by (cases b) auto

text \<open>Recommending, reading the credential, inspecting the network, the clock and the random source.\<close>

definition adapters_leave :: "'w connService \<Rightarrow> ('w \<Rightarrow> 'x) \<Rightarrow> bool" where
  "adapters_leave s f \<longleftrightarrow> (\<forall>ctx q. leaves f (coRecommend s ctx q)) \<and> (\<forall>ctx k. leaves f (csGet (coCredentials s) ctx k)) \<and>
     (\<forall>rn ctx p a. drRunner (coRoutes s) = Some rn \<or> coRunner s = Some rn \<longrightarrow> leaves f (rnRun rn ctx p a)) \<and>
     leaves f (coNow s) \<and> leaves f (coRand s)"

text \<open>The helper: only a connect request can add its session, and a disconnect answered with success has removed it.\<close>

definition helper_tracks :: "(ctx \<Rightarrow> request \<Rightarrow> deviceSecrets option \<Rightarrow> 'w \<Rightarrow> (gerror + response) \<times> 'w) \<Rightarrow> ('w \<Rightarrow> metadata option option) \<Rightarrow> ('w \<Rightarrow> string set) \<Rightarrow> bool" where
  "helper_tracks exchange stored sess \<longleftrightarrow> (\<forall>ctx rq sec w r w1. exchange ctx rq sec w = (r, w1) \<longrightarrow> stored w1 = stored w \<and>
     sess w1 \<subseteq> sess w \<union> (if rqOperation rq = OperationConnect then {rqSessionID rq} else {}) \<and>
     (rqOperation rq = OperationDisconnect \<and> (\<exists>rs. r = Inr rs \<and> rsOK rs) \<longrightarrow> rqSessionID rq \<notin> sess w1))"

definition recorded :: "('w \<Rightarrow> metadata option option) \<Rightarrow> ('w \<Rightarrow> string set) \<Rightarrow> 'w \<Rightarrow> bool" where
  "recorded stored sess w \<longleftrightarrow> (\<forall>sid\<in>sess w. \<exists>m. stored w = Some (Some m) \<and> mdSessionID m = sid)"

lemma recorded_cong: "stored w1 = stored w \<Longrightarrow> sess w1 \<subseteq> sess w \<Longrightarrow> recorded stored sess w \<Longrightarrow> recorded stored sess w1"
  by (auto simp: recorded_def)

lemma recorded_none: "stored w = None \<Longrightarrow> recorded stored sess w \<longleftrightarrow> sess w = {}"
  by (auto simp: recorded_def)

text \<open>The steps between the record and the helper.\<close>

lemma runner_leaves:
  assumes "adapters_leave s f"
  shows "leaves f (route_Snapshot t (coRoutes s) ctx)" "leaves f (NetworkService ctx (coRunner s) ifc)" "leaves f (randomID s)"
proof -
  have r: "leaves f (route_run (coRoutes s) ctx a)" for a
    using assms by (cases "drRunner (coRoutes s)") (auto simp: adapters_leave_def route_run_def leaves_def)
  show "leaves f (route_Snapshot t (coRoutes s) ctx)"
    using r by (auto simp: leaves_def route_Snapshot_def Let_def split: option.splits prod.splits sum.splits if_splits)
  show "leaves f (NetworkService ctx (coRunner s) ifc)"
    using assms by (cases "coRunner s") (auto simp: adapters_leave_def leaves_def NetworkService_def split: prod.splits sum.splits)
  show "leaves f (randomID s)"
    using assms by (auto simp: adapters_leave_def leaves_def randomID_def split: prod.splits)
qed

lemma prepare_leaves:
  assumes "adapters_leave s f"
  shows "leaves f (prepareConnection s ctx q)"
proof -
  have "leaves f (coRecommend s ctx q)" "leaves f (csGet (coCredentials s) ctx NordLynxPrivateKey)"
    using assms by (simp_all add: adapters_leave_def)
  then show ?thesis unfolding prepareConnection_def by (intro leaves_intros runner_leaves [OF assms])
qed

lemma prepare_plan:
  assumes "prepareConnection s ctx q w = (Inr (sv, secrets, p), w1)"
  shows "plan_Validate p = None \<and> secrets_Validate (Some secrets) = None"
  using assms by (auto simp: prepareConnection_def connectionPlan_def decodeSecrets_def Let_def split: prod.splits sum.splits option.splits if_splits)

lemma helper_step:
  assumes "helper_tracks (coHelper s) stored sess" "coHelper s ctx rq sec w = (r, w1)"
  shows "stored w1 = stored w" "rqOperation rq \<noteq> OperationConnect \<Longrightarrow> sess w1 \<subseteq> sess w" "sess w1 \<subseteq> insert (rqSessionID rq) (sess w)"
    "rqOperation rq = OperationDisconnect \<Longrightarrow> helperFailure r = None \<Longrightarrow> rqSessionID rq \<notin> sess w1"
  using assms(1) [unfolded helper_tracks_def, rule_format, OF assms(2)] by (auto simp: helperFailure_def split: if_splits sum.splits)

lemma helperRequest_simps [simp]:
  "rqOperation (helperRequest s op rid sid po) = op" "rqSessionID (helperRequest s op rid sid po) = sid"
  by (simp_all add: helperRequest_def)

section \<open>The commands over a record store\<close>

context metadata_store
begin

definition world_ok :: "'w connService \<Rightarrow> ('w \<Rightarrow> string set) \<Rightarrow> bool" where
  "world_ok s sess \<longleftrightarrow> adapters_leave s (\<lambda>w. (stored w, sess w)) \<and> helper_tracks (coHelper s) stored sess \<and> coMetadata s = ms \<and> (\<forall>m. writable m) \<and>
     leaves sess (msLoad ms) \<and> (\<forall>m. leaves sess (msSave ms m)) \<and> leaves sess (msDelete ms)"

lemma random_step: "world_ok s sess \<Longrightarrow> randomID s w = (i, w1) \<Longrightarrow> stored w1 = stored w \<and> sess w1 = sess w"
  using leavesD [OF runner_leaves(3)] by (fastforce simp: world_ok_def)

lemma save_step: "world_ok s sess \<Longrightarrow> msSave ms m w = (e, w1) \<Longrightarrow>
    sess w1 = sess w \<and> (e = None \<and> stored w1 = Some (Some m) \<or> e \<noteq> None \<and> stored w1 = stored w)"
  using save [of m w e w1] by (auto simp: world_ok_def leaves_def)

lemma establish_records:
  assumes ok: "world_ok s sess" and m: "stored w = Some (Some m)" "sess w = {}" and run: "establish s ctx m secrets p w = (r, e, w1)"
  shows "recorded stored sess w1 \<and> (e = None \<longrightarrow> r = resultFromMetadata m ''connected'' \<and> stored w1 = Some (Some (m\<lparr>mdPhase := ''connected''\<rparr>)))"
proof -
  have ht: "helper_tracks (coHelper s) stored sess" "coMetadata s = ms" using ok by (simp_all add: world_ok_def)
  obtain rid wa where i: "randomID s w = (rid, wa)" by (metis prod.exhaust)
  obtain hr wb where h: "coHelper s ctx (helperRequest s OperationConnect rid (mdSessionID m) (Some p)) (Some secrets) wa = (hr, wb)" by (metis prod.exhaust)
  obtain es wc where sv: "msSave ms (m\<lparr>mdPhase := ''connected''\<rparr>) wb = (es, wc)" by (metis prod.exhaust)
  obtain rid2 wd where i2: "randomID s wc = (rid2, wd)" by (metis prod.exhaust)
  obtain r2 we where h2: "coHelper s Background (helperRequest s OperationDisconnect rid2 (mdSessionID m) None) None wd = (r2, we)" by (metis prod.exhaust)
  have vb: "stored wb = Some (Some m)" "sess wb \<subseteq> {mdSessionID m}"
    using random_step [OF ok i] helper_step(1,3) [OF ht(1) h] m by auto
  show ?thesis
  proof (cases "helperFailure hr")
    case (Some x)
    then have "e = Some x" "w1 = wb" using run i h by (simp_all add: establish_def)
    then show ?thesis using vb by (auto simp: recorded_def)
  next
    case None
    show ?thesis
    proof (cases es)
      case None
      then have "e = None" "r = resultFromMetadata m ''connected''" "w1 = wc"
        using run i h sv ht(2) \<open>helperFailure hr = None\<close> by (auto simp: establish_def resultFromMetadata_def Let_def)
      then show ?thesis using save_step [OF ok sv] None vb by (auto simp: recorded_def)
    next
      case (Some x)
      then have "e = errors_Join [Some x, case r2 of Inl e2 \<Rightarrow> Some e2 | Inr _ \<Rightarrow> None]" "w1 = we"
        using run i h sv i2 h2 ht(2) \<open>helperFailure hr = None\<close> by (simp_all add: establish_def Let_def)
      then have "e \<noteq> None" "w1 = we" by auto
      moreover have "stored we = Some (Some m)" "sess we \<subseteq> {mdSessionID m}"
        using save_step [OF ok sv] Some random_step [OF ok i2] helper_step(1,2) [OF ht(1) h2] vb by auto
      ultimately show ?thesis by (auto simp: recorded_def)
    qed
  qed
qed

lemma connect_records:
  assumes ok: "world_ok s sess" and rec: "recorded stored sess w" and run: "connection_connectLocked s ctx q w = (r, e, w1)"
  shows "recorded stored sess w1 \<and> (e = None \<longrightarrow> reState r = ''connected'' \<and>
    (\<exists>m. stored w1 = Some (Some m) \<and> mdPhase m = ''connected'' \<and> mdSessionID m = reSessionID r))"
proof -
  have cm: "coMetadata s = ms" and al: "adapters_leave s (\<lambda>w. (stored w, sess w))" using ok by (simp_all add: world_ok_def)
  obtain rl wa where l: "msLoad ms w = (rl, wa)" by (metis prod.exhaust)
  have va: "stored wa = stored w" "sess wa = sess w" using load [OF l] ok l by (auto simp: world_ok_def leaves_def)
  show ?thesis
  proof (cases "\<exists>x. rl = Inl x \<and> errors_Is x ErrNotExist")
    case False
    then have "e \<noteq> None" "w1 = wa" using run l cm by (auto simp: connection_connectLocked_def split: sum.splits if_splits)
    then show ?thesis using va rec by (auto simp: recorded_def)
  next
    case True
    then have none: "stored wa = None" "sess wa = {}" using load [OF l] va rec by (auto simp: recorded_def)
    obtain rp wb where p: "prepareConnection s ctx q wa = (rp, wb)" by (metis prod.exhaust)
    have vb: "stored wb = None" "sess wb = {}" using leavesD [OF prepare_leaves [OF al] p] none by auto
    show ?thesis
    proof (cases rp)
      case (Inl x)
      then have "e \<noteq> None" "w1 = wb" using run l cm True p by (auto simp: connection_connectLocked_def)
      then show ?thesis using vb by (auto simp: recorded_def)
    next
      case (Inr y)
      obtain sv secrets pl where y: "y = (sv, secrets, pl)" by (metis prod.exhaust)
      obtain now wc where n: "coNow s wb = (now, wc)" by (metis prod.exhaust)
      have vc: "stored wc = None" "sess wc = {}" using al n vb by (auto simp: adapters_leave_def leaves_def)
      define m where "m = \<lparr>mdSchemaVersion = 1, mdSessionID = pSessionID pl, mdServer = svHostname sv, mdCountry = svCountryName sv,
        mdCity = svCityName sv, mdPhase = ''connecting'', mdCreatedAt = now\<rparr>"
      obtain es wd where sa: "msSave ms m wc = (es, wd)" by (metis prod.exhaust)
      show ?thesis
      proof (cases es)
        case (Some x)
        then have "e \<noteq> None" "w1 = wd" using run l cm True p Inr y n sa by (auto simp: connection_connectLocked_def m_def Let_def)
        then show ?thesis using save_step [OF ok sa] Some vc by (auto simp: recorded_def)
      next
        case None
        then have er: "establish s ctx m secrets pl wd = (r, e, w1)" using run l cm True p Inr y n sa by (auto simp: connection_connectLocked_def m_def Let_def)
        have vd: "stored wd = Some (Some m)" "sess wd = {}" using save_step [OF ok sa] None vc by auto
        show ?thesis using establish_records [OF ok vd er] by (auto simp: resultFromMetadata_def)
      qed
    qed
  qed
qed

lemma disconnect_records:
  assumes ok: "world_ok s sess" and rec: "recorded stored sess w" and run: "connection_disconnectLocked s ctx w = (r, e, w1)"
  shows "recorded stored sess w1 \<and> (e = None \<longrightarrow> stored w1 = None \<and> sess w1 = {})"
proof -
  have cm: "coMetadata s = ms" and ht: "helper_tracks (coHelper s) stored sess" using ok by (simp_all add: world_ok_def)
  obtain rl wa where l: "msLoad ms w = (rl, wa)" by (metis prod.exhaust)
  have va: "stored wa = stored w" "sess wa = sess w" using load [OF l] ok l by (auto simp: world_ok_def leaves_def)
  show ?thesis
  proof (cases rl)
    case (Inl x)
    have "w1 = wa" "e = None \<longrightarrow> errors_Is x ErrNotExist" using run l cm Inl by (auto simp: connection_disconnectLocked_def split: if_splits)
    then show ?thesis using load [OF l] Inl va rec by (auto simp: recorded_def)
  next
    case (Inr m)
    obtain rid wb where i: "randomID s wa = (rid, wb)" by (metis prod.exhaust)
    obtain hr wc where h: "coHelper s ctx (helperRequest s OperationDisconnect rid (mdSessionID m) None) None wb = (hr, wc)" by (metis prod.exhaust)
    obtain ed wd where d: "msDelete ms wc = (ed, wd)" by (metis prod.exhaust)
    have st: "stored w = Some (Some m)" using load [OF l] Inr by simp
    then have sub: "sess w \<subseteq> {mdSessionID m}" using rec by (auto simp: recorded_def)
    have vc: "stored wc = Some (Some m)" "sess wc \<subseteq> {mdSessionID m}" "helperFailure hr = None \<Longrightarrow> sess wc = {}"
      using random_step [OF ok i] helper_step [OF ht h] va st sub by auto
    show ?thesis
    proof (cases "helperFailure hr")
      case (Some x)
      then have "e = Some x" "w1 = wc" using run l cm Inr i h by (simp_all add: connection_disconnectLocked_def)
      then show ?thesis using vc by (auto simp: recorded_def)
    next
      case None
      then have "w1 = wd" "e = ed" using run l cm Inr i h d by (auto simp: connection_disconnectLocked_def split: option.splits)
      moreover have "sess wd = {}" using vc(3) None d ok by (auto simp: world_ok_def leaves_def)
      ultimately show ?thesis using delete [OF d] by (auto simp: recorded_def)
    qed
  qed
qed

lemma status_records:
  assumes ok: "world_ok s sess" and rec: "recorded stored sess w" and run: "statusLocked s ctx w = (r, e, w1)"
  shows "recorded stored sess w1"
proof -
  have cm: "coMetadata s = ms" and ht: "helper_tracks (coHelper s) stored sess" using ok by (simp_all add: world_ok_def)
  obtain rl wa where l: "msLoad ms w = (rl, wa)" by (metis prod.exhaust)
  have va: "stored wa = stored w" "sess wa = sess w" using load [OF l] ok l by (auto simp: world_ok_def leaves_def)
  show ?thesis
  proof (cases rl)
    case (Inl x)
    have "w1 = wa" using run l cm Inl by (auto simp: statusLocked_def split: if_splits)
    then show ?thesis using va rec by (auto simp: recorded_def)
  next
    case (Inr m)
    obtain rid wb where i: "randomID s wa = (rid, wb)" by (metis prod.exhaust)
    obtain hr wc where h: "coHelper s ctx (helperRequest s OperationStatus rid (mdSessionID m) None) None wb = (hr, wc)" by (metis prod.exhaust)
    have "w1 = wc" using run l cm Inr i h by (auto simp: statusLocked_def Let_def split: sum.splits)
    moreover have "stored wc = stored w" "sess wc \<subseteq> sess w" using random_step [OF ok i] helper_step(1,2) [OF ht h] va by auto
    ultimately show ?thesis using rec recorded_cong by metis
  qed
qed

lemma reconnect_records:
  assumes ok: "world_ok s sess" and rec: "recorded stored sess w" and run: "reconnectLocked s ctx w = (r, e, w1)"
  shows "recorded stored sess w1"
proof -
  have cm: "coMetadata s = ms" using ok by (simp add: world_ok_def)
  obtain rl wa where l: "msLoad ms w = (rl, wa)" by (metis prod.exhaust)
  have "stored wa = stored w" "sess wa = sess w" using load [OF l] ok l by (auto simp: world_ok_def leaves_def)
  then have ra: "recorded stored sess wa" using rec by (auto simp: recorded_def)
  obtain rd ed wb where d: "connection_disconnectLocked s ctx wa = (rd, ed, wb)" by (metis prod.exhaust)
  have rb: "recorded stored sess wb" using disconnect_records [OF ok ra d] by simp
  show ?thesis
  proof (cases rl)
    case (Inl x)
    then show ?thesis using run l cm ra by (simp add: reconnectLocked_def)
  next
    case (Inr m)
    show ?thesis
    proof (cases ed)
      case None
      then show ?thesis using run l cm Inr d connect_records [OF ok rb] by (auto simp: reconnectLocked_def)
    next
      case (Some x)
      then show ?thesis using run l cm Inr d rb by (simp add: reconnectLocked_def)
    qed
  qed
qed

end

section \<open>The commands of the program\<close>

text \<open>As \<^verbatim>\<open>cmd/nordmac/main.go\<close> composes them: record and lock are files of the user's directory.\<close>

definition userMetadata :: "metadata codec \<Rightarrow> string \<Rightarrow> (fsWorld \<times> 'v) metadataStore" where
  "userMetadata cd dir = (let ms = metadataFile cd (metadataPath dir) in
     \<lparr>msLoad = onFiles (msLoad ms), msSave = (\<lambda>m. onFiles (msSave ms m)), msDelete = onFiles (msDelete ms)\<rparr>)"

definition userConnection :: "(fsWorld \<times> 'v) connService \<Rightarrow> metadata codec \<Rightarrow> string \<Rightarrow> (fsWorld \<times> 'v) connService" where
  "userConnection s cd dir = s\<lparr>coMetadata := userMetadata cd dir, coLocker := Some (userLock dir)\<rparr>"

definition userRecord :: "metadata codec \<Rightarrow> string \<Rightarrow> fsWorld \<times> 'v \<Rightarrow> metadata option option" where
  "userRecord cd dir w = file_stored cd (metadataPath dir) (fst w)"

datatype connCommand = CmdConnect query | CmdDisconnect | CmdStatus | CmdReconnect bool

fun runCommand :: "'w connService \<Rightarrow> ctx \<Rightarrow> connCommand \<Rightarrow> 'w \<Rightarrow> connResult \<times> gerror option \<times> 'w" where
  "runCommand s ctx (CmdConnect q) w = connection_Connect s ctx q w"
| "runCommand s ctx CmdDisconnect w = connection_Disconnect s ctx w"
| "runCommand s ctx CmdStatus w = connection_Status s ctx w"
| "runCommand s ctx (CmdReconnect fresh) w = connection_Reconnect s ctx fresh w"

lemma onFiles_snd: "leaves (\<lambda>w. g (snd w)) (onFiles f)"
  by (auto simp: leaves_def onFiles_def split: prod.splits)

interpretation connected: metadata_store "userMetadata cd dir" "userRecord cd dir" "codec_line_ok cd" for cd dir
proof unfold_locales
  fix w w1 :: "fsWorld \<times> 'a" and r m e
  show "msLoad (userMetadata cd dir) w = (r, w1) \<Longrightarrow> userRecord cd dir w1 = userRecord cd dir w \<and>
      (\<forall>m. r = Inr m \<longrightarrow> userRecord cd dir w = Some (Some m)) \<and> (\<forall>e. r = Inl e \<longrightarrow> errors_Is e ErrNotExist \<longrightarrow> userRecord cd dir w = None)"
    using metadata.load [of cd dir "fst w"] by (auto simp: userMetadata_def onFiles_def userRecord_def Let_def split: prod.splits)
  show "codec_line_ok cd m \<Longrightarrow> msSave (userMetadata cd dir) m w = (e, w1) \<Longrightarrow>
      (e = None \<and> userRecord cd dir w1 = Some (Some m)) \<or> (e \<noteq> None \<and> userRecord cd dir w1 = userRecord cd dir w)"
    using metadata.save [of cd m dir "fst w"] by (force simp: userMetadata_def onFiles_def userRecord_def Let_def split: prod.splits)
  show "msDelete (userMetadata cd dir) w = (e, w1) \<Longrightarrow>
      (e = None \<and> userRecord cd dir w1 = None) \<or> (e \<noteq> None \<and> userRecord cd dir w1 = userRecord cd dir w)"
    using metadata.delete [of cd dir "fst w"] by (force simp: userMetadata_def onFiles_def userRecord_def Let_def split: prod.splits)
qed

text \<open>The lock file is another file than the record.\<close>

lemma cred_Lock_files:
  assumes "p \<noteq> (dir, cred_filename)"
  shows "leaves (\<lambda>w. fsFiles w p) (cred_Lock dir ctx)"
    and "cred_Lock dir ctx w = (Inr release, w1) \<Longrightarrow> leaves (\<lambda>w. fsFiles w p) release"
proof -
  have c: "fsFiles w1 = fsFiles w" if "file_CloseLock q fd w = (e, w1)" for q fd w e w1
    using that by (auto simp: file_CloseLock_def drop_flock_def dest!: syscall_frameD split: prod.splits bool.splits if_splits)
  have d: "fsFiles w1 = fsFiles w" if "cred_ensureDirectory dir w = (e, w1)" for w e w1
    using that by (auto simp: cred_ensureDirectory_def os_MkdirAll_def os_LstatDir_def dest!: syscall_frameD
        split: prod.splits bool.splits option.splits if_splits sum.splits)
  have o: "fsFiles w1 p = fsFiles w p" if "os_OpenLock (dir, cred_filename) w = (r, w1)" for w r w1
    using that assms by (auto simp: os_OpenLock_def Let_def dest!: syscall_frameD split: prod.splits bool.splits option.splits if_splits)
  have k: "fsFiles w1 = fsFiles w" if "cred_checks q fd n w = (e, w1)" for q fd n w e w1
    using that by (auto simp: cred_checks_def os_probe_def flock_try_def dest!: syscall_frameD
        split: prod.splits bool.splits option.splits if_splits oserr.splits)
  show "leaves (\<lambda>w. fsFiles w p) (cred_Lock dir ctx)"
    by (auto simp: leaves_def cred_Lock_def closeOnError_def dest!: c d k o split: prod.splits option.splits sum.splits if_splits)
  have "leaves (\<lambda>w. fsFiles w p) (release_once kind q fd)" for kind q fd
    by (auto simp: leaves_def release_once_def flock_release_def drop_flock_def Let_def dest!: c syscall_frameD
        split: prod.splits option.splits bool.splits if_splits)
  then show "cred_Lock dir ctx w = (Inr release, w1) \<Longrightarrow> leaves (\<lambda>w. fsFiles w p) release"
    by (auto simp: cred_Lock_def split: prod.splits option.splits sum.splits if_splits)
qed

lemma onFiles_leaves: "leaves f run \<Longrightarrow> leaves (\<lambda>w. (f (fst w), snd w)) (onFiles run)"
  by (auto simp: leaves_def onFiles_def split: prod.splits)

lemma userLock_leaves:
  shows "leaves (\<lambda>w. (userRecord cd dir w, sess (snd w))) (userLock dir ctx)"
    and "userLock dir ctx w = (Inr release, w1) \<Longrightarrow> leaves (\<lambda>w. (userRecord cd dir w, sess (snd w))) release"
proof -
  have np: "metadataPath dir \<noteq> (dir, cred_filename)" by (simp add: metadataPath_def cred_filename_def)
  have lift: "leaves (\<lambda>w. (userRecord cd dir w, sess (snd w))) (onFiles run)" if "leaves (\<lambda>w. fsFiles w (metadataPath dir)) run" for run :: "fsWorld \<Rightarrow> 'r \<times> fsWorld"
    using that by (auto simp: leaves_def onFiles_def userRecord_def file_stored_def split: prod.splits)
  show "leaves (\<lambda>w. (userRecord cd dir w, sess (snd w))) (userLock dir ctx)"
    using lift [OF cred_Lock_files(1) [OF np]] by (auto simp: leaves_def userLock_def split: prod.splits sum.splits)
  show "userLock dir ctx w = (Inr release, w1) \<Longrightarrow> leaves (\<lambda>w. (userRecord cd dir w, sess (snd w))) release"
    using lift [OF cred_Lock_files(2) [OF np]] by (auto simp: userLock_def onFiles_def split: prod.splits sum.splits)
qed

definition named :: "metadata codec \<Rightarrow> string \<Rightarrow> ('v \<Rightarrow> string set) \<Rightarrow> fsWorld \<times> 'v \<Rightarrow> bool" where
  "named cd dir sess w \<longleftrightarrow> recorded (userRecord cd dir) (\<lambda>w. sess (snd w)) w"

definition service_ok :: "(fsWorld \<times> 'v) connService \<Rightarrow> metadata codec \<Rightarrow> string \<Rightarrow> ('v \<Rightarrow> string set) \<Rightarrow> bool" where
  "service_ok s cd dir sess \<longleftrightarrow> adapters_leave s (\<lambda>w. (userRecord cd dir w, sess (snd w))) \<and>
     helper_tracks (coHelper s) (userRecord cd dir) (\<lambda>w. sess (snd w)) \<and> (\<forall>m. codec_line_ok cd m)"

lemma service_world_ok:
  assumes "service_ok s cd dir sess"
  shows "connected.world_ok cd dir (userConnection s cd dir) (\<lambda>w. sess (snd w))"
  using assms onFiles_snd
  by (simp add: connected.world_ok_def service_ok_def userConnection_def adapters_leave_def helper_tracks_def randomID_def)
    (simp add: userMetadata_def Let_def onFiles_snd)

lemma named_view: "userRecord cd dir w1 = userRecord cd dir w \<Longrightarrow> sess (snd w1) = sess (snd w) \<Longrightarrow> named cd dir sess w1 \<longleftrightarrow> named cd dir sess w"
  by (simp add: named_def recorded_def)

lemma underLock_named:
  assumes "named cd dir sess w" and "underLock (userConnection s cd dir) ctx run w = (r, e, w1)"
    and "\<And>w r e w1. named cd dir sess w \<Longrightarrow> run w = (r, e, w1) \<Longrightarrow> named cd dir sess w1 \<and> (e = None \<longrightarrow> Q r (userRecord cd dir w1) (sess (snd w1)))"
  shows "named cd dir sess w1 \<and> (e = None \<longrightarrow> Q r (userRecord cd dir w1) (sess (snd w1)))"
proof -
  obtain rl wa where l: "userLock dir ctx w = (rl, wa)" by (metis prod.exhaust)
  have "userRecord cd dir wa = userRecord cd dir w" "sess (snd wa) = sess (snd w)" using leavesD [OF userLock_leaves(1) l] by auto
  then have na: "named cd dir sess wa" using assms(1) named_view by blast
  have sl: "service_lock (userConnection s cd dir) ctx w = (case rl of Inl e \<Rightarrow> Inl (the (errors_Join [Some (Sentinel ErrBusy), Some e])) | Inr x \<Rightarrow> Inr x, wa)"
    using l by (simp add: service_lock_def userConnection_def split: sum.split)
  show ?thesis
  proof (cases rl)
    case (Inl x)
    then show ?thesis using assms(2) sl na by (auto simp: underLock_def)
  next
    case (Inr release)
    obtain rr er wb where b: "run wa = (rr, er, wb)" by (metis prod.exhaust)
    obtain re wc where c: "release wb = (re, wc)" by (metis prod.exhaust)
    have v: "userRecord cd dir wc = userRecord cd dir wb" "sess (snd wc) = sess (snd wb)"
      using leavesD [OF userLock_leaves(2) [OF l [unfolded Inr]] c] by auto
    have "r = rr" "e = errors_Join [er, re]" "w1 = wc" using assms(2) sl Inr b c by (auto simp: underLock_def)
    moreover have "named cd dir sess wc \<longleftrightarrow> named cd dir sess wb" using v by (rule named_view)
    moreover have "errors_Join [er, re] = None \<Longrightarrow> er = None" by simp
    ultimately show ?thesis using assms(3) [OF na b] v by simp
  qed
qed

text \<open>What a command reports when it returns no error.\<close>

fun reports :: "connCommand \<Rightarrow> connResult \<Rightarrow> metadata option option \<Rightarrow> string set \<Rightarrow> bool" where
  "reports (CmdConnect q) r st ss = (reState r = ''connected'' \<and> (\<exists>m. st = Some (Some m) \<and> mdPhase m = ''connected'' \<and> mdSessionID m = reSessionID r))"
| "reports CmdDisconnect r st ss = (st = None \<and> ss = {})"
| "reports _ r st ss = True"

lemma command_named:
  assumes "service_ok s cd dir sess" "named cd dir sess w" "runCommand (userConnection s cd dir) ctx c w = (r, e, w1)"
  shows "named cd dir sess w1 \<and> (e = None \<longrightarrow> reports c r (userRecord cd dir w1) (sess (snd w1)))"
proof -
  note ok = service_world_ok [OF assms(1)]
  let ?s = "userConnection s cd dir" and ?n = "named cd dir sess" and ?R = "\<lambda>c r w1. reports c r (userRecord cd dir w1) (sess (snd w1))"
  have c1: "?n w1 \<and> (e = None \<longrightarrow> ?R (CmdConnect q) r w1)" if "?n w" "connection_connectLocked ?s ctx q w = (r, e, w1)" for q w r e w1
    using that unfolding named_def reports.simps by (rule connected.connect_records [OF ok])
  have c2: "?n w1 \<and> (e = None \<longrightarrow> ?R CmdDisconnect r w1)" if "?n w" "connection_disconnectLocked ?s ctx w = (r, e, w1)" for w r e w1
    using that unfolding named_def reports.simps by (rule connected.disconnect_records [OF ok])
  have c3: "?n w1 \<and> (e = None \<longrightarrow> ?R CmdStatus r w1)" if "?n w" "statusLocked ?s ctx w = (r, e, w1)" for w r e w1
    using connected.status_records [OF ok that(1) [unfolded named_def] that(2)] by (simp add: named_def)
  have c4: "?n w1 \<and> (e = None \<longrightarrow> ?R (CmdReconnect b) r w1)" if "?n w" "reconnectLocked ?s ctx w = (r, e, w1)" for b w r e w1
    using connected.reconnect_records [OF ok that(1) [unfolded named_def] that(2)] by (simp add: named_def)
  show ?thesis
  proof (cases c)
    case (CmdConnect q)
    then have "underLock (userConnection s cd dir) ctx (connection_connectLocked (userConnection s cd dir) ctx q) w = (r, e, w1)"
      using assms(3) by (simp add: connection_Connect_def)
    from underLock_named [OF assms(2) this, of "reports c"] show ?thesis using c1 unfolding CmdConnect by blast
  next
    case CmdDisconnect
    then have "underLock (userConnection s cd dir) ctx (connection_disconnectLocked (userConnection s cd dir) ctx) w = (r, e, w1)"
      using assms(3) by (simp add: connection_Disconnect_def)
    from underLock_named [OF assms(2) this, of "reports c"] show ?thesis using c2 unfolding CmdDisconnect by blast
  next
    case CmdStatus
    then have "underLock (userConnection s cd dir) ctx (statusLocked (userConnection s cd dir) ctx) w = (r, e, w1)"
      using assms(3) by (simp add: connection_Status_def)
    from underLock_named [OF assms(2) this, of "reports c"] show ?thesis using c3 unfolding CmdStatus by blast
  next
    case (CmdReconnect fresh)
    show ?thesis
    proof (cases fresh)
      case True
      then have "underLock (userConnection s cd dir) ctx (reconnectLocked (userConnection s cd dir) ctx) w = (r, e, w1)"
        using assms(3) CmdReconnect by (simp add: connection_Reconnect_def)
      from underLock_named [OF assms(2) this, of "reports c"] show ?thesis using c4 unfolding CmdReconnect by blast
    next
      case False
      then show ?thesis using assms CmdReconnect by (auto simp: connection_Reconnect_def)
    qed
  qed
qed

section \<open>Any sequence of commands\<close>

definition runCommands :: "'w connService \<Rightarrow> (ctx \<times> connCommand) list \<Rightarrow> 'w \<Rightarrow> 'w" where
  "runCommands s cs w = fold (\<lambda>(ctx, c) w. snd (snd (runCommand s ctx c w))) cs w"

lemma commands_named:
  "service_ok s cd dir sess \<Longrightarrow> named cd dir sess w \<Longrightarrow> named cd dir sess (runCommands (userConnection s cd dir) cs w)"
proof (induction cs arbitrary: w)
  case (Cons a cs)
  obtain ctx c where a: "a = (ctx, c)" by (metis prod.exhaust)
  obtain r e w1 where r: "runCommand (userConnection s cd dir) ctx c w = (r, e, w1)" by (metis prod.exhaust)
  show ?case using Cons.IH [of w1] Cons.prems command_named [OF Cons.prems r] a r by (simp add: runCommands_def)
qed (simp add: runCommands_def)


section \<open>A user with an open connection\<close>

definition sampleMeta :: metadata where
  "sampleMeta = \<lparr>mdSchemaVersion = 1, mdSessionID = replicate 32 CHR ''a'', mdServer = ''de1.nordvpn.com'', mdCountry = ''Germany'', mdCity = ''Berlin'',
     mdPhase = ''connected'', mdCreatedAt = 1000\<rparr>"

definition metaCodec :: "metadata codec" where
  "metaCodec = \<lparr>json_Marshal = (\<lambda>m. if m = sampleMeta then Some [1] else None), json_Decode = (\<lambda>d. if d = [1, 10] then Some (sampleMeta, True) else None)\<rparr>"

text \<open>A helper that keeps the set of sessions it holds.\<close>

definition setHelper :: "ctx \<Rightarrow> request \<Rightarrow> deviceSecrets option \<Rightarrow> fsWorld \<times> string set \<Rightarrow> (gerror + response) \<times> fsWorld \<times> string set" where
  "setHelper ctx rq sec w = (Inr \<lparr>rsSchemaVersion = SchemaVersion, rsRequestID = rqRequestID rq, rsOK = True, rsState = Some PhaseConnected, rsErrorCode = None\<rparr>,
     fst w, (if rqOperation rq = OperationConnect then insert (rqSessionID rq) (snd w)
             else if rqOperation rq = OperationDisconnect then snd w - {rqSessionID rq} else snd w))"

definition sampleService :: "(fsWorld \<times> string set) connService" where
  "sampleService = \<lparr>coRecommend = (\<lambda>ctx q w. (Inl (Err ''offline''), w)),
     coCredentials = \<lparr>csPut = (\<lambda>ctx k v w. (None, w)), csGet = (\<lambda>ctx k w. (Inl (Sentinel ErrCredentialNotFound), w)), csDelete = (\<lambda>ctx k w. (None, w))\<rparr>,
     coRoutes = \<lparr>drRunner = None, drRoutePath = []\<rparr>, coRunner = None, coHelper = setHelper, coLocker = None,
     coMetadata = userMetadata metaCodec userDir, coOwnerUID = 501, coGetuid = 501, coNow = (\<lambda>w. (1000, w)), coRand = (\<lambda>w. (replicate 16 0, w)),
     coTables = asciiTables, coText6 = \<lparr>parseIPv6 = (\<lambda>_. None), showIPv6 = (\<lambda>_. [])\<rparr>, coSHA256 = (\<lambda>_. replicate 32 0)\<rparr>"

definition openFiles :: fsWorld where
  "openFiles = sampleFiles\<lparr>fsFiles := [metadataPath userDir \<mapsto> \<lparr>nKind = KRegular, nPerm = 0x180, nUid = 501, nData = [1, 10]\<rparr>]\<rparr>"

lemma sample_service_ok: "service_ok sampleService metaCodec userDir (\<lambda>x. x)"
  by (auto simp: service_ok_def adapters_leave_def leaves_def sampleService_def helper_tracks_def setHelper_def userRecord_def codec_line_ok_def metaCodec_def)

lemma sampleMeta_valid: "metadata_validate sampleMeta = None"
  by (simp add: metadata_validate_def sampleMeta_def sample_ids time_IsZero_def)

lemma openFiles_record: "userRecord metaCodec userDir (openFiles, x) = Some (Some sampleMeta)"
  by (simp add: userRecord_def file_stored_def openFiles_def decodeMetadata_def metaCodec_def sampleMeta_valid)

lemma sample_named: "named metaCodec userDir (\<lambda>x. x) (openFiles, {replicate 32 CHR ''a''})"
  by (simp add: named_def recorded_def openFiles_record) (simp add: sampleMeta_def)

lemma openFiles_lockable: "lockable userDir openFiles"
  using sample_ready by (simp add: user_ready_def lockable_def openFiles_def sampleFiles_def metadataPath_def cred_filename_def lock_inv_def)

text \<open>The file system while the lock is held.\<close>

definition locked :: fsWorld where
  "locked = openFiles\<lparr>fsDirs := [userDir \<mapsto> \<lparr>nKind = KDir, nPerm = 0x1C0, nUid = 501, nData = []\<rparr>],
     fsFiles := (fsFiles openFiles)((userDir, cred_filename) \<mapsto> \<lparr>nKind = KRegular, nPerm = 0x180, nUid = 501, nData = []\<rparr>),
     fsNextFd := 4, fsFlocks := [(userDir, cred_filename) \<mapsto> 3]\<rparr>"

lemma sample_lock: "cred_Lock userDir CallerCtx openFiles = (Inr (release_once ''credential lock'' (userDir, cred_filename) 3), locked)"
  by (simp add: cred_Lock_def ctx_Err_def openFiles_def sampleFiles_def userDir_def filepath_IsAbs_def filepath_Clean_def cred_ensureDirectory_def
      os_MkdirAll_def os_LstatDir_def syscall_clean validatePrivate_def reject_def os_OpenLock_def Let_def cred_checks_def os_probe_def flock_try_def locked_def
      metadataPath_def cred_filename_def)

definition closing :: fsWorld where
  "closing = locked\<lparr>fsFiles := (fsFiles locked)(metadataPath userDir := None)\<rparr>"

lemma locked_load: "md_Load metaCodec (metadataPath userDir) locked = (Inr sampleMeta, locked)"
  by (simp add: md_Load_def os_ReadFile_def syscall_clean locked_def openFiles_def sampleFiles_def metadataPath_def cred_filename_def
      decodeMetadata_def metaCodec_def sampleMeta_valid)

lemma locked_delete: "md_Delete (metadataPath userDir) locked = (None, closing)"
  by (simp add: md_Delete_def os_Remove_def syscall_clean locked_def closing_def openFiles_def sampleFiles_def metadataPath_def cred_filename_def)

lemma locked_release: "\<exists>f. release_once ''credential lock'' (userDir, cred_filename) 3 closing = (None, f)"
  using release_clean [of closing "(userDir, cred_filename)" 3]
  by (simp add: locked_def closing_def openFiles_def sampleFiles_def)


end
