(* ===== verification/Helper_Daemon.thy ===== *)
theory Helper_Daemon
  imports Helper_Protocol WG_Backend Darwin_DNS State_Store File_Lock
begin

text \<open>
  The privileged helper, \<^verbatim>\<open>internal/helperdaemon\<close>: bootstrap from one frame, the tunnel controller put
  together from the adapters, the socket it serves until it stops, and recovery of a session left behind.
  The world is the file system beside the rest of the host; what the rest offers is a record of functions.
  \<^verbatim>\<open>umask\<close> is taken to leave the requested bits of directories and sockets alone.
\<close>

declare split_paired_All [simp del] split_paired_Ex [simp del]

section \<open>Directories and sockets\<close>

definition runtimeRoot :: string where
  "runtimeRoot = ''/var/run/nordmac''"

definition stateRoot :: string where
  "stateRoot = ''/var/db/nordmac''"

definition os_Mkdir :: "string \<Rightarrow> 32 word \<Rightarrow> fsWorld \<Rightarrow> oserr option \<times> fsWorld" where
  "os_Mkdir d perm w = (case syscall w of
     (False, w1) \<Rightarrow> (Some EIO, w1)
   | (True, w1) \<Rightarrow> (case fsDirs w1 d of
       Some n \<Rightarrow> (Some EEXIST, w1)
     | None \<Rightarrow> (None, w1\<lparr>fsDirs := (fsDirs w1)(d := Some \<lparr>nKind = KDir, nPerm = perm, nUid = fsEuid w1, nData = []\<rparr>)\<rparr>)))"

definition os_ListenUnix :: "filePath \<Rightarrow> fsWorld \<Rightarrow> oserr option \<times> fsWorld" where
  "os_ListenUnix p w = (case syscall w of
     (False, w1) \<Rightarrow> (Some EIO, w1)
   | (True, w1) \<Rightarrow> (case fsFiles w1 p of
       Some n \<Rightarrow> (Some EEXIST, w1)
     | None \<Rightarrow> (None, w1\<lparr>fsFiles := (fsFiles w1)(p := Some \<lparr>nKind = KSocket, nPerm = 0x1ED, nUid = fsEuid w1, nData = []\<rparr>)\<rparr>)))"

definition os_Chown :: "filePath \<Rightarrow> int \<Rightarrow> fsWorld \<Rightarrow> oserr option \<times> fsWorld" where
  "os_Chown p uid w = (case syscall w of
     (False, w1) \<Rightarrow> (Some EIO, w1)
   | (True, w1) \<Rightarrow> (None, modify_node p (nUid_update (\<lambda>_. uid)) w1))"

text \<open>Closing a listener removes its path, as \<^verbatim>\<open>os.Remove\<close> then does again.\<close>

definition close_listener :: "filePath \<Rightarrow> fsWorld \<Rightarrow> fsWorld" where
  "close_listener p w = snd (os_Remove p (snd (os_Remove p w)))"

definition ensureRootDirectory :: "string \<Rightarrow> 32 word \<Rightarrow> fsWorld \<Rightarrow> gerror option \<times> fsWorld" where
  "ensureRootDirectory path mode w = (case os_Mkdir path mode w of
     (me, w1) \<Rightarrow>
       (if me \<noteq> None \<and> me \<noteq> Some EEXIST then (Some (os_error (the me)), w1)
        else (case os_LstatDir path w1 of
          (Inl e, w2) \<Rightarrow> (Some (Err ''privileged helper directory has unsafe type or mode''), w2)
        | (Inr n, w2) \<Rightarrow>
            (if nKind n \<noteq> KDir \<or> nPerm n \<noteq> mode then (Some (Err ''privileged helper directory has unsafe type or mode''), w2)
             else (reject (nUid n \<noteq> 0) ''privileged helper directory is not root-owned'', w2)))))"

definition uidText :: "int \<Rightarrow> string" where
  "uidText uid = (if uid < 0 then CHR ''-'' # show_nat (nat (- uid)) else show_nat (nat uid))"

definition stateDirectory :: "int \<Rightarrow> string" where
  "stateDirectory ownerUID = stateRoot @ ''/'' @ uidText ownerUID"

definition prepareStateDirectory :: "int \<Rightarrow> fsWorld \<Rightarrow> (gerror + string) \<times> fsWorld" where
  "prepareStateDirectory ownerUID w = (case ensureRootDirectory stateRoot 0x1C0 w of
     (Some e, w1) \<Rightarrow> (Inl (WrapErr ''create state root'' e), w1)
   | (None, w1) \<Rightarrow> (let directory = stateDirectory ownerUID in case os_Mkdir directory 0x1C0 w1 of
       (me, w2) \<Rightarrow>
         (if me \<noteq> None \<and> me \<noteq> Some EEXIST then (Inl (WrapErr ''create state directory'' (os_error (the me))), w2)
          else (case os_LstatDir directory w2 of
            (Inl e, w3) \<Rightarrow> (Inl (Err ''state directory is not a private directory''), w3)
          | (Inr n, w3) \<Rightarrow>
              (if nKind n \<noteq> KDir \<or> nPerm n \<noteq> 0x1C0 then (Inl (Err ''state directory is not a private directory''), w3)
               else if nUid n \<noteq> 0 then (Inl (Err ''state directory is not root-owned''), w3)
               else (Inr directory, w3))))))"

definition socketPath :: "int \<Rightarrow> filePath" where
  "socketPath ownerUID = (runtimeRoot, uidText ownerUID @ ''.sock'')"

definition listenForOwner :: "int \<Rightarrow> fsWorld \<Rightarrow> (gerror + filePath) \<times> fsWorld" where
  "listenForOwner ownerUID w = (case ensureRootDirectory runtimeRoot 0x1ED w of
     (Some e, w1) \<Rightarrow> (Inl e, w1)
   | (None, w1) \<Rightarrow> (let path = socketPath ownerUID in case os_Lstat path w1 of
       (Inr n, w2) \<Rightarrow> (Inl (Err ''active helper socket already exists''), w2)
     | (Inl e, w2) \<Rightarrow>
        (if e \<noteq> ENOENT then (Inl (os_error e), w2)
         else (case os_ListenUnix path w2 of
           (Some e, w3) \<Rightarrow> (Inl (os_error e), w3)
         | (None, w3) \<Rightarrow> (case os_Chown path ownerUID w3 of
             (Some e, w4) \<Rightarrow> (Inl (os_error e), close_listener path w4)
           | (None, w4) \<Rightarrow> (case file_Chmod path 0x180 w4 of
               (Some e, w5) \<Rightarrow> (Inl (os_error e), close_listener path w5)
             | (None, w5) \<Rightarrow> (Inr path, w5)))))))"

definition removeStaleSocket :: "int \<Rightarrow> fsWorld \<Rightarrow> gerror option \<times> fsWorld" where
  "removeStaleSocket ownerUID w = (let path = socketPath ownerUID in case os_Lstat path w of
     (Inl e, w1) \<Rightarrow> (if e = ENOENT then (None, w1) else (Some (os_error e), w1))
   | (Inr n, w1) \<Rightarrow>
      (if nKind n \<noteq> KSocket \<or> nUid n \<noteq> ownerUID then (Some (Err ''refuse to remove unowned helper socket''), w1)
       else (case os_Remove path w1 of (e, w2) \<Rightarrow> (map_option os_error e, w2))))"

section \<open>Replies\<close>

definition responseFor :: "request \<Rightarrow> bool \<Rightarrow> phase \<Rightarrow> gerror option \<Rightarrow> response" where
  "responseFor rq ok ph err = \<lparr>rsSchemaVersion = SchemaVersion, rsRequestID = rqRequestID rq, rsOK = ok, rsState = Some ph,
     rsErrorCode = (if ok then None
       else (case err of
         Some e \<Rightarrow> if errors_Is e ErrConflict then Some ErrorConflict else if errors_Is e ErrRollback then Some ErrorRollback else Some ErrorInternal
       | None \<Rightarrow> Some ErrorInternal))\<rparr>"

definition phaseFromJournal :: "journal \<Rightarrow> phase" where
  "phaseFromJournal j = (if jPhase j = PhaseOther [] then PhaseDisconnected else jPhase j)"

text \<open>\<open>env\<close> is the value of \<^verbatim>\<open>SUDO_UID\<close>, empty when it is not set.\<close>

definition authorizeBootstrap :: "string \<Rightarrow> int \<Rightarrow> gerror option" where
  "authorizeBootstrap env ownerUID = (case strconv_Atoi env of
     None \<Rightarrow> Some (Err ''helper caller does not match SUDO_UID'')
   | Some uid \<Rightarrow> reject (uid < 0 \<or> uid \<noteq> ownerUID) ''helper caller does not match SUDO_UID'')"

section \<open>The host\<close>

text \<open>A connection to the socket: the user id of its peer when it can be inspected, what it sends, and its writing end.\<close>

record helperConn =
  hcPeer :: "int option"
  hcInput :: "byte list"
  hcWriter :: writer

datatype acceptResult = AcceptTimeout | AcceptError gerror | Accepted helperConn

record 'w daemonHost =
  dhRunner :: "'w runner"
  dhDevices :: "'w deviceManager"
  dhInstall :: "oneShotSecrets \<Rightarrow> 'w \<Rightarrow> 'w"
  dhSnapshot :: "string \<Rightarrow> 'w \<Rightarrow> (gerror + wgSnapshot) \<times> 'w"
  dhClock :: "'w \<Rightarrow> time \<times> 'w"
  dhDone :: "ctx \<Rightarrow> 'w \<Rightarrow> gerror option \<times> 'w"
  dhWait :: "ctx \<Rightarrow> 'w \<Rightarrow> gerror option \<times> 'w"
  dhSetDeadline :: "'w \<Rightarrow> gerror option \<times> 'w"
  dhAccept :: "'w \<Rightarrow> acceptResult \<times> 'w"
  dhSudoUID :: string
  dhGeteuid :: int
  dhText6 :: text6
  dhDNSHash :: "string \<Rightarrow> byte list"
  dhRequests :: "request codec"
  dhResponses :: "response codec"
  dhJournals :: "journal codec"

definition daemonRoutes :: "'w daemonHost \<Rightarrow> 'w darwinRoutes" where
  "daemonRoutes h = \<lparr>drRunner = Some (dhRunner h), drRoutePath = []\<rparr>"

definition daemonDNS :: "'w daemonHost \<Rightarrow> 'w darwinDNS" where
  "daemonDNS h = \<lparr>ddRunner = Some (dhRunner h), ddNetworkSetupPath = []\<rparr>"

section \<open>Verification\<close>

text \<open>The check of one planned route; \<^verbatim>\<open>journal.Device\<close> is not nil where the code gets here.\<close>

definition expectedRoute :: "journal \<Rightarrow> route \<Rightarrow> route" where
  "expectedRoute j r = (if \<not> rReject r \<and> rGateway r = ZeroAddr then r\<lparr>rInterface := dhInterface (the (jDevice j))\<rparr> else r)"

definition routeInPlace :: "route \<Rightarrow> route option \<Rightarrow> bool" where
  "routeInPlace expected found = (case found of
     None \<Rightarrow> False
   | Some current \<Rightarrow> \<not> (rInterface current \<noteq> rInterface expected \<or> rReject current \<noteq> rReject expected \<or>
       addr_IsValid (rGateway expected) \<and> rGateway current \<noteq> rGateway expected))"

fun verifyRoutes :: "'w daemonHost \<Rightarrow> ctx \<Rightarrow> journal \<Rightarrow> route list \<Rightarrow> 'w \<Rightarrow> gerror option \<times> 'w" where
  "verifyRoutes h ctx j [] w = (None, w)"
| "verifyRoutes h ctx j (r # rs) w = (case LookupExact (dhText6 h) (daemonRoutes h) ctx (rDestination (expectedRoute j r)) w of
     (Inl e, w1) \<Rightarrow> (errors_Join [Some (Err ''planned route ownership verification failed''), Some e], w1)
   | (Inr found, w1) \<Rightarrow>
      (if \<not> routeInPlace (expectedRoute j r) found then (errors_Join [Some (Err ''planned route ownership verification failed''), None], w1)
       else verifyRoutes h ctx j rs w1))"

definition verifyOwnership :: "'w daemonHost \<Rightarrow> ctx \<Rightarrow> journal \<Rightarrow> 'w \<Rightarrow> gerror option \<times> 'w" where
  "verifyOwnership h ctx j w = (case route_Snapshot (dhText6 h) (daemonRoutes h) ctx w of
     (Inl e, w1) \<Rightarrow> (errors_Join [Some (Err ''physical default route changed''), Some e], w1)
   | (Inr physical, w1) \<Rightarrow>
      (if rGateway (rsDefault physical) \<noteq> pPhysicalGateway (jPlan j) \<or> rInterface (rsDefault physical) \<noteq> pPhysicalInterface (jPlan j)
       then (errors_Join [Some (Err ''physical default route changed''), None], w1)
       else (case verifyRoutes h ctx j (EndpointRoute (jPlan j) # TunnelRoutes (jPlan j)) w1 of
         (Some e, w2) \<Rightarrow> (Some e, w2)
       | (None, w2) \<Rightarrow> (case dns_Snapshot (dhText6 h) (dhDNSHash h) (daemonDNS h) ctx (plan_DNSConfig (jPlan j)) w2 of
           (Inl e, w3) \<Rightarrow> (errors_Join [Some (Err ''tunnel DNS verification failed''), Some e], w3)
         | (Inr d, w3) \<Rightarrow>
            (case dsServices d of
               [sv] \<Rightarrow> if sdServers sv = pTunnelDNS (jPlan j) then (None, w3) else (errors_Join [Some (Err ''tunnel DNS verification failed''), None], w3)
             | _ \<Rightarrow> (errors_Join [Some (Err ''tunnel DNS verification failed''), None], w3))))))"

text \<open>Times count nanoseconds from the zero time; handshakes are counted from the Unix epoch.\<close>

definition unixEpoch :: time where
  "unixEpoch = 62135596800 * 10 ^ 9"

definition handshakeTime :: "wgSnapshot \<Rightarrow> time" where
  "handshakeTime s = (case LastHandshake s of None \<Rightarrow> 0 | Some (sec, nsec) \<Rightarrow> unixEpoch + sec * 10 ^ 9 + nsec)"

definition freshHandshake :: "journal \<Rightarrow> wgSnapshot \<Rightarrow> bool" where
  "freshHandshake j s = (\<not> handshakeTime s < jCreatedAt j - 10 ^ 9 \<and> Transmitted s > 0 \<and> Received s > 0)"

definition daemonPing :: "'w daemonHost \<Rightarrow> ctx \<Rightarrow> 'w \<Rightarrow> gerror option \<times> 'w" where
  "daemonPing h ctx w = pinger_Ping (dhText6 h) \<lparr>pgRunner = Some (dhRunner h), pgPingPath = []\<rparr> ctx (ip4 10 5 0 1) w"

partial_function (option) verifyLoop :: "'w daemonHost \<Rightarrow> ctx \<Rightarrow> journal \<Rightarrow> 'w \<Rightarrow> (gerror option \<times> 'w) option" where
  "verifyLoop h ctx j w = (case daemonPing h ctx w of (_, w1) \<Rightarrow> (case dhSnapshot h (jSessionID j) w1 of (r, w2) \<Rightarrow>
     (if (case r of Inr s \<Rightarrow> freshHandshake j s | Inl _ \<Rightarrow> False) then Some (None, w2)
      else (case dhWait h ctx w2 of
        (Some e, w3) \<Rightarrow> Some (errors_Join [Some (Err ''no fresh bidirectional WireGuard handshake''), Some e, case r of Inl e2 \<Rightarrow> Some e2 | Inr _ \<Rightarrow> None], w3)
      | (None, w3) \<Rightarrow> verifyLoop h ctx j w3))))"

definition daemonVerify :: "'w daemonHost \<Rightarrow> ctx \<Rightarrow> journal \<Rightarrow> 'w \<Rightarrow> (gerror option \<times> 'w) option" where
  "daemonVerify h ctx j w = (case verifyOwnership h ctx j w of
     (Some e, w1) \<Rightarrow> Some (Some e, w1)
   | (None, w1) \<Rightarrow> verifyLoop h ctx j w1)"

text \<open>As a verifier of the controller; that the loop returns under a deadline is proved below.\<close>

definition daemonVerifier :: "'w daemonHost \<Rightarrow> 'w verifier" where
  "daemonVerifier h = \<lparr>vfVerify = (\<lambda>ctx j w. case daemonVerify h ctx j w of Some r \<Rightarrow> r | None \<Rightarrow> (Some (Err ''verification does not return''), w))\<rparr>"

section \<open>The controllers\<close>

definition onFilesStore :: "fsWorld journalStore \<Rightarrow> (fsWorld \<times> 'v) journalStore" where
  "onFilesStore js = \<lparr>jsCreate = (\<lambda>ctx j. onFiles (jsCreate js ctx j)), jsUpdate = (\<lambda>ctx j. onFiles (jsUpdate js ctx j)),
     jsLoad = (\<lambda>ctx sid. onFiles (jsLoad js ctx sid)), jsDelete = (\<lambda>ctx sid. onFiles (jsDelete js ctx sid))\<rparr>"

definition onFilesLocker :: "fsWorld locker \<Rightarrow> (fsWorld \<times> 'v) locker" where
  "onFilesLocker lk = \<lparr>lkAcquire = (\<lambda>ctx sid w. case onFiles (lkAcquire lk ctx sid) w of
     (Inl e, w1) \<Rightarrow> (Inl e, w1) | (Inr release, w1) \<Rightarrow> (Inr (onFiles release), w1))\<rparr>"

definition connectController :: "(fsWorld \<times> 'v) daemonHost \<Rightarrow> string \<Rightarrow> (fsWorld \<times> 'v) controller" where
  "connectController h dir = \<lparr>cJournals = Some (onFilesStore (fileStore (dhJournals h) dir)), cLocks = Some (onFilesLocker (fileLocker dir)),
     cConflicts = Some \<lparr>ccCheck = conflict_Check (dhText6 h) (daemonRoutes h)\<rparr>, cDevices = Some (dhDevices h),
     cRoutes = Some (darwinRouteManager (dhText6 h) (daemonRoutes h)),
     cDNS = Some (darwinDNSManager (dhText6 h) (dhDNSHash h) (daemonDNS h)), cVerifier = Some (daemonVerifier h),
     cNow = None, cTimeNow = dhClock h\<rparr>"

text \<open>A new, empty manager holds no session: removing one succeeds and does nothing.\<close>

definition emptyManager :: "'w wgManager" where
  "emptyManager = \<lparr>mgSecrets = None, mgFactory = None, mgAddresses = None, mgDeviceOnly = False, mgPID = 0, mgSessions = (\<lambda>_. None)\<rparr>"

definition emptyDevices :: "'w deviceManager" where
  "emptyDevices = \<lparr>dmCreate = (\<lambda>ctx sp w. (case backend_ready 1 (emptyManager :: 'w wgManager) sp of Some e \<Rightarrow> (Inl e, w) | None \<Rightarrow> (Inl (Err ''unreachable''), w))),
     dmDeleteOwned = (\<lambda>ctx sid h w. (case wg_DeleteOwned sid h emptyManager w of (e, m, w1) \<Rightarrow> (e, w1)))\<rparr>"

text \<open>The controller of a recovery has neither a conflict checker nor a verifier.\<close>

definition recoverController :: "(fsWorld \<times> 'v) daemonHost \<Rightarrow> string \<Rightarrow> (fsWorld \<times> 'v) controller" where
  "recoverController h dir = (connectController h dir)\<lparr>cConflicts := None, cDevices := Some emptyDevices, cVerifier := None\<rparr>"

section \<open>One connection\<close>

definition authorizePeer :: "helperConn \<Rightarrow> int \<Rightarrow> gerror option" where
  "authorizePeer conn ownerUID = (case hcPeer conn of
     None \<Rightarrow> Some (Err ''helper peer uid is unauthorized'')
   | Some uid \<Rightarrow> reject (uid \<noteq> ownerUID) ''helper peer uid is unauthorized'')"

text \<open>On other systems than macOS (\<^verbatim>\<open>peer_other.go\<close>) no peer is authorised.\<close>

definition authorizePeer_other :: "helperConn \<Rightarrow> int \<Rightarrow> gerror option" where
  "authorizePeer_other conn ownerUID = Some (Err ''privileged helper peer authentication requires macOS'')"

text \<open>The result: whether to stop, the error, and the connection after what was written to it.\<close>

definition replyTo :: "'w daemonHost \<Rightarrow> helperConn \<Rightarrow> response \<Rightarrow> gerror option \<times> helperConn" where
  "replyTo h conn r = (case EncodeResponse (dhResponses h) r (hcWriter conn) of (e, wr) \<Rightarrow> (e, conn\<lparr>hcWriter := wr\<rparr>))"

definition handleStatus :: "'w daemonHost \<Rightarrow> request \<Rightarrow> request \<Rightarrow> journal \<Rightarrow> helperConn \<Rightarrow> 'w \<Rightarrow> bool \<times> gerror option \<times> helperConn \<times> 'w" where
  "handleStatus h initial rq j conn w =
     (let (err, w1) = (case verifyOwnership h (WithTimeout 5 Background) j w of
            (Some e, w1) \<Rightarrow> (Some e, w1)
          | (None, w1) \<Rightarrow> (case dhSnapshot h (rqSessionID initial) w1 of (Inl e, w2) \<Rightarrow> (Some e, w2) | (Inr _, w2) \<Rightarrow> (None, w2)));
          resp = responseFor rq (err = None) PhaseConnected err;
          (e, conn1) = replyTo h conn (if err \<noteq> None then resp\<lparr>rsState := Some PhaseDegraded\<rparr> else resp)
      in (False, e, conn1, w1))"

definition handleDisconnect :: "'w daemonHost \<Rightarrow> 'w controller \<Rightarrow> request \<Rightarrow> request \<Rightarrow> helperConn \<Rightarrow> 'w \<Rightarrow> bool \<times> gerror option \<times> helperConn \<times> 'w" where
  "handleDisconnect h c initial rq conn w =
     (let (err, w1) = Disconnect c (WithTimeout 10 Background) (rqSessionID initial) (rqOwnerUID initial) w;
          (e, conn1) = replyTo h conn (responseFor rq (err = None) PhaseDisconnected err)
      in (err = None, errors_Join [err, e], conn1, w1))"

definition daemon_handle :: "'w daemonHost \<Rightarrow> 'w controller \<Rightarrow> request \<Rightarrow> journal \<Rightarrow> helperConn \<Rightarrow> 'w \<Rightarrow> bool \<times> gerror option \<times> helperConn \<times> 'w" where
  "daemon_handle h c initial j conn w = (case authorizePeer conn (rqOwnerUID initial) of
     Some e \<Rightarrow> (False, Some e, conn, w)
   | None \<Rightarrow> (case DecodeFrame (dhRequests h) (hcInput conn) of
       Inl e \<Rightarrow> (False, Some e, conn, w)
     | Inr (rq, secrets) \<Rightarrow>
        (if rqOwnerUID rq \<noteq> rqOwnerUID initial \<or> rqSessionID rq \<noteq> rqSessionID initial \<or> rqOperation rq = OperationConnect
         then (let err = Some (Err ''helper request does not own the active session'') in
           (False, err, snd (replyTo h conn (responseFor rq False PhaseForeignConflict err)), w))
         else (case rqOperation rq of
           OperationStatus \<Rightarrow> handleStatus h initial rq j conn w
         | OperationDisconnect \<Rightarrow> handleDisconnect h c initial rq conn w
         | OperationRecover \<Rightarrow> handleDisconnect h c initial rq conn w
         | _ \<Rightarrow> (False, Some (Err ''unsupported active helper operation''), conn, w)))))"

section \<open>Serving\<close>

text \<open>The ownership check when it is due: \<open>None\<close> when it has failed for the third time in a row.\<close>

definition healthCheck :: "'w daemonHost \<Rightarrow> ctx \<Rightarrow> journal \<Rightarrow> time \<Rightarrow> nat \<Rightarrow> 'w \<Rightarrow> (time \<times> nat) option \<times> 'w" where
  "healthCheck h ctx j nextCheck failures w = (case dhClock h w of (now, w1) \<Rightarrow>
     (if now < nextCheck then (Some (nextCheck, failures), w1)
      else (case verifyOwnership h (WithTimeout 5 ctx) j w1 of (e, w2) \<Rightarrow>
        (let n = (if e = None then 0 else Suc failures) in
         if e \<noteq> None \<and> n \<ge> 3 then (None, w2)
         else (case dhClock h w2 of (now2, w3) \<Rightarrow> (Some (now2 + 10 * 10 ^ 9, n), w3))))))"

partial_function (option) serveLoop :: "'w daemonHost \<Rightarrow> 'w controller \<Rightarrow> ctx \<Rightarrow> request \<Rightarrow> journal \<Rightarrow> time \<Rightarrow> nat \<Rightarrow> 'w \<Rightarrow> (gerror option \<times> 'w) option" where
  "serveLoop h c ctx initial j nextCheck failures w = (case dhDone h ctx w of
     (Some _, w1) \<Rightarrow> Some (None, w1)
   | (None, w1) \<Rightarrow> (case dhAccept h w1 of
       (AcceptError e, w2) \<Rightarrow> Some (Some e, w2)
     | (AcceptTimeout, w2) \<Rightarrow> (case healthCheck h ctx j nextCheck failures w2 of
         (None, w3) \<Rightarrow> Some (Some (Err ''tunnel ownership health check repeatedly failed''), w3)
       | (Some (next2, failures2), w3) \<Rightarrow> (case dhSetDeadline h w3 of (_, w4) \<Rightarrow> serveLoop h c ctx initial j next2 failures2 w4))
     | (Accepted conn, w2) \<Rightarrow> (case daemon_handle h c initial j conn w2 of
         (stop, e, conn1, w3) \<Rightarrow> if stop then Some (e, w3) else serveLoop h c ctx initial j nextCheck failures w3)))"

definition daemon_serve :: "'w daemonHost \<Rightarrow> 'w controller \<Rightarrow> ctx \<Rightarrow> request \<Rightarrow> journal \<Rightarrow> 'w \<Rightarrow> (gerror option \<times> 'w) option" where
  "daemon_serve h c ctx initial j w = (case dhSetDeadline h w of
     (Some e, w1) \<Rightarrow> Some (Some e, w1)
   | (None, w1) \<Rightarrow> (case dhClock h w1 of (now, w2) \<Rightarrow> serveLoop h c ctx initial j (now + 10 * 10 ^ 9) 0 w2))"

section \<open>Connecting and recovering\<close>

text \<open>The deferred cleanup: the socket goes, the tunnel is disconnected, its error is joined.\<close>

definition daemonCleanup :: "(fsWorld \<times> 'v) controller \<Rightarrow> request \<Rightarrow> filePath \<Rightarrow> gerror option \<Rightarrow> fsWorld \<times> 'v \<Rightarrow> gerror option \<times> fsWorld \<times> 'v" where
  "daemonCleanup c rq path retErr w =
     (let w1 = (close_listener path (fst w), snd w);
          (e, w2) = Disconnect c (WithTimeout 10 Background) (rqSessionID rq) (rqOwnerUID rq) w1
      in (errors_Join [retErr, e], w2))"

text \<open>The result: the error, the writing end of the standard output, and the world.\<close>

definition connectAndServe :: "(fsWorld \<times> 'v) daemonHost \<Rightarrow> ctx \<Rightarrow> writer \<Rightarrow> request \<Rightarrow> deviceSecrets \<Rightarrow> fsWorld \<times> 'v \<Rightarrow>
    (gerror option \<times> writer \<times> fsWorld \<times> 'v) option" where
  "connectAndServe h ctx out rq secrets w = (case rqPlan rq of
     None \<Rightarrow> Some (Some (Err ''connect request is missing its plan''), out, w)
   | Some p \<Rightarrow> (case onFiles (prepareStateDirectory (rqOwnerUID rq)) w of
       (Inl e, w1) \<Rightarrow> Some (Some e, out, w1)
     | (Inr dir, w1) \<Rightarrow> (case NewOneShotSecrets (rqSessionID rq) (Some secrets) of
         (Inl e, _) \<Rightarrow> Some (Some e, out, w1)
       | (Inr source, _) \<Rightarrow>
          (let c = connectController h dir in case Connect c (WithTimeout 20 ctx) p (dhInstall h source w1) of
            (j, Some e, w2) \<Rightarrow> (case EncodeResponse (dhResponses h) (responseFor rq False (phaseFromJournal j) (Some e)) out of
               (_, out1) \<Rightarrow> Some (Some e, out1, w2))
          | (j, None, w2) \<Rightarrow> (case onFiles (listenForOwner (rqOwnerUID rq)) w2 of
              (Inl e, w3) \<Rightarrow> (case Disconnect c (WithTimeout 10 Background) (rqSessionID rq) (rqOwnerUID rq) w3 of
                 (de, w4) \<Rightarrow> Some (errors_Join [Some e, de], out, w4))
            | (Inr path, w3) \<Rightarrow> (case EncodeResponse (dhResponses h) (responseFor rq True PhaseConnected None) out of
                (Some e, out1) \<Rightarrow> (case daemonCleanup c rq path (Some e) w3 of (re, w4) \<Rightarrow> Some (re, out1, w4))
              | (None, out1) \<Rightarrow> (case daemon_serve h c ctx rq j w3 of
                  None \<Rightarrow> None
                | Some (e, w4) \<Rightarrow> (case daemonCleanup c rq path e w4 of (re, w5) \<Rightarrow> Some (re, out1, w5)))))))))"

definition recoverSession :: "(fsWorld \<times> 'v) daemonHost \<Rightarrow> ctx \<Rightarrow> writer \<Rightarrow> request \<Rightarrow> fsWorld \<times> 'v \<Rightarrow> gerror option \<times> writer \<times> fsWorld \<times> 'v" where
  "recoverSession h ctx out rq w =
     (case Disconnect (recoverController h (stateDirectory (rqOwnerUID rq))) (WithTimeout 10 ctx) (rqSessionID rq) (rqOwnerUID rq) w of
        (e, w1) \<Rightarrow>
         (let (e2, w2) = (if e = None then onFiles (removeStaleSocket (rqOwnerUID rq)) w1 else (e, w1));
              (ee, out1) = EncodeResponse (dhResponses h) (responseFor rq (e2 = None) PhaseDisconnected e2) out
          in (errors_Join [e2, ee], out1, w2)))"

definition daemon_Run :: "(fsWorld \<times> 'v) daemonHost \<Rightarrow> ctx \<Rightarrow> byte list \<Rightarrow> writer \<Rightarrow> fsWorld \<times> 'v \<Rightarrow> (gerror option \<times> writer \<times> fsWorld \<times> 'v) option" where
  "daemon_Run h ctx input out w =
     (if dhGeteuid h \<noteq> 0 then Some (Some (Err ''privileged helper must run as root''), out, w)
      else (case DecodeFrame (dhRequests h) input of
        Inl e \<Rightarrow> Some (Some e, out, w)
      | Inr (rq, secrets) \<Rightarrow> (case authorizeBootstrap (dhSudoUID h) (rqOwnerUID rq) of
          Some e \<Rightarrow> Some (Some e, out, w)
        | None \<Rightarrow> (case rqOperation rq of
            OperationConnect \<Rightarrow> connectAndServe h ctx out rq secrets w
          | OperationDisconnect \<Rightarrow> Some (recoverSession h ctx out rq w)
          | OperationRecover \<Rightarrow> Some (recoverSession h ctx out rq w)
          | _ \<Rightarrow> Some (Some (Err ''unsupported bootstrap helper operation''), out, w)))))"

end
