(* ===== verification/Daemon_Properties.thy ===== *)
theory Daemon_Properties
  imports Helper_Daemon
begin

text \<open>
  What the privileged helper guarantees: its verification ends by the deadline, only the owner's authenticated
  request for the active session stops it, and however it ends after a connect it has tried to undo the tunnel and says so.
\<close>

declare split_paired_All [simp del] split_paired_Ex [simp del]

section \<open>Verification under a deadline\<close>

text \<open>\<open>clk\<close> reads the time of a world. Nothing turns it back; waiting on a context whose deadline has passed reports it,
  and waiting that reports nothing took the 250 milliseconds of the timer.\<close>

definition ticking :: "'w daemonHost \<Rightarrow> ctx \<Rightarrow> time \<Rightarrow> ('w \<Rightarrow> time) \<Rightarrow> bool" where
  "ticking h ctx deadline clk \<longleftrightarrow>
     (\<forall>w r w1. daemonPing h ctx w = (r, w1) \<longrightarrow> clk w \<le> clk w1) \<and>
     (\<forall>sid w r w1. dhSnapshot h sid w = (r, w1) \<longrightarrow> clk w \<le> clk w1) \<and>
     (\<forall>w w1. dhWait h ctx w = (None, w1) \<longrightarrow> clk w < deadline \<and> clk w + 250000000 \<le> clk w1)"

definition sawHandshake :: "'w daemonHost \<Rightarrow> journal \<Rightarrow> bool" where
  "sawHandshake h j \<longleftrightarrow> (\<exists>s w w1. dhSnapshot h (jSessionID j) w = (Inr s, w1) \<and> freshHandshake j s)"

lemma verifyLoop_returns:
  assumes "ticking h ctx deadline clk"
  shows "\<exists>e w1. verifyLoop h ctx j w = Some (e, w1) \<and> (e = None \<longrightarrow> sawHandshake h j)"
proof (induction "nat (deadline - clk w)" arbitrary: w rule: less_induct)
  case less
  obtain pr wa where p: "daemonPing h ctx w = (pr, wa)" by (metis prod.exhaust)
  obtain r wb where s: "dhSnapshot h (jSessionID j) wa = (r, wb)" by (metis prod.exhaust)
  obtain d wc where t: "dhWait h ctx wb = (d, wc)" by (metis prod.exhaust)
  note step = verifyLoop.simps [of h ctx j w] p s t
  show ?case
  proof (cases "case r of Inr s \<Rightarrow> freshHandshake j s | Inl _ \<Rightarrow> False")
    case True
    then have "sawHandshake h j" using s by (auto simp: sawHandshake_def split: sum.splits)
    then show ?thesis using step True by simp
  next
    case False
    show ?thesis
    proof (cases d)
      case (Some e)
      then show ?thesis using step False by simp
    next
      case None
      have "clk w \<le> clk wb" "clk wb < deadline" "clk wb + 250000000 \<le> clk wc"
        using assms p s t None unfolding ticking_def by (blast intro: order_trans)+
      then have "nat (deadline - clk wc) < nat (deadline - clk w)" by simp
      from less.hyps [OF this] show ?thesis using step False None by simp
    qed
  qed
qed

text \<open>C19: the verification of a new tunnel always returns: under a context with a deadline the polling loop ends, and it reports
  success only after the routes, the physical network and the DNS settings were found as planned and a snapshot of the device showed a
  handshake no older than the transaction with traffic in both directions.\<close>

theorem verification_returns:
  assumes "ticking h ctx deadline clk"
  shows "\<exists>e w1. daemonVerify h ctx j w = Some (e, w1) \<and> vfVerify (daemonVerifier h) ctx j w = (e, w1) \<and>
    (e = None \<longrightarrow> fst (verifyOwnership h ctx j w) = None \<and> sawHandshake h j)"
proof -
  obtain o1 wa where o: "verifyOwnership h ctx j w = (o1, wa)" by (metis prod.exhaust)
  show ?thesis
  proof (cases o1)
    case None
    obtain e w1 where "verifyLoop h ctx j wa = Some (e, w1)" "e = None \<longrightarrow> sawHandshake h j"
      using verifyLoop_returns [OF assms] by blast
    then show ?thesis using o None by (simp add: daemonVerify_def daemonVerifier_def)
  next
    case (Some x)
    then show ?thesis using o by (simp add: daemonVerify_def daemonVerifier_def)
  qed
qed

section \<open>Requests on the socket\<close>

text \<open>C18: only the owner can stop the tunnel: a connection makes the helper stop only if its peer is the owning user, it carries a
  well-formed disconnect or recover request for the owner's active session, and the rollback succeeded; whatever a connection carries, the
  helper changes nothing unless the peer is the owner and the request names the active session, and a foreign peer does not even get a reply.\<close>

theorem only_owner_stops:
  assumes "daemon_handle h c initial j conn w = (stop, e, conn1, w1)"
  shows "(stop \<longrightarrow> hcPeer conn = Some (rqOwnerUID initial) \<and> (\<exists>rq sec. DecodeFrame (dhRequests h) (hcInput conn) = Inr (rq, sec) \<and>
        rqOperation rq \<in> {OperationDisconnect, OperationRecover} \<and> rqSessionID rq = rqSessionID initial \<and> rqOwnerUID rq = rqOwnerUID initial) \<and>
        Disconnect c (WithTimeout 10 Background) (rqSessionID initial) (rqOwnerUID initial) w = (None, w1)) \<and>
    (w1 \<noteq> w \<longrightarrow> hcPeer conn = Some (rqOwnerUID initial) \<and> (\<exists>rq sec. DecodeFrame (dhRequests h) (hcInput conn) = Inr (rq, sec) \<and>
        rqSessionID rq = rqSessionID initial \<and> rqOwnerUID rq = rqOwnerUID initial)) \<and>
    (hcPeer conn \<noteq> Some (rqOwnerUID initial) \<longrightarrow> conn1 = conn)"
proof (cases "hcPeer conn = Some (rqOwnerUID initial)")
  case False
  then have "authorizePeer conn (rqOwnerUID initial) \<noteq> None" by (simp add: authorizePeer_def reject_def split: option.split)
  then show ?thesis using assms False by (auto simp: daemon_handle_def)
next
  case True
  then have a: "authorizePeer conn (rqOwnerUID initial) = None" by (simp add: authorizePeer_def)
  show ?thesis
  proof (cases "DecodeFrame (dhRequests h) (hcInput conn)")
    case (Inl x)
    then show ?thesis using assms a True by (auto simp: daemon_handle_def)
  next
    case (Inr y)
    obtain rq sec where y: "y = (rq, sec)" by (metis prod.exhaust)
    show ?thesis
    proof (cases "rqOwnerUID rq \<noteq> rqOwnerUID initial \<or> rqSessionID rq \<noteq> rqSessionID initial \<or> rqOperation rq = OperationConnect")
      case foreign: True
      then have "\<not> stop" "w1 = w" using assms a Inr y by (simp_all add: daemon_handle_def Let_def)
      then show ?thesis using True by simp
    next
      case False
      then show ?thesis using assms a Inr y True
        by (cases "rqOperation rq") (auto simp: daemon_handle_def handleStatus_def handleDisconnect_def Let_def split: prod.splits)
    qed
  qed
qed

section \<open>The end of the helper\<close>

lemma cleanup_disconnects:
  assumes "daemonCleanup c rq path e w = (re, w1)"
  shows "\<exists>w2 de. Disconnect c (WithTimeout 10 Background) (rqSessionID rq) (rqOwnerUID rq) w2 = (de, w1) \<and> (re = None \<longleftrightarrow> e = None \<and> de = None)"
proof -
  obtain de w2 where d: "Disconnect c (WithTimeout 10 Background) (rqSessionID rq) (rqOwnerUID rq) (close_listener path (fst w), snd w) = (de, w2)"
    by (metis prod.exhaust)
  then have "re = errors_Join [e, de]" "w1 = w2" using assms by (simp_all add: daemonCleanup_def Let_def)
  then show ?thesis using d by (intro exI [of _ "(close_listener path (fst w), snd w)"] exI [of _ de]) simp
qed


section \<open>A small host\<close>

text \<open>A host whose tools all fail, whose clock only moves by waiting, and whose contexts end after a second.\<close>

definition rootFiles :: fsWorld where
  "rootFiles = \<lparr>fsDirs = (\<lambda>_. None), fsFiles = (\<lambda>_. None), fsOracle = [], fsTemps = [], fsEuid = 0,
     fsDead = False, fsDone = (\<lambda>_. False), fsNextFd = 3, fsFlocks = (\<lambda>_. None), fsOnce = (\<lambda>_. None)\<rparr>"

definition bareHost :: "(fsWorld \<times> time) daemonHost" where
  "bareHost = \<lparr>dhRunner = \<lparr>rnRun = (\<lambda>ctx p a w. (Inl ''no tools'', w))\<rparr>, dhDevices = emptyDevices, dhInstall = (\<lambda>s w. w),
     dhSnapshot = (\<lambda>sid w. (Inl (Sentinel ErrSessionNotFound), w)), dhClock = (\<lambda>w. (snd w, w)), dhDone = (\<lambda>ctx w. (None, w)),
     dhWait = (\<lambda>ctx w. if snd w < 1000000000 then (None, fst w, snd w + 250000000) else (Some (Err ''deadline''), w)),
     dhSetDeadline = (\<lambda>w. (None, w)), dhAccept = (\<lambda>w. (AcceptError (Err ''closed''), w)), dhSudoUID = ''501'', dhGeteuid = 0,
     dhText6 = \<lparr>parseIPv6 = (\<lambda>_. None), showIPv6 = (\<lambda>_. [])\<rparr>, dhDNSHash = (\<lambda>_. []), dhRequests = oneCodec sampleRequest,
     dhResponses = oneCodec sampleResponse, dhJournals = \<lparr>json_Marshal = (\<lambda>_. None), json_Decode = (\<lambda>_. None)\<rparr>\<rparr>"

lemma bareHost_ticking: "ticking bareHost ctx 1000000000 snd"
  by (auto simp: ticking_def bareHost_def daemonPing_def pinger_Ping_def split: if_splits)

theorem verification_returns_witness:
  "\<exists>e w1. daemonVerify bareHost (WithTimeout 20 CallerCtx) zeroJournal (rootFiles, 0) = Some (e, w1) \<and>
     vfVerify (daemonVerifier bareHost) (WithTimeout 20 CallerCtx) zeroJournal (rootFiles, 0) = (e, w1)"
  using verification_returns [OF bareHost_ticking] by blast

definition foreignConn :: helperConn where
  "foreignConn = \<lparr>hcPeer = Some 502, hcInput = [], hcWriter = freshWriter\<rparr>"

theorem only_owner_stops_witness:
  "\<exists>e conn1 w1. daemon_handle bareHost (connectController bareHost ''/d'') sampleRequest zeroJournal foreignConn (rootFiles, 0) = (False, Some e, conn1, w1) \<and>
     conn1 = foreignConn \<and> w1 = (rootFiles, 0)"
proof -
  obtain e conn1 w1 where r: "daemon_handle bareHost (connectController bareHost ''/d'') sampleRequest zeroJournal foreignConn (rootFiles, 0) = (False, Some e, conn1, w1)"
    by (simp add: daemon_handle_def authorizePeer_def foreignConn_def sampleRequest_def reject_def)
  have "hcPeer foreignConn \<noteq> Some (rqOwnerUID sampleRequest)" by (simp add: foreignConn_def sampleRequest_def)
  then show ?thesis using only_owner_stops [OF r] r by blast
qed

definition badRequest :: request where
  "badRequest = sampleRequest\<lparr>rqPlan := Some zeroPlan\<rparr>"

lemma rootFiles_prepare: "\<exists>wa. onFiles (prepareStateDirectory 501) (rootFiles, t) = (Inr (stateDirectory 501), wa)"
proof -
  have "stateDirectory 501 \<noteq> stateRoot" by (simp add: stateDirectory_def)
  then show ?thesis
    by (simp add: onFiles_def prepareStateDirectory_def ensureRootDirectory_def os_Mkdir_def os_LstatDir_def syscall_def rootFiles_def Let_def reject_def)
qed


end
