(* ===== verification/Net_HTTP.thy ===== *)
theory Net_HTTP
  imports Runes Byte_Codec "HOL-Library.List_Lexorder"
begin

text \<open>
  What the clients of Nord's services use of \<^verbatim>\<open>net/url\<close> and \<^verbatim>\<open>net/http\<close>. A URL is its parsed
  components; reading one from text is an argument of the definitions that do it. A request is sent by an
  argument, which answers with a response or an error; \<open>hrReadErr\<close> is what reading the body ends with instead
  of the end of the file. A URL that was assembled here is sent as it is: its text parses back to it.
\<close>

record url =
  uScheme :: string
  uUser :: "string option"
  uHost :: string
  uPath :: string
  uRawQuery :: string
  uFragment :: string

text \<open>\<^verbatim>\<open>Hostname\<close> and \<^verbatim>\<open>Port\<close> split the host at its last colon, when only digits follow.\<close>

definition splitHostPort :: "string \<Rightarrow> string \<times> string" where
  "splitHostPort h =
     (let back = takeWhile (\<lambda>ch. ch \<noteq> CHR '':'') (rev h);
          colon = length back < length h \<and> list_all is_digit back;
          host = (if colon then take (length h - Suc (length back)) h else h);
          port = (if colon then rev back else [])
      in (if host \<noteq> [] \<and> hd host = CHR ''['' \<and> last host = CHR '']'' then butlast (tl host) else host, port))"

definition url_Hostname :: "url \<Rightarrow> string" where
  "url_Hostname v = fst (splitHostPort (uHost v))"

definition url_Port :: "url \<Rightarrow> string" where
  "url_Port v = snd (splitHostPort (uHost v))"

text \<open>\<^verbatim>\<open>url.Values.Encode\<close>: sorted by key, both sides escaped.\<close>

definition hex_upper :: "nat \<Rightarrow> char" where
  "hex_upper d = (if d < 10 then char_of (48 + d) else char_of (55 + d))"

definition url_escape_char :: "char \<Rightarrow> string" where
  "url_escape_char ch =
     (if is_alnum ch \<or> ch \<in> {CHR ''-'', CHR ''_'', CHR ''.'', CHR ''~''} then [ch]
      else if ch = CHR '' '' then [CHR ''+'']
      else [CHR ''%'', hex_upper (byte_of ch div 16), hex_upper (byte_of ch mod 16)])"

definition QueryEscape :: "string \<Rightarrow> string" where
  "QueryEscape s = concat (map url_escape_char s)"

definition bytes_of :: "string \<Rightarrow> nat list" where
  "bytes_of s = map byte_of s"

lemma byte_of_eq [simp]: "byte_of a = byte_of b \<longleftrightarrow> a = b"
  by (simp add: byte_of_def)

lemma bytes_of_eq [simp]: "bytes_of a = bytes_of b \<longleftrightarrow> a = b"
  by (auto simp: bytes_of_def inj_on_def dest: map_injective)

definition values_Encode :: "(string \<times> string) list \<Rightarrow> string" where
  "values_Encode vs = strings_Join ''&'' (map (\<lambda>(k, v). QueryEscape k @ ''='' @ QueryEscape v) (sort_key (\<lambda>kv. bytes_of (fst kv)) vs))"

text \<open>\<^verbatim>\<open>ResolveReference\<close> of a path from the root: dots are resolved, everything after the host is replaced.\<close>

fun resolve_dots :: "string list \<Rightarrow> string list \<Rightarrow> string list" where
  "resolve_dots st [] = rev st"
| "resolve_dots st [x] = (if x = ''.'' then rev ([] # st) else if x = ''..'' then rev ([] # tl st) else rev (x # st))"
| "resolve_dots st (x # xs) = (if x = ''.'' then resolve_dots st xs else if x = ''..'' then resolve_dots (tl st) xs else resolve_dots (x # st) xs)"

definition resolvePath :: "string \<Rightarrow> string" where
  "resolvePath p = CHR ''/'' # strings_Join ''/'' (resolve_dots [] (tl (strings_Split (CHR ''/'') p)))"

definition ResolveReference :: "url \<Rightarrow> string \<Rightarrow> url" where
  "ResolveReference base p = \<lparr>uScheme = uScheme base, uUser = uUser base, uHost = uHost base, uPath = resolvePath p, uRawQuery = [], uFragment = []\<rparr>"

record httpRequest =
  hqMethod :: string
  hqURL :: url
  hqHeader :: "(string \<times> byte list) list"

record httpResponse =
  hrStatus :: int
  hrContentType :: string
  hrBody :: "byte list"
  hrReadErr :: "gerror option"

type_synonym 'w httpDo = "ctx \<Rightarrow> httpRequest \<Rightarrow> 'w \<Rightarrow> (gerror + httpResponse) \<times> 'w"

definition text_bytes :: "string \<Rightarrow> byte list" where
  "text_bytes s = map (\<lambda>ch. of_nat (byte_of ch)) s"

end
