(* ===== verification/Nord_Auth.thy ===== *)
theory Nord_Auth
  imports Net_HTTP Credentials
begin

text \<open>
  The client of Nord's credential service, \<^verbatim>\<open>internal/nordauth/client.go\<close>, and the reading of an access token,
  \<^verbatim>\<open>internal/tokeninput/read.go\<close>. Wiping of buffers has no state in the model; the JSON of a response is a codec, the raw
  fields are their bytes.
\<close>

section \<open>Access tokens\<close>

definition maxTokenBytes :: nat where
  "maxTokenBytes = 4096"

definition token_byte :: "byte \<Rightarrow> bool" where
  "token_byte v = (48 \<le> v \<and> v \<le> 57 \<or> 97 \<le> v \<and> v \<le> 102)"

definition validateToken :: "byte list \<Rightarrow> gerror option" where
  "validateToken token = (if token = [] \<or> length token > 4096 then Some (Err ''invalid Nord access token format'')
     else reject (\<not> list_all token_byte token) ''invalid Nord access token format'')"

definition bytes_TrimSuffix :: "byte list \<Rightarrow> byte list \<Rightarrow> byte list" where
  "bytes_TrimSuffix s suf = (if length suf \<le> length s \<and> drop (length s - length suf) s = suf then take (length s - length suf) s else s)"

definition token_normalize :: "byte list \<Rightarrow> bool \<Rightarrow> gerror + byte list" where
  "token_normalize raw0 allowLineEnding =
     (let raw = (if allowLineEnding then bytes_TrimSuffix (bytes_TrimSuffix raw0 [10]) [13] else raw0) in
      if raw = [] \<or> length raw > maxTokenBytes then Inl (Err ''invalid Nord access token format'')
      else if \<not> list_all token_byte raw then Inl (Err ''invalid Nord access token format'')
      else Inr raw)"

text \<open>A reader is what it will deliver, and the error it ends with instead of the end of the file.\<close>

record byteReader =
  brData :: "byte list"
  brErr :: "gerror option"

definition ReadStdin :: "byteReader option \<Rightarrow> gerror + byte list" where
  "ReadStdin reader = (case reader of
     None \<Rightarrow> Inl (Err ''token stdin is unavailable'')
   | Some r \<Rightarrow>
      (if length (brData r) < maxTokenBytes + 3 \<and> brErr r \<noteq> None then Inl (Err ''read token from stdin'')
       else token_normalize (take (maxTokenBytes + 3) (brData r)) True))"

record 'w terminal =
  tmIsTerminal :: "(int \<Rightarrow> 'w \<Rightarrow> bool \<times> 'w) option"
  tmReadPassword :: "(int \<Rightarrow> 'w \<Rightarrow> (byte list \<times> gerror option) \<times> 'w) option"

text \<open>\<open>term\<close> holds the functions of \<^verbatim>\<open>golang.org/x/term\<close>, used where none is configured; the prompt writes text.\<close>

definition ReadHidden :: "'w terminal \<Rightarrow> int \<Rightarrow> (string \<Rightarrow> 'w \<Rightarrow> gerror option \<times> 'w) option \<Rightarrow> 'w terminal \<Rightarrow> 'w \<Rightarrow> (gerror + byte list) \<times> 'w" where
  "ReadHidden term fd prompt t w = (case prompt of
     None \<Rightarrow> (Inl (Err ''token prompt is unavailable''), w)
   | Some write \<Rightarrow>
      (let isT = (case tmIsTerminal t of Some f \<Rightarrow> f | None \<Rightarrow> the (tmIsTerminal term));
           rd = (case tmReadPassword t of Some f \<Rightarrow> f | None \<Rightarrow> the (tmReadPassword term))
       in case isT fd w of
         (False, w1) \<Rightarrow> (Inl (Err ''hidden token input requires a terminal; use --token-stdin''), w1)
       | (True, w1) \<Rightarrow> (case write ''Nord access token: '' w1 of
           (Some e, w2) \<Rightarrow> (Inl (Err ''write token prompt''), w2)
         | (None, w2) \<Rightarrow> (case rd fd w2 of
             ((raw, err), w3) \<Rightarrow> (case write [CHR 0x0A] w3 of
               (newlineErr, w4) \<Rightarrow>
                 (if err \<noteq> None then (Inl (Err ''read hidden token''), w4)
                  else if newlineErr \<noteq> None then (Inl (Err ''finish token prompt''), w4)
                  else (token_normalize raw False, w4)))))))"

section \<open>The credential service\<close>

definition defaultBaseURL :: string where
  "defaultBaseURL = ''https://api.nordvpn.com''"

definition provisionPath :: string where
  "provisionPath = ''/v1/users/services/credentials''"

definition authMaxBody :: nat where
  "authMaxBody = 64 * 1024"

definition requestTimeout :: int where
  "requestTimeout = 10 * 10 ^ 9"

text \<open>An \<^verbatim>\<open>http.Client\<close>: its timeout, whether it follows redirects, and what sends under such a policy.\<close>

record 'w goClient =
  gcTimeout :: int
  gcRedirects :: bool
  gcSend :: "int \<Rightarrow> bool \<Rightarrow> 'w httpDo"

record 'w authClient =
  naBaseURL :: string
  naHTTP :: "'w goClient option"
  naTransport :: "int \<Rightarrow> bool \<Rightarrow> 'w httpDo"
  naParse :: "string \<Rightarrow> url option"
  naTables :: unicode
  naCodec :: "(int \<times> byte list) codec"

definition isLoopbackHost :: "unicode \<Rightarrow> string \<Rightarrow> bool" where
  "isLoopbackHost u host = (host = ''127.0.0.1'' \<or> host = ''::1'' \<or> strings_EqualFold u host ''localhost'')"

definition auth_endpoint :: "'w authClient \<Rightarrow> gerror + url" where
  "auth_endpoint c = (let base = (if naBaseURL c = [] then defaultBaseURL else naBaseURL c); u = naTables c in
     case naParse c base of
       None \<Rightarrow> Inl (Err ''invalid Nord API base URL'')
     | Some v \<Rightarrow>
        (if uHost v = [] \<or> uUser v \<noteq> None \<or> uRawQuery v \<noteq> [] \<or> uFragment v \<noteq> [] then Inl (Err ''invalid Nord API base URL'')
         else (let loopback = isLoopbackHost u (url_Hostname v) in
           if uScheme v \<noteq> ''https'' \<and> \<not> (uScheme v = ''http'' \<and> loopback) then Inl (Err ''Nord API base URL must use HTTPS'')
           else if \<not> loopback \<and> (\<not> strings_EqualFold u (url_Hostname v) ''api.nordvpn.com'' \<or> (url_Port v \<noteq> [] \<and> url_Port v \<noteq> ''443''))
           then Inl (Err ''Nord API base URL host is not allowed'')
           else Inr (v\<lparr>uPath := provisionPath\<rparr>))))"

definition auth_httpClient :: "'w authClient \<Rightarrow> 'w goClient" where
  "auth_httpClient c = (let configured = (case naHTTP c of None \<Rightarrow> \<lparr>gcTimeout = 0, gcRedirects = True, gcSend = naTransport c\<rparr> | Some g \<Rightarrow> g) in
     configured\<lparr>gcTimeout := (if gcTimeout configured = 0 \<or> gcTimeout configured > requestTimeout then requestTimeout else gcTimeout configured),
       gcRedirects := False\<rparr>)"

definition authRequest :: "url \<Rightarrow> byte list \<Rightarrow> httpRequest" where
  "authRequest v token = \<lparr>hqMethod = ''GET'', hqURL = v,
     hqHeader = [(''Authorization'', text_bytes ''Bearer '' @ token), (''Accept'', text_bytes ''application/json''),
       (''User-Agent'', text_bytes ''nordmac/credential-contract-probe'')]\<rparr>"

text \<open>Of the fields of the response only the account id and the raw private key are used after decoding.\<close>

definition decodeProvisioning :: "(int \<times> byte list) codec \<Rightarrow> byte list \<Rightarrow> gerror + provisioning" where
  "decodeProvisioning cd body = (let bad = (\<lambda>m. Inl (WrapErr m (Sentinel ErrInvalidData))) in
     case json_Decode cd body of
       None \<Rightarrow> bad ''malformed schema''
     | Some (_, False) \<Rightarrow> bad ''trailing response data''
     | Some ((accountID, encoded), True) \<Rightarrow>
        (if accountID \<le> 0 then bad ''invalid account id''
         else if length encoded \<noteq> 46 \<or> hd encoded \<noteq> 34 \<or> last encoded \<noteq> 34 then bad ''invalid NordLynx private key''
         else (let key = butlast (tl encoded) in case base64_DecodeString (bytes_string key) of
             None \<Rightarrow> bad ''invalid NordLynx private key''
           | Some decoded \<Rightarrow> if length decoded \<noteq> 32 then bad ''invalid NordLynx private key''
                             else Inr \<lparr>prAccountID = accountID, prPrivateKey = key\<rparr>)))"

definition provisionAnswer :: "unicode \<Rightarrow> (int \<times> byte list) codec \<Rightarrow> httpResponse \<Rightarrow> gerror + provisioning" where
  "provisionAnswer u cd r =
     (if hrStatus r = 401 then Inl (Sentinel ErrUnauthorized)
      else if hrStatus r = 403 then Inl (Sentinel ErrForbidden)
      else if hrStatus r = 429 then Inl (Sentinel ErrRateLimited)
      else if hrStatus r \<noteq> 200 then Inl (Err ''Nord credential service returned HTTP'')
      else if unicode_ToLower u (unicode_TrimSpace u (hd (strings_Split (CHR '';'') (hrContentType r)))) \<noteq> ''application/json''
      then Inl (WrapErr ''unexpected content type'' (Sentinel ErrInvalidData))
      else if length (hrBody r) \<le> authMaxBody \<and> hrReadErr r \<noteq> None then Inl (Err ''read Nord credential response'')
      else if length (hrBody r) > authMaxBody then Inl (WrapErr ''response exceeds limit'' (Sentinel ErrInvalidData))
      else decodeProvisioning cd (hrBody r))"

definition auth_Provision :: "'w authClient \<Rightarrow> 'w provisioner" where
  "auth_Provision c ctx token w = (case validateToken token of
     Some e \<Rightarrow> (Inl e, w)
   | None \<Rightarrow> (case auth_endpoint c of
       Inl e \<Rightarrow> (Inl e, w)
     | Inr v \<Rightarrow> (let g = auth_httpClient c in case gcSend g (gcTimeout g) (gcRedirects g) ctx (authRequest v token) w of
         (Inl e, w1) \<Rightarrow> (Inl (WrapErr ''request Nord credentials'' e), w1)
       | (Inr r, w1) \<Rightarrow> (provisionAnswer (naTables c) (naCodec c) r, w1))))"

end
