(* ===== verification/Auth_Properties.thy ===== *)
theory Auth_Properties
  imports Nord_Auth Connection
begin

text \<open>
  What is guaranteed of access tokens and provisioning: which input is a token, where a token is sent and how, and that a
  key that was provisioned is one a later connection can use.
\<close>

section \<open>Tokens\<close>

lemma token_normalize_valid: "token_normalize raw False = Inr t \<longleftrightarrow> raw = t \<and> validateToken t = None"
  by (auto simp: token_normalize_def validateToken_def maxTokenBytes_def reject_def)

lemma token_line_length: "validateToken t = None \<Longrightarrow> raw \<in> {t, t @ [10], t @ [13], t @ [13, 10]} \<Longrightarrow> length raw \<le> maxTokenBytes + 2"
  by (auto simp: validateToken_def maxTokenBytes_def split: if_splits)

lemma token_no_line: "list_all token_byte t \<Longrightarrow> 10 \<notin> set t \<and> 13 \<notin> set t"
  by (auto simp: token_byte_def list_all_iff)

lemma TrimSuffix_one: "bytes_TrimSuffix s [x] = (if s \<noteq> [] \<and> last s = x then butlast s else s)"
  by (cases s rule: rev_cases) (auto simp: bytes_TrimSuffix_def)

lemma token_line_valid:
  "token_normalize raw True = Inr t \<longleftrightarrow> validateToken t = None \<and> raw \<in> {t, t @ [10], t @ [13], t @ [13, 10]}"
proof
  assume a: "token_normalize raw True = Inr t"
  let ?a = "bytes_TrimSuffix raw [10]"
  have t: "t = bytes_TrimSuffix ?a [13]" "validateToken t = None"
    using a by (auto simp: token_normalize_def validateToken_def maxTokenBytes_def Let_def split: if_splits)
  have "raw = ?a \<or> raw = ?a @ [10]" by (auto simp: TrimSuffix_one dest: append_butlast_last_id)
  moreover have "?a = t \<or> ?a = t @ [13]" unfolding t(1) by (auto simp: TrimSuffix_one [of _ 13] dest: append_butlast_last_id)
  ultimately show "validateToken t = None \<and> raw \<in> {t, t @ [10], t @ [13], t @ [13, 10]}" using t(2) by auto
next
  assume a: "validateToken t = None \<and> raw \<in> {t, t @ [10], t @ [13], t @ [13, 10]}"
  then have l: "t \<noteq> []" "length t \<le> 4096" "list_all token_byte t" by (auto simp: validateToken_def split: if_splits)
  then have "last t \<noteq> 10" "last t \<noteq> 13" using token_no_line [OF l(3)] last_in_set by metis+
  then have "bytes_TrimSuffix (bytes_TrimSuffix raw [10]) [13] = t" using a l(1) by (auto simp: TrimSuffix_one butlast_append)
  then show "token_normalize raw True = Inr t" using l by (simp add: token_normalize_def maxTokenBytes_def)
qed

text \<open>C26: the standard input is accepted exactly when it is a token the credential service's client will accept, followed by at
  most one line end (LF, CR or CR LF); the token is returned without it, and nothing is truncated to fit.\<close>

theorem stdin_token_exact:
  "ReadStdin (Some \<lparr>brData = d, brErr = None\<rparr>) = Inr t \<longleftrightarrow> validateToken t = None \<and> d \<in> {t, t @ [10], t @ [13], t @ [13, 10]}"
proof (cases "length d \<le> maxTokenBytes + 3")
  case True
  then show ?thesis by (simp add: ReadStdin_def token_line_valid)
next
  case False
  let ?raw = "take (maxTokenBytes + 3) d"
  have "\<not> (validateToken t = None \<and> ?raw \<in> {t, t @ [10], t @ [13], t @ [13, 10]})"
    using token_line_length [of t ?raw] False by auto
  moreover have "\<not> (validateToken t = None \<and> d \<in> {t, t @ [10], t @ [13], t @ [13, 10]})"
    using token_line_length [of t d] False by auto
  moreover have "ReadStdin (Some \<lparr>brData = d, brErr = None\<rparr>) = token_normalize ?raw True" by (simp add: ReadStdin_def)
  ultimately show ?thesis using token_line_valid [of ?raw t] by (simp only:)
qed

section \<open>Provisioning\<close>

definition allowedEndpoint :: "unicode \<Rightarrow> url \<Rightarrow> bool" where
  "allowedEndpoint u v \<longleftrightarrow> uPath v = provisionPath \<and> uUser v = None \<and> uRawQuery v = [] \<and> uFragment v = [] \<and>
     (uScheme v = ''https'' \<and> strings_EqualFold u (url_Hostname v) ''api.nordvpn.com'' \<and> url_Port v \<in> {[], ''443''} \<or>
      uScheme v \<in> {''https'', ''http''} \<and> isLoopbackHost u (url_Hostname v))"

lemma endpoint_allowed: "auth_endpoint c = Inr v \<Longrightarrow> allowedEndpoint (naTables c) v"
  by (auto simp: auth_endpoint_def allowedEndpoint_def Let_def url_Hostname_def url_Port_def split: option.splits if_splits)

definition usableKey :: "byte list \<Rightarrow> bool" where
  "usableKey key \<longleftrightarrow> length key = 44 \<and> (\<exists>d. base64_DecodeString (bytes_string key) = Some d \<and> length d = 32)"

lemma decodeProvisioning_ok: "decodeProvisioning cd body = Inr pr \<Longrightarrow> 0 < prAccountID pr \<and> usableKey (prPrivateKey pr)"
  by (auto simp: decodeProvisioning_def usableKey_def Let_def split: option.splits prod.splits bool.splits if_splits)

lemma provisionAnswer_ok: "provisionAnswer u cd r = Inr pr \<Longrightarrow> hrStatus r = 200 \<and> 0 < prAccountID pr \<and> usableKey (prPrivateKey pr)"
  by (auto simp: provisionAnswer_def decodeProvisioning_ok split: if_splits)

text \<open>C25: a token goes nowhere else: whatever the configuration, provisioning either fails without touching anything, or sends one
  request with a well-formed token, over TLS to Nord's host (or to the machine itself), under a limit of ten seconds and with
  redirects refused. What it returns is a positive account id and a key of 44 characters that decodes to 32 bytes.\<close>

theorem token_only_to_nord:
  assumes "auth_Provision c ctx token w = (r, w1)"
  shows "(\<forall>pr. r = Inr pr \<longrightarrow> 0 < prAccountID pr \<and> usableKey (prPrivateKey pr)) \<and>
    ((w1 = w \<and> (\<exists>e. r = Inl e)) \<or>
     (\<exists>v g resp. validateToken token = None \<and> allowedEndpoint (naTables c) v \<and> g = auth_httpClient c \<and>
        gcTimeout g \<le> requestTimeout \<and> gcTimeout g \<noteq> 0 \<and> gcSend g (gcTimeout g) False ctx (authRequest v token) w = (resp, w1)))"
proof (cases "validateToken token = None \<and> (\<exists>v. auth_endpoint c = Inr v)")
  case False
  then have "w1 = w \<and> (\<exists>e. r = Inl e)" using assms by (auto simp: auth_Provision_def split: option.splits sum.splits)
  then show ?thesis by auto
next
  case True
  then obtain v where v: "validateToken token = None" "auth_endpoint c = Inr v" by blast
  let ?g = "auth_httpClient c"
  have g: "gcRedirects ?g = False" "gcTimeout ?g \<le> requestTimeout" "gcTimeout ?g \<noteq> 0"
    by (auto simp: auth_httpClient_def requestTimeout_def Let_def)
  obtain resp w2 where s: "gcSend ?g (gcTimeout ?g) False ctx (authRequest v token) w = (resp, w2)" by (metis prod.exhaust)
  have res: "w1 = w2" "\<forall>pr. r = Inr pr \<longrightarrow> (\<exists>a. resp = Inr a \<and> provisionAnswer (naTables c) (naCodec c) a = Inr pr)"
    using assms v s g(1) by (auto simp: auth_Provision_def Let_def split: sum.splits)
  have "\<forall>pr. r = Inr pr \<longrightarrow> 0 < prAccountID pr \<and> usableKey (prPrivateKey pr)" using res(2) provisionAnswer_ok by metis
  moreover have "validateToken token = None \<and> allowedEndpoint (naTables c) v \<and> ?g = auth_httpClient c \<and> gcTimeout ?g \<le> requestTimeout \<and> gcTimeout ?g \<noteq> 0 \<and>
      gcSend ?g (gcTimeout ?g) False ctx (authRequest v token) w = (resp, w1)"
    using v(1) endpoint_allowed [OF v(2)] s g(2,3) res(1) by simp
  ultimately show ?thesis by blast
qed

text \<open>What login stores, connect can use: a key that was provisioned is never refused as invalid when a connection to a
  server with a valid key is prepared; the keys are refused only where they are degenerate (zero, or equal).\<close>

theorem provisioned_key_usable:
  assumes "auth_Provision c ctx token w = (Inr pr, w1)" "validWireGuardKey (svWireGuardPubKey sv)"
  shows "\<exists>secrets. length (ClientPrivateKey secrets) = 32 \<and> length (PeerPublicKey secrets) = 32 \<and>
    base64_DecodeString (bytes_string (prPrivateKey pr)) = Some (ClientPrivateKey secrets) \<and>
    decodeSecrets (prPrivateKey pr) sv = (case secrets_Validate (Some secrets) of Some e \<Rightarrow> Inl e | None \<Rightarrow> Inr secrets)"
proof -
  obtain resp where "provisionAnswer (naTables c) (naCodec c) resp = Inr pr"
    using assms(1) by (auto simp: auth_Provision_def Let_def split: option.splits sum.splits prod.splits)
  then obtain d where d: "base64_DecodeString (bytes_string (prPrivateKey pr)) = Some d" "length d = 32"
    using provisionAnswer_ok unfolding usableKey_def by blast
  obtain p where p: "base64_DecodeString (svWireGuardPubKey sv) = Some p" "length p = 32"
    using assms(2) by (auto simp: validWireGuardKey_def split: option.splits)
  show ?thesis using d p by (intro exI [of _ "\<lparr>ClientPrivateKey = d, PeerPublicKey = p\<rparr>"]) (simp add: decodeSecrets_def Let_def)
qed

section \<open>A service that answers\<close>

definition sampleKey :: "byte list" where
  "sampleKey = [65, 81] @ replicate 41 65 @ [61]"

definition nordURL :: url where
  "nordURL = \<lparr>uScheme = ''https'', uUser = None, uHost = ''api.nordvpn.com'', uPath = [], uRawQuery = [], uFragment = []\<rparr>"

definition sampleAuth :: "nat authClient" where
  "sampleAuth = \<lparr>naBaseURL = [], naHTTP = None,
     naTransport = (\<lambda>timeout redirects ctx rq w. (Inr \<lparr>hrStatus = 200, hrContentType = ''application/json; charset=utf-8'', hrBody = [0x7b, 0x7d], hrReadErr = None\<rparr>, Suc w)),
     naParse = (\<lambda>s. if s = defaultBaseURL then Some nordURL else None), naTables = asciiTables,
     naCodec = oneCodec (42, 34 # sampleKey @ [34])\<rparr>"

definition sampleToken :: "byte list" where
  "sampleToken = [48, 97, 102]"

lemma sampleKey_decodes: "base64_DecodeString (bytes_string sampleKey) = Some (1 # replicate 31 0)"
  by code_simp

lemma sampleAuth_endpoint: "auth_endpoint sampleAuth = Inr (nordURL\<lparr>uPath := provisionPath\<rparr>)"
  by code_simp

lemma sampleAuth_type: "hd (strings_Split (CHR '';'') ''application/json; charset=utf-8'') = ''application/json''"
    "unicode_ToLower asciiTables (unicode_TrimSpace asciiTables ''application/json'') = ''application/json''"
  by code_simp+

lemma sampleAuth_run: "auth_Provision sampleAuth ctx sampleToken 7 = (Inr \<lparr>prAccountID = 42, prPrivateKey = sampleKey\<rparr>, 8)"
proof -
  have k: "length (34 # sampleKey @ [34]) = 46" "hd (34 # sampleKey @ [34]) = 34" "last (34 # sampleKey @ [34]) = 34" "butlast (tl (34 # sampleKey @ [34])) = sampleKey"
    by (simp_all add: sampleKey_def butlast_append)
  have d: "decodeProvisioning (oneCodec (42, 34 # sampleKey @ [34])) [0x7b, 0x7d] = Inr \<lparr>prAccountID = 42, prPrivateKey = sampleKey\<rparr>"
    unfolding decodeProvisioning_def using k sampleKey_decodes by (simp add: oneCodec_def)
  have t: "validateToken sampleToken = None" by (simp add: validateToken_def sampleToken_def token_byte_def)
  have g: "gcSend (auth_httpClient sampleAuth) n b ctx rq w = (Inr \<lparr>hrStatus = 200, hrContentType = ''application/json; charset=utf-8'', hrBody = [0x7b, 0x7d], hrReadErr = None\<rparr>, Suc w)" for n b rq w
    by (simp add: auth_httpClient_def sampleAuth_def)
  have f: "naTables sampleAuth = asciiTables" "naCodec sampleAuth = oneCodec (42, 34 # sampleKey @ [34])" by (simp_all add: sampleAuth_def)
  show ?thesis unfolding auth_Provision_def by (simp add: t sampleAuth_endpoint g f provisionAnswer_def sampleAuth_type d authMaxBody_def Let_def)
qed

theorem token_only_to_nord_witness:
  "auth_Provision sampleAuth CallerCtx sampleToken 7 = (Inr \<lparr>prAccountID = 42, prPrivateKey = sampleKey\<rparr>, 8) \<and> usableKey sampleKey"
  using token_only_to_nord [OF sampleAuth_run] sampleAuth_run by auto

definition keyServer :: server where
  "keyServer = \<lparr>svID = 7, svName = ''Japan 1'', svHostname = ''jp1.nordvpn.com'', svStation = ''192.0.2.1'', svLoad = 12, svStatus = ''online'',
     svCountryID = 1, svCountryName = ''Japan'', svCountryCode = ''JP'', svCityID = 5, svCityName = ''Tokyo'', svCitySlug = ''tokyo'',
     svWireGuardPubKey = ''Ag'' @ replicate 41 CHR ''A'' @ ''=''\<rparr>"

lemma keyServer_key: "base64_DecodeString (svWireGuardPubKey keyServer) = Some (2 # replicate 31 0)"
  by code_simp

lemma sampleKeys_nonzero: "\<not> allZero (1 # replicate 31 0)" "\<not> allZero (2 # replicate 31 0)"
  by code_simp+

theorem provisioned_key_usable_witness:
  "\<exists>secrets. decodeSecrets sampleKey keyServer = Inr secrets \<and> ClientPrivateKey secrets = 1 # replicate 31 0"
proof -
  have "validWireGuardKey (svWireGuardPubKey keyServer)" by (simp add: validWireGuardKey_def keyServer_key)
  from provisioned_key_usable [OF sampleAuth_run [of CallerCtx] this] obtain secrets where
    s: "ClientPrivateKey secrets = 1 # replicate 31 0" "decodeSecrets sampleKey keyServer = (case secrets_Validate (Some secrets) of Some e \<Rightarrow> Inl e | None \<Rightarrow> Inr secrets)"
    by (auto simp: sampleKey_decodes)
  have "decodeSecrets sampleKey keyServer = Inr \<lparr>ClientPrivateKey = 1 # replicate 31 0, PeerPublicKey = 2 # replicate 31 0\<rparr>"
    by (simp add: decodeSecrets_def sampleKey_decodes keyServer_key secrets_Validate_def reject_def sampleKeys_nonzero)
  then show ?thesis using s by auto
qed

end
