(* ===== verification/Nord_API.thy ===== *)
theory Nord_API
  imports Net_HTTP Catalog
begin

text \<open>
  The client of the public server catalog, \<^verbatim>\<open>internal/nordapi/client.go\<close>: requests, the reading of a
  response, and the conversion of what the service sends into the catalog's data.
\<close>

section \<open>The client\<close>

definition DefaultBaseURL :: string where
  "DefaultBaseURL = ''https://api.nordvpn.com/v1''"

definition apiMaxBody :: nat where
  "apiMaxBody = 8 * 2 ^ 20"

record 'w apiClient =
  acBase :: url
  acHTTP :: "'w httpDo"

definition nordapi_New :: "(string \<Rightarrow> url option) \<Rightarrow> string \<Rightarrow> 'w httpDo option \<Rightarrow> gerror + 'w apiClient" where
  "nordapi_New parse baseURL client = (case parse baseURL of
     None \<Rightarrow> Inl (Err ''parse API base URL'')
   | Some base \<Rightarrow>
      (if uScheme base \<noteq> ''https'' \<and> url_Hostname base \<noteq> ''127.0.0.1'' \<and> url_Hostname base \<noteq> ''localhost''
       then Inl (Err ''API base URL must use HTTPS'')
       else (case client of None \<Rightarrow> Inl (Err ''HTTP client is required'') | Some c \<Rightarrow> Inr \<lparr>acBase = base, acHTTP = c\<rparr>)))"

text \<open>\<^verbatim>\<open>MaxBytesReader\<close> fails once more than the limit has been sent, whether the first value ends before or not; so
  does a body whose reading ends with an error, since the decoder is asked for the end of the file.\<close>

definition decodeBody :: "'a codec \<Rightarrow> httpResponse \<Rightarrow> gerror + 'a" where
  "decodeBody cd r =
     (if length (hrBody r) > apiMaxBody \<or> hrReadErr r \<noteq> None then Inl (Err ''decode public API response'')
      else (case json_Decode cd (hrBody r) of
        None \<Rightarrow> Inl (Err ''decode public API response'')
      | Some (x, False) \<Rightarrow> Inl (Err ''decode public API response: trailing JSON value'')
      | Some (x, True) \<Rightarrow> Inr x))"

definition apiRequest :: "url \<Rightarrow> string \<Rightarrow> (string \<times> string) list \<Rightarrow> httpRequest" where
  "apiRequest base path query = \<lparr>hqMethod = ''GET'',
     hqURL = (ResolveReference base (rev (dropWhile (\<lambda>ch. ch = CHR ''/'') (rev (uPath base))) @ path))\<lparr>uRawQuery := values_Encode query\<rparr>,
     hqHeader = [(''Accept'', text_bytes ''application/json''), (''User-Agent'', text_bytes ''nordmac/dev'')]\<rparr>"

definition getJSON :: "unicode \<Rightarrow> 'w apiClient \<Rightarrow> 'a codec \<Rightarrow> ctx \<Rightarrow> string \<Rightarrow> (string \<times> string) list \<Rightarrow> 'w \<Rightarrow> (gerror + 'a) \<times> 'w" where
  "getJSON u c cd ctx path query w = (case acHTTP c ctx (apiRequest (acBase c) path query) w of
     (Inl e, w1) \<Rightarrow> (Inl (WrapErr ''public API request'' e), w1)
   | (Inr r, w1) \<Rightarrow>
      (if hrStatus r < 200 \<or> hrStatus r \<ge> 300 then (Inl (Err ''public API returned HTTP''), w1)
       else if \<not> strings_HasPrefix (unicode_ToLower u (hrContentType r)) ''application/json''
       then (Inl (Err ''public API returned unexpected content type''), w1)
       else (decodeBody cd r, w1)))"

section \<open>Countries\<close>

record cityDTO =
  cdID :: int
  cdName :: string
  cdDNSName :: string

record countryDTO =
  coID :: int
  coName :: string
  coCode :: string
  coCities :: "cityDTO list"

definition trimLower :: "unicode \<Rightarrow> string \<Rightarrow> string" where
  "trimLower u s = unicode_ToLower u (unicode_TrimSpace u s)"

definition trimUpper :: "unicode \<Rightarrow> string \<Rightarrow> string" where
  "trimUpper u s = unicode_ToUpper u (unicode_TrimSpace u s)"

definition convertCity :: "unicode \<Rightarrow> cityDTO \<Rightarrow> city" where
  "convertCity u d = \<lparr>ctID = cdID d, ctName = unicode_TrimSpace u (cdName d), ctSlug = trimLower u (cdDNSName d)\<rparr>"

fun convertCities :: "unicode \<Rightarrow> string set \<Rightarrow> cityDTO list \<Rightarrow> gerror + city list" where
  "convertCities u seen [] = Inr []"
| "convertCities u seen (d # ds) = (let x = convertCity u d in
     if ctID x \<le> 0 \<or> ctName x = [] \<or> ctSlug x = [] then Inl (Err ''city has missing or invalid id, name, or slug'')
     else if ctSlug x \<in> seen then Inl (Err ''duplicate city slug'')
     else (case convertCities u (insert (ctSlug x) seen) ds of Inl e \<Rightarrow> Inl e | Inr xs \<Rightarrow> Inr (x # xs)))"

text \<open>\<^verbatim>\<open>sort.Slice\<close> on distinct keys has one result; strings are compared by their bytes.\<close>

definition slugKey :: "city \<Rightarrow> nat list" where
  "slugKey x = bytes_of (ctSlug x)"

definition codeKey :: "country \<Rightarrow> nat list" where
  "codeKey x = bytes_of (cnCode x)"

definition convertCountry :: "unicode \<Rightarrow> countryDTO \<Rightarrow> gerror + country" where
  "convertCountry u d = (let code = trimUpper u (coCode d); name = unicode_TrimSpace u (coName d) in
     if coID d \<le> 0 \<or> length code \<noteq> 2 \<or> name = [] then Inl (Err ''missing or invalid id, name, or ISO code'')
     else (case convertCities u {} (coCities d) of
       Inl e \<Rightarrow> Inl e
     | Inr xs \<Rightarrow> Inr \<lparr>cnID = coID d, cnName = name, cnCode = code, cnCities = sort_key slugKey xs\<rparr>))"

fun convertCountries :: "unicode \<Rightarrow> string set \<Rightarrow> countryDTO list \<Rightarrow> gerror + country list" where
  "convertCountries u seen [] = Inr []"
| "convertCountries u seen (d # ds) = (case convertCountry u d of
     Inl e \<Rightarrow> Inl (WrapErr ''country'' (Sentinel ErrInvalid))
   | Inr x \<Rightarrow>
      (if cnCode x \<in> seen then Inl (WrapErr ''duplicate country code'' (Sentinel ErrInvalid))
       else (case convertCountries u (insert (cnCode x) seen) ds of Inl e \<Rightarrow> Inl e | Inr xs \<Rightarrow> Inr (x # xs))))"

definition nordapi_Countries :: "unicode \<Rightarrow> countryDTO list codec \<Rightarrow> 'w apiClient \<Rightarrow> ctx \<Rightarrow> 'w \<Rightarrow> (gerror + country list) \<times> 'w" where
  "nordapi_Countries u cd c ctx w = (case getJSON u c cd ctx ''/servers/countries'' [] w of
     (Inl e, w1) \<Rightarrow> (Inl e, w1)
   | (Inr ds, w1) \<Rightarrow>
      (if ds = [] then (Inl (WrapErr ''countries response is empty'' (Sentinel ErrInvalid)), w1)
       else (case convertCountries u {} ds of Inl e \<Rightarrow> (Inl e, w1) | Inr xs \<Rightarrow> (Inr (sort_key codeKey xs), w1))))"

section \<open>Servers\<close>

record locationDTO =
  loID :: int
  loName :: string
  loCode :: string
  loCity :: cityDTO

record technologyDTO =
  teIdentifier :: string
  teMetadata :: "(string \<times> string) list"

record serverDTO =
  sdID :: int
  sdName :: string
  sdHostname :: string
  sdStation :: string
  sdLoad :: int
  sdStatus :: string
  sdLocations :: "locationDTO list"
  sdTechnologies :: "technologyDTO list"

text \<open>The loops over the technologies and their metadata: the last public key of a WireGuard technology is kept.\<close>

definition publicKeyOf :: "unicode \<Rightarrow> technologyDTO list \<Rightarrow> string" where
  "publicKeyOf u ts = fold (\<lambda>t k. if teIdentifier t \<noteq> ''wireguard_udp'' then k
     else fold (\<lambda>(n, v) k. if n = ''public_key'' then unicode_TrimSpace u v else k) (teMetadata t) k) ts []"

definition publicIPv4 :: "text6 \<Rightarrow> string \<Rightarrow> addr option" where
  "publicIPv4 t s = (case netip_ParseAddr t s of
     None \<Rightarrow> None
   | Some a \<Rightarrow> if \<not> addr_Is4 a \<or> \<not> addr_IsGlobalUnicast a \<or> addr_IsPrivate a then None else Some a)"

definition convertServer :: "unicode \<Rightarrow> text6 \<Rightarrow> serverDTO \<Rightarrow> gerror + server" where
  "convertServer u t d =
     (if sdID d \<le> 0 \<or> unicode_TrimSpace u (sdName d) = [] \<or> unicode_TrimSpace u (sdHostname d) = [] \<or> unicode_TrimSpace u (sdStatus d) = []
      then Inl (Err ''missing server identity or status'')
      else if sdLoad d < 0 \<or> sdLoad d > 100 then Inl (Err ''load is outside 0..100'')
      else (case publicIPv4 t (unicode_TrimSpace u (sdStation d)) of
        None \<Rightarrow> Inl (Err ''server station is not a public IPv4 address'')
      | Some station \<Rightarrow> (case sdLocations d of
          [] \<Rightarrow> Inl (Err ''server has no location'')
        | l # ls \<Rightarrow>
           (if loID l \<le> 0 \<or> length (unicode_TrimSpace u (loCode l)) \<noteq> 2 \<or> cdID (loCity l) \<le> 0
            then Inl (Err ''server location is incomplete'')
            else Inr \<lparr>svID = sdID d, svName = unicode_TrimSpace u (sdName d), svHostname = trimLower u (sdHostname d),
              svStation = addr_String t station, svLoad = sdLoad d, svStatus = trimLower u (sdStatus d),
              svCountryID = loID l, svCountryName = unicode_TrimSpace u (loName l), svCountryCode = trimUpper u (loCode l),
              svCityID = cdID (loCity l), svCityName = unicode_TrimSpace u (cdName (loCity l)), svCitySlug = trimLower u (cdDNSName (loCity l)),
              svWireGuardPubKey = publicKeyOf u (sdTechnologies d)\<rparr>))))"

fun convertServers :: "unicode \<Rightarrow> text6 \<Rightarrow> serverDTO list \<Rightarrow> gerror + server list" where
  "convertServers u t [] = Inr []"
| "convertServers u t (d # ds) = (case convertServer u t d of
     Inl e \<Rightarrow> Inl (WrapErr ''server'' (Sentinel ErrInvalid))
   | Inr x \<Rightarrow> (case convertServers u t ds of Inl e \<Rightarrow> Inl e | Inr xs \<Rightarrow> Inr (x # xs)))"

definition serverQuery :: "int \<Rightarrow> int \<Rightarrow> int \<Rightarrow> gerror + (string \<times> string) list" where
  "serverQuery countryID cityID limit =
     (if countryID \<le> 0 then Inl (Err ''country id must be positive'')
      else if limit < 1 \<or> limit > 1000 then Inl (Err ''server limit must be between 1 and 1000'')
      else Inr ([(''filters[country_id]'', show_nat (nat countryID)),
                 (''filters[servers_technologies][identifier]'', ''wireguard_udp''),
                 (''limit'', show_nat (nat limit))] @
                (if cityID > 0 then [(''filters[city_id]'', show_nat (nat cityID))] else [])))"

definition nordapi_servers :: "unicode \<Rightarrow> text6 \<Rightarrow> serverDTO list codec \<Rightarrow> 'w apiClient \<Rightarrow> ctx \<Rightarrow> string \<Rightarrow> (string \<times> string) list \<Rightarrow> 'w \<Rightarrow> (gerror + server list) \<times> 'w" where
  "nordapi_servers u t cd c ctx path query w = (case getJSON u c cd ctx path query w of
     (Inl e, w1) \<Rightarrow> (Inl e, w1)
   | (Inr ds, w1) \<Rightarrow> if ds = [] then (Inl (Sentinel ErrNoMatch), w1) else (convertServers u t ds, w1))"

definition nordapi_Recommendations :: "unicode \<Rightarrow> text6 \<Rightarrow> serverDTO list codec \<Rightarrow> 'w apiClient \<Rightarrow> ctx \<Rightarrow> int \<Rightarrow> int \<Rightarrow> int \<Rightarrow> 'w \<Rightarrow> (gerror + server list) \<times> 'w" where
  "nordapi_Recommendations u t cd c ctx countryID cityID limit w = (case serverQuery countryID cityID limit of
     Inl e \<Rightarrow> (Inl e, w)
   | Inr q \<Rightarrow> nordapi_servers u t cd c ctx ''/servers/recommendations'' q w)"

definition nordapi_Servers :: "unicode \<Rightarrow> text6 \<Rightarrow> serverDTO list codec \<Rightarrow> 'w apiClient \<Rightarrow> ctx \<Rightarrow> int \<Rightarrow> int \<Rightarrow> 'w \<Rightarrow> (gerror + server list) \<times> 'w" where
  "nordapi_Servers u t cd c ctx countryID limit w = (case serverQuery countryID 0 limit of
     Inl e \<Rightarrow> (Inl e, w)
   | Inr q \<Rightarrow> nordapi_servers u t cd c ctx ''/servers'' q w)"

text \<open>The client as the catalog's \<^verbatim>\<open>PublicAPI\<close>.\<close>

definition nordPublicAPI :: "unicode \<Rightarrow> text6 \<Rightarrow> countryDTO list codec \<Rightarrow> serverDTO list codec \<Rightarrow> 'w apiClient \<Rightarrow> 'w publicAPI" where
  "nordPublicAPI u t ccd scd c = \<lparr>apiCountries = nordapi_Countries u ccd c,
     apiRecommendations = nordapi_Recommendations u t scd c, apiServers = nordapi_Servers u t scd c\<rparr>"

end
