(* ===== verification/API_Properties.thy ===== *)
theory API_Properties
  imports Nord_API "HOL-Library.Multiset"
begin

text \<open>
  What the client of the public catalog guarantees of its answers: countries and cities come normalised and in one
  order, and a server chosen from an answer can be planned for unless its host name is foreign.
\<close>

section \<open>Countries\<close>

definition city_ok :: "city \<Rightarrow> bool" where
  "city_ok x \<longleftrightarrow> 0 < ctID x \<and> ctName x \<noteq> [] \<and> ctSlug x \<noteq> []"

definition country_ok :: "country \<Rightarrow> bool" where
  "country_ok x \<longleftrightarrow> 0 < cnID x \<and> cnName x \<noteq> [] \<and> length (cnCode x) = 2 \<and>
     sorted_wrt (\<lambda>a b. slugKey a < slugKey b) (cnCities x) \<and> (\<forall>y\<in>set (cnCities x). city_ok y)"

text \<open>A list with distinct keys is strictly sorted by \<open>sort_key\<close>.\<close>

lemma strictly_sorted: "distinct (map f xs) \<Longrightarrow> sorted_wrt (\<lambda>a b. f a < f b) (sort_key f xs)" for f :: "'a \<Rightarrow> 'k::linorder"
proof -
  assume d: "distinct (map f xs)"
  have "mset (map f (sort_key f xs)) = mset (map f xs)" by simp
  then have "distinct (map f (sort_key f xs))" using d by (metis mset_eq_imp_distinct_iff)
  then have "sorted_wrt (<) (map f (sort_key f xs))" by (simp add: strict_sorted_iff)
  then show ?thesis by (simp add: sorted_wrt_map)
qed

lemma convertCities_ok:
  "convertCities u seen ds = Inr xs \<Longrightarrow> xs = map (convertCity u) ds \<and> distinct (map ctSlug xs) \<and> ctSlug ` set xs \<inter> seen = {} \<and> (\<forall>x\<in>set xs. city_ok x)"
proof (induction ds arbitrary: seen xs)
  case (Cons d ds)
  obtain ys where ys: "convertCities u (insert (ctSlug (convertCity u d)) seen) ds = Inr ys" "xs = convertCity u d # ys"
    and ok: "city_ok (convertCity u d)" "ctSlug (convertCity u d) \<notin> seen"
    using Cons.prems by (auto simp: Let_def city_ok_def split: if_splits sum.splits)
  have "ys = map (convertCity u) ds" "distinct (map ctSlug ys)" "\<forall>x\<in>set ys. city_ok x"
    "\<forall>x\<in>set ys. ctSlug x \<noteq> ctSlug (convertCity u d) \<and> ctSlug x \<notin> seen" using Cons.IH [OF ys(1)] by blast+
  then show ?case using ys(2) ok by fastforce
qed simp

lemma convertCountry_ok:
  assumes "convertCountry u d = Inr x"
  shows "country_ok x \<and> cnID x = coID d \<and> mset (cnCities x) = mset (map (convertCity u) (coCities d))"
proof -
  obtain xs where xs: "convertCities u {} (coCities d) = Inr xs" "cnCities x = sort_key slugKey xs"
    and h: "0 < cnID x" "cnName x \<noteq> []" "length (cnCode x) = 2" "cnID x = coID d"
    using assms by (auto simp: convertCountry_def Let_def split: if_splits sum.splits)
  have ok: "distinct (map slugKey xs)" "\<forall>x\<in>set xs. city_ok x" "xs = map (convertCity u) (coCities d)"
    using convertCities_ok [OF xs(1)] by (auto simp: slugKey_def distinct_map inj_on_def)
  show ?thesis unfolding country_ok_def xs(2) using h strictly_sorted [OF ok(1)] ok(2,3) by simp
qed

lemma convertCountries_ok:
  "convertCountries u seen ds = Inr xs \<Longrightarrow> map Inr xs = map (convertCountry u) ds \<and> distinct (map cnCode xs) \<and> cnCode ` set xs \<inter> seen = {}"
proof (induction ds arbitrary: seen xs)
  case (Cons d ds)
  obtain y ys where y: "convertCountry u d = Inr y" "convertCountries u (insert (cnCode y) seen) ds = Inr ys" "xs = y # ys" "cnCode y \<notin> seen"
    using Cons.prems by (auto split: if_splits sum.splits)
  have "map Inr ys = map (convertCountry u) ds" "distinct (map cnCode ys)" "\<forall>x\<in>set ys. cnCode x \<noteq> cnCode y \<and> cnCode x \<notin> seen"
    using Cons.IH [OF y(2)] by blast+
  then show ?case using y by fastforce
qed simp

text \<open>an accepted answer is normalised: the countries are those of the answer, each once, in strict order of their
  two-letter codes, every one with a positive id, a name and its cities in strict order of their slugs; so no two
  countries share a code and no two cities of a country share a slug.\<close>

theorem countries_normalised:
  assumes "nordapi_Countries u cd c ctx w = (Inr xs, w1)"
  shows "\<exists>ds. getJSON u c cd ctx ''/servers/countries'' [] w = (Inr ds, w1) \<and> mset (map Inr xs) = mset (map (convertCountry u) ds) \<and>
    xs \<noteq> [] \<and> sorted_wrt (\<lambda>a b. codeKey a < codeKey b) xs \<and> (\<forall>x\<in>set xs. country_ok x)"
proof -
  obtain ds ys where g: "getJSON u c cd ctx ''/servers/countries'' [] w = (Inr ds, w1)" "ds \<noteq> []"
    and y: "convertCountries u {} ds = Inr ys" "xs = sort_key codeKey ys"
    using assms by (auto simp: nordapi_Countries_def split: prod.splits sum.splits if_splits)
  have k: "map Inr ys = map (convertCountry u) ds" "distinct (map codeKey ys)"
    using convertCountries_ok [OF y(1)] by (auto simp: codeKey_def distinct_map inj_on_def)
  have "mset (map Inr xs) = mset (map (convertCountry u) ds)" unfolding y(2) using arg_cong [OF k(1), of mset] by simp
  moreover have "country_ok x" if x: "x \<in> set xs" for x
  proof -
    have "Inr x \<in> set (map (convertCountry u) ds)" unfolding k(1) [symmetric] using x y(2) by auto
    then show ?thesis using convertCountry_ok by fastforce
  qed
  moreover have "ys \<noteq> []" using k(1) g(2) by auto
  ultimately show ?thesis using g(1) strictly_sorted [OF k(2)] y(2) by (metis length_0_conv length_sort)
qed

section \<open>Servers\<close>

definition server_ok :: "text6 \<Rightarrow> server \<Rightarrow> bool" where
  "server_ok t s \<longleftrightarrow> 0 < svID s \<and> 0 \<le> svLoad s \<and> svLoad s \<le> 100 \<and> 0 < svCountryID s \<and> 0 < svCityID s \<and> publicIPv4 t (svStation s) \<noteq> None"

lemma ParseAddr_show4: "netip_ParseAddr t (addr_String t (IPv4 v)) = Some (IPv4 v)"
proof -
  obtain o1 o2 o3 o4 where o: "octets v = [o1, o2, o3, o4]" by (simp add: octets_def Let_def)
  have "show4 v = show_nat o1 @ CHR ''.'' # strings_Join ''.'' (map show_nat [o2, o3, o4])" by (simp add: show4_def o)
  moreover have "\<not> (x = CHR ''.'' \<or> x = CHR '':'' \<or> x = CHR ''%'')" if "x \<in> set (show_nat o1)" for x
    using show_nat_digits [OF that] by (auto simp: is_digit_def byte_of_def)
  ultimately have "find (\<lambda>ch. ch = CHR ''.'' \<or> ch = CHR '':'' \<or> ch = CHR ''%'') (show4 v) = Some (CHR ''.'')"
    by (simp only:) (rule find_append_first, auto)
  then show ?thesis by (simp add: addr_String_def netip_ParseAddr_def parseIPv4_show4)
qed

lemma publicIPv4_again: "publicIPv4 t s = Some a \<Longrightarrow> publicIPv4 t (addr_String t a) = Some a"
  by (cases a) (auto simp: publicIPv4_def ParseAddr_show4 split: option.splits if_splits)

lemma convertServer_ok: "convertServer u t d = Inr s \<Longrightarrow> server_ok t s"
  by (auto simp: convertServer_def server_ok_def publicIPv4_again split: if_splits option.splits list.splits)

lemma convertServers_ok: "convertServers u t ds = Inr ss \<Longrightarrow> s \<in> set ss \<Longrightarrow> server_ok t s"
  by (induction ds arbitrary: ss) (auto split: sum.splits dest: convertServer_ok)

lemma servers_ok: "nordapi_servers u t cd c ctx path q w = (Inr ss, w1) \<Longrightarrow> s \<in> set ss \<Longrightarrow> server_ok t s"
  by (auto simp: nordapi_servers_def split: prod.splits sum.splits if_splits dest: convertServers_ok)

lemma answers_ok:
  assumes "apiRecommendations (nordPublicAPI u t ccd scd c) ctx i k n w = (Inr ss, w1) \<or> apiServers (nordPublicAPI u t ccd scd c) ctx i n w = (Inr ss, w1)" "s \<in> set ss"
  shows "server_ok t s"
  using assms by (auto simp: nordPublicAPI_def nordapi_Recommendations_def nordapi_Servers_def dest: servers_ok split: sum.splits)

lemma Build_of_public:
  assumes "publicIPv4 t (svStation s) = Some a" "validWireGuardKey (svWireGuardPubKey s)"
  shows "if nordHostnamePattern (hostKey u (svHostname s))
    then \<exists>mf. connectplan_Build u t sha s = Inr mf \<and> mfIPv4 mf = addr_String t a \<and> mfHostname mf = ascii_string (hostKey u (svHostname s))
    else connectplan_Build u t sha s = Inl (Err ''server hostname is outside the Nord domain'')"
  using assms by (auto simp: connectplan_Build_def publicIPv4_def validWireGuardKey_def Let_def split: option.splits if_splits)

text \<open>A server chosen from an answer of the service lies in the wanted country and is
  online, and the plan of a connection to it can be built exactly when its host name is in Nord's domain; the plan
  then names a public IPv4 address, which reads back as the one the service sent.\<close>

lemma selected_server_plannable:
  assumes "apiRecommendations (nordPublicAPI u t ccd scd c) ctx i k n w = (Inr ss, w1) \<or> apiServers (nordPublicAPI u t ccd scd c) ctx i n w = (Inr ss, w1)"
    and "Select u ss cn cityID exact = Inr s"
  shows "s \<in> set ss \<and> svCountryID s = cnID cn \<and> strings_EqualFold u (svStatus s) ''online'' \<and>
    (\<exists>a. publicIPv4 t (svStation s) = Some a \<and>
      (if nordHostnamePattern (hostKey u (svHostname s))
       then \<exists>mf. connectplan_Build u t sha s = Inr mf \<and> mfIPv4 mf = addr_String t a \<and> publicIPv4 t (mfIPv4 mf) = Some a
       else connectplan_Build u t sha s = Inl (Err ''server hostname is outside the Nord domain'')))"
proof -
  have e: "s \<in> set ss" "eligible u cn cityID (normalizeServer u exact) s" using select_eligible [OF assms(2)] by auto
  then have k: "validWireGuardKey (svWireGuardPubKey s)" "svCountryID s = cnID cn" "strings_EqualFold u (svStatus s) ''online''" by (auto simp: eligible_def)
  obtain a where a: "publicIPv4 t (svStation s) = Some a" using answers_ok [OF assms(1) e(1)] by (auto simp: server_ok_def)
  show ?thesis using e(1) k a Build_of_public [OF a k(1), of u sha] publicIPv4_again [OF a] by (auto split: if_splits)
qed

section \<open>A client that is answered\<close>

definition okHTTP :: "'w httpDo" where
  "okHTTP ctx rq w = (Inr \<lparr>hrStatus = 200, hrContentType = ''Application/json'', hrBody = [0x7b, 0x7d], hrReadErr = None\<rparr>, w)"

definition sampleClient :: "'w apiClient" where
  "sampleClient = \<lparr>acBase = \<lparr>uScheme = ''https'', uUser = None, uHost = ''api.nordvpn.com'', uPath = ''/v1'', uRawQuery = [], uFragment = []\<rparr>,
     acHTTP = okHTTP\<rparr>"

definition sampleCountryDTOs :: "countryDTO list" where
  "sampleCountryDTOs = [\<lparr>coID = 2, coName = ''Norway'', coCode = ''no'', coCities = []\<rparr>,
     \<lparr>coID = 1, coName = '' Japan'', coCode = ''JP'', coCities = [\<lparr>cdID = 5, cdName = ''Tokyo'', cdDNSName = ''TOKYO''\<rparr>]\<rparr>]"

definition sampleCountries :: "country list" where
  "sampleCountries = [\<lparr>cnID = 1, cnName = ''Japan'', cnCode = ''JP'', cnCities = [\<lparr>ctID = 5, ctName = ''Tokyo'', ctSlug = ''tokyo''\<rparr>]\<rparr>,
     \<lparr>cnID = 2, cnName = ''Norway'', cnCode = ''NO'', cnCities = []\<rparr>]"

lemmas text_simps = unicode_TrimSpace_def unicode_ToLower_def unicode_ToUpper_def trim_pieces_def runes_def decodeRune_def encodeRune_def
  byte_of_def asciiTables_def Let_def char_of_eq_iff

lemma sample_getJSON: "getJSON asciiTables sampleClient (oneCodec x) ctx path q w = (Inr x, w)"
  by (simp add: getJSON_def sampleClient_def okHTTP_def text_simps strings_HasPrefix_def decodeBody_def apiMaxBody_def oneCodec_def)

lemma sample_convert: "convertCountries asciiTables {} sampleCountryDTOs = Inr (rev sampleCountries)"
  by (simp add: sampleCountryDTOs_def sampleCountries_def convertCountry_def convertCity_def trimLower_def trimUpper_def text_simps)

lemma sample_Countries: "nordapi_Countries asciiTables (oneCodec sampleCountryDTOs) sampleClient ctx w = (Inr sampleCountries, w)"
  unfolding nordapi_Countries_def sample_getJSON using sample_convert
  by (simp add: sampleCountryDTOs_def sampleCountries_def codeKey_def bytes_of_def byte_of_def)

theorem countries_normalised_witness:
  "sorted_wrt (\<lambda>a b. codeKey a < codeKey b) sampleCountries \<and> (\<forall>x\<in>set sampleCountries. country_ok x) \<and> length sampleCountries = 2"
  using countries_normalised [OF sample_Countries [of CallerCtx "()"]] by (auto simp: sampleCountries_def)

text \<open>The key is 32 zero bytes.\<close>

definition zeroKeyText :: string where
  "zeroKeyText = replicate 43 CHR ''A'' @ ''=''"

lemma zeroKey_valid: "validWireGuardKey zeroKeyText"
  by code_simp

definition sampleServerDTO :: serverDTO where
  "sampleServerDTO = \<lparr>sdID = 7, sdName = ''Japan 1'', sdHostname = ''jp1.nordvpn.com'', sdStation = ''192.0.2.1'', sdLoad = 12, sdStatus = ''online'',
     sdLocations = [\<lparr>loID = 1, loName = ''Japan'', loCode = ''JP'', loCity = \<lparr>cdID = 5, cdName = ''Tokyo'', cdDNSName = ''tokyo''\<rparr>\<rparr>],
     sdTechnologies = [\<lparr>teIdentifier = ''wireguard_udp'', teMetadata = [(''public_key'', zeroKeyText)]\<rparr>]\<rparr>"

definition sampleServer :: server where
  "sampleServer = \<lparr>svID = 7, svName = ''Japan 1'', svHostname = ''jp1.nordvpn.com'', svStation = ''192.0.2.1'', svLoad = 12, svStatus = ''online'',
     svCountryID = 1, svCountryName = ''Japan'', svCountryCode = ''JP'', svCityID = 5, svCityName = ''Tokyo'', svCitySlug = ''tokyo'',
     svWireGuardPubKey = zeroKeyText\<rparr>"

definition noText6 :: text6 where
  "noText6 = \<lparr>parseIPv6 = (\<lambda>_. None), showIPv6 = (\<lambda>_. [])\<rparr>"

definition samplePublicAPI :: "'w publicAPI" where
  "samplePublicAPI = nordPublicAPI asciiTables noText6 (oneCodec sampleCountryDTOs) (oneCodec [sampleServerDTO]) sampleClient"

lemma sampleStation_text: "addr_String noText6 (IPv4 0xC0000201) = ''192.0.2.1''"
  by (simp add: addr_String_def show4_def octets_def show_nat_def show_base.simps digit_char_def char_of_eq_iff)

lemma sampleStation: "publicIPv4 noText6 ''192.0.2.1'' = Some (IPv4 0xC0000201)"
  using ParseAddr_show4 [of noText6 "0xC0000201", unfolded sampleStation_text]
  by (simp add: publicIPv4_def addr_IsGlobalUnicast_def)

lemma zeroKey_trim: "unicode_TrimSpace asciiTables zeroKeyText = zeroKeyText"
  by code_simp

lemma sampleServer_convert: "convertServer asciiTables noText6 sampleServerDTO = Inr sampleServer"
proof -
  have t: "unicode_TrimSpace asciiTables ''192.0.2.1'' = ''192.0.2.1''" by (simp add: text_simps)
  show ?thesis by (simp add: convertServer_def sampleServerDTO_def sampleServer_def t sampleStation sampleStation_text publicKeyOf_def zeroKey_trim)
    (simp add: trimLower_def trimUpper_def text_simps)
qed

lemma sampleServer_eligible: "Select asciiTables [sampleServer] (hd sampleCountries) 5 [] = Inr sampleServer"
  by code_simp

lemma samplePublicAPI_Countries: "apiCountries samplePublicAPI ctx w = (Inr sampleCountries, w)"
  by (simp add: samplePublicAPI_def nordPublicAPI_def sample_Countries)

lemma sample_Recommendations: "apiRecommendations samplePublicAPI ctx 1 5 20 w = (Inr [sampleServer], w)"
  by (simp add: samplePublicAPI_def nordPublicAPI_def nordapi_Recommendations_def serverQuery_def nordapi_servers_def sample_getJSON sampleServer_convert)

lemma sampleServer_hostname: "nordHostnamePattern (hostKey asciiTables (svHostname sampleServer))"
  by code_simp

end
