(* ===== verification/Command_Service.thy ===== *)
theory Command_Service
  imports API_Properties Atomic_File
begin

text \<open>
  The cache of the country list, \<^verbatim>\<open>internal/cache/countries.go\<close>, and the service behind the read-only commands,
  \<^verbatim>\<open>internal/command/service.go\<close>: countries with their fallback, and recommendation. The world is the
  file system beside whatever the API acts on.
\<close>

declare split_paired_All [simp del] split_paired_Ex [simp del]

section \<open>The cache\<close>

record countriesFile =
  cfSchemaVersion :: int
  cfFetchedAt :: time
  cfCountries :: "country list"

record countriesCache =
  ccPath :: filePath
  ccTTL :: int
  ccCodec :: "countriesFile codec"

definition cacheSchemaVersion :: int where
  "cacheSchemaVersion = 1"

definition maxCacheBytes :: nat where
  "maxCacheBytes = 4 * 2 ^ 20"

text \<open>\<^verbatim>\<open>Time.Sub\<close> stays within the 64 bits of a duration.\<close>

definition time_Sub :: "time \<Rightarrow> time \<Rightarrow> int" where
  "time_Sub a b = max (- (2 ^ 63)) (min (2 ^ 63 - 1) (a - b))"

definition decodeCountries :: "countriesFile codec \<Rightarrow> byte list \<Rightarrow> gerror + countriesFile" where
  "decodeCountries cd d = (case json_Decode cd (take maxCacheBytes d) of
     None \<Rightarrow> Inl (Err ''decode countries cache'')
   | Some (x, False) \<Rightarrow> Inl (Err ''decode countries cache: trailing JSON value'')
   | Some (x, True) \<Rightarrow>
      (if cfSchemaVersion x \<noteq> cacheSchemaVersion \<or> time_IsZero (cfFetchedAt x) \<or> cfCountries x = []
       then Inl (Err ''countries cache has invalid metadata'') else Inr x))"

text \<open>\<^verbatim>\<open>os.Open\<close>; then the reads of the decoder, which fail on a directory, and the deferred close.\<close>

definition os_Open :: "filePath \<Rightarrow> fsWorld \<Rightarrow> (oserr + fsNode) \<times> fsWorld" where
  "os_Open p w = (case syscall w of
     (False, w1) \<Rightarrow> (Inl EIO, w1)
   | (True, w1) \<Rightarrow> (case fsFiles w1 p of None \<Rightarrow> Inl ENOENT | Some n \<Rightarrow> Inr n, w1))"

definition readCountries :: "countriesFile codec \<Rightarrow> fsNode \<Rightarrow> fsWorld \<Rightarrow> (gerror + countriesFile) \<times> fsWorld" where
  "readCountries cd n w = (case os_probe w of
     (Some e, w1) \<Rightarrow> (Inl (WrapErr ''decode countries cache'' (os_error e)), w1)
   | (None, w1) \<Rightarrow> (if nKind n = KDir then Inl (WrapErr ''decode countries cache'' (os_error EIO)) else decodeCountries cd (nData n), w1))"

text \<open>\<open>None\<close> is the zero result without an error: there is no cache.\<close>

definition cache_Read :: "countriesCache \<Rightarrow> time \<Rightarrow> fsWorld \<Rightarrow> (gerror + (countriesResult \<times> bool) option) \<times> fsWorld" where
  "cache_Read c now w = (case os_Open (ccPath c) w of
     (Inl ENOENT, w1) \<Rightarrow> (Inr None, w1)
   | (Inl e, w1) \<Rightarrow> (Inl (WrapErr ''open countries cache'' (os_error e)), w1)
   | (Inr n, w1) \<Rightarrow> (case readCountries (ccCodec c) n w1 of
       (r, w2) \<Rightarrow> (case r of
           Inl e \<Rightarrow> Inl e
         | Inr x \<Rightarrow> (let age = time_Sub now (cfFetchedAt x) in
             Inr (Some (\<lparr>crCountries = cfCountries x, crSource = SourceCache, crFetchedAt = cfFetchedAt x, crWarnings = []\<rparr>, 0 \<le> age \<and> age \<le> ccTTL c))),
         snd (os_probe w2))))"

definition cacheError :: "string \<Rightarrow> gerror \<Rightarrow> gerror" where
  "cacheError stage e = WrapErr (stage @ '' countries cache'') e"

definition cache_Write :: "countriesCache \<Rightarrow> countriesResult \<Rightarrow> fsWorld \<Rightarrow> gerror option \<times> fsWorld" where
  "cache_Write c res w =
     (if time_IsZero (crFetchedAt res) \<or> crCountries res = [] then (Some (Err ''refusing to cache empty countries result''), w)
      else (case os_MkdirAll (fst (ccPath c)) 0x1C0 w of
        (Some e, w1) \<Rightarrow> (Some (WrapErr ''create cache directory'' (os_error e)), w1)
      | (None, w1) \<Rightarrow>
         (let stored = \<lparr>cfSchemaVersion = cacheSchemaVersion, cfFetchedAt = crFetchedAt res, cfCountries = crCountries res\<rparr> in
          replaceFile cacheError ''.countries-'' ''.tmp'' (ccPath c) (map_option (\<lambda>d. d @ [10]) (json_Marshal (ccCodec c) stored)) w1)))"

section \<open>Countries\<close>

record 'v commandService =
  sxAPI :: "(fsWorld \<times> 'v) publicAPI"
  sxCache :: countriesCache
  sxNow :: "fsWorld \<times> 'v \<Rightarrow> time \<times> fsWorld \<times> 'v"
  sxTables :: unicode

definition staleWarning :: string where
  "staleWarning = ''public API unavailable; using stale countries cache''"

definition unreadableWarning :: string where
  "unreadableWarning = ''ignored unreadable countries cache''"

definition updateWarning :: string where
  "updateWarning = ''could not update countries cache''"

text \<open>What follows a failing and an answering API.\<close>

definition staleCountries :: "gerror \<Rightarrow> gerror + (countriesResult \<times> bool) option \<Rightarrow> gerror + countriesResult" where
  "staleCountries apiErr cached = (case cached of
     Inr (Some (res, fresh)) \<Rightarrow>
       (if crCountries res \<noteq> [] then Inr (res\<lparr>crSource := SourceStaleCache, crWarnings := crWarnings res @ [staleWarning]\<rparr>)
        else Inl (WrapErr ''fetch countries'' apiErr))
   | _ \<Rightarrow> Inl (WrapErr ''fetch countries'' apiErr))"

definition storeCountries :: "'v commandService \<Rightarrow> time \<Rightarrow> bool \<Rightarrow> country list \<Rightarrow> fsWorld \<times> 'v \<Rightarrow> countriesResult \<times> fsWorld \<times> 'v" where
  "storeCountries s now unreadable cs w =
     (let res = \<lparr>crCountries = cs, crSource = SourceNetwork, crFetchedAt = now, crWarnings = (if unreadable then [unreadableWarning] else [])\<rparr> in
      case onFiles (cache_Write (sxCache s) res) w of
        (Some e, w1) \<Rightarrow> (res\<lparr>crWarnings := crWarnings res @ [updateWarning]\<rparr>, w1)
      | (None, w1) \<Rightarrow> (res, w1))"

definition command_Countries :: "'v commandService \<Rightarrow> ctx \<Rightarrow> bool \<Rightarrow> fsWorld \<times> 'v \<Rightarrow> (gerror + countriesResult) \<times> fsWorld \<times> 'v" where
  "command_Countries s ctx refresh w =
     (let (now, w0) = sxNow s w; (cached, w1) = onFiles (cache_Read (sxCache s) now) w0 in
      case (refresh, cached) of
        (False, Inr (Some (res, True))) \<Rightarrow> (Inr res, w1)
      | _ \<Rightarrow> (case apiCountries (sxAPI s) ctx w1 of
          (Inl apiErr, w2) \<Rightarrow> (staleCountries apiErr cached, w2)
        | (Inr cs, w2) \<Rightarrow> (case storeCountries s now (case cached of Inl _ \<Rightarrow> True | Inr _ \<Rightarrow> False) cs w2 of (res, w3) \<Rightarrow> (Inr res, w3))))"

section \<open>Recommendation\<close>

definition recommendationLimit :: int where
  "recommendationLimit = 20"

definition exactServerLimit :: int where
  "exactServerLimit = 1000"

record recommendationResult =
  rcQuery :: query
  rcCountry :: country
  rcServer :: server
  rcSource :: catalogSource
  rcFetched :: time
  rcWarning :: "string list"

definition cityIDOf :: "unicode \<Rightarrow> country \<Rightarrow> string \<Rightarrow> gerror + int" where
  "cityIDOf u cn name = (if name = [] then Inr 0 else (case ResolveCity u cn name of Inl e \<Rightarrow> Inl e | Inr x \<Rightarrow> Inr (ctID x)))"

definition candidateServers :: "'v commandService \<Rightarrow> ctx \<Rightarrow> query \<Rightarrow> country \<Rightarrow> int \<Rightarrow> fsWorld \<times> 'v \<Rightarrow> (gerror + server list) \<times> fsWorld \<times> 'v" where
  "candidateServers s ctx q cn cityID w =
     (if qServer q = [] then apiRecommendations (sxAPI s) ctx (cnID cn) cityID recommendationLimit w
      else apiServers (sxAPI s) ctx (cnID cn) exactServerLimit w)"

definition command_Recommend :: "'v commandService \<Rightarrow> ctx \<Rightarrow> query \<Rightarrow> fsWorld \<times> 'v \<Rightarrow> (gerror + recommendationResult) \<times> fsWorld \<times> 'v" where
  "command_Recommend s ctx q w = (case command_Countries s ctx False w of
     (Inl e, w1) \<Rightarrow> (Inl e, w1)
   | (Inr cs, w1) \<Rightarrow> (case ResolveCountry (sxTables s) (crCountries cs) (qCountry q) of
       Inl e \<Rightarrow> (Inl e, w1)
     | Inr cn \<Rightarrow> (case cityIDOf (sxTables s) cn (qCity q) of
         Inl e \<Rightarrow> (Inl e, w1)
       | Inr cityID \<Rightarrow> (case candidateServers s ctx q cn cityID w1 of
           (Inl e, w2) \<Rightarrow> (Inl (if errors_Is e ErrNoMatch then e else WrapErr ''fetch server recommendations'' e), w2)
         | (Inr servers, w2) \<Rightarrow> (case Select (sxTables s) servers cn cityID (qServer q) of
             Inl e \<Rightarrow> (Inl e, w2)
           | Inr sv \<Rightarrow> (Inr \<lparr>rcQuery = q, rcCountry = cn, rcServer = sv, rcSource = crSource cs, rcFetched = crFetchedAt cs, rcWarning = crWarnings cs\<rparr>, w2))))))"

definition RecommendConnection :: "'v commandService \<Rightarrow> ctx \<Rightarrow> query \<Rightarrow> fsWorld \<times> 'v \<Rightarrow> (gerror + server) \<times> fsWorld \<times> 'v" where
  "RecommendConnection s ctx q w = (case command_Recommend s ctx q w of
     (Inl e, w1) \<Rightarrow> (Inl e, w1) | (Inr res, w1) \<Rightarrow> (Inr (rcServer res), w1))"

end
