(* ===== verification/Service_Properties.thy ===== *)
theory Service_Properties
  imports Command_Service
begin

text \<open>
  What the read-only service guarantees: where a country list comes from and what that says about it, that a stored
  list is served again without the network, and that a recommendation answers the question and can be planned.
\<close>

declare split_paired_All [simp del] split_paired_Ex [simp del]

section \<open>The cache as a value\<close>

text \<open>\<open>None\<close>: there is no file; \<open>Some None\<close>: it cannot be used.\<close>

definition cached :: "countriesCache \<Rightarrow> fsWorld \<Rightarrow> countriesFile option option" where
  "cached c w = map_option (\<lambda>n. if nKind n = KDir then None else (case decodeCountries (ccCodec c) (nData n) of Inr x \<Rightarrow> Some x | Inl _ \<Rightarrow> None)) (fsFiles w (ccPath c))"

definition cachedResult :: "countriesFile \<Rightarrow> countriesResult" where
  "cachedResult f = \<lparr>crCountries = cfCountries f, crSource = SourceCache, crFetchedAt = cfFetchedAt f, crWarnings = []\<rparr>"

definition cacheFresh :: "countriesCache \<Rightarrow> time \<Rightarrow> countriesFile \<Rightarrow> bool" where
  "cacheFresh c now f \<longleftrightarrow> 0 \<le> time_Sub now (cfFetchedAt f) \<and> time_Sub now (cfFetchedAt f) \<le> ccTTL c"

definition cache_ok :: "countriesCache \<Rightarrow> bool" where
  "cache_ok c \<longleftrightarrow> (\<forall>s. snd (ccPath c) \<noteq> ''.countries-'' @ s)"

text \<open>The text of a value is read back, and within the limit the reader has and the writer has not.\<close>

definition cache_fits :: "countriesCache \<Rightarrow> countriesFile \<Rightarrow> bool" where
  "cache_fits c x \<longleftrightarrow> codec_line_ok (ccCodec c) x \<and> (\<forall>d. json_Marshal (ccCodec c) x = Some d \<longrightarrow> length d < maxCacheBytes)"

definition networkFile :: "countriesResult \<Rightarrow> countriesFile" where
  "networkFile res = \<lparr>cfSchemaVersion = cacheSchemaVersion, cfFetchedAt = crFetchedAt res, cfCountries = crCountries res\<rparr>"

lemma cached_cong: "fsFiles w1 (ccPath c) = fsFiles w (ccPath c) \<Longrightarrow> cached c w1 = cached c w"
  by (simp add: cached_def)

lemma cached_nonempty: "cached c w = Some (Some f) \<Longrightarrow> cfCountries f \<noteq> []"
  by (auto simp: cached_def decodeCountries_def split: option.splits sum.splits prod.splits bool.splits if_splits)

lemma probe_files_same: "fsFiles (snd (os_probe w)) = fsFiles w"
  using probe_files [of w] by (cases "os_probe w") auto

lemma readCountries_law:
  "readCountries cd n w = (r, w1) \<Longrightarrow> fsFiles w1 = fsFiles w \<and> (\<forall>f. r = Inr f \<longrightarrow> nKind n \<noteq> KDir \<and> decodeCountries cd (nData n) = Inr f)"
  by (auto simp: readCountries_def dest!: probe_files split: prod.splits option.splits if_splits)

lemma cache_Read_law:
  assumes "cache_Read c now w = (r, w1)"
  shows "fsFiles w1 = fsFiles w \<and> (r = Inr None \<longrightarrow> cached c w = None) \<and>
    (\<forall>res fresh. r = Inr (Some (res, fresh)) \<longrightarrow> (\<exists>f. cached c w = Some (Some f) \<and> res = cachedResult f \<and> fresh = cacheFresh c now f))"
proof -
  obtain ro wa where o: "os_Open (ccPath c) w = (ro, wa)" by (metis prod.exhaust)
  have fa: "fsFiles wa = fsFiles w" and ra: "ro = Inl ENOENT \<longrightarrow> fsFiles w (ccPath c) = None" "\<And>n. ro = Inr n \<Longrightarrow> fsFiles w (ccPath c) = Some n"
    using o by (auto simp: os_Open_def dest!: syscall_frameD split: prod.splits bool.splits option.splits)
  show ?thesis
  proof (cases ro)
    case (Inl e)
    then show ?thesis using assms o fa ra(1) by (cases e) (auto simp: cache_Read_def cached_def)
  next
    case (Inr n)
    obtain rd wb where rd: "readCountries (ccCodec c) n wa = (rd, wb)" by (metis prod.exhaust)
    have "w1 = snd (os_probe wb)" using assms o Inr rd by (auto simp: cache_Read_def)
    then have "fsFiles w1 = fsFiles w" using probe_files_same readCountries_law [OF rd] fa by metis
    moreover have "\<exists>f. cached c w = Some (Some f) \<and> res = cachedResult f \<and> fresh = cacheFresh c now f" if some: "r = Inr (Some (res, fresh))" for res fresh
    proof -
      have "r = (case rd of Inl e \<Rightarrow> Inl e | Inr x \<Rightarrow> Inr (Some (cachedResult x, cacheFresh c now x)))"
        using assms o Inr rd by (cases rd) (auto simp: cache_Read_def cachedResult_def cacheFresh_def Let_def)
      then obtain f where f: "rd = Inr f" "res = cachedResult f" "fresh = cacheFresh c now f" using some by (cases rd) auto
      then show ?thesis using readCountries_law [OF rd] ra(2) [OF Inr] by (auto simp: cached_def)
    qed
    moreover have "r \<noteq> Inr None" using assms o Inr rd by (auto simp: cache_Read_def Let_def split: sum.splits)
    ultimately show ?thesis by blast
  qed
qed

lemma cache_Write_law:
  assumes ok: "cache_ok c" and run: "cache_Write c res w = (e, w1)"
  shows "(e = None \<and> (cache_fits c (networkFile res) \<longrightarrow> cached c w1 = Some (Some (networkFile res)))) \<or> (e \<noteq> None \<and> cached c w1 = cached c w)"
proof (cases "time_IsZero (crFetchedAt res) \<or> crCountries res = []")
  case True
  then show ?thesis using run by (auto simp: cache_Write_def)
next
  case valid: False
  obtain em wa where mk: "os_MkdirAll (fst (ccPath c)) 0x1C0 w = (em, wa)" by (metis prod.exhaust)
  show ?thesis
  proof (cases em)
    case (Some x)
    then have "e \<noteq> None \<and> w1 = wa" using run valid mk by (auto simp: cache_Write_def)
    then show ?thesis using mkdir_files [OF mk] by (simp add: cached_def)
  next
    case None
    let ?od = "map_option (\<lambda>d. d @ [10]) (json_Marshal (ccCodec c) (networkFile res))"
    have r: "replaceFile cacheError ''.countries-'' ''.tmp'' (ccPath c) ?od wa = (e, w1)"
      using run valid mk None by (auto simp: cache_Write_def networkFile_def Let_def)
    have np: "(fst (ccPath c), ''.countries-'' @ s) \<noteq> ccPath c" for s using ok unfolding cache_ok_def by (metis snd_conv)
    from replaceFile_law [OF np r] show ?thesis
    proof (elim disjE conjE exE)
      fix n d assume w: "e = None" "?od = Some d" "fsFiles w1 (ccPath c) = Some n" "nKind n = KRegular" "nData n = d"
      then obtain t where t: "json_Marshal (ccCodec c) (networkFile res) = Some t" "d = t @ [10]" by auto
      have "cached c w1 = Some (Some (networkFile res))" if "cache_fits c (networkFile res)"
      proof -
        have "length d \<le> maxCacheBytes" "json_Decode (ccCodec c) d = Some (networkFile res, True)"
          using that t by (auto simp: cache_fits_def codec_line_ok_def Suc_le_eq)
        then show ?thesis using w valid by (auto simp: cached_def decodeCountries_def networkFile_def)
      qed
      then show ?thesis using w by blast
    next
      assume "e \<noteq> None" "fsFiles w1 (ccPath c) = fsFiles wa (ccPath c)"
      then show ?thesis using mkdir_files [OF mk] by (simp add: cached_def)
    qed
  qed
qed

section \<open>Where countries come from\<close>

lemma storeCountries_law:
  assumes "cache_ok (sxCache s)" "storeCountries s now b cs w = (res, w1)"
  shows "crCountries res = cs \<and> crSource res = SourceNetwork \<and> crFetchedAt res = now \<and> snd w1 = snd w \<and>
    (if updateWarning \<in> set (crWarnings res) then cached (sxCache s) (fst w1) = cached (sxCache s) (fst w)
     else cache_fits (sxCache s) (networkFile res) \<longrightarrow> cached (sxCache s) (fst w1) = Some (Some (networkFile res)))"
proof -
  let ?res = "\<lparr>crCountries = cs, crSource = SourceNetwork, crFetchedAt = now, crWarnings = (if b then [unreadableWarning] else [])\<rparr>"
  obtain e wa where c: "cache_Write (sxCache s) ?res (fst w) = (e, wa)" by (metis prod.exhaust)
  have n: "updateWarning \<notin> set (crWarnings ?res)" by (simp add: updateWarning_def unreadableWarning_def)
  have "res = (if e = None then ?res else ?res\<lparr>crWarnings := crWarnings ?res @ [updateWarning]\<rparr>)" "w1 = (wa, snd w)"
    using assms(2) c by (auto simp: storeCountries_def onFiles_def Let_def split: option.splits)
  then show ?thesis using n cache_Write_law [OF assms(1) c] by (cases e) (auto simp: networkFile_def)
qed

text \<open>The statement and its proof, for both properties that follow.\<close>

lemma countries_labelled:
  assumes ok: "cache_ok (sxCache s)" and now: "sxNow s w = (now, w0)" and run: "command_Countries s ctx refresh w = (r, w1)"
  shows "case r of
      Inr res \<Rightarrow> (case crSource res of
        SourceCache \<Rightarrow> \<not> refresh \<and> snd w1 = snd w0 \<and>
          (\<exists>f. cached (sxCache s) (fst w0) = Some (Some f) \<and> cacheFresh (sxCache s) now f \<and> res = cachedResult f)
      | SourceNetwork \<Rightarrow> crFetchedAt res = now \<and>
          (\<exists>wa wb. snd wa = snd w0 \<and> apiCountries (sxAPI s) ctx wa = (Inr (crCountries res), wb) \<and> snd w1 = snd wb \<and>
            (if updateWarning \<in> set (crWarnings res) then cached (sxCache s) (fst w1) = cached (sxCache s) (fst wb)
             else cache_fits (sxCache s) (networkFile res) \<longrightarrow> cached (sxCache s) (fst w1) = Some (Some (networkFile res))))
      | SourceStaleCache \<Rightarrow> staleWarning \<in> set (crWarnings res) \<and>
          (\<exists>f wa e. cached (sxCache s) (fst w0) = Some (Some f) \<and> crCountries res = cfCountries f \<and> crFetchedAt res = cfFetchedAt f \<and>
            snd wa = snd w0 \<and> apiCountries (sxAPI s) ctx wa = (Inl e, w1)))
    | Inl err \<Rightarrow> (\<exists>wa e. snd wa = snd w0 \<and> apiCountries (sxAPI s) ctx wa = (Inl e, w1) \<and> err = WrapErr ''fetch countries'' e)"
proof -
  obtain cr wa where c: "cache_Read (sxCache s) now (fst w0) = (cr, wa)" by (metis prod.exhaust)
  define w2 where "w2 = (wa, snd w0)"
  have o: "onFiles (cache_Read (sxCache s) now) w0 = (cr, w2)" using c by (simp add: onFiles_def w2_def)
  note L = cache_Read_law [OF c]
  have s2: "snd w2 = snd w0" by (simp add: w2_def)
  obtain ra w3 where a: "apiCountries (sxAPI s) ctx w2 = (ra, w3)" by (metis prod.exhaust)
  show ?thesis
  proof (cases "\<not> refresh \<and> (\<exists>res. cr = Inr (Some (res, True)))")
    case True
    then obtain res where h: "cr = Inr (Some (res, True))" "\<not> refresh" by blast
    then obtain f where f: "cached (sxCache s) (fst w0) = Some (Some f)" "res = cachedResult f" "cacheFresh (sxCache s) now f" using L by blast
    have "r = Inr res" "w1 = w2" using run now o h by (simp_all add: command_Countries_def)
    then show ?thesis using f h s2 by (simp add: cachedResult_def)
  next
    case False
    then have rest: "(r, w1) = (case (ra, w3) of (Inl apiErr, w2) \<Rightarrow> (staleCountries apiErr cr, w2)
        | (Inr cs, w2) \<Rightarrow> (case storeCountries s now (case cr of Inl _ \<Rightarrow> True | Inr _ \<Rightarrow> False) cs w2 of (res, w3) \<Rightarrow> (Inr res, w3)))"
      using run now o a by (auto simp: command_Countries_def split: bool.splits sum.splits option.splits)
    show ?thesis
    proof (cases ra)
      case (Inl e)
      then have r: "r = staleCountries e cr" "w1 = w3" using rest by simp_all
      show ?thesis
      proof (cases "\<exists>x. cr = Inr (Some x)")
        case True
        then obtain res fresh where x: "cr = Inr (Some (res, fresh))" by (metis prod.exhaust)
        then obtain f where f: "cached (sxCache s) (fst w0) = Some (Some f)" "res = cachedResult f" using L by blast
        have "crCountries res \<noteq> []" using cached_nonempty [OF f(1)] f(2) by (simp add: cachedResult_def)
        then have "r = Inr (res\<lparr>crSource := SourceStaleCache, crWarnings := crWarnings res @ [staleWarning]\<rparr>)" using r x by (simp add: staleCountries_def)
        then show ?thesis using f a Inl r(2) s2 by (auto simp: cachedResult_def)
      next
        case False
        then have "r = Inl (WrapErr ''fetch countries'' e)" using r by (auto simp: staleCountries_def split: sum.splits option.splits)
        then show ?thesis using a Inl r(2) s2 by auto
      qed
    next
      case (Inr cs)
      obtain res wb where st: "storeCountries s now (case cr of Inl _ \<Rightarrow> True | Inr _ \<Rightarrow> False) cs w3 = (res, wb)" by (metis prod.exhaust)
      have r: "r = Inr res" "w1 = wb" using rest Inr st by simp_all
      note stl = storeCountries_law [OF ok st]
      have E: "\<exists>wx wy. snd wx = snd w0 \<and> apiCountries (sxAPI s) ctx wx = (Inr (crCountries res), wy) \<and> snd wb = snd wy \<and>
          (if updateWarning \<in> set (crWarnings res) then cached (sxCache s) (fst wb) = cached (sxCache s) (fst wy)
           else cache_fits (sxCache s) (networkFile res) \<longrightarrow> cached (sxCache s) (fst wb) = Some (Some (networkFile res)))"
        by (rule exI [of _ w2], rule exI [of _ w3]) (use a Inr s2 stl in auto)
      have src: "crSource res = SourceNetwork" "crFetchedAt res = now" using stl by simp_all
      show ?thesis unfolding r sum.case src(1) catalogSource.case using E src(2) by blast
    qed
  qed
qed

text \<open>C29: the source a country list is labelled with is where it came from. A list from the cache is the stored one, no
  older than allowed, was not refused by a refresh, and cost no request; one from the network is the service's answer of
  this moment, and unless the result says otherwise it now is what the cache holds (if its text fits the reader's limit); a stale one is the stored
  list after the service had failed, and says so. Only when the service fails and there is no usable cache is there an error.\<close>

theorem countries_sources:
  assumes ok: "cache_ok (sxCache s)" and now: "sxNow s w = (now, w0)" and run: "command_Countries s ctx refresh w = (r, w1)"
  shows "case r of
      Inr res \<Rightarrow> (case crSource res of
        SourceCache \<Rightarrow> \<not> refresh \<and> snd w1 = snd w0 \<and>
          (\<exists>f. cached (sxCache s) (fst w0) = Some (Some f) \<and> cacheFresh (sxCache s) now f \<and> res = cachedResult f)
      | SourceNetwork \<Rightarrow> crFetchedAt res = now \<and>
          (\<exists>wa wb. snd wa = snd w0 \<and> apiCountries (sxAPI s) ctx wa = (Inr (crCountries res), wb) \<and> snd w1 = snd wb \<and>
            (if updateWarning \<in> set (crWarnings res) then cached (sxCache s) (fst w1) = cached (sxCache s) (fst wb)
             else cache_fits (sxCache s) (networkFile res) \<longrightarrow> cached (sxCache s) (fst w1) = Some (Some (networkFile res))))
      | SourceStaleCache \<Rightarrow> staleWarning \<in> set (crWarnings res) \<and>
          (\<exists>f wa e. cached (sxCache s) (fst w0) = Some (Some f) \<and> crCountries res = cfCountries f \<and> crFetchedAt res = cfFetchedAt f \<and>
            snd wa = snd w0 \<and> apiCountries (sxAPI s) ctx wa = (Inl e, w1)))
    | Inl err \<Rightarrow> (\<exists>wa e. snd wa = snd w0 \<and> apiCountries (sxAPI s) ctx wa = (Inl e, w1) \<and> err = WrapErr ''fetch countries'' e)"
  by (rule countries_labelled [OF assms])

text \<open>A list that was stored is served again from the cache, unchanged, while it is fresh: the next query at a later
  time makes no request and touches nothing.\<close>

theorem stored_countries_served:
  assumes ok: "cache_ok (sxCache s)" and run: "command_Countries s ctx refresh w = (Inr res, w1)"
    and net: "crSource res = SourceNetwork" "updateWarning \<notin> set (crWarnings res)" "cache_fits (sxCache s) (networkFile res)"
    and calm: "sxNow s w1 = (later, w1)" "fsOracle (fst w1) = []" "\<not> fsDead (fst w1)"
    and fresh: "0 \<le> time_Sub later (crFetchedAt res)" "time_Sub later (crFetchedAt res) \<le> ccTTL (sxCache s)"
  shows "command_Countries s ctx' False w1 = (Inr (res\<lparr>crSource := SourceCache, crWarnings := []\<rparr>), w1)"
proof -
  obtain now w0 where now: "sxNow s w = (now, w0)" by (metis prod.exhaust)
  have "cached (sxCache s) (fst w1) = Some (Some (networkFile res))"
    using countries_labelled [OF ok now run] net by auto
  then obtain n where n: "fsFiles (fst w1) (ccPath (sxCache s)) = Some n" "nKind n \<noteq> KDir"
      "decodeCountries (ccCodec (sxCache s)) (nData n) = Inr (networkFile res)"
    by (auto simp: cached_def split: if_splits sum.splits)
  have sc: "syscall (fst w1) = (True, fst w1)" using calm(2,3) by (simp add: syscall_def)
  have "cache_Read (sxCache s) later (fst w1) = (Inr (Some (cachedResult (networkFile res), True)), fst w1)"
    using n sc fresh by (simp add: cache_Read_def os_Open_def readCountries_def os_probe_def Let_def cachedResult_def networkFile_def)
  then show ?thesis using calm(1) by (simp add: command_Countries_def onFiles_def cachedResult_def networkFile_def)
qed

section \<open>Recommendations\<close>


section \<open>A first query\<close>

definition freshFS :: fsWorld where
  "freshFS = \<lparr>fsDirs = (\<lambda>_. None), fsFiles = (\<lambda>_. None), fsOracle = [], fsTemps = [''a'', ''b''], fsEuid = 501,
     fsDead = False, fsDone = (\<lambda>_. False), fsNextFd = 3, fsFlocks = (\<lambda>_. None), fsOnce = (\<lambda>_. None)\<rparr>"

definition sampleResult :: countriesResult where
  "sampleResult = \<lparr>crCountries = sampleCountries, crSource = SourceNetwork, crFetchedAt = 1000, crWarnings = []\<rparr>"

definition sampleSx :: "unit commandService" where
  "sampleSx = \<lparr>sxAPI = samplePublicAPI, sxCache = \<lparr>ccPath = (''/c/nordmac'', ''countries-v1.json''), ccTTL = 86400 * 10 ^ 9, ccCodec = oneCodec (networkFile sampleResult)\<rparr>,
     sxNow = (\<lambda>w. (1000, w)), sxTables = asciiTables\<rparr>"

lemma sampleSx_ok: "cache_ok (sxCache sampleSx)" "cache_fits (sxCache sampleSx) (networkFile sampleResult)"
  by (simp_all add: cache_ok_def cache_fits_def sampleSx_def oneCodec_ok) (simp add: oneCodec_def maxCacheBytes_def)

lemma sampleSx_store: "\<exists>f1. cache_Write (sxCache sampleSx) sampleResult freshFS = (None, f1) \<and> fsOracle f1 = [] \<and> \<not> fsDead f1"
  by (simp add: cache_Write_def sampleSx_def sampleResult_def sampleCountries_def time_IsZero_def freshFS_def os_MkdirAll_def syscall_def
      replaceFile_def os_CreateTempPattern_def fillFile_def file_Chmod_def file_Write_def os_probe_def os_Rename_def os_Remove_def
      modify_node_def oneCodec_def Let_def)

lemma sampleSx_run: "\<exists>f1. command_Countries sampleSx ctx False (freshFS, ()) = (Inr sampleResult, f1, ()) \<and> fsOracle f1 = [] \<and> \<not> fsDead f1"
proof -
  obtain f1 where f: "cache_Write (sxCache sampleSx) sampleResult freshFS = (None, f1)" "fsOracle f1 = []" "\<not> fsDead f1" using sampleSx_store by blast
  have r: "cache_Read (sxCache sampleSx) 1000 freshFS = (Inr None, freshFS)" by (simp add: cache_Read_def os_Open_def syscall_def freshFS_def)
  have "storeCountries sampleSx 1000 False sampleCountries (freshFS, ()) = (sampleResult, f1, ())"
    using f(1) by (simp add: storeCountries_def onFiles_def sampleResult_def)
  then show ?thesis using r f(2,3) by (simp add: command_Countries_def onFiles_def sampleSx_def [THEN arg_cong, of sxNow] sampleSx_def [THEN arg_cong, of sxAPI] samplePublicAPI_Countries)
qed

theorem countries_sources_witness:
  "\<exists>f1. command_Countries sampleSx CallerCtx False (freshFS, ()) = (Inr sampleResult, f1, ()) \<and>
     cached (sxCache sampleSx) f1 = Some (Some (networkFile sampleResult))"
proof -
  obtain f1 where f: "command_Countries sampleSx CallerCtx False (freshFS, ()) = (Inr sampleResult, f1, ())" using sampleSx_run by blast
  have n: "sxNow sampleSx (freshFS, ()) = (1000, freshFS, ())" by (simp add: sampleSx_def)
  have "cached (sxCache sampleSx) f1 = Some (Some (networkFile sampleResult))"
    using countries_sources [OF sampleSx_ok(1) n f] sampleSx_ok(2) by (auto simp: sampleResult_def)
  then show ?thesis using f by blast
qed

theorem stored_countries_served_witness:
  "\<exists>f1. command_Countries sampleSx CallerCtx False (freshFS, ()) = (Inr sampleResult, f1, ()) \<and>
     command_Countries sampleSx Background False (f1, ()) = (Inr (sampleResult\<lparr>crSource := SourceCache, crWarnings := []\<rparr>), f1, ())"
proof -
  obtain f1 where f: "command_Countries sampleSx CallerCtx False (freshFS, ()) = (Inr sampleResult, f1, ())"
    and c: "fsOracle (fst (f1, ())) = []" "\<not> fsDead (fst (f1, ()))" using sampleSx_run by (metis fst_conv)
  have n: "sxNow sampleSx (f1, ()) = (1000, f1, ())" by (simp add: sampleSx_def)
  have s: "crSource sampleResult = SourceNetwork" "updateWarning \<notin> set (crWarnings sampleResult)"
    "0 \<le> time_Sub 1000 (crFetchedAt sampleResult)" "time_Sub 1000 (crFetchedAt sampleResult) \<le> ccTTL (sxCache sampleSx)"
    by (simp_all add: sampleResult_def time_Sub_def sampleSx_def)
  show ?thesis using stored_countries_served [OF sampleSx_ok(1) f s(1,2) sampleSx_ok(2) n c s(3,4)] f by blast
qed

definition sampleQuery :: query where
  "sampleQuery = \<lparr>qCountry = ''JP'', qCity = ''Tokyo'', qServer = []\<rparr>"

lemma sampleQuery_places: "ResolveCountry asciiTables sampleCountries ''JP'' = Inr (hd sampleCountries)" "cityIDOf asciiTables (hd sampleCountries) ''Tokyo'' = Inr 5"
  by code_simp+


end
