(* ===== verification/Helper_Client.thy ===== *)
theory Helper_Client
  imports Helper_Daemon
begin

text \<open>
  The user's side of the helper boundary, \<^verbatim>\<open>internal/helperclient/client.go\<close>: a request goes to the socket of a
  running helper or starts one through \<^verbatim>\<open>sudo\<close>. What the operating system offers (dialling, processes and their pipes,
  the path of the executable) is a record of functions; a process's standard input is a writing end, and the reply
  is what comes back for the bytes written there.
\<close>

record 'w clientHost =
  chDial :: "ctx \<Rightarrow> string \<Rightarrow> 'w \<Rightarrow> (gerror + writer) \<times> 'w"
  chCloseWrite :: "'w \<Rightarrow> gerror option \<times> 'w"
  chAnswer :: "byte list \<Rightarrow> 'w \<Rightarrow> byte list \<times> 'w"
  chClose :: "'w \<Rightarrow> 'w"
  chExecutable :: "'w \<Rightarrow> (gerror + string) \<times> 'w"
  chEvalSymlinks :: "string \<Rightarrow> 'w \<Rightarrow> (gerror + string) \<times> 'w"
  chPipes :: "string list \<Rightarrow> 'w \<Rightarrow> gerror option \<times> 'w"
  chStart :: "string list \<Rightarrow> 'w \<Rightarrow> (gerror + writer) \<times> 'w"
  chReply :: "byte list \<Rightarrow> 'w \<Rightarrow> byte list \<times> 'w"
  chDone :: "ctx \<Rightarrow> 'w \<Rightarrow> gerror option \<times> 'w"
  chKill :: "'w \<Rightarrow> 'w"
  chWait :: "'w \<Rightarrow> gerror option \<times> 'w"
  chRelease :: "'w \<Rightarrow> gerror option \<times> 'w"
  chRequests :: "request codec"
  chResponses :: "response codec"

section \<open>The socket of a running helper\<close>

definition clientSocketPath :: "int \<Rightarrow> string" where
  "clientSocketPath uid = ''/var/run/nordmac/'' @ uidText uid @ ''.sock''"

definition client_socket :: "'w clientHost \<Rightarrow> ctx \<Rightarrow> request \<Rightarrow> 'w \<Rightarrow> (gerror + response) \<times> 'w" where
  "client_socket h ctx rq w = (case chDial h ctx (clientSocketPath (rqOwnerUID rq)) w of
     (Inl e, w1) \<Rightarrow> (Inl e, w1)
   | (Inr wr, w1) \<Rightarrow> (case EncodeFrame (chRequests h) rq None wr of
       (Some e, _) \<Rightarrow> (Inl e, chClose h w1)
     | (None, wr1) \<Rightarrow> (case chCloseWrite h w1 of
         (Some e, w2) \<Rightarrow> (Inl e, chClose h w2)
       | (None, w2) \<Rightarrow> (case chAnswer h (wOut wr1) w2 of
           (d, w3) \<Rightarrow> (DecodeResponse (chResponses h) d, chClose h w3)))))"

section \<open>Starting a helper\<close>

definition helperCommand :: "string \<Rightarrow> string list" where
  "helperCommand resolved = [''/usr/bin/sudo'', ''--'', resolved, ''__helper'']"

definition locateExecutable :: "'w clientHost \<Rightarrow> string \<Rightarrow> 'w \<Rightarrow> (gerror + string) \<times> 'w" where
  "locateExecutable h configured w = (case (if configured = [] then chExecutable h w else (Inr configured, w)) of
     (Inl e, w1) \<Rightarrow> (Inl (Err ''locate nordmac executable''), w1)
   | (Inr executable, w1) \<Rightarrow> (case chEvalSymlinks h executable w1 of
       (Inl e, w2) \<Rightarrow> (Inl (Err ''resolve nordmac executable''), w2)
     | (Inr resolved, w2) \<Rightarrow>
        (if \<not> filepath_IsAbs resolved then (Inl (Err ''resolve nordmac executable''), w2) else (Inr resolved, w2))))"

definition killAndWait :: "'w clientHost \<Rightarrow> 'w \<Rightarrow> 'w" where
  "killAndWait h w = snd (chWait h (chKill h w))"

text \<open>\<open>helperReplied\<close> follows the reply; only a connect that succeeded lets go of the process instead of waiting for it.\<close>

definition helperReplied :: "'w clientHost \<Rightarrow> request \<Rightarrow> response \<Rightarrow> 'w \<Rightarrow> (gerror + response) \<times> 'w" where
  "helperReplied h rq rs w =
     (if rqOperation rq = OperationConnect \<and> rsOK rs
      then (case chRelease h w of (Some e, w1) \<Rightarrow> (Inl e, w1) | (None, w1) \<Rightarrow> (Inr rs, w1))
      else (case chWait h w of (waitErr, w1) \<Rightarrow>
        (if \<not> rsOK rs then (Inl (Err ''privileged helper rejected request''), w1)
         else (case waitErr of Some e \<Rightarrow> (Inl e, w1) | None \<Rightarrow> (Inr rs, w1)))))"

definition client_bootstrap :: "'w clientHost \<Rightarrow> string \<Rightarrow> ctx \<Rightarrow> request \<Rightarrow> deviceSecrets option \<Rightarrow> 'w \<Rightarrow> (gerror + response) \<times> 'w" where
  "client_bootstrap h configured ctx rq secrets w = (case locateExecutable h configured w of
     (Inl e, w1) \<Rightarrow> (Inl e, w1)
   | (Inr resolved, w1) \<Rightarrow> (case chPipes h (helperCommand resolved) w1 of
       (Some e, w2) \<Rightarrow> (Inl e, w2)
     | (None, w2) \<Rightarrow> (case chStart h (helperCommand resolved) w2 of
         (Inl e, w3) \<Rightarrow> (Inl (WrapErr ''start privileged helper'' e), w3)
       | (Inr stdin, w3) \<Rightarrow> (case EncodeFrame (chRequests h) rq secrets stdin of
           (Some e, _) \<Rightarrow> (Inl e, killAndWait h w3)
         | (None, wr1) \<Rightarrow> (case chDone h ctx w3 of
             (Some e, w4) \<Rightarrow> (Inl e, killAndWait h w4)
           | (None, w4) \<Rightarrow> (case chReply h (wOut wr1) w4 of
               (d, w5) \<Rightarrow> (case DecodeResponse (chResponses h) d of
                  Inl e \<Rightarrow> (Inl e, killAndWait h w5)
                | Inr rs \<Rightarrow> helperReplied h rq rs w5)))))))"

text \<open>An answer with an error set and a response beside it is an error to every caller.\<close>

definition client_Exchange :: "'w clientHost \<Rightarrow> string \<Rightarrow> ctx \<Rightarrow> request \<Rightarrow> deviceSecrets option \<Rightarrow> 'w \<Rightarrow> (gerror + response) \<times> 'w" where
  "client_Exchange h configured ctx rq secrets w =
     (if rqOperation rq = OperationConnect then client_bootstrap h configured ctx rq secrets w
      else (case client_socket h ctx rq w of
        (Inr rs, w1) \<Rightarrow> (Inr rs, w1)
      | (Inl e, w1) \<Rightarrow>
         (if rqOperation rq = OperationStatus
          then (Inr \<lparr>rsSchemaVersion = SchemaVersion, rsRequestID = rqRequestID rq, rsOK = True, rsState = None, rsErrorCode = None\<rparr>, w1)
          else client_bootstrap h configured ctx rq secrets w1)))"

end
