(* ===== verification/Client_Properties.thy ===== *)
theory Client_Properties
  imports Helper_Client Daemon_Properties
begin

text \<open>
  What the user's side of the boundary guarantees: no helper process is left behind except the one that holds a tunnel, and
  across the socket, from the client's request to the daemon's rollback and back, the answer tells what was done.
\<close>

declare split_paired_All [simp del] split_paired_Ex [simp del]

section \<open>Processes\<close>

text \<open>\<open>running\<close> tells whether a process that was started and neither waited for nor released is there.\<close>

definition process_host :: "'w clientHost \<Rightarrow> ('w \<Rightarrow> bool) \<Rightarrow> bool" where
  "process_host h running \<longleftrightarrow>
     (\<forall>ctx p w. running (snd (chDial h ctx p w)) = running w) \<and> (\<forall>w. running (snd (chCloseWrite h w)) = running w) \<and>
     (\<forall>b w. running (snd (chAnswer h b w)) = running w) \<and> (\<forall>w. running (chClose h w) = running w) \<and>
     (\<forall>w. running (snd (chExecutable h w)) = running w) \<and> (\<forall>p w. running (snd (chEvalSymlinks h p w)) = running w) \<and>
     (\<forall>c w. running (snd (chPipes h c w)) = running w) \<and> (\<forall>c w e w1. chStart h c w = (Inl e, w1) \<longrightarrow> running w1 = running w) \<and>
     (\<forall>ctx w. running (snd (chDone h ctx w)) = running w) \<and> (\<forall>b w. running (snd (chReply h b w)) = running w) \<and>
     (\<forall>w. running (snd (chRelease h w)) = running w) \<and> (\<forall>w. \<not> running (snd (chWait h w)))"

lemma process_hostD:
  assumes "process_host h running"
  shows "chDial h ctx p w = (rd, w1) \<Longrightarrow> running w1 = running w" "chCloseWrite h w = (e, w1) \<Longrightarrow> running w1 = running w"
    "chAnswer h b w = (d, w1) \<Longrightarrow> running w1 = running w" "running (chClose h w) = running w"
    "chExecutable h w = (rx, w1) \<Longrightarrow> running w1 = running w" "chEvalSymlinks h p w = (rx, w1) \<Longrightarrow> running w1 = running w"
    "chPipes h c w = (e, w1) \<Longrightarrow> running w1 = running w" "chStart h c w = (Inl x, w1) \<Longrightarrow> running w1 = running w"
    "chWait h w = (e, w1) \<Longrightarrow> \<not> running w1" "\<not> running (killAndWait h w)"
  using assms unfolding process_host_def killAndWait_def by (metis snd_conv)+

text \<open>A connect to which a helper replied that the tunnel is up.\<close>

definition acknowledged :: "'w clientHost \<Rightarrow> request \<Rightarrow> bool" where
  "acknowledged h rq \<longleftrightarrow> rqOperation rq = OperationConnect \<and>
     (\<exists>b w d w1 rs. chReply h b w = (d, w1) \<and> DecodeResponse (chResponses h) d = Inr rs \<and> rsOK rs)"

lemma acknowledgedI:
  "chReply h b w = (d, w1) \<Longrightarrow> Inr rs = DecodeResponse (chResponses h) d \<Longrightarrow> rsOK rs \<Longrightarrow> rqOperation rq = OperationConnect \<Longrightarrow> acknowledged h rq"
  unfolding acknowledged_def by (metis (lifting))

lemma socket_processes:
  assumes "process_host h running" "client_socket h ctx rq w = (r, w1)"
  shows "running w1 = running w"
  using assms(2) process_hostD [OF assms(1)]
  by (auto simp: client_socket_def split: prod.splits sum.splits option.splits)

lemma locate_processes:
  assumes "process_host h running" "locateExecutable h cfg w = (r, w1)"
  shows "running w1 = running w"
  using assms(2) process_hostD [OF assms(1)]
  by (auto simp: locateExecutable_def split: prod.splits sum.splits if_splits)

lemma bootstrap_processes:
  assumes h: "process_host h running" and run: "client_bootstrap h cfg ctx rq secrets w = (r, w1)" and "running w1" "\<not> running w"
  shows "acknowledged h rq"
proof -
  obtain rl wa where l: "locateExecutable h cfg w = (rl, wa)" by (metis prod.exhaust)
  note ra = locate_processes [OF h l]
  obtain resolved where rl: "rl = Inr resolved" using run l assms(3,4) ra by (cases rl) (auto simp: client_bootstrap_def)
  obtain ep wb where p: "chPipes h (helperCommand resolved) wa = (ep, wb)" by (metis prod.exhaust)
  note rb = process_hostD(7) [OF h p]
  have ep: "ep = None" using run l rl p rb ra assms(3,4) by (cases ep) (auto simp: client_bootstrap_def)
  obtain rs wc where s: "chStart h (helperCommand resolved) wb = (rs, wc)" by (metis prod.exhaust)
  obtain stdin where rs: "rs = Inr stdin" using run l rl p ep s rb ra assms(3,4) process_hostD(8) [OF h] by (cases rs) (auto simp: client_bootstrap_def)
  show ?thesis using run l rl p ep s rs assms(3) process_hostD(9,10) [OF h]
    by (auto simp: client_bootstrap_def helperReplied_def intro: acknowledgedI acknowledgedI [OF _ sym] split: prod.splits sum.splits option.splits if_splits)
qed

text \<open>C20: no privileged process is left behind: when an exchange returns, a helper it started is still there only if the request
  was a connect and that helper acknowledged it; on every other path (a frame that cannot be written, an expired context, an
  unreadable or refusing reply) it has been waited for.\<close>

theorem no_orphan_helper:
  assumes "process_host h running" "\<not> running w" "client_Exchange h cfg ctx rq secrets w = (r, w1)" "running w1"
  shows "acknowledged h rq"
proof (cases "rqOperation rq = OperationConnect")
  case True
  then have "client_bootstrap h cfg ctx rq secrets w = (r, w1)" using assms(3) by (simp add: client_Exchange_def)
  then show ?thesis by (rule bootstrap_processes [OF assms(1) _ assms(4,2)])
next
  case False
  obtain rs wa where s: "client_socket h ctx rq w = (rs, wa)" by (metis prod.exhaust)
  have ra: "\<not> running wa" using socket_processes [OF assms(1) s] assms(2) by simp
  then have "client_bootstrap h cfg ctx rq secrets wa = (r, w1)"
    using assms(3,4) s False by (auto simp: client_Exchange_def split: sum.splits if_splits)
  then show ?thesis using bootstrap_processes [OF assms(1) _ assms(4) ra] by blast
qed

section \<open>Across the socket\<close>

text \<open>The kernel hands the client's bytes, and the user id of the client's process, to the daemon.\<close>

definition served_by :: "'w clientHost \<Rightarrow> 'w daemonHost \<Rightarrow> 'w controller \<Rightarrow> request \<Rightarrow> journal \<Rightarrow> int \<Rightarrow> bool" where
  "served_by ch dh c initial j uid \<longleftrightarrow> chRequests ch = dhRequests dh \<and> chResponses ch = dhResponses dh \<and>
     (\<forall>b w. chAnswer ch b w = (case daemon_handle dh c initial j \<lparr>hcPeer = Some uid, hcInput = b, hcWriter = freshWriter\<rparr> w of
        (stop, e, conn1, w1) \<Rightarrow> (wOut (hcWriter conn1), w1)))"

definition reply_ok :: "response codec \<Rightarrow> response \<Rightarrow> bool" where
  "reply_ok cd r \<longleftrightarrow> codec_ok cd r \<and> (\<forall>d. json_Marshal cd r = Some d \<longrightarrow> length d \<le> maxRequestBytes)"

lemma frame_received:
  assumes "codec_ok c rq" "rqOperation rq \<noteq> OperationConnect" "wOut w = []" "EncodeFrame c rq None w = (None, w1)"
  shows "DecodeFrame c (wOut w1) = Inr (rq, zeroSecrets)" "request_Validate rq = None"
proof -
  obtain d where d: "json_Marshal c rq = Some d" "request_Validate rq = None" "length d \<le> maxRequestBytes" "wOut w1 = PutUint32 (of_nat (length d)) @ d"
    using EncodeFrame_None [OF assms(4)] assms(2,3) by auto
  moreover have "0 < length d" "json_Decode c d = Some (rq, True)" using assms(1) d(1) by (auto simp: codec_ok_def)
  ultimately show "DecodeFrame c (wOut w1) = Inr (rq, zeroSecrets)" "request_Validate rq = None"
    using assms(2) by (auto simp: DecodeFrame_Inr)
qed

lemma reply_received:
  assumes "reply_ok c r" "response_Validate r = None"
  shows "\<exists>w1. EncodeResponse c r freshWriter = (None, w1) \<and> DecodeResponse c (wOut w1) = Inr r"
proof -
  obtain d where d: "json_Marshal c r = Some d" "length d \<le> maxRequestBytes" "0 < length d" "json_Decode c d = Some (r, True)"
    using assms(1) by (auto simp: reply_ok_def codec_ok_def)
  have "io_ReadFull (length d) d = Some (d, [])" by (simp add: io_ReadFull_def)
  then show ?thesis using d assms(2) frame_length_ok [OF d(3,2)] length_word_bound [OF d(2)]
    by (simp add: EncodeResponse_def writer_Write_def freshWriter_def DecodeResponse_def Let_def)
qed

lemma responseFor_valid:
  assumes "request_Validate rq = None" "validResponseState ph"
  shows "response_Validate (responseFor rq ok ph err) = None"
  using assms by (auto simp: request_Validate_def response_Validate_def responseFor_def reject_def split: if_splits option.splits)

text \<open>C21: the answer tells what was done. A disconnect sent by the owner over the socket reaches the helper as it was sent, the helper
  rolls the session back, and the response the client decodes is the one for that rollback: it says OK exactly when the
  rollback had no error, and otherwise carries the code of the error.\<close>

theorem socket_disconnect_truthful:
  assumes s: "served_by ch dh c initial j (rqOwnerUID initial)"
    and rq: "rqOperation rq = OperationDisconnect" "rqSessionID rq = rqSessionID initial" "rqOwnerUID rq = rqOwnerUID initial" "codec_ok (dhRequests dh) rq"
    and reply: "\<And>err. reply_ok (dhResponses dh) (responseFor rq (err = None) PhaseDisconnected err)"
    and dial: "chDial ch ctx (clientSocketPath (rqOwnerUID rq)) w = (Inr wr, wa)" "wOut wr = []"
      "EncodeFrame (chRequests ch) rq None wr = (None, wr1)" "chCloseWrite ch wa = (None, wb)"
  shows "\<exists>err wc. Disconnect c (WithTimeout 10 Background) (rqSessionID initial) (rqOwnerUID initial) wb = (err, wc) \<and>
    client_Exchange ch cfg ctx rq None w = (Inr (responseFor rq (err = None) PhaseDisconnected err), chClose ch wc)"
proof -
  have cd: "chRequests ch = dhRequests dh" "chResponses ch = dhResponses dh" using s by (simp_all add: served_by_def)
  have f: "DecodeFrame (dhRequests dh) (wOut wr1) = Inr (rq, zeroSecrets)" "request_Validate rq = None"
    using frame_received [OF rq(4) _ dial(2) dial(3) [unfolded cd]] rq(1) by simp_all
  obtain err wc where d: "Disconnect c (WithTimeout 10 Background) (rqSessionID initial) (rqOwnerUID initial) wb = (err, wc)" by (metis prod.exhaust)
  let ?rs = "responseFor rq (err = None) PhaseDisconnected err"
  have "response_Validate ?rs = None" by (rule responseFor_valid [OF f(2)]) simp
  then obtain wr2 where e: "EncodeResponse (dhResponses dh) ?rs freshWriter = (None, wr2)" "DecodeResponse (dhResponses dh) (wOut wr2) = Inr ?rs"
    using reply_received [OF reply] by blast
  have "chAnswer ch (wOut wr1) wb = (wOut wr2, wc)"
    using s f(1) rq d e(1) by (simp add: served_by_def daemon_handle_def authorizePeer_def reject_def handleDisconnect_def replyTo_def)
  then have "client_socket ch ctx rq w = (Inr ?rs, chClose ch wc)" using dial e(2) cd by (simp add: client_socket_def)
  then show ?thesis using d rq(1) by (simp add: client_Exchange_def)
qed

section \<open>A client and a daemon\<close>

definition disconnectRequest :: request where
  "disconnectRequest = sampleRequest\<lparr>rqOperation := OperationDisconnect, rqSecretChannelVersion := 0, rqPlan := None\<rparr>"

definition disconnectReply :: "errorCode option \<Rightarrow> response" where
  "disconnectReply code = \<lparr>rsSchemaVersion = SchemaVersion, rsRequestID = rqRequestID disconnectRequest, rsOK = (code = None),
     rsState = Some PhaseDisconnected, rsErrorCode = code\<rparr>"

definition replyCodec :: "response codec" where
  "replyCodec = \<lparr>json_Marshal = (\<lambda>r. Some [case rsErrorCode r of None \<Rightarrow> 0 | Some ErrorConflict \<Rightarrow> 1 | Some ErrorRollback \<Rightarrow> 2 | _ \<Rightarrow> 3]),
     json_Decode = (\<lambda>d. if d = [0] then Some (disconnectReply None, True) else if d = [1] then Some (disconnectReply (Some ErrorConflict), True)
       else if d = [2] then Some (disconnectReply (Some ErrorRollback), True) else if d = [3] then Some (disconnectReply (Some ErrorInternal), True) else None)\<rparr>"

lemma replyCodec_ok: "reply_ok replyCodec (responseFor disconnectRequest (err = None) PhaseDisconnected err)"
  by (auto simp: reply_ok_def codec_ok_def replyCodec_def responseFor_def disconnectReply_def maxRequestBytes_def split: option.splits)

definition servingHost :: "(fsWorld \<times> time) daemonHost" where
  "servingHost = bareHost\<lparr>dhRequests := oneCodec disconnectRequest, dhResponses := replyCodec\<rparr>"

definition servingController :: "(fsWorld \<times> time) controller" where
  "servingController = connectController servingHost ''/d''"

definition socketClient :: "(fsWorld \<times> time) clientHost" where
  "socketClient = \<lparr>chDial = (\<lambda>ctx p w. (Inr freshWriter, w)), chCloseWrite = (\<lambda>w. (None, w)),
     chAnswer = (\<lambda>b w. case daemon_handle servingHost servingController disconnectRequest zeroJournal \<lparr>hcPeer = Some 501, hcInput = b, hcWriter = freshWriter\<rparr> w of
        (stop, e, conn1, w1) \<Rightarrow> (wOut (hcWriter conn1), w1)),
     chClose = (\<lambda>w. w), chExecutable = (\<lambda>w. (Inr ''/usr/local/bin/nordmac'', w)), chEvalSymlinks = (\<lambda>p w. (Inr p, w)), chPipes = (\<lambda>c w. (None, w)),
     chStart = (\<lambda>c w. (Inl (Err ''no sudo''), w)), chReply = (\<lambda>b w. ([], w)), chDone = (\<lambda>ctx w. (None, w)), chKill = (\<lambda>w. w),
     chWait = (\<lambda>w. (None, w)), chRelease = (\<lambda>w. (None, w)), chRequests = oneCodec disconnectRequest, chResponses = replyCodec\<rparr>"

lemma disconnectRequest_ids: "rqOwnerUID disconnectRequest = 501" "rqOperation disconnectRequest = OperationDisconnect" "request_Validate disconnectRequest = None"
  using sample_ids by (simp_all add: disconnectRequest_def sampleRequest_def request_Validate_def SchemaVersion_def sampleFull_def)

theorem socket_disconnect_truthful_witness:
  "\<exists>err wc. Disconnect servingController (WithTimeout 10 Background) (rqSessionID disconnectRequest) 501 (rootFiles, 0) = (err, wc) \<and>
     client_Exchange socketClient [] CallerCtx disconnectRequest None (rootFiles, 0) = (Inr (responseFor disconnectRequest (err = None) PhaseDisconnected err), wc)"
proof -
  have s: "served_by socketClient servingHost servingController disconnectRequest zeroJournal (rqOwnerUID disconnectRequest)"
    by (simp add: served_by_def socketClient_def servingHost_def disconnectRequest_ids)
  have c: "codec_ok (dhRequests servingHost) disconnectRequest" "reply_ok (dhResponses servingHost) (responseFor disconnectRequest (err = None) PhaseDisconnected err)" for err
    using replyCodec_ok [of err] by (simp_all add: servingHost_def oneCodec_ok)
  obtain wr1 where e: "EncodeFrame (chRequests socketClient) disconnectRequest None freshWriter = (None, wr1)"
    using disconnectRequest_ids by (simp add: EncodeFrame_def socketClient_def oneCodec_def maxRequestBytes_def writer_Write_def freshWriter_def)
  have d: "chDial socketClient CallerCtx p w = (Inr freshWriter, w)" "chCloseWrite socketClient w = (None, w)" "wOut freshWriter = []" "chClose socketClient w = w" for p w
    by (simp_all add: socketClient_def freshWriter_def)
  show ?thesis using socket_disconnect_truthful [OF s disconnectRequest_ids(2) refl refl c(1) c(2) d(1) d(3) e d(2), of "(rootFiles, 0)"]
    by (simp add: d(4) disconnectRequest_ids)
qed

definition startingClient :: "bool clientHost" where
  "startingClient = \<lparr>chDial = (\<lambda>ctx p w. (Inl (Err ''no socket''), w)), chCloseWrite = (\<lambda>w. (None, w)), chAnswer = (\<lambda>b w. ([], w)),
     chClose = (\<lambda>w. w), chExecutable = (\<lambda>w. (Inr ''/usr/local/bin/nordmac'', w)), chEvalSymlinks = (\<lambda>p w. (Inr p, w)), chPipes = (\<lambda>c w. (None, w)),
     chStart = (\<lambda>c w. (Inr freshWriter, True)), chReply = (\<lambda>b w. (PutUint32 2 @ [0x7b, 0x7d], w)), chDone = (\<lambda>ctx w. (None, w)), chKill = (\<lambda>w. w),
     chWait = (\<lambda>w. (None, False)), chRelease = (\<lambda>w. (None, w)), chRequests = oneCodec sampleRequest, chResponses = oneCodec sampleResponse\<rparr>"

lemma startingClient_host: "process_host startingClient (\<lambda>w. w)"
  by (simp add: process_host_def startingClient_def)

lemma sampleResponse_read: "DecodeResponse (oneCodec sampleResponse) (PutUint32 2 @ [0x7b, 0x7d]) = Inr sampleResponse"
proof -
  have v: "response_Validate sampleResponse = None" by (simp add: response_Validate_def sampleResponse_def SchemaVersion_def sample_ids)
  show ?thesis by (simp add: DecodeResponse_def v maxRequestBytes_def io_ReadFull_def) (simp add: oneCodec_def v)
qed

theorem no_orphan_helper_witness:
  "client_Exchange startingClient [] CallerCtx sampleRequest (Some sampleSecrets) False = (Inr sampleResponse, True) \<and> acknowledged startingClient sampleRequest"
proof -
  obtain wr1 where e: "EncodeFrame (oneCodec sampleRequest) sampleRequest (Some sampleSecrets) freshWriter = (None, wr1)"
    by (simp add: EncodeFrame_def sampleRequest_valid)
       (simp add: oneCodec_def maxRequestBytes_def writer_Write_def freshWriter_def sampleRequest_def WriteSecrets_def sampleSecrets_valid)
  have ok: "rqOperation sampleRequest = OperationConnect" "rsOK sampleResponse" by (simp_all add: sampleRequest_def sampleResponse_def)
  have r: "client_Exchange startingClient [] CallerCtx sampleRequest (Some sampleSecrets) False = (Inr sampleResponse, True)"
    using e ok sampleResponse_read
    by (simp add: client_Exchange_def client_bootstrap_def locateExecutable_def filepath_IsAbs_def startingClient_def helperReplied_def)
  show ?thesis using no_orphan_helper [OF startingClient_host _ r] r by simp
qed

end
