(* ===== verification/Command_Line.thy ===== *)
theory Command_Line
  imports Command_Service Connection Nord_Auth
begin

text \<open>
  The command line, \<^verbatim>\<open>internal/command/run.go\<close> with \<^verbatim>\<open>internal/output\<close> and \<^verbatim>\<open>internal/buildinfo\<close>: arguments, the calls each
  command makes, what it prints and the exit code. The two streams write text to the world. The JSON text of an
  envelope, the text of an error and \<^verbatim>\<open>strconv.Quote\<close> are arguments; errors of unformatted printing are ignored, as
  in the code.
\<close>

section \<open>Exit codes, results and streams\<close>

definition ExitOK :: int where "ExitOK = 0"
definition ExitUsage :: int where "ExitUsage = 2"
definition ExitNoMatch :: int where "ExitNoMatch = 4"
definition ExitNetwork :: int where "ExitNetwork = 5"
definition ExitPrivilege :: int where "ExitPrivilege = 6"
definition ExitAuth :: int where "ExitAuth = 7"
definition ExitBusy :: int where "ExitBusy = 8"

record 'w authentication =
  anLogin :: "ctx \<Rightarrow> byte list \<Rightarrow> 'w \<Rightarrow> int \<times> gerror option \<times> 'w"
  anCredentialStatus :: "ctx \<Rightarrow> 'w \<Rightarrow> authStatus option \<times> gerror option \<times> 'w"
  anLogoutLocal :: "ctx \<Rightarrow> 'w \<Rightarrow> logoutResult \<times> gerror option \<times> 'w"

record 'w connections =
  cxConnect :: "ctx \<Rightarrow> query \<Rightarrow> 'w \<Rightarrow> connResult \<times> gerror option \<times> 'w"
  cxDisconnect :: "ctx \<Rightarrow> 'w \<Rightarrow> connResult \<times> gerror option \<times> 'w"
  cxReconnect :: "ctx \<Rightarrow> bool \<Rightarrow> 'w \<Rightarrow> connResult \<times> gerror option \<times> 'w"
  cxStatus :: "ctx \<Rightarrow> 'w \<Rightarrow> connResult \<times> gerror option \<times> 'w"

text \<open>A backend may or may not implement the other two interfaces.\<close>

record 'w backend =
  bkCountries :: "ctx \<Rightarrow> bool \<Rightarrow> 'w \<Rightarrow> (gerror + countriesResult) \<times> 'w"
  bkRecommend :: "ctx \<Rightarrow> query \<Rightarrow> 'w \<Rightarrow> (gerror + recommendationResult) \<times> 'w"
  bkAuthentication :: "'w authentication option"
  bkConnection :: "'w connections option"

record buildInfo =
  biVersion :: string
  biCommit :: string
  biDate :: string
  biHelperSHA256 :: string

record connectionStatus =
  ksState :: string
  ksReason :: string
  ksSessionID :: string
  ksServer :: string
  ksCountry :: string
  ksCity :: string

record planResult =
  plQuery :: query
  plCountry :: country
  plServer :: server
  plManifest :: manifest
  plSource :: catalogSource
  plFetched :: time
  plWarning :: "string list"

datatype outputData = OutLogin int | OutStatus "authStatus option" connectionStatus | OutConnection connResult | OutLogout logoutResult |
  OutVersion buildInfo | OutCountries countriesResult | OutRecommendation recommendationResult | OutPlan planResult

datatype envelope = SuccessEnvelope outputData | ErrorEnvelope string string

record 'w cliHost =
  clOut :: "string \<Rightarrow> 'w \<Rightarrow> gerror option \<times> 'w"
  clErr :: "string \<Rightarrow> 'w \<Rightarrow> gerror option \<times> 'w"
  clJSON :: "envelope \<Rightarrow> string option"
  clErrorText :: "gerror \<Rightarrow> string"
  clQuote :: "string \<Rightarrow> string"
  clBuild :: buildInfo
  clReader :: "byteReader option"
  clFD :: int
  clTerminal :: "'w terminal"
  clTerm :: "'w terminal"
  clTables :: unicode
  clText6 :: text6
  clSHA256 :: "byte list \<Rightarrow> byte list"

definition newline :: string where
  "newline = [CHR 0x0A]"

definition printOut :: "'w cliHost \<Rightarrow> string \<Rightarrow> 'w \<Rightarrow> 'w" where
  "printOut h s w = snd (clOut h s w)"

definition printErr :: "'w cliHost \<Rightarrow> string \<Rightarrow> 'w \<Rightarrow> 'w" where
  "printErr h s w = snd (clErr h s w)"

text \<open>\<^verbatim>\<open>json.Encoder.Encode\<close> writes the text and a line feed at once.\<close>

definition output_encode :: "'w cliHost \<Rightarrow> envelope \<Rightarrow> 'w \<Rightarrow> gerror option \<times> 'w" where
  "output_encode h v w = (case clJSON h v of None \<Rightarrow> (Some (Err ''json''), w) | Some t \<Rightarrow> clOut h (t @ newline) w)"

definition emitJSON :: "'w cliHost \<Rightarrow> outputData \<Rightarrow> 'w \<Rightarrow> int \<times> 'w" where
  "emitJSON h d w = (case output_encode h (SuccessEnvelope d) w of
     (Some e, w1) \<Rightarrow> (ExitNetwork, printErr h (''nordmac: write output: '' @ clErrorText h e @ newline) w1)
   | (None, w1) \<Rightarrow> (ExitOK, w1))"

definition cli_fail :: "'w cliHost \<Rightarrow> bool \<Rightarrow> int \<Rightarrow> string \<Rightarrow> string \<Rightarrow> 'w \<Rightarrow> int \<times> 'w" where
  "cli_fail h jsonMode exit code message w =
     (if jsonMode then (case output_encode h (ErrorEnvelope code message) w of
        (Some e, w1) \<Rightarrow> (ExitNetwork, printErr h (''nordmac: write error output: '' @ clErrorText h e @ newline) w1)
      | (None, w1) \<Rightarrow> (exit, w1))
      else (exit, printErr h (''nordmac: '' @ message @ newline) w))"

definition hasJSON :: "string list \<Rightarrow> bool" where
  "hasJSON args = (''--json'' \<in> set args)"

definition cli_unavailable :: "'w cliHost \<Rightarrow> string \<Rightarrow> bool \<Rightarrow> 'w \<Rightarrow> int \<times> 'w" where
  "cli_unavailable h command jsonMode w =
     cli_fail h jsonMode ExitUsage ''unavailable'' (command @ '' is not implemented in Phase 1 and no system changes were made'') w"

section \<open>Arguments\<close>

datatype 'a parsed = Parsed 'a | ShowHelp | UsageError string

definition isHelp :: "string \<Rightarrow> bool" where
  "isHelp arg = (arg = ''--help'' \<or> arg = ''-h'')"

text \<open>The loop over the arguments of \<^verbatim>\<open>login\<close>, and of \<^verbatim>\<open>logout\<close>: one flag, at most once.\<close>

fun onceFlagArgs :: "(string \<Rightarrow> string) \<Rightarrow> string \<Rightarrow> string \<Rightarrow> bool \<Rightarrow> string list \<Rightarrow> bool parsed" where
  "onceFlagArgs q command flag seen [] = Parsed seen"
| "onceFlagArgs q command flag seen (arg # args) =
     (if arg = ''--json'' then onceFlagArgs q command flag seen args
      else if arg = flag then (if seen then UsageError (flag @ '' may be specified only once'') else onceFlagArgs q command flag True args)
      else if isHelp arg then ShowHelp
      else UsageError (''unknown '' @ command @ '' argument '' @ q arg))"

text \<open>The loops of \<^verbatim>\<open>reconnect\<close> and \<^verbatim>\<open>countries\<close>: one flag, any number of times.\<close>

fun flagArgs :: "(string \<Rightarrow> string) \<Rightarrow> string \<Rightarrow> string \<Rightarrow> bool \<Rightarrow> string list \<Rightarrow> bool parsed" where
  "flagArgs q command flag seen [] = Parsed seen"
| "flagArgs q command flag seen (arg # args) =
     (if arg = ''--json'' then flagArgs q command flag seen args
      else if arg = flag then flagArgs q command flag True args
      else if isHelp arg then ShowHelp
      else UsageError (''unknown '' @ command @ '' argument '' @ q arg))"

text \<open>The loops of \<^verbatim>\<open>status\<close> and \<^verbatim>\<open>disconnect\<close>: no flag of their own.\<close>

fun plainArgs :: "(string \<Rightarrow> string) \<Rightarrow> string \<Rightarrow> string list \<Rightarrow> unit parsed" where
  "plainArgs q command [] = Parsed ()"
| "plainArgs q command (arg # args) =
     (if arg = ''--json'' then plainArgs q command args
      else if isHelp arg then ShowHelp
      else UsageError (''unknown '' @ command @ '' argument '' @ q arg))"

definition cityFlag :: string where "cityFlag = ''--city''"
definition serverFlag :: string where "serverFlag = ''--server''"

definition afterPrefix :: "string \<Rightarrow> string \<Rightarrow> string" where
  "afterPrefix p s = drop (length p) s"

fun parseRecommend :: "(string \<Rightarrow> string) \<Rightarrow> query \<Rightarrow> string list \<Rightarrow> query parsed" where
  "parseRecommend q query [] = (if qCountry query = [] then UsageError ''country is required'' else Parsed query)"
| "parseRecommend q query (arg # args) =
     (if arg = ''--json'' then parseRecommend q query args
      else if isHelp arg then ShowHelp
      else if arg = cityFlag \<or> arg = serverFlag then
        (case args of
           [] \<Rightarrow> UsageError (arg @ '' requires a value'')
         | v # rest \<Rightarrow>
            (if strings_HasPrefix v ''-'' then UsageError (arg @ '' requires a value'')
             else if arg = cityFlag
             then (if qCity query \<noteq> [] then UsageError ''--city may be specified only once'' else parseRecommend q (query\<lparr>qCity := v\<rparr>) rest)
             else (if qServer query \<noteq> [] then UsageError ''--server may be specified only once'' else parseRecommend q (query\<lparr>qServer := v\<rparr>) rest)))
      else if strings_HasPrefix arg (cityFlag @ ''='') then
        (let v = afterPrefix (cityFlag @ ''='') arg in
         if qCity query \<noteq> [] \<or> v = [] then UsageError ''invalid or duplicate --city'' else parseRecommend q (query\<lparr>qCity := v\<rparr>) args)
      else if strings_HasPrefix arg (serverFlag @ ''='') then
        (let v = afterPrefix (serverFlag @ ''='') arg in
         if qServer query \<noteq> [] \<or> v = [] then UsageError ''invalid or duplicate --server'' else parseRecommend q (query\<lparr>qServer := v\<rparr>) args)
      else if strings_HasPrefix arg ''-'' then UsageError (''unknown recommend flag '' @ q arg)
      else if qCountry query \<noteq> [] then UsageError (''unexpected argument '' @ q arg)
      else parseRecommend q (query\<lparr>qCountry := arg\<rparr>) args)"

definition emptyQuery :: query where
  "emptyQuery = \<lparr>qCountry = [], qCity = [], qServer = []\<rparr>"

text \<open>What every command does with its arguments: help, a usage error, or the command itself.\<close>

definition withArgs :: "'w cliHost \<Rightarrow> bool \<Rightarrow> string \<Rightarrow> 'a parsed \<Rightarrow> ('a \<Rightarrow> 'w \<Rightarrow> int \<times> 'w) \<Rightarrow> 'w \<Rightarrow> int \<times> 'w" where
  "withArgs h jsonMode usage p run w = (case p of
     ShowHelp \<Rightarrow> (ExitOK, printOut h (''usage: nordmac '' @ usage @ newline) w)
   | UsageError m \<Rightarrow> cli_fail h jsonMode ExitUsage ''usage'' m w
   | Parsed a \<Rightarrow> run a w)"

section \<open>Classification of errors\<close>

definition failAuthentication :: "gerror \<Rightarrow> int \<times> string \<times> string" where
  "failAuthentication e =
     (if errors_Is e ErrUnauthorized then (ExitAuth, ''unauthorized'', ''Nord access token was rejected'')
      else if errors_Is e ErrForbidden then (ExitAuth, ''forbidden'', ''Nord account is not authorized for VPN credentials'')
      else if errors_Is e ErrRateLimited then (ExitNetwork, ''rate_limited'', ''Nord credential service rate limit reached'')
      else if errors_Is e ErrLoginLock \<or> errors_Is e ErrAuthLock then (ExitBusy, ''busy'', ''another credential transaction is active'')
      else if errors_Is e ErrLoginRollbackIncomplete \<or> errors_Is e ErrAuthRollbackIncomplete
        then (ExitNetwork, ''credential_recovery_required'', ''credential rollback was incomplete; inspect status before retrying'')
      else if errors_Is e ErrLoginTransaction \<or> errors_Is e ErrAuthTransaction
        then (ExitNetwork, ''credential_transaction'', ''credential transaction failed without exposing secret data'')
      else if errors_Is e ErrAuthRead then (ExitNetwork, ''credential_read'', ''could not inspect local credentials'')
      else (ExitNetwork, ''authentication'', ''authentication operation failed''))"

definition failConnection :: "gerror \<Rightarrow> int \<times> string \<times> string" where
  "failConnection e =
     (if errors_Is e ErrNotAuthenticated then (ExitAuth, ''not_authenticated'', ''run nordmac login before connecting'')
      else if errors_Is e ErrAlreadyConnected then (ExitBusy, ''already_connected'', ''disconnect the current nordmac session first'')
      else if errors_Is e ErrBusy then (ExitBusy, ''busy'', ''another nordmac credential or connection operation is active'')
      else if errors_Is e ErrHelper then (ExitPrivilege, ''helper'', ''privileged tunnel operation failed; run status and disconnect to recover'')
      else (ExitNetwork, ''connection'', ''connection operation failed''))"

definition cli_failWith :: "'w cliHost \<Rightarrow> bool \<Rightarrow> int \<times> string \<times> string \<Rightarrow> 'w \<Rightarrow> int \<times> 'w" where
  "cli_failWith h jsonMode f w = (case f of (exit, code, message) \<Rightarrow> cli_fail h jsonMode exit code message w)"

definition classify :: "gerror \<Rightarrow> int" where
  "classify e = (if errors_Is e ErrNoMatch \<or> errors_Is e ErrAmbiguous then ExitNoMatch
     else if errors_Is e ErrInvalid then ExitNetwork else ExitNetwork)"

definition cli_errorCode :: "gerror \<Rightarrow> string" where
  "cli_errorCode e = (if errors_Is e ErrNoMatch then ''no_match'' else if errors_Is e ErrAmbiguous then ''ambiguous''
     else if errors_Is e ErrInvalid then ''invalid_data'' else ''network'')"

definition failCatalog :: "'w cliHost \<Rightarrow> gerror \<Rightarrow> int \<times> string \<times> string" where
  "failCatalog h e = (classify e, cli_errorCode e, clErrorText h e)"

section \<open>Credential commands\<close>

definition show_int :: "int \<Rightarrow> string" where
  "show_int n = (if n < 0 then CHR ''-'' # show_nat (nat (- n)) else show_nat (nat n))"

definition readToken :: "'w cliHost \<Rightarrow> bool \<Rightarrow> 'w \<Rightarrow> (gerror + byte list) \<times> 'w" where
  "readToken h stdinMode w = (if stdinMode then (ReadStdin (clReader h), w) else ReadHidden (clTerm h) (clFD h) (Some (clErr h)) (clTerminal h) w)"

definition runLogin :: "'w cliHost \<Rightarrow> 'w backend \<Rightarrow> ctx \<Rightarrow> string list \<Rightarrow> 'w \<Rightarrow> int \<times> 'w" where
  "runLogin h b ctx args w = (let jsonMode = hasJSON args in
     withArgs h jsonMode ''login [--token-stdin] [--json]'' (onceFlagArgs (clQuote h) ''login'' ''--token-stdin'' False args)
       (\<lambda>stdinMode w. case bkAuthentication b of
          None \<Rightarrow> cli_unavailable h ''login'' jsonMode w
        | Some a \<Rightarrow> (case readToken h stdinMode w of
            (Inl e, w1) \<Rightarrow> cli_fail h jsonMode ExitUsage ''invalid_token_input'' (clErrorText h e) w1
          | (Inr token, w1) \<Rightarrow> (case anLogin a ctx token w1 of
              (account, Some e, w2) \<Rightarrow> cli_failWith h jsonMode (failAuthentication e) w2
            | (account, None, w2) \<Rightarrow>
               (if jsonMode then emitJSON h (OutLogin account) w2
                else (ExitOK, printOut h (''Nord credentials stored for account '' @ show_int account @ newline) w2))))) w)"

definition unavailableConnection :: connectionStatus where
  "unavailableConnection = \<lparr>ksState = ''unavailable'', ksReason = ''tunnel runtime is unavailable'', ksSessionID = [], ksServer = [], ksCountry = [], ksCity = []\<rparr>"

definition connectionState :: "'w backend \<Rightarrow> ctx \<Rightarrow> 'w \<Rightarrow> connectionStatus \<times> 'w" where
  "connectionState b ctx w = (case bkConnection b of
     None \<Rightarrow> (unavailableConnection, w)
   | Some c \<Rightarrow> (case cxStatus c ctx w of
       (r, Some e, w1) \<Rightarrow> (unavailableConnection\<lparr>ksState := ''degraded'', ksReason := ''connection state could not be inspected''\<rparr>, w1)
     | (r, None, w1) \<Rightarrow> (\<lparr>ksState = reState r, ksReason = [], ksSessionID = reSessionID r, ksServer = reServer r, ksCountry = reCountry r, ksCity = reCity r\<rparr>, w1)))"

fun authState_string :: "authState \<Rightarrow> string" where
  "authState_string LoggedOut = ''logged_out''"
| "authState_string LoggedIn = ''logged_in''"
| "authState_string Inconsistent = ''inconsistent''"

definition printStatus :: "'w cliHost \<Rightarrow> authStatus option \<Rightarrow> connectionStatus \<Rightarrow> 'w \<Rightarrow> int \<times> 'w" where
  "printStatus h st ks w =
     (let w1 = printOut h (''authentication: '' @ (case st of None \<Rightarrow> [] | Some s \<Rightarrow> authState_string (asState s)) @ newline @ ''connection: '' @ ksState ks @ newline) w
      in (ExitOK, if (case st of None \<Rightarrow> False | Some s \<Rightarrow> asRepairNeeded s)
            then printErr h (''nordmac: warning: local credentials are incomplete; run login again or logout --local-only'' @ newline) w1 else w1))"

definition runStatus :: "'w cliHost \<Rightarrow> 'w backend \<Rightarrow> ctx \<Rightarrow> string list \<Rightarrow> 'w \<Rightarrow> int \<times> 'w" where
  "runStatus h b ctx args w = (let jsonMode = hasJSON args in
     withArgs h jsonMode ''status [--json]'' (plainArgs (clQuote h) ''status'' args)
       (\<lambda>_ w. case bkAuthentication b of
          None \<Rightarrow> cli_unavailable h ''status'' jsonMode w
        | Some a \<Rightarrow> (case anCredentialStatus a ctx w of
            (st, Some e, w1) \<Rightarrow> cli_failWith h jsonMode (failAuthentication e) w1
          | (st, None, w1) \<Rightarrow> (case connectionState b ctx w1 of
              (ks, w2) \<Rightarrow> if jsonMode then emitJSON h (OutStatus st ks) w2 else printStatus h st ks w2))) w)"

definition runLogout :: "'w cliHost \<Rightarrow> 'w backend \<Rightarrow> ctx \<Rightarrow> string list \<Rightarrow> 'w \<Rightarrow> int \<times> 'w" where
  "runLogout h b ctx args w = (let jsonMode = hasJSON args in
     withArgs h jsonMode ''logout --local-only [--json]'' (onceFlagArgs (clQuote h) ''logout'' ''--local-only'' False args)
       (\<lambda>localOnly w. if \<not> localOnly then cli_fail h jsonMode ExitUsage ''local_only_required''
            (''remote token revocation is not implemented; use --local-only to delete only nordmac'' @ [CHR 0x27] @ ''s local credentials'') w
        else (case bkAuthentication b of
          None \<Rightarrow> cli_unavailable h ''logout'' jsonMode w
        | Some a \<Rightarrow> (case anLogoutLocal a ctx w of
            (r, Some e, w1) \<Rightarrow> cli_failWith h jsonMode (failAuthentication e) w1
          | (r, None, w1) \<Rightarrow>
             (if jsonMode then emitJSON h (OutLogout r) w1
              else (ExitOK, printOut h ((if lrLocalRemoved r then ''local nordmac credentials deleted; the Nord token was not remotely revoked''
                 else ''no local nordmac credentials were present; no remote request was made'') @ newline) w1))))) w)"

section \<open>Connection commands\<close>

definition writeConnectionResult :: "'w cliHost \<Rightarrow> bool \<Rightarrow> connResult \<Rightarrow> 'w \<Rightarrow> int \<times> 'w" where
  "writeConnectionResult h jsonMode r w =
     (if jsonMode then emitJSON h (OutConnection r) w
      else (ExitOK, printOut h ((if reServer r = [] then reState r
        else reState r @ '': '' @ reServer r @ '' ('' @ reCountry r @ '' / '' @ reCity r @ '')'') @ newline) w))"

definition connectionOutcome :: "'w cliHost \<Rightarrow> bool \<Rightarrow> connResult \<times> gerror option \<times> 'w \<Rightarrow> int \<times> 'w" where
  "connectionOutcome h jsonMode x = (case x of
     (r, Some e, w) \<Rightarrow> cli_failWith h jsonMode (failConnection e) w
   | (r, None, w) \<Rightarrow> writeConnectionResult h jsonMode r w)"

definition runConnect :: "'w cliHost \<Rightarrow> 'w backend \<Rightarrow> ctx \<Rightarrow> string list \<Rightarrow> 'w \<Rightarrow> int \<times> 'w" where
  "runConnect h b ctx args w = (let jsonMode = hasJSON args in
     withArgs h jsonMode ''connect <country> [--city <city>] [--server <server>] [--json]'' (parseRecommend (clQuote h) emptyQuery args)
       (\<lambda>query w. case bkConnection b of
          None \<Rightarrow> cli_unavailable h ''connect'' jsonMode w
        | Some c \<Rightarrow> connectionOutcome h jsonMode (cxConnect c ctx query w)) w)"

definition runDisconnect :: "'w cliHost \<Rightarrow> 'w backend \<Rightarrow> ctx \<Rightarrow> string list \<Rightarrow> 'w \<Rightarrow> int \<times> 'w" where
  "runDisconnect h b ctx args w = (let jsonMode = hasJSON args in
     withArgs h jsonMode ''disconnect [--json]'' (plainArgs (clQuote h) ''disconnect'' args)
       (\<lambda>_ w. case bkConnection b of
          None \<Rightarrow> cli_unavailable h ''disconnect'' jsonMode w
        | Some c \<Rightarrow> connectionOutcome h jsonMode (cxDisconnect c ctx w)) w)"

definition runReconnect :: "'w cliHost \<Rightarrow> 'w backend \<Rightarrow> ctx \<Rightarrow> string list \<Rightarrow> 'w \<Rightarrow> int \<times> 'w" where
  "runReconnect h b ctx args w = (let jsonMode = hasJSON args in
     withArgs h jsonMode ''reconnect --fresh [--json]'' (flagArgs (clQuote h) ''reconnect'' ''--fresh'' False args)
       (\<lambda>fresh w. if \<not> fresh then cli_fail h jsonMode ExitUsage ''fresh_required'' ''reconnect requires --fresh'' w
        else (case bkConnection b of
          None \<Rightarrow> cli_unavailable h ''reconnect'' jsonMode w
        | Some c \<Rightarrow> connectionOutcome h jsonMode (cxReconnect c ctx True w))) w)"

section \<open>Catalog commands\<close>

definition printWarnings :: "'w cliHost \<Rightarrow> string list \<Rightarrow> 'w \<Rightarrow> 'w" where
  "printWarnings h ws w = fold (\<lambda>m. printErr h (''nordmac: warning: '' @ m @ newline)) ws w"

text \<open>\<^verbatim>\<open>%-20s\<close> pads with spaces to twenty runes.\<close>

definition pad20 :: "string \<Rightarrow> string" where
  "pad20 s = s @ replicate (20 - length (runes s)) CHR '' ''"

definition printCountry :: "'w cliHost \<Rightarrow> country \<Rightarrow> 'w \<Rightarrow> 'w" where
  "printCountry h c w = fold (\<lambda>x. printOut h (''    '' @ pad20 (ctSlug x) @ '' '' @ ctName x @ newline)) (cnCities c)
     (printOut h (cnCode c @ ''  '' @ cnName c @ newline) w)"

definition runCountries :: "'w cliHost \<Rightarrow> 'w backend \<Rightarrow> ctx \<Rightarrow> string list \<Rightarrow> 'w \<Rightarrow> int \<times> 'w" where
  "runCountries h b ctx args w = (let jsonMode = hasJSON args in
     withArgs h jsonMode ''countries [--json] [--refresh]'' (flagArgs (clQuote h) ''countries'' ''--refresh'' False args)
       (\<lambda>refresh w. case bkCountries b ctx refresh w of
          (Inl e, w1) \<Rightarrow> cli_failWith h jsonMode (failCatalog h e) w1
        | (Inr r, w1) \<Rightarrow>
           (if jsonMode then emitJSON h (OutCountries r) w1
            else (ExitOK, fold (printCountry h) (crCountries r) (printWarnings h (crWarnings r) w1)))) w)"

definition runRecommend :: "'w cliHost \<Rightarrow> 'w backend \<Rightarrow> ctx \<Rightarrow> string list \<Rightarrow> 'w \<Rightarrow> int \<times> 'w" where
  "runRecommend h b ctx args w = (let jsonMode = hasJSON args in
     withArgs h jsonMode ''recommend <country> [--city <city>] [--server <server>] [--json]'' (parseRecommend (clQuote h) emptyQuery args)
       (\<lambda>query w. case bkRecommend b ctx query w of
          (Inl e, w1) \<Rightarrow> cli_failWith h jsonMode (failCatalog h e) w1
        | (Inr r, w1) \<Rightarrow>
           (if jsonMode then emitJSON h (OutRecommendation r) w1
            else (ExitOK, let sv = rcServer r in printOut h (svHostname sv @ ''  '' @ svCountryName sv @ '' / '' @ svCityName sv @
              ''  load '' @ show_int (svLoad sv) @ ''%'' @ newline) (printWarnings h (rcWarning r) w1)))) w)"

definition planOf :: "query \<Rightarrow> recommendationResult \<Rightarrow> manifest \<Rightarrow> planResult" where
  "planOf q r m = \<lparr>plQuery = q, plCountry = rcCountry r, plServer = rcServer r, plManifest = m, plSource = rcSource r, plFetched = rcFetched r, plWarning = rcWarning r\<rparr>"

text \<open>The dash in the first line is three bytes of UTF-8.\<close>

definition printPlan :: "'w cliHost \<Rightarrow> planResult \<Rightarrow> 'w \<Rightarrow> 'w" where
  "printPlan h p w = fold (\<lambda>m. printOut h (''  blocked: '' @ m @ newline)) (mfBlockers (plManifest p))
     (printOut h (''candidate only '' @ [CHR 0xE2, CHR 0x80, CHR 0x94] @ '' live test blocked'' @ newline @
        svHostname (plServer p) @ '' ('' @ mfIPv4 (plManifest p) @ '':'' @ show_nat (unat (mfPort (plManifest p))) @ '')'' @ newline)
       (printWarnings h (plWarning p) w))"

definition runPlan :: "'w cliHost \<Rightarrow> 'w backend \<Rightarrow> ctx \<Rightarrow> string list \<Rightarrow> 'w \<Rightarrow> int \<times> 'w" where
  "runPlan h b ctx args w = (let jsonMode = hasJSON args in
     withArgs h jsonMode ''plan <country> [--city <city>] [--server <server>] [--json]'' (parseRecommend (clQuote h) emptyQuery args)
       (\<lambda>query w. case bkRecommend b ctx query w of
          (Inl e, w1) \<Rightarrow> cli_failWith h jsonMode (failCatalog h e) w1
        | (Inr r, w1) \<Rightarrow> (case connectplan_Build (clTables h) (clText6 h) (clSHA256 h) (rcServer r) of
            Inl e \<Rightarrow> cli_fail h jsonMode ExitNetwork ''invalid_data'' (clErrorText h e) w1
          | Inr m \<Rightarrow> (let p = planOf query r m in
              if jsonMode then emitJSON h (OutPlan p) w1 else (ExitOK, printPlan h p w1)))) w)"

section \<open>The program\<close>

definition buildinfo_String :: "buildInfo \<Rightarrow> string" where
  "buildinfo_String i = ''nordmac '' @ biVersion i @ '' (commit '' @ biCommit i @ '', built '' @ biDate i @ '')''"

definition runVersion :: "'w cliHost \<Rightarrow> string list \<Rightarrow> 'w \<Rightarrow> int \<times> 'w" where
  "runVersion h args w =
     (if args = [] then (ExitOK, printOut h (buildinfo_String (clBuild h) @ newline) w)
      else if args = [''--json''] then emitJSON h (OutVersion (clBuild h)) w
      else cli_fail h (hasJSON args) ExitUsage ''usage'' ''usage: nordmac version [--json]'' w)"

definition usageText :: string where
  "usageText = concat (map (\<lambda>l. l @ newline) [
     ''usage: nordmac <command> [options]'', [],
     ''Read-only commands:'',
     ''  version [--json]'',
     ''  countries [--json] [--refresh]'',
     ''  recommend <country> [--city <city>] [--server <server>] [--json]'',
     ''  plan <country> [--city <city>] [--server <server>] [--json]'', [],
     ''Authentication commands (require an authenticated packaged helper):'',
     ''  login [--token-stdin] [--json]'',
     ''  status [--json]'',
     ''  logout --local-only [--json]'', [],
     ''Tunnel commands (administrator approval is requested internally):'',
     ''  connect <country> [--city <city>] [--server <server>] [--json]'',
     ''  disconnect [--json]'',
     ''  reconnect --fresh [--json]''])"

definition isHelpCommand :: "string \<Rightarrow> bool" where
  "isHelpCommand c = (c = ''help'' \<or> isHelp c)"

definition RunWithInput :: "'w cliHost \<Rightarrow> 'w backend \<Rightarrow> ctx \<Rightarrow> string list \<Rightarrow> 'w \<Rightarrow> int \<times> 'w" where
  "RunWithInput h b ctx args w = (case args of
     [] \<Rightarrow> (ExitUsage, printErr h usageText w)
   | c # rest \<Rightarrow>
      (if c = ''version'' \<or> c = ''--version'' then runVersion h rest w
       else if isHelpCommand c then (ExitOK, printOut h usageText w)
       else if c = ''countries'' then runCountries h b ctx rest w
       else if c = ''recommend'' then runRecommend h b ctx rest w
       else if c = ''plan'' then runPlan h b ctx rest w
       else if c = ''login'' then runLogin h b ctx rest w
       else if c = ''status'' then runStatus h b ctx rest w
       else if c = ''logout'' then runLogout h b ctx rest w
       else if c = ''connect'' then runConnect h b ctx rest w
       else if c = ''disconnect'' then runDisconnect h b ctx rest w
       else if c = ''reconnect'' then runReconnect h b ctx rest w
       else cli_fail h (hasJSON rest) ExitUsage ''usage'' (''unknown command '' @ clQuote h c) w))"

end
