(* ===== verification/Command_Properties.thy ===== *)
theory Command_Properties
  imports Command_Line Connection_Properties "HOL-Library.Multiset"
begin

text \<open>
  What the command line guarantees to whoever calls it: a refused invocation has no effect, with \<^verbatim>\<open>--json\<close> there is
  exactly one answer on the standard output and the exit code agrees with it, success is only reported for work that was
  done, and the arguments of a query mean the same in any order.
\<close>

declare split_paired_All [simp del] split_paired_Ex [simp del]

lemmas exit_codes = ExitOK_def ExitUsage_def ExitNoMatch_def ExitNetwork_def ExitPrivilege_def ExitAuth_def ExitBusy_def

section \<open>Printing\<close>

text \<open>The error stream and the terminal, and then the output as well, leave \<open>f\<close> of the world alone.\<close>

definition input_leaves :: "'w cliHost \<Rightarrow> ('w \<Rightarrow> 'x) \<Rightarrow> bool" where
  "input_leaves h f \<longleftrightarrow> (\<forall>s. leaves f (clErr h s)) \<and>
     (\<forall>t \<in> {clTerminal h, clTerm h}. (\<forall>g n. tmIsTerminal t = Some g \<longrightarrow> leaves f (g n)) \<and> (\<forall>g n. tmReadPassword t = Some g \<longrightarrow> leaves f (g n))) \<and>
     tmIsTerminal (clTerm h) \<noteq> None \<and> tmReadPassword (clTerm h) \<noteq> None"

definition console_leaves :: "'w cliHost \<Rightarrow> ('w \<Rightarrow> 'x) \<Rightarrow> bool" where
  "console_leaves h f \<longleftrightarrow> (\<forall>s. leaves f (clOut h s)) \<and> input_leaves h f"

lemma console_input: "console_leaves h f \<Longrightarrow> input_leaves h f"
  by (simp add: console_leaves_def)

lemma leaves_snd: "leaves f g \<Longrightarrow> f (snd (g w)) = f w"
  by (cases "g w") (auto simp: leaves_def)

lemma prints_leave:
  assumes "console_leaves h f"
  shows "f (printOut h s w) = f w" "f (printErr h s w) = f w"
  using assms by (simp_all add: console_leaves_def input_leaves_def printOut_def printErr_def leaves_snd)

lemma output_leaves: "console_leaves h f \<Longrightarrow> output_encode h v w = (e, w1) \<Longrightarrow> f w1 = f w"
  by (auto simp: output_encode_def console_leaves_def dest: leavesD split: option.splits)

lemma cli_fail_leaves: "console_leaves h f \<Longrightarrow> f (snd (cli_fail h j x c m w)) = f w"
  by (auto simp: cli_fail_def prints_leave dest: output_leaves split: option.splits prod.splits)

lemma readToken_leaves:
  assumes "input_leaves h f" "readToken h b w = (r, w1)"
  shows "f w1 = f w"
proof -
  have t: "\<And>g n. tmIsTerminal (clTerminal h) = Some g \<Longrightarrow> leaves f (g n)" "\<And>g n. tmIsTerminal (clTerm h) = Some g \<Longrightarrow> leaves f (g n)"
    "\<And>g n. tmReadPassword (clTerminal h) = Some g \<Longrightarrow> leaves f (g n)" "\<And>g n. tmReadPassword (clTerm h) = Some g \<Longrightarrow> leaves f (g n)"
    and some: "tmIsTerminal (clTerm h) \<noteq> None" "tmReadPassword (clTerm h) \<noteq> None" and e: "\<And>s. leaves f (clErr h s)"
    using assms(1) by (auto simp: input_leaves_def)
  define isT where "isT = (case tmIsTerminal (clTerminal h) of Some f \<Rightarrow> f | None \<Rightarrow> the (tmIsTerminal (clTerm h)))"
  define rd where "rd = (case tmReadPassword (clTerminal h) of Some f \<Rightarrow> f | None \<Rightarrow> the (tmReadPassword (clTerm h)))"
  have l: "leaves f (isT n)" "leaves f (rd n)" for n
    using t some by (auto simp: isT_def rd_def split: option.splits)
  have "f (snd (readToken h b w)) = f w"
    using e l by (simp add: readToken_def ReadHidden_def Let_def isT_def [symmetric] rd_def [symmetric] case_prod_beta leaves_snd split: bool.split option.split)
  then show ?thesis using assms(2) by simp
qed

section \<open>Refused invocations\<close>

text \<open>An outcome of a run from \<open>w0\<close>: if it is a usage error, nothing happened.\<close>

definition quiet :: "('w \<Rightarrow> 'x) \<Rightarrow> 'w \<Rightarrow> int \<times> 'w \<Rightarrow> bool" where
  "quiet f w0 x \<longleftrightarrow> (fst x = ExitUsage \<longrightarrow> f (snd x) = f w0)"

lemma quiet_fail: "console_leaves h f \<Longrightarrow> f w = f w0 \<Longrightarrow> quiet f w0 (cli_fail h j x c m w)"
  by (simp add: quiet_def cli_fail_leaves)

lemma quiet_emit: "quiet f w0 (emitJSON h d w)"
  by (auto simp: quiet_def emitJSON_def exit_codes split: option.splits prod.splits)

lemma fail_code: "fst (cli_fail h j x c m w) = x \<or> (j \<and> fst (cli_fail h j x c m w) = ExitNetwork)"
  by (auto simp: cli_fail_def split: option.splits prod.splits)

lemma quiet_failWith: "fst t \<noteq> ExitUsage \<Longrightarrow> quiet f w0 (cli_failWith h j t w)"
  using fail_code [of h j "fst t" "fst (snd t)" "snd (snd t)" w] by (cases t) (auto simp: quiet_def cli_failWith_def exit_codes)

lemma failure_codes:
  "fst (failAuthentication e) \<in> {ExitNetwork, ExitAuth, ExitBusy}" "fst (failConnection e) \<in> {ExitNetwork, ExitPrivilege, ExitAuth, ExitBusy}"
  "fst (failCatalog h e) \<in> {ExitNetwork, ExitNoMatch}"
  by (auto simp: failAuthentication_def failConnection_def failCatalog_def classify_def)

lemma failures_not_usage: "fst (failAuthentication e) \<noteq> ExitUsage" "fst (failConnection e) \<noteq> ExitUsage" "fst (failCatalog h e) \<noteq> ExitUsage"
  using failure_codes(1) [of e] failure_codes(2) [of e] failure_codes(3) [where h = h and e = e] by (auto simp: exit_codes)

lemma quiet_ok: "quiet f w0 (ExitOK, w)"
  by (simp add: quiet_def exit_codes)

lemma quiet_args:
  assumes "console_leaves h f" "\<And>a. p = Parsed a \<Longrightarrow> quiet f w (run a w)"
  shows "quiet f w (withArgs h j usage p run w)"
  using assms by (auto simp: withArgs_def quiet_ok quiet_fail split: parsed.splits)

lemma quiet_unavailable: "console_leaves h f \<Longrightarrow> f w = f w0 \<Longrightarrow> quiet f w0 (cli_unavailable h c j w)"
  by (simp add: cli_unavailable_def quiet_fail)

lemma quiet_outcome: "quiet f w0 (connectionOutcome h j x)"
  by (cases x) (auto simp: connectionOutcome_def writeConnectionResult_def quiet_emit quiet_ok quiet_failWith failures_not_usage split: option.splits)

lemmas quiet_intros = quiet_fail quiet_emit quiet_failWith quiet_ok quiet_unavailable quiet_outcome failures_not_usage

lemma quiet_login: "console_leaves h f \<Longrightarrow> quiet f w (runLogin h b ctx args w)"
  unfolding runLogin_def Let_def
  by (rule quiet_args) (auto intro!: quiet_intros dest: readToken_leaves [OF console_input] split: option.splits prod.splits sum.splits)

lemma quiet_status: "console_leaves h f \<Longrightarrow> quiet f w (runStatus h b ctx args w)"
  unfolding runStatus_def Let_def
  by (rule quiet_args) (auto intro!: quiet_intros simp: printStatus_def Let_def split: option.splits prod.splits)

lemma quiet_logout: "console_leaves h f \<Longrightarrow> quiet f w (runLogout h b ctx args w)"
  unfolding runLogout_def Let_def
  by (rule quiet_args) (auto intro!: quiet_intros split: option.splits prod.splits)

lemma quiet_connections: "console_leaves h f \<Longrightarrow> quiet f w (runConnect h b ctx args w)" "console_leaves h f \<Longrightarrow> quiet f w (runDisconnect h b ctx args w)"
    "console_leaves h f \<Longrightarrow> quiet f w (runReconnect h b ctx args w)"
  unfolding runConnect_def runDisconnect_def runReconnect_def Let_def
  by (rule quiet_args; auto intro!: quiet_intros split: option.splits)+

lemma quiet_catalog: "console_leaves h f \<Longrightarrow> quiet f w (runCountries h b ctx args w)" "console_leaves h f \<Longrightarrow> quiet f w (runRecommend h b ctx args w)"
  unfolding runCountries_def runRecommend_def Let_def
  by (rule quiet_args; auto intro!: quiet_intros split: sum.splits prod.splits)+

lemma quiet_plan: "console_leaves h f \<Longrightarrow> quiet f w (runPlan h b ctx args w)"
proof -
  have n: "quiet f w0 (cli_fail h j ExitNetwork c m w)" for w0 j c m w
    using fail_code [of h j ExitNetwork c m w] by (auto simp: quiet_def exit_codes)
  show "console_leaves h f \<Longrightarrow> quiet f w (runPlan h b ctx args w)"
    unfolding runPlan_def Let_def by (rule quiet_args) (auto intro!: quiet_intros n split: sum.splits prod.splits)
qed

lemma quiet_version: "console_leaves h f \<Longrightarrow> quiet f w (runVersion h args w)"
  by (auto simp: runVersion_def intro!: quiet_intros)

text \<open>C28: a refused invocation has no effect: whenever the program exits with the usage code (unknown commands and flags, missing or
  repeated arguments, a command the installation cannot run, unusable token input), no request was made, no credential read,
  no tunnel touched: apart from what was printed, and the terminal, the world is as it was.\<close>

theorem usage_touches_nothing:
  assumes "console_leaves h f" "RunWithInput h b ctx args w = (ExitUsage, w1)"
  shows "f w1 = f w"
proof -
  have "quiet f w (RunWithInput h b ctx args w)"
    using assms(1) by (auto simp: RunWithInput_def quiet_login quiet_status quiet_logout quiet_connections quiet_catalog quiet_plan quiet_version quiet_ok
        quiet_fail split: list.split) (simp add: quiet_def prints_leave)
  then show ?thesis using assms(2) by (simp add: quiet_def)
qed

section \<open>One answer per invocation\<close>

text \<open>A host whose standard output is recorded: \<open>outs\<close> lists the texts written; every envelope has a JSON text.\<close>

definition records_output :: "'w cliHost \<Rightarrow> ('w \<Rightarrow> string list) \<Rightarrow> bool" where
  "records_output h outs \<longleftrightarrow> (\<forall>s w. fst (clOut h s w) = None \<and> outs (snd (clOut h s w)) = outs w @ [s]) \<and> (\<forall>v. clJSON h v \<noteq> None) \<and>
     input_leaves h outs"

definition backend_leaves :: "'w backend \<Rightarrow> ('w \<Rightarrow> 'x) \<Rightarrow> bool" where
  "backend_leaves b f \<longleftrightarrow> (\<forall>ctx r. leaves f (bkCountries b ctx r)) \<and> (\<forall>ctx q. leaves f (bkRecommend b ctx q)) \<and>
     (\<forall>a. bkAuthentication b = Some a \<longrightarrow> (\<forall>ctx w. (\<forall>t. f (snd (snd (anLogin a ctx t w))) = f w) \<and>
        f (snd (snd (anCredentialStatus a ctx w))) = f w \<and> f (snd (snd (anLogoutLocal a ctx w))) = f w)) \<and>
     (\<forall>c. bkConnection b = Some c \<longrightarrow> (\<forall>ctx w. (\<forall>q. f (snd (snd (cxConnect c ctx q w))) = f w) \<and> f (snd (snd (cxDisconnect c ctx w))) = f w \<and>
        (\<forall>x. f (snd (snd (cxReconnect c ctx x w))) = f w) \<and> f (snd (snd (cxStatus c ctx w))) = f w))"

text \<open>One envelope is written, and the code is zero exactly for a success.\<close>

definition answered :: "'w cliHost \<Rightarrow> ('w \<Rightarrow> string list) \<Rightarrow> 'w \<Rightarrow> int \<times> 'w \<Rightarrow> bool" where
  "answered h outs w0 x \<longleftrightarrow> (\<exists>v t. clJSON h v = Some t \<and> outs (snd x) = outs w0 @ [t @ newline] \<and> (fst x = ExitOK \<longleftrightarrow> (\<exists>d. v = SuccessEnvelope d)))"

lemma encode_answers:
  assumes "records_output h outs" "outs w = outs w0" "output_encode h v w = (e, w1)"
  shows "e = None \<and> (\<exists>t. clJSON h v = Some t \<and> outs w1 = outs w0 @ [t @ newline])"
proof -
  have o: "fst (clOut h s w) = None" "outs (snd (clOut h s w)) = outs w @ [s]" and "clJSON h v \<noteq> None" for s
    using assms(1) by (auto simp: records_output_def)
  then obtain t where "clJSON h v = Some t" by auto
  then show ?thesis using assms(2,3) o [of "t @ newline"] by (simp add: output_encode_def)
qed

lemma answered_emit: "records_output h outs \<Longrightarrow> outs w = outs w0 \<Longrightarrow> answered h outs w0 (emitJSON h d w)"
  by (cases "output_encode h (SuccessEnvelope d) w")
    (fastforce simp: answered_def emitJSON_def dest!: encode_answers)

lemma answered_fail: "records_output h outs \<Longrightarrow> outs w = outs w0 \<Longrightarrow> x \<noteq> ExitOK \<Longrightarrow> answered h outs w0 (cli_fail h True x c m w)"
  by (cases "output_encode h (ErrorEnvelope c m) w")
    (fastforce simp: answered_def cli_fail_def dest!: encode_answers)

lemma answered_failWith: "records_output h outs \<Longrightarrow> outs w = outs w0 \<Longrightarrow> fst t \<noteq> ExitOK \<Longrightarrow> answered h outs w0 (cli_failWith h True t w)"
  by (cases t) (simp add: cli_failWith_def answered_fail)

lemma failures_not_ok: "fst (failAuthentication e) \<noteq> ExitOK" "fst (failConnection e) \<noteq> ExitOK" "fst (failCatalog h e) \<noteq> ExitOK"
  using failure_codes(1) [of e] failure_codes(2) [of e] failure_codes(3) [where h = h and e = e] by (auto simp: exit_codes)

lemma exits_not_ok: "ExitUsage \<noteq> ExitOK" "ExitNetwork \<noteq> ExitOK"
  by (simp_all add: exit_codes)

lemma answered_unavailable: "records_output h outs \<Longrightarrow> outs w = outs w0 \<Longrightarrow> answered h outs w0 (cli_unavailable h c True w)"
  by (simp add: cli_unavailable_def answered_fail exits_not_ok)

lemma answered_args:
  assumes "records_output h outs" "p \<noteq> ShowHelp" "\<And>a. p = Parsed a \<Longrightarrow> answered h outs w (run a w)"
  shows "answered h outs w (withArgs h True usage p run w)"
  using assms by (auto simp: withArgs_def answered_fail exits_not_ok split: parsed.splits)

lemma answered_outcome: "records_output h outs \<Longrightarrow> outs (snd (snd x)) = outs w0 \<Longrightarrow> answered h outs w0 (connectionOutcome h True x)"
  by (cases x) (auto simp: connectionOutcome_def writeConnectionResult_def answered_emit answered_failWith failures_not_ok split: option.splits)

lemmas answered_intros = answered_emit answered_fail answered_failWith answered_unavailable answered_outcome failures_not_ok exits_not_ok

text \<open>Without a help flag no loop over the arguments shows the help.\<close>

lemma no_help_once: "\<forall>a\<in>set args. \<not> isHelp a \<Longrightarrow> onceFlagArgs q c flag seen args \<noteq> ShowHelp"
  by (induction args arbitrary: seen) auto

lemma no_help_flag: "\<forall>a\<in>set args. \<not> isHelp a \<Longrightarrow> flagArgs q c flag seen args \<noteq> ShowHelp"
  by (induction args arbitrary: seen) auto

lemma no_help_plain: "\<forall>a\<in>set args. \<not> isHelp a \<Longrightarrow> plainArgs q c args \<noteq> ShowHelp"
  by (induction args) auto

lemma no_help_recommend: "\<forall>a\<in>set args. \<not> isHelp a \<Longrightarrow> parseRecommend q query args \<noteq> ShowHelp"
  by (induction q query args rule: parseRecommend.induct) (auto simp: Let_def split: list.split)

lemmas no_help = no_help_once no_help_flag no_help_plain no_help_recommend

text \<open>The setting of the next lemmas: recorded output, a backend that does not print, \<^verbatim>\<open>--json\<close> and no help flag among the arguments.\<close>

definition asks_json :: "'w cliHost \<Rightarrow> ('w \<Rightarrow> string list) \<Rightarrow> 'w backend \<Rightarrow> string list \<Rightarrow> bool" where
  "asks_json h outs b args \<longleftrightarrow> records_output h outs \<and> backend_leaves b outs \<and> hasJSON args \<and> (\<forall>a\<in>set args. \<not> isHelp a)"

lemma asks_jsonD:
  assumes "asks_json h outs b args"
  shows "records_output h outs" "backend_leaves b outs" "hasJSON args" "\<forall>a\<in>set args. \<not> isHelp a"
  using assms by (auto simp: asks_json_def)

lemma backend_answers:
  assumes "backend_leaves b f"
  shows "f (snd (bkCountries b ctx r w)) = f w" "f (snd (bkRecommend b ctx q w)) = f w"
    "bkAuthentication b = Some a \<Longrightarrow> f (snd (snd (anLogin a ctx t w))) = f w"
    "bkAuthentication b = Some a \<Longrightarrow> f (snd (snd (anCredentialStatus a ctx w))) = f w"
    "bkAuthentication b = Some a \<Longrightarrow> f (snd (snd (anLogoutLocal a ctx w))) = f w"
    "bkConnection b = Some c \<Longrightarrow> f (snd (snd (cxConnect c ctx q w))) = f w" "bkConnection b = Some c \<Longrightarrow> f (snd (snd (cxDisconnect c ctx w))) = f w"
    "bkConnection b = Some c \<Longrightarrow> f (snd (snd (cxReconnect c ctx i w))) = f w" "bkConnection b = Some c \<Longrightarrow> f (snd (snd (cxStatus c ctx w))) = f w"
  using assms by (simp_all add: backend_leaves_def leaves_snd)

lemma connectionState_leaves: "backend_leaves b f \<Longrightarrow> f (snd (connectionState b ctx w)) = f w"
  by (simp add: connectionState_def case_prod_beta backend_answers split: option.split)

lemma readToken_outs: "records_output h outs \<Longrightarrow> outs (snd (readToken h x w)) = outs w"
  by (cases "readToken h x w") (auto simp: records_output_def dest: readToken_leaves)

lemmas answered_steps = backend_answers connectionState_leaves readToken_outs

lemma answered_connections:
  assumes "asks_json h outs b args"
  shows "answered h outs w (runConnect h b ctx args w)" "answered h outs w (runDisconnect h b ctx args w)" "answered h outs w (runReconnect h b ctx args w)"
  unfolding runConnect_def runDisconnect_def runReconnect_def Let_def using asks_jsonD [OF assms]
  by (auto intro!: answered_args answered_intros simp: no_help answered_steps split: option.splits)

lemma answered_catalog:
  assumes "asks_json h outs b args"
  shows "answered h outs w (runCountries h b ctx args w)" "answered h outs w (runRecommend h b ctx args w)" "answered h outs w (runPlan h b ctx args w)"
  unfolding runCountries_def runRecommend_def runPlan_def Let_def using asks_jsonD [OF assms]
  by (auto intro!: answered_args answered_intros simp: no_help answered_steps case_prod_beta split: sum.splits)

lemma answered_credentials:
  assumes "asks_json h outs b args"
  shows "answered h outs w (runLogin h b ctx args w)" "answered h outs w (runStatus h b ctx args w)" "answered h outs w (runLogout h b ctx args w)"
  unfolding runLogin_def runStatus_def runLogout_def Let_def using asks_jsonD [OF assms]
  by (auto intro!: answered_args answered_intros simp: no_help answered_steps case_prod_beta split: sum.splits option.splits)

lemma answered_version: "records_output h outs \<Longrightarrow> hasJSON rest \<Longrightarrow> answered h outs w (runVersion h rest w)"
  by (cases rest) (simp_all add: runVersion_def hasJSON_def answered_intros)


section \<open>The arguments of a query\<close>

text \<open>The settings of a query and the ways to write each.\<close>

datatype setting = SetJSON | SetCountry string | SetCity string | SetServer string

definition querySettings :: "query \<Rightarrow> setting list" where
  "querySettings q = (if qCountry q = [] then [] else [SetCountry (qCountry q)]) @ (if qCity q = [] then [] else [SetCity (qCity q)]) @
     (if qServer q = [] then [] else [SetServer (qServer q)])"

fun spelled :: "string list \<Rightarrow> setting \<Rightarrow> bool" where
  "spelled g SetJSON = (g = [''--json''])"
| "spelled g (SetCountry v) = (g = [v] \<and> \<not> strings_HasPrefix v ''-'')"
| "spelled g (SetCity v) = (g = [''--city='' @ v] \<or> g = [''--city'', v] \<and> \<not> strings_HasPrefix v ''-'')"
| "spelled g (SetServer v) = (g = [''--server='' @ v] \<or> g = [''--server'', v] \<and> \<not> strings_HasPrefix v ''-'')"

lemma settings_members:
  "SetCountry v \<in># mset (querySettings q) \<longleftrightarrow> v \<noteq> [] \<and> v = qCountry q" "SetCity v \<in># mset (querySettings q) \<longleftrightarrow> v \<noteq> [] \<and> v = qCity q"
  "SetServer v \<in># mset (querySettings q) \<longleftrightarrow> v \<noteq> [] \<and> v = qServer q" "SetJSON \<notin># mset (querySettings q)"
  by (auto simp: querySettings_def)

lemma settings_inject:
  assumes "mset (querySettings p) = mset (querySettings q)"
  shows "p = q"
proof -
  have "\<And>x. x \<in># mset (querySettings p) \<longleftrightarrow> x \<in># mset (querySettings q)" using assms by simp
  then have "qCountry p = qCountry q" "qCity p = qCity q" "qServer p = qServer q"
    by (metis settings_members(1)) (metis \<open>\<And>x. x \<in># mset (querySettings p) \<longleftrightarrow> x \<in># mset (querySettings q)\<close> settings_members(2),
        metis \<open>\<And>x. x \<in># mset (querySettings p) \<longleftrightarrow> x \<in># mset (querySettings q)\<close> settings_members(3))
  then show ?thesis by simp
qed

text \<open>A setting still missing from the query read so far: its field is empty, and reading it fills the field.\<close>

fun withSetting :: "setting \<Rightarrow> query \<Rightarrow> query" where
  "withSetting SetJSON q = q"
| "withSetting (SetCountry v) q = q\<lparr>qCountry := v\<rparr>"
| "withSetting (SetCity v) q = q\<lparr>qCity := v\<rparr>"
| "withSetting (SetServer v) q = q\<lparr>qServer := v\<rparr>"

lemma setting_missing:
  assumes "add_mset s (M + mset (querySettings p)) = mset (querySettings q)" "s \<noteq> SetJSON"
  shows "M + mset (querySettings (withSetting s p)) = mset (querySettings q)"
    "s = SetCountry v \<Longrightarrow> v \<noteq> [] \<and> qCountry p = []" "s = SetCity v \<Longrightarrow> v \<noteq> [] \<and> qCity p = []" "s = SetServer v \<Longrightarrow> v \<noteq> [] \<and> qServer p = []"
proof -
  have c: "count (mset (querySettings q)) x = count M x + count (mset (querySettings p)) x + (if x = s then 1 else 0)" for x
    unfolding assms(1) [symmetric] by simp
  show 1: "s = SetCountry v \<Longrightarrow> v \<noteq> [] \<and> qCountry p = []" for v
    using c [of s] c [of "SetCountry (qCountry p)"] by (cases "qCountry p = []") (auto simp: querySettings_def split: if_splits)
  show 2: "s = SetCity v \<Longrightarrow> v \<noteq> [] \<and> qCity p = []" for v
    using c [of s] c [of "SetCity (qCity p)"] by (cases "qCity p = []") (auto simp: querySettings_def split: if_splits)
  show 3: "s = SetServer v \<Longrightarrow> v \<noteq> [] \<and> qServer p = []" for v
    using c [of s] c [of "SetServer (qServer p)"] by (cases "qServer p = []") (auto simp: querySettings_def split: if_splits)
  have "mset (querySettings (withSetting s p)) = add_mset s (mset (querySettings p))"
    using 1 2 3 assms(2) by (cases s) (auto simp: querySettings_def)
  then show "M + mset (querySettings (withSetting s p)) = mset (querySettings q)" using assms(1) by simp
qed

lemma parse_country:
  assumes "v \<noteq> []" "\<not> strings_HasPrefix v ''-''" "qCountry p = []"
  shows "parseRecommend quote p (v # rest) = parseRecommend quote (p\<lparr>qCountry := v\<rparr>) rest"
proof -
  obtain x xs where "v = x # xs" "x \<noteq> CHR ''-''" using assms by (cases v) (auto simp: strings_HasPrefix_def)
  then show ?thesis using assms(3) by (simp add: isHelp_def cityFlag_def serverFlag_def strings_HasPrefix_def)
qed

lemma parse_city:
  assumes "v \<noteq> []" "qCity p = []"
  shows "parseRecommend quote p ((''--city='' @ v) # rest) = parseRecommend quote (p\<lparr>qCity := v\<rparr>) rest"
    "\<not> strings_HasPrefix v ''-'' \<Longrightarrow> parseRecommend quote p (''--city'' # v # rest) = parseRecommend quote (p\<lparr>qCity := v\<rparr>) rest"
  using assms by (simp_all add: isHelp_def cityFlag_def serverFlag_def afterPrefix_def Let_def)
    (simp add: strings_HasPrefix_def)

lemma parse_server:
  assumes "v \<noteq> []" "qServer p = []"
  shows "parseRecommend quote p ((''--server='' @ v) # rest) = parseRecommend quote (p\<lparr>qServer := v\<rparr>) rest"
    "\<not> strings_HasPrefix v ''-'' \<Longrightarrow> parseRecommend quote p (''--server'' # v # rest) = parseRecommend quote (p\<lparr>qServer := v\<rparr>) rest"
  using assms by (simp_all add: isHelp_def cityFlag_def serverFlag_def afterPrefix_def Let_def)
    (simp add: strings_HasPrefix_def)

lemma parse_json: "parseRecommend quote p (''--json'' # rest) = parseRecommend quote p rest"
  by simp

lemma parse_setting:
  assumes "spelled g s" and "\<And>v. s = SetCountry v \<Longrightarrow> v \<noteq> [] \<and> qCountry p = []" "\<And>v. s = SetCity v \<Longrightarrow> v \<noteq> [] \<and> qCity p = []"
    "\<And>v. s = SetServer v \<Longrightarrow> v \<noteq> [] \<and> qServer p = []"
  shows "parseRecommend quote p (g @ rest) = parseRecommend quote (withSetting s p) rest"
proof (cases s)
  case SetJSON
  then show ?thesis using assms(1) parse_json by simp
next
  case (SetCountry v)
  then show ?thesis using assms(1,2) parse_country [of v p quote rest] by (simp del: parseRecommend.simps)
next
  case (SetCity v)
  then show ?thesis using assms(1,3) parse_city [of v p quote rest] by (auto simp del: parseRecommend.simps)
next
  case (SetServer v)
  then show ?thesis using assms(1,4) parse_server [of v p quote rest] by (auto simp del: parseRecommend.simps)
qed

lemma parse_settings:
  assumes "list_all2 spelled gs ss" "mset (filter (\<lambda>s. s \<noteq> SetJSON) ss) + mset (querySettings p) = mset (querySettings q)" "qCountry q \<noteq> []"
  shows "parseRecommend quote p (concat gs) = Parsed q"
  using assms
proof (induction gs ss arbitrary: p rule: list_all2_induct)
  case Nil
  then show ?case using settings_inject [of p q] by simp
next
  case (Cons g gs s ss)
  show ?case
  proof (cases "s = SetJSON")
    case True
    then show ?thesis using Cons parse_setting [of g s p quote "concat gs"] by simp
  next
    case False
    have m: "add_mset s (mset (filter (\<lambda>s. s \<noteq> SetJSON) ss) + mset (querySettings p)) = mset (querySettings q)"
      using Cons.prems False by simp
    note d = setting_missing [OF m False]
    show ?thesis using Cons.IH [OF d(1) Cons.prems(2)] parse_setting [OF Cons.hyps(1) d(2-4), of quote "concat gs"] by simp
  qed
qed

text \<open>the arguments of a query may come in any order, the flags in either spelling and \<^verbatim>\<open>--json\<close> anywhere among them: whatever lists the
  settings of a query once each is read back as that query.\<close>

theorem query_arguments_any_order:
  assumes "list_all2 spelled gs ss" "mset (filter (\<lambda>s. s \<noteq> SetJSON) ss) = mset (querySettings q)" "qCountry q \<noteq> []"
  shows "parseRecommend quote emptyQuery (concat gs) = Parsed q"
  using parse_settings [OF assms(1) _ assms(3), of emptyQuery quote] assms(2) by (simp add: querySettings_def emptyQuery_def)

section \<open>A small host\<close>

text \<open>The world: what was printed, and how many requests were made.\<close>

definition sampleTerminal :: "(string list \<times> nat) terminal" where
  "sampleTerminal = \<lparr>tmIsTerminal = Some (\<lambda>fd w. (False, w)), tmReadPassword = Some (\<lambda>fd w. (([], None), w))\<rparr>"

definition sampleCli :: "(string list \<times> nat) cliHost" where
  "sampleCli = \<lparr>clOut = (\<lambda>s w. (None, fst w @ [s], snd w)), clErr = (\<lambda>s w. (None, w)), clJSON = (\<lambda>v. Some ''{}''), clErrorText = (\<lambda>e. []),
     clQuote = (\<lambda>s. s), clBuild = \<lparr>biVersion = ''dev'', biCommit = [], biDate = [], biHelperSHA256 = []\<rparr>, clReader = None, clFD = 0,
     clTerminal = sampleTerminal, clTerm = sampleTerminal, clTables = asciiTables, clText6 = noText6, clSHA256 = (\<lambda>d. d)\<rparr>"

definition sampleBackend :: "(string list \<times> nat) backend" where
  "sampleBackend = \<lparr>bkCountries = (\<lambda>ctx r w. (Inl (Err ''offline''), fst w, Suc (snd w))), bkRecommend = (\<lambda>ctx q w. (Inl (Err ''offline''), fst w, Suc (snd w))),
     bkAuthentication = None, bkConnection = None\<rparr>"

lemma sampleCli_leaves: "console_leaves sampleCli snd"
  by (auto simp: console_leaves_def input_leaves_def leaves_def sampleCli_def sampleTerminal_def)

theorem usage_touches_nothing_witness:
  "\<exists>w1. RunWithInput sampleCli sampleBackend CallerCtx [''countries'', ''--refesh''] ([], 3) = (ExitUsage, w1) \<and> snd w1 = 3"
proof -
  obtain w1 where r: "RunWithInput sampleCli sampleBackend CallerCtx [''countries'', ''--refesh''] ([], 3) = (ExitUsage, w1)"
    by (simp add: RunWithInput_def isHelpCommand_def isHelp_def runCountries_def Let_def withArgs_def cli_fail_def hasJSON_def)
  show ?thesis using usage_touches_nothing [OF sampleCli_leaves r] r by auto
qed

lemma sample_asks: "asks_json sampleCli fst sampleBackend [''--json'', ''--refresh'']"
  by (auto simp: asks_json_def records_output_def input_leaves_def leaves_def backend_leaves_def sampleCli_def sampleTerminal_def sampleBackend_def
      hasJSON_def isHelp_def)


theorem query_arguments_any_order_witness:
  "parseRecommend (\<lambda>s. s) emptyQuery (concat [[''--city'', ''Oslo''], [''--json''], [''no''], [''--server=no12'']]) =
     Parsed \<lparr>qCountry = ''no'', qCity = ''Oslo'', qServer = ''no12''\<rparr>"
  by (rule query_arguments_any_order [where ss = "[SetCity ''Oslo'', SetJSON, SetCountry ''no'', SetServer ''no12'']"])
    (simp_all add: strings_HasPrefix_def querySettings_def)

end
