(* ===== verification/Main_Program.thy ===== *)
theory Main_Program
  imports Command_Line Helper_Client Helper_Daemon Packaged_Helper Credential_Properties Connection_Properties
begin

text \<open>
  The program \<^verbatim>\<open>nordmac\<close>, \<^verbatim>\<open>cmd/nordmac/main.go\<close>: how it builds the country service, the credential services and the
  connection service from its environment and hands them to the command line, and its second life as the privileged
  helper. What the environment provides (processes, HTTP, codecs, clock, streams) is a record of arguments.
\<close>

section \<open>Paths\<close>

text \<open>\<^verbatim>\<open>filepath.Join\<close> of two elements, a relative root included.\<close>

fun relative_segments :: "string list \<Rightarrow> string list \<Rightarrow> string list" where
  "relative_segments acc [] = rev acc"
| "relative_segments acc (s # ss) =
     (if s = [] \<or> s = ''.'' then relative_segments acc ss
      else if s = ''..'' \<and> acc \<noteq> [] \<and> hd acc \<noteq> ''..'' then relative_segments (tl acc) ss
      else relative_segments (s # acc) ss)"

definition filepath_Join :: "string \<Rightarrow> string \<Rightarrow> string" where
  "filepath_Join root name = (let s = (if root = [] then name else root @ ''/'' @ name) in
     if filepath_IsAbs s then filepath_Clean s
     else (case relative_segments [] (split_slash [] s) of [] \<Rightarrow> ''.'' | x # xs \<Rightarrow> x @ concat (map (\<lambda>y. CHR ''/'' # y) xs)))"

definition os_UserCacheDir :: "string \<Rightarrow> gerror + string" where
  "os_UserCacheDir home = (if home = [] then Inl (Err ''$HOME is not defined'') else Inr (home @ ''/Library/Caches''))"

definition os_UserConfigDir :: "string \<Rightarrow> gerror + string" where
  "os_UserConfigDir home = (if home = [] then Inl (Err ''$HOME is not defined'') else Inr (home @ ''/Library/Application Support''))"

section \<open>The environment\<close>

record 'v mainHost =
  mnArgs :: "string list"
  mnHome :: string
  mnCacheOverride :: string
  mnGetuid :: int
  mnStdin :: "byte list"
  mnStdout :: writer
  mnContext :: ctx
  mnConsole :: "(fsWorld \<times> 'v) cliHost"
  mnParse :: "string \<Rightarrow> url option"
  mnHTTP :: "(fsWorld \<times> 'v) httpDo"
  mnTransport :: "int \<Rightarrow> bool \<Rightarrow> (fsWorld \<times> 'v) httpDo"
  mnNow :: "fsWorld \<times> 'v \<Rightarrow> time \<times> fsWorld \<times> 'v"
  mnRand :: "fsWorld \<times> 'v \<Rightarrow> byte list \<times> fsWorld \<times> 'v"
  mnRunner :: "(fsWorld \<times> 'v) runner"
  mnKeychain :: "(fsWorld \<times> 'v) stdinRunner"
  mnPackage :: packageHost
  mnHelper :: "(fsWorld \<times> 'v) clientHost"
  mnDaemon :: "(fsWorld \<times> 'v) daemonHost"
  mnCountryCodec :: "countryDTO list codec"
  mnServerCodec :: "serverDTO list codec"
  mnProvisioningCodec :: "(int \<times> byte list) codec"
  mnCacheCodec :: "countriesFile codec"
  mnMetadataCodec :: "metadata codec"

section \<open>The services\<close>

definition productionAuthentication :: "'w loginService \<Rightarrow> 'w authService \<Rightarrow> 'w authentication" where
  "productionAuthentication login st = \<lparr>anLogin = Login login, anCredentialStatus = auth_Inspect st, anLogoutLocal = LogoutLocal st\<rparr>"

text \<open>The client of the account API with its zero configuration.\<close>

definition authClientOf :: "'v mainHost \<Rightarrow> (fsWorld \<times> 'v) authClient" where
  "authClientOf h = \<lparr>naBaseURL = [], naHTTP = None, naTransport = mnTransport h, naParse = mnParse h,
     naTables = clTables (mnConsole h), naCodec = mnProvisioningCodec h\<rparr>"

definition configureAuthentication :: "'v mainHost \<Rightarrow> gerror + (fsWorld \<times> 'v) authentication \<times> (fsWorld \<times> 'v) credStore" where
  "configureAuthentication h =
     (case locatePackagedHelper (clSHA256 (mnConsole h)) (mnPackage h) (biHelperSHA256 (clBuild (mnConsole h))) of
        Inl e \<Rightarrow> Inl e
      | Inr helper \<Rightarrow> (case NewLogin (mnKeychain h) helper of
          Inl e \<Rightarrow> Inl e
        | Inr native \<Rightarrow> (case os_UserConfigDir (mnHome h) of
            Inl e \<Rightarrow> Inl e
          | Inr configRoot \<Rightarrow>
             (let store = nativeStoreOf native; locker = userLock (filepath_Join configRoot ''nordmac'') in
              Inr (productionAuthentication \<lparr>lsProvisioner = Some (auth_Provision (authClientOf h)), lsStore = Some store, lsLocker = Some locker\<rparr>
                     \<lparr>auStore = Some store, auLocker = Some locker\<rparr>, store)))))"

definition cacheTTL :: int where
  "cacheTTL = 24 * 3600 * 10 ^ 9"

definition countryService :: "'v mainHost \<Rightarrow> string \<Rightarrow> (fsWorld \<times> 'v) apiClient \<Rightarrow> 'v commandService" where
  "countryService h cacheRoot client =
     \<lparr>sxAPI = nordPublicAPI (clTables (mnConsole h)) (clText6 (mnConsole h)) (mnCountryCodec h) (mnServerCodec h) client,
      sxCache = \<lparr>ccPath = (filepath_Join cacheRoot ''nordmac'', ''countries-v1.json''), ccTTL = cacheTTL, ccCodec = mnCacheCodec h\<rparr>,
      sxNow = mnNow h, sxTables = clTables (mnConsole h)\<rparr>"

definition connectionService :: "'v mainHost \<Rightarrow> 'v commandService \<Rightarrow> (fsWorld \<times> 'v) credStore \<Rightarrow> string \<Rightarrow> (fsWorld \<times> 'v) connService" where
  "connectionService h service store dir =
     \<lparr>coRecommend = RecommendConnection service, coCredentials = store, coRoutes = \<lparr>drRunner = Some (mnRunner h), drRoutePath = []\<rparr>,
      coRunner = Some (mnRunner h), coHelper = client_Exchange (mnHelper h) [], coLocker = Some (userLock dir),
      coMetadata = userMetadata (mnMetadataCodec h) dir, coOwnerUID = mnGetuid h, coGetuid = mnGetuid h, coNow = mnNow h, coRand = mnRand h,
      coTables = clTables (mnConsole h), coText6 = clText6 (mnConsole h), coSHA256 = clSHA256 (mnConsole h)\<rparr>"

definition connectionsOf :: "'w connService \<Rightarrow> 'w connections" where
  "connectionsOf s = \<lparr>cxConnect = connection_Connect s, cxDisconnect = connection_Disconnect s, cxReconnect = connection_Reconnect s, cxStatus = connection_Status s\<rparr>"

definition backendOf :: "'v mainHost \<Rightarrow> 'v commandService \<Rightarrow> (fsWorld \<times> 'v) backend" where
  "backendOf h service =
     (let base = \<lparr>bkCountries = command_Countries service, bkRecommend = command_Recommend service, bkAuthentication = None, bkConnection = None\<rparr> in
      case configureAuthentication h of
        Inl _ \<Rightarrow> base
      | Inr (authentication, store) \<Rightarrow> (case os_UserConfigDir (mnHome h) of
          Inr configRoot \<Rightarrow> base\<lparr>bkAuthentication := Some authentication,
            bkConnection := Some (connectionsOf (connectionService h service store (filepath_Join configRoot ''nordmac'')))\<rparr>
        | Inl _ \<Rightarrow> base\<lparr>bkAuthentication := Some authentication\<rparr>))"

section \<open>The program\<close>

definition runHelper :: "'v mainHost \<Rightarrow> fsWorld \<times> 'v \<Rightarrow> (int \<times> writer \<times> fsWorld \<times> 'v) option" where
  "runHelper h w = (case daemon_Run (mnDaemon h) (mnContext h) (mnStdin h) (mnStdout h) w of
     None \<Rightarrow> None
   | Some (Some e, out, w1) \<Rightarrow> Some (ExitPrivilege, out, printErr (mnConsole h) (''nordmac: privileged helper failed'' @ newline) w1)
   | Some (None, out, w1) \<Rightarrow> Some (ExitOK, out, w1))"

definition runUser :: "'v mainHost \<Rightarrow> fsWorld \<times> 'v \<Rightarrow> int \<times> fsWorld \<times> 'v" where
  "runUser h w = (let c = mnConsole h in case os_UserCacheDir (mnHome h) of
     Inl e \<Rightarrow> (ExitNetwork, printErr c (''nordmac: locate user cache: '' @ clErrorText c e @ newline) w)
   | Inr userCache \<Rightarrow>
      (let cacheRoot = (if mnCacheOverride h \<noteq> [] then mnCacheOverride h else userCache) in
       case nordapi_New (mnParse h) DefaultBaseURL (Some (mnHTTP h)) of
         Inl e \<Rightarrow> (ExitNetwork, printErr c (''nordmac: configure public API: '' @ clErrorText c e @ newline) w)
       | Inr client \<Rightarrow> RunWithInput c (backendOf h (countryService h cacheRoot client)) (mnContext h) (tl (mnArgs h)) w))"

definition main_run :: "'v mainHost \<Rightarrow> fsWorld \<times> 'v \<Rightarrow> (int \<times> writer \<times> fsWorld \<times> 'v) option" where
  "main_run h w =
     (if length (mnArgs h) = 2 \<and> mnArgs h ! 1 = ''__helper'' then runHelper h w
      else (case runUser h w of (code, w1) \<Rightarrow> Some (code, mnStdout h, w1)))"

end
