(* ===== verification/Program_Properties.thy ===== *)
theory Program_Properties
  imports Main_Program Command_Properties Client_Properties Auth_Properties
begin

text \<open>
  The composed program: what the exit codes of \<^verbatim>\<open>nordmac connect\<close> and \<^verbatim>\<open>nordmac disconnect\<close> say about the connection
  record and the sessions of the privileged helper, whatever the environment does.
\<close>

declare split_paired_All [simp del] split_paired_Ex [simp del]

section \<open>The command line keeps an invariant of its backend\<close>

definition backend_keeps :: "'w backend \<Rightarrow> ('w \<Rightarrow> bool) \<Rightarrow> bool" where
  "backend_keeps b I \<longleftrightarrow> (\<forall>ctx w. I w \<longrightarrow> (\<forall>r. I (snd (bkCountries b ctx r w))) \<and> (\<forall>q. I (snd (bkRecommend b ctx q w))) \<and>
     (\<forall>a. bkAuthentication b = Some a \<longrightarrow> (\<forall>t. I (snd (snd (anLogin a ctx t w)))) \<and>
        I (snd (snd (anCredentialStatus a ctx w))) \<and> I (snd (snd (anLogoutLocal a ctx w)))) \<and>
     (\<forall>c. bkConnection b = Some c \<longrightarrow> (\<forall>q. I (snd (snd (cxConnect c ctx q w)))) \<and> I (snd (snd (cxDisconnect c ctx w))) \<and>
        (\<forall>x. I (snd (snd (cxReconnect c ctx x w)))) \<and> I (snd (snd (cxStatus c ctx w)))))"

lemma backend_keepsD:
  assumes "backend_keeps b I" "I w"
  shows "I (snd (bkCountries b ctx r w))" "I (snd (bkRecommend b ctx q w))"
    "bkAuthentication b = Some a \<Longrightarrow> I (snd (snd (anLogin a ctx t w)))" "bkAuthentication b = Some a \<Longrightarrow> I (snd (snd (anCredentialStatus a ctx w)))"
    "bkAuthentication b = Some a \<Longrightarrow> I (snd (snd (anLogoutLocal a ctx w)))"
    "bkConnection b = Some c \<Longrightarrow> I (snd (snd (cxConnect c ctx q w)))" "bkConnection b = Some c \<Longrightarrow> I (snd (snd (cxDisconnect c ctx w)))"
    "bkConnection b = Some c \<Longrightarrow> I (snd (snd (cxReconnect c ctx x w)))" "bkConnection b = Some c \<Longrightarrow> I (snd (snd (cxStatus c ctx w)))"
  using assms by (simp_all add: backend_keeps_def)

lemma console_keeps:
  assumes "console_leaves h f"
  shows "f (snd (emitJSON h d w)) = f w" "f (snd (cli_failWith h j t w)) = f w" "f (snd (cli_unavailable h c j w)) = f w"
    "f (snd (readToken h b w)) = f w" "f (snd (printStatus h st ks w)) = f w" "f (printWarnings h ws w) = f w"
    "f (snd (writeConnectionResult h j r w)) = f w"
proof -
  show e: "f (snd (emitJSON h d w)) = f w" for d w
    using assms by (auto simp: emitJSON_def prints_leave dest: output_leaves split: option.splits prod.splits)
  show "f (snd (cli_failWith h j t w)) = f w" "f (snd (cli_unavailable h c j w)) = f w"
    using assms by (simp_all add: cli_failWith_def cli_unavailable_def cli_fail_leaves case_prod_beta)
  show "f (snd (readToken h b w)) = f w"
    using readToken_leaves [OF console_input [OF assms]] by (cases "readToken h b w") auto
  show "f (snd (printStatus h st ks w)) = f w" using assms by (simp add: printStatus_def Let_def prints_leave)
  show "f (printWarnings h ws w) = f w"
    using assms by (induction ws arbitrary: w) (simp_all add: printWarnings_def prints_leave)
  show "f (snd (writeConnectionResult h j r w)) = f w" using assms e by (simp add: writeConnectionResult_def prints_leave)
qed

lemma fold_leaves: "(\<And>x w. f (g x w) = f w) \<Longrightarrow> f (fold g xs w) = f w"
  by (induction xs arbitrary: w) simp_all

lemma printCountry_leaves: "console_leaves h f \<Longrightarrow> f (printCountry h c w) = f w"
  by (simp add: printCountry_def fold_leaves prints_leave)

lemma printPlan_leaves: "console_leaves h f \<Longrightarrow> f (printPlan h p w) = f w"
  by (simp add: printPlan_def fold_leaves prints_leave console_keeps)

lemma args_keep:
  assumes "console_leaves h I" "I w" "\<And>a. p = Parsed a \<Longrightarrow> I (snd (run a w))"
  shows "I (snd (withArgs h j usage p run w))"
  using assms by (auto simp: withArgs_def prints_leave cli_fail_leaves split: parsed.splits)

lemma outcome_keeps: "console_leaves h I \<Longrightarrow> I (snd (snd x)) \<Longrightarrow> I (snd (connectionOutcome h j x))"
  by (simp add: connectionOutcome_def case_prod_beta console_keeps split: option.split)

lemmas keep_simps = console_keeps prints_leave cli_fail_leaves printCountry_leaves printPlan_leaves

lemma connections_keep:
  assumes "console_leaves h I" "backend_keeps b I" "I w"
  shows "I (snd (runConnect h b ctx args w))" "I (snd (runDisconnect h b ctx args w))" "I (snd (runReconnect h b ctx args w))"
  unfolding runConnect_def runDisconnect_def runReconnect_def Let_def
  by (auto intro!: args_keep [OF assms(1)] outcome_keeps [OF assms(1)] backend_keepsD [OF assms(2)] simp: keep_simps [OF assms(1)] assms split: option.split)

lemma catalog_keep:
  assumes "console_leaves h I" "backend_keeps b I" "I w"
  shows "I (snd (runCountries h b ctx args w))" "I (snd (runRecommend h b ctx args w))" "I (snd (runPlan h b ctx args w))"
  unfolding runCountries_def runRecommend_def runPlan_def Let_def
  by (auto intro!: args_keep [OF assms(1)] simp: keep_simps [OF assms(1)] fold_leaves [of I] backend_keepsD [OF assms(2)] case_prod_beta assms split: sum.split)

lemma credentials_keep:
  assumes "console_leaves h I" "backend_keeps b I" "I w"
  shows "I (snd (runLogin h b ctx args w))" "I (snd (runStatus h b ctx args w))" "I (snd (runLogout h b ctx args w))"
proof -
  have s: "I (snd (connectionState b ctx v))" if "I v" for v
    using that by (simp add: connectionState_def case_prod_beta backend_keepsD [OF assms(2)] split: option.split)
  show "I (snd (runLogin h b ctx args w))" "I (snd (runStatus h b ctx args w))" "I (snd (runLogout h b ctx args w))"
    unfolding runLogin_def runStatus_def runLogout_def Let_def
    by (auto intro!: args_keep [OF assms(1)] simp: keep_simps [OF assms(1)] s backend_keepsD [OF assms(2)] case_prod_beta assms split: sum.split option.split)
qed

lemma commands_keep:
  assumes "console_leaves h I" "backend_keeps b I" "I w"
  shows "I (snd (RunWithInput h b ctx args w))"
  using assms(3) by (auto simp: RunWithInput_def runVersion_def keep_simps [OF assms(1)] connections_keep [OF assms] catalog_keep [OF assms]
      credentials_keep [OF assms] split: list.split)

section \<open>Success of a connection command\<close>

lemma failWith_not_ok: "fst t \<noteq> ExitOK \<Longrightarrow> cli_failWith h j t w \<noteq> (ExitOK, w1)"
  using fail_code [of h j "fst t" "fst (snd t)" "snd (snd t)" w] exits_not_ok by (auto simp: cli_failWith_def case_prod_beta)

lemma outcome_ok: "connectionOutcome h j x = (ExitOK, w1) \<Longrightarrow> fst (snd x) = None"
  by (auto simp: connectionOutcome_def failWith_not_ok failures_not_ok split: option.splits prod.splits)

lemma usage_not_ok: "cli_fail h j ExitUsage c m w \<noteq> (ExitOK, w1)"
  using failWith_not_ok [of "(ExitUsage, c, m)" h j w w1] by (simp add: cli_failWith_def exits_not_ok)

lemma connect_ok:
  assumes "runConnect h b ctx args w = (ExitOK, w1)" "\<forall>a\<in>set args. \<not> isHelp a"
  shows "\<exists>c q. bkConnection b = Some c \<and> parseRecommend (clQuote h) emptyQuery args = Parsed q \<and>
    connectionOutcome h (hasJSON args) (cxConnect c ctx q w) = (ExitOK, w1)"
  using assms(1) no_help_recommend [OF assms(2), of "clQuote h" emptyQuery]
  by (auto simp: runConnect_def withArgs_def Let_def cli_unavailable_def usage_not_ok split: parsed.splits option.splits)

lemma disconnect_ok:
  assumes "runDisconnect h b ctx args w = (ExitOK, w1)" "\<forall>a\<in>set args. \<not> isHelp a"
  shows "\<exists>c. bkConnection b = Some c \<and> connectionOutcome h (hasJSON args) (cxDisconnect c ctx w) = (ExitOK, w1)"
  using assms(1) no_help_plain [OF assms(2), of "clQuote h" "''disconnect''"]
  by (auto simp: runDisconnect_def withArgs_def Let_def cli_unavailable_def usage_not_ok split: parsed.splits option.splits)

section \<open>The environment and the record\<close>

definition configDir :: "'v mainHost \<Rightarrow> string" where
  "configDir h = filepath_Join (mnHome h @ ''/Library/Application Support'') ''nordmac''"

text \<open>What is seen of the world: the connection record and the sessions of the helper.\<close>

definition view :: "'v mainHost \<Rightarrow> ('v \<Rightarrow> string set) \<Rightarrow> fsWorld \<times> 'v \<Rightarrow> metadata option option \<times> string set" where
  "view h sess w = (userRecord (mnMetadataCodec h) (configDir h) w, sess (snd w))"

text \<open>Streams, terminal, requests, processes, clock and random source neither touch the record nor open or close a session; only
  the exchange with the helper opens and closes sessions; and written records can be read back.\<close>

definition environment_ok :: "'v mainHost \<Rightarrow> ('v \<Rightarrow> string set) \<Rightarrow> bool" where
  "environment_ok h sess \<longleftrightarrow> console_leaves (mnConsole h) (view h sess) \<and> (\<forall>ctx rq. leaves (view h sess) (mnHTTP h ctx rq)) \<and>
     (\<forall>n r ctx rq. leaves (view h sess) (mnTransport h n r ctx rq)) \<and>
     leaves (view h sess) (mnNow h) \<and> leaves (view h sess) (mnRand h) \<and> (\<forall>ctx p a. leaves (view h sess) (rnRun (mnRunner h) ctx p a)) \<and>
     (\<forall>ctx i p a. leaves (view h sess) (mnKeychain h ctx i p a)) \<and>
     helper_tracks (client_Exchange (mnHelper h) []) (userRecord (mnMetadataCodec h) (configDir h)) (\<lambda>w. sess (snd w)) \<and>
     (\<forall>m. codec_line_ok (mnMetadataCodec h) m)"

text \<open>A file beside the country cache is not touched by it.\<close>

lemma replace_other:
  assumes run: "replaceFile wrap pre suf path od w = (e, w1)" and p: "p \<noteq> path" "\<And>s. p \<noteq> (fst path, pre @ s)"
  shows "fsFiles w1 p = fsFiles w p"
proof -
  obtain rt wb where t: "os_CreateTempPattern (fst path) pre suf w = (rt, wb)" by (metis prod.exhaust)
  show ?thesis
  proof (cases rt)
    case (Inl x)
    then show ?thesis using run t
      by (auto simp: replaceFile_def os_CreateTempPattern_def Let_def dest!: syscall_frameD split: prod.splits bool.splits list.splits if_splits)
  next
    case (Inr tmp)
    have np: "p \<noteq> tmp" "fsFiles wb p = fsFiles w p" using t Inr p
      by (auto simp: os_CreateTempPattern_def Let_def dest!: syscall_frameD split: prod.splits bool.splits list.splits if_splits)
    obtain ef wc where f: "fillFile wrap tmp od wb = (ef, wc)" by (metis prod.exhaust)
    obtain er wd where r: "os_Rename tmp path wc = (er, wd)" by (metis prod.exhaust)
    have "fsFiles wd p = fsFiles wc p" using r np p
      by (auto simp: os_Rename_def dest!: syscall_frameD split: prod.splits bool.splits option.splits)
    then have "fsFiles (if ef = None then wd else wc) p = fsFiles w p" using fill_other [OF f np(1)] np by auto
    moreover have "w1 = snd (os_Remove tmp (if ef = None then wd else wc))"
      using run t Inr f r by (auto simp: replaceFile_def split: option.splits)
    ultimately show ?thesis using remove_other [of tmp _ p] np by simp
  qed
qed

lemma cache_other:
  assumes "snd p \<noteq> snd (ccPath c)" "\<And>s. snd p \<noteq> ''.countries-'' @ s"
  shows "leaves (\<lambda>w. fsFiles w p) (cache_Read c now)" "leaves (\<lambda>w. fsFiles w p) (cache_Write c res)"
proof -
  have pr: "fsFiles (snd (os_probe v)) = fsFiles v" for v using probe_files [of v] by (cases "os_probe v") auto
  have o: "fsFiles (snd (os_Open q w)) = fsFiles w" for q w
    by (auto simp: os_Open_def dest!: syscall_frameD split: prod.splits bool.splits option.splits)
  have rd: "fsFiles (snd (readCountries cd n w)) = fsFiles w" for cd n w
    using pr [of w] by (auto simp: readCountries_def split: prod.splits option.splits)
  show "leaves (\<lambda>w. fsFiles w p) (cache_Read c now)"
    unfolding leaves_def cache_Read_def using pr rd o by (auto simp: case_prod_beta split: sum.splits oserr.splits)
  have "p \<noteq> ccPath c" "p \<noteq> (d, ''.countries-'' @ s)" for d s using assms by (metis snd_conv)+
  then have "replaceFile wrap ''.countries-'' suf (ccPath c) od v = (e, v1) \<Longrightarrow> fsFiles v1 p = fsFiles v p" for wrap suf od v e v1
    using replace_other by blast
  then show "leaves (\<lambda>w. fsFiles w p) (cache_Write c res)"
    by (auto simp: leaves_def cache_Write_def Let_def dest!: mkdir_files split: prod.splits option.splits if_splits)
qed

text \<open>A step on the files that leaves the file of the record leaves the view.\<close>

lemma files_view: "leaves (\<lambda>w. fsFiles w (metadataPath (configDir h))) run \<Longrightarrow> leaves (view h sess) (onFiles run)"
  by (auto simp: leaves_def view_def onFiles_def userRecord_def file_stored_def split: prod.splits)

lemma cache_view:
  assumes "snd (ccPath c) = ''countries-v1.json''"
  shows "leaves (view h sess) (onFiles (cache_Read c now))" "leaves (view h sess) (onFiles (cache_Write c res))"
  using cache_other [of "metadataPath (configDir h)" c] assms by (auto intro!: files_view simp: metadataPath_def)

lemma api_view:
  assumes "\<And>ctx rq. leaves f (acHTTP c ctx rq)"
  shows "leaves f (nordapi_Countries u ccd c ctx)" "leaves f (nordapi_Recommendations u t scd c ctx i j k)" "leaves f (nordapi_Servers u t scd c ctx i k)"
proof -
  have g: "leaves f (getJSON v c cd ctx path q)" for v cd path q
    using assms by (auto simp: leaves_def getJSON_def split: prod.splits sum.splits if_splits option.splits)
  have s: "leaves f (nordapi_servers u t scd c ctx path q)" for path q
    unfolding nordapi_servers_def using leavesD [OF g] by (auto simp: leaves_def split: prod.splits sum.splits if_splits)
  show "leaves f (nordapi_Countries u ccd c ctx)"
    unfolding nordapi_Countries_def using leavesD [OF g] by (auto simp: leaves_def split: prod.splits sum.splits if_splits)
  show "leaves f (nordapi_Recommendations u t scd c ctx i j k)" "leaves f (nordapi_Servers u t scd c ctx i k)"
    using leavesD [OF s] by (auto simp: leaves_def nordapi_Recommendations_def nordapi_Servers_def split: prod.splits sum.splits)
qed

text \<open>The country service of the program.\<close>

definition service_leaves :: "'v commandService \<Rightarrow> (fsWorld \<times> 'v \<Rightarrow> 'x) \<Rightarrow> bool" where
  "service_leaves s f \<longleftrightarrow> leaves f (sxNow s) \<and> (\<forall>now. leaves f (onFiles (cache_Read (sxCache s) now))) \<and> (\<forall>r. leaves f (onFiles (cache_Write (sxCache s) r))) \<and>
     (\<forall>ctx. leaves f (apiCountries (sxAPI s) ctx)) \<and> (\<forall>ctx i j k. leaves f (apiRecommendations (sxAPI s) ctx i j k)) \<and>
     (\<forall>ctx i k. leaves f (apiServers (sxAPI s) ctx i k))"

lemma service_view:
  assumes "service_leaves s f"
  shows "leaves f (command_Countries s ctx refresh)" "leaves f (command_Recommend s ctx q)" "leaves f (RecommendConnection s ctx q)"
proof -
  have l: "f (snd (sxNow s w)) = f w" "f (snd (onFiles (cache_Read (sxCache s) now) w)) = f w" "f (snd (onFiles (cache_Write (sxCache s) r) w)) = f w"
    "f (snd (apiCountries (sxAPI s) ctx w)) = f w" "f (snd (apiRecommendations (sxAPI s) ctx i j k w)) = f w" "f (snd (apiServers (sxAPI s) ctx i k w)) = f w"
    for ctx w now r i j k using assms by (simp_all add: service_leaves_def leaves_snd)
  have st: "f (snd (storeCountries s now b cs w)) = f w" for now b cs w
    by (simp add: storeCountries_def Let_def case_prod_beta l split: option.split)
  have c: "f (snd (command_Countries s ctx r w)) = f w" for ctx r w
    by (simp add: command_Countries_def Let_def case_prod_beta l st split: sum.split option.split bool.split)
  have k: "f (snd (candidateServers s ctx q cn i w)) = f w" for ctx q cn i w
    by (simp add: candidateServers_def l)
  have r: "f (snd (command_Recommend s ctx q w)) = f w" for ctx q w
    by (simp add: command_Recommend_def case_prod_beta c k split: sum.split)
  show "leaves f (command_Countries s ctx refresh)" "leaves f (command_Recommend s ctx q)" "leaves f (RecommendConnection s ctx q)"
    using c r by (auto simp: leaves_def RecommendConnection_def split: prod.splits sum.splits) (metis snd_conv)+
qed

section \<open>The credential services and the record\<close>

definition store_leaves :: "'w credStore \<Rightarrow> ('w \<Rightarrow> 'x) \<Rightarrow> bool" where
  "store_leaves st f \<longleftrightarrow> (\<forall>ctx k. (\<forall>v. leaves f (csPut st ctx k v)) \<and> leaves f (csGet st ctx k) \<and> leaves f (csDelete st ctx k))"

definition lock_leaves :: "'w credLocker \<Rightarrow> ('w \<Rightarrow> 'x) \<Rightarrow> bool" where
  "lock_leaves lock f \<longleftrightarrow> (\<forall>ctx w. f (snd (lock ctx w)) = f w \<and> (\<forall>release. fst (lock ctx w) = Inr release \<longrightarrow> leaves f release))"

lemma store_steps:
  assumes "store_leaves st f"
  shows "f (snd (csPut st ctx k v w)) = f w" "f (snd (csGet st ctx k w)) = f w" "f (snd (csDelete st ctx k w)) = f w"
  using assms by (simp_all add: store_leaves_def leaves_snd)

lemma capture_leaves: "store_leaves st f \<Longrightarrow> f (snd (credCapture st ctx k w)) = f w"
  by (simp add: credCapture_def case_prod_beta store_steps split: sum.split)

lemma rollback_leaves: "store_leaves st f \<Longrightarrow> f (snd (credRollback st ctx a b w)) = f w"
  by (simp add: credRollback_def credRestore_def Let_def case_prod_beta store_steps split: option.split)

lemma transact_leaves: "store_leaves st f \<Longrightarrow> f (snd (snd (credTransact st ctx t pr w))) = f w"
  by (simp add: credTransact_def failedLogin_def case_prod_beta store_steps capture_leaves rollback_leaves split: sum.split option.split)

lemma remove_leaves: "store_leaves st f \<Longrightarrow> f (snd (snd (removePair st ctx a b w))) = f w"
  by (simp add: removePair_def deleteIfPresent_def failedRemoval_def case_prod_beta store_steps rollback_leaves split: option.split)

lemma deferRelease_leaves: "leaves f release \<Longrightarrow> f (snd (snd (deferRelease s z release x))) = f (snd (snd x))"
  by (simp add: deferRelease_def case_prod_beta leaves_snd split: option.split)

lemma credentials_leave:
  assumes st: "store_leaves st f" and lk: "lock_leaves lock f" and pv: "\<And>ctx t. leaves f (provision ctx t)"
  shows "f (snd (snd (Login \<lparr>lsProvisioner = Some provision, lsStore = Some st, lsLocker = Some lock\<rparr> ctx t w))) = f w"
    "f (snd (snd (auth_Inspect \<lparr>auStore = Some st, auLocker = Some lock\<rparr> ctx w))) = f w"
    "f (snd (snd (LogoutLocal \<lparr>auStore = Some st, auLocker = Some lock\<rparr> ctx w))) = f w"
proof -
  obtain rl wa where l: "lock ctx w = (rl, wa)" by (metis prod.exhaust)
  have wa: "f wa = f w" and rel: "\<And>release. rl = Inr release \<Longrightarrow> leaves f release"
    using lk [unfolded lock_leaves_def, rule_format, of ctx w] l by auto
  show "f (snd (snd (Login \<lparr>lsProvisioner = Some provision, lsStore = Some st, lsLocker = Some lock\<rparr> ctx t w))) = f w"
    "f (snd (snd (auth_Inspect \<lparr>auStore = Some st, auLocker = Some lock\<rparr> ctx w))) = f w"
    "f (snd (snd (LogoutLocal \<lparr>auStore = Some st, auLocker = Some lock\<rparr> ctx w))) = f w"
    by (simp_all add: Login_def auth_Inspect_def LogoutLocal_def auth_acquire_def l case_prod_beta deferRelease_leaves [OF rel] wa leaves_snd [OF pv]
        capture_leaves [OF st] transact_leaves [OF st] remove_leaves [OF st] split: sum.split)
qed

text \<open>The services of the program.\<close>

lemma native_leaves:
  assumes "\<And>ctx i p a. leaves f (run ctx i p a)" "NewLogin run helper = Inr native"
  shows "store_leaves (nativeStoreOf native) f"
proof -
  have r: "nsRunner native = Some run" using assms(2) by (auto simp: NewLogin_def split: option.splits)
  show ?thesis
    by (auto simp: store_leaves_def leaves_def nativeStoreOf_def native_Put_def native_Get_def native_Delete_def native_write_def r
        dest!: leavesD [OF assms(1)] split: option.splits prod.splits if_splits)
qed

lemma provision_leaves:
  assumes "\<And>n r ctx rq. leaves f (naTransport c n r ctx rq)" "naHTTP c = None"
  shows "leaves f (auth_Provision c ctx t)"
  using assms(2) by (auto simp: leaves_def auth_Provision_def auth_httpClient_def Let_def dest!: leavesD [OF assms(1)] split: option.splits sum.splits prod.splits)

lemma userLock_view: "lock_leaves (userLock (configDir h)) (view h sess)"
proof -
  have "leaves (view h sess) (userLock (configDir h) ctx)" for ctx
    unfolding view_def by (rule userLock_leaves(1))
  moreover have "leaves (view h sess) release" if "userLock (configDir h) ctx w = (Inr release, w1)" for ctx w release w1
    unfolding view_def by (rule userLock_leaves(2) [OF that])
  ultimately show ?thesis unfolding lock_leaves_def by (metis leaves_snd prod.collapse)
qed

section \<open>The program keeps every session named\<close>

definition program_named :: "'v mainHost \<Rightarrow> ('v \<Rightarrow> string set) \<Rightarrow> fsWorld \<times> 'v \<Rightarrow> bool" where
  "program_named h sess w \<longleftrightarrow> named (mnMetadataCodec h) (configDir h) sess w"

lemma view_named: "view h sess w1 = view h sess w \<Longrightarrow> program_named h sess w1 = program_named h sess w"
  unfolding program_named_def by (rule named_view) (simp_all add: view_def)

lemma leaves_program_named: "leaves (view h sess) run \<Longrightarrow> leaves (program_named h sess) run"
  by (auto simp: leaves_def intro!: view_named)

lemma console_named: "console_leaves c (view h sess) \<Longrightarrow> console_leaves c (program_named h sess)"
  by (simp add: console_leaves_def input_leaves_def leaves_program_named)

lemma country_leaves:
  assumes "environment_ok h sess" "acHTTP client = mnHTTP h"
  shows "service_leaves (countryService h root client) (view h sess)"
  using assms by (simp add: service_leaves_def countryService_def environment_ok_def nordPublicAPI_def api_view cache_view)

lemma connectionService_user: "userConnection (connectionService h service store dir) (mnMetadataCodec h) dir = connectionService h service store dir"
  by (simp add: userConnection_def connectionService_def)

lemma connection_ok:
  assumes "environment_ok h sess" "service_leaves service (view h sess)" "store_leaves store (view h sess)"
  shows "service_ok (connectionService h service store (configDir h)) (mnMetadataCodec h) (configDir h) sess"
proof -
  have v: "view h sess = (\<lambda>w. (userRecord (mnMetadataCodec h) (configDir h) w, sess (snd w)))" by (rule ext) (simp add: view_def)
  show ?thesis using assms service_view(3) [OF assms(2)]
    by (simp add: service_ok_def adapters_leave_def environment_ok_def connectionService_def store_leaves_def v [symmetric])
qed

lemma connections_named:
  assumes "environment_ok h sess" "service_leaves service (view h sess)" "store_leaves store (view h sess)" "program_named h sess w"
    and "runCommand (connectionService h service store (configDir h)) ctx c w = (r, e, w1)"
  shows "program_named h sess w1 \<and> (e = None \<longrightarrow> reports c r (userRecord (mnMetadataCodec h) (configDir h) w1) (sess (snd w1)))"
  using command_named [OF connection_ok [OF assms(1-3)], unfolded connectionService_user, of w ctx c r e w1] assms(4,5)
  by (simp add: program_named_def)

lemma configured_leaves:
  assumes "environment_ok h sess" "configureAuthentication h = Inr (a, store)"
  shows "store_leaves store (view h sess)" "view h sess (snd (snd (anLogin a ctx t w))) = view h sess w"
    "view h sess (snd (snd (anCredentialStatus a ctx w))) = view h sess w" "view h sess (snd (snd (anLogoutLocal a ctx w))) = view h sess w"
    "os_UserConfigDir (mnHome h) = Inr (mnHome h @ ''/Library/Application Support'')"
proof -
  obtain helper where 1: "locatePackagedHelper (clSHA256 (mnConsole h)) (mnPackage h) (biHelperSHA256 (clBuild (mnConsole h))) = Inr helper"
    using assms(2) by (cases "locatePackagedHelper (clSHA256 (mnConsole h)) (mnPackage h) (biHelperSHA256 (clBuild (mnConsole h)))")
      (simp_all add: configureAuthentication_def)
  obtain native where n: "NewLogin (mnKeychain h) helper = Inr native"
    using assms(2) 1 by (cases "NewLogin (mnKeychain h) helper") (simp_all add: configureAuthentication_def)
  have c: "os_UserConfigDir (mnHome h) = Inr (mnHome h @ ''/Library/Application Support'')"
    using assms(2) 1 n by (cases "mnHome h = []") (simp_all add: configureAuthentication_def os_UserConfigDir_def)
  have a: "a = productionAuthentication \<lparr>lsProvisioner = Some (auth_Provision (authClientOf h)), lsStore = Some store, lsLocker = Some (userLock (configDir h))\<rparr>
        \<lparr>auStore = Some store, auLocker = Some (userLock (configDir h))\<rparr>" and s: "store = nativeStoreOf native"
    using assms(2) 1 n c by (auto simp: configureAuthentication_def configDir_def Let_def)
  have st: "store_leaves store (view h sess)" using native_leaves [OF _ n] assms(1) s by (auto simp: environment_ok_def)
  have pv: "leaves (view h sess) (auth_Provision (authClientOf h) ctx t)" for ctx t
    by (rule provision_leaves) (use assms(1) in \<open>auto simp: authClientOf_def environment_ok_def\<close>)
  note l = credentials_leave [where provision = "auth_Provision (authClientOf h)", OF st userLock_view pv]
  show "store_leaves store (view h sess)" "view h sess (snd (snd (anLogin a ctx t w))) = view h sess w"
    "view h sess (snd (snd (anCredentialStatus a ctx w))) = view h sess w" "view h sess (snd (snd (anLogoutLocal a ctx w))) = view h sess w"
    using st l by (simp_all add: a productionAuthentication_def)
  show "os_UserConfigDir (mnHome h) = Inr (mnHome h @ ''/Library/Application Support'')" by (rule c)
qed

lemma connections_commands:
  "cxConnect (connectionsOf s) ctx q w = runCommand s ctx (CmdConnect q) w" "cxDisconnect (connectionsOf s) ctx w = runCommand s ctx CmdDisconnect w"
  "cxReconnect (connectionsOf s) ctx x w = runCommand s ctx (CmdReconnect x) w" "cxStatus (connectionsOf s) ctx w = runCommand s ctx CmdStatus w"
  by (simp_all add: connectionsOf_def)

lemma backend_connections:
  assumes "environment_ok h sess" "bkConnection (backendOf h service) = Some c"
  shows "\<exists>store. c = connectionsOf (connectionService h service store (configDir h)) \<and> store_leaves store (view h sess)"
proof (cases "configureAuthentication h")
  case (Inr y)
  then obtain a store where y: "configureAuthentication h = Inr (a, store)" by (metis prod.exhaust)
  then have "c = connectionsOf (connectionService h service store (configDir h))"
    using assms(2) configured_leaves(5) [OF assms(1) y] by (simp add: backendOf_def Let_def configDir_def)
  then show ?thesis using configured_leaves(1) [OF assms(1) y] by blast
qed (use assms(2) in \<open>simp add: backendOf_def Let_def\<close>)

lemma backend_authentication:
  assumes "environment_ok h sess" "bkAuthentication (backendOf h service) = Some a"
  shows "\<exists>store. configureAuthentication h = Inr (a, store)"
  using assms(2) by (auto simp: backendOf_def Let_def split: sum.splits)

lemma backend_catalog:
  "bkCountries (backendOf h service) = command_Countries service" "bkRecommend (backendOf h service) = command_Recommend service"
  by (simp_all add: backendOf_def Let_def case_prod_beta split: sum.split)

lemma program_backend_keeps:
  assumes env: "environment_ok h sess" and sv: "service_leaves service (view h sess)"
  shows "backend_keeps (backendOf h service) (program_named h sess)"
  unfolding backend_keeps_def
proof (intro allI impI conjI)
  fix ctx w assume n: "program_named h sess w"
  show "program_named h sess (snd (bkCountries (backendOf h service) ctx r w))" for r
    using view_named [OF leaves_snd [OF service_view(1) [OF sv]]] n by (simp add: backend_catalog)
  show "program_named h sess (snd (bkRecommend (backendOf h service) ctx q w))" for q
    using view_named [OF leaves_snd [OF service_view(2) [OF sv]]] n by (simp add: backend_catalog)
  show "program_named h sess (snd (snd (anLogin a ctx t w)))" "program_named h sess (snd (snd (anCredentialStatus a ctx w)))"
    "program_named h sess (snd (snd (anLogoutLocal a ctx w)))" if a: "bkAuthentication (backendOf h service) = Some a" for a t
  proof -
    obtain store where y: "configureAuthentication h = Inr (a, store)" using backend_authentication [OF env a] by blast
    show "program_named h sess (snd (snd (anLogin a ctx t w)))" "program_named h sess (snd (snd (anCredentialStatus a ctx w)))"
      "program_named h sess (snd (snd (anLogoutLocal a ctx w)))"
      using view_named [OF configured_leaves(2) [OF env y]] view_named [OF configured_leaves(3) [OF env y]] view_named [OF configured_leaves(4) [OF env y]] n
      by simp_all
  qed
  fix c assume "bkConnection (backendOf h service) = Some c"
  then obtain store where c: "c = connectionsOf (connectionService h service store (configDir h))" and st: "store_leaves store (view h sess)"
    using backend_connections [OF env] by blast
  have k: "program_named h sess (snd (snd (runCommand (connectionService h service store (configDir h)) ctx cmd w)))" for cmd
    using connections_named [OF env sv st n] by (metis prod.collapse)
  show "program_named h sess (snd (snd (cxConnect c ctx q w)))" "program_named h sess (snd (snd (cxDisconnect c ctx w)))"
    "program_named h sess (snd (snd (cxReconnect c ctx x w)))" "program_named h sess (snd (snd (cxStatus c ctx w)))" for q x
    unfolding c connections_commands by (rule k)+
qed

text \<open>What the exit code zero of a command means for the record and the sessions.\<close>

definition told :: "'v mainHost \<Rightarrow> ('v \<Rightarrow> string set) \<Rightarrow> string \<Rightarrow> fsWorld \<times> 'v \<Rightarrow> bool" where
  "told h sess c w \<longleftrightarrow>
     (c = ''connect'' \<longrightarrow> (\<exists>m. userRecord (mnMetadataCodec h) (configDir h) w = Some (Some m) \<and> mdPhase m = ''connected'')) \<and>
     (c = ''disconnect'' \<longrightarrow> userRecord (mnMetadataCodec h) (configDir h) w = None \<and> sess (snd w) = {})"

lemma runUser_cases:
  assumes "runUser h w = (code, w1)"
  shows "(code = ExitNetwork \<and> (\<exists>s. w1 = printErr (mnConsole h) s w)) \<or> (\<exists>root client. acHTTP client = mnHTTP h \<and>
    RunWithInput (mnConsole h) (backendOf h (countryService h root client)) (mnContext h) (tl (mnArgs h)) w = (code, w1))"
proof (cases "os_UserCacheDir (mnHome h)")
  case (Inl e)
  then show ?thesis using assms by (auto simp: runUser_def Let_def)
next
  case (Inr userCache)
  show ?thesis
  proof (cases "nordapi_New (mnParse h) DefaultBaseURL (Some (mnHTTP h))")
    case (Inl e)
    then show ?thesis using assms Inr by (auto simp: runUser_def Let_def)
  next
    case (Inr client)
    then have "acHTTP client = mnHTTP h" by (auto simp: nordapi_New_def split: option.splits if_splits)
    then show ?thesis using assms Inr \<open>os_UserCacheDir (mnHome h) = Inr userCache\<close> unfolding runUser_def Let_def by auto
  qed
qed

lemma outcome_view: "console_leaves h f \<Longrightarrow> f (snd (connectionOutcome h j x)) = f (snd (snd x))"
  by (simp add: connectionOutcome_def case_prod_beta console_keeps split: option.split)

lemma told_view: "view h sess w1 = view h sess w \<Longrightarrow> told h sess c w1 = told h sess c w"
  by (simp add: told_def view_def)

lemma success_told:
  assumes env: "environment_ok h sess" and sv: "service_leaves service (view h sess)" and n: "program_named h sess w"
    and run: "RunWithInput (mnConsole h) (backendOf h service) ctx (c # rest) w = (ExitOK, w1)" and nh: "\<forall>a\<in>set rest. \<not> isHelp a"
  shows "told h sess c w1"
proof -
  let ?C = "mnConsole h" and ?b = "backendOf h service"
  have con: "console_leaves ?C (view h sess)" using env by (simp add: environment_ok_def)
  have tell: "told h sess c w1" if cx: "bkConnection ?b = Some cx" and x: "connectionOutcome ?C j x = (ExitOK, w1)"
    and cmd: "\<And>s. cx = connectionsOf s \<Longrightarrow> x = runCommand s ctx k w" and k: "\<And>r w. reports k r (userRecord (mnMetadataCodec h) (configDir h) w) (sess (snd w)) \<Longrightarrow> told h sess c w"
    for cx j x k
  proof -
    obtain store where s: "cx = connectionsOf (connectionService h service store (configDir h))" "store_leaves store (view h sess)"
      using backend_connections [OF env cx] by blast
    obtain r e w2 where r: "x = (r, e, w2)" by (metis prod.exhaust)
    have "e = None" using outcome_ok [OF x] r by simp
    then have "told h sess c w2" using connections_named [OF env sv s(2) n cmd [OF s(1), symmetric, unfolded r]] k by blast
    then show ?thesis using told_view [of h sess w1 w2 c] outcome_view [OF con, of j x] x r by simp
  qed
  consider "c = ''connect''" | "c = ''disconnect''" | "c \<noteq> ''connect''" "c \<noteq> ''disconnect''" by blast
  then show ?thesis
  proof cases
    case 1
    then have "runConnect ?C ?b ctx rest w = (ExitOK, w1)" using run by (simp add: RunWithInput_def isHelpCommand_def isHelp_def)
    from connect_ok [OF this nh] obtain cx q where "bkConnection ?b = Some cx"
      "connectionOutcome ?C (hasJSON rest) (cxConnect cx ctx q w) = (ExitOK, w1)" by blast
    then show ?thesis by (rule tell [where k = "CmdConnect q"]) (auto simp: connections_commands told_def 1)
  next
    case 2
    then have "runDisconnect ?C ?b ctx rest w = (ExitOK, w1)" using run by (simp add: RunWithInput_def isHelpCommand_def isHelp_def)
    from disconnect_ok [OF this nh] obtain cx where "bkConnection ?b = Some cx"
      "connectionOutcome ?C (hasJSON rest) (cxDisconnect cx ctx w) = (ExitOK, w1)" by blast
    then show ?thesis by (rule tell [where k = CmdDisconnect]) (auto simp: connections_commands told_def 2)
  qed (simp add: told_def)
qed


section \<open>A user without a connection\<close>

text \<open>Streams, requests and processes do nothing and the helper cannot be reached.\<close>

definition silentTerminal :: "(fsWorld \<times> time) terminal" where
  "silentTerminal = \<lparr>tmIsTerminal = Some (\<lambda>fd w. (False, w)), tmReadPassword = Some (\<lambda>fd w. (([], None), w))\<rparr>"

definition silentCli :: "(fsWorld \<times> time) cliHost" where
  "silentCli = \<lparr>clOut = (\<lambda>s w. (None, w)), clErr = (\<lambda>s w. (None, w)), clJSON = (\<lambda>v. None), clErrorText = (\<lambda>e. []),
     clQuote = (\<lambda>s. s), clBuild = \<lparr>biVersion = ''dev'', biCommit = [], biDate = [], biHelperSHA256 = hex_EncodeToString (replicate 32 7)\<rparr>, clReader = None, clFD = 0,
     clTerminal = silentTerminal, clTerm = silentTerminal, clTables = asciiTables, clText6 = noText6, clSHA256 = (\<lambda>d. replicate 32 (hd d))\<rparr>"

definition strangerClient :: "(fsWorld \<times> time) clientHost" where
  "strangerClient = \<lparr>chDial = (\<lambda>ctx p w. (Inl (Err ''no socket''), w)), chCloseWrite = (\<lambda>w. (None, w)), chAnswer = (\<lambda>b w. ([], w)),
     chClose = (\<lambda>w. w), chExecutable = (\<lambda>w. (Inl (Err ''no path''), w)), chEvalSymlinks = (\<lambda>p w. (Inr p, w)), chPipes = (\<lambda>c w. (None, w)),
     chStart = (\<lambda>c w. (Inl (Err ''no sudo''), w)), chReply = (\<lambda>b w. ([], w)), chDone = (\<lambda>ctx w. (None, w)), chKill = (\<lambda>w. w),
     chWait = (\<lambda>w. (None, w)), chRelease = (\<lambda>w. (None, w)), chRequests = oneCodec disconnectRequest, chResponses = replyCodec\<rparr>"

definition sampleMain :: "time mainHost" where
  "sampleMain = \<lparr>mnArgs = [''nordmac'', ''disconnect''], mnHome = ''/Users/a'', mnCacheOverride = [], mnGetuid = 501, mnStdin = [], mnStdout = freshWriter,
     mnContext = CallerCtx, mnConsole = silentCli, mnParse = (\<lambda>s. Some nordURL), mnHTTP = (\<lambda>ctx rq w. (Inl (Err ''offline''), w)),
     mnTransport = (\<lambda>n r ctx rq w. (Inl (Err ''offline''), w)), mnNow = (\<lambda>w. (1000, w)), mnRand = (\<lambda>w. (replicate 16 0, w)),
     mnRunner = \<lparr>rnRun = (\<lambda>ctx p a w. (Inl ''no tools'', w))\<rparr>, mnKeychain = (\<lambda>ctx i p a w. (([], [], None), w)), mnPackage = samplePackage,
     mnHelper = strangerClient, mnDaemon = bareHost, mnCountryCodec = oneCodec [], mnServerCodec = oneCodec [],
     mnProvisioningCodec = oneCodec (0, []), mnCacheCodec = oneCodec \<lparr>cfSchemaVersion = 1, cfFetchedAt = 1, cfCountries = []\<rparr>, mnMetadataCodec = metaCodec\<rparr>"

definition sampleSessions :: "time \<Rightarrow> string set" where
  "sampleSessions t = (if t = 0 then {} else {replicate 32 CHR ''a''})"

lemma stranger_exchange: "client_Exchange strangerClient [] ctx rq sec w = (r, w1) \<Longrightarrow>
    w1 = w \<and> (rqOperation rq = OperationDisconnect \<longrightarrow> (\<exists>e. r = Inl e))"
  by (auto simp: client_Exchange_def client_socket_def client_bootstrap_def locateExecutable_def strangerClient_def split: if_splits sum.splits)

lemma sample_environment: "environment_ok sampleMain sampleSessions"
proof -
  have "helper_tracks (client_Exchange strangerClient []) st se" for st and se :: "fsWorld \<times> time \<Rightarrow> string set"
    by (auto simp: helper_tracks_def dest!: stranger_exchange)
  then show ?thesis
    by (auto simp: environment_ok_def sampleMain_def console_leaves_def input_leaves_def leaves_def silentCli_def silentTerminal_def
        codec_line_ok_def metaCodec_def)
qed

lemma sample_program_named: "program_named sampleMain sampleSessions (sampleFiles, 0)"
  by (simp add: program_named_def named_def recorded_def sampleSessions_def)

definition sampleHelperPath :: string where
  "sampleHelperPath = helperCandidate ''/opt/nordmac''"

lemma sampleHelperPath_clean: "canonicalHelper sampleHelperPath = None"
  by code_simp

definition sampleConfigDir :: string where
  "sampleConfigDir = filepath_Join (''/Users/a'' @ ''/Library/Application Support'') ''nordmac''"

lemma sampleConfigDir_clean: "filepath_IsAbs sampleConfigDir \<and> filepath_Clean sampleConfigDir = sampleConfigDir \<and> sampleConfigDir \<noteq> []"
  by code_simp

lemma sample_located: "locatePackagedHelper (\<lambda>d. replicate 32 (hd d)) samplePackage (hex_EncodeToString (replicate 32 7)) = Inr sampleHelperPath"
  by (simp add: locatePackagedHelper_def hex_decode_encode samplePackage_def equalDigest_eq safeOwner_def sameOwner_def filepath_IsAbs_def Let_def sampleHelperPath_def)

text \<open>The files while the lock is held and afterwards.\<close>

definition sampleHeld :: fsWorld where
  "sampleHeld = sampleFiles\<lparr>fsDirs := [sampleConfigDir \<mapsto> \<lparr>nKind = KDir, nPerm = 0x1C0, nUid = 501, nData = []\<rparr>],
     fsFiles := [(sampleConfigDir, cred_filename) \<mapsto> \<lparr>nKind = KRegular, nPerm = 0x180, nUid = 501, nData = []\<rparr>],
     fsNextFd := 4, fsFlocks := [(sampleConfigDir, cred_filename) \<mapsto> 3]\<rparr>"

lemma sample_held: "cred_Lock sampleConfigDir CallerCtx sampleFiles = (Inr (release_once ''credential lock'' (sampleConfigDir, cred_filename) 3), sampleHeld)"
  using sampleConfigDir_clean
  by (simp add: cred_Lock_def ctx_Err_def sampleFiles_def cred_ensureDirectory_def
      os_MkdirAll_def os_LstatDir_def syscall_clean validatePrivate_def reject_def os_OpenLock_def Let_def cred_checks_def os_probe_def flock_try_def
      sampleHeld_def)

lemma sample_unheld: "\<exists>f. release_once ''credential lock'' (sampleConfigDir, cred_filename) 3 sampleHeld = (None, f)"
  using release_clean [of sampleHeld "(sampleConfigDir, cred_filename)" 3] by (simp add: sampleHeld_def sampleFiles_def)

lemma sample_no_record: "md_Load cd (metadataPath sampleConfigDir) sampleHeld = (Inl (os_error ENOENT), sampleHeld)"
  by (simp add: md_Load_def os_ReadFile_def syscall_clean sampleHeld_def sampleFiles_def metadataPath_def cred_filename_def)

lemma sampleMain_fields:
  "mnArgs sampleMain = [''nordmac'', ''disconnect'']" "mnHome sampleMain = ''/Users/a''" "mnCacheOverride sampleMain = []" "mnStdout sampleMain = freshWriter"
  "mnContext sampleMain = CallerCtx" "mnConsole sampleMain = silentCli" "mnMetadataCodec sampleMain = metaCodec"
  by (simp_all add: sampleMain_def)

lemma sampleMain_config: "configDir sampleMain = sampleConfigDir"
  by (simp add: configDir_def sampleMain_fields sampleConfigDir_def)

lemma sample_disconnect:
  "\<exists>f. connection_Disconnect (connectionService sampleMain service store sampleConfigDir) CallerCtx (sampleFiles, 0) = (stateResult ''disconnected'', None, f, 0)"
proof -
  obtain f where "release_once ''credential lock'' (sampleConfigDir, cred_filename) 3 sampleHeld = (None, f)" using sample_unheld by blast
  then show ?thesis
    by (simp add: connection_Disconnect_def underLock_def service_lock_def connectionService_def userLock_def onFiles_def sample_held
        connection_disconnectLocked_def userMetadata_def metadataFile_def sample_no_record os_error_def Let_def)
qed

lemma sample_configured: "\<exists>a store. configureAuthentication sampleMain = Inr (a, store)"
  by (simp add: configureAuthentication_def sampleMain_def silentCli_def sample_located NewLogin_def sampleHelperPath_clean os_UserConfigDir_def Let_def)

lemma sample_backend:
  "\<exists>store. bkConnection (backendOf sampleMain service) = Some (connectionsOf (connectionService sampleMain service store sampleConfigDir))"
proof -
  obtain a store where "configureAuthentication sampleMain = Inr (a, store)" using sample_configured by blast
  then show ?thesis using sampleMain_config by (auto simp: backendOf_def Let_def os_UserConfigDir_def sampleMain_fields configDir_def)
qed

lemma sample_run: "\<exists>w1. main_run sampleMain (sampleFiles, 0) = Some (ExitOK, freshWriter, w1)"
proof -
  define client where "client = \<lparr>acBase = nordURL, acHTTP = mnHTTP sampleMain\<rparr>"
  have c: "nordapi_New (mnParse sampleMain) DefaultBaseURL (Some (mnHTTP sampleMain)) = Inr client"
    by (simp add: nordapi_New_def sampleMain_def nordURL_def client_def)
  define b where "b = backendOf sampleMain (countryService sampleMain ''/Users/a/Library/Caches'' client)"
  obtain store where s: "bkConnection b = Some (connectionsOf (connectionService sampleMain (countryService sampleMain ''/Users/a/Library/Caches'' client) store sampleConfigDir))"
    unfolding b_def using sample_backend by blast
  obtain f where d: "connection_Disconnect (connectionService sampleMain (countryService sampleMain ''/Users/a/Library/Caches'' client) store sampleConfigDir)
      CallerCtx (sampleFiles, 0) = (stateResult ''disconnected'', None, f, 0)"
    using sample_disconnect by blast
  have "\<exists>w1. RunWithInput silentCli b CallerCtx [''disconnect''] (sampleFiles, 0) = (ExitOK, w1)"
    by (simp add: RunWithInput_def isHelpCommand_def isHelp_def runDisconnect_def Let_def withArgs_def s connectionsOf_def d connectionOutcome_def
        writeConnectionResult_def hasJSON_def)
  then obtain w1 where r: "RunWithInput silentCli b CallerCtx [''disconnect''] (sampleFiles, 0) = (ExitOK, w1)" by blast
  have "runUser sampleMain (sampleFiles, 0) = (ExitOK, w1)"
    unfolding runUser_def Let_def using r c
    by (simp add: b_def sampleMain_fields os_UserCacheDir_def)
  then show ?thesis by (simp add: main_run_def sampleMain_fields)
qed


end
