(* ===== verification/Harness_Base.thy ===== *)
theory Harness_Base
  imports Credential_Properties Packaged_Helper Helper_Daemon
begin

text \<open>
  What the validation programs under \<^verbatim>\<open>cmd\<close> share: a run of checks that stops at the first error, two more calls of
  \<^verbatim>\<open>os\<close>, and the environment of the three programs that exercise the Keychain. The values of their flags are
  arguments: parsing them is the work of \<^verbatim>\<open>flag.Parse\<close>, which ends the process on a malformed one.
\<close>

declare split_paired_All [simp del] split_paired_Ex [simp del]

section \<open>A chain of steps\<close>

text \<open>A sequence of steps of the form \<^verbatim>\<open>if err := step(); err != nil { return err }\<close>.\<close>

fun early :: "('w \<Rightarrow> gerror option \<times> 'w) list \<Rightarrow> 'w \<Rightarrow> gerror option \<times> 'w" where
  "early [] w = (None, w)"
| "early (f # fs) w = (case f w of (Some e, w1) \<Rightarrow> (Some e, w1) | (None, w1) \<Rightarrow> early fs w1)"

lemma early_keeps:
  assumes "early fs w = (e, w1)" "\<And>f w e w1. f \<in> set fs \<Longrightarrow> f w = (e, w1) \<Longrightarrow> R w w1" "\<And>w. R w w" "\<And>a b c. R a b \<Longrightarrow> R b c \<Longrightarrow> R a c"
  shows "R w w1"
  using assms(1,2)
proof (induction fs arbitrary: w)
  case Nil
  then show ?case using assms(3) by simp
next
  case (Cons f fs)
  obtain r w2 where f: "f w = (r, w2)" by (metis prod.exhaust)
  have s: "R w w2" using Cons.prems(2) [of f w r w2] f by simp
  show ?case
  proof (cases r)
    case None
    have "R w2 w1" using Cons.prems f None by (intro Cons.IH) auto
    then show ?thesis using s assms(4) by blast
  next
    case (Some x)
    then show ?thesis using Cons.prems(1) f s by simp
  qed
qed

section \<open>Trees of files\<close>

definition below :: "string \<Rightarrow> string \<Rightarrow> bool" where
  "below d p = (p = d \<or> strings_HasPrefix p (d @ ''/''))"

text \<open>\<^verbatim>\<open>os.RemoveAll\<close>: what is below the directory, then the directory; an absent one is no error. \<^verbatim>\<open>os.ReadDir\<close> gives
  the names of what the directory holds; what the code asks of them does not depend on their order.\<close>

definition os_RemoveAll :: "string \<Rightarrow> fsWorld \<Rightarrow> oserr option \<times> fsWorld" where
  "os_RemoveAll d w = (case syscall w of
     (False, w1) \<Rightarrow> (Some EIO, w1)
   | (True, w1) \<Rightarrow>
      (let w2 = w1\<lparr>fsFiles := (\<lambda>p. if below d (fst p) then None else fsFiles w1 p),
                   fsDirs := (\<lambda>p. if p \<noteq> d \<and> below d p then None else fsDirs w1 p)\<rparr>
       in case syscall w2 of
         (False, w3) \<Rightarrow> (Some EIO, w3)
       | (True, w3) \<Rightarrow> (None, w3\<lparr>fsDirs := (fsDirs w3)(d := None)\<rparr>)))"

definition os_ReadDir :: "string \<Rightarrow> fsWorld \<Rightarrow> (oserr + string set) \<times> fsWorld" where
  "os_ReadDir d w = (case syscall w of
     (False, w1) \<Rightarrow> (Inl EIO, w1)
   | (True, w1) \<Rightarrow> (case fsDirs w1 d of
       None \<Rightarrow> (Inl ENOENT, w1)
     | Some n \<Rightarrow> if nKind n \<noteq> KDir then (Inl EIO, w1) else (Inr {name. fsFiles w1 (d, name) \<noteq> None \<or> (CHR ''/'' \<notin> set name \<and> fsDirs w1 (d @ ''/'' @ name) \<noteq> None)}, w1)))"

text \<open>Nothing outside the directory is touched.\<close>

definition same_outside :: "string \<Rightarrow> fsWorld \<Rightarrow> fsWorld \<Rightarrow> bool" where
  "same_outside d w w1 \<longleftrightarrow> (\<forall>p. \<not> below d (fst p) \<longrightarrow> fsFiles w1 p = fsFiles w p) \<and> (\<forall>p. \<not> below d p \<longrightarrow> fsDirs w1 p = fsDirs w p)"

lemma same_outside_refl [simp]: "same_outside d w w"
  by (simp add: same_outside_def)

lemma same_outside_trans: "same_outside d a b \<Longrightarrow> same_outside d b c \<Longrightarrow> same_outside d a c"
  by (simp add: same_outside_def)

lemma below_self [simp]: "below d d"
  by (simp add: below_def)

lemma RemoveAll_outside: "os_RemoveAll d w = (e, w1) \<Longrightarrow> same_outside d w w1"
  by (auto simp: os_RemoveAll_def same_outside_def Let_def dest!: syscall_frameD split: prod.splits bool.splits)

lemma RemoveAll_gone: "os_RemoveAll d w = (None, w1) \<Longrightarrow> (below d p \<longrightarrow> fsDirs w1 p = None) \<and> (below d (fst q) \<longrightarrow> fsFiles w1 q = None)"
  by (auto simp: os_RemoveAll_def Let_def dest!: syscall_frameD split: prod.splits bool.splits if_splits)

lemma Mkdir_outside: "os_Mkdir d perm w = (e, w1) \<Longrightarrow> same_outside d w w1 \<and> (fsDirs w d \<noteq> None \<longrightarrow> e \<noteq> None) \<and>
    (e \<noteq> None \<longrightarrow> fsDirs w1 = fsDirs w) \<and> fsFiles w1 = fsFiles w"
  by (auto simp: os_Mkdir_def same_outside_def dest!: syscall_frameD split: prod.splits bool.splits option.splits)

section \<open>The environment of the Keychain programs\<close>

text \<open>The process runner of \<^verbatim>\<open>nativekeychain\<close>, \<^verbatim>\<open>exec.Command(...).Run()\<close> with the output discarded, the
  random source, and the encoder of the program's result on the standard output. \<open>vhPackage\<close> inspects files.\<close>

record ('w, 'r) validationHost =
  vhGOOS :: string
  vhGeteuid :: int
  vhRunner :: "'w stdinRunner"
  vhExec :: "ctx \<Rightarrow> string \<Rightarrow> string list \<Rightarrow> 'w \<Rightarrow> runErr option \<times> 'w"
  vhRand :: "nat \<Rightarrow> 'w \<Rightarrow> (gerror + byte list) \<times> 'w"
  vhEncode :: "'r \<Rightarrow> 'w \<Rightarrow> gerror option \<times> 'w"
  vhPackage :: packageHost
  vhSHA256 :: "byte list \<Rightarrow> byte list"

text \<open>Random secrets: 32 bytes as hexadecimal text. Two of the programs have the same function.\<close>

definition validation_secret :: "('w, 'r) validationHost \<Rightarrow> 'w \<Rightarrow> (gerror + byte list) \<times> 'w" where
  "validation_secret h w = (case vhRand h 32 w of
     (Inl e, w1) \<Rightarrow> (Inl e, w1)
   | (Inr raw, w1) \<Rightarrow> (Inr (map (\<lambda>ch. of_nat (byte_of ch)) (hex_EncodeToString raw)), w1))"

text \<open>Reading an item back and comparing it.\<close>

definition validation_verify :: "string \<Rightarrow> 'w nativeStore \<Rightarrow> ctx \<Rightarrow> string \<Rightarrow> byte list \<Rightarrow> 'w \<Rightarrow> gerror option \<times> 'w" where
  "validation_verify message s ctx kind expected w = (case native_Get s ctx kind w of
     (Inl e, w1) \<Rightarrow> (Some e, w1)
   | (Inr actual, w1) \<Rightarrow> (reject (actual \<noteq> expected) message, w1))"

section \<open>Which items a run of the helper can change\<close>

text \<open>Everything outside \<open>Q\<close> stays; the home directory, which selects the login Keychain, stays too.\<close>

definition only_items :: "(string \<times> string \<times> string) set \<Rightarrow> kcWorld \<Rightarrow> kcWorld \<Rightarrow> bool" where
  "only_items Q k k1 \<longleftrightarrow> kcHome k1 = kcHome k \<and> (\<forall>q. q \<notin> Q \<longrightarrow> kcItems k1 q = kcItems k q)"

lemma only_items_refl [simp]: "only_items Q k k"
  by (simp add: only_items_def)

lemma only_items_trans: "only_items Q a b \<Longrightarrow> only_items Q b c \<Longrightarrow> only_items Q a c"
  by (simp add: only_items_def)

lemma only_items_same: "same_host k k1 \<Longrightarrow> only_items Q k k1"
  by (simp add: only_items_def same_host_def)

lemma operation_only: "helper_operation op q v k = (r, k1) \<Longrightarrow> only_items {q} k k1"
  by (auto simp: helper_operation_def kc_simps same_host_def only_items_def Let_def
      split: if_splits prod.splits bool.splits secStatus.splits option.splits dest!: kc_step_host)

lemma helper_Run_only:
  assumes "helper_Run ctx v h (native_arguments s op kind) k = (r, k1)" "native_item s k kind \<in> Q"
  shows "only_items Q k k1"
proof -
  obtain out err e where r: "r = (out, err, e)" by (metis prod_cases3)
  show ?thesis
  proof (rule helper_Run_cases [OF assms(1) [unfolded r]])
    assume "same_host k k1" then show ?thesis by (rule only_items_same)
  next
    fix w2 code w3 assume c: "same_host k w2" "helper_operation op (native_item s k kind) v w2 = ((code, out), w3)" "same_host w3 k1"
    have "only_items {native_item s k kind} k k1"
      using operation_only [OF c(2)] c(1,3) unfolding only_items_def same_host_def by metis
    then show ?thesis using assms(2) unfolding only_items_def by (metis singletonD)
  qed
qed

text \<open>The store over the real helper beside another world.\<close>

definition keychainRunner :: "('v \<times> kcWorld) stdinRunner" where
  "keychainRunner ctx stdin binary args = onKeychain (helper_Run ctx stdin binary args)"

definition keychainStore :: "kcWorld nativeStore \<Rightarrow> ('v \<times> kcWorld) nativeStore" where
  "keychainStore s = \<lparr>nsRunner = Some keychainRunner, nsHelper = nsHelper s, nsKeychain = nsKeychain s, nsTarget = nsTarget s\<rparr>"

lemma keychainStore_simps [simp]:
  "nsRunner (keychainStore s) = Some keychainRunner" "nsHelper (keychainStore s) = nsHelper s"
  "native_arguments (keychainStore s) = native_arguments s" "native_validate (keychainStore s) = native_validate (helperStore s)"
  by (simp_all add: keychainStore_def helperStore_def native_arguments_def native_validate_def fun_eq_iff)

lemma keychainStore_write: "native_write (keychainStore s) ctx op kind v w = onKeychain (native_write (helperStore s) ctx op kind v) w"
  by (cases "native_validate (helperStore s) kind"; cases "helper_Run ctx v (nsHelper s) (native_arguments s op kind) (snd w)")
    (auto simp: native_write_def keychainRunner_def onKeychain_def split: option.split prod.split)

lemma keychainStore_Get: "native_Get (keychainStore s) ctx kind w = onKeychain (native_Get (helperStore s) ctx kind) w"
  by (cases "native_validate (helperStore s) kind"; cases "helper_Run ctx [] (nsHelper s) (native_arguments s ''get'' kind) (snd w)")
    (auto simp: native_Get_def keychainRunner_def onKeychain_def split: option.split prod.split)

lemma keychainStore_Delete: "native_Delete (keychainStore s) ctx kind w = onKeychain (native_Delete (helperStore s) ctx kind) w"
  by (cases "native_validate (helperStore s) kind"; cases "helper_Run ctx [] (nsHelper s) (native_arguments s ''delete'' kind) (snd w)")
    (auto simp: native_Delete_def keychainRunner_def onKeychain_def split: option.split prod.split)

lemmas keychainStore_calls = keychainStore_write keychainStore_Get keychainStore_Delete

lemma native_call_only:
  assumes "native_item s k kind \<in> Q"
  shows "native_write (helperStore s) ctx op kind v k = (e, k1) \<Longrightarrow> only_items Q k k1"
    and "native_Get (helperStore s) ctx kind k = (r, k1) \<Longrightarrow> only_items Q k k1"
    and "native_Delete (helperStore s) ctx kind k = (e, k1) \<Longrightarrow> only_items Q k k1"
  using assms by (auto simp: native_write_def native_Get_def native_Delete_def split: option.splits if_splits prod.splits dest: helper_Run_only)

lemma store_call_only:
  assumes "native_item s (snd w) kind \<in> Q"
  shows "native_write (keychainStore s) ctx op kind v w = (e, w1) \<Longrightarrow> fst w1 = fst w \<and> only_items Q (snd w) (snd w1)"
    and "native_Get (keychainStore s) ctx kind w = (r, w1) \<Longrightarrow> fst w1 = fst w \<and> only_items Q (snd w) (snd w1)"
    and "native_Delete (keychainStore s) ctx kind w = (e, w1) \<Longrightarrow> fst w1 = fst w \<and> only_items Q (snd w) (snd w1)"
  using native_call_only [OF assms] by (auto simp: keychainStore_calls onKeychain_def split: prod.splits)

end
