(* ===== verification/Login_Validation.thy ===== *)
theory Login_Validation
  imports Harness_Base
begin

text \<open>
  The validation of the native store on the user's own login Keychain, \<^verbatim>\<open>cmd/nordmac-native-login-keychain-harness\<close>:
  one synthetic item is created, read, replaced, read, deleted and looked for. It is shown that the program leaves every other item
  alone, and an item of that name that was there before as well.
\<close>

declare split_paired_All [simp del] split_paired_Ex [simp del]

section \<open>The program\<close>

record loginKeychainFlags =
  lfHelper :: string
  lfHelperSHA256 :: string
  lfAcknowledged :: bool

record loginKeychainResult =
  lrOK :: bool
  lrOperations :: int
  lrItemAbsent :: bool
  lrError :: "gerror option"

definition validationServiceName :: string where
  "validationServiceName = ''com.github.b1rd33.nordmac.validation.native''"

definition packagePrefix :: string where
  "packagePrefix = ''nordmac-login-keychain-validation-''"

definition packageDirectoryPattern :: "string \<Rightarrow> bool" where
  "packageDirectoryPattern name =
     (strings_HasPrefix name packagePrefix \<and> length name = length packagePrefix + 32 \<and> list_all is_lower_hex (drop (length packagePrefix) name))"

definition ownedByCurrentUser :: "packageHost \<Rightarrow> fsNode \<Rightarrow> bool" where
  "ownedByCurrentUser p info = (nUid info = phEuid p)"

text \<open>A content that cannot be read to its end is \<open>Some None\<close>.\<close>

definition verifyHelper :: "(byte list \<Rightarrow> byte list) \<Rightarrow> packageHost \<Rightarrow> string \<Rightarrow> string \<Rightarrow> gerror option" where
  "verifyHelper sha256 p path expectedHex =
     (if \<not> filepath_IsAbs path \<or> filepath_Clean path \<noteq> path \<or> filepath_Base path \<noteq> ''nordmac-keychain-helper''
      then Some (Err ''invalid packaged helper path'')
      else (let directory = filepath_Dir path in
        if filepath_Dir directory \<noteq> ''/private/tmp'' \<or> \<not> packageDirectoryPattern (filepath_Base directory)
        then Some (Err ''invalid packaged helper directory'')
        else (case phLstat p directory of
          None \<Rightarrow> Some (Err ''packaged helper directory ownership or mode is invalid'')
        | Some directoryInfo \<Rightarrow>
           (if nKind directoryInfo \<noteq> KDir \<or> nPerm directoryInfo \<noteq> 0x1C0 \<or> \<not> ownedByCurrentUser p directoryInfo
            then Some (Err ''packaged helper directory ownership or mode is invalid'')
            else (case phLstat p path of
              None \<Rightarrow> Some (Err ''packaged helper ownership or mode is invalid'')
            | Some info \<Rightarrow>
               (if nKind info \<noteq> KRegular \<or> nPerm info \<noteq> 0x140 \<or> \<not> ownedByCurrentUser p info
                then Some (Err ''packaged helper ownership or mode is invalid'')
                else (case hex_DecodeString expectedHex of
                  None \<Rightarrow> Some (Err ''invalid packaged helper SHA-256'')
                | Some want \<Rightarrow>
                   (if length want \<noteq> 32 then Some (Err ''invalid packaged helper SHA-256'')
                    else (case phOpen p path of
                      None \<Rightarrow> Some (Err ''open packaged helper'')
                    | Some None \<Rightarrow> Some (Err ''hash packaged helper'')
                    | Some (Some content) \<Rightarrow> reject (sha256 content \<noteq> want) ''packaged helper SHA-256 mismatch'')))))))))"

text \<open>The independent lookup with \<^verbatim>\<open>security(1)\<close>: only its exit code 44 says that the item is absent.\<close>

definition independentAbsent :: "('w, 'r) validationHost \<Rightarrow> ctx \<Rightarrow> 'w \<Rightarrow> gerror option \<times> 'w" where
  "independentAbsent h ctx w =
     (case vhExec h ctx ''/usr/bin/security'' [''find-generic-password'', ''-s'', validationServiceName, ''-a'', AccessToken] w of
        (None, w1) \<Rightarrow> (Some (Err ''independent lookup found the validation item after deletion''), w1)
      | (Some e, w1) \<Rightarrow> (reject (e \<noteq> ExitError 44) ''independent deletion verification failed'', w1))"

definition lk_verify :: "'w nativeStore \<Rightarrow> ctx \<Rightarrow> byte list \<Rightarrow> 'w \<Rightarrow> gerror option \<times> 'w" where
  "lk_verify s ctx expected w = validation_verify ''native Keychain returned different data'' s ctx AccessToken expected w"

text \<open>The lookup after the deletion.\<close>

definition lk_gone :: "'w nativeStore \<Rightarrow> ctx \<Rightarrow> 'w \<Rightarrow> gerror option \<times> 'w" where
  "lk_gone s ctx w = (case native_Get s ctx AccessToken w of
     (Inr remaining, w1) \<Rightarrow> (Some (Err ''validation item remained after deletion''), w1)
   | (Inl e, w1) \<Rightarrow> (if errors_Is e ErrCredentialNotFound then (None, w1) else (Some e, w1)))"

definition lk_success :: loginKeychainResult where
  "lk_success = \<lparr>lrOK = True, lrOperations = 8, lrItemAbsent = True, lrError = None\<rparr>"

definition lkCtx :: ctx where
  "lkCtx = WithTimeout 30 Background"

text \<open>From the registration of the cleanup to the return: the error and the variable \<^verbatim>\<open>created\<close> at that moment.\<close>

definition lk_lifecycle :: "('w, loginKeychainResult) validationHost \<Rightarrow> 'w nativeStore \<Rightarrow> 'w \<Rightarrow> gerror option \<times> bool \<times> 'w" where
  "lk_lifecycle h s w = (case validation_secret h w of
     (Inl e, w1) \<Rightarrow> (Some e, False, w1)
   | (Inr first, w1) \<Rightarrow> (case validation_secret h w1 of
       (Inl e, w2) \<Rightarrow> (Some e, False, w2)
     | (Inr second, w2) \<Rightarrow> (case CreateValidation s lkCtx AccessToken first w2 of
         (Some e, w3) \<Rightarrow> (Some e, False, w3)
       | (None, w3) \<Rightarrow> (case early [lk_verify s lkCtx first, ReplaceValidation s lkCtx AccessToken second,
              lk_verify s lkCtx second, native_Delete s lkCtx AccessToken] w3 of
           (Some e, w4) \<Rightarrow> (Some e, True, w4)
         | (None, w4) \<Rightarrow> (case early [lk_gone s lkCtx, independentAbsent h lkCtx, vhEncode h lk_success] w4 of
             (e, w5) \<Rightarrow> (e, False, w5))))))"

definition lk_cleanup :: "'w nativeStore \<Rightarrow> gerror option \<times> bool \<times> 'w \<Rightarrow> gerror option \<times> 'w" where
  "lk_cleanup s ret = (case ret of (retErr, created, w) \<Rightarrow>
     (if \<not> created then (retErr, w)
      else (case native_Delete s (WithTimeout 5 Background) AccessToken w of
        (None, w1) \<Rightarrow> (retErr, w1)
      | (Some e, w1) \<Rightarrow>
         (if errors_Is e ErrCredentialNotFound then (retErr, w1)
          else (errors_Join [retErr, Some (Err ''deferred validation item cleanup failed'')], w1)))))"

definition lk_run :: "('w, loginKeychainResult) validationHost \<Rightarrow> loginKeychainFlags \<Rightarrow> 'w \<Rightarrow> gerror option \<times> 'w" where
  "lk_run h f w =
     (if vhGOOS h \<noteq> ''darwin'' \<or> vhGeteuid h = 0 \<or> \<not> lfAcknowledged f
      then (Some (Err ''login Keychain validation requires an unprivileged macOS user and acknowledgement''), w)
      else (case verifyHelper (vhSHA256 h) (vhPackage h) (lfHelper f) (lfHelperSHA256 f) of
        Some e \<Rightarrow> (Some e, w)
      | None \<Rightarrow> (case NewLoginValidation (vhRunner h) (lfHelper f) of
          Inl e \<Rightarrow> (Some e, w)
        | Inr s \<Rightarrow> (case native_Get s lkCtx AccessToken w of
            (Inr existing, w1) \<Rightarrow> (Some (Err ''validation item already exists; refusing to overwrite or delete it''), w1)
          | (Inl e, w1) \<Rightarrow>
             (if \<not> errors_Is e ErrCredentialNotFound then (Some e, w1)
              else lk_cleanup s (lk_lifecycle h s w1))))))"

definition lk_main :: "('w, loginKeychainResult) validationHost \<Rightarrow> loginKeychainFlags \<Rightarrow> 'w \<Rightarrow> int \<times> 'w" where
  "lk_main h f w = (case lk_run h f w of
     (None, w1) \<Rightarrow> (0, w1)
   | (Some e, w1) \<Rightarrow> (1, snd (vhEncode h \<lparr>lrOK = False, lrOperations = 0, lrItemAbsent = False, lrError = Some e\<rparr> w1)))"

section \<open>What it leaves\<close>

text \<open>The item, and an environment whose other parts do not change Keychain items.\<close>

definition lk_item :: "kcWorld \<Rightarrow> string \<times> string \<times> string" where
  "lk_item k = (loginPath k, loginValidationService, AccessToken)"

definition quietHost :: "('v \<times> kcWorld, 'r) validationHost \<Rightarrow> bool" where
  "quietHost h \<longleftrightarrow> vhRunner h = keychainRunner \<and> (\<forall>n w. same_host (snd w) (snd (snd (vhRand h n w)))) \<and>
     (\<forall>r w. same_host (snd w) (snd (snd (vhEncode h r w))))"

definition lookupHost :: "('v \<times> kcWorld, 'r) validationHost \<Rightarrow> bool" where
  "lookupHost h \<longleftrightarrow> quietHost h \<and> (\<forall>ctx p a w. same_host (snd w) (snd (snd (vhExec h ctx p a w))))"

definition lk_store :: "string \<Rightarrow> kcWorld nativeStore" where
  "lk_store helper = \<lparr>nsRunner = None, nsHelper = helper, nsKeychain = [], nsTarget = ''login-validation''\<rparr>"

lemma lk_NewLogin: "NewLoginValidation keychainRunner helper = Inr s \<Longrightarrow> s = keychainStore (lk_store helper)"
  by (auto simp: NewLoginValidation_def keychainStore_def lk_store_def split: option.splits)

lemma lk_native_item: "native_item (lk_store helper) k AccessToken = lk_item k"
  by (simp add: native_item_def lk_store_def lk_item_def)

lemma operation_create:
  assumes "helper_operation ''create'' q v k = ((code, out), k1)"
  shows "kcHome k1 = kcHome k \<and> (if code = 0 then kcItems k q = None \<and> kcItems k1 = (kcItems k)(q \<mapsto> v) else kcItems k1 = kcItems k)"
  using assms by (auto simp: helper_operation_def kc_simps same_host_def Let_def
      split: if_splits prod.splits bool.splits secStatus.splits dest!: kc_step_host)

text \<open>Creating never touches an item that is there; it may create one and still be reported as failed.\<close>

lemma native_create_effect:
  assumes "native_write (helperStore s) ctx ''create'' kind v k = (r, k1)"
  shows "kcItems k1 = kcItems k \<and> r \<noteq> None \<or>
    kcItems k (native_item s k kind) = None \<and> (r = None \<or> r = Some (Err ''native Keychain write failed''))"
proof (cases "native_validate (helperStore s) kind = None \<and> v \<noteq> [] \<and> length v \<le> 4096")
  case False
  then show ?thesis using assms by (auto simp: native_write_def split: option.splits if_splits)
next
  case True
  obtain out err e where h: "helper_Run ctx v (nsHelper s) (native_arguments s ''create'' kind) k = ((out, err, e), k1)"
    and r: "r = (if e = None then None else Some (Err ''native Keychain write failed''))"
    using assms True by (auto simp: native_write_def split: prod.splits option.splits)
  show ?thesis
  proof (rule helper_Run_cases [OF h])
    assume "same_host k k1" "e \<noteq> None" then show ?thesis using r by (auto simp: same_host_def)
  next
    fix k2 code k3 assume c: "same_host k k2" "helper_operation ''create'' (native_item s k kind) v k2 = ((code, out), k3)" "same_host k3 k1"
      "e = Some (ExitError (-1)) \<or> e = (if code = 0 then None else Some (ExitError code))"
    show ?thesis using operation_create [OF c(2)] c(1,3,4) r by (auto simp: same_host_def split: if_splits)
  qed
qed

lemma lk_get:
  assumes "native_Get (keychainStore (lk_store helper)) ctx AccessToken w = (r, w1)"
  shows "same_host (snd w) (snd w1)" "\<And>v. r = Inr v \<Longrightarrow> kcItems (snd w) (lk_item (snd w)) \<noteq> None"
    "\<And>e. r = Inl e \<Longrightarrow> errors_Is e ErrCredentialNotFound \<Longrightarrow> kcItems (snd w) (lk_item (snd w)) = None"
proof -
  obtain k1 where g: "native_Get (helperStore (lk_store helper)) ctx AccessToken (snd w) = (r, k1)" and k1: "snd w1 = k1"
    using assms by (auto simp: keychainStore_calls onKeychain_def split: prod.splits)
  have c: "native_content (lk_store helper) k AccessToken = kcItems k (lk_item k)" for k
    by (simp add: native_content_def lk_native_item)
  have o: "only_items {} (snd w) k1" if "only_items {lk_item (snd w)} (snd w) k1"
  proof -
    have "native_content (lk_store helper) k1 = native_content (lk_store helper) (snd w)" using native_get_effect [OF g] by blast
    then have "kcItems k1 (lk_item k1) = kcItems (snd w) (lk_item (snd w))" using c by metis
    moreover have "lk_item k1 = lk_item (snd w)" using that by (simp add: only_items_def lk_item_def loginPath_def)
    ultimately show ?thesis using that unfolding only_items_def by (metis singletonD)
  qed
  have "only_items {lk_item (snd w)} (snd w) k1"
    by (rule native_call_only(2) [OF _ g]) (simp add: lk_native_item)
  from o [OF this] show "same_host (snd w) (snd w1)" using k1 by (simp add: only_items_def same_host_def fun_eq_iff)
  show "\<And>v. r = Inr v \<Longrightarrow> kcItems (snd w) (lk_item (snd w)) \<noteq> None"
    "\<And>e. r = Inl e \<Longrightarrow> errors_Is e ErrCredentialNotFound \<Longrightarrow> kcItems (snd w) (lk_item (snd w)) = None"
    using native_get_effect [OF g] c by auto
qed

lemma lk_item_stable: "only_items Q k k1 \<Longrightarrow> lk_item k1 = lk_item k"
  by (simp add: only_items_def lk_item_def loginPath_def)

lemma lk_delete:
  assumes "native_Delete (keychainStore (lk_store helper)) ctx AccessToken w = (r, w1)"
  shows "only_items {lk_item (snd w)} (snd w) (snd w1)"
    "r = None \<or> (\<exists>e. r = Some e \<and> errors_Is e ErrCredentialNotFound) \<Longrightarrow> kcItems (snd w1) (lk_item (snd w)) = None"
proof -
  obtain k1 where g: "native_Delete (helperStore (lk_store helper)) ctx AccessToken (snd w) = (r, k1)" and k1: "snd w1 = k1"
    using assms by (auto simp: keychainStore_calls onKeychain_def split: prod.splits)
  show o: "only_items {lk_item (snd w)} (snd w) (snd w1)"
    unfolding k1 by (rule native_call_only(3) [OF _ g]) (simp add: lk_native_item)
  assume "r = None \<or> (\<exists>e. r = Some e \<and> errors_Is e ErrCredentialNotFound)"
  then have "native_content (lk_store helper) k1 AccessToken = None" using native_delete_effect [OF g] by auto
  then show "kcItems (snd w1) (lk_item (snd w)) = None"
    using lk_item_stable [OF o] k1 by (simp add: native_content_def lk_native_item)
qed

lemma lk_write:
  "native_write (keychainStore (lk_store helper)) ctx op AccessToken v w = (r, w1) \<Longrightarrow> only_items {lk_item (snd w)} (snd w) (snd w1)"
  using store_call_only(1) [of "lk_store helper" w AccessToken "{lk_item (snd w)}"] by (simp add: lk_native_item)

definition lk_keeps :: "'v \<times> kcWorld \<Rightarrow> 'v \<times> kcWorld \<Rightarrow> bool" where
  "lk_keeps w w1 \<longleftrightarrow> only_items {lk_item (snd w)} (snd w) (snd w1)"

lemma lk_keeps_refl [simp]: "lk_keeps w w"
  by (simp add: lk_keeps_def)

lemma lk_keeps_trans:
  assumes "lk_keeps a b" "lk_keeps b c"
  shows "lk_keeps a c"
proof -
  have "lk_item (snd b) = lk_item (snd a)" using assms(1) by (auto simp: lk_keeps_def dest: lk_item_stable)
  then show ?thesis using assms only_items_trans [of "{lk_item (snd a)}" "snd a" "snd b" "snd c"] by (simp add: lk_keeps_def)
qed

lemma lk_keeps_item: "lk_keeps a b \<Longrightarrow> lk_item (snd b) = lk_item (snd a)"
  by (auto simp: lk_keeps_def dest: lk_item_stable)

lemma same_host_keeps: "same_host (snd w) (snd w1) \<Longrightarrow> lk_keeps w w1"
  by (simp add: lk_keeps_def only_items_same)

lemma lk_write_keeps: "native_write (keychainStore (lk_store helper)) ctx op AccessToken v w = (r, w1) \<Longrightarrow> lk_keeps w w1"
  by (simp add: lk_keeps_def lk_write)

lemma lk_delete_keeps: "native_Delete (keychainStore (lk_store helper)) ctx AccessToken w = (r, w1) \<Longrightarrow> lk_keeps w w1"
  by (simp add: lk_keeps_def lk_delete(1))

lemma lk_verify_host: "lk_verify (keychainStore (lk_store helper)) ctx v w = (e, w1) \<Longrightarrow> same_host (snd w) (snd w1)"
  by (auto simp: lk_verify_def validation_verify_def split: prod.splits sum.splits dest: lk_get(1))

lemma lk_gone_host: "lk_gone (keychainStore (lk_store helper)) ctx w = (e, w1) \<Longrightarrow> same_host (snd w) (snd w1)"
  by (auto simp: lk_gone_def split: prod.splits sum.splits if_splits dest: lk_get(1))

lemma secret_host: "quietHost h \<Longrightarrow> validation_secret h w = (r, w1) \<Longrightarrow> same_host (snd w) (snd w1)"
  unfolding validation_secret_def quietHost_def by (auto split: prod.splits sum.splits) (metis snd_conv)+

lemma lookup_host: "lookupHost h \<Longrightarrow> independentAbsent h ctx w = (e, w1) \<Longrightarrow> same_host (snd w) (snd w1)"
  unfolding independentAbsent_def lookupHost_def by (auto split: prod.splits option.splits) (metis snd_conv)+

lemma encode_host: "quietHost h \<Longrightarrow> vhEncode h r w = (e, w1) \<Longrightarrow> same_host (snd w) (snd w1)"
  unfolding quietHost_def by (metis snd_conv)

lemma lk_middle:
  assumes "early [lk_verify (keychainStore (lk_store helper)) ctx a, ReplaceValidation (keychainStore (lk_store helper)) ctx AccessToken b,
      lk_verify (keychainStore (lk_store helper)) ctx b, native_Delete (keychainStore (lk_store helper)) ctx AccessToken] w = (e, w1)"
  shows "lk_keeps w w1" "e = None \<Longrightarrow> kcItems (snd w1) (lk_item (snd w)) = None"
proof -
  show "lk_keeps w w1"
    by (rule early_keeps [OF assms, of lk_keeps])
      (auto simp: ReplaceValidation_def intro: lk_keeps_trans same_host_keeps lk_verify_host lk_write_keeps lk_delete_keeps)
  assume "e = None"
  then obtain w2 w3 w4 where s: "lk_verify (keychainStore (lk_store helper)) ctx a w = (None, w2)"
    "ReplaceValidation (keychainStore (lk_store helper)) ctx AccessToken b w2 = (None, w3)"
    "lk_verify (keychainStore (lk_store helper)) ctx b w3 = (None, w4)" "native_Delete (keychainStore (lk_store helper)) ctx AccessToken w4 = (None, w1)"
    using assms by (auto split: prod.splits option.splits)
  have "lk_keeps w2 w3" using s(2) unfolding ReplaceValidation_def by (rule lk_write_keeps)
  then have "lk_item (snd w4) = lk_item (snd w)"
    using lk_keeps_item same_host_keeps lk_verify_host [OF s(1)] lk_verify_host [OF s(3)] by metis
  then show "kcItems (snd w1) (lk_item (snd w)) = None" using lk_delete(2) [OF s(4)] by simp
qed

lemma lk_last:
  assumes "lookupHost h" "early [lk_gone (keychainStore (lk_store helper)) ctx, independentAbsent h ctx, vhEncode h r] w = (e, w1)"
  shows "same_host (snd w) (snd w1)"
proof -
  have "quietHost h" using assms(1) by (simp add: lookupHost_def)
  then show ?thesis
    by (intro early_keeps [OF assms(2), of "\<lambda>w w1. same_host (snd w) (snd w1)"])
      (auto simp: same_host_def [of "snd w" "snd w" for w] intro: same_host_trans
        dest: lk_gone_host lookup_host [OF assms(1)] encode_host)
qed

lemma lk_lifecycle_effect:
  assumes h: "lookupHost h" and r: "lk_lifecycle h (keychainStore (lk_store helper)) w = (e, created, w1)"
    and n: "kcItems (snd w) (lk_item (snd w)) = None"
  shows "lk_keeps w w1 \<and> (created \<longrightarrow> e \<noteq> None) \<and>
    (\<not> created \<longrightarrow> kcItems (snd w1) (lk_item (snd w)) \<noteq> None \<longrightarrow> e = Some (Err ''native Keychain write failed''))"
proof -
  let ?s = "keychainStore (lk_store helper)"
  have q: "quietHost h" using h by (simp add: lookupHost_def)
  obtain r1 wa where a: "validation_secret h w = (r1, wa)" by (metis prod.exhaust)
  obtain r2 wb where b: "validation_secret h wa = (r2, wb)" by (metis prod.exhaust)
  have wb: "same_host (snd w) (snd wa)" "same_host (snd w) (snd wb)"
    using secret_host [OF q a] secret_host [OF q b] same_host_trans by blast+
  then have nb: "kcItems (snd wa) (lk_item (snd w)) = None" "kcItems (snd wb) (lk_item (snd w)) = None" using n by (simp_all add: same_host_def)
  show ?thesis
  proof (cases "\<exists>x y. r1 = Inr x \<and> r2 = Inr y")
    case False
    then show ?thesis using r a b wb nb same_host_keeps [of w wa] same_host_keeps [of w wb] by (auto simp: lk_lifecycle_def split: sum.splits)
  next
    case True
    then obtain first second where xy: "r1 = Inr first" "r2 = Inr second" by blast
    obtain c wc where c: "CreateValidation ?s lkCtx AccessToken first wb = (c, wc)" by (metis prod.exhaust)
    have kb: "lk_keeps w wb" by (rule same_host_keeps [OF wb(2)])
    have "lk_keeps wb wc" using c unfolding CreateValidation_def by (rule lk_write_keeps)
    with kb have kc: "lk_keeps w wc" by (rule lk_keeps_trans)
    show ?thesis
    proof (cases c)
      case (Some x)
      have "kcItems (snd wc) = kcItems (snd wb) \<or> x = Err ''native Keychain write failed''"
        using c Some by (auto simp: CreateValidation_def keychainStore_calls onKeychain_def split: prod.splits dest!: native_create_effect)
      then show ?thesis using r a b xy c Some kc nb by (auto simp: lk_lifecycle_def)
    next
      case None
      obtain m wd where m: "early [lk_verify ?s lkCtx first, ReplaceValidation ?s lkCtx AccessToken second, lk_verify ?s lkCtx second,
          native_Delete ?s lkCtx AccessToken] wc = (m, wd)" by (metis prod.exhaust)
      have kd: "lk_keeps w wd" using kc lk_middle(1) [OF m] lk_keeps_trans by blast
      show ?thesis
      proof (cases m)
        case (Some x)
        then show ?thesis using r a b xy c None m kd by (auto simp: lk_lifecycle_def simp del: early.simps)
      next
        case none: None
        obtain l we where l: "early [lk_gone ?s lkCtx, independentAbsent h lkCtx, vhEncode h lk_success] wd = (l, we)" by (metis prod.exhaust)
        have "same_host (snd wd) (snd we)" by (rule lk_last [OF h l])
        moreover have "kcItems (snd wd) (lk_item (snd w)) = None"
          using lk_middle(2) [OF m none] lk_keeps_item [OF kc] by simp
        moreover have "e = l" "\<not> created" "w1 = we" using r a b xy c None m none l by (simp_all add: lk_lifecycle_def)
        ultimately show ?thesis using lk_keeps_trans [OF kd same_host_keeps [of wd we]] by (simp add: same_host_def)
      qed
    qed
  qed
qed

lemma lk_cleanup_effect:
  assumes "lk_cleanup (keychainStore (lk_store helper)) (e, created, w) = (e1, w1)" "created \<longrightarrow> e \<noteq> None"
  shows "lk_keeps w w1 \<and> (e1 = None \<longrightarrow> e = None \<and> \<not> created) \<and> (\<not> created \<longrightarrow> e1 = e \<and> w1 = w) \<and>
    (created \<longrightarrow> kcItems (snd w1) (lk_item (snd w)) \<noteq> None \<longrightarrow> e1 = Some (JoinErr [the e, Err ''deferred validation item cleanup failed'']))"
proof (cases created)
  case False
  then show ?thesis using assms by (simp add: lk_cleanup_def)
next
  case True
  obtain d wa where d: "native_Delete (keychainStore (lk_store helper)) (WithTimeout 5 Background) AccessToken w = (d, wa)" by (metis prod.exhaust)
  have w: "w1 = wa" "e1 = (case d of None \<Rightarrow> e | Some x \<Rightarrow> if errors_Is x ErrCredentialNotFound then e
      else errors_Join [e, Some (Err ''deferred validation item cleanup failed'')])"
    using assms True d by (auto simp: lk_cleanup_def split: option.splits if_splits)
  obtain x where x: "e = Some x" using assms(2) True by blast
  show ?thesis using True w x lk_delete_keeps [OF d] lk_delete(2) [OF d] by (auto split: option.splits if_splits)
qed

text \<open>C39: the validation on the login Keychain changes nothing but its own item, and not even that if it was there before: then it
  reports an error and the Keychain is as it was. If it was absent it is absent again afterwards, in particular after a success;
  otherwise the program says that the cleanup failed, or its error is that of the first write: a write that is reported as failed
  although the item was stored is the one case the program does not clean up after.\<close>

theorem login_validation_contained:
  assumes "lookupHost h" and "lk_run h f w = (e, w1)"
  shows "only_items {lk_item (snd w)} (snd w) (snd w1) \<and>
    (kcItems (snd w) (lk_item (snd w)) \<noteq> None \<longrightarrow> e \<noteq> None \<and> kcItems (snd w1) = kcItems (snd w)) \<and>
    (kcItems (snd w) (lk_item (snd w)) = None \<longrightarrow> kcItems (snd w1) (lk_item (snd w)) \<noteq> None \<longrightarrow>
       e = Some (Err ''native Keychain write failed'') \<or> (\<exists>x. e = Some (JoinErr [x, Err ''deferred validation item cleanup failed''])))"
proof -
  have q: "vhRunner h = keychainRunner" using assms(1) by (simp add: lookupHost_def quietHost_def)
  consider (early) "w1 = w" "e \<noteq> None" | (ran) s where "NewLoginValidation keychainRunner (lfHelper f) = Inr s"
      "(case native_Get s lkCtx AccessToken w of
            (Inr existing, w1) \<Rightarrow> (Some (Err ''validation item already exists; refusing to overwrite or delete it''), w1)
          | (Inl e, w1) \<Rightarrow> (if \<not> errors_Is e ErrCredentialNotFound then (Some e, w1) else lk_cleanup s (lk_lifecycle h s w1))) = (e, w1)"
  proof (cases "vhGOOS h \<noteq> ''darwin'' \<or> vhGeteuid h = 0 \<or> \<not> lfAcknowledged f \<or> verifyHelper (vhSHA256 h) (vhPackage h) (lfHelper f) (lfHelperSHA256 f) \<noteq> None")
    case True
    then have "\<exists>x. lk_run h f w = (Some x, w)" by (auto simp: lk_run_def)
    then have "w1 = w \<and> e \<noteq> None" using assms(2) by auto
    then show thesis using early by blast
  next
    case False
    then show thesis using assms(2) q early ran by (cases "NewLoginValidation (vhRunner h) (lfHelper f)") (auto simp: lk_run_def)
  qed
  then show ?thesis
  proof cases
    case early
    then show ?thesis by simp
  next
    case ran
    let ?s = "keychainStore (lk_store (lfHelper f)) :: ('a \<times> kcWorld) nativeStore"
    have s: "s = ?s" using lk_NewLogin [OF ran(1)] .
    obtain g wa where g: "native_Get ?s lkCtx AccessToken w = (g, wa)" by (metis prod.exhaust)
    note get = lk_get [OF g]
    show ?thesis
    proof (cases "\<exists>x. g = Inl x \<and> errors_Is x ErrCredentialNotFound")
      case False
      then have "w1 = wa" "e \<noteq> None" using ran(2) s g by (auto split: sum.splits)
      then show ?thesis using get(1) only_items_same [OF get(1)] by (auto simp: same_host_def)
    next
      case True
      then obtain x where x: "g = Inl x" "errors_Is x ErrCredentialNotFound" by blast
      have n: "kcItems (snd w) (lk_item (snd w)) = None" by (rule get(3) [OF x])
      have i: "lk_item (snd wa) = lk_item (snd w)" "kcItems (snd wa) (lk_item (snd wa)) = None"
        using get(1) n by (simp_all add: same_host_def lk_item_def loginPath_def)
      obtain e2 created w2 where l: "lk_lifecycle h ?s wa = (e2, created, w2)" by (metis prod_cases3)
      note lf = lk_lifecycle_effect [OF assms(1) l i(2)]
      have c: "lk_cleanup ?s (e2, created, w2) = (e, w1)" using ran(2) s g x l by simp
      have ce: "created \<longrightarrow> e2 \<noteq> None" using lf by (rule conjunct1 [OF conjunct2])
      note cl = lk_cleanup_effect [OF c ce]
      have "lk_keeps wa w2" "lk_keeps w2 w1" by (rule conjunct1 [OF lf], rule conjunct1 [OF cl])
      then have "lk_keeps wa w1" by (rule lk_keeps_trans)
      with same_host_keeps [OF get(1)] have k: "lk_keeps w w1" by (rule lk_keeps_trans)
      have i2: "lk_item (snd w2) = lk_item (snd w)" using lk_keeps_item [OF \<open>lk_keeps wa w2\<close>] i(1) by simp
      have "kcItems (snd w1) (lk_item (snd w)) \<noteq> None \<longrightarrow>
         e = Some (Err ''native Keychain write failed'') \<or> (\<exists>x. e = Some (JoinErr [x, Err ''deferred validation item cleanup failed'']))"
      proof (cases created)
        case True
        have "created \<longrightarrow> kcItems (snd w1) (lk_item (snd w2)) \<noteq> None \<longrightarrow>
            e = Some (JoinErr [the e2, Err ''deferred validation item cleanup failed''])" using cl by (elim conjE)
        with True show ?thesis unfolding i2 by iprover
      next
        case False
        have "\<not> created \<longrightarrow> kcItems (snd w2) (lk_item (snd w)) \<noteq> None \<longrightarrow> e2 = Some (Err ''native Keychain write failed'')"
          using lf unfolding i(1) by (elim conjE)
        moreover have "\<not> created \<longrightarrow> e = e2 \<and> w1 = w2" using cl by (elim conjE)
        ultimately show ?thesis using False by iprover
      qed
      then show ?thesis using k n by (simp add: lk_keeps_def)
    qed
  qed
qed

section \<open>A validated machine\<close>

definition validationDirectory :: string where
  "validationDirectory = ''/private/tmp/nordmac-login-keychain-validation-'' @ replicate 32 (CHR ''a'')"

definition validationFlags :: loginKeychainFlags where
  "validationFlags = \<lparr>lfHelper = validationDirectory @ ''/nordmac-keychain-helper'', lfHelperSHA256 = hex_EncodeToString (replicate 32 7), lfAcknowledged = True\<rparr>"

definition validationPackage :: packageHost where
  "validationPackage = \<lparr>phExecutable = None, phResolve = (\<lambda>_. None), phStat = (\<lambda>_. None),
     phLstat = (\<lambda>p. Some (if p = validationDirectory then \<lparr>nKind = KDir, nPerm = 0x1C0, nUid = 501, nData = []\<rparr>
                            else \<lparr>nKind = KRegular, nPerm = 0x140, nUid = 501, nData = []\<rparr>)),
     phOpen = (\<lambda>_. Some (Some [])), phEuid = 501\<rparr>"

definition validationMachine :: "(unit \<times> kcWorld, 'r) validationHost" where
  "validationMachine = \<lparr>vhGOOS = ''darwin'', vhGeteuid = 501, vhRunner = keychainRunner, vhExec = (\<lambda>ctx p a w. (Some (ExitError 44), w)),
     vhRand = (\<lambda>n w. (Inr (replicate n 3), w)), vhEncode = (\<lambda>r w. (None, w)), vhPackage = validationPackage, vhSHA256 = (\<lambda>d. replicate 32 7)\<rparr>"

lemma validationMachine_lookup: "lookupHost validationMachine"
  by (simp add: lookupHost_def quietHost_def validationMachine_def same_host_def)

lemma validationPaths:
  "filepath_IsAbs (lfHelper validationFlags)" "filepath_Clean (lfHelper validationFlags) = lfHelper validationFlags"
  "filepath_Base (lfHelper validationFlags) = ''nordmac-keychain-helper''" "filepath_Dir (lfHelper validationFlags) = validationDirectory"
  "filepath_Dir validationDirectory = ''/private/tmp''" "packageDirectoryPattern (filepath_Base validationDirectory)"
  "lfHelper validationFlags \<noteq> validationDirectory"
  by code_simp+

lemma validationFlags_helper: "verifyHelper (\<lambda>d. replicate 32 7) validationPackage (lfHelper validationFlags) (lfHelperSHA256 validationFlags) = None"
  using validationPaths by (simp add: verifyHelper_def Let_def validationPackage_def ownedByCurrentUser_def)
    (simp add: validationFlags_def hex_decode_encode)

text \<open>Without faults the program succeeds, and everything is as before.\<close>

theorem login_validation_contained_witness:
  "\<exists>w1. lk_run validationMachine validationFlags ((), sampleKeychain) = (None, w1) \<and> only_items {lk_item sampleKeychain} sampleKeychain (snd w1) \<and>
     kcItems (snd w1) (lk_item sampleKeychain) = None"
proof -
  have "fst (lk_run validationMachine validationFlags ((), sampleKeychain)) = None" by code_simp
  then obtain w1 where r: "lk_run validationMachine validationFlags ((), sampleKeychain) = (None, w1)" by (metis prod.collapse)
  have "kcItems (snd ((), sampleKeychain)) (lk_item (snd ((), sampleKeychain))) = None" by (simp add: sampleKeychain_def)
  with login_validation_contained [OF validationMachine_lookup r] have "only_items {lk_item sampleKeychain} sampleKeychain (snd w1)"
    "kcItems (snd w1) (lk_item sampleKeychain) = None" by auto
  then show ?thesis using r by blast
qed

text \<open>The exception is real: the helper stores the item and is killed before it exits, as when the 30 seconds are over. The program
  reports the failed write, the item stays in the login Keychain, and the next run refuses to start.\<close>

definition killedKeychain :: kcWorld where
  "killedKeychain = sampleKeychain\<lparr>kcFaults := [False, False, False, False, False, False, False, True]\<rparr>"

theorem created_item_can_stay:
  "case lk_run validationMachine validationFlags ((), killedKeychain) of (e, w1) \<Rightarrow>
     e = Some (Err ''native Keychain write failed'') \<and> kcItems (snd w1) (lk_item killedKeychain) \<noteq> None \<and>
     fst (lk_run validationMachine validationFlags w1) = Some (Err ''validation item already exists; refusing to overwrite or delete it'')"
  by code_simp

end
