(* ===== verification/Isolated_Validation.thy ===== *)
theory Isolated_Validation
  imports Harness_Base Nord_Auth
begin

text \<open>
  The validations in a temporary Keychain of their own: \<^verbatim>\<open>cmd/nordmac-native-keychain-harness\<close> exercises the native store,
  \<^verbatim>\<open>cmd/nordmac-synthetic-login-harness\<close> the whole login against a server on the loopback interface. It is shown that neither
  touches an item of another Keychain or a file outside its directory, and that success leaves nothing behind.
\<close>

declare split_paired_All [simp del] split_paired_Ex [simp del]

section \<open>The session\<close>

record sessionFlags =
  sfSession :: string
  sfAcknowledged :: bool

definition isolatedDirectory :: "string \<Rightarrow> string" where
  "isolatedDirectory session = filepath_Clean (''/private/tmp'' @ ''/'' @ (''nordmac-keychain-native-validation-'' @ session))"

definition isolatedKeychain :: "string \<Rightarrow> string" where
  "isolatedKeychain directory = filepath_Clean (directory @ ''/'' @ ''validation.keychain-db'')"

definition isolatedCtx :: ctx where
  "isolatedCtx = WithTimeout 30 Background"

definition isolated_security :: "('w, 'r) validationHost \<Rightarrow> ctx \<Rightarrow> string list \<Rightarrow> 'w \<Rightarrow> gerror option \<times> 'w" where
  "isolated_security h ctx arguments w = (case vhExec h ctx ''/usr/bin/security'' arguments w of
     (Some e, w1) \<Rightarrow> (Some (Err ''temporary Keychain lifecycle command failed''), w1)
   | (None, w1) \<Rightarrow> (None, w1))"

text \<open>The deferred cleanup: the Keychain if it was created, then the directory; both errors are joined.\<close>

definition isolated_cleanup :: "(fsWorld \<times> 'v, 'r) validationHost \<Rightarrow> string \<Rightarrow> gerror option \<times> bool \<times> fsWorld \<times> 'v \<Rightarrow> gerror option \<times> fsWorld \<times> 'v" where
  "isolated_cleanup h directory ret = (case ret of (retErr, created, w) \<Rightarrow>
     (let (e1, w1) = (if created
            then (let (de, w1) = isolated_security h (WithTimeout 5 Background) [''delete-keychain'', isolatedKeychain directory] w
                  in (errors_Join [retErr, de], w1))
            else (retErr, w));
          (re, w2) = onFiles (os_RemoveAll directory) w1
      in (errors_Join [e1, map_option os_error re], w2)))"

text \<open>What runs after the directory was made: the error and \<^verbatim>\<open>created\<close>.\<close>

definition isolated_body :: "('w, 'r) validationHost \<Rightarrow> string \<Rightarrow> (string \<Rightarrow> 'w \<Rightarrow> gerror option \<times> 'w) \<Rightarrow> 'w \<Rightarrow> gerror option \<times> bool \<times> 'w" where
  "isolated_body h directory exercise w =
     (case isolated_security h isolatedCtx [''create-keychain'', ''-p'', '''', isolatedKeychain directory] w of
        (Some e, w1) \<Rightarrow> (Some e, False, w1)
      | (None, w1) \<Rightarrow> (case isolated_security h isolatedCtx [''unlock-keychain'', ''-p'', '''', isolatedKeychain directory] w1 of
          (Some e, w2) \<Rightarrow> (Some e, True, w2)
        | (None, w2) \<Rightarrow> (case exercise (isolatedKeychain directory) w2 of (e, w3) \<Rightarrow> (e, True, w3))))"

definition isolated_refused :: "('w, 'r) validationHost \<Rightarrow> sessionFlags \<Rightarrow> bool" where
  "isolated_refused h f = (vhGOOS h \<noteq> ''darwin'' \<or> vhGeteuid h = 0 \<or> \<not> sfAcknowledged f \<or> \<not> ValidSessionID (sfSession f))"

section \<open>The native store\<close>

record nativeKeychainResult =
  nrOK :: bool
  nrOperations :: int
  nrError :: "gerror option"

definition nk_helperPath :: string where
  "nk_helperPath = ''/private/tmp/nordmac-keychain-native-helper''"

definition nk_verify :: "'w nativeStore \<Rightarrow> ctx \<Rightarrow> byte list \<Rightarrow> 'w \<Rightarrow> gerror option \<times> 'w" where
  "nk_verify s ctx expected w = validation_verify ''native Keychain returned different data'' s ctx AccessToken expected w"

definition nk_gone :: "'w nativeStore \<Rightarrow> ctx \<Rightarrow> 'w \<Rightarrow> gerror option \<times> 'w" where
  "nk_gone s ctx w = (case native_Get s ctx AccessToken w of
     (Inr remaining, w1) \<Rightarrow> (Some (Err ''native validation item remained after deletion''), w1)
   | (Inl e, w1) \<Rightarrow> (if errors_Is e ErrCredentialNotFound then (None, w1) else (Some e, w1)))"

definition nk_exercise :: "('w, nativeKeychainResult) validationHost \<Rightarrow> string \<Rightarrow> 'w \<Rightarrow> gerror option \<times> 'w" where
  "nk_exercise h keychainPath w = (case NewValidation (vhRunner h) nk_helperPath keychainPath of
     Inl e \<Rightarrow> (Some e, w)
   | Inr s \<Rightarrow> (case validation_secret h w of
       (Inl e, w1) \<Rightarrow> (Some e, w1)
     | (Inr first, w1) \<Rightarrow> (case validation_secret h w1 of
         (Inl e, w2) \<Rightarrow> (Some e, w2)
       | (Inr second, w2) \<Rightarrow> early [CreateValidation s isolatedCtx AccessToken first, nk_verify s isolatedCtx first,
            ReplaceValidation s isolatedCtx AccessToken second, nk_verify s isolatedCtx second, native_Delete s isolatedCtx AccessToken,
            nk_gone s isolatedCtx, vhEncode h \<lparr>nrOK = True, nrOperations = 7, nrError = None\<rparr>] w2)))"

definition nk_run :: "(fsWorld \<times> 'v, nativeKeychainResult) validationHost \<Rightarrow> sessionFlags \<Rightarrow> fsWorld \<times> 'v \<Rightarrow> gerror option \<times> fsWorld \<times> 'v" where
  "nk_run h f w =
     (if isolated_refused h f
      then (Some (Err ''native Keychain validation requires an unprivileged macOS user, acknowledgement, and valid session''), w)
      else (let directory = isolatedDirectory (sfSession f) in case onFiles (os_Mkdir directory 0x1C0) w of
        (Some e, w1) \<Rightarrow> (Some (WrapErr ''create validation directory'' (os_error e)), w1)
      | (None, w1) \<Rightarrow> isolated_cleanup h directory (isolated_body h directory (nk_exercise h) w1)))"

definition nk_main :: "(fsWorld \<times> 'v, nativeKeychainResult) validationHost \<Rightarrow> sessionFlags \<Rightarrow> fsWorld \<times> 'v \<Rightarrow> int \<times> fsWorld \<times> 'v" where
  "nk_main h f w = (case nk_run h f w of
     (None, w1) \<Rightarrow> (0, w1)
   | (Some e, w1) \<Rightarrow> (1, snd (vhEncode h \<lparr>nrOK = False, nrOperations = 0, nrError = Some e\<rparr> w1)))"

section \<open>The login\<close>

record syntheticResult =
  srOK :: bool
  srOperations :: int
  srRequests :: int
  srError :: "gerror option"

definition sl_helperPath :: string where
  "sl_helperPath = ''/private/tmp/nordmac-synthetic-login-helper''"

definition syntheticToken :: string where
  "syntheticToken = ''0123456789abcdef0123456789abcdef''"

definition syntheticPrivateKey :: string where
  "syntheticPrivateKey = ''AAAAAAAAAAAAAAAAAAAAAAAAAAAAAAAAAAAAAAAAAAA=''"

definition json_field :: "string \<Rightarrow> string \<Rightarrow> string" where
  "json_field key value = [CHR 0x22] @ key @ [CHR 0x22, CHR '':''] @ value"

definition json_text :: "string \<Rightarrow> string" where
  "json_text s = [CHR 0x22] @ s @ [CHR 0x22]"

definition syntheticBody :: string where
  "syntheticBody = ''{'' @ strings_Join '','' [json_field ''id'' ''42'', json_field ''created_at'' (json_text ''synthetic''),
     json_field ''updated_at'' (json_text ''synthetic''), json_field ''username'' (json_text ''synthetic''),
     json_field ''password'' (json_text ''synthetic''), json_field ''nordlynx_private_key'' (json_text syntheticPrivateKey)] @ ''}''"

text \<open>The world carries the counter of the requests, beside the files and the rest. The handler of the server:\<close>

type_synonym 'v countedWorld = "fsWorld \<times> int \<times> 'v"

definition sl_count :: "'v countedWorld \<Rightarrow> 'v countedWorld" where
  "sl_count w = (fst w, fst (snd w) + 1, snd (snd w))"

definition sl_handler :: "httpRequest \<Rightarrow> 'v countedWorld \<Rightarrow> httpResponse \<times> 'v countedWorld" where
  "sl_handler rq w =
     (if hqMethod rq \<noteq> ''GET'' \<or> uPath (hqURL rq) \<noteq> ''/v1/users/services/credentials'' \<or>
         map_of (hqHeader rq) ''Authorization'' \<noteq> Some (text_bytes (''Bearer '' @ syntheticToken))
      then (\<lparr>hrStatus = 401, hrContentType = [], hrBody = [], hrReadErr = None\<rparr>, sl_count w)
      else (\<lparr>hrStatus = 200, hrContentType = ''application/json'', hrBody = text_bytes syntheticBody, hrReadErr = None\<rparr>, sl_count w))"

text \<open>\<^verbatim>\<open>httptest.NewServer\<close> and its client: the server's URL, and what sending a request to a handler does.\<close>

record 'w loopback =
  lbURL :: string
  lbSend :: "(httpRequest \<Rightarrow> 'w \<Rightarrow> httpResponse \<times> 'w) \<Rightarrow> int \<Rightarrow> bool \<Rightarrow> 'w httpDo"
  lbTransport :: "int \<Rightarrow> bool \<Rightarrow> 'w httpDo"
  lbParse :: "string \<Rightarrow> url option"
  lbTables :: unicode
  lbCodec :: "(int \<times> byte list) codec"

definition sl_client :: "'v countedWorld loopback \<Rightarrow> 'v countedWorld authClient" where
  "sl_client n = \<lparr>naBaseURL = lbURL n, naHTTP = Some \<lparr>gcTimeout = 0, gcRedirects = True, gcSend = lbSend n sl_handler\<rparr>,
     naTransport = lbTransport n, naParse = lbParse n, naTables = lbTables n, naCodec = lbCodec n\<rparr>"

definition sl_verify :: "'w nativeStore \<Rightarrow> ctx \<Rightarrow> string \<Rightarrow> byte list \<Rightarrow> 'w \<Rightarrow> gerror option \<times> 'w" where
  "sl_verify s ctx kind expected w = validation_verify ''synthetic stored credential mismatch'' s ctx kind expected w"

definition sl_absent :: "'w nativeStore \<Rightarrow> ctx \<Rightarrow> string \<Rightarrow> 'w \<Rightarrow> gerror option \<times> 'w" where
  "sl_absent s ctx kind w = (case native_Get s ctx kind w of
     (Inl e, w1) \<Rightarrow> (reject (\<not> errors_Is e ErrCredentialNotFound) ''synthetic credential remained after deletion'', w1)
   | (Inr value, w1) \<Rightarrow> (Some (Err ''synthetic credential remained after deletion''), w1))"

definition sl_requests :: "('v countedWorld, syntheticResult) validationHost \<Rightarrow> 'v countedWorld \<Rightarrow> gerror option \<times> 'v countedWorld" where
  "sl_requests h w = (if fst (snd w) \<noteq> 1 then (Some (Err ''synthetic login made the wrong number of requests''), w)
     else vhEncode h \<lparr>srOK = True, srOperations = 9, srRequests = fst (snd w), srError = None\<rparr> w)"

definition sl_service :: "'v countedWorld loopback \<Rightarrow> 'v countedWorld nativeStore \<Rightarrow> string \<Rightarrow> 'v countedWorld loginService" where
  "sl_service n s directory = \<lparr>lsProvisioner = Some (auth_Provision (sl_client n)), lsStore = Some (nativeStoreOf s),
     lsLocker = Some (userLock (filepath_Clean (directory @ ''/lock'')))\<rparr>"

definition sl_exercise :: "'v countedWorld loopback \<Rightarrow> ('v countedWorld, syntheticResult) validationHost \<Rightarrow> string \<Rightarrow> string \<Rightarrow>
    'v countedWorld \<Rightarrow> gerror option \<times> 'v countedWorld" where
  "sl_exercise n h directory keychainPath w = (case NewValidation (vhRunner h) sl_helperPath keychainPath of
     Inl e \<Rightarrow> (Some e, w)
   | Inr s \<Rightarrow> (case Login (sl_service n s directory) isolatedCtx (text_bytes syntheticToken) w of (account, err, w1) \<Rightarrow>
       (if err \<noteq> None \<or> account \<noteq> 42 then (Some (Err ''synthetic login transaction failed''), w1)
        else early [sl_verify s isolatedCtx AccessToken (text_bytes syntheticToken),
          sl_verify s isolatedCtx NordLynxPrivateKey (text_bytes syntheticPrivateKey),
          native_Delete s isolatedCtx AccessToken, native_Delete s isolatedCtx NordLynxPrivateKey,
          sl_absent s isolatedCtx AccessToken, sl_absent s isolatedCtx NordLynxPrivateKey, sl_requests h] w1)))"

text \<open>The counter starts at zero.\<close>

definition sl_run :: "'v countedWorld loopback \<Rightarrow> ('v countedWorld, syntheticResult) validationHost \<Rightarrow> sessionFlags \<Rightarrow>
    'v countedWorld \<Rightarrow> gerror option \<times> 'v countedWorld" where
  "sl_run n h f w0 = (let w = (fst w0, 0, snd (snd w0)) in
     if isolated_refused h f
     then (Some (Err ''synthetic login requires an unprivileged macOS user, acknowledgement, and valid session''), w)
     else (let directory = isolatedDirectory (sfSession f) in case onFiles (os_Mkdir directory 0x1C0) w of
       (Some e, w1) \<Rightarrow> (Some (Err ''create synthetic login directory''), w1)
     | (None, w1) \<Rightarrow> isolated_cleanup h directory (isolated_body h directory (sl_exercise n h directory) w1)))"

definition sl_main :: "'v countedWorld loopback \<Rightarrow> ('v countedWorld, syntheticResult) validationHost \<Rightarrow> sessionFlags \<Rightarrow>
    'v countedWorld \<Rightarrow> int \<times> 'v countedWorld" where
  "sl_main n h f w = (case sl_run n h f w of
     (None, w1) \<Rightarrow> (0, w1)
   | (Some e, w1) \<Rightarrow> (1, snd (vhEncode h \<lparr>srOK = False, srOperations = 0, srRequests = 0, srError = Some e\<rparr> w1)))"

section \<open>What a run can change\<close>

text \<open>The locks only touch the lock's directory and its file.\<close>

lemma drop_flock_tree [simp]: "fsFiles (drop_flock p fd w) = fsFiles w" "fsDirs (drop_flock p fd w) = fsDirs w"
  by (simp_all add: drop_flock_def)

lemma same_tree_outside: "fsFiles w1 = fsFiles w \<Longrightarrow> fsDirs w1 = fsDirs w \<Longrightarrow> same_outside d w w1"
  by (simp add: same_outside_def)

lemma CloseLock_tree: "file_CloseLock p fd w = (e, w1) \<Longrightarrow> fsFiles w1 = fsFiles w \<and> fsDirs w1 = fsDirs w"
  by (auto simp: file_CloseLock_def dest!: syscall_frameD split: prod.splits bool.splits)

lemma release_tree: "release_once k p fd w = (e, w1) \<Longrightarrow> fsFiles w1 = fsFiles w \<and> fsDirs w1 = fsDirs w"
  by (auto simp: release_once_def flock_release_def Let_def dest!: syscall_frameD CloseLock_tree split: prod.splits bool.splits option.splits)

lemma ensureDirectory_outside: "cred_ensureDirectory l w = (e, w1) \<Longrightarrow> below d l \<Longrightarrow> same_outside d w w1"
  by (auto simp: cred_ensureDirectory_def os_MkdirAll_def os_LstatDir_def same_outside_def dest!: syscall_frameD
      split: prod.splits bool.splits option.splits if_splits sum.splits)

lemma OpenLock_outside: "os_OpenLock p w = (r, w1) \<Longrightarrow> below d (fst p) \<Longrightarrow> same_outside d w w1"
  by (auto simp: os_OpenLock_def same_outside_def Let_def dest!: syscall_frameD split: prod.splits bool.splits option.splits if_splits)

lemma cred_checks_tree: "cred_checks p fd n w = (e, w1) \<Longrightarrow> fsFiles w1 = fsFiles w \<and> fsDirs w1 = fsDirs w"
  by (auto simp: cred_checks_def os_probe_def flock_try_def dest!: syscall_frameD split: prod.splits bool.splits option.splits oserr.splits if_splits)

lemma closeOnError_tree: "closeOnError p fd e w = (r, w1) \<Longrightarrow> fsFiles w1 = fsFiles w \<and> fsDirs w1 = fsDirs w"
  by (auto simp: closeOnError_def Let_def dest!: CloseLock_tree split: prod.splits)

lemma cred_Lock_outside:
  assumes "cred_Lock l ctx w = (r, w1)" "below d l"
  shows "same_outside d w w1 \<and> (\<forall>release v e v1. r = Inr release \<longrightarrow> release v = (e, v1) \<longrightarrow> fsFiles v1 = fsFiles v \<and> fsDirs v1 = fsDirs v)"
proof (cases "ctx_Err ctx w = None \<and> l \<noteq> [] \<and> filepath_IsAbs l \<and> filepath_Clean l = l")
  case False
  then show ?thesis using assms by (auto simp: cred_Lock_def split: option.splits if_splits)
next
  case True
  obtain e wa where a: "cred_ensureDirectory l w = (e, wa)" by (metis prod.exhaust)
  note da = ensureDirectory_outside [OF a assms(2)]
  obtain o1 wb where b: "os_OpenLock (l, cred_filename) wa = (o1, wb)" by (metis prod.exhaust)
  have db: "same_outside d w wb" using OpenLock_outside [OF b] assms(2) da same_outside_trans by fastforce
  show ?thesis
  proof (cases "e \<noteq> None \<or> (\<exists>x. o1 = Inl x)")
    case True
    then show ?thesis using assms(1) \<open>ctx_Err ctx w = None \<and> _\<close> a b da db by (auto simp: cred_Lock_def split: option.splits)
  next
    case False
    then obtain fd n where o: "e = None" "o1 = Inr (fd, n)" by (cases o1) auto
    obtain k wc where c: "cred_checks (l, cred_filename) fd n wb = (k, wc)" by (metis prod.exhaust)
    have dc: "same_outside d w wc" using cred_checks_tree [OF c] db by (simp add: same_outside_def)
    obtain ee wd where z: "closeOnError (l, cred_filename) fd (the k) wc = (ee, wd)" by (metis prod.exhaust)
    have dd: "same_outside d w wd" using closeOnError_tree [OF z] dc by (simp add: same_outside_def)
    show ?thesis using assms(1) \<open>ctx_Err ctx w = None \<and> _\<close> a b c o dc dd z release_tree by (cases k) (auto simp: cred_Lock_def)
  qed
qed

text \<open>A relation that is kept by the parts of a login is kept by the login.\<close>

locale kept =
  fixes R :: "'w \<Rightarrow> 'w \<Rightarrow> bool"
  assumes refl: "R w w" and trans: "R a b \<Longrightarrow> R b c \<Longrightarrow> R a c"
begin

definition keeping :: "('w \<Rightarrow> 'r \<times> 'w) \<Rightarrow> bool" where
  "keeping f \<longleftrightarrow> (\<forall>w. R w (snd (f w)))"

lemma keepingI: "(\<And>w r w1. f w = (r, w1) \<Longrightarrow> R w w1) \<Longrightarrow> keeping f"
  by (metis keeping_def prod.collapse)

lemma keepingD: "keeping f \<Longrightarrow> f w = (r, w1) \<Longrightarrow> R w w1"
  by (metis keeping_def snd_conv)

lemma keeping_early: "(\<And>f. f \<in> set fs \<Longrightarrow> keeping f) \<Longrightarrow> keeping (early fs)"
  by (rule keepingI, rule early_keeps [of fs]) (auto intro: refl trans dest: keepingD)

text \<open>The calls of a native store.\<close>

definition keeping_store :: "'w nativeStore \<Rightarrow> bool" where
  "keeping_store s \<longleftrightarrow> (\<forall>ctx v op kind. keeping (the (nsRunner s) ctx v (nsHelper s) (native_arguments s op kind)))"

lemma keeping_storeD:
  "keeping_store s \<Longrightarrow> the (nsRunner s) ctx v (nsHelper s) (native_arguments s op kind) w = (r, w1) \<Longrightarrow> R w w1"
  unfolding keeping_store_def by (blast dest: keepingD)

lemma keeping_write: "keeping_store s \<Longrightarrow> keeping (native_write s ctx op kind v)"
  by (rule keepingI) (auto simp: native_write_def refl split: option.splits if_splits prod.splits dest: keeping_storeD)

lemma keeping_Get: "keeping_store s \<Longrightarrow> keeping (native_Get s ctx kind)"
  by (rule keepingI) (auto simp: native_Get_def refl split: option.splits if_splits prod.splits dest: keeping_storeD)

lemma keeping_Delete: "keeping_store s \<Longrightarrow> keeping (native_Delete s ctx kind)"
  by (rule keepingI) (auto simp: native_Delete_def refl split: option.splits if_splits prod.splits dest: keeping_storeD)

lemma keeping_verify: "keeping_store s \<Longrightarrow> keeping (validation_verify m s ctx kind v)"
  by (rule keepingI) (auto simp: validation_verify_def split: prod.splits sum.splits dest: keepingD [OF keeping_Get])

text \<open>The parts of a login.\<close>

lemma keeping_capture: "keeping (csGet st ctx kind) \<Longrightarrow> keeping (credCapture st ctx kind)"
  by (rule keepingI) (auto simp: credCapture_def split: prod.splits sum.splits if_splits dest: keepingD)

lemma keeping_restore:
  assumes "\<And>ctx kind v. keeping (csPut st ctx kind v)" "\<And>ctx kind. keeping (csDelete st ctx kind)"
  shows "keeping (credRestore st ctx kind b)"
  by (rule keepingI) (auto simp: credRestore_def split: prod.splits option.splits if_splits dest: keepingD [OF assms(1)] keepingD [OF assms(2)])

lemma failedLogin_keeps:
  assumes "\<And>ctx kind v. keeping (csPut st ctx kind v)" "\<And>ctx kind. keeping (csDelete st ctx kind)" "failedLogin st ctx a k w = (r, e, w1)"
  shows "R w w1"
proof -
  obtain e1 wa where a: "credRestore st (rollbackCtx ctx) AccessToken a w = (e1, wa)" by (metis prod.exhaust)
  obtain e2 wb where b: "credRestore st (rollbackCtx ctx) NordLynxPrivateKey k wa = (e2, wb)" by (metis prod.exhaust)
  have "R w wb" using trans keepingD [OF keeping_restore [OF assms(1,2)] a] keepingD [OF keeping_restore [OF assms(1,2)] b] by blast
  moreover have "w1 = wb" using assms(3) a b by (auto simp: failedLogin_def credRollback_def split: option.splits)
  ultimately show ?thesis by simp
qed

lemma credTransact_keeps:
  assumes p: "\<And>ctx kind v. keeping (csPut st ctx kind v)" and d: "\<And>ctx kind. keeping (csDelete st ctx kind)"
    and g: "\<And>ctx kind. keeping (csGet st ctx kind)" and r: "credTransact st ctx token pr w = (x, e, w1)"
  shows "R w w1"
proof -
  obtain r1 wa where a: "credCapture st ctx AccessToken w = (r1, wa)" by (metis prod.exhaust)
  obtain r2 wb where b: "credCapture st ctx NordLynxPrivateKey wa = (r2, wb)" by (metis prod.exhaust)
  obtain r3 wc where c: "csPut st ctx AccessToken token wb = (r3, wc)" by (metis prod.exhaust)
  obtain r4 wd where dd: "csPut st ctx NordLynxPrivateKey (prPrivateKey pr) wc = (r4, wd)" by (metis prod.exhaust)
  have "R w wa" "R wa wb" "R wb wc" "R wc wd"
    using keepingD [OF keeping_capture [OF g]] keepingD [OF p] a b c dd by blast+
  then have k: "R w wa" "R w wb" "R w wc" "R w wd" by (blast intro: trans)+
  have f: "R v v1" if "failedLogin st ctx y z v = (q, e, v1)" for y z v q v1
    using failedLogin_keeps [OF p d that] .
  show ?thesis using r a b c dd k
    by (auto simp: credTransact_def split: sum.splits option.splits dest!: f intro: trans)
qed

lemma Login_keeps:
  assumes st: "\<And>ctx kind v. keeping (csPut st ctx kind v)" "\<And>ctx kind. keeping (csDelete st ctx kind)" "\<And>ctx kind. keeping (csGet st ctx kind)"
    and pr: "keeping (provision ctx token)" and l: "keeping (lock ctx)" "\<And>v release v1. lock ctx v = (Inr release, v1) \<Longrightarrow> keeping release"
    and r: "Login \<lparr>lsProvisioner = Some provision, lsStore = Some st, lsLocker = Some lock\<rparr> ctx token w = (x, e, w1)"
  shows "R w w1"
proof -
  obtain q wa where a: "lock ctx w = (q, wa)" by (metis prod.exhaust)
  have ka: "R w wa" by (rule keepingD [OF l(1) a])
  show ?thesis
  proof (cases q)
    case (Inl y)
    then show ?thesis using r a ka by (auto simp: Login_def)
  next
    case (Inr release)
    obtain z wb where b: "provision ctx token wa = (z, wb)" by (metis prod.exhaust)
    have kb: "R wa wb" by (rule keepingD [OF pr b])
    obtain a1 a2 wc where c: "(case z of Inl e \<Rightarrow> (0, Some (WrapErr ''provision VPN credentials'' e), wb) | Inr pr \<Rightarrow> credTransact st ctx token pr wb) = (a1, a2, wc)"
      by (metis prod_cases3)
    have kc: "R wb wc" using c credTransact_keeps [OF st] refl by (auto split: sum.splits)
    obtain y wd where d: "release wc = (y, wd)" by (metis prod.exhaust)
    have "keeping release" using l(2) a Inr by blast
    then have kd: "R wc wd" using d by (rule keepingD)
    have "w1 = wd" using r a Inr b c d by (cases y) (auto simp: Login_def deferRelease_def)
    then show ?thesis using ka kb kc kd trans by blast
  qed
qed

end

section \<open>Paths\<close>

definition path_of :: "string list \<Rightarrow> string" where
  "path_of segs = concat (map (\<lambda>x. CHR ''/'' # x) segs)"

definition plain_segment :: "string \<Rightarrow> bool" where
  "plain_segment x \<longleftrightarrow> CHR ''/'' \<notin> set x \<and> x \<noteq> [] \<and> x \<noteq> ''.'' \<and> x \<noteq> ''..''"

lemma split_slash_free: "CHR ''/'' \<notin> set x \<Longrightarrow> split_slash acc (x @ s) = split_slash (rev x @ acc) s"
  by (induction x arbitrary: acc) auto

lemma split_path: "list_all plain_segment segs \<Longrightarrow> split_slash acc (path_of segs) = rev acc # segs"
proof (induction segs arbitrary: acc)
  case Nil
  then show ?case by (simp add: path_of_def)
next
  case (Cons x segs)
  have "split_slash [] (x @ path_of segs) = split_slash (rev x) (path_of segs)"
    using split_slash_free [of x "[]" "path_of segs"] Cons.prems by (simp add: plain_segment_def)
  then show ?case using Cons by (simp add: path_of_def)
qed

lemma clean_plain: "list_all plain_segment segs \<Longrightarrow> clean_segments st segs = rev st @ segs"
  by (induction segs arbitrary: st) (auto simp: plain_segment_def)

lemma clean_path: "list_all plain_segment segs \<Longrightarrow> clean_segments [] (split_slash [] (path_of segs)) = segs"
  by (simp add: split_path clean_plain)

lemma Clean_path: "list_all plain_segment segs \<Longrightarrow> segs \<noteq> [] \<Longrightarrow> filepath_Clean (path_of segs) = path_of segs"
  unfolding filepath_Clean_def clean_path by (cases segs) (simp_all add: path_of_def)

lemma Dir_path: "list_all plain_segment segs \<Longrightarrow> butlast segs \<noteq> [] \<Longrightarrow> filepath_Dir (path_of segs) = path_of (butlast segs)"
  unfolding filepath_Dir_def clean_path by (cases "butlast segs") (simp_all add: path_of_def)

lemma path_snoc: "path_of (segs @ [x]) = path_of segs @ ''/'' @ x"
  by (simp add: path_of_def)

definition session_segments :: "string \<Rightarrow> string list" where
  "session_segments s = [''private'', ''tmp'', ''nordmac-keychain-native-validation-'' @ s]"

lemma session_plain: "ValidSessionID s \<Longrightarrow> list_all plain_segment (session_segments s)"
  by (auto simp: session_segments_def plain_segment_def ValidSessionID_def list_all_iff is_lower_hex_def byte_of_def)

lemma isolatedDirectory_path: "ValidSessionID s \<Longrightarrow> isolatedDirectory s = path_of (session_segments s)"
  using Clean_path [OF session_plain [of s]] by (simp add: isolatedDirectory_def session_segments_def path_of_def)

lemma isolated_child:
  assumes "ValidSessionID s" "plain_segment x"
  shows "filepath_Clean (isolatedDirectory s @ ''/'' @ x) = isolatedDirectory s @ ''/'' @ x"
    "filepath_Dir (isolatedDirectory s @ ''/'' @ x) = isolatedDirectory s" "below (isolatedDirectory s) (isolatedDirectory s @ ''/'' @ x)"
proof -
  have p: "list_all plain_segment (session_segments s @ [x])" using session_plain [OF assms(1)] assms(2) by simp
  have e: "isolatedDirectory s @ ''/'' @ x = path_of (session_segments s @ [x])"
    using isolatedDirectory_path [OF assms(1)] path_snoc by simp
  show "filepath_Clean (isolatedDirectory s @ ''/'' @ x) = isolatedDirectory s @ ''/'' @ x"
    unfolding e by (rule Clean_path [OF p]) simp
  show "filepath_Dir (isolatedDirectory s @ ''/'' @ x) = isolatedDirectory s"
    unfolding e using Dir_path [OF p] isolatedDirectory_path [OF assms(1)] by (simp add: session_segments_def)
  show "below (isolatedDirectory s) (isolatedDirectory s @ ''/'' @ x)" by (simp add: below_def strings_HasPrefix_def)
qed

lemma keychain_segment: "plain_segment ''validation.keychain-db''" "plain_segment ''lock''"
  by (simp_all add: plain_segment_def)

lemmas isolated_keychain_path = isolated_child [OF _ keychain_segment(1), folded isolatedKeychain_def]

section \<open>Everything stays inside the session's directory and Keychain\<close>

type_synonym 'u deepWorld = "fsWorld \<times> 'u \<times> kcWorld"

definition deepRunner :: "'u deepWorld stdinRunner" where
  "deepRunner ctx stdin binary args w = (case helper_Run ctx stdin binary args (snd (snd w)) of (r, k) \<Rightarrow> (r, fst w, fst (snd w), k))"

definition confined :: "string \<Rightarrow> 'u deepWorld \<Rightarrow> 'u deepWorld \<Rightarrow> bool" where
  "confined d w w1 \<longleftrightarrow> same_outside d (fst w) (fst w1) \<and> only_items {q. fst q = d @ ''/validation.keychain-db''} (snd (snd w)) (snd (snd w1))"

interpretation iso: kept "confined d" for d
  by unfold_locales (auto simp: confined_def intro: same_outside_trans only_items_trans)

text \<open>The environment: the random source and the output change neither files nor items, and \<^verbatim>\<open>security(1)\<close>, whose last argument
  is a Keychain file, changes only that Keychain and the directory it is in. The middle of the world is the program's own.\<close>

definition stays :: "'u deepWorld \<Rightarrow> 'u deepWorld \<Rightarrow> bool" where
  "stays w w1 \<longleftrightarrow> fsFiles (fst w1) = fsFiles (fst w) \<and> fsDirs (fst w1) = fsDirs (fst w) \<and> fst (snd w1) = fst (snd w) \<and> same_host (snd (snd w)) (snd (snd w1))"

definition isolatedHost :: "('u deepWorld, 'r) validationHost \<Rightarrow> bool" where
  "isolatedHost h \<longleftrightarrow> vhRunner h = deepRunner \<and> (\<forall>n w. stays w (snd (vhRand h n w))) \<and> (\<forall>r w. stays w (snd (vhEncode h r w))) \<and>
     (\<forall>ctx args d w. confined d w (snd (vhExec h ctx ''/usr/bin/security'' (args @ [d @ ''/validation.keychain-db'']) w)) \<and>
        fst (snd (snd (vhExec h ctx ''/usr/bin/security'' (args @ [d @ ''/validation.keychain-db'']) w))) = fst (snd w))"

lemma stays_contained: "stays w w1 \<Longrightarrow> confined d w w1"
  by (simp add: stays_def confined_def same_tree_outside only_items_same)

lemma deepRunner_keeps:
  assumes "nsRunner s = Some deepRunner" "nsTarget s = ''isolated''" "nsKeychain s = d @ ''/validation.keychain-db''"
  shows "iso.keeping_store d s"
proof -
  have i: "native_item s k kind \<in> {q. fst q = d @ ''/validation.keychain-db''}" for k kind
    using assms by (simp add: native_item_def)
  show ?thesis unfolding iso.keeping_store_def
  proof (intro allI iso.keepingI)
    fix ctx v op kind w r w1
    assume run: "the (nsRunner s) ctx v (nsHelper s) (native_arguments s op kind) w = (r, w1)"
    obtain r2 k1 where h: "helper_Run ctx v (nsHelper s) (native_arguments s op kind) (snd (snd w)) = (r2, k1)" by (metis prod.exhaust)
    then have "w1 = (fst w, fst (snd w), k1)" using run assms(1) by (simp add: deepRunner_def)
    then show "confined d w w1" using helper_Run_only [OF h i] by (simp add: confined_def)
  qed
qed

lemma security_contained:
  assumes "isolatedHost h" "isolated_security h ctx (args @ [d @ ''/validation.keychain-db'']) w = (e, w1)"
  shows "confined d w w1 \<and> fst (snd w1) = fst (snd w)"
proof -
  obtain r wa where r: "vhExec h ctx ''/usr/bin/security'' (args @ [d @ ''/validation.keychain-db'']) w = (r, wa)" by (metis prod.exhaust)
  then have "w1 = wa" using assms(2) by (cases r) (simp_all add: isolated_security_def)
  moreover have "confined d w wa \<and> fst (snd wa) = fst (snd w)" using assms(1) r unfolding isolatedHost_def by (metis snd_conv)
  ultimately show ?thesis by simp
qed

definition emptied :: "string \<Rightarrow> fsWorld \<Rightarrow> bool" where
  "emptied d w \<longleftrightarrow> (\<forall>p. below d p \<longrightarrow> fsDirs w p = None) \<and> (\<forall>q. below d (fst q) \<longrightarrow> fsFiles w q = None)"

lemma RemoveAll_contained: "onFiles (os_RemoveAll d) w = (e, w1) \<Longrightarrow> confined d w w1 \<and> fst (snd w1) = fst (snd w) \<and> (e = None \<longrightarrow> emptied d (fst w1))"
  by (auto simp: onFiles_def confined_def emptied_def dest: RemoveAll_outside RemoveAll_gone split: prod.splits)

lemma cleanup_contained:
  assumes h: "isolatedHost h" and k: "isolatedKeychain d = d @ ''/validation.keychain-db''"
    and r: "isolated_cleanup h d (e0, created, w) = (e, w1)"
  shows "confined d w w1 \<and> fst (snd w1) = fst (snd w) \<and> (e = None \<longrightarrow> e0 = None \<and> emptied d (fst w1))"
proof -
  obtain de wa where a: "isolated_security h (WithTimeout 5 Background) ([''delete-keychain''] @ [d @ ''/validation.keychain-db'']) w = (de, wa)" by (metis prod.exhaust)
  note sa = security_contained [OF h a]
  let ?w = "if created then wa else w" and ?e = "if created then errors_Join [e0, de] else e0"
  obtain re wb where b: "onFiles (os_RemoveAll d) ?w = (re, wb)" by (metis prod.exhaust)
  note sb = RemoveAll_contained [OF b]
  have "e = errors_Join [?e, map_option os_error re]" "w1 = wb"
    using r a b k by (auto simp: isolated_cleanup_def Let_def split: if_splits)
  moreover have "confined d w ?w" "fst (snd ?w) = fst (snd w)" using sa by (auto simp: iso.refl)
  moreover from this have "confined d w wb" using sb by (blast intro: iso.trans)
  ultimately show ?thesis using sb by (auto split: if_splits)
qed

lemma body_contained:
  assumes h: "isolatedHost h" and k: "isolatedKeychain d = d @ ''/validation.keychain-db''"
    and x: "iso.keeping d (exercise (isolatedKeychain d))"
    and r: "isolated_body h d exercise w = (e, created, w1)"
  shows "confined d w w1 \<and> (e = None \<longrightarrow> (\<exists>w2. confined d w w2 \<and> exercise (isolatedKeychain d) w2 = (None, w1)))"
proof -
  obtain r1 wa where a: "isolated_security h isolatedCtx ([''create-keychain'', ''-p'', ''''] @ [d @ ''/validation.keychain-db'']) w = (r1, wa)" by (metis prod.exhaust)
  obtain r2 wb where b: "isolated_security h isolatedCtx ([''unlock-keychain'', ''-p'', ''''] @ [d @ ''/validation.keychain-db'']) wa = (r2, wb)" by (metis prod.exhaust)
  obtain r3 wc where c: "exercise (isolatedKeychain d) wb = (r3, wc)" by (metis prod.exhaust)
  have ka: "confined d w wa" using security_contained [OF h a] by blast
  have kb: "confined d w wb" using security_contained [OF h b] ka iso.trans by blast
  have kc: "confined d w wc" using iso.keepingD [OF x c] kb iso.trans by blast
  show ?thesis
  proof (cases "r1 = None \<and> r2 = None")
    case True
    then have "e = r3" "w1 = wc" using r a b c k by (simp_all add: isolated_body_def)
    then show ?thesis using kb kc c by blast
  next
    case False
    then show ?thesis using r a b k ka kb by (cases r1) (auto simp: isolated_body_def)
  qed
qed

lemma session_contained:
  assumes v: "ValidSessionID sid" and h: "isolatedHost h"
    and x: "iso.keeping (isolatedDirectory sid) (exercise (isolatedKeychain (isolatedDirectory sid)))"
    and m: "onFiles (os_Mkdir (isolatedDirectory sid) 0x1C0) w = (me, wa)"
    and r: "(case me of Some e \<Rightarrow> (Some (err e), wa) | None \<Rightarrow>
       isolated_cleanup h (isolatedDirectory sid) (isolated_body h (isolatedDirectory sid) exercise wa)) = (e, w1)"
  shows "confined (isolatedDirectory sid) w w1 \<and>
    (e = None \<longrightarrow> emptied (isolatedDirectory sid) (fst w1) \<and>
       (\<exists>w2 w3. exercise (isolatedKeychain (isolatedDirectory sid)) w2 = (None, w3) \<and> fst (snd w1) = fst (snd w3))) \<and>
    (fsDirs (fst w) (isolatedDirectory sid) \<noteq> None \<longrightarrow> e \<noteq> None \<and> fsDirs (fst w1) = fsDirs (fst w) \<and> fsFiles (fst w1) = fsFiles (fst w) \<and> snd w1 = snd w)"
proof -
  let ?d = "isolatedDirectory sid"
  obtain fa where fa: "os_Mkdir ?d 0x1C0 (fst w) = (me, fa)" "wa = (fa, snd w)" using m by (auto simp: onFiles_def split: prod.splits)
  note mk = Mkdir_outside [OF fa(1)]
  have ka: "confined ?d w wa" using mk fa(2) by (simp add: confined_def)
  have k: "isolatedKeychain ?d = ?d @ ''/validation.keychain-db''"
    unfolding isolatedKeychain_def using isolated_child(1) [OF v keychain_segment(1)] by simp
  show ?thesis
  proof (cases me)
    case (Some y)
    then have "e = Some (err y)" "w1 = wa" using r by simp_all
    then show ?thesis using ka mk fa Some by simp
  next
    case None
    obtain eb created wb where b: "isolated_body h ?d exercise wa = (eb, created, wb)" by (metis prod_cases3)
    have c: "isolated_cleanup h ?d (eb, created, wb) = (e, w1)" using r None b by simp
    note bb = body_contained [OF h k x b] and cc = cleanup_contained [OF h k c]
    have "confined ?d w w1" using ka bb cc iso.trans by blast
    moreover have "fsDirs (fst w) ?d = None" using mk None by blast
    ultimately show ?thesis using bb cc by metis
  qed
qed

lemma early_last: "early (fs @ [g]) w = (None, w1) \<Longrightarrow> \<exists>w2. g w2 = (None, w1)"
  by (induction fs arbitrary: w) (auto split: prod.splits option.splits)

lemma isolated_store:
  assumes "isolatedHost h" "NewValidation (vhRunner h) helper (isolatedKeychain (isolatedDirectory sid)) = Inr s" "ValidSessionID sid"
  shows "iso.keeping_store (isolatedDirectory sid) s"
proof -
  have k: "isolatedKeychain (isolatedDirectory sid) = isolatedDirectory sid @ ''/validation.keychain-db''"
    unfolding isolatedKeychain_def using isolated_child(1) [OF assms(3) keychain_segment(1)] by simp
  have "filepath_Clean (isolatedKeychain (isolatedDirectory sid)) = isolatedKeychain (isolatedDirectory sid)"
    unfolding k using isolated_child(1) [OF assms(3) keychain_segment(1)] by simp
  then show ?thesis using assms(1,2) k
    by (intro deepRunner_keeps) (auto simp: NewValidation_def isolatedHost_def Let_def split: option.splits if_splits)
qed

lemma keeping_secret: "isolatedHost h \<Longrightarrow> iso.keeping d (validation_secret h)"
proof (rule iso.keepingI)
  fix w r w1 assume h: "isolatedHost h" and r: "validation_secret h w = (r, w1)"
  have "w1 = snd (vhRand h 32 w)" using r by (auto simp: validation_secret_def split: prod.splits sum.splits)
  then show "confined d w w1" using h stays_contained unfolding isolatedHost_def by blast
qed

lemma keeping_encode: "isolatedHost h \<Longrightarrow> iso.keeping d (vhEncode h r)"
  unfolding iso.keeping_def isolatedHost_def using stays_contained by blast

lemma keeping_gone: "iso.keeping_store d s \<Longrightarrow> iso.keeping d (nk_gone s ctx)" "iso.keeping_store d s \<Longrightarrow> iso.keeping d (sl_absent s ctx kind)"
  by (rule iso.keepingI, auto simp: nk_gone_def sl_absent_def split: prod.splits sum.splits if_splits dest: iso.keepingD [OF iso.keeping_Get])+

lemma nk_exercise_keeps:
  assumes h: "isolatedHost h" and v: "ValidSessionID sid"
  shows "iso.keeping (isolatedDirectory sid) (nk_exercise h (isolatedKeychain (isolatedDirectory sid)))"
proof (rule iso.keepingI)
  let ?d = "isolatedDirectory sid"
  fix w r w1 assume r: "nk_exercise h (isolatedKeychain ?d) w = (r, w1)"
  obtain f1 wa where a: "validation_secret h w = (f1, wa)" by (metis prod.exhaust)
  obtain f2 wb where b: "validation_secret h wa = (f2, wb)" by (metis prod.exhaust)
  have ka: "confined ?d w wa" "confined ?d w wb"
    using iso.keepingD [OF keeping_secret [OF h] a] iso.keepingD [OF keeping_secret [OF h] b] iso.trans by blast+
  show "confined ?d w w1"
  proof (cases "NewValidation (vhRunner h) nk_helperPath (isolatedKeychain ?d)")
    case (Inl e)
    then show ?thesis using r by (auto simp: nk_exercise_def iso.refl)
  next
    case (Inr s)
    have s: "iso.keeping_store ?d s" by (rule isolated_store [OF h Inr v])
    have e: "iso.keeping ?d (early [CreateValidation s isolatedCtx AccessToken x, nk_verify s isolatedCtx x,
            ReplaceValidation s isolatedCtx AccessToken y, nk_verify s isolatedCtx y, native_Delete s isolatedCtx AccessToken,
            nk_gone s isolatedCtx, vhEncode h z])" for x y z
      by (rule iso.keeping_early)
        (auto simp: CreateValidation_def [abs_def] ReplaceValidation_def [abs_def] nk_verify_def [abs_def]
          intro: iso.keeping_write [OF s] iso.keeping_verify [OF s] iso.keeping_Delete [OF s] keeping_gone(1) [OF s] keeping_encode [OF h])
    show ?thesis using r Inr a b ka
      by (auto simp: nk_exercise_def simp del: early.simps split: sum.splits dest: iso.keepingD [OF e] intro: iso.trans)
  qed
qed

text \<open>The validation of the native store stays in its session: whatever fails or is killed, items of other Keychains and files
  outside \<^verbatim>\<open>/private/tmp/nordmac-keychain-native-validation-<session>\<close> are as before; if that directory existed, nothing at all has
  changed and an error is reported; and if no error is reported nothing is left in or of the directory.\<close>

theorem native_validation_confined:
  assumes "isolatedHost h" and "nk_run h f w = (e, w1)"
  shows "confined (isolatedDirectory (sfSession f)) w w1 \<and>
    (e = None \<longrightarrow> emptied (isolatedDirectory (sfSession f)) (fst w1)) \<and>
    (fsDirs (fst w) (isolatedDirectory (sfSession f)) \<noteq> None \<longrightarrow>
       e \<noteq> None \<and> fsDirs (fst w1) = fsDirs (fst w) \<and> fsFiles (fst w1) = fsFiles (fst w) \<and> snd w1 = snd w)"
proof (cases "isolated_refused h f")
  case True
  then show ?thesis using assms(2) by (auto simp: nk_run_def iso.refl)
next
  case False
  then have v: "ValidSessionID (sfSession f)" by (simp add: isolated_refused_def)
  obtain me wa where m: "onFiles (os_Mkdir (isolatedDirectory (sfSession f)) 0x1C0) w = (me, wa)" by (metis prod.exhaust)
  show ?thesis
    using session_contained [where exercise = "nk_exercise h" and err = "\<lambda>e. WrapErr ''create validation directory'' (os_error e)",
        OF v assms(1) nk_exercise_keeps [OF assms(1) v] m, of e w1] assms(2) False m by (simp add: nk_run_def Let_def)
qed

section \<open>The login\<close>

text \<open>Sending a request over the loopback interface to the handler changes neither files nor items.\<close>

definition loopbackOnly :: "kcWorld countedWorld loopback \<Rightarrow> bool" where
  "loopbackOnly n \<longleftrightarrow> (\<forall>t rd ctx rq w. let w1 = snd (lbSend n sl_handler t rd ctx rq w) in
     fsFiles (fst w1) = fsFiles (fst w) \<and> fsDirs (fst w1) = fsDirs (fst w) \<and> same_host (snd (snd w)) (snd (snd w1)))"

lemma Provision_keeps:
  assumes "loopbackOnly n"
  shows "iso.keeping d (auth_Provision (sl_client n) ctx token)"
proof (rule iso.keepingI)
  fix w r w1 assume r: "auth_Provision (sl_client n) ctx token w = (r, w1)"
  show "confined d w w1"
  proof (cases "w1 = w")
    case True
    then show ?thesis by (simp add: iso.refl)
  next
    case False
    then obtain t rd rq where "w1 = snd (lbSend n sl_handler t rd ctx rq w)"
      using r by (auto simp: auth_Provision_def auth_httpClient_def sl_client_def Let_def split: option.splits sum.splits prod.splits)
        (metis snd_conv)+
    then show ?thesis using assms by (auto simp: loopbackOnly_def Let_def confined_def intro: same_tree_outside only_items_same)
  qed
qed

lemma userLock_keeps:
  assumes "below d l"
  shows "iso.keeping d (userLock l ctx)" "userLock l ctx w = (Inr release, w1) \<Longrightarrow> iso.keeping d release"
proof -
  show "iso.keeping d (userLock l ctx)"
    by (rule iso.keepingI) (auto simp: userLock_def onFiles_def confined_def split: prod.splits sum.splits dest!: cred_Lock_outside [OF _ assms])
  assume u: "userLock l ctx w = (Inr release, w1)"
  obtain rel where r: "release = onFiles rel" "\<And>v e v1. rel v = (e, v1) \<Longrightarrow> fsFiles v1 = fsFiles v \<and> fsDirs v1 = fsDirs v"
    using u by (auto simp: userLock_def onFiles_def [of "cred_Lock l ctx"] split: prod.splits sum.splits dest!: cred_Lock_outside [OF _ assms])
  show "iso.keeping d release" unfolding r(1)
    by (rule iso.keepingI) (auto simp: onFiles_def confined_def split: prod.splits dest!: r(2) intro: same_tree_outside)
qed

lemma sl_exercise_keeps:
  assumes h: "isolatedHost h" and n: "loopbackOnly n" and v: "ValidSessionID sid"
  shows "iso.keeping (isolatedDirectory sid) (sl_exercise n h (isolatedDirectory sid) (isolatedKeychain (isolatedDirectory sid)))"
proof (rule iso.keepingI)
  let ?d = "isolatedDirectory sid"
  fix w r w1 assume r: "sl_exercise n h ?d (isolatedKeychain ?d) w = (r, w1)"
  show "confined ?d w w1"
  proof (cases "NewValidation (vhRunner h) sl_helperPath (isolatedKeychain ?d)")
    case (Inl e)
    then show ?thesis using r by (auto simp: sl_exercise_def iso.refl)
  next
    case (Inr s)
    have s: "iso.keeping_store ?d s" by (rule isolated_store [OF h Inr v])
    have c: "filepath_Clean (?d @ ''/lock'') = ?d @ ''/lock''" "below ?d (?d @ ''/lock'')"
      using isolated_child(1,3) [OF v keychain_segment(2)] by simp_all
    obtain account err wa where l: "Login (sl_service n s ?d) isolatedCtx (text_bytes syntheticToken) w = (account, err, wa)" by (metis prod_cases3)
    have la: "confined ?d w wa"
      by (rule iso.Login_keeps [OF _ _ _ Provision_keeps [OF n] userLock_keeps [OF c(2)] l [unfolded sl_service_def c(1)]])
        (auto simp: nativeStoreOf_def native_Put_def [abs_def] intro: iso.keeping_write [OF s] iso.keeping_Get [OF s] iso.keeping_Delete [OF s])
    have q: "iso.keeping ?d (sl_requests h)"
      by (rule iso.keepingI) (auto simp: sl_requests_def iso.refl split: if_splits dest: iso.keepingD [OF keeping_encode [OF h]])
    have e: "iso.keeping ?d (early [sl_verify s isolatedCtx AccessToken x, sl_verify s isolatedCtx NordLynxPrivateKey y,
          native_Delete s isolatedCtx AccessToken, native_Delete s isolatedCtx NordLynxPrivateKey,
          sl_absent s isolatedCtx AccessToken, sl_absent s isolatedCtx NordLynxPrivateKey, sl_requests h])" for x y
      by (rule iso.keeping_early)
        (auto simp: sl_verify_def [abs_def] intro: iso.keeping_verify [OF s] iso.keeping_Delete [OF s] keeping_gone(2) [OF s] q)
    show ?thesis using r Inr l la
      by (auto simp: sl_exercise_def simp del: early.simps split: if_splits dest: iso.keepingD [OF e] intro: iso.trans)
  qed
qed

lemma sl_exercise_once:
  assumes h: "isolatedHost h" and r: "sl_exercise n h d k w = (None, w1)"
  shows "fst (snd w1) = 1"
proof -
  obtain s wa where e: "early ([sl_verify s isolatedCtx AccessToken (text_bytes syntheticToken),
          sl_verify s isolatedCtx NordLynxPrivateKey (text_bytes syntheticPrivateKey),
          native_Delete s isolatedCtx AccessToken, native_Delete s isolatedCtx NordLynxPrivateKey,
          sl_absent s isolatedCtx AccessToken, sl_absent s isolatedCtx NordLynxPrivateKey] @ [sl_requests h]) wa = (None, w1)"
    using r by (auto simp: sl_exercise_def simp del: early.simps split: sum.splits prod.splits if_splits)
  obtain wb where "sl_requests h wb = (None, w1)" using early_last [OF e] by blast
  then have b: "fst (snd wb) = 1" "w1 = snd (vhEncode h \<lparr>srOK = True, srOperations = 9, srRequests = 1, srError = None\<rparr> wb)"
    by (auto simp: sl_requests_def split: if_splits)
  then show ?thesis using h unfolding isolatedHost_def stays_def by metis
qed

text \<open>C40: the synthetic login stays in its session as well: whatever fails, items of other Keychains, the user's credentials among
  them, and files outside its directory are as before; an existing directory is refused without a change. If no error is reported, the
  whole login has made exactly one request to the server, and nothing is left of the session.\<close>

theorem synthetic_login_confined:
  assumes "isolatedHost h" "loopbackOnly n" and "sl_run n h f w = (e, w1)"
  shows "confined (isolatedDirectory (sfSession f)) w w1 \<and>
    (e = None \<longrightarrow> emptied (isolatedDirectory (sfSession f)) (fst w1) \<and> fst (snd w1) = 1) \<and>
    (fsDirs (fst w) (isolatedDirectory (sfSession f)) \<noteq> None \<longrightarrow>
       e \<noteq> None \<and> fsDirs (fst w1) = fsDirs (fst w) \<and> fsFiles (fst w1) = fsFiles (fst w) \<and> snd (snd w1) = snd (snd w))"
proof -
  let ?w = "(fst w, 0 :: int, snd (snd w))" and ?d = "isolatedDirectory (sfSession f)"
  have c: "confined ?d w w1 \<longleftrightarrow> confined ?d ?w w1" by (simp add: confined_def)
  show ?thesis
  proof (cases "isolated_refused h f")
    case True
    then show ?thesis using assms(3) unfolding c by (auto simp: sl_run_def Let_def iso.refl)
  next
    case False
    then have v: "ValidSessionID (sfSession f)" by (simp add: isolated_refused_def)
    obtain me wa where m: "onFiles (os_Mkdir ?d 0x1C0) ?w = (me, wa)" by (metis prod.exhaust)
    have r: "(case me of Some e \<Rightarrow> (Some (Err ''create synthetic login directory''), wa) | None \<Rightarrow>
        isolated_cleanup h ?d (isolated_body h ?d (sl_exercise n h ?d) wa)) = (e, w1)"
      using assms(3) False m by (simp add: sl_run_def Let_def)
    note s = session_contained [where exercise = "sl_exercise n h ?d" and err = "\<lambda>e. Err ''create synthetic login directory''",
        OF v assms(1) sl_exercise_keeps [OF assms(1,2) v] m r]
    have "e = None \<longrightarrow> fst (snd w1) = 1" using s sl_exercise_once [OF assms(1)] by metis
    then show ?thesis using s unfolding c by simp
  qed
qed

section \<open>A machine\<close>

definition isolatedMachine :: "('u deepWorld, 'r) validationHost" where
  "isolatedMachine = \<lparr>vhGOOS = ''darwin'', vhGeteuid = 501, vhRunner = deepRunner, vhExec = (\<lambda>ctx p a w. (None, w)),
     vhRand = (\<lambda>n w. (Inr (replicate n 3), w)), vhEncode = (\<lambda>r w. (None, w)), vhPackage = samplePackage, vhSHA256 = (\<lambda>d. replicate 32 7)\<rparr>"

lemma isolatedMachine_host: "isolatedHost isolatedMachine"
  by (simp add: isolatedHost_def isolatedMachine_def stays_def same_host_def iso.refl)

definition isolatedFlags :: sessionFlags where
  "isolatedFlags = \<lparr>sfSession = replicate 32 (CHR ''a''), sfAcknowledged = True\<rparr>"

definition isolatedWorld :: "int deepWorld" where
  "isolatedWorld = (sampleFiles, 0, sampleKeychain)"

text \<open>A server that cannot be reached.\<close>

definition deadLoopback :: "int deepWorld loopback" where
  "deadLoopback = \<lparr>lbURL = ''http://127.0.0.1:8080'', lbSend = (\<lambda>handler t rd ctx rq w. (Inl (Err ''connection refused''), w)),
     lbTransport = (\<lambda>t rd ctx rq w. (Inl (Err ''unused''), w)),
     lbParse = (\<lambda>s. Some \<lparr>uScheme = ''http'', uUser = None, uHost = ''127.0.0.1:8080'', uPath = [], uRawQuery = [], uFragment = []\<rparr>),
     lbTables = asciiTables, lbCodec = \<lparr>json_Marshal = (\<lambda>_. None), json_Decode = (\<lambda>b. None)\<rparr>\<rparr>"

lemma deadLoopback_only: "loopbackOnly deadLoopback"
  by (simp add: loopbackOnly_def deadLoopback_def same_host_def)

theorem native_validation_confined_witness:
  "\<exists>w1. nk_run isolatedMachine isolatedFlags isolatedWorld = (None, w1) \<and> confined (isolatedDirectory (replicate 32 (CHR ''a''))) isolatedWorld w1 \<and>
     emptied (isolatedDirectory (replicate 32 (CHR ''a''))) (fst w1)"
proof -
  have "fst (nk_run isolatedMachine isolatedFlags isolatedWorld) = None" by code_simp
  then obtain w1 where r: "nk_run isolatedMachine isolatedFlags isolatedWorld = (None, w1)" by (metis prod.collapse)
  then show ?thesis using native_validation_confined [OF isolatedMachine_host r] by (simp add: isolatedFlags_def)
qed

theorem synthetic_login_confined_witness:
  "\<exists>e w1. sl_run deadLoopback isolatedMachine isolatedFlags isolatedWorld = (Some e, w1) \<and>
     confined (isolatedDirectory (replicate 32 (CHR ''a''))) isolatedWorld w1"
proof -
  have "fst (sl_run deadLoopback isolatedMachine isolatedFlags isolatedWorld) =
      Some (JoinErr [JoinErr [Err ''synthetic login transaction failed'']])" by code_simp
  then obtain e w1 where r: "sl_run deadLoopback isolatedMachine isolatedFlags isolatedWorld = (Some e, w1)" by (metis prod.collapse)
  then show ?thesis using synthetic_login_confined [OF isolatedMachine_host deadLoopback_only r] by (simp add: isolatedFlags_def)
qed

end
