(* ===== verification/Userspace_Runtime.thy ===== *)
theory Userspace_Runtime
  imports Helper_Daemon
begin

text \<open>
  The userspace WireGuard runtime of \<^verbatim>\<open>internal/wgbackend/runtime.go\<close> over \<^verbatim>\<open>wireguard-go\<close>, which is an argument:
  a TUN device, the device on top of it, and its configuration protocol. A runtime's \<^verbatim>\<open>sync.Once\<close> is a flag in the
  world, kept beside the host under the number of the runtime. Also here: how the network tools are run
  (\<^verbatim>\<open>CommandRunner\<close> of \<^verbatim>\<open>internal/darwinnet/runner.go\<close>).
\<close>

declare split_paired_All [simp del] split_paired_Ex [simp del]

section \<open>The library\<close>

record 'w tunDevice =
  tdName :: "'w \<Rightarrow> (gerror + string) \<times> 'w"
  tdClose :: "'w \<Rightarrow> gerror option \<times> 'w"

record 'w goDevice =
  gdIpcSet :: "string \<Rightarrow> 'w \<Rightarrow> gerror option \<times> 'w"
  gdIpcGet :: "'w \<Rightarrow> (gerror + string) \<times> 'w"
  gdUp :: "'w \<Rightarrow> gerror option \<times> 'w"
  gdClose :: "'w \<Rightarrow> 'w"

record 'w wireguardGo =
  wlCreateTUN :: "string \<Rightarrow> int \<Rightarrow> 'w \<Rightarrow> (gerror + 'w tunDevice) \<times> 'w"
  wlNewDevice :: "'w tunDevice \<Rightarrow> 'w \<Rightarrow> 'w goDevice \<times> 'w"

section \<open>The runtime\<close>

text \<open>The host, the runtimes whose \<^verbatim>\<open>once\<close> has run, and the number of the next one.\<close>

type_synonym 'w runtimeWorld = "'w \<times> nat set \<times> nat"

definition onHost :: "('w \<Rightarrow> 'r \<times> 'w) \<Rightarrow> 'w runtimeWorld \<Rightarrow> 'r \<times> 'w runtimeWorld" where
  "onHost f v = (case f (fst v) of (r, w1) \<Rightarrow> (r, w1, snd v))"

definition runtime_Configure :: "(addrport \<Rightarrow> string) \<Rightarrow> 'w goDevice \<Rightarrow> deviceSpec \<Rightarrow> deviceSecrets \<Rightarrow> 'w runtimeWorld \<Rightarrow> gerror option \<times> 'w runtimeWorld" where
  "runtime_Configure show_endpoint dev sp s = onHost (gdIpcSet dev (wgConfiguration show_endpoint sp s))"

definition runtime_Snapshot :: "'w goDevice \<Rightarrow> 'w runtimeWorld \<Rightarrow> (gerror + wgSnapshot) \<times> 'w runtimeWorld" where
  "runtime_Snapshot dev v = (case onHost (gdIpcGet dev) v of
     (Inl e, v1) \<Rightarrow> (Inl e, v1)
   | (Inr output, v1) \<Rightarrow> (parseSnapshot output, v1))"

definition runtime_Close :: "nat \<Rightarrow> 'w goDevice \<Rightarrow> 'w runtimeWorld \<Rightarrow> gerror option \<times> 'w runtimeWorld" where
  "runtime_Close i dev v = (case v of (w, closed, next) \<Rightarrow>
     (None, if i \<in> closed then v else (gdClose dev w, insert i closed, next)))"

definition userspaceRuntime :: "(addrport \<Rightarrow> string) \<Rightarrow> string \<Rightarrow> nat \<Rightarrow> 'w goDevice \<Rightarrow> ('w runtimeWorld) wgRuntime" where
  "userspaceRuntime show_endpoint name i dev = \<lparr>rtName = name, rtConfigure = runtime_Configure show_endpoint dev,
     rtUp = onHost (gdUp dev), rtSnapshot = runtime_Snapshot dev, rtClose = runtime_Close i dev\<rparr>"

definition UserspaceFactory_Create :: "string \<Rightarrow> 'w wireguardGo \<Rightarrow> (addrport \<Rightarrow> string) \<Rightarrow> int \<Rightarrow> 'w runtimeWorld \<Rightarrow>
    (gerror + ('w runtimeWorld) wgRuntime) \<times> 'w runtimeWorld" where
  "UserspaceFactory_Create goos lib show_endpoint mtu v =
     (if goos \<noteq> ''darwin'' then (Inl (Err ''the nordmac userspace backend requires macOS''), v)
      else (case onHost (wlCreateTUN lib ''utun'' mtu) v of
        (Inl e, v1) \<Rightarrow> (Inl e, v1)
      | (Inr tun, v1) \<Rightarrow> (case onHost (tdName tun) v1 of
          (Inl e, v2) \<Rightarrow> (Inl e, snd (onHost (tdClose tun) v2))
        | (Inr name, v2) \<Rightarrow> (case onHost (wlNewDevice lib tun) v2 of
            (dev, w3, closed, next) \<Rightarrow> (Inr (userspaceRuntime show_endpoint name next dev), w3, closed, Suc next)))))"

section \<open>Running a tool\<close>

text \<open>\<^verbatim>\<open>CommandRunner.Run\<close>: the environment with \<^verbatim>\<open>LC_ALL\<close> forced to \<^verbatim>\<open>C\<close>; the argument starts the process and collects its
  combined output. A failure is the text of the error, which carries the trimmed output.\<close>

definition commandEnv :: "string list \<Rightarrow> string list" where
  "commandEnv environ = filter (\<lambda>variable. \<not> strings_HasPrefix variable ''LC_ALL='') environ @ [''LC_ALL=C'']"

definition CommandRunner_Run :: "string list \<Rightarrow> (ctx \<Rightarrow> string list \<Rightarrow> string \<Rightarrow> string list \<Rightarrow> 'w \<Rightarrow> (string \<times> string option) \<times> 'w) \<Rightarrow>
    ctx \<Rightarrow> string \<Rightarrow> string list \<Rightarrow> 'w \<Rightarrow> (string + string) \<times> 'w" where
  "CommandRunner_Run environ exec ctx name arguments w = (case exec ctx (commandEnv environ) name arguments w of
     ((output, None), w1) \<Rightarrow> (Inr output, w1)
   | ((output, Some err), w1) \<Rightarrow>
      (let message = strings_TrimSpace output in
       (Inl (''run '' @ name @ '': '' @ err @ (if message = [] then [] else '': '' @ message)), w1)))"

definition commandRunner :: "string list \<Rightarrow> (ctx \<Rightarrow> string list \<Rightarrow> string \<Rightarrow> string list \<Rightarrow> 'w \<Rightarrow> (string \<times> string option) \<times> 'w) \<Rightarrow> 'w runner" where
  "commandRunner environ exec = \<lparr>rnRun = CommandRunner_Run environ exec\<rparr>"

section \<open>Every device is closed, once\<close>

text \<open>
  What is relied on of the library: \<open>opn\<close> gives the open TUN devices of a host. Creating one opens a new
  one or fails without a trace, only closing it, or the device on top of it, closes it.
\<close>

definition device_ok :: "('w \<Rightarrow> 'd set) \<Rightarrow> 'd \<Rightarrow> 'w goDevice \<Rightarrow> bool" where
  "device_ok opn d dev \<longleftrightarrow> (\<forall>s w. opn (snd (gdIpcSet dev s w)) = opn w) \<and> (\<forall>w. opn (snd (gdIpcGet dev w)) = opn w) \<and>
     (\<forall>w. opn (snd (gdUp dev w)) = opn w) \<and> (\<forall>w. opn (gdClose dev w) = opn w - {d})"

definition tun_ok :: "'w wireguardGo \<Rightarrow> ('w \<Rightarrow> 'd set) \<Rightarrow> 'd \<Rightarrow> 'w tunDevice \<Rightarrow> bool" where
  "tun_ok lib opn d tun \<longleftrightarrow> (\<forall>w. opn (snd (tdName tun w)) = opn w) \<and> (\<forall>w. opn (snd (tdClose tun w)) = opn w - {d}) \<and>
     (\<forall>w. case wlNewDevice lib tun w of (dev, w1) \<Rightarrow> opn w1 = opn w \<and> device_ok opn d dev)"

definition library_ok :: "'w wireguardGo \<Rightarrow> ('w \<Rightarrow> 'd set) \<Rightarrow> bool" where
  "library_ok lib opn \<longleftrightarrow> (\<forall>name mtu w. case wlCreateTUN lib name mtu w of
     (Inl e, w1) \<Rightarrow> opn w1 = opn w
   | (Inr tun, w1) \<Rightarrow> \<exists>d. d \<notin> opn w \<and> opn w1 = insert d (opn w) \<and> tun_ok lib opn d tun)"

lemma library_okD:
  assumes "library_ok lib opn"
  shows "wlCreateTUN lib name mtu w = (Inl e, w1) \<Longrightarrow> opn w1 = opn w"
    and "wlCreateTUN lib name mtu w = (Inr tun, w1) \<Longrightarrow> \<exists>d. d \<notin> opn w \<and> opn w1 = insert d (opn w) \<and> tun_ok lib opn d tun"
proof -
  have c: "case wlCreateTUN lib name mtu w of (Inl e, w1) \<Rightarrow> opn w1 = opn w
      | (Inr tun, w1) \<Rightarrow> \<exists>d. d \<notin> opn w \<and> opn w1 = insert d (opn w) \<and> tun_ok lib opn d tun"
    by (rule assms [unfolded library_ok_def, THEN spec, THEN spec, THEN spec])
  show "opn w1 = opn w" if "wlCreateTUN lib name mtu w = (Inl e, w1)" using c unfolding that by simp
  show "\<exists>d. d \<notin> opn w \<and> opn w1 = insert d (opn w) \<and> tun_ok lib opn d tun" if "wlCreateTUN lib name mtu w = (Inr tun, w1)"
    using c unfolding that by simp
qed

lemma tun_okD:
  assumes "tun_ok lib opn d tun"
  shows "tdName tun w = (r, w1) \<Longrightarrow> opn w1 = opn w" "opn (snd (tdClose tun w)) = opn w - {d}"
    "wlNewDevice lib tun w = (dev, w1) \<Longrightarrow> opn w1 = opn w \<and> device_ok opn d dev"
proof -
  note t = assms [unfolded tun_ok_def]
  have a: "opn (snd (tdName tun w)) = opn w" by (rule conjunct1 [OF t, THEN spec])
  have c: "case wlNewDevice lib tun w of (dev, w1) \<Rightarrow> opn w1 = opn w \<and> device_ok opn d dev"
    by (rule conjunct2 [OF conjunct2 [OF t], THEN spec])
  show "tdName tun w = (r, w1) \<Longrightarrow> opn w1 = opn w" using a by simp
  show "opn (snd (tdClose tun w)) = opn w - {d}" by (rule conjunct1 [OF conjunct2 [OF t], THEN spec])
  show "wlNewDevice lib tun w = (dev, w1) \<Longrightarrow> opn w1 = opn w \<and> device_ok opn d dev" using c by simp
qed

text \<open>The runtime \<open>rt\<close> is number \<open>i\<close> and stands for the device \<open>d\<close>.\<close>

definition runtime_for :: "('w \<Rightarrow> 'd set) \<Rightarrow> 'd \<Rightarrow> nat \<Rightarrow> ('w runtimeWorld) wgRuntime \<Rightarrow> bool" where
  "runtime_for opn d i rt \<longleftrightarrow>
     (\<forall>sp s v. opn (fst (snd (rtConfigure rt sp s v))) = opn (fst v) \<and> snd (snd (rtConfigure rt sp s v)) = snd v) \<and>
     (\<forall>v. opn (fst (snd (rtUp rt v))) = opn (fst v) \<and> snd (snd (rtUp rt v)) = snd v) \<and>
     (\<forall>v. opn (fst (snd (rtSnapshot rt v))) = opn (fst v) \<and> snd (snd (rtSnapshot rt v)) = snd v) \<and>
     (\<forall>v. fst (rtClose rt v) = None \<and>
        (if i \<in> fst (snd v) then snd (rtClose rt v) = v
         else opn (fst (snd (rtClose rt v))) = opn (fst v) - {d} \<and> snd (snd (rtClose rt v)) = (insert i (fst (snd v)), snd (snd v))))"

definition numbered :: "'w runtimeWorld \<Rightarrow> bool" where
  "numbered v \<longleftrightarrow> (\<forall>i\<in>fst (snd v). i < snd (snd v))"

lemma onHost_simps [simp]: "fst (snd (onHost f v)) = snd (f (fst v))" "snd (snd (onHost f v)) = snd v" "fst (onHost f v) = fst (f (fst v))"
  by (simp_all add: onHost_def split: prod.split)

lemma onHost_eq: "onHost f v = (r, v1) \<longleftrightarrow> f (fst v) = (r, fst v1) \<and> snd v1 = snd v"
  by (cases v1) (auto simp: onHost_def split: prod.splits)

lemma runtime_Snapshot_keeps [simp]:
  "fst (snd (runtime_Snapshot dev v)) = snd (gdIpcGet dev (fst v))" "snd (snd (runtime_Snapshot dev v)) = snd v"
  by (auto simp: runtime_Snapshot_def onHost_def split: prod.splits sum.splits)

lemma runtime_Close_eq [simp]:
  "fst (runtime_Close i dev v) = None"
  "snd (runtime_Close i dev v) = (if i \<in> fst (snd v) then v else (gdClose dev (fst v), insert i (fst (snd v)), snd (snd v)))"
  by (simp_all add: runtime_Close_def case_prod_beta)

lemma userspace_runtime_for:
  assumes "device_ok opn d dev"
  shows "runtime_for opn d i (userspaceRuntime show_endpoint name i dev)"
proof -
  have k: "opn (snd (gdIpcSet dev s w)) = opn w" "opn (snd (gdIpcGet dev w)) = opn w" "opn (snd (gdUp dev w)) = opn w" "opn (gdClose dev w) = opn w - {d}"
    for s w using assms unfolding device_ok_def by blast+
  show ?thesis unfolding runtime_for_def by (simp add: userspaceRuntime_def runtime_Configure_def k)
qed

lemma userspace_create:
  assumes "library_ok lib opn" "numbered v" and "UserspaceFactory_Create goos lib show_endpoint mtu v = (r, v1)"
  shows "numbered v1 \<and> (case r of
      Inl e \<Rightarrow> opn (fst v1) = opn (fst v)
    | Inr rt \<Rightarrow> \<exists>d i. d \<notin> opn (fst v) \<and> opn (fst v1) = insert d (opn (fst v)) \<and> i \<notin> fst (snd v1) \<and> runtime_for opn d i rt)"
proof (cases "goos = ''darwin''")
  case False
  then show ?thesis using assms(2,3) by (auto simp: UserspaceFactory_Create_def)
next
  case True
  obtain rt va where a: "onHost (wlCreateTUN lib ''utun'' mtu) v = (rt, va)" by (metis prod.exhaust)
  show ?thesis
  proof (cases rt)
    case (Inl e)
    then have "r = Inl e" "v1 = va" using True a assms(3) by (auto simp: UserspaceFactory_Create_def)
    moreover have "opn (fst va) = opn (fst v)"
      using a Inl library_okD(1) [OF assms(1)] unfolding onHost_eq by blast
    ultimately show ?thesis using a assms(2) by (simp add: onHost_eq numbered_def)
  next
    case (Inr tun)
    obtain d where d: "d \<notin> opn (fst v)" "opn (fst va) = insert d (opn (fst v))" "tun_ok lib opn d tun"
      using a Inr library_okD(2) [OF assms(1)] unfolding onHost_eq by blast
    have sa: "snd va = snd v" using a by (simp add: onHost_eq)
    obtain rn vb where b: "onHost (tdName tun) va = (rn, vb)" by (metis prod.exhaust)
    have sb: "snd vb = snd v" "opn (fst vb) = insert d (opn (fst v))" using b sa d tun_okD(1) [OF d(3)] unfolding onHost_eq by auto
    show ?thesis
    proof (cases rn)
      case (Inl e)
      have "r = Inl e" "v1 = snd (onHost (tdClose tun) vb)" using True a b Inl \<open>rt = Inr tun\<close> assms(3) by (auto simp: UserspaceFactory_Create_def)
      then show ?thesis using sb d assms(2) tun_okD(2) [OF d(3)] by (simp add: numbered_def)
    next
      case (Inr name)
      obtain dev w3 where c: "wlNewDevice lib tun (fst vb) = (dev, w3)" by (metis prod.exhaust)
      have dv: "opn w3 = opn (fst vb)" "device_ok opn d dev" using tun_okD(3) [OF d(3) c] by simp_all
      have "r = Inr (userspaceRuntime show_endpoint name (snd (snd v)) dev)" "v1 = (w3, fst (snd v), Suc (snd (snd v)))"
        using True a b c Inr \<open>rt = Inr tun\<close> sb(1) assms(3) by (auto simp: UserspaceFactory_Create_def onHost_def split: prod.splits)
      moreover have "snd (snd v) \<notin> fst (snd v)" using assms(2) by (auto simp: numbered_def)
      moreover have "runtime_for opn d (snd (snd v)) (userspaceRuntime show_endpoint name (snd (snd v)) dev)" by (rule userspace_runtime_for [OF dv(2)])
      moreover have "numbered v1" using calculation(2) assms(2) by (auto simp: numbered_def intro: less_SucI)
      ultimately show ?thesis using dv(1) sb(2) d(1) by (auto intro!: exI [of _ d] exI [of _ "snd (snd v)"])
    qed
  qed
qed

lemma userspace_create_device:
  assumes "UserspaceFactory_Create goos lib show_endpoint mtu v = (Inr rt, v1)"
  shows "\<exists>name i dev tun w w1 w2 w3. rt = userspaceRuntime show_endpoint name i dev \<and> wlCreateTUN lib ''utun'' mtu w = (Inr tun, w1) \<and>
    wlNewDevice lib tun w2 = (dev, w3)"
  using assms by (auto simp: UserspaceFactory_Create_def onHost_def split: if_splits prod.splits sum.splits) blast

text \<open>The userspace backend never leaks a network interface and never closes one twice: if \<^verbatim>\<open>Create\<close> fails, also after the
  TUN device was opened, the open devices are as before; if it succeeds there is exactly one more, configuring it, bringing it up and reading it
  open and close nothing, the first \<^verbatim>\<open>Close\<close> closes exactly it and every later one has no effect, and \<^verbatim>\<open>Close\<close> never fails.\<close>

theorem userspace_runtime_owned:
  assumes "library_ok lib opn" "numbered v" and "UserspaceFactory_Create goos lib show_endpoint mtu v = (r, v1)"
  shows "numbered v1 \<and> (case r of
      Inl e \<Rightarrow> opn (fst v1) = opn (fst v)
    | Inr rt \<Rightarrow> \<exists>d i. d \<notin> opn (fst v) \<and> opn (fst v1) = insert d (opn (fst v)) \<and> i \<notin> fst (snd v1) \<and> runtime_for opn d i rt)"
  by (rule userspace_create [OF assms])

section \<open>A library\<close>

text \<open>The host is the list of the numbers of the open devices, beside a clock; a new device gets a number above all of them.\<close>

definition countingLibrary :: "(nat list \<times> time) wireguardGo" where
  "countingLibrary = \<lparr>wlCreateTUN = (\<lambda>name mtu w. let d = Suc (sum_list (fst w)) in
       (Inr \<lparr>tdName = (\<lambda>w. (Inr ''utun7'', w)), tdClose = (\<lambda>w. (None, removeAll d (fst w), snd w))\<rparr>, d # fst w, snd w)),
     wlNewDevice = (\<lambda>tun w. (\<lparr>gdIpcSet = (\<lambda>c w. (None, w)), gdIpcGet = (\<lambda>w. (Inl (Err ''no peer''), w)), gdUp = (\<lambda>w. (None, w)),
       gdClose = (\<lambda>w. snd (tdClose tun w))\<rparr>, w))\<rparr>"

lemma countingLibrary_tun:
  "tun_ok countingLibrary (\<lambda>w. set (fst w)) d \<lparr>tdName = (\<lambda>w. (Inr ''utun7'', w)), tdClose = (\<lambda>w. (None, removeAll d (fst w), snd w))\<rparr>"
  by (simp add: tun_ok_def device_ok_def countingLibrary_def)

lemma countingLibrary_ok: "library_ok countingLibrary (\<lambda>w. set (fst w))"
  unfolding library_ok_def
proof (intro allI)
  fix name mtu and w :: "nat list \<times> time"
  let ?d = "Suc (sum_list (fst w))"
  let ?tun = "\<lparr>tdName = (\<lambda>w. (Inr ''utun7'', w)), tdClose = (\<lambda>w. (None, removeAll ?d (fst w), snd w))\<rparr>"
  have c: "wlCreateTUN countingLibrary name mtu w = (Inr ?tun, ?d # fst w, snd w)" by (simp add: countingLibrary_def Let_def)
  have n: "?d \<notin> set (fst w)" using member_le_sum_list [of ?d "fst w"] by auto
  have "\<exists>d. d \<notin> set (fst w) \<and> set (fst (?d # fst w, snd w)) = insert d (set (fst w)) \<and> tun_ok countingLibrary (\<lambda>w. set (fst w)) d ?tun"
    by (rule exI [of _ ?d]) (simp add: n countingLibrary_tun)
  then show "case wlCreateTUN countingLibrary name mtu w of (Inl e, w1) \<Rightarrow> set (fst w1) = set (fst w)
      | (Inr tun, w1) \<Rightarrow> \<exists>d. d \<notin> set (fst w) \<and> set (fst w1) = insert d (set (fst w)) \<and> tun_ok countingLibrary (\<lambda>w. set (fst w)) d tun"
    by (simp add: c)
qed

theorem userspace_runtime_owned_witness:
  "\<exists>rt v1. UserspaceFactory_Create ''darwin'' countingLibrary (\<lambda>_. []) 1280 (([3, 5], 0), {}, 0) = (Inr rt, v1) \<and> numbered v1 \<and>
     (\<exists>d i. d \<notin> {3, 5} \<and> set (fst (fst v1)) = insert d {3, 5} \<and> i \<notin> fst (snd v1) \<and> runtime_for (\<lambda>w. set (fst w)) d i rt)"
proof -
  obtain rt v1 where r: "UserspaceFactory_Create ''darwin'' countingLibrary (\<lambda>_. []) 1280 (([3, 5], 0), {}, 0) = (Inr rt, v1)"
    by (simp add: UserspaceFactory_Create_def countingLibrary_def onHost_def Let_def)
  have "numbered (([3, 5], 0) :: nat list \<times> time, {} :: nat set, 0 :: nat)" by (simp add: numbered_def)
  from userspace_runtime_owned [OF countingLibrary_ok this r] r show ?thesis by auto
qed

end
