(* ===== verification/Device_Validation.thy ===== *)
theory Device_Validation
  imports Userspace_Runtime Connection
begin

text \<open>
  The validation of the device alone, \<^verbatim>\<open>cmd/nordmac-wg-harness\<close>: a WireGuard device is created, watched until it has seen a
  handshake with traffic in both directions, and removed. It uses the manager of \<open>WG_Backend\<close> with the factory of
  \<open>Userspace_Runtime\<close>; the values of its flags are arguments.
\<close>

declare split_paired_All [simp del] split_paired_Ex [simp del]

section \<open>The gate\<close>

record gateFlags =
  gfSession :: string
  gfEndpoint :: string
  gfDuration :: int
  gfAcknowledged :: bool

record gateResult =
  grOK :: bool
  grInterface :: string
  grSnapshot :: "wgSnapshot option"
  grError :: "gerror option"

definition second :: int where
  "second = 10 ^ 9"

definition validateGate :: "text6 \<Rightarrow> gateFlags \<Rightarrow> gerror + addrport" where
  "validateGate t f =
     (if \<not> gfAcknowledged f then Inl (Err ''refusing device creation without --ack-device-only'')
      else if \<not> ValidSessionID (gfSession f) then Inl (Err ''invalid test session'')
      else if gfDuration f < second \<or> gfDuration f > 60 * second then Inl (Err ''duration must be between 1s and 60s'')
      else (case netip_ParseAddrPort t (gfEndpoint f) of
        None \<Rightarrow> Inl (Err ''endpoint must be a literal usable IPv4 address and nonzero port'')
      | Some endpoint \<Rightarrow>
         (if \<not> addr_Is4 (apAddr endpoint) \<or> (\<not> addr_IsGlobalUnicast (apAddr endpoint) \<and> \<not> addr_IsLoopback (apAddr endpoint)) \<or> apPort endpoint = 0
          then Inl (Err ''endpoint must be a literal usable IPv4 address and nonzero port'')
          else Inr endpoint)))"

section \<open>The program\<close>

text \<open>What the \<^verbatim>\<open>select\<close> of the loop waits for: a signal, the deadline, or the next tick.\<close>

datatype gateEvent = GateCancelled | GateDeadline | GateTick

record 'w gateHost =
  gtGOOS :: string
  gtLibrary :: "'w wireguardGo"
  gtShowEndpoint :: "addrport \<Rightarrow> string"
  gtNow :: "'w \<Rightarrow> time \<times> 'w"
  gtSelect :: "'w \<Rightarrow> gateEvent \<times> 'w"
  gtCtxErr :: "ctx \<Rightarrow> 'w \<Rightarrow> gerror option"
  gtEncode :: "gateResult \<Rightarrow> 'w \<Rightarrow> gerror option \<times> 'w"
  gtStdin :: "byte list"
  gtSHA256 :: "byte list \<Rightarrow> byte list"
  gtGetpid :: int
  gtText6 :: text6

definition gateManager :: "'w gateHost \<Rightarrow> oneShotSecrets \<Rightarrow> 'w runtimeWorld wgManager" where
  "gateManager h source = \<lparr>mgSecrets = Some source, mgFactory = Some (UserspaceFactory_Create (gtGOOS h) (gtLibrary h) (gtShowEndpoint h)),
     mgAddresses = None, mgDeviceOnly = True, mgPID = 0, mgSessions = (\<lambda>_. None)\<rparr>"

definition gateSpec :: "'w gateHost \<Rightarrow> string \<Rightarrow> addrport \<Rightarrow> deviceSecrets \<Rightarrow> deviceSpec" where
  "gateSpec h session endpoint secrets = \<lparr>spSessionID = session, spAddress = PrefixFrom (ip4 10 255 255 254) 32, spMTU = 1280,
     spEndpoint = endpoint, spPeerFingerprint = hex_EncodeToString (gtSHA256 h (PeerPublicKey secrets))\<rparr>"

definition sawTraffic :: "time \<Rightarrow> wgSnapshot \<Rightarrow> bool" where
  "sawTraffic startedAt s = (\<not> handshakeTime s < startedAt - second \<and> Transmitted s > 0 \<and> Received s > 0)"

text \<open>The loop: the error, the variable \<^verbatim>\<open>cleaned\<close>, the manager and the world.\<close>

partial_function (option) gateLoop :: "'w gateHost \<Rightarrow> string \<Rightarrow> deviceHandle \<Rightarrow> time \<Rightarrow> 'w runtimeWorld wgManager \<Rightarrow> 'w runtimeWorld \<Rightarrow>
    (gerror option \<times> bool \<times> 'w runtimeWorld wgManager \<times> 'w runtimeWorld) option" where
  "gateLoop h session handle startedAt m v = (case wg_Snapshot session m v of
     (Inl e, v1) \<Rightarrow> Some (Some e, False, m, v1)
   | (Inr s, v1) \<Rightarrow>
      (if sawTraffic startedAt s
       then (case wg_DeleteOwned session (Some handle) m v1 of
          (Some e, m1, v2) \<Rightarrow> Some (Some e, False, m1, v2)
        | (None, m1, v2) \<Rightarrow> (case onHost (gtEncode h \<lparr>grOK = True, grInterface = dhInterface handle, grSnapshot = Some s, grError = None\<rparr>) v2 of
            (e, v3) \<Rightarrow> Some (e, True, m1, v3)))
       else (case onHost (gtSelect h) v1 of
          (GateCancelled, v2) \<Rightarrow> Some (Some (Err ''device-only test cancelled''), False, m, v2)
        | (GateDeadline, v2) \<Rightarrow>
            Some (Some (Err ''controlled peer produced no fresh bidirectional WireGuard handshake before the deadline''), False, m, v2)
        | (GateTick, v2) \<Rightarrow> gateLoop h session handle startedAt m v2)))"

definition gateCleanup :: "string \<Rightarrow> deviceHandle \<Rightarrow> gerror option \<times> bool \<times> 'w wgManager \<times> 'w \<Rightarrow> gerror option \<times> 'w" where
  "gateCleanup session handle ret = (case ret of (retErr, cleaned, m, w) \<Rightarrow>
     (if cleaned then (retErr, w)
      else (case wg_DeleteOwned session (Some handle) m w of (e, m1, w1) \<Rightarrow> (errors_Join [retErr, e], w1))))"

definition gate_run :: "'w gateHost \<Rightarrow> gateFlags \<Rightarrow> 'w runtimeWorld \<Rightarrow> (gerror option \<times> 'w runtimeWorld) option" where
  "gate_run h f v = (case validateGate (gtText6 h) f of
     Inl e \<Rightarrow> Some (Some e, v)
   | Inr endpoint \<Rightarrow> (case ReadSecrets (gtStdin h) of
       Inl e \<Rightarrow> Some (Some (WrapErr ''read fixed binary secret frame from stdin'' e), v)
     | Inr secrets \<Rightarrow> (case NewOneShotSecrets (gfSession f) (Some secrets) of
         (Inl e, _) \<Rightarrow> Some (Some e, v)
       | (Inr source, _) \<Rightarrow> (case onHost (gtNow h) v of (startedAt, v1) \<Rightarrow>
           (case wg_Create (gtSHA256 h) (gtGetpid h) (\<lambda>ctx v. gtCtxErr h ctx (fst v)) CallerCtx (gateSpec h (gfSession f) endpoint secrets) (gateManager h source) v1 of
              (Inl e, m, v2) \<Rightarrow> Some (Some e, v2)
            | (Inr handle, m, v2) \<Rightarrow>
                map_option (gateCleanup (gfSession f) handle) (gateLoop h (gfSession f) handle startedAt m v2))))))"

definition gate_main :: "'w gateHost \<Rightarrow> gateFlags \<Rightarrow> 'w runtimeWorld \<Rightarrow> (int \<times> 'w runtimeWorld) option" where
  "gate_main h f v = (case gate_run h f v of
     None \<Rightarrow> None
   | Some (None, v1) \<Rightarrow> Some (0, v1)
   | Some (Some e, v1) \<Rightarrow> Some (1, snd (onHost (gtEncode h \<lparr>grOK = False, grInterface = [], grSnapshot = None, grError = Some e\<rparr>) v1)))"

section \<open>It ends and leaves no device\<close>

text \<open>The clock, the wait and the output open and close no device; \<open>clk\<close> reads the time of a host. Nothing turns it back, a tick comes
  before the deadline and 200 milliseconds after the last one.\<close>

definition gate_ok :: "'w gateHost \<Rightarrow> ('w \<Rightarrow> 'd set) \<Rightarrow> bool" where
  "gate_ok h opn \<longleftrightarrow> library_ok (gtLibrary h) opn \<and> (\<forall>w. opn (snd (gtNow h w)) = opn w) \<and> (\<forall>w. opn (snd (gtSelect h w)) = opn w) \<and>
     (\<forall>r w. opn (snd (gtEncode h r w)) = opn w)"

definition gate_ticking :: "'w gateHost \<Rightarrow> time \<Rightarrow> ('w \<Rightarrow> time) \<Rightarrow> bool" where
  "gate_ticking h deadline clk \<longleftrightarrow> (\<forall>w w1. gtSelect h w = (GateTick, w1) \<longrightarrow> clk w < deadline \<and> clk w + 200000000 \<le> clk w1) \<and>
     (\<forall>name mtu w tun w1 w2 dev w3. wlCreateTUN (gtLibrary h) name mtu w = (Inr tun, w1) \<longrightarrow> wlNewDevice (gtLibrary h) tun w2 = (dev, w3) \<longrightarrow>
        (\<forall>w4. clk w4 \<le> clk (snd (gdIpcGet dev w4))))"

text \<open>The runtime of a session: it stands for the one device that is open beside those of \<open>v0\<close>.\<close>

definition gate_owned :: "('w \<Rightarrow> 'd set) \<Rightarrow> ('w \<Rightarrow> time) \<Rightarrow> 'w runtimeWorld \<Rightarrow> 'w runtimeWorld wgRuntime \<Rightarrow> 'w runtimeWorld \<Rightarrow> bool" where
  "gate_owned opn clk v0 rt v1 \<longleftrightarrow> (\<exists>d i. d \<notin> opn (fst v0) \<and> opn (fst v1) = insert d (opn (fst v0)) \<and> i \<notin> fst (snd v1) \<and> runtime_for opn d i rt) \<and>
     (\<forall>v. clk (fst v) \<le> clk (fst (snd (rtSnapshot rt v))))"

lemma owned_step: "gate_owned opn clk v0 rt v1 \<Longrightarrow> opn (fst v2) = opn (fst v1) \<Longrightarrow> snd v2 = snd v1 \<Longrightarrow> gate_owned opn clk v0 rt v2"
  by (simp add: gate_owned_def)

lemma owned_ops:
  assumes "gate_owned opn clk v0 rt v1"
  shows "rtConfigure rt sp s v1 = (e, v2) \<Longrightarrow> gate_owned opn clk v0 rt v2" "rtUp rt v1 = (e, v2) \<Longrightarrow> gate_owned opn clk v0 rt v2"
    "rtSnapshot rt v1 = (x, v2) \<Longrightarrow> gate_owned opn clk v0 rt v2 \<and> clk (fst v1) \<le> clk (fst v2)"
    "rtClose rt v1 = (e, v2) \<Longrightarrow> e = None \<and> opn (fst v2) = opn (fst v0)"
proof -
  obtain d i where r: "runtime_for opn d i rt" and d: "d \<notin> opn (fst v0)" "opn (fst v1) = insert d (opn (fst v0))" "i \<notin> fst (snd v1)"
    using assms unfolding gate_owned_def by blast
  note f = r [unfolded runtime_for_def]
  have c: "opn (fst (snd (rtConfigure rt sp s v1))) = opn (fst v1) \<and> snd (snd (rtConfigure rt sp s v1)) = snd v1"
    by (rule f [THEN conjunct1, THEN spec, THEN spec, THEN spec])
  show "gate_owned opn clk v0 rt v2" if "rtConfigure rt sp s v1 = (e, v2)" using owned_step [OF assms] c unfolding that by simp
  have u: "opn (fst (snd (rtUp rt v1))) = opn (fst v1) \<and> snd (snd (rtUp rt v1)) = snd v1"
    by (rule f [THEN conjunct2, THEN conjunct1, THEN spec])
  show "gate_owned opn clk v0 rt v2" if "rtUp rt v1 = (e, v2)" using owned_step [OF assms] u unfolding that by simp
  have s: "opn (fst (snd (rtSnapshot rt v1))) = opn (fst v1) \<and> snd (snd (rtSnapshot rt v1)) = snd v1"
    by (rule f [THEN conjunct2, THEN conjunct2, THEN conjunct1, THEN spec])
  have m: "clk (fst v1) \<le> clk (fst (snd (rtSnapshot rt v1)))" using assms by (simp add: gate_owned_def)
  show "gate_owned opn clk v0 rt v2 \<and> clk (fst v1) \<le> clk (fst v2)" if "rtSnapshot rt v1 = (x, v2)"
    using owned_step [OF assms] s m unfolding that by simp
  have z: "fst (rtClose rt v1) = None \<and> (if i \<in> fst (snd v1) then snd (rtClose rt v1) = v1
       else opn (fst (snd (rtClose rt v1))) = opn (fst v1) - {d} \<and> snd (snd (rtClose rt v1)) = (insert i (fst (snd v1)), snd (snd v1)))"
    by (rule f [THEN conjunct2, THEN conjunct2, THEN conjunct2, THEN spec])
  show "e = None \<and> opn (fst v2) = opn (fst v0)" if "rtClose rt v1 = (e, v2)" using z d unfolding that by simp
qed

lemma factory_owned:
  assumes ok: "library_ok (gtLibrary h) opn" and t: "gate_ticking h deadline clk" and n: "numbered v"
    and c: "UserspaceFactory_Create (gtGOOS h) (gtLibrary h) (gtShowEndpoint h) mtu v = (r, v1)"
  shows "case r of Inl e \<Rightarrow> opn (fst v1) = opn (fst v) | Inr rt \<Rightarrow> gate_owned opn clk v rt v1"
proof (cases r)
  case (Inl e)
  then show ?thesis using userspace_create [OF ok n c] by simp
next
  case (Inr rt)
  obtain name i dev tun w w1 w2 w3 where d: "rt = userspaceRuntime (gtShowEndpoint h) name i dev"
    "wlCreateTUN (gtLibrary h) ''utun'' mtu w = (Inr tun, w1)" "wlNewDevice (gtLibrary h) tun w2 = (dev, w3)"
    using userspace_create_device [OF c [unfolded Inr]] by blast
  have "clk w4 \<le> clk (snd (gdIpcGet dev w4))" for w4 using t d(2,3) unfolding gate_ticking_def by blast
  then show ?thesis using Inr userspace_create [OF ok n c] d(1) by (auto simp: gate_owned_def userspaceRuntime_def)
qed

lemma gate_bringUp:
  assumes ok: "library_ok (gtLibrary h) opn" and t: "gate_ticking h deadline clk" and n: "numbered v"
    and b: "bringUp sha256 (gateManager h source) ctx sp s (None, v) = (e, created, v1)"
  shows "case created of None \<Rightarrow> e \<noteq> None \<and> opn (fst v1) = opn (fst v) | Some rt \<Rightarrow> gate_owned opn clk v rt v1"
proof (cases "verifyPeerFingerprint sha256 (spPeerFingerprint sp) s")
  case (Some x)
  then have "e = Some x" "created = None" "v1 = v" using b by (simp_all add: bringUp_def)
  then show ?thesis by simp
next
  case None
  obtain r va where f: "UserspaceFactory_Create (gtGOOS h) (gtLibrary h) (gtShowEndpoint h) (spMTU sp) v = (r, va)" by (metis prod.exhaust)
  note o = factory_owned [OF ok t n f]
  show ?thesis
  proof (cases r)
    case (Inl x)
    then have "e \<noteq> None" "created = None" "v1 = va" using b None f by (auto simp: bringUp_def gateManager_def)
    then show ?thesis using o Inl by simp
  next
    case (Inr rt)
    have oa: "gate_owned opn clk v rt va" using o Inr by simp
    obtain ce vb where c: "rtConfigure rt sp s va = (ce, vb)" by (metis prod.exhaust)
    obtain ue vc where u: "rtUp rt vb = (ue, vc)" by (metis prod.exhaust)
    note ob = owned_ops(1) [OF oa c] and oc = owned_ops(2) [OF owned_ops(1) [OF oa c] u]
    have "created = Some rt" "v1 = (if ce = None then vc else vb)"
      using b None f Inr c u by (auto simp: bringUp_def gateManager_def split: option.splits)
    then show ?thesis using ob oc by simp
  qed
qed

lemma gate_Create:
  assumes ok: "library_ok (gtLibrary h) opn" and t: "gate_ticking h deadline clk" and n: "numbered v"
    and c: "wg_Create sha256 pid ce ctx sp (gateManager h source) v = (r, m, v1)"
  shows "case r of Inl e \<Rightarrow> opn (fst v1) = opn (fst v)
    | Inr handle \<Rightarrow> \<exists>rt. mgSessions m = [spSessionID sp \<mapsto> (handle, rt)] \<and> ValidSessionID (spSessionID sp) \<and> gate_owned opn clk v rt v1"
proof (cases "backend_ready pid (gateManager h source) sp")
  case (Some e)
  then show ?thesis using c by (auto simp: wg_Create_def)
next
  case None
  then have vs: "ValidSessionID (spSessionID sp)" by (auto simp: backend_ready_def validateSpec_def)
  obtain e src created va where co: "Consume (ce ctx v) (spSessionID sp) (Some (bringUp sha256 (gateManager h source) ctx sp)) source (None, v) = (e, src, created, va)"
    by (metis prod_cases4)
  have o: "case created of None \<Rightarrow> e \<noteq> None \<and> opn (fst va) = opn (fst v) | Some rt \<Rightarrow> gate_owned opn clk v rt va"
  proof (cases "ce ctx v = None \<and> \<not> osConsumed source \<and> spSessionID sp = osSessionID source")
    case True
    then have "bringUp sha256 (gateManager h source) ctx sp (osSecrets source) (None, v) = (e, created, va)"
      using co by (auto simp: Consume_def split: prod.splits)
    then show ?thesis by (rule gate_bringUp [OF ok t n])
  next
    case False
    then have "\<exists>x. Consume (ce ctx v) (spSessionID sp) (Some (bringUp sha256 (gateManager h source) ctx sp)) source (None, v) = (Some x, source, None, v)"
      by (cases "ce ctx v") (auto simp: Consume_def)
    then show ?thesis using co by auto
  qed
  have cl: "opn (fst (closeCreated (Some rt) va)) = opn (fst v)" if "gate_owned opn clk v rt va" for rt
    using owned_ops(4) [OF that] by (cases "rtClose rt va") (simp add: closeCreated_def)
  have ms: "mgSessions (gateManager h source) = (\<lambda>_. None)" "mgSecrets (gateManager h source) = Some source" "mgPID (gateManager h source) = 0"
    by (simp_all add: gateManager_def)
  show ?thesis
  proof (cases e)
    case (Some x)
    then have "r = Inl x" "v1 = closeCreated created va" using c None co ms by (auto simp: wg_Create_def)
    then show ?thesis using o cl by (cases created) (auto simp: closeCreated_def)
  next
    case none: None
    then obtain rt where rt: "created = Some rt" "gate_owned opn clk v rt va" using o by (cases created) auto
    show ?thesis
      using c None co ms none rt vs cl by (auto simp: wg_Create_def Let_def split: option.splits)
  qed
qed

text \<open>The snapshot that is printed on success showed traffic.\<close>

definition printed :: "'w gateHost \<Rightarrow> time \<Rightarrow> bool" where
  "printed h startedAt \<longleftrightarrow> (\<exists>interface s w w1. sawTraffic startedAt s \<and>
     gtEncode h \<lparr>grOK = True, grInterface = interface, grSnapshot = Some s, grError = None\<rparr> w = (None, w1))"

lemma gateLoop_ends:
  assumes ok: "gate_ok h opn" and t: "gate_ticking h deadline clk" and vs: "ValidSessionID session" and ms: "mgSessions m session = Some (handle, rt)"
    and o: "gate_owned opn clk v0 rt v"
  shows "\<exists>e cleaned m1 v1. gateLoop h session handle startedAt m v = Some (e, cleaned, m1, v1) \<and>
    (if cleaned then opn (fst v1) = opn (fst v0) \<and> (e = None \<longrightarrow> printed h startedAt)
     else e \<noteq> None \<and> mgSessions m1 session = Some (handle, rt) \<and> gate_owned opn clk v0 rt v1)"
  using o
proof (induction "nat (deadline - clk (fst v))" arbitrary: v rule: less_induct)
  case less
  obtain r va where a: "rtSnapshot rt v = (r, va)" by (metis prod.exhaust)
  note oa = owned_ops(3) [OF less.prems a]
  have s: "wg_Snapshot session m v = (r, va)" using ms a by (simp add: wg_Snapshot_def)
  note step = gateLoop.simps [of h session handle startedAt m v] s
  show ?case
  proof (cases r)
    case (Inl e)
    then show ?thesis using step oa ms by simp blast
  next
    case (Inr sn)
    show ?thesis
    proof (cases "sawTraffic startedAt sn")
      case True
      obtain ce vb where c: "rtClose rt va = (ce, vb)" by (metis prod.exhaust)
      have cl: "ce = None" "opn (fst vb) = opn (fst v0)" using owned_ops(4) [OF conjunct1 [OF oa] c] by simp_all
      obtain m1 where d: "wg_DeleteOwned session (Some handle) m va = (None, m1, vb)" using ms vs c cl by (simp add: wg_DeleteOwned_def)
      obtain pe vc where p: "onHost (gtEncode h \<lparr>grOK = True, grInterface = dhInterface handle, grSnapshot = Some sn, grError = None\<rparr>) vb = (pe, vc)"
        by (metis prod.exhaust)
      have "opn (fst vc) = opn (fst vb)" using ok p unfolding gate_ok_def onHost_eq by (metis snd_conv)
      moreover have "pe = None \<longrightarrow> printed h startedAt" using p True unfolding onHost_eq printed_def by blast
      moreover have "gateLoop h session handle startedAt m v = Some (pe, True, m1, vc)" using step Inr True d p by simp
      ultimately show ?thesis using cl by auto
    next
      case False
      obtain g vb where g: "onHost (gtSelect h) va = (g, vb)" by (metis prod.exhaust)
      have gs: "gtSelect h (fst va) = (g, fst vb)" "snd vb = snd va" using g by (simp_all add: onHost_eq)
      have "opn (fst vb) = opn (fst va)" using ok gs(1) unfolding gate_ok_def by (metis snd_conv)
      then have ob: "gate_owned opn clk v0 rt vb" using owned_step [OF conjunct1 [OF oa]] gs(2) by simp
      show ?thesis
      proof (cases g)
        case GateTick
        have "clk (fst va) < deadline" "clk (fst va) + 200000000 \<le> clk (fst vb)" using t gs(1) GateTick unfolding gate_ticking_def by blast+
        then have "nat (deadline - clk (fst vb)) < nat (deadline - clk (fst v))" using oa by simp
        from less.hyps [OF this ob] show ?thesis using step Inr False g GateTick by simp
      qed (use step Inr False g ob ms in auto)
    qed
  qed
qed

text \<open>C38: the device validation always ends and leaves no network interface behind: under a deadline the loop returns, and on every way out
  (refused flags, bad keys, a library that fails at any point, a signal, the deadline, success) exactly the devices that were open before are
  open; it reports success only after it has printed a snapshot with a handshake no older than a second before the start and traffic in both
  directions.\<close>

theorem device_validation_clean:
  assumes "gate_ok h opn" "gate_ticking h deadline clk" "numbered v"
  shows "\<exists>e v1. gate_run h f v = Some (e, v1) \<and> opn (fst v1) = opn (fst v) \<and> (e = None \<longrightarrow> (\<exists>w. printed h (fst (gtNow h w))))"
proof (cases "\<exists>endpoint secrets. validateGate (gtText6 h) f = Inr endpoint \<and> ReadSecrets (gtStdin h) = Inr secrets \<and>
    (\<exists>source rest. NewOneShotSecrets (gfSession f) (Some secrets) = (Inr source, rest))")
  case False
  then have "\<exists>e. gate_run h f v = Some (Some e, v)" by (auto simp: gate_run_def split: sum.splits prod.splits)
  then show ?thesis by auto
next
  case True
  then obtain endpoint secrets source rest where i: "validateGate (gtText6 h) f = Inr endpoint" "ReadSecrets (gtStdin h) = Inr secrets"
    "NewOneShotSecrets (gfSession f) (Some secrets) = (Inr source, rest)" by blast
  obtain startedAt va where n: "onHost (gtNow h) v = (startedAt, va)" by (metis prod.exhaust)
  have "opn (snd (gtNow h (fst v))) = opn (fst v)" using assms(1) by (simp add: gate_ok_def)
  then have na: "startedAt = fst (gtNow h (fst v))" "opn (fst va) = opn (fst v)" "snd va = snd v"
    using n by (simp_all add: onHost_eq)
  then have nv: "numbered va" using assms(3) by (simp add: numbered_def)
  obtain r m vb where c: "wg_Create (gtSHA256 h) (gtGetpid h) (\<lambda>ctx v. gtCtxErr h ctx (fst v)) CallerCtx (gateSpec h (gfSession f) endpoint secrets)
      (gateManager h source) va = (r, m, vb)" by (metis prod_cases3)
  have lib: "library_ok (gtLibrary h) opn" using assms(1) by (simp add: gate_ok_def)
  note cr = gate_Create [OF lib assms(2) nv c]
  show ?thesis
  proof (cases r)
    case (Inl e)
    then have "gate_run h f v = Some (Some e, vb)" using i n c by (simp add: gate_run_def)
    then show ?thesis using cr Inl na by simp
  next
    case (Inr handle)
    obtain rt where rt: "mgSessions m = [gfSession f \<mapsto> (handle, rt)]" "ValidSessionID (gfSession f)" "gate_owned opn clk va rt vb"
      using cr Inr by (auto simp: gateSpec_def)
    obtain e cleaned m1 vc where l: "gateLoop h (gfSession f) handle startedAt m vb = Some (e, cleaned, m1, vc)"
      and lc: "if cleaned then opn (fst vc) = opn (fst va) \<and> (e = None \<longrightarrow> printed h startedAt)
        else e \<noteq> None \<and> mgSessions m1 (gfSession f) = Some (handle, rt) \<and> gate_owned opn clk va rt vc"
      using gateLoop_ends [OF assms(1,2) rt(2) _ rt(3), of m handle startedAt] rt(1) by auto
    have run: "gate_run h f v = Some (gateCleanup (gfSession f) handle (e, cleaned, m1, vc))" using i n c Inr l by (simp add: gate_run_def)
    show ?thesis
    proof (cases cleaned)
      case True
      then show ?thesis using run lc na by (auto simp: gateCleanup_def)
    next
      case False
      obtain ce vd where z: "rtClose rt vc = (ce, vd)" by (metis prod.exhaust)
      have cl: "ce = None" "opn (fst vd) = opn (fst va)" using owned_ops(4) [OF _ z, of opn clk va] lc False by simp_all
      obtain m2 where d: "wg_DeleteOwned (gfSession f) (Some handle) m1 vc = (None, m2, vd)"
        using lc False rt(2) z cl by (simp add: wg_DeleteOwned_def)
      then show ?thesis using run lc False cl na by (auto simp: gateCleanup_def)
    qed
  qed
qed

section \<open>A gate\<close>

text \<open>A library that numbers its devices, a peer that never answers, and a deadline after a second.\<close>

definition sampleGate :: "(nat list \<times> time) gateHost" where
  "sampleGate = \<lparr>gtGOOS = ''darwin'', gtLibrary = countingLibrary, gtShowEndpoint = (\<lambda>_. ''192.0.2.10:51820''), gtNow = (\<lambda>w. (snd w, w)),
     gtSelect = (\<lambda>w. if snd w < 1000000000 then (GateTick, fst w, snd w + 200000000) else (GateDeadline, w)), gtCtxErr = (\<lambda>_ _. None),
     gtEncode = (\<lambda>_ w. (None, w)), gtStdin = secretMagic @ ClientPrivateKey sampleSecrets @ PeerPublicKey sampleSecrets,
     gtSHA256 = (\<lambda>_. replicate 32 7), gtGetpid = 77, gtText6 = \<lparr>parseIPv6 = (\<lambda>_. None), showIPv6 = (\<lambda>_. [])\<rparr>\<rparr>"

definition sampleGateFlags :: gateFlags where
  "sampleGateFlags = \<lparr>gfSession = replicate 32 (CHR ''a''), gfEndpoint = ''192.0.2.10:51820'', gfDuration = 2 * second, gfAcknowledged = True\<rparr>"

lemma sampleGate_ok: "gate_ok sampleGate (\<lambda>w. set (fst w))" "gate_ticking sampleGate 1000000000 snd"
  using countingLibrary_ok by (auto simp: gate_ok_def gate_ticking_def sampleGate_def countingLibrary_def Let_def split: if_splits)

theorem device_validation_clean_witness:
  "\<exists>e v1. gate_run sampleGate sampleGateFlags (([3, 5], 0), {}, 0) = Some (e, v1) \<and> set (fst (fst v1)) = {3, 5}"
proof -
  have n: "numbered (([3, 5], 0) :: nat list \<times> time, {} :: nat set, 0 :: nat)" by (simp add: numbered_def)
  from device_validation_clean [OF sampleGate_ok n, of sampleGateFlags] obtain e v1
    where "gate_run sampleGate sampleGateFlags (([3, 5], 0), {}, 0) = Some (e, v1)"
      "set (fst (fst v1)) = set (fst (fst ((([3, 5], 0), {}, 0) :: (nat list \<times> time) runtimeWorld)))" by blast
  then show ?thesis by auto
qed

end
