(* ===== verification/Scoped_Validation.thy ===== *)
theory Scoped_Validation
  imports Harness_Base Device_Validation Journal_Validity
begin

text \<open>
  The validation of the whole transaction on one private route, \<^verbatim>\<open>cmd/nordmac-scoped-harness\<close>: the controller of
  \<open>Tunnel_Controller\<close> over the adapters of the privileged helper, without DNS, with its own verifier, journals in a fresh
  directory, and a recovery of a session left behind. The environment is the one of \<open>Helper_Daemon\<close>; the values of the flags are arguments.
\<close>

declare split_paired_All [simp del] split_paired_Ex [simp del]

section \<open>Inputs\<close>

definition strings_HasSuffix :: "string \<Rightarrow> string \<Rightarrow> bool" where
  "strings_HasSuffix s suffix = (length suffix \<le> length s \<and> drop (length s - length suffix) s = suffix)"

text \<open>\<^verbatim>\<open>netip.ParsePrefix\<close>: split at the last slash; no zone, and the bits without sign or leading zero.\<close>

definition netip_ParsePrefix :: "text6 \<Rightarrow> string \<Rightarrow> prefix option" where
  "netip_ParsePrefix t s = (let bits = rev (takeWhile (\<lambda>ch. ch \<noteq> CHR ''/'') (rev s)) in
     if length bits = length s then None
     else (case netip_ParseAddr t (take (length s - Suc (length bits)) s) of
       None \<Rightarrow> None
     | Some ip \<Rightarrow>
        (if addr_hasZone ip \<or> (length bits > 1 \<and> (byte_of (hd bits) < byte_of (CHR ''1'') \<or> byte_of (hd bits) > byte_of (CHR ''9''))) then None
         else (case strconv_Atoi bits of
           None \<Rightarrow> None
         | Some b \<Rightarrow> if b < 0 \<or> b > addr_BitLen ip then None else Some (PrefixFrom ip b)))))"

record scopedFlags =
  rfSession :: string
  rfRecoverSession :: string
  rfEndpoint :: string
  rfTunnelAddress :: string
  rfPeerAddress :: string
  rfScopedRoute :: string
  rfDuration :: int
  rfAcknowledged :: bool

record scopedInputs =
  siEndpoint :: addrport
  siTunnelAddress :: prefix
  siPeerAddress :: addr
  siScopedRoute :: prefix
  siDuration :: int

text \<open>Each check either fails the whole or passes its value on.\<close>

definition checked :: "'a option \<Rightarrow> ('a \<Rightarrow> bool) \<Rightarrow> string \<Rightarrow> gerror + 'a" where
  "checked parsed bad message = (case parsed of
     None \<Rightarrow> Inl (Err message)
   | Some x \<Rightarrow> if bad x then Inl (Err message) else Inr x)"

definition validateInputs :: "text6 \<Rightarrow> scopedFlags \<Rightarrow> gerror + scopedInputs" where
  "validateInputs t f =
     (if \<not> rfAcknowledged f then Inl (Err ''refusing scoped routing without --ack-scoped-route'')
      else if rfDuration f < second \<or> rfDuration f > 30 * second then Inl (Err ''duration must be between 1s and 30s'')
      else (case checked (netip_ParseAddrPort t (rfEndpoint f))
          (\<lambda>e. \<not> addr_Is4 (apAddr e) \<or> \<not> addr_IsGlobalUnicast (apAddr e) \<or> addr_IsLoopback (apAddr e) \<or> apPort e = 0)
          ''endpoint must be a literal non-loopback unicast IPv4 address and nonzero port'' of
        Inl e \<Rightarrow> Inl e
      | Inr endpoint \<Rightarrow> (case checked (netip_ParsePrefix t (rfTunnelAddress f)) (\<lambda>p. \<not> addr_Is4 (pfxAddr p) \<or> pfxBits p \<noteq> 32)
          ''tunnel address must be an IPv4 /32'' of
        Inl e \<Rightarrow> Inl e
      | Inr tunnelAddress \<Rightarrow> (case checked (netip_ParseAddr t (rfPeerAddress f)) (\<lambda>a. \<not> addr_Is4 a \<or> \<not> addr_IsPrivate a)
          ''peer address must be private IPv4'' of
        Inl e \<Rightarrow> Inl e
      | Inr peerAddress \<Rightarrow> (case checked (netip_ParsePrefix t (rfScopedRoute f))
          (\<lambda>p. \<not> addr_Is4 (pfxAddr p) \<or> p \<noteq> prefix_Masked p \<or> \<not> addr_IsPrivate (pfxAddr p) \<or> pfxBits p < 16 \<or> pfxBits p > 32 \<or> \<not> prefix_Contains p peerAddress)
          ''scoped route must be canonical IPv4 and contain the peer address'' of
        Inl e \<Rightarrow> Inl e
      | Inr scopedRoute \<Rightarrow> Inr \<lparr>siEndpoint = endpoint, siTunnelAddress = tunnelAddress, siPeerAddress = peerAddress,
          siScopedRoute = scopedRoute, siDuration = rfDuration f\<rparr>)))))"

section \<open>The state directory\<close>

definition scopedDirectory :: "string \<Rightarrow> string" where
  "scopedDirectory sid = ''/private/tmp'' @ ''/'' @ ''nordmac-gate3-'' @ sid"

definition removeStateIfClean :: "string \<Rightarrow> fsWorld \<Rightarrow> gerror option \<times> fsWorld" where
  "removeStateIfClean directory w = (case os_ReadDir directory w of
     (Inl e, w1) \<Rightarrow> (if e = ENOENT then (None, w1) else (Some (WrapErr ''inspect Gate 3 state'' (os_error e)), w1))
   | (Inr entries, w1) \<Rightarrow>
      (if \<exists>name\<in>entries. strings_HasSuffix name ''.json'' then (Some (Err ''Gate 3 rollback evidence retained for explicit recovery''), w1)
       else (case os_RemoveAll directory w1 of
         (Some e, w2) \<Rightarrow> (Some (WrapErr ''remove clean Gate 3 state'' (os_error e)), w2)
       | (None, w2) \<Rightarrow> (None, w2))))"

section \<open>The program\<close>

text \<open>\<open>shInstall\<close> builds the device manager over the secrets and the address of the peer; the rest is as for the helper.\<close>

record 'v scopedHost =
  shHost :: "(fsWorld \<times> 'v) daemonHost"
  shInstall :: "oneShotSecrets \<Rightarrow> addr \<Rightarrow> fsWorld \<times> 'v \<Rightarrow> fsWorld \<times> 'v"
  shEncode :: "gateResult \<Rightarrow> 'v \<Rightarrow> gerror option \<times> 'v"
  shStdin :: "byte list"
  shSHA256 :: "byte list \<Rightarrow> byte list"
  shGetuid :: int

definition scopedPing :: "'v scopedHost \<Rightarrow> addr \<Rightarrow> ctx \<Rightarrow> fsWorld \<times> 'v \<Rightarrow> gerror option \<times> fsWorld \<times> 'v" where
  "scopedPing h peer ctx w = pinger_Ping (dhText6 (shHost h)) \<lparr>pgRunner = Some (dhRunner (shHost h)), pgPingPath = []\<rparr> ctx peer w"

text \<open>The loop of \<^verbatim>\<open>Verify\<close>; \<open>dhWait\<close> is its \<^verbatim>\<open>select\<close>: the error of the context once it is done, nothing after 200 milliseconds.\<close>

partial_function (option) scopedLoop :: "'v scopedHost \<Rightarrow> addr \<Rightarrow> ctx \<Rightarrow> journal \<Rightarrow> fsWorld \<times> 'v \<Rightarrow> (gerror option \<times> fsWorld \<times> 'v) option" where
  "scopedLoop h peer ctx j w = (case scopedPing h peer ctx w of (pingErr, w1) \<Rightarrow> (case dhSnapshot (shHost h) (jSessionID j) w1 of (r, w2) \<Rightarrow>
     (if pingErr = None \<and> (case r of Inr s \<Rightarrow> freshHandshake j s | Inl _ \<Rightarrow> False) then Some (None, w2)
      else (case dhWait (shHost h) ctx w2 of
        (Some e, w3) \<Rightarrow> Some (errors_Join [Some (Err ''scoped traffic produced no fresh bidirectional WireGuard handshake''), Some e,
            errors_Join [pingErr, case r of Inl e2 \<Rightarrow> Some e2 | Inr _ \<Rightarrow> None]], w3)
      | (None, w3) \<Rightarrow> scopedLoop h peer ctx j w3))))"

text \<open>The endpoint pin and the first tunnel route, as the system has them; \<^verbatim>\<open>journal.Device\<close> is not nil where the code gets here.\<close>

definition endpointPinned :: "journal \<Rightarrow> route option \<Rightarrow> bool" where
  "endpointPinned j found = (case found of
     None \<Rightarrow> False
   | Some r \<Rightarrow> rGateway r = pPhysicalGateway (jPlan j) \<and> rInterface r = pPhysicalInterface (jPlan j))"

definition scopedVerify :: "'v scopedHost \<Rightarrow> addr \<Rightarrow> ctx \<Rightarrow> journal \<Rightarrow> fsWorld \<times> 'v \<Rightarrow> (gerror option \<times> fsWorld \<times> 'v) option" where
  "scopedVerify h peer ctx j w =
     (let routes = daemonRoutes (shHost h); lookup = LookupExact (dhText6 (shHost h)) routes ctx in
      case lookup (rDestination (EndpointRoute (jPlan j))) w of
        (Inl e, w1) \<Rightarrow> Some (Some (WrapErr ''inspect endpoint pin'' e), w1)
      | (Inr found, w1) \<Rightarrow>
         (if \<not> endpointPinned j found then Some (Some (Err ''endpoint pin is not owned through the captured physical route''), w1)
          else let scoped = (hd (TunnelRoutes (jPlan j)))\<lparr>rInterface := dhInterface (the (jDevice j))\<rparr> in
            (case lookup (rDestination scoped) w1 of
               (Inl e, w2) \<Rightarrow> Some (Some (WrapErr ''inspect scoped route'' e), w2)
             | (Inr current, w2) \<Rightarrow>
                (if (case current of None \<Rightarrow> True | Some r \<Rightarrow> rInterface r \<noteq> rInterface scoped)
                 then Some (Some (Err ''scoped route is not owned by the tunnel interface''), w2)
                 else scopedLoop h peer ctx j w2))))"

text \<open>As a verifier of the controller; that the loop returns under a deadline is proved below.\<close>

definition scopedVerifier :: "'v scopedHost \<Rightarrow> addr \<Rightarrow> (fsWorld \<times> 'v) verifier" where
  "scopedVerifier h peer = \<lparr>vfVerify = (\<lambda>ctx j w. case scopedVerify h peer ctx j w of
     Some r \<Rightarrow> r | None \<Rightarrow> (Some (Err ''verification does not return''), w))\<rparr>"

definition scopedController :: "'v scopedHost \<Rightarrow> addr \<Rightarrow> string \<Rightarrow> (fsWorld \<times> 'v) controller" where
  "scopedController h peer dir = (connectController (shHost h) dir)\<lparr>cDNS := None, cVerifier := Some (scopedVerifier h peer)\<rparr>"

definition cleanupConnected :: "(fsWorld \<times> 'v) controller \<Rightarrow> journal \<Rightarrow> gerror option \<Rightarrow> fsWorld \<times> 'v \<Rightarrow> gerror option \<times> fsWorld \<times> 'v" where
  "cleanupConnected c j primary w = (case Disconnect c (WithTimeout 10 Background) (jSessionID j) (jOwnerUID j) w of
     (e, w1) \<Rightarrow> (errors_Join [primary, e], w1))"

definition scoped_recover :: "'v scopedHost \<Rightarrow> string \<Rightarrow> fsWorld \<times> 'v \<Rightarrow> gerror option \<times> fsWorld \<times> 'v" where
  "scoped_recover h sid w =
     (let directory = scopedDirectory sid; c = (recoverController (shHost h) directory)\<lparr>cDNS := None\<rparr> in
      case Disconnect c (WithTimeout 10 Background) sid (shGetuid h) w of
        (Some e, w1) \<Rightarrow> (Some e, w1)
      | (None, w1) \<Rightarrow> onFiles (removeStateIfClean directory) w1)"

definition scopedPlan :: "'v scopedHost \<Rightarrow> string \<Rightarrow> scopedInputs \<Rightarrow> deviceSecrets \<Rightarrow> routeSnapshot \<Rightarrow> plan" where
  "scopedPlan h sid i secrets physical = \<lparr>pSessionID = sid, pOwnerUID = shGetuid h, pEndpoint = siEndpoint i,
     pPhysicalGateway = rGateway (rsDefault physical), pPhysicalInterface = rInterface (rsDefault physical),
     pTunnelAddress = siTunnelAddress i, pTunnelMTU = 1280, pTunnelDNS = [], pDNSService = [], pRoutePolicy = RoutePolicyScopedIPv4,
     pScopedRoutes = [siScopedRoute i], pPeerFingerprint = hex_EncodeToString (shSHA256 h (PeerPublicKey secrets))\<rparr>"

text \<open>The tunnel is up, looked at, and taken down; the timeout of the context of \<^verbatim>\<open>Connect\<close> is the one of the flag, in nanoseconds.\<close>

definition scoped_connected :: "'v scopedHost \<Rightarrow> (fsWorld \<times> 'v) controller \<Rightarrow> string \<Rightarrow> journal \<Rightarrow> fsWorld \<times> 'v \<Rightarrow> gerror option \<times> fsWorld \<times> 'v" where
  "scoped_connected h c sid j w = (case dhSnapshot (shHost h) sid w of
     (Inl e, w1) \<Rightarrow> cleanupConnected c j (Some e) w1
   | (Inr s, w1) \<Rightarrow> (case cleanupConnected c j None w1 of
       (Some e, w2) \<Rightarrow> (Some e, w2)
     | (None, w2) \<Rightarrow>
        (case shEncode h \<lparr>grOK = True, grInterface = dhInterface (the (jDevice j)), grSnapshot = Some s, grError = None\<rparr> (snd w2) of
           (e, v) \<Rightarrow> (e, fst w2, v))))"

definition scoped_transaction :: "'v scopedHost \<Rightarrow> string \<Rightarrow> scopedInputs \<Rightarrow> oneShotSecrets \<Rightarrow> plan \<Rightarrow> fsWorld \<times> 'v \<Rightarrow> gerror option \<times> fsWorld \<times> 'v" where
  "scoped_transaction h sid i source p w =
     (let c = scopedController h (siPeerAddress i) (scopedDirectory sid) in
      case Connect c (WithTimeout (nat (siDuration i)) CallerCtx) p (shInstall h source (siPeerAddress i) w) of
        (j, Some e, w1) \<Rightarrow> (Some e, w1)
      | (j, None, w1) \<Rightarrow> scoped_connected h c sid j w1)"

definition scoped_run :: "'v scopedHost \<Rightarrow> scopedFlags \<Rightarrow> fsWorld \<times> 'v \<Rightarrow> gerror option \<times> fsWorld \<times> 'v" where
  "scoped_run h f w =
     (if rfRecoverSession f \<noteq> [] then
        (if \<not> rfAcknowledged f \<or> \<not> ValidSessionID (rfRecoverSession f)
         then (Some (Err ''recovery requires --ack-scoped-route and a valid --recover-session''), w)
         else scoped_recover h (rfRecoverSession f) w)
      else if \<not> ValidSessionID (rfSession f) then (Some (Err ''invalid Gate 3 session''), w)
      else (case validateInputs (dhText6 (shHost h)) f of
        Inl e \<Rightarrow> (Some e, w)
      | Inr i \<Rightarrow> (case ReadSecrets (shStdin h) of
          Inl e \<Rightarrow> (Some (WrapErr ''read fixed binary secret frame from stdin'' e), w)
        | Inr secrets \<Rightarrow> (case NewOneShotSecrets (rfSession f) (Some secrets) of
            (Inl e, _) \<Rightarrow> (Some e, w)
          | (Inr source, _) \<Rightarrow> (case route_Snapshot (dhText6 (shHost h)) (daemonRoutes (shHost h)) Background w of
              (Inl e, w1) \<Rightarrow> (Some e, w1)
            | (Inr physical, w1) \<Rightarrow> (let p = scopedPlan h (rfSession f) i secrets physical; directory = scopedDirectory (rfSession f) in
                case plan_Validate p of
                  Some e \<Rightarrow> (Some e, w1)
                | None \<Rightarrow> (case onFiles (os_Mkdir directory 0x1C0) w1 of
                    (Some e, w2) \<Rightarrow> (Some (if e = EEXIST then Err ''Gate 3 state already exists; recover that session before retrying''
                        else WrapErr ''create private Gate 3 journal directory'' (os_error e)), w2)
                  | (None, w2) \<Rightarrow> (case scoped_transaction h (rfSession f) i source p w2 of
                      (retErr, w3) \<Rightarrow> (case onFiles (removeStateIfClean directory) w3 of (e, w4) \<Rightarrow> (errors_Join [retErr, e], w4))))))))))"

definition scoped_main :: "'v scopedHost \<Rightarrow> scopedFlags \<Rightarrow> fsWorld \<times> 'v \<Rightarrow> int \<times> fsWorld \<times> 'v" where
  "scoped_main h f w = (case scoped_run h f w of
     (None, w1) \<Rightarrow> (0, w1)
   | (Some e, w1) \<Rightarrow> (1, fst w1, snd (shEncode h \<lparr>grOK = False, grInterface = [], grSnapshot = None, grError = Some e\<rparr> (snd w1))))"

section \<open>One private route\<close>

lemma drop_prefix_eq:
  fixes v w :: "32 word"
  assumes "drop_bit m (w XOR v) = 0" "m \<le> n"
  shows "drop_bit n w = drop_bit n v"
proof -
  have "drop_bit n (w XOR v) = 0" using assms by (metis drop_bit_drop_bit drop_bit_of_0 le_add_diff_inverse2)
  then have x: "drop_bit n w XOR drop_bit n v = 0" by (simp add: drop_bit_xor)
  show ?thesis
  proof (rule bit_eqI)
    fix k
    have "\<not> bit (drop_bit n w XOR drop_bit n v) k" unfolding x by simp
    then show "bit (drop_bit n w) k = bit (drop_bit n v) k" by (simp add: bit_xor_iff)
  qed
qed

lemma private_prefix:
  assumes "addr_Is4 (pfxAddr p)" "addr_IsPrivate (pfxAddr p)" "16 \<le> pfxBits p" "prefix_Contains p a"
  shows "addr_Is4 a \<and> addr_IsPrivate a"
proof -
  obtain v where v: "pfxAddr p = IPv4 v" using assms(1) by (auto simp: addr_Is4_iff)
  obtain w where w: "a = IPv4 w" "drop_bit (32 - nat (pfxBits p)) (w XOR v) = 0"
    using assms(4) v by (auto simp: prefix_Contains_def split: if_splits addr.splits)
  have "32 - nat (pfxBits p) \<le> 16" using assms(3) by simp
  then have "drop_bit n w = drop_bit n v" if "16 \<le> n" for n using drop_prefix_eq [OF w(2)] that by simp
  then show ?thesis using assms(2) v w(1) by simp
qed

lemma inputs_private:
  assumes "validateInputs t f = Inr i"
  shows "(\<forall>a. prefix_Contains (siScopedRoute i) a \<longrightarrow> addr_Is4 a \<and> addr_IsPrivate a) \<and> prefix_Contains (siScopedRoute i) (siPeerAddress i) \<and>
    second \<le> siDuration i \<and> siDuration i \<le> 30 * second"
  using assms
  by (auto simp: validateInputs_def checked_def simp del: addr_IsPrivate.simps addr_IsLoopback.simps
      dest: private_prefix [rotated 3] split: if_splits sum.splits option.splits)

section \<open>The loop ends\<close>

text \<open>\<open>clk\<close> reads the time of a world: nothing turns it back, and a wait that ends without an error of the context took 200 milliseconds.\<close>

definition scoped_ticking :: "'v scopedHost \<Rightarrow> addr \<Rightarrow> ctx \<Rightarrow> time \<Rightarrow> (fsWorld \<times> 'v \<Rightarrow> time) \<Rightarrow> bool" where
  "scoped_ticking h peer ctx deadline clk \<longleftrightarrow>
     (\<forall>w r w1. scopedPing h peer ctx w = (r, w1) \<longrightarrow> clk w \<le> clk w1) \<and>
     (\<forall>sid w r w1. dhSnapshot (shHost h) sid w = (r, w1) \<longrightarrow> clk w \<le> clk w1) \<and>
     (\<forall>w w1. dhWait (shHost h) ctx w = (None, w1) \<longrightarrow> clk w < deadline \<and> clk w + 200000000 \<le> clk w1)"

text \<open>A ping that was answered, and right after it a snapshot with a fresh handshake and traffic.\<close>

definition sawAnswer :: "'v scopedHost \<Rightarrow> addr \<Rightarrow> ctx \<Rightarrow> journal \<Rightarrow> bool" where
  "sawAnswer h peer ctx j \<longleftrightarrow> (\<exists>w w1 s w2. scopedPing h peer ctx w = (None, w1) \<and> dhSnapshot (shHost h) (jSessionID j) w1 = (Inr s, w2) \<and> freshHandshake j s)"

lemma scopedLoop_returns:
  assumes "scoped_ticking h peer ctx deadline clk"
  shows "\<exists>e w1. scopedLoop h peer ctx j w = Some (e, w1) \<and> (e = None \<longrightarrow> sawAnswer h peer ctx j)"
proof (induction "nat (deadline - clk w)" arbitrary: w rule: less_induct)
  case less
  obtain pr wa where p: "scopedPing h peer ctx w = (pr, wa)" by (metis prod.exhaust)
  obtain r wb where s: "dhSnapshot (shHost h) (jSessionID j) wa = (r, wb)" by (metis prod.exhaust)
  obtain d wc where t: "dhWait (shHost h) ctx wb = (d, wc)" by (metis prod.exhaust)
  note step = scopedLoop.simps [of h peer ctx j w] p s t
  show ?case
  proof (cases "pr = None \<and> (case r of Inr s \<Rightarrow> freshHandshake j s | Inl _ \<Rightarrow> False)")
    case True
    then have "sawAnswer h peer ctx j" using p s by (auto simp: sawAnswer_def split: sum.splits)
    then show ?thesis using step True by simp
  next
    case False
    show ?thesis
    proof (cases d)
      case (Some e)
      then show ?thesis using step False by simp
    next
      case None
      have "clk w \<le> clk wb" "clk wb < deadline" "clk wb + 200000000 \<le> clk wc"
        using assms p s t None unfolding scoped_ticking_def by (blast intro: order_trans)+
      then have "nat (deadline - clk wc) < nat (deadline - clk w)" by simp
      from less.hyps [OF this] show ?thesis using step False None by simp
    qed
  qed
qed

lemma scopedVerify_returns:
  assumes "scoped_ticking h peer ctx deadline clk"
  shows "\<exists>e w1. scopedVerify h peer ctx j w = Some (e, w1) \<and> vfVerify (scopedVerifier h peer) ctx j w = (e, w1) \<and>
    (e = None \<longrightarrow> sawAnswer h peer ctx j \<and> (\<exists>r w2. LookupExact (dhText6 (shHost h)) (daemonRoutes (shHost h)) ctx (rDestination (EndpointRoute (jPlan j))) w = (Inr (Some r), w2) \<and>
       rGateway r = pPhysicalGateway (jPlan j) \<and> rInterface r = pPhysicalInterface (jPlan j)))"
proof -
  let ?look = "LookupExact (dhText6 (shHost h)) (daemonRoutes (shHost h)) ctx"
  obtain x w2 where x: "?look (rDestination (EndpointRoute (jPlan j))) w = (x, w2)" by (metis prod.exhaust)
  have v: "vfVerify (scopedVerifier h peer) ctx j w = (e, w1)" if "scopedVerify h peer ctx j w = Some (e, w1)" for e w1
    using that by (simp add: scopedVerifier_def)
  show ?thesis
  proof (cases "\<exists>r. x = Inr (Some r) \<and> endpointPinned j (Some r)")
    case True
    then obtain r where r: "x = Inr (Some r)" "endpointPinned j (Some r)" by blast
    obtain y w3 where y: "?look (rDestination (hd (TunnelRoutes (jPlan j)))) w2 = (y, w3)" by (metis prod.exhaust)
    obtain e w1 where l: "scopedLoop h peer ctx j w3 = Some (e, w1)" "e = None \<longrightarrow> sawAnswer h peer ctx j"
      using scopedLoop_returns [OF assms] by blast
    have "\<exists>e w1. scopedVerify h peer ctx j w = Some (e, w1) \<and> (e = None \<longrightarrow> sawAnswer h peer ctx j)"
      using x r y l by (cases y) (auto simp: scopedVerify_def Let_def split: option.splits)
    then show ?thesis using v x r by (fastforce simp: endpointPinned_def)
  next
    case False
    then have "\<exists>e w1. scopedVerify h peer ctx j w = Some (Some e, w1)"
      using x by (cases x) (auto simp: scopedVerify_def Let_def endpointPinned_def split: option.splits)
    then show ?thesis using v by blast
  qed
qed

section \<open>What a run leaves\<close>

lemma ReadDir_result:
  "os_ReadDir d w = (Inr entries, w1) \<Longrightarrow> fsFiles w1 = fsFiles w \<and> fsDirs w1 = fsDirs w \<and> (\<forall>name n. fsFiles w (d, name) = Some n \<longrightarrow> name \<in> entries)"
  "os_ReadDir d w = (Inl e, w1) \<Longrightarrow> fsFiles w1 = fsFiles w \<and> fsDirs w1 = fsDirs w \<and> (e = ENOENT \<longrightarrow> fsDirs w d = None)"
  by (auto simp: os_ReadDir_def dest!: syscall_frameD split: prod.splits bool.splits option.splits if_splits)

definition hasEvidence :: "string \<Rightarrow> fsWorld \<Rightarrow> bool" where
  "hasEvidence d w \<longleftrightarrow> fsDirs w d \<noteq> None \<and> (\<exists>name n. fsFiles w (d, name) = Some n \<and> strings_HasSuffix name ''.json'')"

text \<open>The directory goes only when it holds no journal; otherwise nothing changes and the caller is told.\<close>

lemma removeState_result:
  assumes "removeStateIfClean d w = (e, w1)"
  shows "(hasEvidence d w \<longrightarrow> e \<noteq> None \<and> fsFiles w1 = fsFiles w \<and> fsDirs w1 = fsDirs w) \<and> (e = None \<longrightarrow> fsDirs w1 d = None) \<and> same_outside d w w1"
proof -
  obtain x wa where x: "os_ReadDir d w = (x, wa)" by (metis prod.exhaust)
  show ?thesis
  proof (cases x)
    case (Inl y)
    note r = ReadDir_result(2) [OF x [unfolded Inl]]
    then have "w1 = wa" "e = None \<longleftrightarrow> y = ENOENT" using assms x Inl by (auto simp: removeStateIfClean_def split: if_splits)
    then show ?thesis using r by (auto simp: hasEvidence_def same_outside_def)
  next
    case (Inr entries)
    note r = ReadDir_result(1) [OF x [unfolded Inr]]
    show ?thesis
    proof (cases "\<exists>name\<in>entries. strings_HasSuffix name ''.json''")
      case True
      then have "w1 = wa" "e \<noteq> None" using assms x Inr by (auto simp: removeStateIfClean_def)
      then show ?thesis using r by (auto simp: same_outside_def)
    next
      case False
      obtain y wb where y: "os_RemoveAll d wa = (y, wb)" by (metis prod.exhaust)
      have e: "w1 = wb" "e = None \<longleftrightarrow> y = None" using assms x Inr False y by (auto simp: removeStateIfClean_def split: option.splits)
      have "\<not> hasEvidence d w" using r False unfolding hasEvidence_def by blast
      moreover have "same_outside d w w1" using RemoveAll_outside [OF y] r e by (simp add: same_outside_def)
      moreover have "e = None \<longrightarrow> fsDirs w1 d = None" using RemoveAll_gone [of d wa wb d "(d, [])"] y e by simp
      ultimately show ?thesis by blast
    qed
  qed
qed

lemma cleanup_result:
  assumes "cleanupConnected c j primary w = (e, w1)"
  shows "\<exists>de. Disconnect c (WithTimeout 10 Background) (jSessionID j) (jOwnerUID j) w = (de, w1) \<and> (e = None \<longleftrightarrow> primary = None \<and> de = None)"
proof -
  obtain de w2 where d: "Disconnect c (WithTimeout 10 Background) (jSessionID j) (jOwnerUID j) w = (de, w2)" by (metis prod.exhaust)
  then have "e = errors_Join [primary, de]" "w1 = w2" using assms by (simp_all add: cleanupConnected_def)
  then show ?thesis using d by simp
qed

text \<open>A connected session: the tunnel is taken down whatever the snapshot and the output say.\<close>

definition takenDown :: "(fsWorld \<times> 'v) controller \<Rightarrow> string \<Rightarrow> int \<Rightarrow> gerror option \<Rightarrow> fsWorld \<Rightarrow> bool" where
  "takenDown c sid uid e f \<longleftrightarrow> (\<exists>wa de wb. Disconnect c (WithTimeout 10 Background) sid uid wa = (de, wb) \<and> fst wb = f \<and> (e = None \<longrightarrow> de = None))"

lemma connected_down:
  assumes "scoped_connected h c sid j w = (e, w1)"
  shows "takenDown c (jSessionID j) (jOwnerUID j) e (fst w1)"
proof -
  obtain x wa where s: "dhSnapshot (shHost h) sid w = (x, wa)" by (metis prod.exhaust)
  show ?thesis
  proof (cases x)
    case (Inl y)
    then have "cleanupConnected c j (Some y) wa = (e, w1)" using assms s by (simp add: scoped_connected_def)
    then show ?thesis using cleanup_result unfolding takenDown_def by metis
  next
    case (Inr s')
    obtain ce wb where c: "cleanupConnected c j None wa = (ce, wb)" by (metis prod.exhaust)
    then obtain de where d: "Disconnect c (WithTimeout 10 Background) (jSessionID j) (jOwnerUID j) wa = (de, wb)" "ce = None \<longleftrightarrow> de = None"
      using cleanup_result by blast
    have "fst w1 = fst wb" "e = None \<longrightarrow> ce = None" using assms s Inr c by (auto simp: scoped_connected_def split: option.splits prod.splits)
    then show ?thesis using d unfolding takenDown_def by metis
  qed
qed

lemma connected_journal:
  assumes "Connect c ctx p w = (j, None, w1)"
  shows "jSessionID j = pSessionID p \<and> jOwnerUID j = pOwnerUID p \<and> (\<exists>d. jDevice j = Some d \<and> map entryItem (jEntries j) = planItems p (dhInterface d))"
proof -
  have "dropLog3 (Connect (instrument c) ctx p (w, [])) = (j, None, w1)" using assms by (simp add: Connect_instrument)
  then obtain l where "Connect (instrument c) ctx p (w, []) = (j, None, w1, l)"
    by (cases "Connect (instrument c) ctx p (w, [])") (auto simp: dropLog3_def split: prod.splits)
  then show ?thesis using Connect_good [of c ctx p w j None "(w1, l)"] goodRun_entries [of p j l]
    by (auto simp: goodRun_def journal_ok_def journal_static_def)
qed

text \<open>The part of a run that may change the machine: one transaction with one private route, and the directory of its journals.\<close>

definition accounted :: "'v scopedHost \<Rightarrow> string \<Rightarrow> gerror option \<Rightarrow> fsWorld \<Rightarrow> bool" where
  "accounted h sid e f1 \<longleftrightarrow> (\<exists>p r peer ctx wa j ce wb f. TunnelRoutes p = [r] \<and> \<not> UsesDNS p \<and> pSessionID p = sid \<and>
     (\<forall>a. prefix_Contains (rDestination r) a \<longrightarrow> addr_Is4 a \<and> addr_IsPrivate a) \<and> prefix_Contains (rDestination r) peer \<and>
     Connect (scopedController h peer (scopedDirectory sid)) ctx p wa = (j, ce, wb) \<and>
     (if ce = None
      then takenDown (scopedController h peer (scopedDirectory sid)) sid (shGetuid h) e f \<and>
        (\<exists>d. map entryItem (jEntries j) = [(StepEndpointRoute, Some (EndpointRoute p)), (StepDevice, None), (StepTunnelRoute, Some (withInterface d r))])
      else e \<noteq> None \<and> f = fst wb) \<and>
     (hasEvidence (scopedDirectory sid) f \<longrightarrow> e \<noteq> None \<and> fsFiles f1 = fsFiles f \<and> fsDirs f1 = fsDirs f) \<and>
     (e = None \<longrightarrow> fsDirs f1 (scopedDirectory sid) = None) \<and> same_outside (scopedDirectory sid) f f1)"

lemma scopedPlan_facts:
  "TunnelRoutes (scopedPlan h sid i secrets physical) = [\<lparr>rDestination = siScopedRoute i, rGateway = ZeroAddr, rInterface = [], rReject = False\<rparr>]"
  "\<not> UsesDNS (scopedPlan h sid i secrets physical)" "pSessionID (scopedPlan h sid i secrets physical) = sid"
  "pOwnerUID (scopedPlan h sid i secrets physical) = shGetuid h"
  by (simp_all add: scopedPlan_def TunnelRoutes_def UsesDNS_def)

lemma transaction_accounted:
  assumes t: "scoped_transaction h sid i source p w = (re, wc)" and r: "removeStateIfClean (scopedDirectory sid) (fst wc) = (de, f1)"
    and v: "validateInputs t6 f = Inr i" and p: "p = scopedPlan h sid i secrets physical"
  shows "accounted h sid (errors_Join [re, de]) f1"
proof -
  let ?c = "scopedController h (siPeerAddress i) (scopedDirectory sid)"
  let ?ctx = "WithTimeout (nat (siDuration i)) CallerCtx"
  let ?w = "shInstall h source (siPeerAddress i) w"
  note f = scopedPlan_facts [of h sid i secrets physical, folded p] and g = inputs_private [OF v] and q = removeState_result [OF r]
  obtain j ce wb where c: "Connect ?c ?ctx p ?w = (j, ce, wb)" by (metis prod_cases3)
  let ?r = "\<lparr>rDestination = siScopedRoute i, rGateway = ZeroAddr, rInterface = [], rReject = False\<rparr>"
  have d: "if ce = None
      then takenDown ?c sid (shGetuid h) (errors_Join [re, de]) (fst wc) \<and>
        (\<exists>d. map entryItem (jEntries j) = [(StepEndpointRoute, Some (EndpointRoute p)), (StepDevice, None), (StepTunnelRoute, Some (withInterface d ?r))])
      else errors_Join [re, de] \<noteq> None \<and> fst wc = fst wb"
  proof (cases ce)
    case None
    note k = connected_journal [OF c [unfolded None]]
    have "scoped_connected h ?c sid j wb = (re, wc)" using t c None by (simp add: scoped_transaction_def)
    from connected_down [OF this] have "takenDown ?c sid (shGetuid h) (errors_Join [re, de]) (fst wc)" using k f unfolding takenDown_def by auto
    moreover have "\<exists>d. map entryItem (jEntries j) = [(StepEndpointRoute, Some (EndpointRoute p)), (StepDevice, None), (StepTunnelRoute, Some (withInterface d ?r))]"
      using k f by (auto simp: planItems_def)
    ultimately show ?thesis using None by simp
  next
    case (Some x)
    then show ?thesis using t c by (auto simp: scoped_transaction_def)
  qed
  have v1: "\<forall>a. prefix_Contains (rDestination ?r) a \<longrightarrow> addr_Is4 a \<and> addr_IsPrivate a" "prefix_Contains (rDestination ?r) (siPeerAddress i)"
    using g by simp_all
  have v2: "hasEvidence (scopedDirectory sid) (fst wc) \<longrightarrow> errors_Join [re, de] \<noteq> None \<and> fsFiles f1 = fsFiles (fst wc) \<and> fsDirs f1 = fsDirs (fst wc)"
    "errors_Join [re, de] = None \<longrightarrow> fsDirs f1 (scopedDirectory sid) = None" "same_outside (scopedDirectory sid) (fst wc) f1"
    using q by simp_all
  show ?thesis unfolding accounted_def
    by (intro exI conjI) (rule f(1), rule f(2), rule f(3), rule v1(1), rule v1(2), rule c, rule d, rule v2(1), rule v2(2), rule v2(3))
qed

section \<open>The properties\<close>


text \<open>The verification of the scoped validation always returns: under a context with a deadline its polling loop ends, and it reports
  success only if the endpoint was pinned through the captured physical route and the peer answered a ping after which the device showed a fresh
  handshake with traffic in both directions.\<close>

theorem scoped_verification_returns:
  assumes "scoped_ticking h peer ctx deadline clk"
  shows "\<exists>e w1. scopedVerify h peer ctx j w = Some (e, w1) \<and> vfVerify (scopedVerifier h peer) ctx j w = (e, w1) \<and>
    (e = None \<longrightarrow> sawAnswer h peer ctx j \<and> (\<exists>r w2. LookupExact (dhText6 (shHost h)) (daemonRoutes (shHost h)) ctx (rDestination (EndpointRoute (jPlan j))) w = (Inr (Some r), w2) \<and>
       rGateway r = pPhysicalGateway (jPlan j) \<and> rInterface r = pPhysicalInterface (jPlan j)))"
  by (rule scopedVerify_returns [OF assms])

section \<open>A host\<close>

text \<open>A host without tools, on which time passes by waiting.\<close>

definition waitingHost :: "(fsWorld \<times> time) daemonHost" where
  "waitingHost = \<lparr>dhRunner = \<lparr>rnRun = (\<lambda>ctx p a w. (Inl ''no tools'', w))\<rparr>, dhDevices = emptyDevices, dhInstall = (\<lambda>s w. w),
     dhSnapshot = (\<lambda>sid w. (Inl (Sentinel ErrSessionNotFound), w)), dhClock = (\<lambda>w. (snd w, w)), dhDone = (\<lambda>ctx w. (None, w)),
     dhWait = (\<lambda>ctx w. if snd w < 1000000000 then (None, fst w, snd w + 200000000) else (Some (Err ''deadline''), w)),
     dhSetDeadline = (\<lambda>w. (None, w)), dhAccept = (\<lambda>w. (AcceptError (Err ''closed''), w)), dhSudoUID = [], dhGeteuid = 501,
     dhText6 = \<lparr>parseIPv6 = (\<lambda>_. None), showIPv6 = (\<lambda>_. [])\<rparr>, dhDNSHash = (\<lambda>_. []), dhRequests = oneCodec sampleRequest,
     dhResponses = oneCodec sampleResponse, dhJournals = \<lparr>json_Marshal = (\<lambda>_. None), json_Decode = (\<lambda>_. None)\<rparr>\<rparr>"

definition sampleScopedHost :: "time scopedHost" where
  "sampleScopedHost = \<lparr>shHost = waitingHost, shInstall = (\<lambda>_ _ w. w), shEncode = (\<lambda>_ v. (None, v)), shStdin = [], shSHA256 = (\<lambda>_. replicate 32 7), shGetuid = 501\<rparr>"

definition sampleScopedFlags :: scopedFlags where
  "sampleScopedFlags = \<lparr>rfSession = replicate 32 (CHR ''a''), rfRecoverSession = [], rfEndpoint = ''192.0.2.10:51820'', rfTunnelAddress = ''10.255.255.254/32'',
     rfPeerAddress = ''10.20.0.1'', rfScopedRoute = ''10.20.0.0/16'', rfDuration = 2 * second, rfAcknowledged = True\<rparr>"

definition emptyFiles :: fsWorld where
  "emptyFiles = \<lparr>fsDirs = (\<lambda>_. None), fsFiles = (\<lambda>_. None), fsOracle = [], fsTemps = [], fsEuid = 501,
     fsDead = False, fsDone = (\<lambda>_. False), fsNextFd = 3, fsFlocks = (\<lambda>_. None), fsOnce = (\<lambda>_. None)\<rparr>"


lemma waitingHost_ticking: "scoped_ticking sampleScopedHost peer ctx 1000000000 snd"
  by (auto simp: scoped_ticking_def sampleScopedHost_def waitingHost_def scopedPing_def pinger_Ping_def split: if_splits)

theorem scoped_verification_returns_witness:
  "\<exists>e w1. scopedVerify sampleScopedHost (ip4 10 20 0 1) (WithTimeout 20 CallerCtx) zeroJournal (emptyFiles, 0) = Some (e, w1)"
  using scoped_verification_returns [OF waitingHost_ticking] by blast

end
