(* ===== verification/Spec2Isabelle.thy ===== *)
theory Spec2Isabelle
  imports Transaction_Properties Plan_Properties Helper_Protocol State_Properties WG_Backend Darwin_Properties Credential_Properties
    Packaged_Helper Catalog Connection_Properties Daemon_Properties Auth_Properties Service_Properties Client_Properties Command_Properties
    Program_Properties Login_Validation Isolated_Validation Device_Validation Scoped_Validation
begin

text \<open>
  A model of \<^verbatim>\<open>nordmac\<close>, a command line client that connects a Mac to NordVPN over WireGuard, with the theorems
  that make it correct. Paths below are relative to the root of the repository's sources.

  \<^bold>\<open>The program.\<close> The user's process (\<^verbatim>\<open>cmd/nordmac\<close>) chooses a server, keeps the account's credentials in the
  Keychain through a small signed Swift helper, and records a connection in a file. Everything that needs root is
  done by a second process, the privileged helper (\<^verbatim>\<open>internal/helperdaemon\<close>), started through \<^verbatim>\<open>sudo\<close>: it
  reads one length-prefixed request (\<^verbatim>\<open>internal/helperproto\<close>), runs the tunnel transaction
  (\<^verbatim>\<open>internal/tunnel\<close>), and stays alive as the owner of the tunnel device until the owner's request on a Unix
  socket, a signal or a failing health check ends it. The transaction changes routes, the tunnel device and DNS through
  adapters (\<^verbatim>\<open>internal/darwinnet\<close>, \<^verbatim>\<open>internal/wgbackend\<close>), and writes every step to a journal
  (\<^verbatim>\<open>internal/state\<close>) before it takes it, so that a later recovery can undo what a crash left.

  \<^bold>\<open>Conventions.\<close> An operation that acts on the outside is a function from a world to a result and a world; the
  world is a type variable where the code works for any adapter, the file system model of \<open>File_System\<close> where
  it works on files, and pairs of the two where components meet. Errors are values (\<open>gerror\<close> in \<open>Nord_Prelude\<close>:
  messages, sentinels, wrapping, \<^verbatim>\<open>errors.Join\<close>; text that only repeats user input in a message is dropped),
  so every early return is a branch. A \<^verbatim>\<open>defer\<close> is written where it runs, with the results it may change. A
  Go pointer or interface that may be nil is an option. Addresses, ports, masks, lengths and device counters are words
  of their width; Go's \<^verbatim>\<open>int\<close> and \<^verbatim>\<open>int64\<close> are \<open>int\<close> where the code cannot overflow them. Instants are
  nanoseconds since Go's zero time. A context is a value (\<open>ctx\<close>) that says whether the caller can cancel it and how it
  was derived.

  \<^bold>\<open>Theories and sources.\<close>
  \<^item> \<open>Nord_Prelude\<close>, \<open>Byte_Codec\<close>, \<open>Go_Text\<close>, \<open>Runes\<close>, \<open>Netip\<close>, \<open>Netip_Text\<close>: what the code uses of Go's library
    (errors, JSON as a codec argument, strings, UTF-8, base64, \<^verbatim>\<open>strconv\<close>, \<^verbatim>\<open>net/netip\<close>).
  \<^item> \<open>Tunnel_Model\<close> with \<open>Tunnel_Facts\<close> (\<^verbatim>\<open>internal/tunnel/model.go\<close>): plans, routes, journals and their validators;
    \<open>Plan_Properties\<close>: what valid plans, journals and phases guarantee.
  \<^item> \<open>Tunnel_Controller\<close> (\<^verbatim>\<open>internal/tunnel/controller.go\<close>): \<open>Connect\<close>, \<open>Disconnect\<close> and every step, over
    records of adapter functions. \<open>Transaction_Log\<close> observes a run as a list of events, \<open>Crash_Safety\<close> and
    \<open>Journal_Validity\<close> prove what every prefix of it and every journal in it satisfies,
    \<open>Transaction_Properties\<close> states the theorems; \<open>Scripted_Host\<close> and \<open>Sample_Plans\<close> serve their witnesses.
  \<^item> \<open>File_System\<close>, \<open>File_Lock\<close>, \<open>State_Store\<close>, \<open>Journal_Interface\<close>, \<open>State_Properties\<close>
    (\<^verbatim>\<open>internal/state\<close>, \<^verbatim>\<open>internal/credentiallock\<close>): directories, files, advisory locks; every system call may
    fail or be the last one of the process. The locale \<open>journal_store\<close> is the contract between controller and
    store, interpreted on the files.
  \<^item> \<open>Helper_Protocol\<close> (\<^verbatim>\<open>internal/helperproto/protocol.go\<close>): requests, responses, secrets and frames on bytes.
  \<^item> \<open>WG_Backend\<close> (\<^verbatim>\<open>internal/wgbackend\<close>): one-shot secrets, the device manager, the device's counters.
  \<^item> \<open>Darwin_Net\<close>, \<open>Darwin_DNS\<close>, \<open>Darwin_Properties\<close> (\<^verbatim>\<open>internal/darwinnet\<close>): commands and parsers of the
    macOS tools.
  \<^item> \<open>Helper_Daemon\<close>, \<open>Daemon_Properties\<close> (\<^verbatim>\<open>internal/helperdaemon\<close>): bootstrap, socket, verification, the serve
    loop, recovery, composed of the theories above.
  \<^item> \<open>Catalog\<close> (\<^verbatim>\<open>internal/catalog\<close>, \<^verbatim>\<open>internal/recommend\<close>, \<^verbatim>\<open>internal/connectplan\<close>): servers, their
    selection, the manifest of a connection.
  \<^item> \<open>Connection_State\<close>, \<open>Connection\<close>, \<open>Connection_Properties\<close> (\<^verbatim>\<open>internal/connection\<close>): the connection
    record (locale \<open>metadata_store\<close>, interpreted on the file) and the four commands on it.
  \<^item> \<open>Credentials\<close>, \<open>Native_Keychain\<close>, \<open>Packaged_Helper\<close>, \<open>Credential_Properties\<close>
    (\<^verbatim>\<open>internal/credentials\<close>, \<^verbatim>\<open>internal/loginflow\<close>, \<^verbatim>\<open>internal/authstate\<close>, \<^verbatim>\<open>internal/nativekeychain\<close>,
    \<^verbatim>\<open>internal/keychain\<close>, \<^verbatim>\<open>native/keychain-helper\<close>): login and logout as transactions on two Keychain items
    (locale \<open>credential_service\<close>, interpreted on the Go store over the Swift helper).
  \<^item> \<open>Net_HTTP\<close>, \<open>Nord_API\<close>, \<open>API_Properties\<close> (\<^verbatim>\<open>internal/nordapi\<close>): URLs and requests, the public catalog and its
    normalisation; \<open>Nord_Auth\<close>, \<open>Auth_Properties\<close> (\<^verbatim>\<open>internal/nordauth\<close>, \<^verbatim>\<open>internal/tokeninput\<close>): reading a
    token and exchanging it for a key.
  \<^item> \<open>Atomic_File\<close> (the replacement of a file, shared by \<^verbatim>\<open>internal/connection/state.go\<close> and \<^verbatim>\<open>internal/cache\<close>),
    \<open>Command_Service\<close>, \<open>Service_Properties\<close> (\<^verbatim>\<open>internal/cache\<close>, \<^verbatim>\<open>internal/command/service.go\<close>): the country
    cache, its fallbacks, the recommendation.
  \<^item> \<open>Helper_Client\<close>, \<open>Client_Properties\<close> (\<^verbatim>\<open>internal/helperclient\<close>): starting the helper, talking to it by pipe
    and by socket, composed with the daemon's handler.
  \<^item> \<open>Command_Line\<close>, \<open>Command_Properties\<close> (\<^verbatim>\<open>internal/command/run.go\<close>, \<^verbatim>\<open>internal/output\<close>, \<^verbatim>\<open>internal/buildinfo\<close>):
    arguments, output and exit codes; \<open>Main_Program\<close>, \<open>Program_Properties\<close> (\<^verbatim>\<open>cmd/nordmac/main.go\<close>): the
    program composed of all of the user's side.
  \<^item> \<open>Userspace_Runtime\<close> (the rest of \<^verbatim>\<open>internal/wgbackend/runtime.go\<close> and \<^verbatim>\<open>internal/darwinnet/runner.go\<close>):
    the runtime over \<^verbatim>\<open>wireguard-go\<close>, and how the tools of the system are run.
  \<^item> The five validation programs, each composed of the components it exercises: \<open>Harness_Base\<close> (shared parts),
    \<open>Login_Validation\<close> (\<^verbatim>\<open>cmd/nordmac-native-login-keychain-harness\<close>), \<open>Isolated_Validation\<close>
    (\<^verbatim>\<open>cmd/nordmac-native-keychain-harness\<close>, \<^verbatim>\<open>cmd/nordmac-synthetic-login-harness\<close>; its locale \<open>kept\<close> says
    what a relation between worlds must satisfy to hold across a login, and is interpreted on the confinement to a session),
    \<open>Device_Validation\<close> (\<^verbatim>\<open>cmd/nordmac-wg-harness\<close>) and \<open>Scoped_Validation\<close>
    (\<^verbatim>\<open>cmd/nordmac-scoped-harness\<close>).

  \<^bold>\<open>What is shown.\<close> For the transaction: at every moment at which the helper may die the journal names what may be
  on the host; success means the whole plan was applied; failure means everything was removed or the error says
  \<^verbatim>\<open>ErrRollback\<close>; every journal written is valid. For the store: it refines a map, with all-or-nothing operations
  under any faults, and its locks exclude. Composed: the crash-safety theorem on the files. For the helper: only the
  owner's request for the active session stops it, verification ends, and no way out skips the rollback. For the user's
  side: sessions never get lost, credentials change together or not at all, only the approved Keychain helper runs.
  For formats and data: frames and responses round-trip and nothing else is accepted, counters and masks do not
  wrap, the full-tunnel routes partition both address spaces, the selected server is the first eligible one.
  For the network: a token only goes to Nord's host over TLS, a provisioned key and a recommended server are usable by
  the steps that follow, the label of a country list says where it came from. For the command line: a usage error has no
  effect, \<^verbatim>\<open>--json\<close> gives one envelope that agrees with the exit code, and for the whole program a zero exit of
  \<^verbatim>\<open>connect\<close> and \<^verbatim>\<open>disconnect\<close> tells the truth about record and sessions; no helper process is left behind. For the
  validation programs: what they may touch on the machine of the person who runs them, and that success leaves nothing behind;
  the login Keychain one has an exception, shown by a run.

  \<^bold>\<open>Termination.\<close> Loops over lists are structural recursion. The loops that end only because the outside makes them
  end are \<^theory_text>\<open>partial_function (option)\<close>: the polling of the helper's verification, of the scoped validation's and of
  the device validation, each proved to return under a deadline, and the serve loop, which is meant to run until something
  ends it. No fuel is used.

  \<^bold>\<open>Not modelled.\<close> Code outside \<^verbatim>\<open>src\<close> is an argument: \<^verbatim>\<open>wireguard-go\<close>, the kernel's \<^verbatim>\<open>accept\<close>,
  clock and peer credentials, SHA-256, the JSON text of a value (a codec with its round trip as hypothesis), the text of
  IPv6 addresses, the Unicode tables, \<^verbatim>\<open>url.Parse\<close>, the HTTP exchange, the functions of \<^verbatim>\<open>golang.org/x/term\<close>, the
  text of an error and of a quoted argument. Starting a process, parsing a program's flags and
  the test server of \<^verbatim>\<open>httptest\<close> are arguments as well. Wiping of buffers that are about to become unreachable,
  durability against power loss, and goroutine scheduling inside one operation have no state in the model.
\<close>

end
